(* ===== verification/Prelude.thy ===== *)
theory Prelude
  imports Main "HOL-Library.AList" "HOL-Library.Char_ord" "HOL-Library.List_Lexorder"
    "HOL-Library.Word" "HOL-Library.Sublist"
begin

text \<open>
  Shared vocabulary of the development: Go errors as values, results of code that may
  panic, the parts of Go's \<open>strings\<close> and \<open>fmt\<close> packages the program uses, and lemmas on
  association lists (Go maps with an explicit, arbitrary iteration order).

  Go strings are byte sequences; a HOL \<open>string\<close> is a list of 8-bit characters, so
  \<open>length\<close> counts bytes as Go's \<open>len\<close> does.
\<close>

section \<open>Collections of proof hints\<close>

named_theorems go_defs \<open>definitions of small helpers the proofs unfold together\<close>
named_theorems alist_simps \<open>lookups after association-list updates\<close>

section \<open>Errors and results\<close>

text \<open>
  The errors the program builds and tells apart: the API status errors of
  \<open>k8s.io/apimachinery/pkg/api/errors\<close> (resource and name), \<open>runner.CooldownError\<close>, a plain
  \<open>fmt.Errorf\<close> message, and \<open>fmt.Errorf("prefix%w", err)\<close>, which keeps the wrapped error
  visible to \<open>errors.As\<close>.
\<close>

datatype go_error =
    NotFound string string
  | AlreadyExists string string
  | Conflict string string string
  | Gone string
  | Forbidden string string string
  | BadRequest string
  | Cooldown nat string
  | Errorf string
  | Wrap string go_error

fun is_not_found :: "go_error \<Rightarrow> bool" where
  "is_not_found (NotFound _ _) = True"
| "is_not_found (Wrap _ e) = is_not_found e"
| "is_not_found _ = False"

fun is_already_exists :: "go_error \<Rightarrow> bool" where
  "is_already_exists (AlreadyExists _ _) = True"
| "is_already_exists (Wrap _ e) = is_already_exists e"
| "is_already_exists _ = False"

fun is_conflict :: "go_error \<Rightarrow> bool" where
  "is_conflict (Conflict _ _ _) = True"
| "is_conflict (Wrap _ e) = is_conflict e"
| "is_conflict _ = False"

text \<open>\<open>Error()\<close>: the text of an error.\<close>

fun error_text :: "go_error \<Rightarrow> string" where
  "error_text (Errorf m) = m"
| "error_text (Wrap p e) = p @ error_text e"
| "error_text (NotFound gr n) = gr @ '' '' @ [CHR 0x22] @ n @ [CHR 0x22] @ '' not found''"
| "error_text (AlreadyExists gr n) = gr @ '' '' @ [CHR 0x22] @ n @ [CHR 0x22] @ '' already exists''"
| "error_text (Conflict gr n m) = ''Operation cannot be fulfilled on '' @ gr @ '' '' @ [CHR 0x22] @ n @ [CHR 0x22] @ '': '' @ m"
| "error_text (Forbidden gr n m) = gr @ '' '' @ [CHR 0x22] @ n @ [CHR 0x22] @ '' is forbidden: '' @ m"
| "error_text (Gone rv) = ''provided resource version '' @ [CHR 0x22] @ rv @ [CHR 0x22] @ '' is outdated''"
| "error_text (BadRequest m) = m"
| "error_text (Cooldown d m) = m"

text \<open>Code that may panic: a value, or the panic and what raised it.\<close>

datatype 'a go = Ret 'a | Panic string

fun go_bind :: "'a go \<Rightarrow> ('a \<Rightarrow> 'b go) \<Rightarrow> 'b go" where
  "go_bind (Ret a) f = f a"
| "go_bind (Panic m) f = Panic m"

lemma go_bind_Ret_iff: "go_bind m f = Ret b \<longleftrightarrow> (\<exists>a. m = Ret a \<and> f a = Ret b)"
  by (cases m) auto

lemma go_bind_assoc: "go_bind (go_bind m f) g = go_bind m (\<lambda>a. go_bind (f a) g)"
  by (cases m) auto

section \<open>Go's strings package\<close>

definition to_lower_char :: "char \<Rightarrow> char" where
  "to_lower_char c =
     (if CHR ''A'' \<le> c \<and> c \<le> CHR ''Z'' then char_of (of_char c + 32 :: nat) else c)"

definition to_lower :: "string \<Rightarrow> string" where
  "to_lower s = map to_lower_char s"

definition trim_left :: "(char \<Rightarrow> bool) \<Rightarrow> string \<Rightarrow> string" where
  "trim_left p s = dropWhile p s"

definition trim_right :: "(char \<Rightarrow> bool) \<Rightarrow> string \<Rightarrow> string" where
  "trim_right p s = rev (dropWhile p (rev s))"

definition trim :: "(char \<Rightarrow> bool) \<Rightarrow> string \<Rightarrow> string" where
  "trim p s = trim_right p (trim_left p s)"

definition is_space :: "char \<Rightarrow> bool" where
  "is_space c \<longleftrightarrow> c \<in> {CHR '' '', CHR 0x09, CHR 0x0A, CHR 0x0B, CHR 0x0C, CHR 0x0D}"

fun split_on :: "char \<Rightarrow> string \<Rightarrow> string list" where
  "split_on d [] = [[]]"
| "split_on d (c # cs) =
     (if c = d then [] # split_on d cs
      else (case split_on d cs of [] \<Rightarrow> [[c]] | w # ws \<Rightarrow> (c # w) # ws))"

fun join :: "string \<Rightarrow> string list \<Rightarrow> string" where
  "join sep [] = []"
| "join sep [w] = w"
| "join sep (w # ws) = w @ sep @ join sep ws"

text \<open>\<open>strings.Index(s, c)\<close> for one byte, \<open>None\<close> for Go's \<open>-1\<close>.\<close>

fun index_of :: "char \<Rightarrow> string \<Rightarrow> nat option" where
  "index_of d [] = None"
| "index_of d (c # cs) = (if c = d then Some 0 else map_option Suc (index_of d cs))"

definition newline :: char where
  "newline = CHR 0x0A"

definition unlines :: "string list \<Rightarrow> string" where
  "unlines ls = concat (map (\<lambda>l. l @ [newline]) ls)"

text \<open>The decimal rendering of \<open>%d\<close> for a number that is not negative.\<close>

definition digit_char :: "nat \<Rightarrow> char" where
  "digit_char d = char_of (48 + d)"

fun show_nat :: "nat \<Rightarrow> string" where
  "show_nat n = (if n < 10 then [digit_char n] else show_nat (n div 10) @ [digit_char (n mod 10)])"

declare show_nat.simps [simp del]

definition show_int :: "int \<Rightarrow> string" where
  "show_int i = (if i < 0 then ''-'' @ show_nat (nat (- i)) else show_nat (nat i))"

text \<open>
  \<open>strings.NewReplacer(pairs...).Replace(s)\<close>: one pass over the text, at each position the
  first pair whose pattern is a prefix of the rest wins, and what was inserted is not read
  again. The program's patterns are never empty.
\<close>

definition first_match :: "(string \<times> string) list \<Rightarrow> string \<Rightarrow> (string \<times> string) option" where
  "first_match ps s = find (\<lambda>(old, new). old \<noteq> [] \<and> prefix old s) ps"

lemma first_match_nonempty: "first_match ps s = Some (old, new) \<Longrightarrow> old \<noteq> [] \<and> prefix old s"
  by (auto simp: first_match_def find_Some_iff)

function replace_all :: "(string \<times> string) list \<Rightarrow> string \<Rightarrow> string" where
  "replace_all ps [] = []"
| "replace_all ps (c # cs) =
     (case first_match ps (c # cs) of
        Some (old, new) \<Rightarrow> new @ replace_all ps (drop (length old) (c # cs))
      | None \<Rightarrow> c # replace_all ps cs)"
  by pat_completeness auto
termination
  by (relation "measure (\<lambda>(ps, s). length s)") (auto dest!: first_match_nonempty)

declare replace_all.simps [simp del]

subsection \<open>Lemmas on strings\<close>

lemma index_of_less: "index_of c s = Some i \<Longrightarrow> i < length s \<and> s ! i = c"
  by (induction s arbitrary: i) (auto split: if_splits)

lemma index_of_append: "c \<notin> set w \<Longrightarrow> index_of c (w @ c # r) = Some (length w)"
  by (induction w) auto

lemma index_of_None: "index_of c s = None \<longleftrightarrow> c \<notin> set s"
  by (induction s) auto

lemma digit_char_inj: "a < 10 \<Longrightarrow> b < 10 \<Longrightarrow> digit_char a = digit_char b \<Longrightarrow> a = b"
proof -
  assume ab: "a < 10" "b < 10" and eq: "digit_char a = digit_char b"
  have "(of_char (digit_char a) :: nat) = 48 + a" "(of_char (digit_char b) :: nat) = 48 + b"
    using ab by (simp_all add: digit_char_def)
  with eq show "a = b" by (metis add_left_cancel)
qed

lemma show_nat_nonempty: "show_nat n \<noteq> []"
  by (subst show_nat.simps) simp

lemma show_nat_inj: "show_nat m = show_nat n \<Longrightarrow> m = n"
proof (induction m arbitrary: n rule: show_nat.induct)
  case (1 m)
  have snoc: "show_nat k = (if k < 10 then [] else show_nat (k div 10)) @ [digit_char (k mod 10)]" for k
    by (subst show_nat.simps) simp
  from "1.prems" have eq: "(if m < 10 then [] else show_nat (m div 10)) @ [digit_char (m mod 10)]
    = (if n < 10 then [] else show_nat (n div 10)) @ [digit_char (n mod 10)]"
    by (simp only: snoc [of m] snoc [of n])
  then have last: "m mod 10 = n mod 10"
    by (auto intro: digit_char_inj [of "m mod 10" "n mod 10"])
  from eq have init: "(if m < 10 then [] else show_nat (m div 10)) = (if n < 10 then [] else show_nat (n div 10))"
    by simp
  have "m div 10 = n div 10"
  proof (cases "m < 10")
    case True
    with init have "n < 10" using show_nat_nonempty [of "n div 10"] by (auto split: if_splits)
    with True show ?thesis by simp
  next
    case False
    with init have "\<not> n < 10" using show_nat_nonempty [of "m div 10"] by (auto split: if_splits)
    with False init "1.IH" [OF False, of "n div 10"] show ?thesis by simp
  qed
  with last show ?case by (metis div_mult_mod_eq)
qed

lemma show_nat_eq_iff [simp]: "show_nat m = show_nat n \<longleftrightarrow> m = n"
  using show_nat_inj by blast

lemma split_on_nonempty: "split_on d s \<noteq> []"
  by (induction s) (auto split: list.splits)

lemma split_on_no_sep: "w \<in> set (split_on d s) \<Longrightarrow> d \<notin> set w"
proof (induction s arbitrary: w)
  case Nil
  then show ?case by simp
next
  case (Cons c s)
  then show ?case
    by (cases "split_on d s") (auto split: if_splits)
qed

lemma split_on_join:
  "ws \<noteq> [] \<Longrightarrow> (\<And>w. w \<in> set ws \<Longrightarrow> d \<notin> set w) \<Longrightarrow> split_on d (join [d] ws) = ws"
proof (induction "[d]" ws rule: join.induct)
  case 1
  then show ?case by simp
next
  case (2 w)
  then have "d \<notin> set w" by simp
  then show ?case by (induction w) auto
next
  case (3 w v vs)
  from 3(3) have "d \<notin> set w" by simp
  moreover have "split_on d (join [d] (v # vs)) = v # vs" using 3 by simp
  ultimately show ?case by (induction w) auto
qed

lemma join_inj:
  assumes "ws \<noteq> []" "vs \<noteq> []" "\<And>w. w \<in> set ws \<Longrightarrow> d \<notin> set w" "\<And>v. v \<in> set vs \<Longrightarrow> d \<notin> set v"
    and "join [d] ws = join [d] vs"
  shows "ws = vs"
  using split_on_join [of ws d] split_on_join [of vs d] assms by metis

lemma set_dropWhile_subset: "set (dropWhile p s) \<subseteq> set s"
  by (induction s) auto

lemma set_trim_subset: "set (trim p s) \<subseteq> set s"
  unfolding trim_def trim_right_def trim_left_def
  using set_dropWhile_subset [of p "rev (dropWhile p s)"] set_dropWhile_subset [of p s] by auto

lemma length_trim_le: "length (trim p s) \<le> length s"
  unfolding trim_def trim_right_def trim_left_def
  by (metis dual_order.trans length_dropWhile_le length_rev)

lemma replace_all_no_match:
  "(\<And>old new. (old, new) \<in> set ps \<Longrightarrow> \<not> sublist old s) \<Longrightarrow> replace_all ps s = s"
proof (induction s)
  case Nil
  then show ?case by (simp add: replace_all.simps)
next
  case (Cons c s)
  have "first_match ps (c # s) = None"
    using Cons.prems by (auto simp: first_match_def find_None_iff dest: prefix_imp_sublist)
  moreover have "replace_all ps s = s"
    using Cons.IH Cons.prems by (meson sublist_Cons_right)
  ultimately show ?case by (simp add: replace_all.simps)
qed

section \<open>Association lists\<close>

text \<open>
  A Go map is an association list with distinct keys: lookup is \<open>map_of\<close>, assignment is
  \<open>AList.update\<close>, \<open>delete\<close> is \<open>AList.delete\<close>. Iterating over it visits the entries in the
  list's order, which is arbitrary: nothing below depends on it unless stated.
\<close>

definition wf_map :: "('k \<times> 'v) list \<Rightarrow> bool" where
  "wf_map m \<longleftrightarrow> distinct (map fst m)"

lemma wf_map_Nil [simp]: "wf_map []"
  by (simp add: wf_map_def)

lemma wf_map_update [simp]: "wf_map m \<Longrightarrow> wf_map (AList.update k v m)"
  by (simp add: wf_map_def distinct_update)

lemma wf_map_delete [simp]: "wf_map m \<Longrightarrow> wf_map (AList.delete k m)"
  by (simp add: wf_map_def distinct_delete)

lemma map_of_update_eq [alist_simps]: "map_of (AList.update k v m) = (map_of m)(k \<mapsto> v)"
  by (rule update_conv')

lemma map_of_delete_eq [alist_simps]: "map_of (AList.delete k m) = (map_of m)(k := None)"
  by (rule delete_conv')

lemma wf_map_in_set_iff: "wf_map m \<Longrightarrow> (k, v) \<in> set m \<longleftrightarrow> map_of m k = Some v"
  by (metis map_of_SomeD map_of_is_SomeI wf_map_def)

lemma map_of_eq_None_iff_keys: "map_of m k = None \<longleftrightarrow> k \<notin> fst ` set m"
  by (rule map_of_eq_None_iff)

lemma map_of_map_pair: "map_of (map (\<lambda>(k, v). (k, f k v)) m) k = map_option (f k) (map_of m k)"
  by (induction m) auto

text \<open>Two iteration orders of the same Go map list the same keys once sorted.\<close>

lemma sorted_keys_unique:
  assumes "wf_map m" "wf_map m'" "map_of m = map_of m'"
  shows "sort (map fst m) = sort (map fst m')"
proof -
  have "set (map fst m) = set (map fst m')"
    using assms(3) by (metis dom_map_of_conv_image_fst list.set_map)
  moreover have "distinct (map fst m)" "distinct (map fst m')"
    using assms(1,2) by (simp_all add: wf_map_def)
  ultimately show ?thesis
    by (metis sorted_list_of_set_sort_remdups distinct_remdups_id)
qed

end
