(* ===== verification/GoMonad.thy ===== *)
theory GoMonad
  imports Prelude
begin

text \<open>
  Procedures that read and write a state, may return an error and may panic: functions from a
  state to a state and a result, or a panic. Sequencing stops at an error as Go's
  \<open>if err != nil { return err }\<close> does. The second half is a small Hoare logic over them, for the
  invariants of the components written with it.
\<close>

type_synonym ('s, 'a) gm = "'s \<Rightarrow> ('s \<times> (go_error + 'a)) go"

definition gm_return :: "'a \<Rightarrow> ('s, 'a) gm" where
  "gm_return a s = Ret (s, Inr a)"

definition gm_fail :: "go_error \<Rightarrow> ('s, 'a) gm" where
  "gm_fail e s = Ret (s, Inl e)"

definition gm_bind :: "('s, 'a) gm \<Rightarrow> ('a \<Rightarrow> ('s, 'b) gm) \<Rightarrow> ('s, 'b) gm" where
  "gm_bind m f s =
     (case m s of
        Panic p \<Rightarrow> Panic p
      | Ret (s', Inl e) \<Rightarrow> Ret (s', Inl e)
      | Ret (s', Inr a) \<Rightarrow> f a s')"

definition gm_then :: "('s, 'a) gm \<Rightarrow> ('s, 'b) gm \<Rightarrow> ('s, 'b) gm" where
  "gm_then m n = gm_bind m (\<lambda>_. n)"

text \<open>The caller looks at the error itself.\<close>

definition gm_try :: "('s, 'a) gm \<Rightarrow> ('s, go_error + 'a) gm" where
  "gm_try m s = (case m s of Panic p \<Rightarrow> Panic p | Ret (s', r) \<Rightarrow> Ret (s', Inr r))"

text \<open>The error is logged, or ignored, and the procedure goes on.\<close>

definition gm_ignore :: "('s, 'a) gm \<Rightarrow> ('s, unit) gm" where
  "gm_ignore m = gm_bind (gm_try m) (\<lambda>_. gm_return ())"

definition gm_wrap :: "string \<Rightarrow> ('s, 'a) gm \<Rightarrow> ('s, 'a) gm" where
  "gm_wrap p m = gm_bind (gm_try m) (\<lambda>r. case r of Inl e \<Rightarrow> gm_fail (Wrap p e) | Inr a \<Rightarrow> gm_return a)"

definition gm_get :: "('s, 's) gm" where
  "gm_get s = Ret (s, Inr s)"

definition gm_modify :: "('s \<Rightarrow> 's) \<Rightarrow> ('s, unit) gm" where
  "gm_modify f s = Ret (f s, Inr ())"

definition gm_panic :: "string \<Rightarrow> ('s, 'a) gm" where
  "gm_panic p s = Panic p"

definition gm_when :: "bool \<Rightarrow> ('s, unit) gm \<Rightarrow> ('s, unit) gm" where
  "gm_when b m = (if b then m else gm_return ())"

fun gm_each :: "('a \<Rightarrow> ('s, unit) gm) \<Rightarrow> 'a list \<Rightarrow> ('s, unit) gm" where
  "gm_each f [] = gm_return ()"
| "gm_each f (x # xs) = gm_then (f x) (gm_each f xs)"

lemmas gm_defs = gm_return_def gm_fail_def gm_bind_def gm_then_def gm_try_def gm_ignore_def gm_wrap_def
  gm_get_def gm_modify_def gm_panic_def gm_when_def

lemma gm_bind_return [simp]: "gm_bind (gm_return a) f = f a"
  by (simp add: gm_bind_def gm_return_def fun_eq_iff)

lemma gm_bind_fail [simp]: "gm_bind (gm_fail e) f = gm_fail e"
  by (simp add: gm_bind_def gm_fail_def fun_eq_iff)

lemma gm_bind_assoc: "gm_bind (gm_bind m f) g = gm_bind m (\<lambda>a. gm_bind (f a) g)"
  by (auto simp: gm_bind_def fun_eq_iff split: go.splits prod.splits sum.splits)

section \<open>Hoare logic\<close>

text \<open>
  From a state with \<open>P\<close>, if the procedure comes back, with a result or an error, the result and the
  final state satisfy \<open>Q\<close>.
\<close>

definition gm_valid :: "('s \<Rightarrow> bool) \<Rightarrow> ('s, 'a) gm \<Rightarrow> (go_error + 'a \<Rightarrow> 's \<Rightarrow> bool) \<Rightarrow> bool" where
  "gm_valid P m Q \<longleftrightarrow> (\<forall>s s' r. P s \<longrightarrow> m s = Ret (s', r) \<longrightarrow> Q r s')"

abbreviation gm_inv :: "('s \<Rightarrow> bool) \<Rightarrow> ('s, 'a) gm \<Rightarrow> bool" where
  "gm_inv I m \<equiv> gm_valid I m (\<lambda>_. I)"

named_theorems gm_rules \<open>Hoare rules of the procedures\<close>

lemma gm_validD: "gm_valid P m Q \<Longrightarrow> P s \<Longrightarrow> m s = Ret (s', r) \<Longrightarrow> Q r s'"
  by (auto simp: gm_valid_def)

lemma gm_validI: "(\<And>s s' r. P s \<Longrightarrow> m s = Ret (s', r) \<Longrightarrow> Q r s') \<Longrightarrow> gm_valid P m Q"
  by (auto simp: gm_valid_def)

lemma gm_weaken: "gm_valid P m Q \<Longrightarrow> (\<And>s. P' s \<Longrightarrow> P s) \<Longrightarrow> (\<And>r s. Q r s \<Longrightarrow> Q' r s) \<Longrightarrow> gm_valid P' m Q'"
  unfolding gm_valid_def by blast

lemma gm_valid_bind:
  assumes "gm_valid P m R" "\<And>a. gm_valid (R (Inr a)) (f a) Q" "\<And>e s. R (Inl e) s \<Longrightarrow> Q (Inl e) s"
  shows "gm_valid P (gm_bind m f) Q"
proof (rule gm_validI)
  fix s s' r assume P: "P s" and r: "gm_bind m f s = Ret (s', r)"
  then obtain s1 r1 where m: "m s = Ret (s1, r1)" by (auto simp: gm_bind_def split: go.splits)
  from gm_validD [OF assms(1) P m] have R: "R r1 s1" .
  show "Q r s'"
  proof (cases r1)
    case (Inl e)
    with r m R assms(3) show ?thesis by (auto simp: gm_bind_def)
  next
    case (Inr a)
    with r m have "f a s1 = Ret (s', r)" by (simp add: gm_bind_def)
    with gm_validD [OF assms(2)] R Inr show ?thesis by blast
  qed
qed

lemma gm_inv_bind [gm_rules]: "gm_inv I m \<Longrightarrow> (\<And>a. gm_inv I (f a)) \<Longrightarrow> gm_inv I (gm_bind m f)"
  by (rule gm_valid_bind) auto

lemma gm_inv_then [gm_rules]: "gm_inv I m \<Longrightarrow> gm_inv I n \<Longrightarrow> gm_inv I (gm_then m n)"
  unfolding gm_then_def by (rule gm_inv_bind)

lemma gm_valid_then: "gm_valid P m (\<lambda>r. case r of Inl e \<Rightarrow> Q (Inl e) | Inr _ \<Rightarrow> R) \<Longrightarrow> gm_valid R n Q \<Longrightarrow> gm_valid P (gm_then m n) Q"
  unfolding gm_then_def
  by (rule gm_valid_bind [where R = "\<lambda>r. case r of Inl e \<Rightarrow> Q (Inl e) | Inr _ \<Rightarrow> R"]) auto

lemma gm_inv_return [gm_rules]: "gm_inv I (gm_return a)"
  by (simp add: gm_valid_def gm_return_def)

lemma gm_inv_fail [gm_rules]: "gm_inv I (gm_fail e)"
  by (simp add: gm_valid_def gm_fail_def)

lemma gm_inv_get [gm_rules]: "gm_inv I gm_get"
  by (simp add: gm_valid_def gm_get_def)

lemma gm_inv_panic [gm_rules]: "gm_inv I (gm_panic p)"
  by (simp add: gm_valid_def gm_panic_def)

lemma gm_inv_modify: "(\<And>s. I s \<Longrightarrow> I (f s)) \<Longrightarrow> gm_inv I (gm_modify f)"
  by (auto simp: gm_valid_def gm_modify_def)

lemma gm_inv_try [gm_rules]: "gm_inv I m \<Longrightarrow> gm_inv I (gm_try m)"
  by (auto simp: gm_valid_def gm_try_def split: go.splits prod.splits)

lemma gm_inv_ignore [gm_rules]: "gm_inv I m \<Longrightarrow> gm_inv I (gm_ignore m)"
  unfolding gm_ignore_def by (intro gm_rules)

lemma gm_inv_sum [gm_rules]: "(\<And>e. gm_inv I (f e)) \<Longrightarrow> (\<And>a. gm_inv I (g a)) \<Longrightarrow> gm_inv I (case r of Inl e \<Rightarrow> f e | Inr a \<Rightarrow> g a)"
  by (cases r) auto

lemma gm_inv_wrap [gm_rules]: "gm_inv I m \<Longrightarrow> gm_inv I (gm_wrap p m)"
  unfolding gm_wrap_def by (intro gm_rules)

lemma gm_inv_when [gm_rules]: "gm_inv I m \<Longrightarrow> gm_inv I (gm_when b m)"
  unfolding gm_when_def by (cases b) (auto intro: gm_rules)

lemma gm_inv_if [gm_rules]: "gm_inv I m \<Longrightarrow> gm_inv I n \<Longrightarrow> gm_inv I (if b then m else n)"
  by simp

lemma gm_inv_option [gm_rules]: "gm_inv I m \<Longrightarrow> (\<And>a. gm_inv I (f a)) \<Longrightarrow> gm_inv I (case x of None \<Rightarrow> m | Some a \<Rightarrow> f a)"
  by (cases x) auto

lemma gm_inv_each [gm_rules]: "(\<And>x. gm_inv I (f x)) \<Longrightarrow> gm_inv I (gm_each f xs)"
  by (induction xs) (auto intro: gm_rules)

text \<open>A state change that keeps what a predicate looks at.\<close>

lemma gm_inv_modify_same: "(\<And>s. g (f s) = g s) \<Longrightarrow> gm_inv (\<lambda>s. I (g s)) (gm_modify f)"
  by (auto simp: gm_valid_def gm_modify_def)

text \<open>Procedures that keep a condition and never return an error.\<close>

definition gm_sure :: "('s \<Rightarrow> bool) \<Rightarrow> ('s, 'a) gm \<Rightarrow> bool" where
  "gm_sure I m \<longleftrightarrow> gm_valid I m (\<lambda>r s. I s \<and> \<not> isl r)"

named_theorems gm_sure_rules \<open>procedures that never return an error\<close>

lemma gm_sure_inv: "gm_sure I m \<Longrightarrow> gm_inv I m"
  unfolding gm_sure_def by (erule gm_weaken) auto

lemma gm_sure_bind [gm_sure_rules]: "gm_sure I m \<Longrightarrow> (\<And>a. gm_sure I (f a)) \<Longrightarrow> gm_sure I (gm_bind m f)"
  unfolding gm_sure_def by (rule gm_valid_bind [where R = "\<lambda>r s. I s \<and> \<not> isl r"]) simp_all

lemma gm_sure_then [gm_sure_rules]: "gm_sure I m \<Longrightarrow> gm_sure I n \<Longrightarrow> gm_sure I (gm_then m n)"
  unfolding gm_then_def by (rule gm_sure_bind)

lemma gm_sure_return [gm_sure_rules]: "gm_sure I (gm_return a)"
  by (simp add: gm_sure_def gm_valid_def gm_return_def)

lemma gm_sure_get [gm_sure_rules]: "gm_sure I gm_get"
  by (simp add: gm_sure_def gm_valid_def gm_get_def)

lemma gm_sure_modify: "(\<And>s. I s \<Longrightarrow> I (f s)) \<Longrightarrow> gm_sure I (gm_modify f)"
  by (auto simp: gm_sure_def gm_valid_def gm_modify_def)

lemma gm_sure_try [gm_sure_rules]: "gm_inv I m \<Longrightarrow> gm_sure I (gm_try m)"
  unfolding gm_sure_def gm_valid_def gm_try_def
  by (auto split: go.splits prod.splits)

lemma gm_sure_ignore [gm_sure_rules]: "gm_inv I m \<Longrightarrow> gm_sure I (gm_ignore m)"
  unfolding gm_ignore_def by (intro gm_sure_rules)

lemma gm_sure_when [gm_sure_rules]: "gm_sure I m \<Longrightarrow> gm_sure I (gm_when b m)"
  unfolding gm_when_def by (cases b) (auto intro: gm_sure_rules)

lemma gm_sure_sum [gm_sure_rules]: "(\<And>e. gm_sure I (f e)) \<Longrightarrow> (\<And>a. gm_sure I (g a)) \<Longrightarrow> gm_sure I (case r of Inl e \<Rightarrow> f e | Inr a \<Rightarrow> g a)"
  by (cases r) auto

lemma gm_sure_each [gm_sure_rules]: "(\<And>x. gm_sure I (f x)) \<Longrightarrow> gm_sure I (gm_each f xs)"
  by (induction xs) (auto intro: gm_sure_rules)

text \<open>Sequencing: after a step that never fails, and after one that may.\<close>

lemma gm_valid_conj: "gm_valid P m Q \<Longrightarrow> gm_valid P m Q' \<Longrightarrow> gm_valid P m (\<lambda>r s. Q r s \<and> Q' r s)"
  unfolding gm_valid_def by blast

lemma gm_step_seq:
  assumes "gm_sure P m" "gm_valid P m (\<lambda>_. P')" "gm_valid P' n Q"
  shows "gm_valid P (gm_then m n) Q"
proof -
  have "gm_valid P m (\<lambda>r s. P' s \<and> (P s \<and> \<not> isl r))"
    using gm_valid_conj [OF assms(2) assms(1) [unfolded gm_sure_def]] .
  then have "gm_valid P m (\<lambda>r s. P' s \<and> \<not> isl r)" by (rule gm_weaken) simp_all
  then show ?thesis
    unfolding gm_then_def by (rule gm_valid_bind) (use assms(3) in simp_all)
qed

lemma gm_sure_seq: "gm_sure P m \<Longrightarrow> gm_valid P n Q \<Longrightarrow> gm_valid P (gm_then m n) Q"
  by (rule gm_step_seq [OF _ gm_sure_inv])

text \<open>A procedure on a part of the state.\<close>

definition gm_zoom :: "('t \<Rightarrow> 's) \<Rightarrow> ('s \<Rightarrow> 't \<Rightarrow> 't) \<Rightarrow> ('s, 'a) gm \<Rightarrow> ('t, 'a) gm" where
  "gm_zoom get put m t = (case m (get t) of Panic p \<Rightarrow> Panic p | Ret (s', r) \<Rightarrow> Ret (put s' t, r))"

lemma gm_valid_zoom:
  "gm_valid P m Q \<Longrightarrow> (\<And>s t. get (put s t) = s) \<Longrightarrow> gm_valid (\<lambda>t. P (get t)) (gm_zoom get put m) (\<lambda>r t. Q r (get t))"
  unfolding gm_valid_def gm_zoom_def by (auto split: go.splits prod.splits)

lemma gm_inv_zoom_other:
  "(\<And>s t. I t \<Longrightarrow> I (put s t)) \<Longrightarrow> gm_inv I (gm_zoom get put m)"
  unfolding gm_valid_def gm_zoom_def by (auto split: go.splits prod.splits)

end
