(* ===== verification/Sha256.thy ===== *)
theory Sha256
  imports Prelude
begin

text \<open>
  The part of Go's standard library that \<open>pkg/utils/names.go\<close> builds names with:
  \<open>crypto/sha256\<close> (FIPS 180-4) on 32-bit words that wrap around, and \<open>hex.EncodeToString\<close>.
  Bytes are characters. What the names rely on is proved: the digest is 32 bytes, so its
  rendering is 64 lower-case hexadecimal digits.
\<close>

unbundle bit_operations_syntax

type_synonym word32 = "32 word"

text \<open>
  The constants as the standard derives them: 32 bits of the fractional parts of the cube roots
  of the first 64 primes and of the square roots of the first eight. \<open>iroot k n\<close> is the integer
  part of the root, found bit by bit.
\<close>

definition primes_below :: "nat \<Rightarrow> nat list" where
  "primes_below n = filter (\<lambda>p. list_all (\<lambda>d. p mod d \<noteq> 0) [2..<p]) [2..<n]"

definition iroot :: "nat \<Rightarrow> nat \<Rightarrow> nat" where
  "iroot k n = foldl (\<lambda>r i. if (r + 2 ^ i) ^ k \<le> n then r + 2 ^ i else r) 0 (rev [0..<40])"

definition sha_k :: "word32 list" where
  "sha_k = map (\<lambda>p. of_nat (iroot 3 (p * 2 ^ 96))) (primes_below 312)"

definition sha_init :: "word32 list" where
  "sha_init = map (\<lambda>p. of_nat (iroot 2 (p * 2 ^ 64))) (primes_below 20)"

definition sha_rotr :: "nat \<Rightarrow> word32 \<Rightarrow> word32" where
  "sha_rotr n x = (drop_bit n x) OR (push_bit (32 - n) x)"

definition sha_ch :: "word32 \<Rightarrow> word32 \<Rightarrow> word32 \<Rightarrow> word32" where
  "sha_ch x y z = (x AND y) XOR (NOT x AND z)"

definition sha_maj :: "word32 \<Rightarrow> word32 \<Rightarrow> word32 \<Rightarrow> word32" where
  "sha_maj x y z = (x AND y) XOR (x AND z) XOR (y AND z)"

definition sha_S0 :: "word32 \<Rightarrow> word32" where
  "sha_S0 x = sha_rotr 2 x XOR sha_rotr 13 x XOR sha_rotr 22 x"

definition sha_S1 :: "word32 \<Rightarrow> word32" where
  "sha_S1 x = sha_rotr 6 x XOR sha_rotr 11 x XOR sha_rotr 25 x"

definition sha_s0 :: "word32 \<Rightarrow> word32" where
  "sha_s0 x = sha_rotr 7 x XOR sha_rotr 18 x XOR drop_bit 3 x"

definition sha_s1 :: "word32 \<Rightarrow> word32" where
  "sha_s1 x = sha_rotr 17 x XOR sha_rotr 19 x XOR drop_bit 10 x"

text \<open>The message schedule, the words so far in reverse order.\<close>

fun sha_schedule :: "nat \<Rightarrow> word32 list \<Rightarrow> word32 list" where
  "sha_schedule 0 ws = rev ws"
| "sha_schedule (Suc n) ws =
     sha_schedule n ((sha_s1 (ws ! 1) + ws ! 6 + sha_s0 (ws ! 14) + ws ! 15) # ws)"

fun sha_round :: "word32 list \<Rightarrow> word32 \<times> word32 \<Rightarrow> word32 list" where
  "sha_round [a, b, c, d, e, f, g, h] (k, w) =
     (let t1 = h + sha_S1 e + sha_ch e f g + k + w;
          t2 = sha_S0 a + sha_maj a b c
      in [t1 + t2, a, b, c, d + t1, e, f, g])"
| "sha_round hs kw = hs"

definition sha_block :: "word32 list \<Rightarrow> word32 list \<Rightarrow> word32 list" where
  "sha_block hs ws = map2 (+) hs (foldl sha_round hs (zip sha_k (sha_schedule 48 (rev ws))))"

definition be_bytes :: "nat \<Rightarrow> nat \<Rightarrow> nat list" where
  "be_bytes n v = rev (map (\<lambda>i. v div 256 ^ i mod 256) [0..<n])"

definition sha_pad :: "nat list \<Rightarrow> nat list" where
  "sha_pad bs = bs @ [128] @ replicate ((119 - length bs mod 64) mod 64) 0 @ be_bytes 8 (8 * length bs)"

fun sha_words :: "nat list \<Rightarrow> word32 list" where
  "sha_words (a # b # c # d # bs) = of_nat (((a * 256 + b) * 256 + c) * 256 + d) # sha_words bs"
| "sha_words bs = []"

function sha_blocks :: "word32 list \<Rightarrow> word32 list \<Rightarrow> word32 list" where
  "sha_blocks hs ws =
     (if length ws < 16 then hs else sha_blocks (sha_block hs (take 16 ws)) (drop 16 ws))"
  by pat_completeness auto
termination
  by (relation "measure (\<lambda>(hs, ws). length ws)") auto

declare sha_blocks.simps [simp del]

definition sha256 :: "string \<Rightarrow> nat list" where
  "sha256 s = concat (map (\<lambda>w. be_bytes 4 (unat w)) (sha_blocks sha_init (sha_words (sha_pad (map of_char s)))))"

definition hex_chars :: string where
  "hex_chars = ''0123456789abcdef''"

definition hex_digit :: "nat \<Rightarrow> char" where
  "hex_digit n = hex_chars ! n"

definition hex_encode :: "nat list \<Rightarrow> string" where
  "hex_encode bs = concat (map (\<lambda>b. [hex_digit (b div 16), hex_digit (b mod 16)]) bs)"

definition sha256_hex :: "string \<Rightarrow> string" where
  "sha256_hex s = hex_encode (sha256 s)"

section \<open>The shape of a digest\<close>

lemma length_sha_round: "length hs = 8 \<Longrightarrow> length (sha_round hs kw) = 8"
  by (cases "(hs, kw)" rule: sha_round.cases) (auto simp: Let_def)

lemma length_sha_rounds: "length hs = 8 \<Longrightarrow> length (foldl sha_round hs kws) = 8"
  by (induction kws arbitrary: hs) (simp_all add: length_sha_round)

lemma length_sha_blocks: "length hs = 8 \<Longrightarrow> length (sha_blocks hs ws) = 8"
proof (induction hs ws rule: sha_blocks.induct)
  case (1 hs ws)
  then show ?case
    by (subst sha_blocks.simps) (simp add: sha_block_def length_sha_rounds)
qed

lemma length_sha_init: "length sha_init = 8"
  by (simp add: sha_init_def primes_below_def)

lemma length_be_bytes [simp]: "length (be_bytes n v) = n"
  by (simp add: be_bytes_def)

lemma be_bytes_less: "b \<in> set (be_bytes n v) \<Longrightarrow> b < 256"
  by (auto simp: be_bytes_def)

lemma length_concat_const: "(\<And>x. x \<in> set xs \<Longrightarrow> length (f x) = n) \<Longrightarrow> length (concat (map f xs)) = n * length xs"
  by (induction xs) auto

lemma length_sha256 [simp]: "length (sha256 s) = 32"
  unfolding sha256_def
  by (subst length_concat_const [where n = 4]) (simp_all add: length_sha_blocks length_sha_init)

lemma sha256_bytes: "b \<in> set (sha256 s) \<Longrightarrow> b < 256"
  by (auto simp: sha256_def dest: be_bytes_less)

lemma hex_digit_in: "n < 16 \<Longrightarrow> hex_digit n \<in> set hex_chars"
  by (simp add: hex_digit_def hex_chars_def nth_mem del: set_simps)

lemma length_sha256_hex [simp]: "length (sha256_hex s) = 64"
  unfolding sha256_hex_def hex_encode_def
  by (subst length_concat_const [where n = 2]) simp_all

lemma set_sha256_hex: "set (sha256_hex s) \<subseteq> set hex_chars"
  unfolding sha256_hex_def hex_encode_def
  by (auto dest!: sha256_bytes intro!: hex_digit_in)

end
