(* ===== verification/ConfFile.thy ===== *)
theory ConfFile
  imports GoMonad Sha256
begin

text \<open>
  Configuration files (\<open>pkg/cliutils/conf.go\<close>): the file system is a map from paths to contents,
  and writing a file may fail, which the parameter \<open>wr\<close> says.
\<close>

type_synonym files = "(string \<times> string) list"

definition file_write :: "(string \<Rightarrow> string option) \<Rightarrow> string \<Rightarrow> string \<Rightarrow> (files, unit) gm" where
  "file_write wr path content fs =
     (case wr path of
        None \<Rightarrow> Ret (AList.update path content fs, Inr ())
      | Some m \<Rightarrow> Ret (fs, Inl (Errorf m)))"

text \<open>
  A file named by the hash of its content, written only if there is none, and whether it was written.
\<close>

definition conf_path :: "string \<Rightarrow> string \<Rightarrow> string" where
  "conf_path name conf = ''/tmp/kubemate_'' @ name @ ''_'' @ take 12 (sha256_hex conf) @ ''.conf''"

definition conf_file :: "(string \<Rightarrow> string option) \<Rightarrow> string \<Rightarrow> string \<Rightarrow> (files, string \<times> bool) gm" where
  "conf_file wr name conf =
     gm_bind gm_get (\<lambda>fs.
       let file = conf_path name conf in
       if map_of fs file = None then
         gm_then (gm_wrap (''write '' @ name @ '' config: '') (file_write wr file conf)) (gm_return (file, True))
       else gm_return (file, False))"

definition WriteTempConfigFile ::
  "(string \<Rightarrow> string option) \<Rightarrow> string \<Rightarrow> string \<Rightarrow> (string \<times> string) list \<Rightarrow> (files, string \<times> bool) gm" where
  "WriteTempConfigFile wr name confTpl args = conf_file wr name (replace_all args confTpl)"

lemma conf_file_ok:
  "conf_file wr name conf fs = Ret (fs', Inr (file, b)) \<Longrightarrow>
   file = conf_path name conf \<and> map_of fs' file \<noteq> None \<and> b = (map_of fs file = None) \<and> (b \<longrightarrow> map_of fs' file = Some conf)"
  by (auto simp: conf_file_def gm_defs file_write_def Let_def update_conv' split: if_splits option.splits)

end
