(* ===== verification/Runner.thy ===== *)
theory Runner
  imports Prelude
begin

text \<open>
  The process runner of \<open>pkg/runner\<close>: one child process at a time, restarted when its command line
  changes, with a cooldown of a second between starts. Times are milliseconds of Go's monotonic
  clock, the zero time is \<open>None\<close>. What the operating system answers (\<open>StartProcess\<close>, signals,
  exits) is an input. Every method holds the runner's mutex, so it is one step; the goroutine
  that waits for the process reports its exit in a step of its own, whenever it is scheduled.
\<close>

section \<open>Commands\<close>

record command_spec =
  cs_Command :: string
  cs_Args :: "string list"

text \<open>\<open>strconv.Quote\<close>; bytes above 127 are taken to be printable text and stay.\<close>

definition quote_char :: "char \<Rightarrow> string" where
  "quote_char c =
     (let n = (of_char c :: nat) in
      if c = CHR ''\"'' then [CHR 0x5C, c] else if c = CHR 0x5C then [c, c]
      else if n = 7 then [CHR 0x5C, CHR ''a''] else if n = 8 then [CHR 0x5C, CHR ''b'']
      else if n = 9 then [CHR 0x5C, CHR ''t''] else if n = 10 then [CHR 0x5C, CHR ''n'']
      else if n = 11 then [CHR 0x5C, CHR ''v''] else if n = 12 then [CHR 0x5C, CHR ''f'']
      else if n = 13 then [CHR 0x5C, CHR ''r'']
      else if n < 32 \<or> n = 127 then
        [CHR 0x5C, CHR ''x'', ''0123456789abcdef'' ! (n div 16), ''0123456789abcdef'' ! (n mod 16)]
      else [c])"

definition go_quote :: "string \<Rightarrow> string" where
  "go_quote s = ''\"'' @ concat (map quote_char s) @ ''\"''"

definition command_string :: "command_spec \<Rightarrow> string" where
  "command_string c =
     join '' '' (map (\<lambda>s. if CHR '' '' \<in> set s then go_quote s else s) (cs_Command c # cs_Args c))"

lemma command_string_inj:
  assumes "command_string c = command_string d"
    and "\<And>w. w \<in> set (cs_Command c # cs_Args c) \<union> set (cs_Command d # cs_Args d) \<Longrightarrow> CHR '' '' \<notin> set w"
  shows "cs_Command c = cs_Command d \<and> cs_Args c = cs_Args d"
proof -
  have same: "map (\<lambda>s. if CHR '' '' \<in> set s then go_quote s else s) ws = ws" if "\<forall>w \<in> set ws. CHR '' '' \<notin> set w" for ws
    using that by (induction ws) auto
  have "join '' '' (cs_Command c # cs_Args c) = join '' '' (cs_Command d # cs_Args d)"
    using assms same [of "cs_Command c # cs_Args c"] same [of "cs_Command d # cs_Args d"]
    unfolding command_string_def by auto
  then have "cs_Command c # cs_Args c = cs_Command d # cs_Args d"
    using assms(2) by (intro join_inj [where d = "CHR '' ''"]) auto
  then show ?thesis by simp
qed

section \<open>The runner's state\<close>

datatype process_state = ProcessRunning | ProcessFailed | ProcessExited

record command_status =
  st_Pid :: int
  st_State :: process_state
  st_Message :: string

text \<open>
  \<open>rn_proc\<close> is the process the runner holds (\<open>m.proc\<close>), \<open>rn_live\<close> the child processes that run,
  \<open>rn_waiting\<close> the exited ones whose goroutine has not reported yet, \<open>rn_started\<close> the times at
  which processes were started.
\<close>

record runner =
  rn_proc :: "(nat \<times> command_spec) option"
  rn_live :: "nat list"
  rn_waiting :: "(nat \<times> command_spec) list"
  rn_terminated :: "nat option"
  rn_started :: "nat list"
  rn_reports :: "(command_spec \<times> command_status) list"

definition new_runner :: runner where
  "new_runner = \<lparr>rn_proc = None, rn_live = [], rn_waiting = [], rn_terminated = None, rn_started = [], rn_reports = []\<rparr>"

definition cooldown :: nat where
  "cooldown = 1000"

definition report :: "command_spec \<Rightarrow> command_status \<Rightarrow> runner \<Rightarrow> runner" where
  "report c s m = m\<lparr>rn_reports := rn_reports m @ [(c, s)]\<rparr>"

text \<open>
  \<open>Proc.Stop\<close>: the termination signal, and SIGKILL to the process group after the grace period; it
  returns once the process has exited.
\<close>

definition proc_stop :: "nat \<times> command_spec \<Rightarrow> runner \<Rightarrow> runner" where
  "proc_stop p m =
     (if fst p \<in> set (rn_live m) then
        m\<lparr>rn_live := removeAll (fst p) (rn_live m), rn_waiting := rn_waiting m @ [p]\<rparr>
      else m)"

definition runner_stop :: "runner \<Rightarrow> runner" where
  "runner_stop m = (case rn_proc m of None \<Rightarrow> m | Some p \<Rightarrow> (proc_stop p m)\<lparr>rn_proc := None\<rparr>)"

text \<open>
  \<open>SignalReload\<close>: the error for a runner that holds no process is built from that process, a nil
  pointer. \<open>sig\<close> is the answer to the signal; a process that has exited cannot be signalled.
\<close>

definition SignalReload :: "go_error option \<Rightarrow> runner \<Rightarrow> (go_error option) go" where
  "SignalReload sig m =
     (case rn_proc m of
        None \<Rightarrow> Panic ''nil pointer dereference''
      | Some (pid, cmd) \<Rightarrow>
          (case (if pid \<in> set (rn_live m) then sig else Some (Errorf ''os: process already finished'')) of
             None \<Rightarrow> Ret None
           | Some err \<Rightarrow> Ret (Some (Wrap (''signal '' @ cs_Command cmd @ '' to reload: '') err))))"

text \<open>
  \<open>StartProcess\<close> gives a process, or an error and a nil process; after a late error
  (\<open>Getpgid\<close>) the child runs on.
\<close>

datatype start_result = Started nat | StartFailed go_error | StartLeaked nat go_error

definition StartProcess :: "string \<Rightarrow> start_result \<Rightarrow> command_spec \<Rightarrow> start_result" where
  "StartProcess terminationSignal os cmd =
     (if terminationSignal = ''SIGINT'' then
        StartFailed (Errorf (''process '' @ cs_Command cmd @ '': termination signal SIGINT is not supported to terminate a process group''))
      else
        (case os of
           StartFailed err \<Rightarrow> StartFailed (Wrap (''start '' @ cs_Command cmd @ '' process: '') err)
         | StartLeaked pid err \<Rightarrow> StartLeaked pid (Wrap (''get '' @ cs_Command cmd @ '' process group: '') err)
         | Started pid \<Rightarrow> Started pid))"

text \<open>
  \<open>Start\<close> at time \<open>now\<close>, with the clock at \<open>now'\<close> after the process was started. After a failed start
  the status report asks the nil process for its pid.
\<close>

definition runner_start ::
  "string \<Rightarrow> nat \<Rightarrow> nat \<Rightarrow> start_result \<Rightarrow> command_spec \<Rightarrow> runner \<Rightarrow> runner \<times> (go_error + bool) go" where
  "runner_start terminationSignal now now' os cmd m =
     (if (case rn_proc m of None \<Rightarrow> False
          | Some (pid, c) \<Rightarrow> pid \<in> set (rn_live m) \<and> command_string c = command_string cmd)
      then (m, Ret (Inr False))
      else
        (let m1 = runner_stop m in
         if (case rn_terminated m1 of None \<Rightarrow> False | Some t \<Rightarrow> now < t + cooldown) then
           (m1, Ret (Inl (Cooldown (the (rn_terminated m1) + cooldown - now)
             (''refusing to restart '' @ cs_Command cmd @ '' during cooldown period''))))
         else
           (case StartProcess terminationSignal os cmd of
              StartFailed err \<Rightarrow> (m1\<lparr>rn_terminated := Some now'\<rparr>, Panic ''nil pointer dereference'')
            | StartLeaked pid err \<Rightarrow>
                (m1\<lparr>rn_terminated := Some now', rn_live := pid # rn_live m1\<rparr>, Panic ''nil pointer dereference'')
            | Started pid \<Rightarrow>
                (report cmd \<lparr>st_Pid = int pid, st_State = ProcessRunning, st_Message = []\<rparr>
                   (m1\<lparr>rn_terminated := Some now', rn_proc := Some (pid, cmd), rn_live := pid # rn_live m1,
                      rn_started := rn_started m1 @ [now]\<rparr>),
                 Ret (Inr True)))))"

text \<open>The process exits by itself; later its goroutine reports, with the error \<open>Wait\<close> gave.\<close>

definition proc_exit :: "nat \<Rightarrow> runner \<Rightarrow> runner" where
  "proc_exit pid m =
     (case rn_proc m of
        None \<Rightarrow> m
      | Some p \<Rightarrow> if fst p = pid \<and> pid \<in> set (rn_live m)
          then m\<lparr>rn_live := removeAll pid (rn_live m), rn_waiting := rn_waiting m @ [p]\<rparr> else m)"

definition report_exit :: "nat \<Rightarrow> nat \<Rightarrow> string option \<Rightarrow> runner \<Rightarrow> runner" where
  "report_exit pid now err m =
     (case map_of (rn_waiting m) pid of
        None \<Rightarrow> m
      | Some cmd \<Rightarrow>
          report cmd
            (case err of
               None \<Rightarrow> \<lparr>st_Pid = int pid, st_State = ProcessExited, st_Message = []\<rparr>
             | Some e \<Rightarrow> \<lparr>st_Pid = int pid, st_State = ProcessFailed,
                 st_Message = cs_Command cmd @ '' process failed: '' @ e\<rparr>)
            (m\<lparr>rn_terminated := Some now, rn_waiting := remove1 (pid, cmd) (rn_waiting m)\<rparr>))"

section \<open>Runs\<close>

datatype runner_event =
    EvStart nat nat start_result command_spec
  | EvStop
  | EvExit nat
  | EvReport nat nat "string option"

fun runner_exec :: "string \<Rightarrow> runner \<Rightarrow> runner_event \<Rightarrow> runner go" where
  "runner_exec sig m (EvStart now now' os cmd) =
     (case runner_start sig now now' os cmd m of (m', Ret _) \<Rightarrow> Ret m' | (m', Panic e) \<Rightarrow> Panic e)"
| "runner_exec sig m EvStop = Ret (runner_stop m)"
| "runner_exec sig m (EvExit pid) = Ret (proc_exit pid m)"
| "runner_exec sig m (EvReport pid now err) = Ret (report_exit pid now err m)"

fun runner_run :: "string \<Rightarrow> runner \<Rightarrow> runner_event list \<Rightarrow> runner go" where
  "runner_run sig m [] = Ret m"
| "runner_run sig m (e # es) = go_bind (runner_exec sig m e) (\<lambda>m'. runner_run sig m' es)"

fun event_times :: "runner_event list \<Rightarrow> nat list" where
  "event_times [] = []"
| "event_times (EvStart now now' os cmd # es) = now # now' # event_times es"
| "event_times (EvReport pid now err # es) = now # event_times es"
| "event_times (_ # es) = event_times es"

text \<open>
  Only the process the runner holds can be running; every start was a cooldown after the one before,
  and the recorded time is not before the last start.
\<close>

definition runner_inv :: "runner \<Rightarrow> bool" where
  "runner_inv m \<longleftrightarrow>
     rn_live m = [] \<or> (\<exists>pid cmd. rn_proc m = Some (pid, cmd) \<and> rn_live m = [pid])"

definition spaced :: "runner \<Rightarrow> nat \<Rightarrow> bool" where
  "spaced m clock \<longleftrightarrow>
     sorted_wrt (\<lambda>a b. a + cooldown \<le> b) (rn_started m) \<and>
     (\<forall>t \<in> set (rn_started m). \<exists>u. rn_terminated m = Some u \<and> t \<le> u) \<and>
     (\<forall>u. rn_terminated m = Some u \<longrightarrow> u \<le> clock)"

lemma runner_inv_stop: "runner_inv m \<Longrightarrow> runner_inv (runner_stop m) \<and> rn_live (runner_stop m) = []"
  by (auto simp: runner_inv_def runner_stop_def proc_stop_def split: option.splits)

lemma runner_stop_simps [simp]:
  "rn_terminated (runner_stop m) = rn_terminated m" "rn_started (runner_stop m) = rn_started m"
  "rn_proc (runner_stop m) = None"
  by (auto simp: runner_stop_def proc_stop_def split: option.splits)

lemma runner_exec_inv:
  "runner_inv m \<Longrightarrow> runner_exec sig m e = Ret m' \<Longrightarrow> runner_inv m'"
proof (cases e)
  case (EvStart now now' os cmd)
  assume inv: "runner_inv m" and r: "runner_exec sig m e = Ret m'"
  note stopped = runner_inv_stop [OF inv]
  from r EvStart stopped inv show ?thesis
    by (auto simp: runner_start_def report_def runner_inv_def Let_def split: if_splits prod.splits go.splits start_result.splits)
next
  case (EvReport pid now err)
  assume "runner_inv m" "runner_exec sig m e = Ret m'"
  with EvReport show ?thesis by (auto simp: report_exit_def report_def runner_inv_def split: option.splits)
qed (auto simp: runner_inv_stop proc_exit_def runner_inv_def split: option.splits if_splits)

lemma runner_exec_spaced:
  assumes "spaced m clock" "runner_exec sig m e = Ret m'" "list_all (\<lambda>t. clock \<le> t) (event_times [e])"
    and "sorted (event_times [e])"
  shows "spaced m' (last (clock # event_times [e]))"
proof (cases e)
  case (EvStart now now' os cmd)
  have times: "clock \<le> now" "now \<le> now'" "clock \<le> now'" using assms(3,4) EvStart by auto
  have old: "u \<le> now'" if "rn_terminated m = Some u" for u
    using assms(1) that times by (auto simp: spaced_def)
  show ?thesis
  proof (cases "\<exists>pid. m' = report cmd \<lparr>st_Pid = int pid, st_State = ProcessRunning, st_Message = []\<rparr>
      ((runner_stop m)\<lparr>rn_terminated := Some now', rn_proc := Some (pid, cmd), rn_live := pid # rn_live (runner_stop m),
         rn_started := rn_started m @ [now]\<rparr>) \<and> \<not> (case rn_terminated m of None \<Rightarrow> False | Some t \<Rightarrow> now < t + cooldown)")
    case True
    then have st: "rn_started m' = rn_started m @ [now]" "rn_terminated m' = Some now'"
      and cool: "\<And>u. rn_terminated m = Some u \<Longrightarrow> u + cooldown \<le> now"
      by (auto simp: report_def)
    have "t + cooldown \<le> now" if "t \<in> set (rn_started m)" for t
      using assms(1) that cool unfolding spaced_def by (meson add_le_cancel_right le_trans)
    moreover have "t \<le> now'" if "t \<in> set (rn_started m)" for t
      using calculation [OF that] times(2) by linarith
    ultimately show ?thesis
      using assms(1) st times EvStart by (auto simp: spaced_def sorted_wrt_append)
  next
    case False
    with assms(2) EvStart have "rn_started m' = rn_started m" "rn_terminated m' = rn_terminated m"
      by (auto simp: runner_start_def Let_def split: if_splits prod.splits go.splits start_result.splits)
    with assms(1) old EvStart show ?thesis by (auto simp: spaced_def)
  qed
next
  case EvStop
  with assms show ?thesis by (auto simp: spaced_def)
next
  case (EvExit pid)
  with assms show ?thesis by (auto simp: spaced_def proc_exit_def split: option.splits if_splits)
next
  case (EvReport pid now err)
  show ?thesis
  proof (cases "map_of (rn_waiting m) pid")
    case None
    with EvReport assms show ?thesis by (auto simp: spaced_def report_exit_def)
  next
    case (Some cmd)
    have "t \<le> now" if "t \<in> set (rn_started m)" for t
      using assms(1,3) that EvReport unfolding spaced_def by fastforce
    with Some EvReport assms show ?thesis by (auto simp: spaced_def report_exit_def report_def)
  qed
qed

lemma runner_run_inv:
  "runner_inv m \<Longrightarrow> runner_run sig m es = Ret m' \<Longrightarrow> runner_inv m'"
  by (induction es arbitrary: m) (auto simp: go_bind_Ret_iff intro: runner_exec_inv)

lemma event_times_Cons: "event_times (e # es) = event_times [e] @ event_times es"
  by (cases e) auto

lemma runner_run_spaced:
  assumes "spaced m clock" "sorted (clock # event_times es)" "runner_run sig m es = Ret m'"
  shows "\<exists>clock'. spaced m' clock'"
  using assms
proof (induction es arbitrary: m clock)
  case Nil
  then show ?case by auto
next
  case (Cons e es)
  from Cons.prems(3) obtain m1 where m1: "runner_exec sig m e = Ret m1" "runner_run sig m1 es = Ret m'"
    by (auto simp: go_bind_Ret_iff)
  let ?ts = "event_times [e]"
  have srt: "sorted (clock # ?ts @ event_times es)" using Cons.prems(2) by (subst (asm) event_times_Cons) simp
  then have "list_all (\<lambda>t. clock \<le> t) ?ts" "sorted ?ts" by (auto simp: sorted_append list_all_iff)
  from runner_exec_spaced [OF Cons.prems(1) m1(1) this] have "spaced m1 (last (clock # ?ts))" .
  moreover have "sorted (last (clock # ?ts) # event_times es)"
    using srt by (cases ?ts rule: rev_cases) (auto simp: sorted_append)
  ultimately show ?case using Cons.IH m1(2) by blast
qed

section \<open>Properties\<close>

text \<open>
  C36. One process at a time, and not too often: in every run of starts, stops, exits and reports in which
  no start fails, at most one child process runs, it is the one the runner holds, and two starts
  are never less than the cooldown of one second apart, whenever the goroutines get to report.
\<close>

theorem runner_one_process_spaced:
  assumes "sorted (event_times es)" "runner_run sig new_runner es = Ret m"
  shows "length (rn_live m) \<le> 1 \<and> list_all (\<lambda>pid. map_option fst (rn_proc m) = Some pid) (rn_live m) \<and>
    sorted_wrt (\<lambda>a b. a + 1000 \<le> b) (rn_started m)"
proof -
  have "runner_inv m" using runner_run_inv [OF _ assms(2)] by (simp add: runner_inv_def new_runner_def)
  moreover have "spaced new_runner 0" by (simp add: spaced_def new_runner_def)
  then have "\<exists>c. spaced m c" using runner_run_spaced [OF _ _ assms(2), of 0] assms(1) by simp
  ultimately show ?thesis by (auto simp: runner_inv_def spaced_def cooldown_def)
qed

definition dnsmasq_cmd :: command_spec where
  "dnsmasq_cmd = \<lparr>cs_Command = ''dnsmasq'', cs_Args = [''-k'']\<rparr>"

theorem runner_one_process_spaced_witness:
  "\<exists>m. runner_run ''SIGTERM'' new_runner [EvStart 10 20 (Started 7) dnsmasq_cmd, EvExit 7, EvReport 7 500 None,
       EvStart 700 710 (Started 8) dnsmasq_cmd, EvStart 1500 1510 (Started 9) dnsmasq_cmd] = Ret m \<and>
     rn_started m = [10, 1500] \<and> rn_live m = [9] \<and> sorted_wrt (\<lambda>a b. a + 1000 \<le> b) (rn_started m)"
proof -
  let ?es = "[EvStart 10 20 (Started 7) dnsmasq_cmd, EvExit 7, EvReport 7 500 None,
       EvStart 700 710 (Started 8) dnsmasq_cmd, EvStart 1500 1510 (Started 9) dnsmasq_cmd]"
  obtain m where m: "runner_run ''SIGTERM'' new_runner ?es = Ret m" "rn_started m = [10, 1500]" "rn_live m = [9]"
    by (simp add: runner_start_def new_runner_def runner_stop_def proc_stop_def proc_exit_def report_exit_def report_def
        cooldown_def StartProcess_def Let_def)
  with runner_one_process_spaced [OF _ m(1)] show ?thesis by auto
qed

text \<open>
  The restart decision: with a process running whose command and arguments contain no spaces, and a new
  command without spaces, \<open>Start\<close> leaves the process alone exactly when the commands are equal;
  otherwise the old process has been stopped when \<open>Start\<close> comes back, whatever came of the new one.
\<close>

theorem runner_restarts_on_change:
  assumes "runner_inv m" "rn_proc m = Some (pid, c)" "pid \<in> set (rn_live m)"
    and "\<And>w. w \<in> set (cs_Command c # cs_Args c) \<union> set (cs_Command cmd # cs_Args cmd) \<Longrightarrow> CHR '' '' \<notin> set w"
    and "os = Started pid'" "pid' \<noteq> pid"
  shows "if cs_Command c = cs_Command cmd \<and> cs_Args c = cs_Args cmd
    then runner_start sig now now' os cmd m = (m, Ret (Inr False))
    else pid \<notin> set (rn_live (fst (runner_start sig now now' os cmd m)))"
proof (cases "cs_Command c = cs_Command cmd \<and> cs_Args c = cs_Args cmd")
  case True
  then have "command_string c = command_string cmd" by (simp add: command_string_def)
  with True assms(2,3) show ?thesis by (simp add: runner_start_def)
next
  case False
  then have "command_string c \<noteq> command_string cmd" using command_string_inj [OF _ assms(4)] by blast
  with False assms(2,5,6) runner_inv_stop [OF assms(1)] show ?thesis
    by (auto simp: runner_start_def report_def StartProcess_def Let_def)
qed

theorem runner_restarts_on_change_witness:
  "\<exists>m. runner_run ''SIGTERM'' new_runner [EvStart 10 20 (Started 7) dnsmasq_cmd] = Ret m \<and>
     7 \<notin> set (rn_live (fst (runner_start ''SIGTERM'' 30 40 (Started 8) (dnsmasq_cmd\<lparr>cs_Args := []\<rparr>) m)))"
proof -
  obtain m where m: "runner_run ''SIGTERM'' new_runner [EvStart 10 20 (Started 7) dnsmasq_cmd] = Ret m"
    "rn_proc m = Some (7, dnsmasq_cmd)" "rn_live m = [7]"
    by (simp add: runner_start_def new_runner_def runner_stop_def report_def StartProcess_def Let_def)
  have inv: "runner_inv m" using m(2,3) by (simp add: runner_inv_def)
  have ns: "CHR '' '' \<notin> set w"
    if "w \<in> set (cs_Command dnsmasq_cmd # cs_Args dnsmasq_cmd) \<union>
      set (cs_Command (dnsmasq_cmd\<lparr>cs_Args := []\<rparr>) # cs_Args (dnsmasq_cmd\<lparr>cs_Args := []\<rparr>))" for w
    using that by (auto simp: dnsmasq_cmd_def)
  have live: "7 \<in> set (rn_live m)" using m(3) by simp
  have "7 \<notin> set (rn_live (fst (runner_start ''SIGTERM'' 30 40 (Started 8) (dnsmasq_cmd\<lparr>cs_Args := []\<rparr>) m)))"
    using runner_restarts_on_change [where sig = "''SIGTERM''" and now = 30 and now' = 40 and pid' = 8 and
        cmd = "dnsmasq_cmd\<lparr>cs_Args := []\<rparr>", OF inv m(2) live ns refl]
    by (simp add: dnsmasq_cmd_def)
  with m(1) show ?thesis by blast
qed

text \<open>
  Two ways to panic: a start that fails panics instead of returning its error, whatever the error was
  and however often it is tried, and asking a runner that holds no process to reload panics
  instead of returning the error its code builds.
\<close>

lemma runner_panics:
  assumes "rn_proc m = None" "case rn_terminated m of None \<Rightarrow> True | Some t \<Rightarrow> t + cooldown \<le> now"
  shows "snd (runner_start sig now now' (StartFailed err) cmd m) = Panic ''nil pointer dereference'' \<and>
    SignalReload answer m = Panic ''nil pointer dereference''"
  using assms by (auto simp: runner_start_def runner_stop_def StartProcess_def SignalReload_def Let_def split: option.splits)

theorem runner_panics_witness:
  "snd (runner_start ''SIGTERM'' 5 6 (StartFailed (Errorf ''executable file not found'')) dnsmasq_cmd new_runner) =
     Panic ''nil pointer dereference'' \<and> SignalReload None new_runner = Panic ''nil pointer dereference''"
  using runner_panics [of new_runner 5 "''SIGTERM''" 6 "Errorf ''executable file not found''" dnsmasq_cmd None]
  by (simp add: new_runner_def)

end
