(* ===== verification/PubSub.thy ===== *)
theory PubSub
  imports Prelude
begin

text \<open>
  The publish/subscribe hub of \<open>pkg/pubsub/pubsub.go\<close>: every store announces its changes here
  and API watches subscribe to it. A watcher's channel holds at most ten events; \<open>Publish\<close>
  blocks on a full channel for at most 20 seconds and then kicks the subscriber.

  What the consumers do while \<open>Publish\<close> waits is the environment's choice: \<open>takes id\<close> is the
  number of events the consumer of watcher \<open>id\<close> reads before the 20 seconds are over. The
  object's accessor (\<open>meta.Accessor\<close> and the dynamic type) is the parameter \<open>acc\<close>; \<open>None\<close> is
  an object that has no object metadata.
\<close>

section \<open>Data\<close>

datatype event_type = Added | Modified | Deleted | Bookmark | ErrorEvent

record 'o event =
  ev_type :: event_type
  ev_object :: 'o

record selector =
  sel_Type :: "string option"
  sel_Namespace :: string
  sel_Name :: string

record object_ref =
  ref_type :: string
  ref_namespace :: string
  ref_name :: string

text \<open>
  A watcher: its filter, the events waiting in its channel, and the events its consumer has
  already taken out of the channel (the history the delivery theorem speaks of). \<open>w_kicked\<close>
  says that \<open>sendEvent\<close> gave up on it, so a \<open>Stop\<close> is on its way.
\<close>

record 'o watcher =
  w_filter :: selector
  w_ch :: "'o event list"
  w_taken :: "'o event list"
  w_kicked :: bool

record 'o pubsub =
  ps_watchers :: "(nat \<times> 'o watcher) list"
  ps_seq :: nat

definition channel_capacity :: nat where
  "channel_capacity = 10"

definition new_pubsub :: "'o pubsub" where
  "new_pubsub = \<lparr>ps_watchers = [], ps_seq = 0\<rparr>"

section \<open>Operations\<close>

definition subscribe :: "selector \<Rightarrow> 'o pubsub \<Rightarrow> nat \<times> 'o pubsub" where
  "subscribe filt ps =
     (let i = ps_seq ps + 1;
          w = \<lparr>w_filter = filt, w_ch = [], w_taken = [], w_kicked = False\<rparr>
      in (i, ps\<lparr>ps_seq := i, ps_watchers := AList.update i w (ps_watchers ps)\<rparr>))"

definition is_subscribed :: "selector \<Rightarrow> 'o event \<Rightarrow> object_ref \<Rightarrow> bool" where
  "is_subscribed s evt m =
     (if ev_type evt = ErrorEvent then True
      else if sel_Type s \<noteq> None \<and> sel_Type s \<noteq> Some (ref_type m) then False
      else if sel_Name s \<noteq> [] \<and> sel_Name s \<noteq> ref_name m then False
      else if sel_Namespace s \<noteq> [] \<and> sel_Namespace s \<noteq> ref_namespace m then False
      else True)"

definition send_event :: "nat \<Rightarrow> 'o event \<Rightarrow> 'o watcher \<Rightarrow> 'o watcher" where
  "send_event taken evt w =
     (if length (w_ch w) < channel_capacity then w\<lparr>w_ch := w_ch w @ [evt]\<rparr>
      else if taken = 0 then w\<lparr>w_kicked := True\<rparr>
      else w\<lparr>w_taken := w_taken w @ take taken (w_ch w),
             w_ch := drop taken (w_ch w) @ [evt]\<rparr>)"

definition publish ::
  "('o \<Rightarrow> object_ref option) \<Rightarrow> (nat \<Rightarrow> nat) \<Rightarrow> 'o event \<Rightarrow> 'o pubsub \<Rightarrow> 'o pubsub" where
  "publish acc takes evt ps =
     (case acc (ev_object evt) of
        None \<Rightarrow> ps
      | Some m \<Rightarrow>
          ps\<lparr>ps_watchers := map (\<lambda>(i, w).
              (i, if is_subscribed (w_filter w) evt m then send_event (takes i) evt w else w))
            (ps_watchers ps)\<rparr>)"

text \<open>
  \<open>watcher.Stop\<close>: the watcher leaves the map and its channel is closed and drained. Stopping
  twice is harmless, since the second call finds no channel.
\<close>

definition stop_watcher :: "nat \<Rightarrow> 'o pubsub \<Rightarrow> 'o pubsub" where
  "stop_watcher i ps = ps\<lparr>ps_watchers := AList.delete i (ps_watchers ps)\<rparr>"

text \<open>The consumer reads one event from \<open>ResultChan\<close>; with an empty channel it waits.\<close>

definition receive :: "nat \<Rightarrow> 'o pubsub \<Rightarrow> 'o pubsub" where
  "receive i ps =
     (case map_of (ps_watchers ps) i of
        None \<Rightarrow> ps
      | Some w \<Rightarrow>
          (case w_ch w of
             [] \<Rightarrow> ps
           | e # es \<Rightarrow> ps\<lparr>ps_watchers :=
               AList.update i (w\<lparr>w_ch := es, w_taken := w_taken w @ [e]\<rparr>) (ps_watchers ps)\<rparr>))"

section \<open>Runs\<close>

datatype 'o ps_step =
    Subscribe selector
  | Publish "nat \<Rightarrow> nat" "'o event"
  | Receive nat
  | Stop nat

fun ps_exec :: "('o \<Rightarrow> object_ref option) \<Rightarrow> 'o pubsub \<Rightarrow> 'o ps_step \<Rightarrow> 'o pubsub" where
  "ps_exec acc ps (Subscribe f) = snd (subscribe f ps)"
| "ps_exec acc ps (Publish takes evt) = publish acc takes evt ps"
| "ps_exec acc ps (Receive i) = receive i ps"
| "ps_exec acc ps (Stop i) = stop_watcher i ps"

definition ps_run :: "('o \<Rightarrow> object_ref option) \<Rightarrow> 'o pubsub \<Rightarrow> 'o ps_step list \<Rightarrow> 'o pubsub" where
  "ps_run acc ps es = fold (\<lambda>e ps. ps_exec acc ps e) es ps"

text \<open>The events of a run that a filter selects, in publication order.\<close>

fun selected :: "('o \<Rightarrow> object_ref option) \<Rightarrow> selector \<Rightarrow> 'o ps_step list \<Rightarrow> 'o event list" where
  "selected acc f [] = []"
| "selected acc f (Publish _ evt # es) =
     (case acc (ev_object evt) of
        Some m \<Rightarrow> (if is_subscribed f evt m then [evt] else [])
      | None \<Rightarrow> []) @ selected acc f es"
| "selected acc f (_ # es) = selected acc f es"

section \<open>Invariant\<close>

text \<open>Identifiers are unique, none is above the counter, and no channel is over capacity.\<close>

definition ps_inv :: "'o pubsub \<Rightarrow> bool" where
  "ps_inv ps \<longleftrightarrow> wf_map (ps_watchers ps) \<and>
     (\<forall>i w. map_of (ps_watchers ps) i = Some w \<longrightarrow>
        i \<le> ps_seq ps \<and> length (w_ch w) \<le> channel_capacity)"

lemma ps_invD:
  assumes "ps_inv ps" "map_of (ps_watchers ps) i = Some w"
  shows "i \<le> ps_seq ps" "length (w_ch w) \<le> channel_capacity"
  using assms by (auto simp: ps_inv_def)

lemma ps_inv_new [simp]: "ps_inv new_pubsub"
  by (simp add: ps_inv_def new_pubsub_def)

lemma send_event_capacity:
  "length (w_ch w) \<le> channel_capacity \<Longrightarrow> length (w_ch (send_event t evt w)) \<le> channel_capacity"
  by (auto simp: send_event_def channel_capacity_def)

lemma w_filter_send_event [simp]: "w_filter (send_event t evt w) = w_filter w"
  by (simp add: send_event_def)

text \<open>What one step does to the entry of one watcher.\<close>

lemma map_of_publish:
  "map_of (ps_watchers (publish acc takes evt ps)) i =
     map_option (\<lambda>w. case acc (ev_object evt) of None \<Rightarrow> w
       | Some m \<Rightarrow> if is_subscribed (w_filter w) evt m then send_event (takes i) evt w else w)
     (map_of (ps_watchers ps) i)"
  by (auto simp: publish_def map_of_map_pair option.map_ident split: option.splits)

lemma map_of_receive:
  "map_of (ps_watchers (receive j ps)) i =
     (if i = j then map_option (\<lambda>w. case w_ch w of [] \<Rightarrow> w
        | e # es \<Rightarrow> w\<lparr>w_ch := es, w_taken := w_taken w @ [e]\<rparr>) (map_of (ps_watchers ps) i)
      else map_of (ps_watchers ps) i)"
  by (auto simp: receive_def alist_simps split: option.splits list.splits)

lemma map_of_subscribe:
  "map_of (ps_watchers (snd (subscribe f ps))) i =
     (if i = ps_seq ps + 1 then Some \<lparr>w_filter = f, w_ch = [], w_taken = [], w_kicked = False\<rparr>
      else map_of (ps_watchers ps) i)"
  by (simp add: subscribe_def Let_def alist_simps)

lemma map_of_stop_watcher:
  "map_of (ps_watchers (stop_watcher j ps)) i = (if i = j then None else map_of (ps_watchers ps) i)"
  by (simp add: stop_watcher_def alist_simps)

lemmas ps_lookup_simps = map_of_publish map_of_receive map_of_subscribe map_of_stop_watcher

lemma ps_seq_mono: "ps_seq ps \<le> ps_seq (ps_exec acc ps e)"
  by (cases e) (auto simp: subscribe_def publish_def receive_def stop_watcher_def Let_def
      split: option.splits list.splits)

lemma ps_keys_publish: "map fst (ps_watchers (publish acc takes evt ps)) = map fst (ps_watchers ps)"
  by (auto simp: publish_def split: option.splits)

lemma wf_ps_exec: "wf_map (ps_watchers ps) \<Longrightarrow> wf_map (ps_watchers (ps_exec acc ps e))"
  by (cases e) (auto simp: subscribe_def receive_def stop_watcher_def Let_def
      wf_map_def ps_keys_publish distinct_update distinct_delete split: option.splits list.splits)

lemma ps_inv_exec: "ps_inv ps \<Longrightarrow> ps_inv (ps_exec acc ps e)"
proof -
  assume inv: "ps_inv ps"
  have "i \<le> ps_seq (ps_exec acc ps e) \<and> length (w_ch w) \<le> channel_capacity"
    if w: "map_of (ps_watchers (ps_exec acc ps e)) i = Some w" for i w
  proof (cases e)
    case (Subscribe f)
    then have seq: "ps_seq (ps_exec acc ps e) = ps_seq ps + 1"
      by (simp add: subscribe_def Let_def)
    from Subscribe w have "i = ps_seq ps + 1 \<and> w_ch w = [] \<or> map_of (ps_watchers ps) i = Some w"
      by (auto simp: ps_lookup_simps split: if_splits)
    with inv seq show ?thesis by (fastforce simp: ps_inv_def)
  next
    case (Publish takes evt)
    with w inv ps_seq_mono [of ps acc e] show ?thesis
      by (fastforce simp: ps_lookup_simps ps_inv_def split: option.splits if_splits
          dest: send_event_capacity)
  next
    case (Receive j)
    with w obtain v where v: "map_of (ps_watchers ps) i = Some v"
      and wv: "w = (if i = j then (case w_ch v of [] \<Rightarrow> v
        | e # es \<Rightarrow> v\<lparr>w_ch := es, w_taken := w_taken v @ [e]\<rparr>) else v)"
      by (auto simp: ps_lookup_simps split: if_splits)
    from wv have "length (w_ch w) \<le> length (w_ch v)" by (auto split: list.splits)
    with ps_invD [OF inv v] ps_seq_mono [of ps acc e] show ?thesis by simp
  next
    case (Stop j)
    with w have v: "map_of (ps_watchers ps) i = Some w"
      by (simp add: map_of_stop_watcher split: if_splits)
    with ps_invD [OF inv v] ps_seq_mono [of ps acc e] show ?thesis by simp
  qed
  with inv show "ps_inv (ps_exec acc ps e)"
    by (simp add: ps_inv_def wf_ps_exec)
qed

lemma ps_inv_run: "ps_inv ps \<Longrightarrow> ps_inv (ps_run acc ps es)"
  unfolding ps_run_def by (induction es arbitrary: ps) (auto intro: ps_inv_exec)

section \<open>Delivery\<close>

text \<open>
  The stream a consumer sees: what it has read, then what waits in its channel. A step adds the
  events the filter selects, unless the watcher is kicked, which it stays.
\<close>

definition stream :: "'o watcher \<Rightarrow> 'o event list" where
  "stream w = w_taken w @ w_ch w"

lemma ps_exec_stream:
  assumes inv: "ps_inv ps" and w: "map_of (ps_watchers ps) i = Some w"
    and w': "map_of (ps_watchers (ps_exec acc ps e)) i = Some w'"
    and nk: "\<not> w_kicked w'"
  shows "\<not> w_kicked w \<and> w_filter w' = w_filter w \<and> stream w' = stream w @ selected acc (w_filter w) [e]"
proof (cases e)
  case (Subscribe f)
  have "i \<le> ps_seq ps" using inv w by (simp add: ps_inv_def)
  with Subscribe w w' nk show ?thesis by (simp add: ps_lookup_simps)
next
  case (Publish takes evt)
  show ?thesis
  proof (cases "acc (ev_object evt)")
    case None
    with Publish w w' nk show ?thesis by (simp add: ps_lookup_simps)
  next
    case (Some m)
    with Publish w w' nk show ?thesis
      by (auto simp: ps_lookup_simps send_event_def stream_def split: if_splits)
  qed
next
  case (Receive j)
  with w w' nk show ?thesis
    by (auto simp: ps_lookup_simps stream_def split: if_splits list.splits)
next
  case (Stop j)
  with w w' nk show ?thesis by (auto simp: ps_lookup_simps split: if_splits)
qed

lemma selected_append: "selected acc f (es @ es') = selected acc f es @ selected acc f es'"
  by (induction es rule: selected.induct [of "\<lambda>a g es. selected acc f (es @ es') = selected acc f es @ selected acc f es'" acc f])
     (auto split: option.splits)

lemma selected_Cons: "selected acc f (e # es) = selected acc f [e] @ selected acc f es"
  using selected_append [of acc f "[e]" es] by simp

text \<open>A watcher that is in the map after a step and is not new was there before.\<close>

lemma ps_exec_present:
  assumes "map_of (ps_watchers (ps_exec acc ps e)) i = Some w'" "i \<le> ps_seq ps"
  shows "\<exists>w. map_of (ps_watchers ps) i = Some w"
  using assms by (cases e) (auto simp: ps_lookup_simps split: if_splits)

lemma ps_run_Cons: "ps_run acc ps (e # es) = ps_run acc (ps_exec acc ps e) es"
  by (simp add: ps_run_def)

lemma ps_run_absent:
  "map_of (ps_watchers ps) i = None \<Longrightarrow> i \<le> ps_seq ps \<Longrightarrow> map_of (ps_watchers (ps_run acc ps es)) i = None"
proof (induction es arbitrary: ps)
  case Nil
  then show ?case by (simp add: ps_run_def)
next
  case (Cons e es)
  then have "map_of (ps_watchers (ps_exec acc ps e)) i = None"
    using ps_exec_present [of acc ps e i] by (cases "map_of (ps_watchers (ps_exec acc ps e)) i") auto
  with Cons show ?case using ps_seq_mono [of ps acc e] by (simp add: ps_run_Cons)
qed

lemma ps_run_stream:
  assumes "ps_inv ps" "map_of (ps_watchers ps) i = Some w"
    and "map_of (ps_watchers (ps_run acc ps es)) i = Some w'" "\<not> w_kicked w'"
  shows "\<not> w_kicked w \<and> w_filter w' = w_filter w \<and> stream w' = stream w @ selected acc (w_filter w) es"
  using assms
proof (induction es arbitrary: ps w)
  case Nil
  then show ?case by (simp add: ps_run_def)
next
  case (Cons e es)
  have i: "i \<le> ps_seq (ps_exec acc ps e)"
    using ps_invD(1) [OF Cons.prems(1,2)] ps_seq_mono [of ps acc e] by (rule le_trans)
  obtain v where v: "map_of (ps_watchers (ps_exec acc ps e)) i = Some v"
    using ps_run_absent [OF _ i] Cons.prems(3)
    by (cases "map_of (ps_watchers (ps_exec acc ps e)) i") (auto simp: ps_run_Cons)
  have "\<not> w_kicked v \<and> w_filter w' = w_filter v \<and> stream w' = stream v @ selected acc (w_filter v) es"
    using Cons.IH [OF ps_inv_exec [OF Cons.prems(1)] v] Cons.prems(3,4) by (simp add: ps_run_Cons)
  then show ?case
    using ps_exec_stream [OF Cons.prems(1,2) v] selected_Cons [of acc "w_filter w" e es] by simp
qed

section \<open>Properties\<close>

text \<open>
  C17. Delivery: whatever else happens on the hub, a subscriber that is still registered and was not
  kicked has received, or finds waiting in its channel, exactly the published events its filter
  selects since it subscribed, once each and in publication order.
\<close>

theorem pubsub_delivers_in_order:
  assumes "ps_inv ps" "subscribe f ps = (i, ps0)"
    and "map_of (ps_watchers (ps_run acc ps0 es)) i = Some w" "\<not> w_kicked w"
  shows "w_taken w @ w_ch w = selected acc f es"
proof -
  let ?w0 = "\<lparr>w_filter = f, w_ch = [], w_taken = [], w_kicked = False\<rparr>"
  have ps0: "ps0 = snd (subscribe f ps)" and i: "i = ps_seq ps + 1"
    using assms(2) by (auto simp: subscribe_def Let_def)
  have inv: "ps_inv ps0"
    using ps_inv_exec [OF assms(1), of acc "Subscribe f"] ps0 by simp
  have "map_of (ps_watchers ps0) i = Some ?w0"
    using ps0 i by (simp add: map_of_subscribe)
  from ps_run_stream [OF inv this assms(3,4)] show ?thesis
    by (simp add: stream_def)
qed

definition demo_ref :: "string \<Rightarrow> object_ref option" where
  "demo_ref n = Some \<lparr>ref_type = ''Secret'', ref_namespace = [], ref_name = n\<rparr>"

definition demo_selector :: selector where
  "demo_selector = \<lparr>sel_Type = Some ''Secret'', sel_Namespace = [], sel_Name = ''a''\<rparr>"

definition demo_steps :: "string ps_step list" where
  "demo_steps =
     [Publish (\<lambda>_. 1) \<lparr>ev_type = Added, ev_object = ''a''\<rparr>,
      Publish (\<lambda>_. 1) \<lparr>ev_type = Added, ev_object = ''b''\<rparr>,
      Receive 1,
      Publish (\<lambda>_. 1) \<lparr>ev_type = Deleted, ev_object = ''a''\<rparr>]"

theorem pubsub_delivers_in_order_witness:
  "\<exists>w. map_of (ps_watchers (ps_run demo_ref (snd (subscribe demo_selector new_pubsub)) demo_steps)) 1 = Some w
     \<and> w_taken w @ w_ch w =
       [\<lparr>ev_type = Added, ev_object = ''a''\<rparr>, \<lparr>ev_type = Deleted, ev_object = ''a''\<rparr>]"
proof -
  let ?ps0 = "snd (subscribe demo_selector new_pubsub)"
  have sub: "subscribe demo_selector new_pubsub = (1, ?ps0)"
    by (simp add: subscribe_def new_pubsub_def Let_def)
  obtain w where w: "map_of (ps_watchers (ps_run demo_ref ?ps0 demo_steps)) 1 = Some w" "\<not> w_kicked w"
    by (simp add: subscribe_def new_pubsub_def demo_steps_def ps_run_def publish_def demo_ref_def
        demo_selector_def is_subscribed_def send_event_def receive_def channel_capacity_def)
  have "selected demo_ref demo_selector demo_steps =
      [\<lparr>ev_type = Added, ev_object = ''a''\<rparr>, \<lparr>ev_type = Deleted, ev_object = ''a''\<rparr>]"
    by (simp add: demo_steps_def demo_ref_def demo_selector_def is_subscribed_def)
  with w pubsub_delivers_in_order [OF ps_inv_new sub w] show ?thesis by auto
qed

text \<open>
  In every run from an empty hub, watcher identifiers are unique and never above the counter,
  and no channel ever holds more than the ten events it has room for.
\<close>

theorem pubsub_channels_bounded:
  "wf_map (ps_watchers (ps_run acc new_pubsub es)) \<and>
   list_all (\<lambda>(i, w). i \<le> ps_seq (ps_run acc new_pubsub es) \<and> length (w_ch w) \<le> 10)
     (ps_watchers (ps_run acc new_pubsub es))"
proof -
  have "ps_inv (ps_run acc new_pubsub es)" by (rule ps_inv_run) simp
  then show ?thesis
    by (auto simp: ps_inv_def channel_capacity_def list_all_iff wf_map_in_set_iff)
qed

end
