(* ===== verification/Resource.thy ===== *)
theory Resource
  imports PubSub
begin

text \<open>
  API resources (\<open>pkg/resource/types.go\<close> and the object metadata every kind carries), the
  environment an operation runs in, and the storage interface of \<open>pkg/storage/types.go\<close>: the
  record of its operations, and as a locale the laws its users rely on.
\<close>

section \<open>Resources\<close>

record objmeta =
  om_Name :: string
  om_Namespace :: string
  om_GenerateName :: string
  om_ResourceVersion :: string
  om_Generation :: int
  om_CreationTimestamp :: "nat option"
  om_Labels :: "(string \<times> string) list"
  om_Annotations :: "(string \<times> string) list"

text \<open>
  A resource: type metadata, object metadata and the kind's own content \<open>body\<close> (spec, status or
  data). The zero creation timestamp is \<open>None\<close>.
\<close>

record 'a resource =
  tm_APIVersion :: string
  tm_Kind :: string
  md :: objmeta
  body :: 'a

text \<open>
  What the stores need to know of a kind: the group resource its errors name and its resource
  name alone, the group, version
  and kind the scheme knows for it (\<open>None\<close>: the scheme does not know it), the effect of
  \<open>clear(GetStatus())\<close> on its content (the identity for kinds without status) and its Go type.
\<close>

record 'a resource_type =
  rt_GroupResource :: string
  rt_Resource :: string
  rt_GVK :: "(string \<times> string) option"
  rt_ClearStatus :: "'a \<Rightarrow> 'a"
  rt_GoType :: string

definition empty_meta :: objmeta where
  "empty_meta = \<lparr>om_Name = [], om_Namespace = [], om_GenerateName = [], om_ResourceVersion = [],
     om_Generation = 0, om_CreationTimestamp = None, om_Labels = [], om_Annotations = []\<rparr>"

definition new_resource :: "string \<Rightarrow> 'a \<Rightarrow> 'a resource" where
  "new_resource n b = \<lparr>tm_APIVersion = [], tm_Kind = [], md = empty_meta\<lparr>om_Name := n\<rparr>, body = b\<rparr>"

definition resource_ref :: "'a resource_type \<Rightarrow> 'a resource \<Rightarrow> object_ref option" where
  "resource_ref rt r = Some \<lparr>ref_type = rt_GoType rt, ref_namespace = om_Namespace (md r),
     ref_name = om_Name (md r)\<rparr>"

abbreviation version :: "'a resource \<Rightarrow> string" where
  "version r \<equiv> om_ResourceVersion (md r)"

abbreviation rname :: "'a resource \<Rightarrow> string" where
  "rname r \<equiv> om_Name (md r)"

definition set_gvk :: "'a resource_type \<Rightarrow> 'a resource \<Rightarrow> 'a resource" where
  "set_gvk rt r =
     (case rt_GVK rt of
        None \<Rightarrow> r
      | Some (apiVersion, kind) \<Rightarrow> r\<lparr>tm_APIVersion := apiVersion, tm_Kind := kind\<rparr>)"

lemma set_gvk_simps [simp]:
  "md (set_gvk rt r) = md r" "body (set_gvk rt r) = body r"
  by (auto simp: set_gvk_def split: option.splits)

section \<open>The environment of an operation\<close>

text \<open>
  The steps of the file store that the operating system may refuse, the clock, the consumers of
  the hub, and the random number \<open>TempFile\<close> picks.
\<close>

datatype io_step = IoMkdir | IoTempFile | IoSync | IoClose | IoRename | IoRemove | IoRemoveTemp

record env =
  env_now :: nat
  env_takes :: "nat \<Rightarrow> nat"
  env_io :: "io_step \<Rightarrow> string option"
  env_tmp :: nat

section \<open>The storage interface\<close>

record 'a list_result =
  ll_ResourceVersion :: string
  ll_APIVersion :: string
  ll_Kind :: string
  ll_Items :: "'a resource list"

text \<open>
  The operations of \<open>storage.Interface\<close>. A Go callback that changes the resource it captured is
  a function from the fetched resource to an error or the changed resource; a validation callback
  returns the error or nothing. Every operation returns the store's next state with its result,
  because a refused write may have used up a version number or touched the disk.
\<close>

record ('s, 'a) store_ops =
  op_watch :: "'s \<Rightarrow> string \<Rightarrow> 's \<times> (go_error + nat)"
  op_list :: "'s \<Rightarrow> 'a list_result"
  op_get :: "'s \<Rightarrow> string \<Rightarrow> go_error + 'a resource"
  op_create :: "env \<Rightarrow> 's \<Rightarrow> string \<Rightarrow> 'a resource \<Rightarrow> 's \<times> (go_error + 'a resource)"
  op_delete :: "env \<Rightarrow> 's \<Rightarrow> string \<Rightarrow> ('a resource \<Rightarrow> go_error option) \<Rightarrow> 's \<times> (go_error + 'a resource)"
  op_update :: "env \<Rightarrow> 's \<Rightarrow> string \<Rightarrow> ('a resource \<Rightarrow> go_error + 'a resource) \<Rightarrow> 's \<times> (go_error + 'a resource)"

text \<open>
  The contract: a store is seen through \<open>view\<close>, a map from keys to resources. Reads agree with
  it; a write that succeeds changes one key as asked, a write that fails changes nothing a reader
  can see; an update goes through only if its callback leaves the resource version alone, and
  gives the resource a new one.
\<close>

locale storage =
  fixes ops :: "('s, 'a) store_ops"
    and inv :: "'s \<Rightarrow> bool"
    and view :: "'s \<Rightarrow> string \<Rightarrow> 'a resource option"
    and rt :: "'a resource_type"
  assumes get_law: "inv s \<Longrightarrow> op_get ops s k =
      (case view s k of None \<Rightarrow> Inl (NotFound (rt_GroupResource rt) k) | Some r \<Rightarrow> Inr r)"
    and list_law: "inv s \<Longrightarrow> \<exists>ks. sorted ks \<and> distinct ks \<and> set ks = dom (view s) \<and>
      ll_Items (op_list ops s) = map (\<lambda>k. set_gvk rt (the (view s k))) ks"
    and create_inv: "inv s \<Longrightarrow> inv (fst (op_create ops e s k r))"
    and create_fail: "inv s \<Longrightarrow> op_create ops e s k r = (s', Inl err) \<Longrightarrow> view s' = view s"
    and create_ok: "inv s \<Longrightarrow> op_create ops e s k r = (s', Inr r') \<Longrightarrow>
      view s k = None \<and> view s' = (view s)(k \<mapsto> r') \<and> body r' = body r \<and> rname r' = k"
    and create_exists: "inv s \<Longrightarrow> view s k = Some old \<Longrightarrow>
      snd (op_create ops e s k r) = Inl (AlreadyExists (rt_GroupResource rt) k)"
    and delete_inv: "inv s \<Longrightarrow> inv (fst (op_delete ops e s k v))"
    and delete_fail: "inv s \<Longrightarrow> op_delete ops e s k v = (s', Inl err) \<Longrightarrow> view s' = view s"
    and delete_ok: "inv s \<Longrightarrow> op_delete ops e s k v = (s', Inr r') \<Longrightarrow>
      view s k = Some r' \<and> v r' = None \<and> view s' = (view s)(k := None)"
    and update_inv: "inv s \<Longrightarrow> inv (fst (op_update ops e s k f))"
    and update_fail: "inv s \<Longrightarrow> op_update ops e s k f = (s', Inl err) \<Longrightarrow> view s' = view s"
    and update_ok: "inv s \<Longrightarrow> op_update ops e s k f = (s', Inr r') \<Longrightarrow>
      \<exists>old new. view s k = Some old \<and> f old = Inr new \<and> version new = version old \<and>
        body r' = body new \<and> rname r' = rname new \<and> version r' \<noteq> version old \<and>
        view s' = (view s)(k \<mapsto> r')"
    and update_missing: "inv s \<Longrightarrow> view s k = None \<Longrightarrow>
      snd (op_update ops e s k f) = Inl (NotFound (rt_GroupResource rt) k)"
begin

lemma get_Inr_iff: "inv s \<Longrightarrow> op_get ops s k = Inr r \<longleftrightarrow> view s k = Some r"
  by (auto simp: get_law split: option.splits)

lemma get_Inl: "inv s \<Longrightarrow> op_get ops s k = Inl e \<Longrightarrow> e = NotFound (rt_GroupResource rt) k \<and> view s k = None"
  by (auto simp: get_law split: option.splits)

lemma get_not_found: "inv s \<Longrightarrow> op_get ops s k = Inl e \<Longrightarrow> is_not_found e"
  by (drule (1) get_Inl) simp

lemma get_after_create:
  "inv s \<Longrightarrow> op_create ops e s k r = (s', Inr r') \<Longrightarrow> op_get ops s' k = Inr r'"
  using create_ok [of s e k r s' r'] create_inv [of s e k r] by (simp add: get_law)

lemma get_after_update:
  "inv s \<Longrightarrow> op_update ops e s k f = (s', Inr r') \<Longrightarrow> op_get ops s' k = Inr r'"
  using update_ok [of s e k f s' r'] update_inv [of s e k f] by (auto simp: get_law)

lemma get_after_delete:
  "inv s \<Longrightarrow> op_delete ops e s k v = (s', Inr r') \<Longrightarrow>
   op_get ops s' k = Inl (NotFound (rt_GroupResource rt) k)"
  using delete_ok [of s e k v s' r'] delete_inv [of s e k v] by (simp add: get_law)

text \<open>
  Optimistic concurrency: a writer that read an older version than the one stored never changes
  the store.
\<close>

lemma stale_update_refused:
  assumes "inv s" "view s k = Some cur" "\<And>old new. f old = Inr new \<Longrightarrow> version new = v" "v \<noteq> version cur"
  shows "\<exists>err. snd (op_update ops e s k f) = Inl err \<and> view (fst (op_update ops e s k f)) = view s"
proof (cases "op_update ops e s k f")
  case (Pair s' res)
  show ?thesis
  proof (cases res)
    case (Inl err)
    with update_fail [OF assms(1)] Pair show ?thesis by simp
  next
    case (Inr r')
    with update_ok [OF assms(1), of e k f s' r'] Pair assms(2-4) show ?thesis by fastforce
  qed
qed

lemma list_bodies:
  assumes "inv s"
  shows "\<exists>ks. sorted ks \<and> distinct ks \<and> set ks = dom (view s) \<and>
    map md (ll_Items (op_list ops s)) = map (\<lambda>k. md (the (view s k))) ks \<and>
    map body (ll_Items (op_list ops s)) = map (\<lambda>k. body (the (view s k))) ks"
  using list_law [OF assms] by (auto simp: comp_def)

end

text \<open>A store whose writes are refused only for the reasons its clients can see.\<close>

locale reliable_storage = storage +
  assumes create_succeeds: "inv s \<Longrightarrow> view s k = None \<Longrightarrow>
      \<exists>s' r'. op_create ops e s k r = (s', Inr r')"
    and update_succeeds: "inv s \<Longrightarrow> view s k = Some old \<Longrightarrow> f old = Inr new \<Longrightarrow>
      version new = version old \<Longrightarrow> \<exists>s' r'. op_update ops e s k f = (s', Inr r')"
    and delete_succeeds: "inv s \<Longrightarrow> view s k = Some old \<Longrightarrow> v old = None \<Longrightarrow>
      \<exists>s'. op_delete ops e s k v = (s', Inr old)"

end
