(* ===== verification/Storage.thy ===== *)
theory Storage
  imports Resource
begin

text \<open>
  The in-memory store of \<open>pkg/storage\<close> (\<open>inmemorystore.go\<close>).

  Go maps are association lists; the sequence number, an \<open>int64\<close> that grows by one per write, is a
  \<open>nat\<close> (it would take \<open>2^63\<close> writes to overflow). Each operation runs under the store's mutex,
  so it is one step; \<open>Locking\<close> takes the steps apart. Resources are values: what callers may do to the
  objects they hand over is the subject of \<open>SharedObjects\<close>.
\<close>

section \<open>The in-memory store\<close>

record 'a memstore =
  ms_items :: "(string \<times> 'a resource) list"
  ms_seq :: nat
  ms_pubsub :: "'a resource pubsub"

definition InMemory :: "'a memstore" where
  "InMemory = \<lparr>ms_items = [], ms_seq = 0, ms_pubsub = new_pubsub\<rparr>"

definition emit :: "'a resource_type \<Rightarrow> env \<Rightarrow> event_type \<Rightarrow> 'a resource \<Rightarrow> 'a memstore \<Rightarrow> 'a memstore" where
  "emit rt e action r s =
     s\<lparr>ms_pubsub := publish (resource_ref rt) (env_takes e) \<lparr>ev_type = action, ev_object = r\<rparr> (ms_pubsub s)\<rparr>"

definition set_resource_version :: "'a memstore \<Rightarrow> 'a resource \<Rightarrow> 'a memstore \<times> 'a resource" where
  "set_resource_version s r =
     (let n = ms_seq s + 1
      in (s\<lparr>ms_seq := n\<rparr>, r\<lparr>md := (md r)\<lparr>om_ResourceVersion := show_nat n\<rparr>\<rparr>))"

definition set_name_and_creation_timestamp :: "env \<Rightarrow> 'a resource \<Rightarrow> string \<Rightarrow> 'a resource" where
  "set_name_and_creation_timestamp e r n =
     r\<lparr>md := (md r)\<lparr>om_Name := n,
       om_CreationTimestamp := (case om_CreationTimestamp (md r) of None \<Rightarrow> Some (env_now e) | Some t \<Rightarrow> Some t)\<rparr>\<rparr>"

definition mem_watch :: "'a memstore \<Rightarrow> string \<Rightarrow> 'a memstore \<times> (go_error + nat)" where
  "mem_watch s rv =
     (if rv \<noteq> [] \<and> rv \<noteq> show_nat (ms_seq s) then
        (s, Inl (Gone rv))
      else
        (case subscribe \<lparr>sel_Type = None, sel_Namespace = [], sel_Name = []\<rparr> (ms_pubsub s) of
           (i, ps) \<Rightarrow> (s\<lparr>ms_pubsub := ps\<rparr>, Inr i)))"

definition mem_list :: "'a resource_type \<Rightarrow> 'a memstore \<Rightarrow> 'a list_result" where
  "mem_list rt s =
     \<lparr>ll_ResourceVersion = show_nat (ms_seq s), ll_APIVersion = ''v1'', ll_Kind = ''List'',
      ll_Items = map (\<lambda>k. set_gvk rt (the (map_of (ms_items s) k))) (sort (map fst (ms_items s)))\<rparr>"

definition mem_get :: "'a resource_type \<Rightarrow> 'a memstore \<Rightarrow> string \<Rightarrow> go_error + 'a resource" where
  "mem_get rt s key =
     (case map_of (ms_items s) key of
        None \<Rightarrow> Inl (NotFound (rt_GroupResource rt) key)
      | Some item \<Rightarrow> Inr item)"

definition mem_create ::
  "'a resource_type \<Rightarrow> env \<Rightarrow> 'a memstore \<Rightarrow> string \<Rightarrow> 'a resource \<Rightarrow> 'a memstore \<times> (go_error + 'a resource)" where
  "mem_create rt e s key res =
     (case map_of (ms_items s) key of
        Some _ \<Rightarrow> (s, Inl (AlreadyExists (rt_GroupResource rt) key))
      | None \<Rightarrow>
          (case set_resource_version s (set_name_and_creation_timestamp e (set_gvk rt res) key) of
             (s1, r) \<Rightarrow> (emit rt e Added r (s1\<lparr>ms_items := AList.update key r (ms_items s1)\<rparr>), Inr r)))"

text \<open>
  \<open>Delete\<close> and \<open>Update\<close> take a callback that may itself have effects (the file store writes the
  disk from inside it): the callback gets and returns a state of its own.
\<close>

definition mem_delete_cb ::
  "'a resource_type \<Rightarrow> env \<Rightarrow> 'a memstore \<Rightarrow> string \<Rightarrow> 'x \<Rightarrow> ('x \<Rightarrow> 'a resource \<Rightarrow> 'x \<times> go_error option)
   \<Rightarrow> 'a memstore \<times> 'x \<times> (go_error + 'a resource)" where
  "mem_delete_cb rt e s key x validate =
     (case map_of (ms_items s) key of
        None \<Rightarrow> (s, x, Inl (NotFound (rt_GroupResource rt) key))
      | Some existing \<Rightarrow>
          (case validate x existing of
             (x', Some err) \<Rightarrow> (s, x', Inl (Wrap ''delete resource: '' err))
           | (x', None) \<Rightarrow>
               (emit rt e Deleted existing (s\<lparr>ms_items := AList.delete key (ms_items s)\<rparr>), x', Inr existing)))"

definition mem_update_cb ::
  "'a resource_type \<Rightarrow> env \<Rightarrow> 'a memstore \<Rightarrow> string \<Rightarrow> 'x \<Rightarrow> ('x \<Rightarrow> 'a resource \<Rightarrow> 'x \<times> (go_error + 'a resource))
   \<Rightarrow> 'a memstore \<times> 'x \<times> (go_error + 'a resource)" where
  "mem_update_cb rt e s key x modify =
     (case map_of (ms_items s) key of
        None \<Rightarrow> (s, x, Inl (NotFound (rt_GroupResource rt) key))
      | Some existing \<Rightarrow>
          (case modify x existing of
             (x', Inl err) \<Rightarrow> (s, x', Inl (Wrap ''update resource: '' err))
           | (x', Inr res) \<Rightarrow>
               if version existing \<noteq> version res then
                 (s, x', Inl (Conflict (rt_GroupResource rt) key
                   ''resource was changed concurrently, please fetch the latest resource version and apply your changes again''))
               else
                 (case set_resource_version s (set_gvk rt res) of
                    (s1, r) \<Rightarrow>
                      (emit rt e Modified r (s1\<lparr>ms_items := AList.update key r (ms_items s1)\<rparr>), x', Inr r))))"

definition mem_delete ::
  "'a resource_type \<Rightarrow> env \<Rightarrow> 'a memstore \<Rightarrow> string \<Rightarrow> ('a resource \<Rightarrow> go_error option)
   \<Rightarrow> 'a memstore \<times> (go_error + 'a resource)" where
  "mem_delete rt e s key validate =
     (case mem_delete_cb rt e s key () (\<lambda>_ r. ((), validate r)) of (s', _, res) \<Rightarrow> (s', res))"

definition mem_update ::
  "'a resource_type \<Rightarrow> env \<Rightarrow> 'a memstore \<Rightarrow> string \<Rightarrow> ('a resource \<Rightarrow> go_error + 'a resource)
   \<Rightarrow> 'a memstore \<times> (go_error + 'a resource)" where
  "mem_update rt e s key modify =
     (case mem_update_cb rt e s key () (\<lambda>_ r. ((), modify r)) of (s', _, res) \<Rightarrow> (s', res))"

definition mem_ops :: "'a resource_type \<Rightarrow> ('a memstore, 'a) store_ops" where
  "mem_ops rt = \<lparr>op_watch = mem_watch, op_list = mem_list rt, op_get = mem_get rt,
     op_create = mem_create rt, op_delete = mem_delete rt, op_update = mem_update rt\<rparr>"

subsection \<open>Invariant and contract\<close>

text \<open>
  Keys are unique, every stored version is a number the counter has given out, no two resources
  share one, and the hub is in order.
\<close>

definition mem_inv :: "'a memstore \<Rightarrow> bool" where
  "mem_inv s \<longleftrightarrow> wf_map (ms_items s) \<and> ps_inv (ms_pubsub s) \<and>
     (\<forall>k r. map_of (ms_items s) k = Some r \<longrightarrow> (\<exists>n \<le> ms_seq s. version r = show_nat n)) \<and>
     (\<forall>k k' r r'. map_of (ms_items s) k = Some r \<longrightarrow> map_of (ms_items s) k' = Some r' \<longrightarrow>
        version r = version r' \<longrightarrow> k = k')"

abbreviation mem_view :: "'a memstore \<Rightarrow> string \<Rightarrow> 'a resource option" where
  "mem_view s \<equiv> map_of (ms_items s)"

lemma mem_inv_InMemory [simp]: "mem_inv InMemory"
  by (simp add: mem_inv_def InMemory_def)

lemma view_InMemory [simp]: "mem_view InMemory k = None"
  by (simp add: InMemory_def)

lemma emit_simps [simp]:
  "ms_items (emit rt e a r s) = ms_items s" "ms_seq (emit rt e a r s) = ms_seq s"
  by (simp_all add: emit_def)

lemma ps_inv_emit: "ps_inv (ms_pubsub s) \<Longrightarrow> ps_inv (ms_pubsub (emit rt e a r s))"
  using ps_inv_exec [of "ms_pubsub s" "resource_ref rt" "Publish (env_takes e) \<lparr>ev_type = a, ev_object = r\<rparr>"]
  by (simp add: emit_def)

lemma set_resource_version_simps:
  "set_resource_version s r = (s1, r1) \<longleftrightarrow>
     s1 = s\<lparr>ms_seq := ms_seq s + 1\<rparr> \<and> r1 = r\<lparr>md := (md r)\<lparr>om_ResourceVersion := show_nat (ms_seq s + 1)\<rparr>\<rparr>"
  by (auto simp: set_resource_version_def Let_def)

lemma body_set_name [simp]:
  "body (set_name_and_creation_timestamp e r n) = body r"
  "rname (set_name_and_creation_timestamp e r n) = n"
  by (simp_all add: set_name_and_creation_timestamp_def)

text \<open>Storing a resource under a fresh version number keeps the invariant.\<close>

lemma mem_inv_store:
  assumes "mem_inv s" "version r = show_nat (ms_seq s + 1)"
    and "ms_items s' = AList.update key r (ms_items s)" "ms_seq s' = ms_seq s + 1" "ps_inv (ms_pubsub s')"
  shows "mem_inv s'"
proof -
  have fresh: "version q \<noteq> version r" if q: "map_of (ms_items s) k = Some q" for k q
  proof -
    obtain n where "n \<le> ms_seq s" "version q = show_nat n"
      using assms(1) q unfolding mem_inv_def by blast
    then show ?thesis using assms(2) by simp
  qed
  have "\<exists>n \<le> ms_seq s'. version q = show_nat n" if q: "map_of (ms_items s') k = Some q" for k q
  proof (cases "k = key")
    case True
    with q assms(2-4) show ?thesis by (auto simp: alist_simps)
  next
    case False
    with q assms(3) have "map_of (ms_items s) k = Some q" by (simp add: alist_simps)
    with assms(1) obtain n where "n \<le> ms_seq s" "version q = show_nat n" unfolding mem_inv_def by blast
    with assms(4) show ?thesis by (intro exI [of _ n]) simp
  qed
  moreover have "k = k'"
    if "map_of (ms_items s') k = Some q" "map_of (ms_items s') k' = Some q'" "version q = version q'" for k k' q q'
    using that assms(1) fresh assms(3)
    by (cases "k = key"; cases "k' = key") (auto simp: alist_simps mem_inv_def)
  ultimately show ?thesis
    using assms(1,3,5) by (simp add: mem_inv_def)
qed

lemma mem_inv_remove:
  assumes "mem_inv s" "ms_items s' = AList.delete key (ms_items s)" "ms_seq s' = ms_seq s" "ps_inv (ms_pubsub s')"
  shows "mem_inv s'"
  using assms unfolding mem_inv_def by (auto simp: alist_simps split: if_splits)

text \<open>What each operation returns, branch by branch.\<close>

lemma mem_create_cases:
  "mem_create rt e s key r =
     (if key \<in> dom (mem_view s) then (s, Inl (AlreadyExists (rt_GroupResource rt) key))
      else let r' = (set_name_and_creation_timestamp e (set_gvk rt r) key);
               r'' = r'\<lparr>md := (md r')\<lparr>om_ResourceVersion := show_nat (ms_seq s + 1)\<rparr>\<rparr>
           in (emit rt e Added r'' (s\<lparr>ms_seq := ms_seq s + 1, ms_items := AList.update key r'' (ms_items s)\<rparr>), Inr r''))"
  by (auto simp: mem_create_def set_resource_version_def Let_def split: option.splits)

lemma mem_create_Inr:
  assumes "mem_create rt e s key r = (s', Inr r')"
  shows "mem_view s key = None" "ms_items s' = AList.update key r' (ms_items s)"
    "ms_seq s' = ms_seq s + 1" "version r' = show_nat (ms_seq s + 1)" "body r' = body r" "rname r' = key"
  using assms by (auto simp: mem_create_cases Let_def split: if_splits)

lemma mem_create_Inl:
  "mem_create rt e s key r = (s', Inl err) \<Longrightarrow>
   s' = s \<and> err = AlreadyExists (rt_GroupResource rt) key \<and> key \<in> dom (mem_view s)"
  by (auto simp: mem_create_cases Let_def split: if_splits)

lemma mem_inv_create: "mem_inv s \<Longrightarrow> mem_inv (fst (mem_create rt e s key r))"
proof -
  assume inv: "mem_inv s"
  obtain s' res where c: "mem_create rt e s key r = (s', res)" by fastforce
  show ?thesis
  proof (cases res)
    case (Inl err)
    with c mem_create_Inl inv show ?thesis by fastforce
  next
    case (Inr r')
    with c have m: "mem_create rt e s key r = (s', Inr r')" by simp
    have "ps_inv (ms_pubsub s')"
      using m inv by (auto simp: mem_create_cases Let_def mem_inv_def intro!: ps_inv_emit split: if_splits)
    then show ?thesis
      using mem_inv_store [OF inv mem_create_Inr(4) [OF m] mem_create_Inr(2,3) [OF m]] c by simp
  qed
qed

lemma mem_update_cb_cases:
  "mem_update_cb rt e s key x f =
     (case mem_view s key of
        None \<Rightarrow> (s, x, Inl (NotFound (rt_GroupResource rt) key))
      | Some old \<Rightarrow>
          (case f x old of
             (x', Inl err) \<Rightarrow> (s, x', Inl (Wrap ''update resource: '' err))
           | (x', Inr new) \<Rightarrow>
               if version old \<noteq> version new then
                 (s, x', Inl (Conflict (rt_GroupResource rt) key
                   ''resource was changed concurrently, please fetch the latest resource version and apply your changes again''))
               else
                 (let r = (set_gvk rt new)\<lparr>md := (md new)\<lparr>om_ResourceVersion := show_nat (ms_seq s + 1)\<rparr>\<rparr>
                  in (emit rt e Modified r (s\<lparr>ms_seq := ms_seq s + 1, ms_items := AList.update key r (ms_items s)\<rparr>), x', Inr r))))"
  by (auto simp: mem_update_cb_def set_resource_version_def Let_def split: option.splits sum.splits prod.splits)

lemma mem_update_cb_Inl: "mem_update_cb rt e s key x f = (s', x', Inl err) \<Longrightarrow> s' = s"
  by (auto simp: mem_update_cb_cases Let_def split: option.splits sum.splits prod.splits if_splits)

lemma mem_update_cb_Inr:
  assumes "mem_update_cb rt e s key x f = (s', x', Inr r')"
  obtains old new where "mem_view s key = Some old" "f x old = (x', Inr new)" "version new = version old"
    "body r' = body new" "rname r' = rname new" "version r' = show_nat (ms_seq s + 1)"
    "ms_items s' = AList.update key r' (ms_items s)" "ms_seq s' = ms_seq s + 1"
    "mem_inv s \<Longrightarrow> mem_inv s'"
    "r' = (set_gvk rt new)\<lparr>md := (md new)\<lparr>om_ResourceVersion := show_nat (ms_seq s + 1)\<rparr>\<rparr>"
proof -
  from assms obtain old new where 1: "mem_view s key = Some old" "f x old = (x', Inr new)" "version new = version old"
    "r' = (set_gvk rt new)\<lparr>md := (md new)\<lparr>om_ResourceVersion := show_nat (ms_seq s + 1)\<rparr>\<rparr>"
    "s' = emit rt e Modified r' (s\<lparr>ms_seq := ms_seq s + 1, ms_items := AList.update key r' (ms_items s)\<rparr>)"
    by (auto simp: mem_update_cb_cases Let_def split: option.splits sum.splits prod.splits if_splits)
  have "mem_inv s'" if inv: "mem_inv s"
  proof (rule mem_inv_store [OF inv])
    have "ps_inv (ms_pubsub s)" using inv by (simp add: mem_inv_def)
    then show "ps_inv (ms_pubsub s')" unfolding 1(5) by (intro ps_inv_emit) simp
  qed (simp_all add: 1(4,5))
  with 1 that show thesis by simp
qed

lemma mem_update_cb_inv: "mem_inv s \<Longrightarrow> mem_inv (fst (mem_update_cb rt e s key x f))"
proof -
  assume inv: "mem_inv s"
  obtain s' x' res where u: "mem_update_cb rt e s key x f = (s', x', res)" by (metis prod_cases3)
  show ?thesis
  proof (cases res)
    case (Inl err)
    with u have "mem_update_cb rt e s key x f = (s', x', Inl err)" by simp
    from mem_update_cb_Inl [OF this] u inv show ?thesis by simp
  next
    case (Inr r')
    with u have "mem_update_cb rt e s key x f = (s', x', Inr r')" by simp
    then have "mem_inv s'" using inv by (elim mem_update_cb_Inr) simp
    with u show ?thesis by simp
  qed
qed

lemma mem_delete_cb_Inl: "mem_delete_cb rt e s key x f = (s', x', Inl err) \<Longrightarrow> s' = s"
  by (auto simp: mem_delete_cb_def split: option.splits prod.splits)

lemma mem_delete_cb_Inr:
  assumes "mem_delete_cb rt e s key x f = (s', x', Inr r)"
  shows "mem_view s key = Some r" "f x r = (x', None)" "ms_items s' = AList.delete key (ms_items s)"
    "mem_inv s \<Longrightarrow> mem_inv s'"
proof -
  from assms have 1: "mem_view s key = Some r" "f x r = (x', None)"
    "s' = emit rt e Deleted r (s\<lparr>ms_items := AList.delete key (ms_items s)\<rparr>)"
    by (auto simp: mem_delete_cb_def split: option.splits prod.splits)
  have "mem_inv s'" if inv: "mem_inv s"
  proof (rule mem_inv_remove [OF inv])
    have "ps_inv (ms_pubsub s)" using inv by (simp add: mem_inv_def)
    then show "ps_inv (ms_pubsub s')" unfolding 1(3) by (intro ps_inv_emit) simp
  qed (simp_all add: 1(3))
  with 1 show "mem_view s key = Some r" "f x r = (x', None)" "ms_items s' = AList.delete key (ms_items s)"
    "mem_inv s \<Longrightarrow> mem_inv s'" by simp_all
qed

lemma mem_delete_cb_inv: "mem_inv s \<Longrightarrow> mem_inv (fst (mem_delete_cb rt e s key x f))"
proof -
  assume inv: "mem_inv s"
  obtain s' x' res where u: "mem_delete_cb rt e s key x f = (s', x', res)" by (metis prod_cases3)
  show ?thesis
  proof (cases res)
    case (Inl err)
    with u have "mem_delete_cb rt e s key x f = (s', x', Inl err)" by simp
    from mem_delete_cb_Inl [OF this] u inv show ?thesis by simp
  next
    case (Inr r')
    with u have "mem_delete_cb rt e s key x f = (s', x', Inr r')" by simp
    from mem_delete_cb_Inr(4) [OF this inv] u show ?thesis by simp
  qed
qed

lemma sorted_keys_dom:
  "wf_map m \<Longrightarrow> sorted (sort (map fst m)) \<and> distinct (sort (map fst m)) \<and> set (sort (map fst m)) = dom (map_of m)"
  by (simp add: wf_map_def dom_map_of_conv_image_fst)

text \<open>The in-memory store meets the contract, and refuses nothing its clients cannot foresee.\<close>

interpretation mem: reliable_storage "mem_ops rt" mem_inv mem_view rt for rt
proof (unfold_locales, goal_cases)
  case (1 s k) then show ?case by (simp add: mem_ops_def mem_get_def)
next
  case (2 s) then show ?case
    using sorted_keys_dom [of "ms_items s"]
    by (intro exI [of _ "sort (map fst (ms_items s))"]) (simp add: mem_ops_def mem_list_def mem_inv_def)
next
  case (3 s e k r) then show ?case by (simp add: mem_ops_def mem_inv_create)
next
  case (4 s e k r s' err) then show ?case by (auto simp: mem_ops_def dest: mem_create_Inl)
next
  case (5 s e k r s' r') then show ?case
    using mem_create_Inr [of rt e s k r s' r'] by (simp add: mem_ops_def alist_simps)
next
  case (6 s k old e r) then show ?case by (simp add: mem_ops_def mem_create_cases domI)
next
  case (7 s e k v) then show ?case
    using mem_delete_cb_inv [of s rt e k "()"] by (simp add: mem_ops_def mem_delete_def split: prod.splits) (metis fst_conv)
next
  case (8 s e k v s' err) then show ?case
    by (auto simp: mem_ops_def mem_delete_def dest: mem_delete_cb_Inl split: prod.splits)
next
  case (9 s e k v s' r') then show ?case
    by (auto simp: mem_ops_def mem_delete_def alist_simps dest: mem_delete_cb_Inr split: prod.splits)
next
  case (10 s e k f) then show ?case
    using mem_update_cb_inv [of s rt e k "()"] by (simp add: mem_ops_def mem_update_def split: prod.splits) (metis fst_conv)
next
  case (11 s e k f s' err) then show ?case
    by (auto simp: mem_ops_def mem_update_def dest: mem_update_cb_Inl split: prod.splits)
next
  case (12 s e k f s' r')
  then obtain x' where u: "mem_update_cb rt e s k () (\<lambda>_ r. ((), f r)) = (s', x', Inr r')"
    by (auto simp: mem_ops_def mem_update_def split: prod.splits)
  from u obtain old new where o: "mem_view s k = Some old" "f old = Inr new" "version new = version old"
    "body r' = body new" "rname r' = rname new" "version r' = show_nat (ms_seq s + 1)"
    "ms_items s' = AList.update k r' (ms_items s)"
    by (elim mem_update_cb_Inr) simp
  moreover obtain n where "n \<le> ms_seq s" "version old = show_nat n"
    using 12(1) o(1) unfolding mem_inv_def by blast
  ultimately show ?case by (auto simp: alist_simps)
next
  case (13 s k e f) then show ?case by (simp add: mem_ops_def mem_update_def mem_update_cb_def)
next
  case (14 s k e r) then show ?case by (auto simp: mem_ops_def mem_create_cases Let_def)
next
  case (15 s k old f new e) then show ?case
    by (auto simp: mem_ops_def mem_update_def mem_update_cb_cases Let_def)
next
  case (16 s k old v e) then show ?case by (auto simp: mem_ops_def mem_delete_def mem_delete_cb_def)
qed

text \<open>A store whose resources are named by their keys.\<close>

definition keys_named :: "'a memstore \<Rightarrow> bool" where
  "keys_named s \<longleftrightarrow> (\<forall>k r. mem_view s k = Some r \<longrightarrow> rname r = k)"

lemma list_names:
  assumes "mem_inv s" "keys_named s"
  shows "map rname (ll_Items (mem_list rt s)) = sort (map fst (ms_items s))"
proof -
  have "rname (set_gvk rt (the (mem_view s k))) = k" if "k \<in> set (sort (map fst (ms_items s)))" for k
  proof -
    from that have "k \<in> dom (mem_view s)" by (simp add: dom_map_of_conv_image_fst)
    then obtain r where "mem_view s k = Some r" by blast
    with assms(2) show ?thesis by (simp add: keys_named_def set_gvk_def split: option.splits prod.splits)
  qed
  then have "map (\<lambda>k. rname (set_gvk rt (the (mem_view s k)))) (sort (map fst (ms_items s))) = sort (map fst (ms_items s))"
    by (rule map_idI)
  then show ?thesis by (simp add: mem_list_def o_def)
qed

end
