(* ===== verification/FileStore.thy ===== *)
theory FileStore
  imports Storage
begin

text \<open>
  The file store of \<open>pkg/storage/filestore.go\<close>: an in-memory store whose writes also go to one
  JSON file per resource, \<open><key>.yaml\<close> in the store's directory, without status and resource
  version. The directory is an association list from file names to contents; the content of a
  file that is not completely written is \<open>None\<close>. The codec is the parameter \<open>codec\<close>, what the
  operating system refuses is \<open>env_io\<close>.
\<close>

section \<open>Data\<close>

type_synonym 'b dir = "(string \<times> 'b option) list"

record ('a, 'b) codec =
  encode :: "'a resource \<Rightarrow> go_error + 'b"
  decode :: "'b option \<Rightarrow> go_error + 'a resource"

record ('a, 'b) filestore =
  fs_mem :: "'a memstore"
  fs_dir :: "'b dir"

definition file_name :: "string \<Rightarrow> string" where
  "file_name key = key @ ''.yaml''"

definition tmp_name :: "env \<Rightarrow> string" where
  "tmp_name e = ''.tmp-'' @ show_nat (env_tmp e)"

definition without_status_and_resource_version :: "'a resource_type \<Rightarrow> 'a resource \<Rightarrow> 'a resource" where
  "without_status_and_resource_version rt r =
     r\<lparr>body := rt_ClearStatus rt (body r), md := (md r)\<lparr>om_ResourceVersion := []\<rparr>\<rparr>"

section \<open>Writing a file\<close>

text \<open>
  \<open>writeFile\<close> as the states the directory goes through, the last one being the result, and the
  error: create a temporary file, encode into it, sync, close, and rename it over the destination.
  A failed encoding removes the temporary file, the later failures leave it behind.
\<close>

definition write_file_states ::
  "('a, 'b) codec \<Rightarrow> 'a resource_type \<Rightarrow> env \<Rightarrow> string \<Rightarrow> 'a resource \<Rightarrow> 'b dir \<Rightarrow> 'b dir list \<times> go_error option" where
  "write_file_states codec rt e key obj dir =
     (case env_io e IoTempFile of
        Some m \<Rightarrow> ([dir], Some (Errorf m))
      | None \<Rightarrow>
          (let f = tmp_name e; d1 = AList.update f None dir in
           case encode codec (without_status_and_resource_version rt obj) of
             Inl err \<Rightarrow>
               ([dir, d1, if env_io e IoRemoveTemp = None then AList.delete f d1 else d1], Some err)
           | Inr b \<Rightarrow>
               (let d2 = AList.update f (Some b) d1 in
                case env_io e IoSync of
                  Some m \<Rightarrow> ([dir, d1, d2], Some (Errorf m))
                | None \<Rightarrow>
                    (case env_io e IoClose of
                       Some m \<Rightarrow> ([dir, d1, d2], Some (Errorf m))
                     | None \<Rightarrow>
                         (case env_io e IoRename of
                            Some m \<Rightarrow> ([dir, d1, d2], Some (Errorf m))
                          | None \<Rightarrow>
                              ([dir, d1, d2, AList.update (file_name key) (Some b) (AList.delete f d2)], None))))))"

definition write_file ::
  "('a, 'b) codec \<Rightarrow> 'a resource_type \<Rightarrow> env \<Rightarrow> string \<Rightarrow> 'a resource \<Rightarrow> 'b dir \<Rightarrow> 'b dir \<times> go_error option" where
  "write_file codec rt e key obj dir =
     (case write_file_states codec rt e key obj dir of (ds, err) \<Rightarrow> (last ds, err))"

section \<open>Opening a store\<close>

text \<open>
  \<open>loadFromFiles\<close>: the regular files with the suffix \<open>.yaml\<close>, in the order of their names
  (\<open>os.ReadDir\<close> sorts them), are decoded and created in a fresh in-memory store. \<open>rd\<close> is what
  \<open>os.ReadDir\<close> said: an error, \<open>None\<close> when the directory does not exist, or its files.
\<close>

fun load_files ::
  "('a, 'b) codec \<Rightarrow> 'a resource_type \<Rightarrow> env \<Rightarrow> 'b dir \<Rightarrow> string list \<Rightarrow> 'a memstore \<Rightarrow> go_error + 'a memstore" where
  "load_files codec rt e dir [] s = Inr s"
| "load_files codec rt e dir (n # ns) s =
     (if suffix ''.yaml'' n then
        (case decode codec (case map_of dir n of None \<Rightarrow> None | Some c \<Rightarrow> c) of
           Inl err \<Rightarrow> Inl err
         | Inr res \<Rightarrow>
             (case mem_create rt e s (take (length n - 5) n) res of
                (_, Inl err) \<Rightarrow> Inl err
              | (s', Inr _) \<Rightarrow> load_files codec rt e dir ns s'))
      else load_files codec rt e dir ns s)"

definition load_from_files ::
  "('a, 'b) codec \<Rightarrow> 'a resource_type \<Rightarrow> env \<Rightarrow> go_error + 'b dir option \<Rightarrow> go_error + 'b dir \<times> 'a memstore" where
  "load_from_files codec rt e rd =
     (case rd of
        Inl err \<Rightarrow> Inl err
      | Inr None \<Rightarrow>
          (case env_io e IoMkdir of Some m \<Rightarrow> Inl (Errorf m) | None \<Rightarrow> Inr ([], InMemory))
      | Inr (Some dir) \<Rightarrow>
          (case load_files codec rt e dir (sort (map fst dir)) InMemory of
             Inl err \<Rightarrow> Inl err
           | Inr s \<Rightarrow> Inr (dir, s)))"

definition FileStore ::
  "('a, 'b) codec \<Rightarrow> 'a resource_type \<Rightarrow> env \<Rightarrow> go_error + 'b dir option \<Rightarrow> go_error + ('a, 'b) filestore" where
  "FileStore codec rt e rd =
     (case load_from_files codec rt e rd of
        Inl err \<Rightarrow> Inl (Wrap (''init filestore: read '' @ rt_Resource rt @ '': '') err)
      | Inr (dir, s) \<Rightarrow> Inr \<lparr>fs_mem = s, fs_dir = dir\<rparr>)"

section \<open>Operations\<close>

text \<open>
  \<open>Create\<close> takes a version number before it writes the file, so a refused write uses one up.
\<close>

definition fs_create ::
  "('a, 'b) codec \<Rightarrow> 'a resource_type \<Rightarrow> env \<Rightarrow> ('a, 'b) filestore \<Rightarrow> string \<Rightarrow> 'a resource
   \<Rightarrow> ('a, 'b) filestore \<times> (go_error + 'a resource)" where
  "fs_create codec rt e s key res =
     (case mem_get rt (fs_mem s) key of
        Inr _ \<Rightarrow> (s, Inl (AlreadyExists (rt_GroupResource rt) key))
      | Inl _ \<Rightarrow>
          (case set_resource_version (fs_mem s) (set_name_and_creation_timestamp e (set_gvk rt res) key) of
             (m1, r) \<Rightarrow>
               (case write_file codec rt e key r (fs_dir s) of
                  (d, Some err) \<Rightarrow> (s\<lparr>fs_mem := m1, fs_dir := d\<rparr>, Inl (Wrap ''create resource: '' err))
                | (d, None) \<Rightarrow>
                    (s\<lparr>fs_mem := emit rt e Added r (m1\<lparr>ms_items := AList.update key r (ms_items m1)\<rparr>),
                       fs_dir := d\<rparr>, Inr r))))"

definition fs_delete ::
  "'a resource_type \<Rightarrow> env \<Rightarrow> ('a, 'b) filestore \<Rightarrow> string \<Rightarrow> ('a resource \<Rightarrow> go_error option)
   \<Rightarrow> ('a, 'b) filestore \<times> (go_error + 'a resource)" where
  "fs_delete rt e s key validate =
     (case mem_delete_cb rt e (fs_mem s) key (fs_dir s)
        (\<lambda>d r. case validate r of
                 Some err \<Rightarrow> (d, Some err)
               | None \<Rightarrow>
                   if file_name key \<in> fst ` set d then
                     (case env_io e IoRemove of
                        Some m \<Rightarrow> (d, Some (Wrap ''delete resource: '' (Errorf m)))
                      | None \<Rightarrow> (AList.delete (file_name key) d, None))
                   else (d, None)) of
        (m, d, res) \<Rightarrow> (s\<lparr>fs_mem := m, fs_dir := d\<rparr>, res))"

text \<open>
  \<open>Update\<close> writes the file from inside the callback it passes to the in-memory store, which
  compares the resource versions only after the callback.
\<close>

definition fs_update ::
  "('a, 'b) codec \<Rightarrow> 'a resource_type \<Rightarrow> env \<Rightarrow> ('a, 'b) filestore \<Rightarrow> string \<Rightarrow> ('a resource \<Rightarrow> go_error + 'a resource)
   \<Rightarrow> ('a, 'b) filestore \<times> (go_error + 'a resource)" where
  "fs_update codec rt e s key modify =
     (case map_of (ms_items (fs_mem s)) key of
        None \<Rightarrow> (s, Inl (NotFound (rt_GroupResource rt) key))
      | Some existing \<Rightarrow>
          (case mem_update_cb rt e (fs_mem s) key (fs_dir s)
             (\<lambda>d r. case modify r of
                      Inl err \<Rightarrow> (d, Inl err)
                    | Inr res \<Rightarrow>
                        if existing \<noteq> res then
                          (case write_file codec rt e key res d of
                             (d', Some err) \<Rightarrow> (d', Inl err)
                           | (d', None) \<Rightarrow> (d', Inr res))
                        else (d, Inr res)) of
             (m, d, res) \<Rightarrow> (s\<lparr>fs_mem := m, fs_dir := d\<rparr>, res)))"

definition fs_watch :: "('a, 'b) filestore \<Rightarrow> string \<Rightarrow> ('a, 'b) filestore \<times> (go_error + nat)" where
  "fs_watch s rv = (case mem_watch (fs_mem s) rv of (m, res) \<Rightarrow> (s\<lparr>fs_mem := m\<rparr>, res))"

definition fs_ops :: "('a, 'b) codec \<Rightarrow> 'a resource_type \<Rightarrow> (('a, 'b) filestore, 'a) store_ops" where
  "fs_ops codec rt = \<lparr>op_watch = fs_watch, op_list = mem_list rt \<circ> fs_mem, op_get = mem_get rt \<circ> fs_mem,
     op_create = fs_create codec rt, op_delete = fs_delete rt, op_update = fs_update codec rt\<rparr>"

section \<open>Lemmas on files\<close>

lemma file_name_inj [simp]: "file_name k = file_name k' \<longleftrightarrow> k = k'"
  by (simp add: file_name_def)

lemma last_show_nat: "last (show_nat n) = digit_char (n mod 10)"
  by (subst show_nat.simps) simp

lemma digit_not_l: "d < 10 \<Longrightarrow> digit_char d \<noteq> CHR ''l''"
proof
  assume d: "d < 10" and eq: "digit_char d = CHR ''l''"
  from d have "(of_char (digit_char d) :: nat) = 48 + d" by (simp add: digit_char_def)
  with eq d show False by simp
qed

text \<open>A temporary file is never mistaken for a resource: its name ends in a digit.\<close>

lemma tmp_name_not_yaml: "\<not> suffix ''.yaml'' (tmp_name e)"
proof
  assume "suffix ''.yaml'' (tmp_name e)"
  then obtain p where "tmp_name e = p @ ''.yaml''" by (auto simp: suffix_def)
  then have "last (tmp_name e) = CHR ''l''" by simp
  moreover have "last (tmp_name e) = digit_char (env_tmp e mod 10)"
    by (simp add: tmp_name_def show_nat_nonempty last_show_nat)
  ultimately show False using digit_not_l [of "env_tmp e mod 10"] by simp
qed

lemma tmp_name_neq_file_name [simp]: "tmp_name e \<noteq> file_name k" "file_name k \<noteq> tmp_name e"
  using tmp_name_not_yaml [of e] by (auto simp: file_name_def suffix_def) (metis)

lemma yaml_file_name [simp]: "suffix ''.yaml'' (file_name k)"
  by (simp add: file_name_def suffix_def)

lemma write_file_states_last: "fst (write_file_states codec rt e key obj dir) \<noteq> []"
  by (auto simp: write_file_states_def Let_def split: option.splits sum.splits)

lemma write_file_states_yaml:
  assumes "write_file_states codec rt e key obj dir = (ds, err)" "d \<in> set ds"
  shows "map_of d (file_name k) = map_of dir (file_name k) \<or>
    (k = key \<and> (\<exists>b. encode codec (without_status_and_resource_version rt obj) = Inr b \<and>
       map_of d (file_name k) = Some (Some b)))"
  using assms
  by (auto simp: write_file_states_def Let_def alist_simps split: option.splits sum.splits if_splits)

lemma write_file_states_wf:
  "write_file_states codec rt e key obj dir = (ds, err) \<Longrightarrow> wf_map dir \<Longrightarrow> d \<in> set ds \<Longrightarrow> wf_map d"
  by (auto simp: write_file_states_def Let_def split: option.splits sum.splits if_splits)

lemma write_file_Some:
  "write_file codec rt e key obj dir = (d, Some err) \<Longrightarrow> map_of d (file_name k) = map_of dir (file_name k)"
  by (auto simp: write_file_def write_file_states_def Let_def alist_simps split: option.splits sum.splits if_splits)

lemma write_file_None:
  assumes "write_file codec rt e key obj dir = (d, None)"
  obtains b where "encode codec (without_status_and_resource_version rt obj) = Inr b"
    "\<And>k. map_of d (file_name k) = (if k = key then Some (Some b) else map_of dir (file_name k))"
  using assms
  by (auto simp: write_file_def write_file_states_def Let_def alist_simps split: option.splits sum.splits if_splits)

lemma write_file_wf: "wf_map dir \<Longrightarrow> wf_map (fst (write_file codec rt e key obj dir))"
proof -
  assume wf: "wf_map dir"
  obtain ds err where w: "write_file_states codec rt e key obj dir = (ds, err)" by fastforce
  then have "last ds \<in> set ds" using write_file_states_last [of codec rt e key obj dir] by simp
  with write_file_states_wf [OF w wf] w show ?thesis by (simp add: write_file_def)
qed

text \<open>Loading looks at the resource files only.\<close>

lemma load_files_filter:
  "load_files codec rt e dir ns s = load_files codec rt e dir (filter (suffix ''.yaml'') ns) s"
  by (induction ns arbitrary: s) (auto split: sum.splits prod.splits)

lemma load_files_cong:
  "(\<And>n. n \<in> set ns \<Longrightarrow> suffix ''.yaml'' n \<Longrightarrow> map_of dir n = map_of dir' n) \<Longrightarrow>
   load_files codec rt e dir ns s = load_files codec rt e dir' ns s"
  by (induction ns arbitrary: s) (auto split: sum.splits prod.splits)

lemma yaml_is_file_name: "suffix ''.yaml'' n \<Longrightarrow> n = file_name (take (length n - 5) n)"
  by (auto simp: suffix_def file_name_def)

lemma load_from_files_same:
  assumes "wf_map dir" "wf_map dir'" and same: "\<And>k. map_of dir (file_name k) = map_of dir' (file_name k)"
  shows "load_files codec rt e dir (sort (map fst dir)) s = load_files codec rt e dir' (sort (map fst dir')) s"
proof -
  have yaml: "map_of dir n = map_of dir' n" if "suffix ''.yaml'' n" for n
    using same yaml_is_file_name [OF that] by metis
  have "set (filter (suffix ''.yaml'') (map fst dir)) = set (filter (suffix ''.yaml'') (map fst dir'))"
  proof -
    have "n \<in> set (map fst dir) \<longleftrightarrow> n \<in> set (map fst dir')" if "suffix ''.yaml'' n" for n
      using yaml [OF that] map_of_eq_None_iff [of dir n] map_of_eq_None_iff [of dir' n] by simp
    then show ?thesis by auto
  qed
  moreover have "distinct (filter (suffix ''.yaml'') (map fst dir))" "distinct (filter (suffix ''.yaml'') (map fst dir'))"
    using assms(1,2) by (simp_all add: wf_map_def)
  ultimately have "sort (filter (suffix ''.yaml'') (map fst dir)) = sort (filter (suffix ''.yaml'') (map fst dir'))"
    by (metis sorted_list_of_set_sort_remdups distinct_remdups_id)
  then have "filter (suffix ''.yaml'') (sort (map fst dir)) = filter (suffix ''.yaml'') (sort (map fst dir'))"
    by (simp add: filter_sort)
  then show ?thesis
    using load_files_filter [of codec rt e dir "sort (map fst dir)"] load_files_filter [of codec rt e dir' "sort (map fst dir')"]
      load_files_cong [of "filter (suffix ''.yaml'') (sort (map fst dir'))" dir dir'] yaml by metis
qed

section \<open>The operations, branch by branch\<close>

definition fs_stored ::
  "'a resource_type \<Rightarrow> env \<Rightarrow> ('a, 'b) filestore \<Rightarrow> string \<Rightarrow> 'a resource \<Rightarrow> 'b dir
   \<Rightarrow> ('a, 'b) filestore \<times> (go_error + 'a resource)" where
  "fs_stored rt e s key new d =
     (let m = fs_mem s; r = (set_gvk rt new)\<lparr>md := (md new)\<lparr>om_ResourceVersion := show_nat (ms_seq m + 1)\<rparr>\<rparr>
      in (s\<lparr>fs_mem := emit rt e Modified r (m\<lparr>ms_seq := ms_seq m + 1, ms_items := AList.update key r (ms_items m)\<rparr>),
            fs_dir := d\<rparr>, Inr r))"

lemma fs_update_cases:
  "fs_update codec rt e s key f =
     (case mem_view (fs_mem s) key of
        None \<Rightarrow> (s, Inl (NotFound (rt_GroupResource rt) key))
      | Some old \<Rightarrow>
          (case f old of
             Inl err \<Rightarrow> (s, Inl (Wrap ''update resource: '' err))
           | Inr new \<Rightarrow>
               if old = new then fs_stored rt e s key new (fs_dir s)
               else (case write_file codec rt e key new (fs_dir s) of
                       (d, Some err) \<Rightarrow> (s\<lparr>fs_dir := d\<rparr>, Inl (Wrap ''update resource: '' err))
                     | (d, None) \<Rightarrow>
                         if version old \<noteq> version new then
                           (s\<lparr>fs_dir := d\<rparr>, Inl (Conflict (rt_GroupResource rt) key
                             ''resource was changed concurrently, please fetch the latest resource version and apply your changes again''))
                         else fs_stored rt e s key new d)))"
  by (auto simp: fs_update_def mem_update_cb_cases fs_stored_def Let_def
      split: option.splits sum.splits prod.splits)

lemma fs_create_cases:
  "fs_create codec rt e s key res =
     (if key \<in> dom (mem_view (fs_mem s)) then (s, Inl (AlreadyExists (rt_GroupResource rt) key))
      else let m1 = (fs_mem s)\<lparr>ms_seq := ms_seq (fs_mem s) + 1\<rparr>;
               r = (set_name_and_creation_timestamp e (set_gvk rt res) key)
                 \<lparr>md := (md (set_name_and_creation_timestamp e (set_gvk rt res) key))
                   \<lparr>om_ResourceVersion := show_nat (ms_seq (fs_mem s) + 1)\<rparr>\<rparr>
           in (case write_file codec rt e key r (fs_dir s) of
                 (d, Some err) \<Rightarrow> (s\<lparr>fs_mem := m1, fs_dir := d\<rparr>, Inl (Wrap ''create resource: '' err))
               | (d, None) \<Rightarrow>
                   (s\<lparr>fs_mem := fst (mem_create rt e (fs_mem s) key res), fs_dir := d\<rparr>, Inr r)))"
  by (auto simp: fs_create_def mem_get_def set_resource_version_def mem_create_cases Let_def
      split: option.splits prod.splits)

lemma fs_delete_cases:
  "fs_delete rt e s key v =
     (case mem_view (fs_mem s) key of
        None \<Rightarrow> (s, Inl (NotFound (rt_GroupResource rt) key))
      | Some r \<Rightarrow>
          (case v r of
             Some err \<Rightarrow> (s, Inl (Wrap ''delete resource: '' err))
           | None \<Rightarrow>
               if file_name key \<in> fst ` set (fs_dir s) \<and> env_io e IoRemove \<noteq> None then
                 (s, Inl (Wrap ''delete resource: '' (Wrap ''delete resource: '' (Errorf (the (env_io e IoRemove))))))
               else
                 (s\<lparr>fs_mem := emit rt e Deleted r ((fs_mem s)\<lparr>ms_items := AList.delete key (ms_items (fs_mem s))\<rparr>),
                    fs_dir := AList.delete (file_name key) (fs_dir s)\<rparr>, Inr r)))"
  by (auto simp: fs_delete_def mem_delete_cb_def split: option.splits)

text \<open>The invariant: that of the in-memory store, and a directory that is a map.\<close>

definition fs_inv :: "('a, 'b) filestore \<Rightarrow> bool" where
  "fs_inv s \<longleftrightarrow> mem_inv (fs_mem s) \<and> wf_map (fs_dir s)"

abbreviation fs_view :: "('a, 'b) filestore \<Rightarrow> string \<Rightarrow> 'a resource option" where
  "fs_view s \<equiv> mem_view (fs_mem s)"

lemma mem_inv_seq: "mem_inv s \<Longrightarrow> mem_inv (s\<lparr>ms_seq := ms_seq s + 1\<rparr>)"
proof -
  assume inv: "mem_inv s"
  have "\<exists>n \<le> ms_seq s + 1. version r = show_nat n" if "map_of (ms_items s) k = Some r" for k r
  proof -
    obtain n where "n \<le> ms_seq s" "version r = show_nat n"
      using inv \<open>map_of (ms_items s) k = Some r\<close> unfolding mem_inv_def by blast
    then show ?thesis by (intro exI [of _ n]) simp
  qed
  moreover have "ms_items (s\<lparr>ms_seq := ms_seq s + 1\<rparr>) = ms_items s" "ms_pubsub (s\<lparr>ms_seq := ms_seq s + 1\<rparr>) = ms_pubsub s"
    "ms_seq (s\<lparr>ms_seq := ms_seq s + 1\<rparr>) = ms_seq s + 1" by simp_all
  ultimately show ?thesis
    using inv unfolding mem_inv_def by metis
qed

lemma fs_stored_inv:
  assumes "fs_inv s" "wf_map d"
  shows "fs_inv (fst (fs_stored rt e s key new d))"
proof -
  let ?r = "(set_gvk rt new)\<lparr>md := (md new)\<lparr>om_ResourceVersion := show_nat (ms_seq (fs_mem s) + 1)\<rparr>\<rparr>"
  let ?m = "(fs_mem s)\<lparr>ms_seq := ms_seq (fs_mem s) + 1, ms_items := AList.update key ?r (ms_items (fs_mem s))\<rparr>"
  have "ps_inv (ms_pubsub (fs_mem s))" using assms(1) by (simp add: fs_inv_def mem_inv_def)
  then have "ps_inv (ms_pubsub (emit rt e Modified ?r ?m))" by (intro ps_inv_emit) simp
  then have "mem_inv (emit rt e Modified ?r ?m)"
    using mem_inv_store [of "fs_mem s" ?r "emit rt e Modified ?r ?m" key] assms(1) by (simp add: fs_inv_def)
  with assms(2) show ?thesis by (simp add: fs_stored_def Let_def fs_inv_def)
qed

lemma fs_stored_simps:
  assumes "fs_stored rt e s key new d = (s', Inr r)"
  shows "body r = body new" "rname r = rname new" "version r = show_nat (ms_seq (fs_mem s) + 1)"
    "fs_view s' = (fs_view s)(key \<mapsto> r)" "fs_dir s' = d" "md r = (md new)\<lparr>om_ResourceVersion := version r\<rparr>"
  using assms by (auto simp: fs_stored_def Let_def alist_simps)

lemma fs_stored_Inr: "\<exists>s' r. fs_stored rt e s key new d = (s', Inr r)"
  by (simp add: fs_stored_def Let_def)

lemma fs_inv_create: "fs_inv s \<Longrightarrow> fs_inv (fst (fs_create codec rt e s key r))"
  using write_file_wf [of "fs_dir s" codec rt e key] mem_inv_create [of "fs_mem s" rt e key r] mem_inv_seq [of "fs_mem s"]
  by (auto simp: fs_create_cases Let_def fs_inv_def split: prod.splits option.splits) (metis fst_conv)+

lemma fs_inv_update: "fs_inv s \<Longrightarrow> fs_inv (fst (fs_update codec rt e s key f))"
proof -
  assume inv: "fs_inv s"
  have wf: "wf_map d" if "write_file codec rt e key new (fs_dir s) = (d, err)" for new d err
    using write_file_wf [of "fs_dir s" codec rt e key new] inv that by (simp add: fs_inv_def)
  from inv have "fs_inv (s\<lparr>fs_dir := d\<rparr>)" if "wf_map d" for d
    using that by (simp add: fs_inv_def)
  with inv wf fs_stored_inv [OF inv] show ?thesis
    by (auto simp: fs_update_cases fs_inv_def split: option.splits sum.splits prod.splits)
qed

lemma fs_inv_delete: "fs_inv s \<Longrightarrow> fs_inv (fst (fs_delete rt e s key v))"
proof -
  assume inv: "fs_inv s"
  have "mem_inv (emit rt e Deleted r ((fs_mem s)\<lparr>ms_items := AList.delete key (ms_items (fs_mem s))\<rparr>))" for r
  proof (rule mem_inv_remove)
    show "mem_inv (fs_mem s)" using inv by (simp add: fs_inv_def)
    then have "ps_inv (ms_pubsub (fs_mem s))" by (simp add: mem_inv_def)
    then show "ps_inv (ms_pubsub (emit rt e Deleted r ((fs_mem s)\<lparr>ms_items := AList.delete key (ms_items (fs_mem s))\<rparr>)))"
      by (intro ps_inv_emit) simp
  qed simp_all
  with inv show ?thesis
    by (auto simp: fs_delete_cases fs_inv_def split: option.splits)
qed

lemma fs_update_Inr:
  assumes "fs_update codec rt e s key f = (s', Inr r)"
  obtains old new d where "fs_view s key = Some old" "f old = Inr new" "version new = version old"
    "fs_stored rt e s key new d = (s', Inr r)"
    "old = new \<and> d = fs_dir s \<or> old \<noteq> new \<and> write_file codec rt e key new (fs_dir s) = (d, None)"
  using assms
  by (auto simp: fs_update_cases split: option.splits sum.splits prod.splits if_splits)

interpretation fs: storage "fs_ops codec rt" fs_inv fs_view rt for codec rt
proof (unfold_locales, goal_cases)
  case (1 s k) then show ?case by (simp add: fs_ops_def mem_get_def)
next
  case (2 s) then show ?case
    using mem.list_law [of "fs_mem s" rt] by (simp add: fs_ops_def mem_ops_def fs_inv_def)
next
  case (3 s e k r) then show ?case by (simp add: fs_ops_def fs_inv_create)
next
  case (4 s e k r s' err) then show ?case
    by (auto simp: fs_ops_def fs_create_cases Let_def split: prod.splits option.splits if_splits)
next
  case (5 s e k r s' r') then show ?case
    by (auto simp: fs_ops_def fs_create_cases Let_def mem_create_cases alist_simps domIff
        split: prod.splits option.splits if_splits)
next
  case (6 s k old e r) then show ?case by (simp add: fs_ops_def fs_create_cases domI)
next
  case (7 s e k v) then show ?case by (simp add: fs_ops_def fs_inv_delete)
next
  case (8 s e k v s' err) then show ?case
    by (auto simp: fs_ops_def fs_delete_cases split: option.splits if_splits)
next
  case (9 s e k v s' r') then show ?case
    by (auto simp: fs_ops_def fs_delete_cases alist_simps split: option.splits if_splits)
next
  case (10 s e k f) then show ?case by (simp add: fs_ops_def fs_inv_update)
next
  case (11 s e k f s' err) then show ?case
    by (auto simp: fs_ops_def fs_update_cases fs_stored_def Let_def
        split: option.splits sum.splits prod.splits if_splits)
next
  case (12 s e k f s' r')
  then have "fs_update codec rt e s k f = (s', Inr r')" by (simp add: fs_ops_def)
  then obtain old new d where o: "fs_view s k = Some old" "f old = Inr new" "version new = version old"
    and st: "fs_stored rt e s k new d = (s', Inr r')"
    by (elim fs_update_Inr)
  obtain n where "n \<le> ms_seq (fs_mem s)" "version old = show_nat n"
    using 12(1) o(1) unfolding fs_inv_def mem_inv_def by blast
  then have "version r' \<noteq> version old" using fs_stored_simps(3) [OF st] by simp
  with o fs_stored_simps(1,2,4) [OF st] show ?case by blast
next
  case (13 s k e f) then show ?case by (simp add: fs_ops_def fs_update_cases)
qed

end
