(* ===== verification/DeviceApi.thy ===== *)
theory DeviceApi
  imports FileStore
begin

text \<open>
  The kinds of the devices API (\<open>pkg/apis/devices/v1alpha1\<close>): the content of each resource as a
  record, and what the stores know of each kind. Modes and states are Go string types; the values
  the program knows are constants, any other string is possible.
\<close>

section \<open>Constants\<close>

type_synonym device_mode = string
type_synonym device_state = string
type_synonym wifi_mode = string

definition DeviceModeServer :: string where "DeviceModeServer = ''server''"
definition DeviceModeAgent :: string where "DeviceModeAgent = ''agent''"
definition DeviceStateUnknown :: string where "DeviceStateUnknown = ''unknown''"
definition DeviceStateStarting :: string where "DeviceStateStarting = ''starting''"
definition DeviceStateRunning :: string where "DeviceStateRunning = ''running''"
definition DeviceStateError :: string where "DeviceStateError = ''error''"
definition DeviceStateExited :: string where "DeviceStateExited = ''exited''"
definition DeviceStateTerminating :: string where "DeviceStateTerminating = ''terminating''"
definition WifiModeDisabled :: string where "WifiModeDisabled = ''disabled''"
definition WifiModeStation :: string where "WifiModeStation = ''station''"
definition WifiModeAccessPoint :: string where "WifiModeAccessPoint = ''accesspoint''"
definition NetworkInterfaceTypeEther :: string where "NetworkInterfaceTypeEther = ''ether''"
definition NetworkInterfaceTypeWifi :: string where "NetworkInterfaceTypeWifi = ''wifi''"
definition AccessPointPasswordKey :: string where "AccessPointPasswordKey = ''accesspoint''"
definition SSIDAnnotation :: string where "SSIDAnnotation = ''ssid''"
definition AdminUserAccount :: string where "AdminUserAccount = ''admin''"
definition NodeDrainAnnotation :: string where "NodeDrainAnnotation = ''kubemate.mgoltzsche.github.com/drain''"

definition GroupVersion :: "string \<times> string" where
  "GroupVersion = (''kubemate.mgoltzsche.github.com'', ''v1alpha1'')"

definition group_resource :: "string \<Rightarrow> string" where
  "group_resource res = res @ ''.'' @ fst GroupVersion"

definition api_version :: string where
  "api_version = fst GroupVersion @ ''/'' @ snd GroupVersion"

text \<open>A kind the scheme knows under its own name.\<close>

definition api_type :: "string \<Rightarrow> string \<Rightarrow> ('a \<Rightarrow> 'a) \<Rightarrow> 'a resource_type" where
  "api_type res kind clear =
     \<lparr>rt_GroupResource = group_resource res, rt_Resource = res, rt_GVK = Some (api_version, kind),
      rt_ClearStatus = clear, rt_GoType = ''*v1alpha1.'' @ kind\<rparr>"

section \<open>Devices\<close>

record device_spec =
  ds_Mode :: device_mode
  ds_ServerAddress :: string
  ds_JoinTokenName :: string

record process_status =
  ps_Running :: bool
  ps_RestartCount :: int

record device_status =
  dst_Generation :: int
  dst_Current :: bool
  dst_State :: device_state
  dst_Message :: string
  dst_Address :: string
  dst_JoinAddress :: string
  dst_DNSServer :: process_status

record device =
  dev_Spec :: device_spec
  dev_Status :: device_status

definition zero_process_status :: process_status where
  "zero_process_status = \<lparr>ps_Running = False, ps_RestartCount = 0\<rparr>"

definition zero_device_status :: device_status where
  "zero_device_status = \<lparr>dst_Generation = 0, dst_Current = False, dst_State = [], dst_Message = [],
     dst_Address = [], dst_JoinAddress = [], dst_DNSServer = zero_process_status\<rparr>"

definition zero_device_spec :: device_spec where
  "zero_device_spec = \<lparr>ds_Mode = [], ds_ServerAddress = [], ds_JoinTokenName = []\<rparr>"

definition device_rt :: "device resource_type" where
  "device_rt = api_type ''devices'' ''Device'' (\<lambda>d. d\<lparr>dev_Status := zero_device_status\<rparr>)"

section \<open>Network interfaces\<close>

record link_status =
  nl_Index :: int
  nl_Type :: string
  nl_Up :: bool
  nl_MAC :: string
  nl_IP4 :: string
  nl_Error :: string

record netif_status =
  ns_Link :: link_status
  ns_Error :: string

record wifi_spec =
  wf_Mode :: wifi_mode
  wf_CountryCode :: string
  wf_StationSSID :: string
  wf_AccessPointSSID :: string

record netif =
  nif_Wifi :: wifi_spec
  nif_Status :: netif_status

definition zero_link_status :: link_status where
  "zero_link_status = \<lparr>nl_Index = 0, nl_Type = [], nl_Up = False, nl_MAC = [], nl_IP4 = [], nl_Error = []\<rparr>"

definition zero_netif_status :: netif_status where
  "zero_netif_status = \<lparr>ns_Link = zero_link_status, ns_Error = []\<rparr>"

definition zero_wifi_spec :: wifi_spec where
  "zero_wifi_spec = \<lparr>wf_Mode = [], wf_CountryCode = [], wf_StationSSID = [], wf_AccessPointSSID = []\<rparr>"

definition netif_rt :: "netif resource_type" where
  "netif_rt = api_type ''networkinterfaces'' ''NetworkInterface'' (\<lambda>n. n\<lparr>nif_Status := zero_netif_status\<rparr>)"

section \<open>Kinds without status\<close>

text \<open>
  A device token has a status of its own, but the type does not implement \<open>GetStatus\<close>: to the
  file store it is data like the token.
\<close>

record device_token =
  dt_Token :: string
  dt_JoinToken :: string

definition token_rt :: "device_token resource_type" where
  "token_rt = api_type ''devicetokens'' ''DeviceToken'' id"

type_synonym wifi_password = string

definition wifipassword_rt :: "wifi_password resource_type" where
  "wifipassword_rt = api_type ''wifipasswords'' ''WifiPassword'' id"

record user_account =
  ua_PasswordString :: string
  ua_Password :: string

definition useraccount_rt :: "user_account resource_type" where
  "useraccount_rt = api_type ''useraccounts'' ''UserAccount'' id"

type_synonym wifi_network = string

definition wifinetwork_rt :: "wifi_network resource_type" where
  "wifinetwork_rt = api_type ''wifinetworks'' ''WifiNetwork'' id"

type_synonym certificate = string

definition certificate_rt :: "certificate resource_type" where
  "certificate_rt = api_type ''certificates'' ''Certificate'' id"

record device_discovery =
  dd_Mode :: device_mode
  dd_Server :: string
  dd_Address :: string
  dd_Current :: bool

definition devicediscovery_rt :: "device_discovery resource_type" where
  "devicediscovery_rt = api_type ''devicediscovery'' ''DeviceDiscovery'' id"

lemmas api_type_simps = api_type_def device_rt_def netif_rt_def token_rt_def wifipassword_rt_def
  useraccount_rt_def wifinetwork_rt_def certificate_rt_def devicediscovery_rt_def

text \<open>Clearing a status twice is clearing it once, for every kind.\<close>

lemma clear_status_idem:
  "rt_ClearStatus device_rt (rt_ClearStatus device_rt d) = rt_ClearStatus device_rt d"
  "rt_ClearStatus netif_rt (rt_ClearStatus netif_rt n) = rt_ClearStatus netif_rt n"
  "rt_ClearStatus token_rt t = t" "rt_ClearStatus useraccount_rt u = u"
  "rt_ClearStatus wifipassword_rt p = p"
  by (simp_all add: api_type_simps)

end
