(* ===== verification/Dns.thy ===== *)
theory Dns
  imports ConfFile Runner DeviceApi
begin

text \<open>
  The DNS server of the device (\<open>pkg/reconciler/device/device_reconciler_dns.go\<close>): dnsmasq runs on a
  server and on an access point, with a configuration file that depends on the interface it serves.
\<close>

text \<open>What the reconcilers of processes need of the host, as in the wifi component.\<close>

record proc_host =
  ph_write :: "string \<Rightarrow> string option"
  ph_start :: "string \<Rightarrow> start_result"
  ph_signal :: "go_error option"
  ph_now :: nat

section \<open>Configuration\<close>

text \<open>The address of an access point first, then the first interface that is up.\<close>

fun first_up :: "netif resource list \<Rightarrow> string \<times> string" where
  "first_up [] = ([], [])"
| "first_up (r # rs) =
     (if nl_IP4 (ns_Link (nif_Status (body r))) \<noteq> [] \<and> nl_Up (ns_Link (nif_Status (body r)))
      then (rname r, nl_IP4 (ns_Link (nif_Status (body r)))) else first_up rs)"

definition is_ap_iface :: "netif resource \<Rightarrow> bool" where
  "is_ap_iface r \<longleftrightarrow> nl_IP4 (ns_Link (nif_Status (body r))) \<noteq> [] \<and> wf_Mode (nif_Wifi (body r)) = WifiModeAccessPoint"

definition isAccessPoint :: "netif resource list \<Rightarrow> bool \<times> string \<times> string" where
  "isAccessPoint ifaces =
     (case find is_ap_iface ifaces of
        Some r \<Rightarrow> (True, rname r, nl_IP4 (ns_Link (nif_Status (body r))))
      | None \<Rightarrow> (False, first_up ifaces))"

definition dhcp_template :: string where
  "dhcp_template = unlines
     [''dhcp-range={ipRangeStart},{ipRangeEnd},255.255.255.0,2h'', ''dhcp-option=3,{ip}'',
      ''dhcp-option=6,{ip}'', ''dhcp-option-force=option:domain-search,kube.m8'',
      ''dhcp-option-force=option:domain-name,kube.m8'', ''dhcp-option-force=160,{captivePortalURL}'',
      ''# Firefox connectivity test'', ''address=/detectportal.firefox.com/{ip}'',
      ''# Android connectivity test'', ''address=/connectivitycheck.android.com/{ip}'',
      ''address=/connectivitycheck.gstatic.com/{ip}'', ''address=/www.gstatic.com/{ip}'',
      ''address=/gstatic.com/{ip}'', ''address=/android.clients.google.com/{ip}'',
      ''address=/play.googleapis.com/{ip}'', ''address=/clients1.google.com/{ip}'',
      ''address=/clients3.google.com/{ip}'', ''address=/clients4.google.com/{ip}'',
      ''# Chinese Android device connectivity test'', ''address=/g.cn/{ip}'',
      ''address=/connect.rom.miui.com/{ip}'', ''address=/www.androidbak.net/{ip}'',
      ''address=/www.qualcomm.cn/{ip}'', ''address=/captive.v2ex.co/{ip}'', ''address=/noisyfox.cn/{ip}'',
      ''# Microsoft Windows connectivity test'', ''address=/www.msftconnecttest.com/{ip}'',
      ''address=/www.msftncsi.com/{ip}'', ''address=/www.msftncsi.edgesuite.net/{ip}'',
      ''# Apple connectivity test'', ''address=/captive.apple.com/{ip}'', ''address=/gsp1.apple.com/{ip}'',
      ''address=/www.airport.us/{ip}'', ''address=/www.ibook.info/{ip}'', ''address=/www.itools.info/{ip}'',
      ''address=/www.thinkdifferent.us/{ip}'', ''address=/attwifi.apple.com/{ip}'',
      ''# Amazon Kindle connectivity test'', ''address=/spectrum.s3.amazonaws.com/{ip}'',
      ''# Arch linux connectivity test'', ''address=/archlinux.org/{ip}'', ''address=/ipv4.connman.net/{ip}'',
      ''# elementary OS connectivity test'', ''address=/capnet.elementary.io/{ip}'',
      ''# Debian/Gnome connectivity test'', ''address=/network-test.debian.org/{ip}'',
      ''address=/nmcheck.gnome.org/{ip}'', ''# Ubuntu connectivity test'',
      ''address=/connectivity-check.ubuntu.com/{ip}'', ''# Fallback for all unknown names'',
      ''address=/#/{ip}'']"

definition dnsmasq_template :: string where
  "dnsmasq_template = newline # unlines
     [''interface={iface}'', ''listen-address={ip}'', ''port=53'', ''domain-needed'', ''bogus-priv'',
      ''address=/kube.m8/{ip}'', ''address=/{deviceName}.kube.m8/{ip}'', ''{dhcpConf}'']"

definition dnsmasq_conf :: "bool \<Rightarrow> string \<Rightarrow> string \<Rightarrow> string \<Rightarrow> string \<Rightarrow> string \<Rightarrow> string \<Rightarrow> string" where
  "dnsmasq_conf dhcp iface deviceName captivePortalURL ip dhcpIpFrom dhcpIpTo =
     (let dhcpConf = (if dhcp then replace_all [(''{captivePortalURL}'', captivePortalURL), (''{ip}'', ip),
            (''{ipRangeStart}'', dhcpIpFrom), (''{ipRangeEnd}'', dhcpIpTo)] dhcp_template else [])
      in replace_all [(''{dhcpConf}'', dhcpConf), (''{deviceName}'', deviceName), (''{ip}'', ip), (''{iface}'', iface)]
           dnsmasq_template)"

definition generateDnsmasqConfig ::
  "(string \<Rightarrow> string option) \<Rightarrow> bool \<Rightarrow> string \<Rightarrow> string \<Rightarrow> string \<Rightarrow> string \<Rightarrow> string \<Rightarrow> string \<Rightarrow> (files, string) gm" where
  "generateDnsmasqConfig wr dhcp iface deviceName captivePortalURL ip dhcpIpFrom dhcpIpTo =
     gm_bind (WriteTempConfigFile wr ''dnsmasq''
       (dnsmasq_conf dhcp iface deviceName captivePortalURL ip dhcpIpFrom dhcpIpTo) [])
       (\<lambda>(file, _). gm_return file)"

section \<open>The reconciler\<close>

record dns =
  dn_proc :: runner
  dn_files :: files

definition dns_files :: "(files, 'a) gm \<Rightarrow> (dns, 'a) gm" where
  "dns_files m = gm_zoom dn_files (\<lambda>f s. s\<lparr>dn_files := f\<rparr>) m"

definition dns_start :: "proc_host \<Rightarrow> command_spec \<Rightarrow> (dns, bool) gm" where
  "dns_start h cmd s =
     (case runner_start ''SIGTERM'' (ph_now h) (ph_now h) (ph_start h (cs_Command cmd)) cmd (dn_proc s) of
        (m, Panic p) \<Rightarrow> Panic p
      | (m, Ret res) \<Rightarrow> Ret (s\<lparr>dn_proc := m\<rparr>, res))"

definition dns_reload :: "proc_host \<Rightarrow> (dns, unit) gm" where
  "dns_reload h s =
     (case SignalReload (ph_signal h) (dn_proc s) of
        Panic p \<Rightarrow> Panic p
      | Ret None \<Rightarrow> Ret (s, Inr ())
      | Ret (Some err) \<Rightarrow> Ret (s, Inl err))"

definition dnsmasq_cmd_of :: "string \<Rightarrow> command_spec" where
  "dnsmasq_cmd_of confPath = \<lparr>cs_Command = ''dnsmasq'', cs_Args = [''-C'', confPath, ''-zk'', ''--log-facility=-'']\<rparr>"

definition dns_reconcile :: "proc_host \<Rightarrow> string \<Rightarrow> device \<Rightarrow> netif resource list \<Rightarrow> (dns, unit) gm" where
  "dns_reconcile h deviceName d ifaces =
     (case isAccessPoint ifaces of (isAP, iface, ip) \<Rightarrow>
        if \<not> (ds_Mode (dev_Spec d) = DeviceModeServer \<or> isAP) then
          gm_modify (\<lambda>s. s\<lparr>dn_proc := runner_stop (dn_proc s)\<rparr>)
        else
          gm_bind (dns_files (generateDnsmasqConfig (ph_write h) isAP iface deviceName (dst_Address (dev_Status d)) ip
            ''11.0.0.10'' ''11.0.0.50'')) (\<lambda>confPath.
          gm_bind (dns_start h (dnsmasq_cmd_of confPath)) (\<lambda>restarted.
          gm_when (\<not> restarted) (dns_reload h))))"

text \<open>The status report of dnsmasq: what it does to the device's status.\<close>

definition dns_report :: "command_status \<Rightarrow> device \<Rightarrow> device" where
  "dns_report c d =
     (if dst_State (dev_Status d) \<noteq> DeviceStateTerminating then
        (let running = (st_State c = ProcessRunning); p = dst_DNSServer (dev_Status d) in
         d\<lparr>dev_Status := (dev_Status d)\<lparr>dst_DNSServer :=
             \<lparr>ps_Running = running, ps_RestartCount = ps_RestartCount p + (if running then 0 else 1)\<rparr>\<rparr>\<rparr>)
      else d)"

section \<open>Properties\<close>

text \<open>A runner that was asked to start a command and did not fail holds it, and it runs.\<close>

lemma runner_start_holds:
  assumes "runner_inv m" "runner_start sig now now' os cmd m = (m', Ret (Inr b))"
  shows "\<exists>pid c. rn_proc m' = Some (pid, c) \<and> rn_live m' = [pid] \<and> command_string c = command_string cmd \<and> (b \<longrightarrow> c = cmd)"
proof -
  have "rn_live m = [pid]" if "rn_proc m = Some (pid, c)" "pid \<in> set (rn_live m)" for pid c
    using assms(1) that by (auto simp: runner_inv_def)
  moreover have "rn_live (runner_stop m) = []" using runner_inv_stop [OF assms(1)] by simp
  ultimately show ?thesis
    using assms(2) by (auto simp: runner_start_def Let_def report_def split: if_splits option.splits start_result.splits)
qed

lemma runner_start_refused:
  assumes "runner_inv m" "runner_start sig now now' os cmd m = (m', Ret (Inl err))"
  shows "rn_live m' = []"
  using assms(2) runner_inv_stop [OF assms(1)]
  by (auto simp: runner_start_def Let_def split: if_splits option.splits start_result.splits)

lemma generateDnsmasqConfig_ok:
  assumes "generateDnsmasqConfig wr dhcp iface dev url ip f t fs = Ret (fs', Inr path)"
  shows "path = conf_path ''dnsmasq'' (replace_all [] (dnsmasq_conf dhcp iface dev url ip f t))" "map_of fs' path \<noteq> None"
  using assms
  by (auto simp: generateDnsmasqConfig_def WriteTempConfigFile_def gm_bind_def gm_return_def
      dest!: conf_file_ok split: go.splits sum.splits prod.splits)

lemma replace_all_none [simp]: "replace_all [] s = s"
  by (rule replace_all_no_match) simp

text \<open>
  C39. dnsmasq follows the role of the device: if the reconcile of the DNS server returns no error, then on
  a server, or with an access point that has an address, exactly one dnsmasq runs, started from a
  configuration file that exists and is named by the hash of the configuration for the interface that
  is served, and otherwise none runs.
\<close>

theorem dns_follows_role:
  assumes "runner_inv (dn_proc s)" "dns_reconcile h deviceName d ifaces s = Ret (s', Inr ())"
  shows "if ds_Mode (dev_Spec d) = DeviceModeServer \<or> (\<exists>r \<in> set ifaces. is_ap_iface r)
         then \<exists>pid c path. rn_proc (dn_proc s') = Some (pid, c) \<and> rn_live (dn_proc s') = [pid] \<and>
           map_of (dn_files s') path \<noteq> None \<and> command_string c = command_string (dnsmasq_cmd_of path) \<and>
           (case isAccessPoint ifaces of (isAP, iface, ip) \<Rightarrow> path = conf_path ''dnsmasq''
              (dnsmasq_conf isAP iface deviceName (dst_Address (dev_Status d)) ip ''11.0.0.10'' ''11.0.0.50''))
         else rn_live (dn_proc s') = []"
proof -
  obtain isAP iface ip where ap: "isAccessPoint ifaces = (isAP, iface, ip)" by (metis prod_cases3)
  have isAP: "isAP \<longleftrightarrow> (\<exists>r \<in> set ifaces. is_ap_iface r)"
    using ap by (auto simp: isAccessPoint_def find_None_iff find_Some_iff split: option.splits)
  show ?thesis
  proof (cases "ds_Mode (dev_Spec d) = DeviceModeServer \<or> isAP")
    case False
    with assms ap isAP runner_inv_stop [OF assms(1)] show ?thesis
      by (auto simp: dns_reconcile_def gm_modify_def)
  next
    case True
    let ?conf = "dnsmasq_conf isAP iface deviceName (dst_Address (dev_Status d)) ip ''11.0.0.10'' ''11.0.0.50''"
    from True assms(2) ap obtain fs path m b where
      g: "generateDnsmasqConfig (ph_write h) isAP iface deviceName (dst_Address (dev_Status d)) ip ''11.0.0.10'' ''11.0.0.50''
            (dn_files s) = Ret (fs, Inr path)"
      and r: "runner_start ''SIGTERM'' (ph_now h) (ph_now h) (ph_start h ''dnsmasq'') (dnsmasq_cmd_of path) (dn_proc s) = (m, Ret (Inr b))"
      and s': "dn_proc s' = m" "dn_files s' = fs"
      by (auto simp: dns_reconcile_def dns_files_def gm_zoom_def gm_bind_def dns_start_def dnsmasq_cmd_of_def gm_when_def
          gm_return_def dns_reload_def split: go.splits sum.splits prod.splits if_splits option.splits)
    with runner_start_holds [OF assms(1) r] generateDnsmasqConfig_ok [OF g] True isAP ap show ?thesis by auto
  qed
qed

definition demo_server :: device where
  "demo_server = \<lparr>dev_Spec = zero_device_spec\<lparr>ds_Mode := DeviceModeServer\<rparr>, dev_Status = zero_device_status\<rparr>"

definition demo_proc_host :: proc_host where
  "demo_proc_host = \<lparr>ph_write = (\<lambda>_. None), ph_start = (\<lambda>_. Started 7), ph_signal = None, ph_now = 5000\<rparr>"

lemma demo_dns_runs:
  "\<exists>s'. dns_reconcile demo_proc_host ''kubemate'' demo_server [] \<lparr>dn_proc = new_runner, dn_files = []\<rparr> = Ret (s', Inr ())"
  by (simp add: dns_reconcile_def demo_proc_host_def isAccessPoint_def dns_files_def gm_zoom_def gm_defs dns_start_def
      generateDnsmasqConfig_def WriteTempConfigFile_def conf_file_def file_write_def Let_def demo_server_def dnsmasq_cmd_of_def
      runner_start_def runner_stop_def new_runner_def StartProcess_def report_def)

theorem dns_follows_role_witness:
  "\<exists>s' pid. dns_reconcile demo_proc_host ''kubemate'' demo_server [] \<lparr>dn_proc = new_runner, dn_files = []\<rparr> = Ret (s', Inr ()) \<and>
     rn_live (dn_proc s') = [pid]"
proof -
  obtain s' where r: "dns_reconcile demo_proc_host ''kubemate'' demo_server [] \<lparr>dn_proc = new_runner, dn_files = []\<rparr> = Ret (s', Inr ())"
    using demo_dns_runs by blast
  have inv: "runner_inv (dn_proc \<lparr>dn_proc = new_runner, dn_files = []\<rparr>)" by (simp add: runner_inv_def new_runner_def)
  have "ds_Mode (dev_Spec demo_server) = DeviceModeServer" by (simp add: demo_server_def)
  with dns_follows_role [OF inv r] r show ?thesis by auto
qed

text \<open>The reconciler keeps its runner in order.\<close>

lemma dns_files_inv [gm_rules]: "gm_inv (\<lambda>s. I (dn_proc s)) (dns_files m)"
  unfolding dns_files_def by (rule gm_inv_zoom_other) simp

lemma dns_proc_inv [gm_rules]:
  "gm_inv (\<lambda>s. runner_inv (dn_proc s)) (dns_start h cmd)" "gm_inv (\<lambda>s. runner_inv (dn_proc s)) (dns_reload h)"
  "gm_inv (\<lambda>s. runner_inv (dn_proc s)) (gm_modify (\<lambda>s. s\<lparr>dn_proc := runner_stop (dn_proc s)\<rparr>))"
  using runner_exec_inv [of _ "''SIGTERM''" "EvStart (ph_now h) (ph_now h) (ph_start h (cs_Command cmd)) cmd"]
  by (auto simp: gm_valid_def dns_start_def dns_reload_def gm_modify_def runner_inv_stop split: prod.splits go.splits option.splits)

lemma dns_reconcile_inv: "gm_inv (\<lambda>s. runner_inv (dn_proc s)) (dns_reconcile h deviceName d ifaces)"
  unfolding dns_reconcile_def split_def by (intro gm_rules)

end
