(* ===== verification/WifiScan.thy ===== *)
theory WifiScan
  imports Prelude
begin

text \<open>
  The parsers of wifi scan results: \<open>iw dev <iface> scan\<close> (\<open>pkg/wifi/scaniw.go\<close>) and
  \<open>wpa_cli scan_results\<close> (\<open>pkg/wifi/scanwpacli.go\<close>), and the country derived from a scan
  (\<open>pkg/wifi/country.go\<close>). Assigning to an element of a slice out of its range panics.
\<close>

record wifi_net =
  wn_MAC :: string
  wn_SSID :: string
  wn_Country :: string

definition tab :: char where
  "tab = CHR 0x09"

section \<open>iw\<close>

record iw_state =
  iw_networks :: "wifi_net list"
  iw_i :: int
  iw_entry :: bool

definition set_network :: "(wifi_net \<Rightarrow> wifi_net) \<Rightarrow> iw_state \<Rightarrow> iw_state go" where
  "set_network f s =
     (if 0 \<le> iw_i s \<and> nat (iw_i s) < length (iw_networks s) then
        Ret (s\<lparr>iw_networks := (iw_networks s)[nat (iw_i s) := f (iw_networks s ! nat (iw_i s))]\<rparr>)
      else Panic ''index out of range'')"

definition iw_attribute :: "string \<Rightarrow> iw_state \<Rightarrow> iw_state go" where
  "iw_attribute line s =
     (case index_of CHR '':'' line of
        None \<Rightarrow> Ret s
      | Some colonPos \<Rightarrow>
          if colonPos < 1 \<or> int (length line) - 3 \<le> int colonPos then Ret s
          else
            (let key = take colonPos line; val = drop (colonPos + 2) line in
             if key = ''SSID'' then set_network (\<lambda>n. n\<lparr>wn_SSID := val\<rparr>) s
             else if key = ''Country'' then
               (if 2 \<le> length val then set_network (\<lambda>n. n\<lparr>wn_Country := take 2 val\<rparr>) s else Ret s)
             else Ret s))"

definition iw_line :: "string \<Rightarrow> iw_state \<Rightarrow> iw_state go" where
  "iw_line line s =
     (if prefix ''BSS '' line \<and> 4 + 17 \<le> length line then
        Ret (s\<lparr>iw_networks := iw_networks s @ [\<lparr>wn_MAC = take 17 (drop 4 line), wn_SSID = [], wn_Country = []\<rparr>],
               iw_i := iw_i s + 1, iw_entry := True\<rparr>)
      else if \<not> prefix [tab] line then Ret (s\<lparr>iw_entry := False\<rparr>)
      else if \<not> iw_entry s then Ret s
      else iw_attribute (drop 1 line) s)"

fun iw_lines :: "string list \<Rightarrow> iw_state \<Rightarrow> iw_state go" where
  "iw_lines [] s = Ret s"
| "iw_lines (l # ls) s = go_bind (iw_line l s) (iw_lines ls)"

definition parseIwNetworkScanResult :: "string \<Rightarrow> (wifi_net list) go" where
  "parseIwNetworkScanResult iwOutput =
     go_bind (iw_lines (split_on newline (trim is_space iwOutput)) \<lparr>iw_networks = [], iw_i = - 1, iw_entry = False\<rparr>)
       (\<lambda>s. Ret (filter (\<lambda>n. wn_SSID n \<noteq> []) (iw_networks s)))"

section \<open>wpa_cli\<close>

text \<open>\<open>^([^\s]+)\t([0-9]+)\t([0-9-]+)\t([^\s]+)\t(.+)$\<close>: five fields between tabs, the last any text.\<close>

definition re_space :: "char \<Rightarrow> bool" where
  "re_space c \<longleftrightarrow> c \<in> {CHR '' '', tab, newline, CHR 0x0C, CHR 0x0D}"

definition ascii_digit :: "char \<Rightarrow> bool" where
  "ascii_digit c \<longleftrightarrow> CHR ''0'' \<le> c \<and> c \<le> CHR ''9''"

definition match_wpa_line :: "string \<Rightarrow> (string \<times> string) option" where
  "match_wpa_line line =
     (case split_on tab line of
        mac # freq # signal # flags # rest \<Rightarrow>
          (let ssid = join [tab] rest in
           if rest \<noteq> [] \<and> mac \<noteq> [] \<and> list_all (\<lambda>c. \<not> re_space c) mac \<and> freq \<noteq> [] \<and> list_all ascii_digit freq \<and>
              signal \<noteq> [] \<and> list_all (\<lambda>c. ascii_digit c \<or> c = CHR ''-'') signal \<and>
              flags \<noteq> [] \<and> list_all (\<lambda>c. \<not> re_space c) flags \<and> ssid \<noteq> [] \<and> newline \<notin> set ssid
           then Some (mac, ssid) else None)
      | _ \<Rightarrow> None)"

fun parseWPACLIScanResult :: "string list \<Rightarrow> wifi_net list" where
  "parseWPACLIScanResult [] = []"
| "parseWPACLIScanResult (line # lines) =
     (case match_wpa_line line of
        Some (mac, ssid) \<Rightarrow> [\<lparr>wn_MAC = mac, wn_SSID = ssid, wn_Country = []\<rparr>]
      | None \<Rightarrow> []) @ parseWPACLIScanResult lines"

section \<open>Country\<close>

definition detectCountry :: "wifi_net list \<Rightarrow> go_error + string" where
  "detectCountry networks =
     (case find (\<lambda>n. wn_Country n \<noteq> []) networks of
        Some n \<Rightarrow> Inr (wn_Country n)
      | None \<Rightarrow> Inl (Errorf ''detect wifi country: no wifi network found to derive country from''))"

section \<open>Lemmas\<close>

text \<open>While an entry is open, its index is that of the last network found.\<close>

definition iw_inv :: "iw_state \<Rightarrow> bool" where
  "iw_inv s \<longleftrightarrow> iw_i s = int (length (iw_networks s)) - 1 \<and> (iw_entry s \<longrightarrow> iw_networks s \<noteq> []) \<and>
     (\<forall>n \<in> set (iw_networks s). length (wn_MAC n) = 17)"

lemma set_network_ok:
  assumes "iw_inv s" "iw_entry s" "\<And>n. wn_MAC (f n) = wn_MAC n"
  shows "\<exists>s'. set_network f s = Ret s' \<and> iw_inv s'"
proof -
  have i: "0 \<le> iw_i s" "nat (iw_i s) < length (iw_networks s)"
    using assms(1,2) unfolding iw_inv_def by (cases "iw_networks s"; simp)+
  have "\<forall>n \<in> set ((iw_networks s)[nat (iw_i s) := f (iw_networks s ! nat (iw_i s))]). length (wn_MAC n) = 17"
    using assms(1,3) i nth_mem [OF i(2)] unfolding iw_inv_def by (auto dest!: set_update_subset_insert [THEN subsetD])
  with i assms(1) show ?thesis by (auto simp: set_network_def iw_inv_def)
qed

lemma iw_line_ok: "iw_inv s \<Longrightarrow> \<exists>s'. iw_line l s = Ret s' \<and> iw_inv s'"
proof -
  assume inv: "iw_inv s"
  have attr: "iw_entry s \<Longrightarrow> \<exists>s'. iw_attribute line s = Ret s' \<and> iw_inv s'" for line
    using inv set_network_ok [OF inv] by (auto simp: iw_attribute_def Let_def split: option.splits)
  show ?thesis
    using inv attr [of "drop 1 l"] by (auto simp: iw_line_def iw_inv_def)
qed

lemma iw_lines_ok: "iw_inv s \<Longrightarrow> \<exists>s'. iw_lines ls s = Ret s' \<and> iw_inv s'"
proof (induction ls arbitrary: s)
  case Nil
  then show ?case by simp
next
  case (Cons l ls)
  from iw_line_ok [OF Cons.prems, of l] Cons.IH show ?case by auto
qed

text \<open>
  One network as iw prints it, with the lines the parser reads and some that it does not; a network that does not
  announce its country has no such line. The parser reads no name of a single character.
\<close>

definition iw_block :: "string \<Rightarrow> wifi_net \<Rightarrow> string list" where
  "iw_block iface n =
     [''BSS '' @ wn_MAC n @ ''(on '' @ iface @ '')'', [tab] @ ''freq: 5620'', [tab] @ ''SSID: '' @ wn_SSID n,
      [tab] @ ''Supported rates: 6.0''] @
     (if wn_Country n = [] then [] else [[tab] @ ''Country: '' @ wn_Country n @ [tab] @ ''Environment: Indoor/Outdoor''])"

definition iw_network_ok :: "wifi_net \<Rightarrow> bool" where
  "iw_network_ok n \<longleftrightarrow> length (wn_MAC n) = 17 \<and> (wn_Country n = [] \<or> length (wn_Country n) = 2) \<and>
     newline \<notin> set (wn_MAC n @ wn_SSID n @ wn_Country n)"

definition iw_read :: "wifi_net \<Rightarrow> wifi_net" where
  "iw_read n = (if 2 \<le> length (wn_SSID n) then n else n\<lparr>wn_SSID := []\<rparr>)"

lemma iw_block_parsed:
  assumes "iw_network_ok n" "iw_i s = int (length (iw_networks s)) - 1"
  shows "\<exists>s'. iw_lines (iw_block iface n) s = Ret s' \<and> iw_networks s' = iw_networks s @ [iw_read n] \<and>
    iw_i s' = int (length (iw_networks s')) - 1"
proof -
  have k: "index_of CHR '':'' (''SSID: '' @ v) = Some 4" "index_of CHR '':'' (''freq: '' @ v) = Some 4"
    "index_of CHR '':'' (''Country: '' @ v) = Some 7" "index_of CHR '':'' (''Supported rates: '' @ v) = Some 15" for v
    using index_of_append [of "CHR '':''" "''SSID''" "'' '' @ v"] index_of_append [of "CHR '':''" "''freq''" "'' '' @ v"]
      index_of_append [of "CHR '':''" "''Country''" "'' '' @ v"] index_of_append [of "CHR '':''" "''Supported rates''" "'' '' @ v"]
    by simp_all
  have m: "length (wn_MAC n) = 17" using assms(1) by (simp add: iw_network_ok_def)
  show ?thesis
  proof (cases "wn_Country n = []")
    case True
    then show ?thesis
      using assms(2) m k
      by (cases "2 \<le> length (wn_SSID n)"; cases n)
         (simp_all add: iw_block_def iw_line_def iw_attribute_def set_network_def tab_def nat_diff_distrib iw_read_def)
  next
    case False
    with assms(1) have c: "length (wn_Country n) = 2" "take 2 (wn_Country n) = wn_Country n" by (simp_all add: iw_network_ok_def)
    then show ?thesis
      using assms(2) m k False
      by (cases "2 \<le> length (wn_SSID n)"; cases n)
         (simp_all add: iw_block_def iw_line_def iw_attribute_def set_network_def tab_def nat_diff_distrib iw_read_def)
  qed
qed

lemma iw_lines_append: "iw_lines (a @ b) s = go_bind (iw_lines a s) (iw_lines b)"
proof (induction a arbitrary: s)
  case Nil
  then show ?case by simp
next
  case (Cons l a)
  then show ?case by (cases "iw_line l s") simp_all
qed

lemma iw_blocks_parsed:
  "list_all iw_network_ok ns \<Longrightarrow> iw_i s = int (length (iw_networks s)) - 1 \<Longrightarrow>
   \<exists>s'. iw_lines (concat (map (iw_block iface) ns)) s = Ret s' \<and> iw_networks s' = iw_networks s @ map iw_read ns"
proof (induction ns arbitrary: s)
  case Nil
  then show ?case by simp
next
  case (Cons n ns)
  from Cons.prems obtain s1 where s1: "iw_lines (iw_block iface n) s = Ret s1" "iw_networks s1 = iw_networks s @ [iw_read n]"
    "iw_i s1 = int (length (iw_networks s1)) - 1"
    using iw_block_parsed [of n s iface] by auto
  from Cons.IH [OF _ s1(3)] Cons.prems(1) s1 show ?case by (auto simp: iw_lines_append)
qed

lemma trim_newline:
  assumes "w \<noteq> []" "\<not> is_space (hd w)" "\<not> is_space (last w)"
  shows "trim is_space (w @ [newline]) = w"
proof -
  have n: "is_space newline" by (simp add: is_space_def newline_def)
  have "dropWhile is_space (w @ [newline]) = w @ [newline]" using assms(1,2) by (cases w) auto
  moreover have "dropWhile is_space (newline # rev w) = rev w"
    using assms(1,3) n by (cases w rule: rev_cases) auto
  ultimately show ?thesis by (simp add: trim_def trim_left_def trim_right_def)
qed

lemma unlines_join: "ls \<noteq> [] \<Longrightarrow> unlines ls = join [newline] ls @ [newline]"
  by (induction "[newline]" ls rule: join.induct) (auto simp: unlines_def)

lemma join_last: "ls \<noteq> [] \<Longrightarrow> last ls \<noteq> [] \<Longrightarrow> join sep ls \<noteq> [] \<and> last (join sep ls) = last (last ls)"
  by (induction sep ls rule: join.induct) auto

lemma join_hd: "ls \<noteq> [] \<Longrightarrow> hd ls \<noteq> [] \<Longrightarrow> hd (join sep ls) = hd (hd ls)"
  by (cases "(sep, ls)" rule: join.cases) auto

lemma iw_output_lines:
  assumes "ns \<noteq> []" "\<And>n. n \<in> set ns \<Longrightarrow> newline \<notin> set (wn_MAC n @ wn_SSID n @ wn_Country n)" "newline \<notin> set iface"
  shows "split_on newline (trim is_space (unlines (concat (map (iw_block iface) ns)))) = concat (map (iw_block iface) ns)"
proof -
  let ?ls = "concat (map (iw_block iface) ns)"
  obtain n ns' where ns: "ns = n # ns'" using assms(1) by (cases ns) auto
  obtain ns1 n1 where ns1: "ns = ns1 @ [n1]" using assms(1) by (cases ns rule: rev_cases) auto
  have ls: "?ls \<noteq> []" "hd ?ls = ''BSS '' @ wn_MAC n @ ''(on '' @ iface @ '')''"
    using ns by (simp_all add: iw_block_def)
  have last: "last ?ls = (if wn_Country n1 = [] then [tab] @ ''Supported rates: 6.0''
      else [tab] @ ''Country: '' @ wn_Country n1 @ [tab] @ ''Environment: Indoor/Outdoor'')"
    using ns1 by (simp add: iw_block_def)
  have "\<not> is_space (hd (join [newline] ?ls))" "\<not> is_space (last (join [newline] ?ls))" "join [newline] ?ls \<noteq> []"
    using join_hd [of ?ls "[newline]"] join_last [of ?ls "[newline]"] ls last by (simp_all add: is_space_def)
  then have "trim is_space (unlines ?ls) = join [newline] ?ls"
    using trim_newline [of "join [newline] ?ls"] unlines_join [OF ls(1)] by simp
  moreover have "newline \<notin> set l" if "l \<in> set ?ls" for l
    using that assms(2,3) by (auto simp: iw_block_def newline_def tab_def split: if_splits)
  ultimately show ?thesis using split_on_join [of ?ls newline] ls(1) by simp
qed

section \<open>Properties\<close>

text \<open>
  Whatever \<open>iw\<close> prints, parsing it does not panic, and every network listed has a name and a MAC
  address of 17 characters.
\<close>

theorem iw_scan_total:
  "\<exists>ns. parseIwNetworkScanResult out = Ret ns \<and> list_all (\<lambda>n. wn_SSID n \<noteq> [] \<and> length (wn_MAC n) = 17) ns"
proof -
  have "iw_inv \<lparr>iw_networks = [], iw_i = - 1, iw_entry = False\<rparr>" by (simp add: iw_inv_def)
  from iw_lines_ok [OF this, of "split_on newline (trim is_space out)"] show ?thesis
    by (auto simp: parseIwNetworkScanResult_def iw_inv_def list_all_iff)
qed

text \<open>
  C37. A scan is read back but for networks whose name has a single character, or none: the output \<open>iw\<close> prints for
  a list of networks, each with or without a country of two characters, parses to exactly the networks with names
  of at least two characters, in order, with MAC address, name and country. No name holds a line break.
\<close>

theorem iw_scan_roundtrip:
  assumes "list_all iw_network_ok ns" "newline \<notin> set iface" "ns \<noteq> []"
  shows "parseIwNetworkScanResult (unlines (concat (map (iw_block iface) ns))) = Ret (filter (\<lambda>n. 2 \<le> length (wn_SSID n)) ns)"
proof -
  have ok: "\<And>n. n \<in> set ns \<Longrightarrow> newline \<notin> set (wn_MAC n @ wn_SSID n @ wn_Country n)"
    using assms(1) by (auto simp: list_all_iff iw_network_ok_def)
  have kept: "filter (\<lambda>n. wn_SSID n \<noteq> []) (map iw_read ns) = filter (\<lambda>n. 2 \<le> length (wn_SSID n)) ns" for ns
    by (induction ns) (auto simp: iw_read_def)
  show ?thesis
    using iw_blocks_parsed [OF assms(1), of "\<lparr>iw_networks = [], iw_i = - 1, iw_entry = False\<rparr>" iface]
      iw_output_lines [OF assms(3) ok assms(2)] kept [of ns]
    by (auto simp: parseIwNetworkScanResult_def)
qed

definition demo_nets :: "wifi_net list" where
  "demo_nets = [\<lparr>wn_MAC = ''3c:37:12:04:6c:62'', wn_SSID = ''Some Network'', wn_Country = ''DE''\<rparr>,
     \<lparr>wn_MAC = ''3c:37:12:04:6c:64'', wn_SSID = ''X'', wn_Country = ''DE''\<rparr>,
     \<lparr>wn_MAC = ''3c:37:12:04:6c:63'', wn_SSID = ''Other'', wn_Country = []\<rparr>]"

theorem iw_scan_roundtrip_witness:
  "parseIwNetworkScanResult (unlines (concat (map (iw_block ''wlan0'') demo_nets))) = Ret [demo_nets ! 0, demo_nets ! 2]"
proof -
  have "filter (\<lambda>n. 2 \<le> length (wn_SSID n)) demo_nets = [demo_nets ! 0, demo_nets ! 2]" by (simp add: demo_nets_def)
  with iw_scan_roundtrip [of demo_nets "''wlan0''"] show ?thesis
    by (simp add: demo_nets_def iw_network_ok_def newline_def)
qed

text \<open>
  A network whose name has a single character is never found: its attribute line is taken for one
  without value.
\<close>

theorem iw_single_character_ssid_dropped:
  assumes "length (wn_SSID n) = 1" "iw_network_ok n" "newline \<notin> set iface"
  shows "parseIwNetworkScanResult (unlines (iw_block iface n)) = Ret []"
proof -
  obtain s' where "iw_lines (iw_block iface n) \<lparr>iw_networks = [], iw_i = - 1, iw_entry = False\<rparr> = Ret s'" "iw_networks s' = [iw_read n]"
    using iw_block_parsed [OF assms(2), of "\<lparr>iw_networks = [], iw_i = - 1, iw_entry = False\<rparr>" iface] by auto
  moreover have "split_on newline (trim is_space (unlines (iw_block iface n))) = iw_block iface n"
    using iw_output_lines [of "[n]" iface] assms(2,3) by (simp add: iw_network_ok_def)
  ultimately show ?thesis using assms(1) by (simp add: parseIwNetworkScanResult_def iw_read_def)
qed

theorem iw_single_character_ssid_dropped_witness:
  "parseIwNetworkScanResult (unlines (iw_block ''wlan0'' \<lparr>wn_MAC = ''3c:37:12:04:6c:62'', wn_SSID = ''X'', wn_Country = ''DE''\<rparr>)) = Ret []"
  by (rule iw_single_character_ssid_dropped) (simp_all add: newline_def iw_network_ok_def)

end
