(* ===== verification/Wifi.thy ===== *)
theory Wifi
  imports ConfFile WifiScan Runner
begin

text \<open>
  The wifi component (\<open>pkg/wifi/wifi.go\<close>, \<open>ap.go\<close>, \<open>station.go\<close>, \<open>pkg/cliutils\<close>): the network
  interface, the access point (hostapd and the routes to it) and the station (wpa_supplicant and
  dhcpcd), each process held by a \<open>Runner\<close>. The commands it runs and the kernel they change are the
  host's: \<open>h_run\<close> answers a command with the new kernel state and an error message,
  \<open>h_output\<close> one whose output is read, \<open>h_start\<close> the start of a process. Files are a map.
\<close>

section \<open>State and host\<close>

record 'k wifi =
  w_ap :: runner
  w_station :: runner
  w_dhcpcd :: runner
  w_started :: bool
  w_mode :: string
  w_EthIface :: string
  w_WifiIface :: string
  w_CountryCode :: string
  w_WriteHostResolvConf :: bool
  w_networks :: "wifi_net list"
  w_sys :: 'k
  w_files :: "(string \<times> string) list"

record 'k host =
  h_run :: "string list \<Rightarrow> 'k \<Rightarrow> 'k \<times> string option"
  h_output :: "string list \<Rightarrow> 'k \<Rightarrow> 'k \<times> (string + string)"
  h_write :: "string \<Rightarrow> string option"
  h_start :: "string \<Rightarrow> start_result"
  h_now :: nat
  h_ifaces :: "string + string list"

definition ModeDisabled :: string where "ModeDisabled = ''disabled''"
definition ModeStation :: string where "ModeStation = ''station''"
definition ModeAccessPoint :: string where "ModeAccessPoint = ''accesspoint''"

text \<open>\<open>detectIface\<close>: the first interface with one of the prefixes, nothing if the list cannot be read.\<close>

definition detectIface :: "'k host \<Rightarrow> string list \<Rightarrow> string" where
  "detectIface h pfxs =
     (case h_ifaces h of
        Inl _ \<Rightarrow> []
      | Inr names \<Rightarrow> (case find (\<lambda>n. list_ex (\<lambda>p. prefix p n) pfxs) names of None \<Rightarrow> [] | Some n \<Rightarrow> n))"

definition new_wifi :: "'k host \<Rightarrow> 'k \<Rightarrow> (string \<times> string) list \<Rightarrow> 'k wifi" where
  "new_wifi h k files =
     \<lparr>w_ap = new_runner, w_station = new_runner, w_dhcpcd = new_runner, w_started = False, w_mode = [],
      w_EthIface = detectIface h [''eth'', ''enp''], w_WifiIface = detectIface h [''wlan'', ''wlp''],
      w_CountryCode = ''DE'', w_WriteHostResolvConf = False, w_networks = [], w_sys = k, w_files = files\<rparr>"

section \<open>Commands and files\<close>

definition runCmd :: "'k host \<Rightarrow> string list \<Rightarrow> ('k wifi, unit) gm" where
  "runCmd h args w =
     (case h_run h args (w_sys w) of
        (k, None) \<Rightarrow> Ret (w\<lparr>w_sys := k\<rparr>, Inr ())
      | (k, Some m) \<Rightarrow> Ret (w\<lparr>w_sys := k\<rparr>, Inl (Errorf (hd args @ '': '' @ m))))"

definition cli_run :: "'k host \<Rightarrow> string list \<Rightarrow> ('k wifi, string) gm" where
  "cli_run h args w =
     (case h_output h args (w_sys w) of
        (k, Inr out) \<Rightarrow> Ret (w\<lparr>w_sys := k\<rparr>, Inr out)
      | (k, Inl m) \<Rightarrow> Ret (w\<lparr>w_sys := k\<rparr>, Inl (Errorf (hd args @ '': '' @ m))))"

definition write_text :: "'k host \<Rightarrow> string \<Rightarrow> string \<Rightarrow> ('k wifi, unit) gm" where
  "write_text h path content = gm_zoom w_files (\<lambda>f w. w\<lparr>w_files := f\<rparr>) (file_write (h_write h) path content)"

definition write_conf :: "'k host \<Rightarrow> string \<Rightarrow> string \<Rightarrow> ('k wifi, string \<times> bool) gm" where
  "write_conf h name conf = gm_zoom w_files (\<lambda>f w. w\<lparr>w_files := f\<rparr>) (conf_file (h_write h) name conf)"

definition write_template ::
  "'k host \<Rightarrow> string \<Rightarrow> string \<Rightarrow> (string \<times> string) list \<Rightarrow> ('k wifi, string \<times> bool) gm" where
  "write_template h name confTpl args =
     gm_zoom w_files (\<lambda>f w. w\<lparr>w_files := f\<rparr>) (WriteTempConfigFile (h_write h) name confTpl args)"

definition copyFile :: "'k host \<Rightarrow> string \<Rightarrow> string \<Rightarrow> ('k wifi, unit) gm" where
  "copyFile h src dst =
     gm_bind gm_get (\<lambda>w.
       case map_of (w_files w) src of
         None \<Rightarrow> gm_fail (Errorf (''open '' @ src @ '': no such file or directory''))
       | Some b \<Rightarrow> write_text h dst b)"

section \<open>The interface\<close>

definition wifi_scan :: "'k host \<Rightarrow> ('k wifi, unit) gm" where
  "wifi_scan h =
     gm_bind gm_get (\<lambda>w.
       if \<not> w_started w then
         gm_fail (Errorf (''cannot scan wifi networks while network interface '' @ w_WifiIface w @ '' is down''))
       else
         gm_bind (gm_wrap ''wifi network scan: '' (cli_run h [''iw'', ''dev'', w_WifiIface w, ''scan'', ''ap-force'']))
           (\<lambda>out. case parseIwNetworkScanResult out of
              Panic p \<Rightarrow> gm_panic p
            | Ret l \<Rightarrow> gm_modify (\<lambda>w. w\<lparr>w_networks := l\<rparr>)))"

definition restartWifiInterface :: "'k host \<Rightarrow> ('k wifi, unit) gm" where
  "restartWifiInterface h =
     gm_bind gm_get (\<lambda>w.
       gm_then (gm_wrap (''restart wifi network interface '' @ w_WifiIface w @ '': '')
         (gm_each (runCmd h)
           [[''ip'', ''link'', ''set'', w_WifiIface w, ''down''],
            [''ip'', ''addr'', ''flush'', ''dev'', w_WifiIface w],
            [''ip'', ''link'', ''set'', w_WifiIface w, ''up'']]))
       (gm_then (gm_modify (\<lambda>w. w\<lparr>w_started := True\<rparr>))
       (wifi_scan h)))"

definition StartWifiInterface :: "'k host \<Rightarrow> ('k wifi, unit) gm" where
  "StartWifiInterface h = gm_bind gm_get (\<lambda>w. gm_when (\<not> w_started w) (restartWifiInterface h))"

definition StopWifiInterface :: "'k host \<Rightarrow> ('k wifi, unit) gm" where
  "StopWifiInterface h =
     gm_bind gm_get (\<lambda>w. gm_when (w_started w)
       (gm_then (gm_wrap (''stop wifi interface '' @ w_WifiIface w @ '': '')
         (gm_each (runCmd h) [[''ip'', ''link'', ''set'', w_WifiIface w, ''down'']]))
       (gm_modify (\<lambda>w. w\<lparr>w_started := False\<rparr>))))"

definition DetectCountry :: "('k wifi, unit) gm" where
  "DetectCountry =
     gm_bind gm_get (\<lambda>w.
       if \<not> w_started w then gm_fail (Errorf ''cannot detect wifi country while wifi interface is down'')
       else if w_CountryCode w = [] then
         (case detectCountry (w_networks w) of
            Inl e \<Rightarrow> gm_fail e
          | Inr c \<Rightarrow> gm_modify (\<lambda>w. w\<lparr>w_CountryCode := c\<rparr>))
       else gm_return ())"

section \<open>Processes\<close>

definition lift_runner :: "(runner \<times> (go_error + bool) go) \<Rightarrow> (runner \<Rightarrow> 'k wifi) \<Rightarrow> ('k wifi \<times> (go_error + bool)) go" where
  "lift_runner r f = (case r of (m, Panic p) \<Rightarrow> Panic p | (m, Ret res) \<Rightarrow> Ret (f m, res))"

definition start_ap :: "'k host \<Rightarrow> command_spec \<Rightarrow> ('k wifi, bool) gm" where
  "start_ap h cmd w = lift_runner
     (runner_start ''SIGTERM'' (h_now h) (h_now h) (h_start h (cs_Command cmd)) cmd (w_ap w)) (\<lambda>m. w\<lparr>w_ap := m\<rparr>)"

definition start_station :: "'k host \<Rightarrow> command_spec \<Rightarrow> ('k wifi, bool) gm" where
  "start_station h cmd w = lift_runner
     (runner_start ''SIGTERM'' (h_now h) (h_now h) (h_start h (cs_Command cmd)) cmd (w_station w)) (\<lambda>m. w\<lparr>w_station := m\<rparr>)"

definition start_dhcpcd :: "'k host \<Rightarrow> command_spec \<Rightarrow> ('k wifi, bool) gm" where
  "start_dhcpcd h cmd w = lift_runner
     (runner_start ''SIGTERM'' (h_now h) (h_now h) (h_start h (cs_Command cmd)) cmd (w_dhcpcd w)) (\<lambda>m. w\<lparr>w_dhcpcd := m\<rparr>)"

definition stop_ap :: "('k wifi, unit) gm" where
  "stop_ap = gm_modify (\<lambda>w. w\<lparr>w_ap := runner_stop (w_ap w)\<rparr>)"

definition stop_station :: "('k wifi, unit) gm" where
  "stop_station = gm_modify (\<lambda>w. w\<lparr>w_station := runner_stop (w_station w)\<rparr>)"

definition stop_dhcpcd :: "('k wifi, unit) gm" where
  "stop_dhcpcd = gm_modify (\<lambda>w. w\<lparr>w_dhcpcd := runner_stop (w_dhcpcd w)\<rparr>)"

section \<open>Routes of the access point\<close>

record ipt_rule =
  r_table :: string
  r_chain :: string
  r_in :: string
  r_out :: string
  r_jump :: string
  r_state :: string

definition ipt_args :: "string \<Rightarrow> ipt_rule \<Rightarrow> string list" where
  "ipt_args op r =
     [''iptables'', ''-t'', r_table r, op, r_chain r, ''-o'', r_out r, ''-j'', r_jump r] @
     (if r_in r \<noteq> [] then [''-i'', r_in r] else []) @
     (if r_state r \<noteq> [] then [''-m'', ''state'', ''--state'', r_state r] else [])"

definition modifyIPTables :: "'k host \<Rightarrow> string \<Rightarrow> ipt_rule \<Rightarrow> ('k wifi, unit) gm" where
  "modifyIPTables h op r = runCmd h (ipt_args op r)"

definition addIPTablesRule :: "'k host \<Rightarrow> ipt_rule \<Rightarrow> ('k wifi, unit) gm" where
  "addIPTablesRule h r =
     gm_bind (gm_try (modifyIPTables h ''-C'' r)) (\<lambda>c.
       case c of
         Inr _ \<Rightarrow> gm_return ()
       | Inl _ \<Rightarrow> gm_ignore (modifyIPTables h ''-A'' r))"

definition delIPTablesRule :: "'k host \<Rightarrow> ipt_rule \<Rightarrow> ('k wifi, unit) gm" where
  "delIPTablesRule h r =
     gm_bind (gm_try (modifyIPTables h ''-C'' r)) (\<lambda>c.
       case c of
         Inl _ \<Rightarrow> gm_return ()
       | Inr _ \<Rightarrow> gm_ignore (modifyIPTables h ''-D'' r))"

definition ap_rules :: "string \<Rightarrow> string \<Rightarrow> ipt_rule list" where
  "ap_rules eth wlan =
     [\<lparr>r_table = ''nat'', r_chain = ''POSTROUTING'', r_in = [], r_out = wlan, r_jump = ''MASQUERADE'', r_state = []\<rparr>,
      \<lparr>r_table = ''filter'', r_chain = ''FORWARD'', r_in = eth, r_out = wlan, r_jump = ''ACCEPT'', r_state = ''RELATED,ESTABLISHED''\<rparr>,
      \<lparr>r_table = ''filter'', r_chain = ''FORWARD'', r_in = wlan, r_out = eth, r_jump = ''ACCEPT'', r_state = []\<rparr>]"

definition installAPRoutes :: "'k host \<Rightarrow> ('k wifi, unit) gm" where
  "installAPRoutes h = gm_bind gm_get (\<lambda>w. gm_each (addIPTablesRule h) (ap_rules (w_EthIface w) (w_WifiIface w)))"

definition uninstallAPRoutes :: "'k host \<Rightarrow> ('k wifi, unit) gm" where
  "uninstallAPRoutes h = gm_bind gm_get (\<lambda>w. gm_each (delIPTablesRule h) (ap_rules (w_EthIface w) (w_WifiIface w)))"

section \<open>The access point\<close>

definition generateNetworkInterfacesConfIfNotExist :: "'k host \<Rightarrow> ('k wifi, bool) gm" where
  "generateNetworkInterfacesConfIfNotExist h =
     gm_bind gm_get (\<lambda>w.
       if map_of (w_files w) ''/etc/network/interfaces'' = None then
         gm_then (gm_wrap ''write network interface config: '' (write_text h ''/etc/network/interfaces''
           (unlines [''auto '' @ w_WifiIface w, ''iface '' @ w_WifiIface w @ '' inet static'',
              ''        address 11.0.0.1'', ''        netmask 255.255.255.0'', [],
              ''auto '' @ w_EthIface w, ''iface '' @ w_EthIface w @ '' inet dhcp''])))
         (gm_return True)
       else gm_return False)"

definition hostapd_template :: string where
  "hostapd_template = unlines
     [''interface={iface}'', ''driver=nl80211'', ''hw_mode=g'', ''channel=6'', ''ieee80211d=1'',
      ''ignore_broadcast_ssid=0'', ''country_code={countryCode}'', ''ieee80211d=1'', [], ''ssid={ssid}'', ''wpa=2'',
      ''wpa_passphrase={password}'', ''wpa_key_mgmt=WPA-PSK'', ''wpa_pairwise=TKIP'', ''rsn_pairwise=CCMP'',
      ''auth_algs=1'', ''macaddr_acl=0'']"

definition generateHostapdConf :: "'k host \<Rightarrow> string \<Rightarrow> string \<Rightarrow> ('k wifi, string \<times> bool) gm" where
  "generateHostapdConf h ssid password =
     gm_bind gm_get (\<lambda>w. write_template h ''hostapd'' hostapd_template
       [(''{iface}'', w_WifiIface w), (''{countryCode}'', w_CountryCode w), (''{ssid}'', ssid), (''{password}'', password)])"

definition StartAccessPoint :: "'k host \<Rightarrow> string \<Rightarrow> string \<Rightarrow> ('k wifi, unit) gm" where
  "StartAccessPoint h ssid password =
     (if password = [] then gm_fail (Errorf ''start accesspoint: no wifi password configured'')
      else
        gm_bind (generateNetworkInterfacesConfIfNotExist h) (\<lambda>ifacesChanged.
        gm_bind (generateHostapdConf h ssid password) (\<lambda>(conf, confChanged).
        gm_bind gm_get (\<lambda>w.
        gm_then (gm_when (ifacesChanged \<or> confChanged \<or> w_mode w \<noteq> ModeAccessPoint)
          (gm_then (restartWifiInterface h)
          (gm_then (runCmd h [''ip'', ''addr'', ''add'', ''11.0.0.1/24'', ''dev'', w_WifiIface w])
          (gm_modify (\<lambda>w. w\<lparr>w_mode := ModeAccessPoint\<rparr>)))))
        (gm_then (installAPRoutes h)
        (gm_then (start_ap h \<lparr>cs_Command = ''hostapd'', cs_Args = [conf]\<rparr>) (gm_return ())))))))"

definition StopAccessPoint :: "'k host \<Rightarrow> ('k wifi, unit) gm" where
  "StopAccessPoint h =
     gm_then (uninstallAPRoutes h)
     (gm_then stop_ap
     (gm_bind gm_get (\<lambda>w. gm_when (w_mode w = ModeAccessPoint)
       (gm_then (gm_ignore (restartWifiInterface h)) (gm_modify (\<lambda>w. w\<lparr>w_mode := ModeDisabled\<rparr>))))))"

section \<open>The station\<close>

definition resolvConfBackupFile :: string where
  "resolvConfBackupFile = ''/tmp/kubemate-resolv-conf-backup''"

definition writeHostResolvConf :: "'k host \<Rightarrow> ('k wifi, unit) gm" where
  "writeHostResolvConf h =
     gm_bind gm_get (\<lambda>w. gm_when (w_WriteHostResolvConf w)
       (gm_wrap ''copy resolv.conf to host file system: '' (copyFile h ''/etc/resolv.conf'' ''/host/etc/resolv.conf'')))"

definition backupResolvConf :: "'k host \<Rightarrow> ('k wifi, unit) gm" where
  "backupResolvConf h =
     gm_bind gm_get (\<lambda>w. gm_when (map_of (w_files w) resolvConfBackupFile = None)
       (gm_ignore (copyFile h ''/etc/resolv.conf'' resolvConfBackupFile)))"

definition restoreResolvConf :: "'k host \<Rightarrow> ('k wifi, unit) gm" where
  "restoreResolvConf h =
     gm_bind gm_get (\<lambda>w. gm_when (map_of (w_files w) resolvConfBackupFile \<noteq> None)
       (gm_ignore (copyFile h resolvConfBackupFile ''/etc/resolv.conf'')))"

definition generateWpaSupplicantConf :: "'k host \<Rightarrow> string \<Rightarrow> string \<Rightarrow> ('k wifi, string \<times> bool) gm" where
  "generateWpaSupplicantConf h ssid password =
     gm_bind gm_get (\<lambda>w.
       if w_CountryCode w = [] then gm_fail (Errorf ''country code not specified'')
       else
         gm_bind (if ssid \<noteq> [] \<and> password \<noteq> [] then cli_run h [''wpa_passphrase'', ssid, password]
                  else gm_return [newline])
           (\<lambda>network. write_conf h ''wpa_supplicant''
              (unlines [''ctrl_interface=DIR=/var/run/wpa_supplicant GROUP=netdev'', ''country='' @ w_CountryCode w] @ network)))"

definition StartStation :: "'k host \<Rightarrow> string \<Rightarrow> string \<Rightarrow> ('k wifi, unit) gm" where
  "StartStation h ssid password =
     gm_bind (generateWpaSupplicantConf h ssid password) (\<lambda>(confFile, confChanged).
     gm_bind gm_get (\<lambda>w.
     gm_then (gm_when (confChanged \<or> w_mode w \<noteq> ModeStation)
       (gm_then (backupResolvConf h)
       (gm_then (restartWifiInterface h)
       (gm_then stop_station
       (gm_modify (\<lambda>w. w\<lparr>w_mode := ModeStation\<rparr>))))))
     (gm_then (start_station h \<lparr>cs_Command = ''wpa_supplicant'', cs_Args = [''-i'', w_WifiIface w, ''-c'', confFile]\<rparr>)
     (gm_then (start_dhcpcd h \<lparr>cs_Command = ''dhcpcd'', cs_Args = [''-B'', ''--metric=204'', w_WifiIface w]\<rparr>)
     (writeHostResolvConf h)))))"

definition StopStation :: "'k host \<Rightarrow> ('k wifi, unit) gm" where
  "StopStation h =
     gm_then stop_station
     (gm_then stop_dhcpcd
     (gm_then (restoreResolvConf h)
     (gm_ignore (writeHostResolvConf h))))"

definition wifi_close :: "'k host \<Rightarrow> ('k wifi, unit) gm" where
  "wifi_close h =
     gm_then (StopAccessPoint h) (gm_then stop_ap (gm_then (StopStation h) (StopWifiInterface h)))"

section \<open>Who may run\<close>

text \<open>
  Each runner is in order; and as a condition between operations, that no station, or no access
  point, is running.
\<close>

definition wifi_inv :: "'k wifi \<Rightarrow> bool" where
  "wifi_inv w \<longleftrightarrow> runner_inv (w_ap w) \<and> runner_inv (w_station w) \<and> runner_inv (w_dhcpcd w)"

definition no_station :: "'k wifi \<Rightarrow> bool" where
  "no_station w \<longleftrightarrow> wifi_inv w \<and> rn_live (w_station w) = [] \<and> rn_live (w_dhcpcd w) = []"

definition no_ap :: "'k wifi \<Rightarrow> bool" where
  "no_ap w \<longleftrightarrow> wifi_inv w \<and> rn_live (w_ap w) = []"

text \<open>What most operations leave alone: any condition on the three runners.\<close>

locale runners_condition =
  fixes I :: "'k wifi \<Rightarrow> bool"
  assumes same_runners: "I w \<Longrightarrow> w_ap w' = w_ap w \<Longrightarrow> w_station w' = w_station w \<Longrightarrow> w_dhcpcd w' = w_dhcpcd w \<Longrightarrow> I w'"
begin

lemma inv_modify [gm_rules]:
  "(\<And>w. w_ap (f w) = w_ap w \<and> w_station (f w) = w_station w \<and> w_dhcpcd (f w) = w_dhcpcd w) \<Longrightarrow> gm_inv I (gm_modify f)"
  by (rule gm_inv_modify) (metis same_runners)

lemma inv_runCmd [gm_rules]: "gm_inv I (runCmd h args)"
  by (rule gm_validI) (auto simp: runCmd_def split: prod.splits option.splits elim: same_runners)

lemma inv_cli_run [gm_rules]: "gm_inv I (cli_run h args)"
  by (rule gm_validI) (auto simp: cli_run_def split: prod.splits sum.splits elim: same_runners)

lemma inv_files: "gm_inv I (gm_zoom w_files (\<lambda>f w. w\<lparr>w_files := f\<rparr>) m)"
  by (rule gm_inv_zoom_other) (auto elim: same_runners)

lemma inv_write [gm_rules]: "gm_inv I (write_text h p c)" "gm_inv I (write_conf h n c)" "gm_inv I (write_template h n c args)"
  unfolding write_text_def write_conf_def write_template_def by (rule inv_files)+

lemma inv_copyFile [gm_rules]: "gm_inv I (copyFile h a b)"
  unfolding copyFile_def by (intro gm_rules)

lemma inv_wifi_scan [gm_rules]: "gm_inv I (wifi_scan h)"
proof -
  have "gm_inv I (case parseIwNetworkScanResult out of Panic p \<Rightarrow> gm_panic p | Ret l \<Rightarrow> gm_modify (\<lambda>w. w\<lparr>w_networks := l\<rparr>))" for out
    by (cases "parseIwNetworkScanResult out") (auto intro: gm_rules)
  then show ?thesis unfolding wifi_scan_def by (intro gm_rules)
qed

lemma inv_restart [gm_rules]: "gm_inv I (restartWifiInterface h)"
  unfolding restartWifiInterface_def by (intro gm_rules) auto

lemma inv_StartWifiInterface [gm_rules]: "gm_inv I (StartWifiInterface h)"
  unfolding StartWifiInterface_def by (intro gm_rules)

lemma inv_StopWifiInterface [gm_rules]: "gm_inv I (StopWifiInterface h)"
  unfolding StopWifiInterface_def by (intro gm_rules) auto

lemma inv_DetectCountry [gm_rules]: "gm_inv I DetectCountry"
  unfolding DetectCountry_def by (intro gm_rules) auto

lemma inv_ipt [gm_rules]: "gm_inv I (addIPTablesRule h r)" "gm_inv I (delIPTablesRule h r)"
  unfolding addIPTablesRule_def delIPTablesRule_def modifyIPTables_def by (intro gm_rules)+

lemma inv_routes [gm_rules]: "gm_inv I (installAPRoutes h)" "gm_inv I (uninstallAPRoutes h)"
  unfolding installAPRoutes_def uninstallAPRoutes_def by (intro gm_rules)+

lemma inv_resolv [gm_rules]: "gm_inv I (writeHostResolvConf h)" "gm_inv I (backupResolvConf h)" "gm_inv I (restoreResolvConf h)"
  unfolding writeHostResolvConf_def backupResolvConf_def restoreResolvConf_def by (intro gm_rules)+

lemma inv_ifaces_conf [gm_rules]: "gm_inv I (generateNetworkInterfacesConfIfNotExist h)"
  unfolding generateNetworkInterfacesConfIfNotExist_def by (intro gm_rules)

lemma inv_hostapd_conf [gm_rules]: "gm_inv I (generateHostapdConf h s p)"
  unfolding generateHostapdConf_def by (intro gm_rules)

lemma inv_wpa_conf [gm_rules]: "gm_inv I (generateWpaSupplicantConf h s p)"
  unfolding generateWpaSupplicantConf_def by (intro gm_rules)

end

interpretation wi: runners_condition wifi_inv
  by unfold_locales (simp add: wifi_inv_def)

interpretation ns: runners_condition no_station
  by unfold_locales (simp add: no_station_def wifi_inv_def)

interpretation na: runners_condition no_ap
  by unfold_locales (simp add: no_ap_def wifi_inv_def)

section \<open>Starting and stopping the processes\<close>

lemma runner_start_inv: "runner_inv m \<Longrightarrow> runner_start sig now now' os cmd m = (m', Ret res) \<Longrightarrow> runner_inv m'"
  using runner_exec_inv [of m sig "EvStart now now' os cmd" m'] by simp

lemma lift_runner_Ret: "lift_runner r f = Ret (w', res) \<Longrightarrow> \<exists>m. r = (m, Ret res) \<and> w' = f m"
  by (auto simp: lift_runner_def split: prod.splits go.splits)

lemma ns_start_ap [gm_rules]: "gm_inv no_station (start_ap h cmd)"
  by (rule gm_validI)
     (auto simp: start_ap_def no_station_def wifi_inv_def dest!: lift_runner_Ret dest: runner_start_inv)

lemma na_start_station [gm_rules]: "gm_inv no_ap (start_station h cmd)"
  by (rule gm_validI)
     (auto simp: start_station_def no_ap_def wifi_inv_def dest!: lift_runner_Ret dest: runner_start_inv)

lemma na_start_dhcpcd [gm_rules]: "gm_inv no_ap (start_dhcpcd h cmd)"
  by (rule gm_validI)
     (auto simp: start_dhcpcd_def no_ap_def wifi_inv_def dest!: lift_runner_Ret dest: runner_start_inv)

lemma inv_stops [gm_rules]: "gm_inv wifi_inv stop_ap" "gm_inv wifi_inv stop_station" "gm_inv wifi_inv stop_dhcpcd"
  "gm_inv no_ap stop_station" "gm_inv no_ap stop_dhcpcd" "gm_inv no_station stop_ap" "gm_inv no_ap stop_ap"
  unfolding stop_ap_def stop_station_def stop_dhcpcd_def
  by (rule gm_inv_modify, simp add: wifi_inv_def no_ap_def no_station_def runner_inv_stop)+

lemma wi_stop_ap: "gm_valid wifi_inv stop_ap (\<lambda>_. no_ap)"
  by (auto simp: gm_valid_def stop_ap_def gm_modify_def wifi_inv_def no_ap_def runner_inv_stop)

lemma sure_routes [gm_sure_rules]: "gm_sure wifi_inv (uninstallAPRoutes h)" "gm_sure no_ap (uninstallAPRoutes h)"
  "gm_sure no_station (uninstallAPRoutes h)"
  unfolding uninstallAPRoutes_def delIPTablesRule_def modifyIPTables_def
  by (intro gm_sure_rules gm_rules)+

lemma sure_stops [gm_sure_rules]: "gm_sure wifi_inv stop_ap" "gm_sure wifi_inv stop_station" "gm_sure wifi_inv stop_dhcpcd"
  unfolding stop_ap_def stop_station_def stop_dhcpcd_def
  by (rule gm_sure_modify, simp add: wifi_inv_def runner_inv_stop)+

lemma ap_mode_reset: "gm_inv no_ap (gm_bind gm_get (\<lambda>w. gm_when (w_mode w = ModeAccessPoint)
      (gm_then (gm_ignore (restartWifiInterface h)) (gm_modify (\<lambda>w. w\<lparr>w_mode := ModeDisabled\<rparr>)))))"
  by (intro gm_rules) auto

lemma StopAccessPoint_valid: "gm_valid wifi_inv (StopAccessPoint h) (\<lambda>_. no_ap)"
  unfolding StopAccessPoint_def
  by (intro gm_sure_seq [OF sure_routes(1)] gm_step_seq [OF sure_stops(1) wi_stop_ap] ap_mode_reset)

lemma StopAccessPoint_ns [gm_rules]: "gm_inv no_station (StopAccessPoint h)" "gm_inv wifi_inv (StopAccessPoint h)"
  unfolding StopAccessPoint_def by (intro gm_rules, auto)+

definition half_stopped :: "'k wifi \<Rightarrow> bool" where
  "half_stopped w \<longleftrightarrow> wifi_inv w \<and> rn_live (w_station w) = []"

lemma StopStation_valid: "gm_valid wifi_inv (StopStation h) (\<lambda>_. no_station)"
proof -
  have 1: "gm_valid wifi_inv stop_station (\<lambda>_. half_stopped)"
    by (auto simp: gm_valid_def stop_station_def gm_modify_def wifi_inv_def half_stopped_def runner_inv_stop)
  have 2: "gm_valid half_stopped stop_dhcpcd (\<lambda>_. no_station)" "gm_sure half_stopped stop_dhcpcd"
    by (auto simp: gm_sure_def gm_valid_def stop_dhcpcd_def gm_modify_def wifi_inv_def half_stopped_def no_station_def runner_inv_stop)
  have 3: "gm_inv no_station (gm_then (restoreResolvConf h) (gm_ignore (writeHostResolvConf h)))"
    by (intro gm_rules)
  show ?thesis
    unfolding StopStation_def
    by (intro gm_step_seq [OF sure_stops(2) 1] gm_step_seq [OF 2(2) 2(1)] 3)
qed

lemma StopStation_na [gm_rules]: "gm_inv no_ap (StopStation h)" "gm_inv wifi_inv (StopStation h)"
  unfolding StopStation_def by (intro gm_rules)+

lemma StartAccessPoint_ns [gm_rules]: "gm_inv no_station (StartAccessPoint h ssid pw)"
  unfolding StartAccessPoint_def split_def by (intro gm_rules) auto

lemma StartStation_na [gm_rules]: "gm_inv no_ap (StartStation h ssid pw)"
  unfolding StartStation_def split_def by (intro gm_rules) auto

section \<open>Properties\<close>

lemma ipt_args_inj: "ipt_args op r = ipt_args op r' \<Longrightarrow> r = r'"
  by (cases r; cases r') (auto simp: ipt_args_def split: if_splits)

text \<open>
  What \<open>iptables\<close> documents of \<open>-C\<close>, \<open>-A\<close> and \<open>-D\<close>: check whether the rule exists, append it, delete its
  first occurrence. \<open>rules\<close> reads the rules out of the kernel's state.
\<close>

definition iptables_documented :: "'k host \<Rightarrow> ('k \<Rightarrow> ipt_rule list) \<Rightarrow> bool" where
  "iptables_documented h rules \<longleftrightarrow>
     (\<forall>k r. fst (h_run h (ipt_args ''-C'' r) k) = k \<and> (snd (h_run h (ipt_args ''-C'' r) k) = None \<longleftrightarrow> r \<in> set (rules k))) \<and>
     (\<forall>k r. snd (h_run h (ipt_args ''-A'' r) k) = None \<and> rules (fst (h_run h (ipt_args ''-A'' r) k)) = rules k @ [r]) \<and>
     (\<forall>k r. r \<in> set (rules k) \<longrightarrow> snd (h_run h (ipt_args ''-D'' r) k) = None \<and>
        rules (fst (h_run h (ipt_args ''-D'' r) k)) = remove1 r (rules k))"

lemma add_rule:
  assumes "iptables_documented h rules"
  shows "\<exists>k'. addIPTablesRule h r w = Ret (w\<lparr>w_sys := k'\<rparr>, Inr ()) \<and>
    rules k' = (if r \<in> set (rules (w_sys w)) then rules (w_sys w) else rules (w_sys w) @ [r])"
proof -
  obtain k1 m1 where c: "h_run h (ipt_args ''-C'' r) (w_sys w) = (k1, m1)" by fastforce
  obtain k2 m2 where a: "h_run h (ipt_args ''-A'' r) (w_sys w) = (k2, m2)" by fastforce
  have "k1 = w_sys w" "m1 = None \<longleftrightarrow> r \<in> set (rules (w_sys w))" "m2 = None" "rules k2 = rules (w_sys w) @ [r]"
    using assms c a unfolding iptables_documented_def by (metis fst_conv snd_conv)+
  with c a show ?thesis
    by (intro exI [of _ "if r \<in> set (rules (w_sys w)) then w_sys w else k2"])
       (cases m1; simp add: addIPTablesRule_def modifyIPTables_def runCmd_def gm_defs)
qed

lemma del_rule:
  assumes "iptables_documented h rules"
  shows "\<exists>k'. delIPTablesRule h r w = Ret (w\<lparr>w_sys := k'\<rparr>, Inr ()) \<and> rules k' = remove1 r (rules (w_sys w))"
proof -
  obtain k1 m1 where c: "h_run h (ipt_args ''-C'' r) (w_sys w) = (k1, m1)" by fastforce
  obtain k2 m2 where d: "h_run h (ipt_args ''-D'' r) (w_sys w) = (k2, m2)" by fastforce
  have 1: "k1 = w_sys w" "m1 = None \<longleftrightarrow> r \<in> set (rules (w_sys w))"
    using assms c unfolding iptables_documented_def by (metis fst_conv snd_conv)+
  have 2: "r \<in> set (rules (w_sys w)) \<Longrightarrow> m2 = None \<and> rules k2 = remove1 r (rules (w_sys w))"
    using assms d unfolding iptables_documented_def by (metis fst_conv snd_conv)
  from c d 1 2 show ?thesis
    by (intro exI [of _ "if r \<in> set (rules (w_sys w)) then k2 else w_sys w"])
       (cases m1; simp add: delIPTablesRule_def modifyIPTables_def runCmd_def gm_defs remove1_idem)
qed

lemma add_rules:
  assumes "iptables_documented h rules"
  shows "\<exists>k'. gm_each (addIPTablesRule h) rs w = Ret (w\<lparr>w_sys := k'\<rparr>, Inr ()) \<and>
    rules k' = foldl (\<lambda>l r. if r \<in> set l then l else l @ [r]) (rules (w_sys w)) rs"
proof (induction rs arbitrary: w)
  case Nil
  then show ?case by (auto simp: gm_return_def intro: exI [of _ "w_sys w"])
next
  case (Cons r rs)
  obtain k1 where k1: "addIPTablesRule h r w = Ret (w\<lparr>w_sys := k1\<rparr>, Inr ())"
    "rules k1 = (if r \<in> set (rules (w_sys w)) then rules (w_sys w) else rules (w_sys w) @ [r])"
    using add_rule [OF assms] by blast
  with Cons.IH [of "w\<lparr>w_sys := k1\<rparr>"] show ?case by (auto simp: gm_then_def gm_bind_def)
qed

lemma del_rules:
  assumes "iptables_documented h rules"
  shows "\<exists>k'. gm_each (delIPTablesRule h) rs w = Ret (w\<lparr>w_sys := k'\<rparr>, Inr ()) \<and>
    rules k' = foldl (\<lambda>l r. remove1 r l) (rules (w_sys w)) rs"
proof (induction rs arbitrary: w)
  case Nil
  then show ?case by (auto simp: gm_return_def intro: exI [of _ "w_sys w"])
next
  case (Cons r rs)
  obtain k1 where k1: "delIPTablesRule h r w = Ret (w\<lparr>w_sys := k1\<rparr>, Inr ())" "rules k1 = remove1 r (rules (w_sys w))"
    using del_rule [OF assms] by blast
  with Cons.IH [of "w\<lparr>w_sys := k1\<rparr>"] show ?case by (auto simp: gm_then_def gm_bind_def)
qed

lemma ap_rules_distinct: "distinct (ap_rules eth wlan)"
  by (simp add: ap_rules_def)

lemma foldl_add_set: "set (foldl (\<lambda>l r. if r \<in> set l then l else l @ [r]) l rs) = set l \<union> set rs"
  by (induction rs arbitrary: l) auto

lemma foldl_add_present: "set rs \<subseteq> set l \<Longrightarrow> foldl (\<lambda>l r. if r \<in> set l then l else l @ [r]) l rs = l"
  by (induction rs) auto

lemma foldl_add_fresh: "distinct rs \<Longrightarrow> set rs \<inter> set l = {} \<Longrightarrow> foldl (\<lambda>l r. if r \<in> set l then l else l @ [r]) l rs = l @ rs"
  by (induction rs arbitrary: l) auto

lemma foldl_remove_fresh: "distinct rs \<Longrightarrow> set rs \<inter> set l = {} \<Longrightarrow> foldl (\<lambda>l r. remove1 r l) (l @ rs) rs = l"
proof (induction rs arbitrary: l)
  case Nil
  then show ?case by simp
next
  case (Cons r rs)
  then show ?case by (simp add: remove1_append)
qed

text \<open>
  The routes of the access point come and go cleanly: with an \<open>iptables\<close> that does what it documents,
  installing them makes all three rules present and keeps the others, installing them again changes
  nothing, and uninstalling them from a table that did not have them before gives that table back.
\<close>

theorem ap_routes_clean:
  assumes "iptables_documented h rules"
    and "set (ap_rules (w_EthIface w) (w_WifiIface w)) \<inter> set (rules (w_sys w)) = {}"
  shows "\<exists>k1 k2 k3. installAPRoutes h w = Ret (w\<lparr>w_sys := k1\<rparr>, Inr ()) \<and>
    rules k1 = rules (w_sys w) @ ap_rules (w_EthIface w) (w_WifiIface w) \<and>
    installAPRoutes h (w\<lparr>w_sys := k1\<rparr>) = Ret (w\<lparr>w_sys := k2\<rparr>, Inr ()) \<and> rules k2 = rules k1 \<and>
    uninstallAPRoutes h (w\<lparr>w_sys := k2\<rparr>) = Ret (w\<lparr>w_sys := k3\<rparr>, Inr ()) \<and> rules k3 = rules (w_sys w)"
proof -
  let ?rs = "ap_rules (w_EthIface w) (w_WifiIface w)"
  obtain k1 where k1: "gm_each (addIPTablesRule h) ?rs w = Ret (w\<lparr>w_sys := k1\<rparr>, Inr ())" "rules k1 = rules (w_sys w) @ ?rs"
    using add_rules [OF assms(1), of ?rs w] foldl_add_fresh [OF ap_rules_distinct assms(2)] by auto
  obtain k2 where k2: "gm_each (addIPTablesRule h) ?rs (w\<lparr>w_sys := k1\<rparr>) = Ret (w\<lparr>w_sys := k2\<rparr>, Inr ())" "rules k2 = rules k1"
    using add_rules [OF assms(1), of ?rs "w\<lparr>w_sys := k1\<rparr>"] foldl_add_present [of ?rs "rules k1"] k1(2) by auto
  obtain k3 where k3: "gm_each (delIPTablesRule h) ?rs (w\<lparr>w_sys := k2\<rparr>) = Ret (w\<lparr>w_sys := k3\<rparr>, Inr ())" "rules k3 = rules (w_sys w)"
    using del_rules [OF assms(1), of ?rs "w\<lparr>w_sys := k2\<rparr>"] foldl_remove_fresh [OF ap_rules_distinct assms(2)] k1(2) k2(2) by auto
  from k1 k2 k3 show ?thesis
    by (intro exI [of _ k1] exI [of _ k2] exI [of _ k3])
       (simp add: installAPRoutes_def uninstallAPRoutes_def gm_bind_def gm_get_def)
qed

text \<open>A kernel that is its list of rules, and a host that does what \<open>iptables\<close> documents.\<close>

fun demo_rule :: "string list \<Rightarrow> string \<times> ipt_rule" where
  "demo_rule (_ # _ # t # op # c # _ # out # _ # j # rest) =
     (op, \<lparr>r_table = t, r_chain = c, r_in = (case rest of a # i # _ \<Rightarrow> if a = ''-i'' then i else [] | _ \<Rightarrow> []), r_out = out,
       r_jump = j, r_state = (if rest \<noteq> [] \<and> length rest \<noteq> 2 then last rest else [])\<rparr>)"
| "demo_rule _ = ([], \<lparr>r_table = [], r_chain = [], r_in = [], r_out = [], r_jump = [], r_state = []\<rparr>)"

definition demo_host :: "ipt_rule list host" where
  "demo_host =
     \<lparr>h_run = (\<lambda>args k.
        if take 1 args = [''iptables''] then
          (case demo_rule args of (op, r) \<Rightarrow>
             if op = ''-C'' then (k, if r \<in> set k then None else Some ''Bad rule'')
             else if op = ''-A'' then (k @ [r], None)
             else if r \<in> set k then (remove1 r k, None) else (k, Some ''Bad rule''))
        else (k, None)),
      h_output = (\<lambda>_ k. (k, Inr [])), h_write = (\<lambda>_. None), h_start = (\<lambda>_. Started 7), h_now = 5000,
      h_ifaces = Inr [''eth0'', ''wlan0'']\<rparr>"

lemma demo_rule_args: "demo_rule (ipt_args op r) = (op, r)"
  by (cases r) (auto simp: ipt_args_def)

lemma demo_iptables: "iptables_documented demo_host id"
proof -
  have i: "take (Suc 0) (ipt_args op r) = [''iptables'']" for op r by (simp add: ipt_args_def)
  show ?thesis by (auto simp: iptables_documented_def demo_host_def i demo_rule_args)
qed

theorem ap_routes_clean_witness:
  "\<exists>k1 k2. installAPRoutes demo_host (new_wifi demo_host [] []) = Ret ((new_wifi demo_host [] [])\<lparr>w_sys := k1\<rparr>, Inr ()) \<and>
     k1 = ap_rules ''eth0'' ''wlan0'' \<and> k2 = k1 \<and>
     uninstallAPRoutes demo_host ((new_wifi demo_host [] [])\<lparr>w_sys := k2\<rparr>) = Ret ((new_wifi demo_host [] [])\<lparr>w_sys := []\<rparr>, Inr ())"
proof -
  have "w_EthIface (new_wifi demo_host [] []) = ''eth0''" "w_WifiIface (new_wifi demo_host [] []) = ''wlan0''"
    "w_sys (new_wifi demo_host [] []) = []"
    by (simp_all add: new_wifi_def demo_host_def detectIface_def)
  with ap_routes_clean [OF demo_iptables, of "new_wifi demo_host [] []"] show ?thesis by auto
qed

end
