(* ===== verification/Demo.thy ===== *)
theory Demo
  imports FileStore
begin

text \<open>
  A concrete environment, codec and empty store on which the witnesses of the stores' properties
  evaluate: nothing is refused, and a file holds the resource itself.
\<close>

definition demo_env :: env where
  "demo_env = \<lparr>env_now = 7, env_takes = (\<lambda>_. 0), env_io = (\<lambda>_. None), env_tmp = 42\<rparr>"

definition demo_codec :: "('a, 'a resource) codec" where
  "demo_codec = \<lparr>encode = Inr,
     decode = (\<lambda>c. case c of None \<Rightarrow> Inl (Errorf ''unexpected end of JSON input'') | Some r \<Rightarrow> Inr r)\<rparr>"

definition demo_store :: "('a, 'a resource) filestore" where
  "demo_store = \<lparr>fs_mem = InMemory, fs_dir = []\<rparr>"

lemma demo_store_inv [simp]: "fs_inv demo_store"
  by (simp add: fs_inv_def demo_store_def)

lemma demo_store_view [simp]: "fs_view demo_store k = None"
  by (simp add: demo_store_def)

lemma demo_open: "FileStore demo_codec rt demo_env (Inr None) = Inr demo_store"
  by (simp add: FileStore_def load_from_files_def demo_store_def demo_env_def)

lemmas demo_op_defs = demo_env_def demo_codec_def demo_store_def new_resource_def empty_meta_def
  fs_ops_def fs_create_cases fs_update_cases fs_delete_cases mem_create_cases fs_stored_def write_file_def
  write_file_states_def InMemory_def emit_def new_pubsub_def publish_def resource_ref_def set_gvk_def
  set_name_and_creation_timestamp_def without_status_and_resource_version_def Let_def tmp_name_def file_name_def
  show_nat.simps digit_char_def

text \<open>A create on the empty store goes through.\<close>

lemma demo_create: "\<exists>s r. fs_create demo_codec rt demo_env demo_store k res = (s, Inr r)"
  by (simp add: fs_create_cases domIff demo_store_def write_file_def write_file_states_def demo_codec_def demo_env_def Let_def)

end
