(* ===== verification/NetIfaces.thy ===== *)
theory NetIfaces
  imports DeviceApi Demo
begin

text \<open>
  Network link synchronisation (\<open>pkg/networkifaces/networkifaces.go\<close>): the status of each configured
  link is kept in its \<open>NetworkInterface\<close> resource. Netlink and the interface addresses are the
  host's: \<open>link\<close> answers \<open>LinkByName\<close>, \<open>addrs\<close> the addresses of an interface. IPv4 addresses and
  masks are 32-bit words, anything else an address of an interface may be is \<open>None\<close>.
\<close>

unbundle bit_operations_syntax

section \<open>Addresses\<close>

type_synonym ipv4 = "32 word"

definition toBroadcastIP :: "ipv4 \<Rightarrow> ipv4 \<Rightarrow> ipv4" where
  "toBroadcastIP ip msk = ip OR (NOT msk)"

definition octet :: "nat \<Rightarrow> ipv4 \<Rightarrow> nat" where
  "octet i ip = unat (drop_bit (8 * (3 - i)) ip AND 255)"

definition show_ipv4 :: "ipv4 \<Rightarrow> string" where
  "show_ipv4 ip = join ''.'' (map (\<lambda>i. show_nat (octet i ip)) [0, 1, 2, 3])"

definition special_ipv4 :: "ipv4 \<Rightarrow> bool" where
  "special_ipv4 ip \<longleftrightarrow>
     octet 0 ip = 127 \<or> ip = 0 \<or> 224 \<le> octet 0 ip \<and> octet 0 ip < 240 \<or> octet 0 ip = 169 \<and> octet 1 ip = 254"

fun pick_ipv4 :: "(ipv4 \<times> ipv4) option list \<Rightarrow> ipv4 option" where
  "pick_ipv4 [] = None"
| "pick_ipv4 (None # as) = pick_ipv4 as"
| "pick_ipv4 (Some (v4, msk) # as) =
     (if special_ipv4 v4 then pick_ipv4 as
      else if toBroadcastIP v4 msk = v4 then pick_ipv4 as
      else Some v4)"

text \<open>\<open>IPv4Address\<close>: the error of reading the interface or its addresses, no address, or the address.\<close>

definition IPv4Address ::
  "(string \<Rightarrow> go_error + (go_error + (ipv4 \<times> ipv4) option list)) \<Rightarrow> string \<Rightarrow> go_error + ipv4 option" where
  "IPv4Address addrs ifaceName =
     (case addrs ifaceName of
        Inl err \<Rightarrow> Inl (Wrap (''get network interface '' @ ifaceName @ '': '') err)
      | Inr (Inl err) \<Rightarrow> Inl (Wrap (''get network interface '' @ ifaceName @ '' addrs: '') err)
      | Inr (Inr as) \<Rightarrow> Inr (pick_ipv4 as))"

section \<open>Link status\<close>

record link_attrs =
  la_Name :: string
  la_Index :: int
  la_EncapType :: string
  la_OperUp :: bool
  la_HardwareAddr :: string

definition ifaceType :: "link_attrs \<Rightarrow> string" where
  "ifaceType a =
     (if list_ex (\<lambda>p. prefix p (la_Name a)) [''wlan'', ''wlp''] then NetworkInterfaceTypeWifi else la_EncapType a)"

type_synonym addrs_fn = "string \<Rightarrow> go_error + (go_error + (ipv4 \<times> ipv4) option list)"

definition observed_link :: "addrs_fn \<Rightarrow> link_attrs \<Rightarrow> link_status" where
  "observed_link addrs a =
     (let l = \<lparr>nl_Index = la_Index a, nl_Type = ifaceType a, nl_Up = la_OperUp a, nl_MAC = la_HardwareAddr a,
               nl_IP4 = [], nl_Error = []\<rparr>
      in if la_OperUp a then
           (case IPv4Address addrs (la_Name a) of
              Inl err \<Rightarrow> l\<lparr>nl_Error := error_text err\<rparr>
            | Inr None \<Rightarrow> l
            | Inr (Some ip) \<Rightarrow> l\<lparr>nl_IP4 := show_ipv4 ip\<rparr>)
         else l)"

definition updateNetworkInterfaceStatus :: "addrs_fn \<Rightarrow> link_attrs \<Rightarrow> netif \<Rightarrow> netif" where
  "updateNetworkInterfaceStatus addrs a obj =
     obj\<lparr>nif_Status := (nif_Status obj)\<lparr>ns_Link := observed_link addrs a\<rparr>\<rparr>"

section \<open>Synchronisation\<close>

definition default_netif :: "string \<Rightarrow> netif" where
  "default_netif apSSID =
     \<lparr>nif_Wifi = zero_wifi_spec\<lparr>wf_Mode := WifiModeDisabled, wf_AccessPointSSID := apSSID\<rparr>, nif_Status = zero_netif_status\<rparr>"

fun sync_ifaces ::
  "('s, netif) store_ops \<Rightarrow> env \<Rightarrow> (string \<Rightarrow> go_error + link_attrs)
   \<Rightarrow> (string \<Rightarrow> go_error + (go_error + (ipv4 \<times> ipv4) option list)) \<Rightarrow> string \<Rightarrow> string list \<Rightarrow> 's \<Rightarrow> 's \<times> go_error option" where
  "sync_ifaces ops e link addrs apSSID [] s = (s, None)"
| "sync_ifaces ops e link addrs apSSID (iface # ifaces) s =
     (case link iface of
        Inl err \<Rightarrow> (s, Some err)
      | Inr a \<Rightarrow>
          (case op_create ops e s iface
             (new_resource iface (updateNetworkInterfaceStatus addrs a (default_netif apSSID))) of
             (s1, Inr _) \<Rightarrow> sync_ifaces ops e link addrs apSSID ifaces s1
           | (s1, Inl err) \<Rightarrow>
               if \<not> is_already_exists err then (s1, Some err)
               else
                 (case op_update ops e s1 iface
                    (\<lambda>r. Inr (r\<lparr>body := updateNetworkInterfaceStatus addrs a (body r)\<rparr>)) of
                    (s2, Inl err) \<Rightarrow> (s2, Some err)
                  | (s2, Inr _) \<Rightarrow> sync_ifaces ops e link addrs apSSID ifaces s2)))"

definition link_event ::
  "('s, netif) store_ops \<Rightarrow> env \<Rightarrow> addrs_fn
   \<Rightarrow> string list \<Rightarrow> link_attrs \<Rightarrow> 's \<Rightarrow> 's" where
  "link_event ops e addrs ifaces a s =
     (if la_Name a \<in> set ifaces then
        fst (op_update ops e s (la_Name a) (\<lambda>r. Inr (r\<lparr>body := updateNetworkInterfaceStatus addrs a (body r)\<rparr>)))
      else s)"

text \<open>
  \<open>NetworkIfaceSync\<close>: \<open>sy_cancel\<close> says that a cancel function is set, \<open>sy_running\<close> that the goroutine
  receives link events. The link subscription may fail.
\<close>

record iface_sync =
  sy_cancel :: bool
  sy_running :: bool

definition new_iface_sync :: iface_sync where
  "new_iface_sync = \<lparr>sy_cancel = False, sy_running = False\<rparr>"

definition sync_start ::
  "go_error option \<Rightarrow> ('s, netif) store_ops \<Rightarrow> env \<Rightarrow> (string \<Rightarrow> go_error + link_attrs)
   \<Rightarrow> (string \<Rightarrow> go_error + (go_error + (ipv4 \<times> ipv4) option list)) \<Rightarrow> string \<Rightarrow> string list
   \<Rightarrow> iface_sync \<times> 's \<Rightarrow> (iface_sync \<times> 's) \<times> go_error option" where
  "sync_start linkSubscribe ops e link addrs apSSID ifaces st =
     (case st of (y, s) \<Rightarrow>
        if sy_cancel y then ((y, s), None)
        else
          (let y1 = y\<lparr>sy_cancel := True\<rparr> in
           case linkSubscribe of
             Some err \<Rightarrow> ((y1, s), Some (Wrap ''start network link status sync: '' err))
           | None \<Rightarrow>
               (case sync_ifaces ops e link addrs apSSID ifaces s of
                  (s', Some err) \<Rightarrow> ((y1, s'), Some (Wrap ''start network link status sync: '' err))
                | (s', None) \<Rightarrow> ((y1\<lparr>sy_running := True\<rparr>, s'), None))))"

definition sync_stop :: "iface_sync \<Rightarrow> iface_sync" where
  "sync_stop y = (if sy_cancel y then y\<lparr>sy_running := False\<rparr> else y)"

section \<open>Lemmas\<close>

lemma pick_ipv4_Some:
  "pick_ipv4 as = Some v4 \<Longrightarrow> \<exists>msk. Some (v4, msk) \<in> set as \<and> \<not> special_ipv4 v4 \<and> toBroadcastIP v4 msk \<noteq> v4"
  by (induction as rule: pick_ipv4.induct) (auto split: if_splits)

text \<open>The broadcast address is the last address of the network.\<close>

lemma broadcast_is_last:
  fixes ip msk x :: ipv4
  assumes "x AND msk = ip AND msk"
  shows "x \<le> toBroadcastIP ip msk" "toBroadcastIP ip msk AND msk = ip AND msk"
proof -
  have bits: "bit x i = bit ip i" if "bit msk i" "i < 32" for i
    using assms that by (metis bit_and_iff)
  have "x OR (NOT msk) = ip OR (NOT msk)"
    using bits by (auto intro!: bit_word_eqI simp: bit_simps)
  then show "x \<le> toBroadcastIP ip msk"
    unfolding toBroadcastIP_def by (metis le_word_or2)
  show "toBroadcastIP ip msk AND msk = ip AND msk"
    unfolding toBroadcastIP_def by (auto intro!: bit_word_eqI simp: bit_simps)
qed

text \<open>A store of network interfaces.\<close>

locale netif_storage = storage ops inv view rt
  for ops :: "('s, netif) store_ops" and inv :: "'s \<Rightarrow> bool"
    and view :: "'s \<Rightarrow> string \<Rightarrow> netif resource option" and rt :: "netif resource_type"
begin

definition synced :: "addrs_fn \<Rightarrow> (string \<Rightarrow> go_error + link_attrs) \<Rightarrow> string \<Rightarrow> 's \<Rightarrow> string \<Rightarrow> 's \<Rightarrow> bool" where
  "synced addrs link ap s k s' \<longleftrightarrow>
     (\<exists>a r. link k = Inr a \<and> view s' k = Some r \<and> ns_Link (nif_Status (body r)) = observed_link addrs a \<and>
        nif_Wifi (body r) = (case view s k of None \<Rightarrow> nif_Wifi (default_netif ap) | Some old \<Rightarrow> nif_Wifi (body old)))"

lemma sync_step:
  assumes "inv s" "link k = Inr a"
    and "op_create ops e s k (new_resource k (updateNetworkInterfaceStatus addrs a (default_netif ap))) = (s1, Inr r) \<or>
      op_create ops e s k (new_resource k (updateNetworkInterfaceStatus addrs a (default_netif ap))) = (s0, Inl err) \<and>
      is_already_exists err \<and> op_update ops e s0 k (\<lambda>r. Inr (r\<lparr>body := updateNetworkInterfaceStatus addrs a (body r)\<rparr>)) = (s1, Inr r)"
  shows "inv s1 \<and> synced addrs link ap s k s1 \<and> (\<forall>k'. k' \<noteq> k \<longrightarrow> view s1 k' = view s k')"
  using assms(3)
proof
  assume c: "op_create ops e s k (new_resource k (updateNetworkInterfaceStatus addrs a (default_netif ap))) = (s1, Inr r)"
  from create_inv [OF assms(1), of e k "new_resource k (updateNetworkInterfaceStatus addrs a (default_netif ap))"] c
  have "inv s1" by simp
  with create_ok [OF assms(1) c] assms(2) show ?thesis
    by (simp add: synced_def new_resource_def updateNetworkInterfaceStatus_def)
next
  assume c: "op_create ops e s k (new_resource k (updateNetworkInterfaceStatus addrs a (default_netif ap))) = (s0, Inl err) \<and>
      is_already_exists err \<and> op_update ops e s0 k (\<lambda>r. Inr (r\<lparr>body := updateNetworkInterfaceStatus addrs a (body r)\<rparr>)) = (s1, Inr r)"
  let ?f = "\<lambda>r. Inr (r\<lparr>body := updateNetworkInterfaceStatus addrs a (body r)\<rparr>)"
  from c create_fail [OF assms(1)] have v0: "view s0 = view s" by blast
  from c create_inv [OF assms(1), of e k "new_resource k (updateNetworkInterfaceStatus addrs a (default_netif ap))"]
  have i0: "inv s0" by simp
  from c have u: "op_update ops e s0 k ?f = (s1, Inr r)" by blast
  from u update_inv [OF i0, of e k ?f] have inv1: "inv s1" by simp
  from update_ok [OF i0 u] obtain old where old: "view s0 k = Some old" "view s1 = (view s0)(k \<mapsto> r)"
    "body r = updateNetworkInterfaceStatus addrs a (body old)" by auto
  with v0 inv1 assms(2) show ?thesis
    by (simp add: synced_def updateNetworkInterfaceStatus_def)
qed

lemma sync_ifaces_synced:
  "inv s \<Longrightarrow> sync_ifaces ops e link addrs ap ifaces s = (s', None) \<Longrightarrow>
   inv s' \<and> (\<forall>k \<in> set ifaces. synced addrs link ap s k s') \<and> (\<forall>k. k \<notin> set ifaces \<longrightarrow> view s' k = view s k)"
proof (induction ifaces arbitrary: s)
  case Nil
  then show ?case by simp
next
  case (Cons k ks)
  from Cons.prems(2) obtain a s1 r s0 err where a: "link k = Inr a"
    and st: "op_create ops e s k (new_resource k (updateNetworkInterfaceStatus addrs a (default_netif ap))) = (s1, Inr r) \<or>
      op_create ops e s k (new_resource k (updateNetworkInterfaceStatus addrs a (default_netif ap))) = (s0, Inl err) \<and>
      is_already_exists err \<and> op_update ops e s0 k (\<lambda>r. Inr (r\<lparr>body := updateNetworkInterfaceStatus addrs a (body r)\<rparr>)) = (s1, Inr r)"
    and rest: "sync_ifaces ops e link addrs ap ks s1 = (s', None)"
    by (auto split: sum.splits prod.splits if_splits)
  note s1 = sync_step [where link = link, OF Cons.prems(1) a st]
  note ih = Cons.IH [OF conjunct1 [OF s1] rest]
  have "synced addrs link ap s k' s'" if k': "k' \<in> set (k # ks)" for k'
  proof (cases "k' \<in> set ks")
    case True
    with ih have "synced addrs link ap s1 k' s'" by blast
    with s1 show ?thesis by (cases "k' = k") (auto simp: synced_def)
  next
    case False
    with k' have "k' = k" by simp
    with False ih s1 show ?thesis by (simp add: synced_def)
  qed
  with ih s1 show ?case by auto
qed

end

interpretation nif: netif_storage "fs_ops codec netif_rt" fs_inv fs_view netif_rt for codec
  by (intro netif_storage.intro fs.storage_axioms)

section \<open>Properties\<close>

text \<open>
  C38. Link synchronisation: when the synchronisation starts without error, every configured interface has
  a resource whose link status is the link's present one; the wifi configuration of a resource that
  existed is kept, a new one starts disabled with the access point named as configured, and resources
  of other interfaces are left alone.
\<close>

theorem link_sync_complete:
  assumes "fs_inv s" "sync_ifaces (fs_ops codec netif_rt) e link addrs ap ifaces s = (s', None)" "k \<in> set ifaces"
  shows "(\<exists>a r. link k = Inr a \<and> fs_view s' k = Some r \<and> ns_Link (nif_Status (body r)) = observed_link addrs a \<and>
      nif_Wifi (body r) = (case fs_view s k of None \<Rightarrow> nif_Wifi (default_netif ap) | Some old \<Rightarrow> nif_Wifi (body old))) \<and>
    (\<forall>k'. k' \<notin> set ifaces \<longrightarrow> fs_view s' k' = fs_view s k')"
  using nif.sync_ifaces_synced [OF assms(1,2)] assms(3) by (auto simp: nif.synced_def)

definition demo_link :: link_attrs where
  "demo_link = \<lparr>la_Name = ''wlan0'', la_Index = 3, la_EncapType = ''ether'', la_OperUp = True, la_HardwareAddr = ''3c:37:12:04:6c:62''\<rparr>"

definition demo_addrs :: addrs_fn where
  "demo_addrs n = Inr (Inr [None, Some (0x7F000001, 0xFF000000), Some (0xC0A80005, 0xFFFFFF00)])"

theorem link_sync_complete_witness:
  "\<exists>s' r. sync_ifaces (fs_ops demo_codec netif_rt) demo_env (\<lambda>_. Inr demo_link) demo_addrs ''pi'' [''wlan0''] demo_store = (s', None) \<and>
     fs_view s' ''wlan0'' = Some r \<and> nl_Type (ns_Link (nif_Status (body r))) = ''wifi''"
proof -
  let ?r = "new_resource ''wlan0'' (updateNetworkInterfaceStatus demo_addrs demo_link (default_netif ''pi''))"
  obtain s1 r1 where "fs_create demo_codec netif_rt demo_env demo_store ''wlan0'' ?r = (s1, Inr r1)"
    using demo_create by blast
  then have s: "sync_ifaces (fs_ops demo_codec netif_rt) demo_env (\<lambda>_. Inr demo_link) demo_addrs ''pi'' [''wlan0''] demo_store = (s1, None)"
    by (simp add: fs_ops_def)
  have "nl_Type (observed_link demo_addrs demo_link) = ''wifi''"
    by (simp add: observed_link_def demo_link_def ifaceType_def NetworkInterfaceTypeWifi_def Let_def split: sum.splits option.splits)
  with link_sync_complete [OF demo_store_inv s, of "''wlan0''"] s show ?thesis by auto
qed

text \<open>
  The address of an interface: the one chosen is one of the interface's, not unspecified, loopback,
  multicast or link-local, and below the last address of its network, which is the broadcast
  address the code computes; in particular a single-address network (\<open>/32\<close>) is passed over.
\<close>

theorem ipv4_address_usable:
  assumes "IPv4Address addrs n = Inr (Some v4)"
  shows "\<exists>as msk. addrs n = Inr (Inr as) \<and> Some (v4, msk) \<in> set as \<and> \<not> special_ipv4 v4 \<and> v4 < toBroadcastIP v4 msk \<and>
    toBroadcastIP v4 msk AND msk = v4 AND msk \<and> (\<forall>x. x AND msk = v4 AND msk \<longrightarrow> x \<le> toBroadcastIP v4 msk) \<and> msk \<noteq> - 1"
proof -
  obtain as where as: "addrs n = Inr (Inr as)" "pick_ipv4 as = Some v4"
    using assms by (auto simp: IPv4Address_def split: sum.splits)
  obtain msk where m: "Some (v4, msk) \<in> set as" "\<not> special_ipv4 v4" "toBroadcastIP v4 msk \<noteq> v4"
    using pick_ipv4_Some [OF as(2)] by blast
  have "v4 < toBroadcastIP v4 msk" using broadcast_is_last(1) [of v4 msk v4] m(3) by (simp add: order_less_le)
  moreover have "msk \<noteq> - 1" using m(3) by (auto simp: toBroadcastIP_def)
  ultimately show ?thesis
    using as(1) m(1,2) broadcast_is_last [of _ msk v4] by blast
qed

theorem ipv4_address_usable_witness:
  "(0xC0A80005 :: ipv4) < toBroadcastIP 0xC0A80005 0xFFFFFF00"
proof -
  have "IPv4Address demo_addrs ''wlan0'' = Inr (Some 0xC0A80005)"
    by (simp add: IPv4Address_def demo_addrs_def special_ipv4_def octet_def toBroadcastIP_def)
  from ipv4_address_usable [OF this] show ?thesis
    by (auto simp: demo_addrs_def)
qed

text \<open>
  The synchronisation cannot be restarted: after a first start, successful or not, and a stop, every
  further start answers success without synchronising anything or listening to link events; after a
  failed start even without the stop.
\<close>

lemma sync_never_restarts:
  assumes "sync_start linkSubscribe ops e link addrs ap ifaces (new_iface_sync, s) = ((y, s1), r)"
  shows "sync_start linkSubscribe' ops e' link' addrs' ap' ifaces' (sync_stop y, s1) = ((sync_stop y, s1), None) \<and>
    \<not> sy_running (sync_stop y) \<and> (case r of None \<Rightarrow> True | Some err \<Rightarrow> \<not> sy_running y)"
  using assms
  by (auto simp: sync_start_def new_iface_sync_def sync_stop_def Let_def split: option.splits prod.splits)

theorem sync_never_restarts_witness:
  "\<exists>y. fst (sync_start (Some (Errorf ''netlink'')) (fs_ops demo_codec netif_rt) demo_env (\<lambda>_. Inr demo_link) demo_addrs ''pi'' [''wlan0''] (new_iface_sync, demo_store))
      = (y, demo_store) \<and>
    sync_start None (fs_ops demo_codec netif_rt) demo_env (\<lambda>_. Inr demo_link) demo_addrs ''pi'' [''wlan0''] (sync_stop y, demo_store) =
      ((sync_stop y, demo_store), None)"
proof -
  let ?st = "sync_start (Some (Errorf ''netlink'')) (fs_ops demo_codec netif_rt) demo_env (\<lambda>_. Inr demo_link) demo_addrs ''pi'' [''wlan0'']
    (new_iface_sync, demo_store)"
  obtain y r where st: "?st = ((y, demo_store), r)" by (simp add: sync_start_def new_iface_sync_def)
  from sync_never_restarts [OF st] st show ?thesis by auto
qed

end
