(* ===== verification/Names.thy ===== *)
theory Names
  imports Sha256
begin

text \<open>
  Object names (\<open>pkg/utils/names.go\<close>). Go strings are UTF-8 bytes: of all code points only the
  Kelvin sign and the dotted capital I become ASCII letters under \<open>strings.ToLower\<close>, so lowering
  byte-wise and those two sequences is exact for what follows, where every byte outside
  \<open>[a-z0-9]\<close> is replaced. Slicing with a bad bound panics, as in Go.
\<close>

definition MaxResourceNameLength :: int where
  "MaxResourceNameLength = 63"

section \<open>Lower case and name characters\<close>

function go_to_lower :: "string \<Rightarrow> string" where
  "go_to_lower [] = []"
| "go_to_lower (c # cs) =
     (if prefix [CHR 0xE2, CHR 0x84, CHR 0xAA] (c # cs) then CHR ''k'' # go_to_lower (drop 2 cs)
      else if prefix [CHR 0xC4, CHR 0xB0] (c # cs) then CHR ''i'' # go_to_lower (drop 1 cs)
      else to_lower_char c # go_to_lower cs)"
  by pat_completeness auto
termination
  by (relation "measure length") auto

definition name_char :: "char \<Rightarrow> bool" where
  "name_char c \<longleftrightarrow> CHR ''a'' \<le> c \<and> c \<le> CHR ''z'' \<or> CHR ''0'' \<le> c \<and> c \<le> CHR ''9''"

text \<open>\<open>invalidNameChars.ReplaceAllString(s, "-")\<close>: each run of other characters is one dash.\<close>

fun replace_invalid :: "bool \<Rightarrow> string \<Rightarrow> string" where
  "replace_invalid in_run [] = []"
| "replace_invalid in_run (c # cs) =
     (if name_char c then c # replace_invalid False cs
      else if in_run then replace_invalid True cs
      else CHR ''-'' # replace_invalid True cs)"

definition clean_name :: "string \<Rightarrow> string" where
  "clean_name s = replace_invalid False (go_to_lower s)"

definition is_dash :: "char \<Rightarrow> bool" where
  "is_dash c \<longleftrightarrow> c = CHR ''-''"

text \<open>\<open>s[:n]\<close> for a Go string: a negative or too large bound panics.\<close>

definition slice_to :: "string \<Rightarrow> int \<Rightarrow> string go" where
  "slice_to s n =
     (if n < 0 \<or> int (length s) < n then Panic ''slice bounds out of range'' else Ret (take (nat n) s))"

section \<open>The functions\<close>

definition TruncateName :: "string \<Rightarrow> int \<Rightarrow> string go" where
  "TruncateName name maxLen =
     (let hx = sha256_hex name;
          n0 = trim is_dash (clean_name name);
          hashLen = 11 in
      go_bind (if int (length n0) > maxLen then slice_to n0 maxLen else Ret n0) (\<lambda>n1.
      go_bind (if int (length n1) > maxLen - (hashLen + 1) then slice_to n1 (maxLen - (hashLen + 1)) else Ret n1) (\<lambda>n2.
      Ret (trim is_dash n2 @ ''-'' @ take (nat hashLen) hx))))"

text \<open>\<open>json.Marshal\<close> is the parameter \<open>marshal\<close>.\<close>

definition GenerateObjectName :: "('o \<Rightarrow> go_error + string) \<Rightarrow> 'o \<Rightarrow> string \<Rightarrow> go_error + string" where
  "GenerateObjectName marshal obj pre =
     (let p0 = trim_left is_dash (clean_name pre) in
      case marshal obj of
        Inl err \<Rightarrow> Inl err
      | Inr b \<Rightarrow>
          (let hx = take 7 (sha256_hex b); maxLen = 63 - length hx;
               p1 = (if maxLen < length p0 then take maxLen p0 else p0)
           in Inr (p1 @ hx)))"

section \<open>Lemmas\<close>

definition name_or_dash :: "char \<Rightarrow> bool" where
  "name_or_dash c \<longleftrightarrow> name_char c \<or> is_dash c"

lemma set_replace_invalid: "c \<in> set (replace_invalid b s) \<Longrightarrow> name_or_dash c"
  by (induction b s rule: replace_invalid.induct) (auto simp: name_or_dash_def is_dash_def split: if_splits)

lemma set_clean_name: "c \<in> set (clean_name s) \<Longrightarrow> name_or_dash c"
  unfolding clean_name_def by (rule set_replace_invalid)

text \<open>No two dashes meet in a cleaned name.\<close>

lemma replace_invalid_no_double_dash:
  "\<not> sublist ''--'' (replace_invalid b s) \<and> (b \<longrightarrow> \<not> prefix ''-'' (replace_invalid b s))"
proof (induction b s rule: replace_invalid.induct)
  case (1 b)
  then show ?case by simp
next
  case (2 b c cs)
  then show ?case by (auto simp: sublist_Cons_right name_char_def split: if_splits)
qed

lemma hex_name_char: "c \<in> set hex_chars \<Longrightarrow> name_char c"
proof -
  have "list_all name_char hex_chars" by code_simp
  then show "c \<in> set hex_chars \<Longrightarrow> name_char c" by (simp add: list_all_iff)
qed

lemma set_trim: "c \<in> set (trim p s) \<Longrightarrow> c \<in> set s"
  using set_trim_subset [of p s] by blast

lemma trim_hd: "trim p s \<noteq> [] \<Longrightarrow> \<not> p (hd (trim p s))"
proof -
  assume ne: "trim p s \<noteq> []"
  let ?d = "dropWhile p s"
  obtain t where t: "?d = trim p s @ t"
    unfolding trim_def trim_right_def trim_left_def
    by (metis rev_append rev_rev_ident takeWhile_dropWhile_id)
  with ne have "?d \<noteq> []" "hd ?d = hd (trim p s)" by auto
  then show ?thesis using hd_dropWhile by metis
qed

lemma trim_last: "trim p s \<noteq> [] \<Longrightarrow> \<not> p (last (trim p s))"
  unfolding trim_def trim_right_def trim_left_def
  by (metis hd_dropWhile hd_rev last_rev rev_rev_ident rev_is_Nil_conv)

lemma TruncateName_Ret:
  assumes "12 \<le> maxLen"
  shows "TruncateName name maxLen =
    Ret (trim is_dash (take (nat (maxLen - 12)) (trim is_dash (clean_name name))) @ ''-'' @ take 11 (sha256_hex name))"
proof -
  let ?n0 = "trim is_dash (clean_name name)"
  have 1: "(if int (length ?n0) > maxLen then slice_to ?n0 maxLen else Ret ?n0) = Ret (take (nat maxLen) ?n0)"
    using assms by (simp add: slice_to_def)
  have 2: "(if int (length (take (nat maxLen) ?n0)) > maxLen - (11 + 1) then slice_to (take (nat maxLen) ?n0) (maxLen - (11 + 1))
      else Ret (take (nat maxLen) ?n0)) = Ret (take (nat (maxLen - 12)) ?n0)"
    using assms by (simp add: slice_to_def min_def)
  show ?thesis
    unfolding TruncateName_def Let_def 1 go_bind.simps 2 by simp
qed

section \<open>Properties\<close>

text \<open>
  C33. Truncated names are valid: for any name and any limit of at least 12, \<open>TruncateName\<close> returns, and its
  result fits the limit, consists of lower-case letters, digits and dashes, ends in a dash and
  eleven hexadecimal digits of the name's SHA-256, and starts with a letter or digit whenever
  any character of the name survives the cleaning before the cut.
\<close>

theorem TruncateName_valid:
  assumes "12 \<le> maxLen"
  shows "\<exists>base hash. TruncateName name maxLen = Ret (base @ ''-'' @ hash) \<and>
    int (length (base @ ''-'' @ hash)) \<le> maxLen \<and> list_all name_or_dash (base @ ''-'' @ hash) \<and>
    hash = take 11 (sha256_hex name) \<and> length hash = 11 \<and> list_all name_char hash \<and>
    (base = [] \<or> name_char (hd base) \<and> name_char (last base))"
proof -
  let ?n0 = "trim is_dash (clean_name name)"
  let ?base = "trim is_dash (take (nat (maxLen - 12)) ?n0)" and ?hash = "take 11 (sha256_hex name)"
  have chars: "name_or_dash c" if "c \<in> set ?base" for c
    using that set_trim set_clean_name by (metis in_set_takeD)
  have hash: "name_char c" if "c \<in> set ?hash" for c
    using that in_set_takeD [of c 11] set_sha256_hex [of name] hex_name_char by blast
  have "length ?base \<le> nat (maxLen - 12)"
    using length_trim_le [of is_dash "take (nat (maxLen - 12)) ?n0"] by simp
  then have len: "int (length (?base @ ''-'' @ ?hash)) \<le> maxLen" using assms by simp
  have ends: "?base = [] \<or> name_char (hd ?base) \<and> name_char (last ?base)"
    using trim_hd [of is_dash] trim_last [of is_dash] chars
    by (metis hd_in_set last_in_set name_or_dash_def)
  have "list_all name_or_dash (?base @ ''-'' @ ?hash)"
    using chars hash by (auto simp: list_all_iff name_or_dash_def is_dash_def)
  with TruncateName_Ret [OF assms] len ends hash show ?thesis
    by (intro exI [of _ ?base] exI [of _ ?hash]) (simp add: list_all_iff)
qed

theorem TruncateName_valid_witness:
  "\<exists>base hash. TruncateName ''My Host!'' 63 = Ret (base @ ''-'' @ hash) \<and> length hash = 11 \<and> base = ''my-host''"
proof -
  have b: "trim is_dash (take (nat (63 - 12)) (trim is_dash (clean_name ''My Host!''))) = ''my-host''" by code_simp
  have "(12 :: int) \<le> 63" by simp
  from TruncateName_valid [OF this, of "''My Host!''"] obtain base hash where
    1: "TruncateName ''My Host!'' 63 = Ret (base @ ''-'' @ hash)" "length hash = 11" by blast
  with TruncateName_Ret [of 63 "''My Host!''"] b have "base = ''my-host''" by simp
  with 1 show ?thesis by blast
qed

text \<open>
  Truncation keeps names apart: two names with the same truncated name agree in the first eleven
  digits of their digests, and a name of which nothing survives the cleaning (the empty one
  among them) gets a truncated name that starts with a dash, which no resource may have.
\<close>

lemma TruncateName_collisions:
  assumes "12 \<le> maxLen" "TruncateName name maxLen = TruncateName name' maxLen'" "12 \<le> maxLen'"
  shows "take 11 (sha256_hex name) = take 11 (sha256_hex name') \<and>
    TruncateName [] maxLen = Ret (''-'' @ take 11 (sha256_hex []))"
proof -
  have "trim is_dash (take (nat (maxLen - 12)) (trim is_dash (clean_name name))) @ ''-'' @ take 11 (sha256_hex name) =
    trim is_dash (take (nat (maxLen' - 12)) (trim is_dash (clean_name name'))) @ ''-'' @ take 11 (sha256_hex name')"
    using assms TruncateName_Ret by simp
  then have "take 11 (sha256_hex name) = take 11 (sha256_hex name')"
    by (simp add: append_eq_append_conv [where us = "_ # _"] flip: append_assoc) 
  then show ?thesis
    using TruncateName_Ret [OF assms(1), of "[]"]
    by (simp add: clean_name_def trim_def trim_left_def trim_right_def)
qed

theorem TruncateName_collisions_witness:
  "take 11 (sha256_hex ''a'') = take 11 (sha256_hex ''a'') \<and> TruncateName [] 63 = Ret (''-'' @ take 11 (sha256_hex []))"
  using TruncateName_collisions [of 63 "''a''" "''a''" 63] by simp

text \<open>
  Generated names fit a resource name: at most 63 characters, no leading dash, the last seven digits of the content's
  digest, and equal for equal content and prefix, whatever the prefix.
\<close>

theorem GenerateObjectName_bounded:
  "case GenerateObjectName marshal obj pre of
     Inl err \<Rightarrow> marshal obj = Inl err
   | Inr n \<Rightarrow> length n \<le> 63 \<and> list_all name_or_dash n \<and> \<not> is_dash (hd n) \<and>
       (\<exists>b. marshal obj = Inr b \<and> drop (length n - 7) n = take 7 (sha256_hex b))"
proof (cases "marshal obj")
  case (Inl err)
  then show ?thesis by (simp add: GenerateObjectName_def)
next
  case (Inr b)
  let ?p0 = "trim_left is_dash (clean_name pre)" and ?hx = "take 7 (sha256_hex b)"
  let ?n = "take 56 ?p0 @ ?hx"
  have n: "GenerateObjectName marshal obj pre = Inr ?n"
    by (simp add: GenerateObjectName_def Inr Let_def)
  have hx: "name_char c" if "c \<in> set ?hx" for c
    using that in_set_takeD [of c 7] set_sha256_hex [of b] hex_name_char by blast
  have "name_or_dash c" if "c \<in> set ?p0" for c
    using that set_dropWhile_subset set_clean_name by (fastforce simp: trim_left_def)
  then have chars: "list_all name_or_dash ?n"
    using hx by (auto simp: list_all_iff name_or_dash_def dest: in_set_takeD)
  have "\<not> is_dash (hd ?n)"
  proof (cases "?p0 = []")
    case True
    moreover have "?hx \<noteq> []" using length_sha256_hex [of b] by (metis length_0_conv take_eq_Nil zero_neq_numeral)
    ultimately have "name_char (hd ?n)" using hx [of "hd ?hx"] hd_in_set [of ?hx] by simp
    then show ?thesis by (auto simp: is_dash_def name_char_def)
  next
    case False
    then have "\<not> is_dash (hd ?p0)" unfolding trim_left_def by (rule hd_dropWhile)
    with False show ?thesis by (simp add: hd_append hd_take)
  qed
  with n chars Inr show ?thesis by simp
qed

end
