(* ===== verification/NetIfaceReconciler.thy ===== *)
theory NetIfaceReconciler
  imports Wifi NetIfaces Names
begin

text \<open>
  The reconciler of network interfaces (\<open>pkg/reconciler/device/networkinterface_reconciler.go\<close>): it
  drives the wifi component to the mode an interface resource asks for, keeps the scanned networks
  as resources and records address and error in the status. The API server's answer to its read
  is the parameter \<open>got\<close>; it writes to the file store of network interfaces.
\<close>

section \<open>Requeueing\<close>

text \<open>
  A reconcile result: the delay after which it is called again, in milliseconds (0 for none), and the
  error it returns. \<open>errors.As\<close> finds a cooldown under any number of wrappers.
\<close>

record reconcile_result =
  rq_after :: int
  rq_error :: "go_error option"

fun as_cooldown :: "go_error \<Rightarrow> nat option" where
  "as_cooldown (Cooldown d m) = Some d"
| "as_cooldown (Wrap p e) = as_cooldown e"
| "as_cooldown _ = None"

definition requeue :: "go_error \<Rightarrow> reconcile_result" where
  "requeue err =
     (case as_cooldown err of
        Some d \<Rightarrow> \<lparr>rq_after = int d + 1, rq_error = None\<rparr>
      | None \<Rightarrow> \<lparr>rq_after = 1000, rq_error = Some err\<rparr>)"

definition no_requeue :: reconcile_result where
  "no_requeue = \<lparr>rq_after = 0, rq_error = None\<rparr>"

lemma requeue_not_quiet [simp]: "requeue err \<noteq> no_requeue"
  by (auto simp: requeue_def no_requeue_def split: option.splits)

section \<open>Wifi networks\<close>

definition ssidToResourceName :: "string \<Rightarrow> string go" where
  "ssidToResourceName ssid = TruncateName (''ssid-'' @ ssid) MaxResourceNameLength"

fun create_networks ::
  "env \<Rightarrow> wifi_net list \<Rightarrow> string list \<Rightarrow> wifi_network memstore \<Rightarrow> (string list \<times> wifi_network memstore \<times> go_error option) go" where
  "create_networks e [] found s = Ret (found, s, None)"
| "create_networks e (network # ns) found s =
     go_bind (ssidToResourceName (wn_SSID network)) (\<lambda>name.
       case mem_create wifinetwork_rt e s name (new_resource name (wn_SSID network)) of
         (s', Inr _) \<Rightarrow> create_networks e ns (name # found) s'
       | (s', Inl err) \<Rightarrow>
           if is_already_exists err then create_networks e ns (name # found) s' else Ret (name # found, s', Some err))"

text \<open>
  The loop that removes networks asks whether the error it has already recorded is \<open>NotFound\<close>, not
  the one it just got.
\<close>

fun delete_networks ::
  "env \<Rightarrow> string list \<Rightarrow> wifi_network resource list \<Rightarrow> go_error option \<Rightarrow> wifi_network memstore
   \<Rightarrow> wifi_network memstore \<times> go_error option" where
  "delete_networks e found [] err s = (s, err)"
| "delete_networks e found (n # ns) err s =
     (if rname n \<in> set found then delete_networks e found ns err s
      else
        (case mem_delete wifinetwork_rt e s (rname n) (\<lambda>_. None) of
           (s', Inr _) \<Rightarrow> delete_networks e found ns err s'
         | (s', Inl e') \<Rightarrow>
             delete_networks e found ns
               (if err = None \<and> \<not> (case err of None \<Rightarrow> False | Some x \<Rightarrow> is_not_found x) then Some e' else err) s'))"

definition updateWifiNetworkList ::
  "env \<Rightarrow> wifi_net list \<Rightarrow> wifi_network memstore \<Rightarrow> (wifi_network memstore \<times> go_error option) go" where
  "updateWifiNetworkList e networks s =
     go_bind (create_networks e networks [] s) (\<lambda>(found, s1, err).
       case err of
         Some x \<Rightarrow> Ret (s1, Some x)
       | None \<Rightarrow> Ret (delete_networks e found (ll_Items (mem_list wifinetwork_rt s1)) None s1))"

section \<open>The reconciler\<close>

text \<open>
  The reconciler works on one resource, \<open>n_iface\<close>, which a store update replaces by what is stored, with
  the change applied even when the write fails afterwards.
\<close>

record ('k, 'b) nstate =
  n_wifi :: "'k wifi"
  n_networks :: "wifi_network memstore"
  n_store :: "(netif, 'b) filestore"
  n_iface :: "netif resource"

record ('k, 'b) nparams =
  p_host :: "'k host"
  p_env :: env
  p_DeviceName :: string
  p_codec :: "(netif, 'b) codec"
  p_passwords :: "string \<Rightarrow> go_error + wifi_password resource"
  p_addrs :: addrs_fn

definition on_wifi :: "('k wifi, 'a) gm \<Rightarrow> (('k, 'b) nstate, 'a) gm" where
  "on_wifi m = gm_zoom n_wifi (\<lambda>w s. s\<lparr>n_wifi := w\<rparr>) m"

definition set_iface_body :: "(netif \<Rightarrow> netif) \<Rightarrow> netif resource \<Rightarrow> netif resource" where
  "set_iface_body f r = r\<lparr>body := f (body r)\<rparr>"

definition n_update :: "('k, 'b) nparams \<Rightarrow> (netif \<Rightarrow> netif) \<Rightarrow> (('k, 'b) nstate, unit) gm" where
  "n_update p f s =
     (case fs_update (p_codec p) netif_rt (p_env p) (n_store s) (rname (n_iface s)) (\<lambda>r. Inr (set_iface_body f r)) of
        (st, Inr r) \<Rightarrow> Ret (s\<lparr>n_store := st, n_iface := r\<rparr>, Inr ())
      | (st, Inl err) \<Rightarrow>
          Ret (s\<lparr>n_store := st, n_iface :=
                   (case map_of (ms_items (fs_mem (n_store s))) (rname (n_iface s)) of
                      None \<Rightarrow> n_iface s
                    | Some old \<Rightarrow> set_iface_body f old)\<rparr>, Inl err))"

definition update_networks :: "('k, 'b) nparams \<Rightarrow> (('k, 'b) nstate, unit) gm" where
  "update_networks p s =
     (case updateWifiNetworkList (p_env p) (w_networks (n_wifi s)) (n_networks s) of
        Panic m \<Rightarrow> Panic m
      | Ret (ms, None) \<Rightarrow> Ret (s\<lparr>n_networks := ms\<rparr>, Inr ())
      | Ret (ms, Some err) \<Rightarrow> Ret (s\<lparr>n_networks := ms\<rparr>, Inl err))"

definition get_iface :: "(('k, 'b) nstate, netif) gm" where
  "get_iface = gm_bind gm_get (\<lambda>s. gm_return (body (n_iface s)))"

definition setWifiIfaceCountry :: "('k, 'b) nparams \<Rightarrow> (('k, 'b) nstate, unit) gm" where
  "setWifiIfaceCountry p =
     gm_bind get_iface (\<lambda>iface.
       gm_then (on_wifi (gm_modify (\<lambda>w. w\<lparr>w_CountryCode := wf_CountryCode (nif_Wifi iface)\<rparr>)))
       (if wf_CountryCode (nif_Wifi iface) = [] then
          gm_then (on_wifi DetectCountry)
          (gm_bind gm_get (\<lambda>s. n_update p (\<lambda>n.
             n\<lparr>nif_Wifi := (nif_Wifi n)\<lparr>wf_CountryCode := w_CountryCode (n_wifi s)\<rparr>\<rparr>)))
        else gm_return ()))"

definition reconcileWifiNetworkInterface :: "('k, 'b) nparams \<Rightarrow> (('k, 'b) nstate, unit) gm" where
  "reconcileWifiNetworkInterface p =
     (let h = p_host p in
      gm_bind get_iface (\<lambda>iface.
      if wf_Mode (nif_Wifi iface) = WifiModeAccessPoint then
        gm_then (on_wifi (StopStation h))
        (gm_then (on_wifi (StartWifiInterface h))
        (gm_then (update_networks p)
        (gm_then (setWifiIfaceCountry p)
        (case p_passwords p AccessPointPasswordKey of
           Inl err \<Rightarrow> gm_fail err
         | Inr pw \<Rightarrow> on_wifi (StartAccessPoint h (p_DeviceName p) (body pw))))))
      else if wf_Mode (nif_Wifi iface) = WifiModeStation then
        gm_then (on_wifi (StopAccessPoint h))
        (gm_then (on_wifi (StartWifiInterface h))
        (gm_then (update_networks p)
        (gm_then (setWifiIfaceCountry p)
        (gm_bind get_iface (\<lambda>iface.
          let ssid = wf_StationSSID (nif_Wifi iface) in
          if ssid = [] then gm_fail (Errorf ''no wifi network configured to connect to'')
          else
            (case ssidToResourceName ssid of
               Panic m \<Rightarrow> gm_panic m
             | Ret name \<Rightarrow>
                 (case p_passwords p name of
                    Inl err \<Rightarrow> gm_fail (Errorf (''no password configured for wifi network '' @ go_quote ssid))
                  | Inr pw \<Rightarrow> on_wifi (StartStation h ssid (body pw)))))))))
      else
        gm_then (on_wifi (StopStation h))
        (gm_then (on_wifi (StopAccessPoint h))
        (on_wifi (StopWifiInterface h)))))"

definition ensureIPAddress :: "('k, 'b) nparams \<Rightarrow> (('k, 'b) nstate, unit) gm" where
  "ensureIPAddress p =
     gm_bind gm_get (\<lambda>s.
       let link = ns_Link (nif_Status (body (n_iface s))) in
       if nl_Up link \<and> nl_IP4 link = [] then
         (case IPv4Address (p_addrs p) (rname (n_iface s)) of
            Inl err \<Rightarrow> gm_fail err
          | Inr None \<Rightarrow> gm_fail (Errorf ''no ip address assigned to network interface'')
          | Inr (Some ip) \<Rightarrow>
              n_update p (\<lambda>n.
                n\<lparr>nif_Status := (nif_Status n)\<lparr>ns_Link := (ns_Link (nif_Status n))\<lparr>nl_IP4 := show_ipv4 ip\<rparr>\<rparr>\<rparr>))
       else gm_return ())"

text \<open>
  The end of \<open>Reconcile\<close>: the error is recorded in the status, and a failure to do so is returned
  instead of it.
\<close>

definition error_message :: "netif \<Rightarrow> go_error option \<Rightarrow> string" where
  "error_message iface err =
     (case err of
        None \<Rightarrow> []
      | Some e \<Rightarrow>
          (let linkMsg = nl_Error (ns_Link (nif_Status iface)) in
           if linkMsg \<noteq> [] then linkMsg @ ''. '' @ error_text e else error_text e))"

definition report_status :: "('k, 'b) nparams \<Rightarrow> go_error option \<Rightarrow> (('k, 'b) nstate, reconcile_result) gm" where
  "report_status p err =
     gm_bind get_iface (\<lambda>iface.
       let errMsg = error_message iface err;
           final = (case err of None \<Rightarrow> no_requeue | Some e \<Rightarrow> requeue e)
       in if ns_Error (nif_Status iface) \<noteq> errMsg then
            gm_bind (gm_try (n_update p (\<lambda>n. n\<lparr>nif_Status := (nif_Status n)\<lparr>ns_Error := errMsg\<rparr>\<rparr>)))
              (\<lambda>r. case r of Inl e \<Rightarrow> gm_return (requeue e) | Inr _ \<Rightarrow> gm_return final)
          else gm_return final)"

definition netif_reconcile :: "('k, 'b) nparams \<Rightarrow> go_error + netif resource \<Rightarrow> (('k, 'b) nstate, reconcile_result) gm" where
  "netif_reconcile p got =
     (case got of
        Inl err \<Rightarrow> gm_return (if is_not_found err then no_requeue else requeue err)
      | Inr iface \<Rightarrow>
          gm_then (gm_modify (\<lambda>s. s\<lparr>n_iface := iface\<rparr>))
          (gm_bind (gm_try
            (gm_then
              (if nl_Type (ns_Link (nif_Status (body iface))) = NetworkInterfaceTypeWifi
               then reconcileWifiNetworkInterface p else gm_return ())
              (ensureIPAddress p)))
            (\<lambda>r. case r of
               Inl err \<Rightarrow> report_status p (Some err)
             | Inr _ \<Rightarrow> report_status p None)))"

section \<open>Synchronised networks\<close>

definition network_names :: "wifi_net list \<Rightarrow> string set" where
  "network_names ns = {k. \<exists>n \<in> set ns. ssidToResourceName (wn_SSID n) = Ret k}"

lemma ssidToResourceName_Ret: "\<exists>k. ssidToResourceName ssid = Ret k"
  unfolding ssidToResourceName_def by (subst TruncateName_Ret) (simp_all add: MaxResourceNameLength_def)

text \<open>What was there stays, and what is new has the name and the SSID of a network.\<close>

definition networks_added :: "wifi_net list \<Rightarrow> wifi_network memstore \<Rightarrow> wifi_network memstore \<Rightarrow> bool" where
  "networks_added ns s s' \<longleftrightarrow>
     (\<forall>k r. mem_view s k = Some r \<longrightarrow> mem_view s' k = Some r) \<and>
     (\<forall>k r. mem_view s k = None \<longrightarrow> mem_view s' k = Some r \<longrightarrow>
       (\<exists>n \<in> set ns. ssidToResourceName (wn_SSID n) = Ret k \<and> body r = wn_SSID n))"

lemma networks_added_Cons:
  assumes "networks_added ns s1 s'" "s1 = s \<or> mem_view s k = None \<and> mem_view s1 = (mem_view s)(k \<mapsto> r)"
    and "ssidToResourceName (wn_SSID n) = Ret k" "s1 \<noteq> s \<Longrightarrow> body r = wn_SSID n"
  shows "networks_added (n # ns) s s'"
proof (cases "s1 = s")
  case True
  with assms(1) show ?thesis unfolding networks_added_def by auto
next
  case False
  with assms(2,4) have v: "mem_view s k = None" "mem_view s1 = (mem_view s)(k \<mapsto> r)" "body r = wn_SSID n" by auto
  have 1: "mem_view s1 j = Some x \<Longrightarrow> mem_view s' j = Some x"
    "mem_view s1 j = None \<Longrightarrow> mem_view s' j = Some x \<Longrightarrow> \<exists>n \<in> set ns. ssidToResourceName (wn_SSID n) = Ret j \<and> body x = wn_SSID n" for j x
    using assms(1) unfolding networks_added_def by blast+
  show ?thesis unfolding networks_added_def
  proof (intro conjI allI impI)
    fix j x assume "mem_view s j = Some x"
    then show "mem_view s' j = Some x" using 1(1) [of j x] v by (cases "j = k") auto
  next
    fix j x assume j: "mem_view s j = None" "mem_view s' j = Some x"
    show "\<exists>n \<in> set (n # ns). ssidToResourceName (wn_SSID n) = Ret j \<and> body x = wn_SSID n"
    proof (cases "j = k")
      case True
      with 1(1) [of k r] v j assms(3) show ?thesis by auto
    next
      case False
      with 1(2) [of j x] v j show ?thesis by auto
    qed
  qed
qed

lemma create_networks_ok:
  "mem_inv s \<Longrightarrow> keys_named s \<Longrightarrow>
   \<exists>found' s'. create_networks e ns found s = Ret (found', s', None) \<and> mem_inv s' \<and> keys_named s' \<and>
     set found' = set found \<union> network_names ns \<and> dom (mem_view s') = dom (mem_view s) \<union> network_names ns \<and>
     networks_added ns s s'"
proof (induction ns arbitrary: found s)
  case Nil
  then show ?case by (simp add: network_names_def networks_added_def)
next
  case (Cons n ns)
  obtain k where k: "ssidToResourceName (wn_SSID n) = Ret k" using ssidToResourceName_Ret by blast
  have names: "network_names (n # ns) = insert k (network_names ns)" using k by (auto simp: network_names_def)
  let ?o = "new_resource k (wn_SSID n)"
  obtain s1 res where c: "mem_create wifinetwork_rt e s k ?o = (s1, res)" by fastforce
  have inv1: "mem_inv s1" using mem_inv_create [OF Cons.prems(1), of wifinetwork_rt e k ?o] c by simp
  show ?case
  proof (cases res)
    case (Inl err)
    with c have e: "s1 = s" "err = AlreadyExists (rt_GroupResource wifinetwork_rt) k" "k \<in> dom (mem_view s)"
      using mem_create_Inl by fastforce+
    obtain found' s' where ih: "create_networks e ns (k # found) s = Ret (found', s', None)" "mem_inv s'" "keys_named s'"
      "set found' = set (k # found) \<union> network_names ns" "dom (mem_view s') = dom (mem_view s) \<union> network_names ns"
      "networks_added ns s s'"
      using Cons.IH [OF Cons.prems] by blast
    have "create_networks e (n # ns) found s = Ret (found', s', None)" using k c Inl e ih(1) by simp
    moreover have "networks_added (n # ns) s s'" by (rule networks_added_Cons [OF ih(6) _ k]) simp_all
    ultimately show ?thesis using ih names e(3) by auto
  next
    case (Inr r)
    with c have m: "mem_create wifinetwork_rt e s k ?o = (s1, Inr r)" by simp
    have c': "op_create (mem_ops wifinetwork_rt) e s k ?o = (s1, Inr r)" using m by (simp add: mem_ops_def)
    have v: "mem_view s1 = (mem_view s)(k \<mapsto> r)" "rname r = k" "mem_view s k = None" "body r = wn_SSID n"
      using mem.create_ok [OF Cons.prems(1) c'] by (simp_all add: new_resource_def)
    have nm: "keys_named s1" using Cons.prems(2) v by (auto simp: keys_named_def)
    obtain found' s' where ih: "create_networks e ns (k # found) s1 = Ret (found', s', None)" "mem_inv s'" "keys_named s'"
      "set found' = set (k # found) \<union> network_names ns" "dom (mem_view s') = dom (mem_view s1) \<union> network_names ns"
      "networks_added ns s1 s'"
      using Cons.IH [OF inv1 nm] by blast
    have "create_networks e (n # ns) found s = Ret (found', s', None)" using k m ih(1) by simp
    moreover have "networks_added (n # ns) s s'" using networks_added_Cons [OF ih(6) _ k] v by blast
    ultimately show ?thesis using ih names v(1) by auto
  qed
qed

lemma delete_networks_ok:
  "mem_inv s \<Longrightarrow> keys_named s \<Longrightarrow> distinct (map rname items) \<Longrightarrow> rname ` set items \<subseteq> dom (mem_view s) \<Longrightarrow>
   \<exists>s'. delete_networks e found items None s = (s', None) \<and> mem_inv s' \<and> keys_named s' \<and>
     (\<forall>k. mem_view s' k = (if k \<in> rname ` set items - set found then None else mem_view s k))"
proof (induction items arbitrary: s)
  case Nil
  then show ?case by simp
next
  case (Cons n ns)
  show ?case
  proof (cases "rname n \<in> set found")
    case True
    with Cons.IH [of s] Cons.prems show ?thesis by (auto simp: insert_Diff_if)
  next
    case False
    obtain old where old: "mem_view s (rname n) = Some old" using Cons.prems(4) by auto
    obtain s1 where d: "mem_delete wifinetwork_rt e s (rname n) (\<lambda>_. None) = (s1, Inr old)"
      using mem.delete_succeeds [OF Cons.prems(1) old, of "\<lambda>_. None" wifinetwork_rt e] by (auto simp: mem_ops_def)
    have d': "op_delete (mem_ops wifinetwork_rt) e s (rname n) (\<lambda>_. None) = (s1, Inr old)"
      using d by (simp add: mem_ops_def)
    have inv1: "mem_inv s1" using mem.delete_inv [OF Cons.prems(1)] d' by (metis fst_conv)
    have v1: "mem_view s1 = (mem_view s)(rname n := None)" using mem.delete_ok [OF Cons.prems(1) d'] by blast
    have new: "\<And>r. r \<in> set ns \<Longrightarrow> rname r \<noteq> rname n" using Cons.prems(3) by (force simp: image_iff)
    have "keys_named s1" using Cons.prems(2) v1 by (auto simp: keys_named_def)
    moreover have "rname ` set ns \<subseteq> dom (mem_view s1)" using Cons.prems(4) v1 new by auto
    ultimately obtain s' where "delete_networks e found ns None s1 = (s', None)" "mem_inv s'" "keys_named s'"
      "\<forall>k. mem_view s' k = (if k \<in> rname ` set ns - set found then None else mem_view s1 k)"
      using Cons.IH [OF inv1] Cons.prems(3) by auto
    have "delete_networks e found (n # ns) None s = (s', None)"
      using d False \<open>delete_networks e found ns None s1 = (s', None)\<close> by simp
    moreover have "mem_view s' k = (if k \<in> rname ` set (n # ns) - set found then None else mem_view s k)" for k
      using v1 False new \<open>\<forall>k. mem_view s' k = _ k\<close> by auto
    ultimately show ?thesis using \<open>mem_inv s'\<close> \<open>keys_named s'\<close> by blast
  qed
qed

text \<open>
  C20. After a scan the network resources are exactly the networks the scan found: from any store in order whose
  resources are named by their keys, \<open>updateWifiNetworkList\<close> returns no error and leaves a resource under the
  names of the scanned networks and no other; one that was there is as it was, and a new one has the SSID
  of a scanned network with its name.
\<close>

theorem wifi_networks_synced:
  assumes "mem_inv s" "keys_named s"
  shows "\<exists>s'. updateWifiNetworkList e networks s = Ret (s', None) \<and> mem_inv s' \<and> keys_named s' \<and>
    dom (mem_view s') = {k. \<exists>n \<in> set networks. ssidToResourceName (wn_SSID n) = Ret k} \<and>
    (\<forall>k r. mem_view s' k = Some r \<longrightarrow>
      (case mem_view s k of
         Some old \<Rightarrow> r = old
       | None \<Rightarrow> \<exists>n \<in> set networks. ssidToResourceName (wn_SSID n) = Ret k \<and> body r = wn_SSID n))"
proof -
  obtain found s1 where c: "create_networks e networks [] s = Ret (found, s1, None)" "mem_inv s1" "keys_named s1"
    "set found = network_names networks" "dom (mem_view s1) = dom (mem_view s) \<union> network_names networks"
    "networks_added networks s s1"
    using create_networks_ok [OF assms, of e networks "[]"] by auto
  let ?l = "ll_Items (mem_list wifinetwork_rt s1)"
  have names: "map rname ?l = sort (map fst (ms_items s1))" by (rule list_names [OF c(2,3)])
  have wf: "wf_map (ms_items s1)" using c(2) unfolding mem_inv_def by blast
  have "distinct (map rname ?l)" using names sorted_keys_dom [OF wf] by metis
  moreover have set: "rname ` set ?l = dom (mem_view s1)"
    using arg_cong [OF names, of set] sorted_keys_dom [OF wf] by (metis list.set_map)
  ultimately obtain s' where s': "delete_networks e found ?l None s1 = (s', None)" "mem_inv s'" "keys_named s'"
    "\<forall>k. mem_view s' k = (if k \<in> rname ` set ?l - set found then None else mem_view s1 k)"
    using delete_networks_ok [OF c(2,3), of ?l e found] by auto
  have v: "mem_view s' k = (if k \<in> network_names networks then mem_view s1 k else None)" for k
    using s'(4) set c(4) by (cases "mem_view s1 k") (auto simp: dom_def)
  then have "dom (mem_view s') = network_names networks" using c(5) by (auto simp: dom_def)
  moreover have "case mem_view s k of Some old \<Rightarrow> r = old
      | None \<Rightarrow> \<exists>n \<in> set networks. ssidToResourceName (wn_SSID n) = Ret k \<and> body r = wn_SSID n" if "mem_view s' k = Some r" for k r
    using c(6) that v [of k] unfolding networks_added_def by (auto split: option.split if_splits)
  ultimately show ?thesis using c(1) s'(1-3) by (simp add: updateWifiNetworkList_def network_names_def)
qed

theorem wifi_networks_synced_witness:
  "\<exists>s' k r. updateWifiNetworkList demo_env [\<lparr>wn_MAC = [], wn_SSID = ''Home 1'', wn_Country = []\<rparr>] InMemory = Ret (s', None) \<and>
     ssidToResourceName ''Home 1'' = Ret k \<and> dom (mem_view s') = {k} \<and> mem_view s' k = Some r \<and> body r = ''Home 1''"
proof -
  let ?ns = "[\<lparr>wn_MAC = [], wn_SSID = ''Home 1'', wn_Country = []\<rparr>]"
  have 1: "keys_named InMemory" by (simp add: keys_named_def)
  obtain k where k: "ssidToResourceName ''Home 1'' = Ret k" using ssidToResourceName_Ret by blast
  obtain s' where s': "updateWifiNetworkList demo_env ?ns InMemory = Ret (s', None)" "dom (mem_view s') = {k}"
      "\<forall>j r. mem_view s' j = Some r \<longrightarrow> (case mem_view InMemory j of Some old \<Rightarrow> r = old | None \<Rightarrow> body r = ''Home 1'')"
    using wifi_networks_synced [OF mem_inv_InMemory 1, of demo_env ?ns] k by (auto split: option.splits)
  have "k \<in> dom (mem_view s')" using s'(2) by simp
  then obtain r where "mem_view s' k = Some r" by blast
  with s' k show ?thesis by auto
qed

section \<open>One mode at a time\<close>

text \<open>
  The conditions of the wifi component hold of the reconciler's state; nothing but the wifi calls
  changes it.
\<close>

lemma on_wifi_valid: "gm_valid P m Q \<Longrightarrow> gm_valid (\<lambda>s. P (n_wifi s)) (on_wifi m) (\<lambda>r s. Q r (n_wifi s))"
  unfolding on_wifi_def by (rule gm_valid_zoom) simp_all

lemma on_wifi_inv [gm_rules]: "gm_inv I m \<Longrightarrow> gm_inv (\<lambda>s. I (n_wifi s)) (on_wifi m)"
  by (rule on_wifi_valid)

lemma on_wifi_sure: "gm_sure I m \<Longrightarrow> gm_sure (\<lambda>s. I (n_wifi s)) (on_wifi m)"
  unfolding gm_sure_def by (drule on_wifi_valid) simp

lemma wifi_frame [gm_rules]:
  "gm_inv (\<lambda>s. I (n_wifi s)) (n_update p f)"
  "gm_inv (\<lambda>s. I (n_wifi s)) (update_networks p)"
  "gm_inv (\<lambda>s. I (n_wifi s)) get_iface"
  "gm_inv (\<lambda>s. I (n_wifi s)) (gm_modify (\<lambda>s. s\<lparr>n_iface := iface\<rparr>))"
  by (auto simp: gm_valid_def n_update_def update_networks_def get_iface_def gm_bind_def gm_get_def gm_return_def
      gm_modify_def split: prod.splits sum.splits go.splits option.splits)

lemma ensureIPAddress_frame [gm_rules]: "gm_inv (\<lambda>s. I (n_wifi s)) (ensureIPAddress p)"
  unfolding ensureIPAddress_def Let_def by (intro gm_rules)

lemma report_status_frame [gm_rules]: "gm_inv (\<lambda>s. I (n_wifi s)) (report_status p err)"
  unfolding report_status_def Let_def by (intro gm_rules)

lemma country_frame [gm_rules]:
  assumes "\<And>f. (\<And>w. w_ap (f w) = w_ap w \<and> w_station (f w) = w_station w \<and> w_dhcpcd (f w) = w_dhcpcd w) \<Longrightarrow> gm_inv I (gm_modify f)"
    and "gm_inv I DetectCountry"
  shows "gm_inv (\<lambda>s. I (n_wifi s)) (setWifiIfaceCountry p)"
proof -
  have "gm_inv I (gm_modify (\<lambda>w. w\<lparr>w_CountryCode := c\<rparr>))" for c :: string by (rule assms(1)) simp
  then show ?thesis unfolding setWifiIfaceCountry_def by (intro gm_rules assms(2))
qed

text \<open>Either no station or no access point is running.\<close>

definition one_mode :: "'k wifi \<Rightarrow> bool" where
  "one_mode w \<longleftrightarrow> no_station w \<or> no_ap w"

interpretation om: runners_condition one_mode
  by unfold_locales (auto simp: one_mode_def no_station_def no_ap_def wifi_inv_def)

lemma one_mode_wifi_inv: "one_mode w \<Longrightarrow> wifi_inv w"
  by (auto simp: one_mode_def no_station_def no_ap_def)

lemma wifi_after:
  assumes "gm_valid wifi_inv m (\<lambda>_. J)" "gm_inv (\<lambda>s. J (n_wifi s)) rest"
  shows "gm_valid (\<lambda>s. one_mode (n_wifi s)) (gm_then (on_wifi m) rest) (\<lambda>_ s. J (n_wifi s))"
proof -
  have "gm_valid (\<lambda>s. one_mode (n_wifi s)) (on_wifi m) (\<lambda>_ s. J (n_wifi s))"
    by (rule gm_weaken [OF on_wifi_valid [OF assms(1)]]) (simp_all add: one_mode_wifi_inv)
  then show ?thesis unfolding gm_then_def by (rule gm_valid_bind) (use assms(2) in simp_all)
qed

definition mode_condition :: "netif \<Rightarrow> 'k wifi \<Rightarrow> bool" where
  "mode_condition iface w \<longleftrightarrow>
     (if wf_Mode (nif_Wifi iface) = WifiModeAccessPoint then no_station w
      else if wf_Mode (nif_Wifi iface) = WifiModeStation then no_ap w
      else no_station w \<and> no_ap w)"

lemma mode_one: "mode_condition iface w \<Longrightarrow> one_mode w"
  by (auto simp: mode_condition_def one_mode_def split: if_splits)

lemma modes_differ [simp]: "WifiModeStation \<noteq> WifiModeAccessPoint" "WifiModeAccessPoint \<noteq> WifiModeStation"
  by (simp_all add: WifiModeStation_def WifiModeAccessPoint_def)

interpretation mc: runners_condition "mode_condition iface" for iface
  by unfold_locales (auto simp: mode_condition_def no_station_def no_ap_def wifi_inv_def split: if_splits)

interpretation no: runners_condition "\<lambda>w. no_station w \<and> no_ap w"
  by unfold_locales (auto simp: no_station_def no_ap_def wifi_inv_def)

lemma StopAccessPoint_both: "gm_valid no_station (StopAccessPoint h) (\<lambda>_ w. no_station w \<and> no_ap w)"
proof (rule gm_valid_conj [OF StopAccessPoint_ns(1)])
  show "gm_valid no_station (StopAccessPoint h) (\<lambda>_. no_ap)"
    by (rule gm_weaken [OF StopAccessPoint_valid]) (simp_all add: no_station_def)
qed

lemma StopStation_sure: "gm_sure wifi_inv (StopStation h)"
  unfolding StopStation_def
  by (intro gm_sure_rules wi.inv_resolv) (auto simp: restoreResolvConf_def intro!: gm_sure_rules gm_rules)

text \<open>Each mode: what is stopped first stays stopped.\<close>

lemma ap_mode:
  "gm_valid (\<lambda>s. one_mode (n_wifi s))
     (gm_then (on_wifi (StopStation h)) (gm_then (on_wifi (StartWifiInterface h)) (gm_then (update_networks p)
       (gm_then (setWifiIfaceCountry p)
       (case p_passwords p AccessPointPasswordKey of
          Inl err \<Rightarrow> gm_fail err | Inr pw \<Rightarrow> on_wifi (StartAccessPoint h d (body pw)))))))
     (\<lambda>_ s. no_station (n_wifi s))"
  by (rule wifi_after [OF StopStation_valid], intro gm_rules)

lemma station_mode:
  "gm_valid (\<lambda>s. one_mode (n_wifi s))
     (gm_then (on_wifi (StopAccessPoint h)) (gm_then (on_wifi (StartWifiInterface h)) (gm_then (update_networks p)
       (gm_then (setWifiIfaceCountry p)
       (gm_bind get_iface (\<lambda>iface.
          let ssid = wf_StationSSID (nif_Wifi iface) in
          if ssid = [] then gm_fail (Errorf ''no wifi network configured to connect to'')
          else
            (case ssidToResourceName ssid of
               Panic m \<Rightarrow> gm_panic m
             | Ret name \<Rightarrow>
                 (case p_passwords p name of
                    Inl err \<Rightarrow> gm_fail (Errorf (''no password configured for wifi network '' @ go_quote ssid))
                  | Inr pw \<Rightarrow> on_wifi (StartStation h ssid (body pw))))))))))
     (\<lambda>_ s. no_ap (n_wifi s))"
proof -
  have g: "gm_inv (\<lambda>s. no_ap (n_wifi s)) (case x of Panic m \<Rightarrow> gm_panic m | Ret b \<Rightarrow> f b)"
    if "\<And>b. gm_inv (\<lambda>s. no_ap (n_wifi s)) (f b)" for x :: "string go" and f :: "string \<Rightarrow> (('k, 'b) nstate, unit) gm"
    using that by (cases x) (auto intro: gm_rules)
  show ?thesis unfolding Let_def by (rule wifi_after [OF StopAccessPoint_valid], intro gm_rules g)
qed

lemma disabled_mode:
  "gm_valid (\<lambda>s. one_mode (n_wifi s))
     (gm_then (on_wifi (StopStation h)) (gm_then (on_wifi (StopAccessPoint h)) (on_wifi (StopWifiInterface h))))
     (\<lambda>_ s. no_station (n_wifi s) \<and> no_ap (n_wifi s))"
proof -
  have "gm_valid (\<lambda>s. no_station (n_wifi s)) (gm_then (on_wifi (StopAccessPoint h)) (on_wifi (StopWifiInterface h)))
      (\<lambda>_ s. no_station (n_wifi s) \<and> no_ap (n_wifi s))"
    unfolding gm_then_def
    by (rule gm_valid_bind [OF on_wifi_valid [OF StopAccessPoint_both]])
       (simp_all add: on_wifi_inv [where I = "\<lambda>w. no_station w \<and> no_ap w", OF no.inv_StopWifiInterface])
  from gm_step_seq [OF on_wifi_sure [OF StopStation_sure] on_wifi_valid [OF StopStation_valid] this]
  show ?thesis by (rule gm_weaken) (simp_all add: one_mode_wifi_inv)
qed

lemma get_iface_at: "gm_bind get_iface f s = f (body (n_iface s)) s"
  by (simp add: get_iface_def gm_defs)

lemma reconcile_wifi_mode:
  "gm_valid (\<lambda>s. one_mode (n_wifi s) \<and> body (n_iface s) = iface) (reconcileWifiNetworkInterface p)
     (\<lambda>_ s. mode_condition iface (n_wifi s))"
proof (rule gm_validI)
  fix s s' r
  assume P: "one_mode (n_wifi s) \<and> body (n_iface s) = iface" and r: "reconcileWifiNetworkInterface p s = Ret (s', r)"
  consider "wf_Mode (nif_Wifi iface) = WifiModeAccessPoint" | "wf_Mode (nif_Wifi iface) = WifiModeStation"
    | "wf_Mode (nif_Wifi iface) \<notin> {WifiModeAccessPoint, WifiModeStation}" by blast
  then show "mode_condition iface (n_wifi s')"
  proof cases
    case 1
    with gm_validD [OF ap_mode [of "p_host p" p "p_DeviceName p"], of s s' r] P r show ?thesis
      by (simp add: reconcileWifiNetworkInterface_def get_iface_at mode_condition_def Let_def)
  next
    case 2
    with gm_validD [OF station_mode [of "p_host p" p], of s s' r] P r show ?thesis
      by (simp add: reconcileWifiNetworkInterface_def get_iface_at mode_condition_def Let_def)
  next
    case 3
    with gm_validD [OF disabled_mode [of "p_host p"], of s s' r] P r show ?thesis
      by (simp add: reconcileWifiNetworkInterface_def get_iface_at mode_condition_def Let_def)
  qed
qed

text \<open>
  The interface's life: reconciles, each with the host and the secrets of its time, and the exits of the
  processes and their reports, in any order.
\<close>

fun exit_event :: "runner_event \<Rightarrow> bool" where
  "exit_event (EvExit _) = True"
| "exit_event (EvReport _ _ _) = True"
| "exit_event _ = False"

inductive netif_step :: "('k, 'b) nstate \<Rightarrow> ('k, 'b) nstate \<Rightarrow> bool" where
  reconcile: "netif_reconcile p got s = Ret (s', r) \<Longrightarrow> netif_step s s'"
| ap: "exit_event e \<Longrightarrow> runner_exec ''SIGTERM'' (w_ap (n_wifi s)) e = Ret m \<Longrightarrow>
    netif_step s (s\<lparr>n_wifi := (n_wifi s)\<lparr>w_ap := m\<rparr>\<rparr>)"
| station: "exit_event e \<Longrightarrow> runner_exec ''SIGTERM'' (w_station (n_wifi s)) e = Ret m \<Longrightarrow>
    netif_step s (s\<lparr>n_wifi := (n_wifi s)\<lparr>w_station := m\<rparr>\<rparr>)"
| dhcpcd: "exit_event e \<Longrightarrow> runner_exec ''SIGTERM'' (w_dhcpcd (n_wifi s)) e = Ret m \<Longrightarrow>
    netif_step s (s\<lparr>n_wifi := (n_wifi s)\<lparr>w_dhcpcd := m\<rparr>\<rparr>)"

lemma exit_event_live: "exit_event e \<Longrightarrow> runner_exec sig m e = Ret m' \<Longrightarrow> rn_live m = [] \<Longrightarrow> rn_live m' = []"
  by (cases e) (auto simp: proc_exit_def report_exit_def report_def split: option.splits if_splits)

lemma exit_one_mode:
  assumes "exit_event e" "one_mode w"
  shows "runner_exec ''SIGTERM'' (w_ap w) e = Ret m \<Longrightarrow> one_mode (w\<lparr>w_ap := m\<rparr>)"
    "runner_exec ''SIGTERM'' (w_station w) e = Ret m \<Longrightarrow> one_mode (w\<lparr>w_station := m\<rparr>)"
    "runner_exec ''SIGTERM'' (w_dhcpcd w) e = Ret m \<Longrightarrow> one_mode (w\<lparr>w_dhcpcd := m\<rparr>)"
  using assms exit_event_live [OF assms(1)] runner_exec_inv [of _ "''SIGTERM''" e m]
  by (auto simp: one_mode_def no_station_def no_ap_def wifi_inv_def)

lemma frame_one_mode:
  "gm_inv (\<lambda>s. one_mode (n_wifi s)) (ensureIPAddress p)"
  "gm_inv (\<lambda>s. one_mode (n_wifi s)) (report_status p err)"
  by (intro gm_rules)+

text \<open>What a whole reconcile leaves behind.\<close>

lemma netif_reconcile_after:
  assumes "\<And>s1 s2 r. P s1 \<Longrightarrow> (if nl_Type (ns_Link (nif_Status (body iface))) = NetworkInterfaceTypeWifi
      then reconcileWifiNetworkInterface p else gm_return ()) s1 = Ret (s2, r) \<Longrightarrow> J (n_wifi s2)"
    and "P (s\<lparr>n_iface := iface\<rparr>)" "netif_reconcile p (Inr iface) s = Ret (s', r)"
  shows "J (n_wifi s')"
proof -
  let ?m = "if nl_Type (ns_Link (nif_Status (body iface))) = NetworkInterfaceTypeWifi
      then reconcileWifiNetworkInterface p else gm_return ()"
  have 1: "gm_valid P ?m (\<lambda>_ s. J (n_wifi s))" using assms(1) by (intro gm_validI) blast
  have 2: "gm_valid P (gm_then ?m (ensureIPAddress p)) (\<lambda>_ s. J (n_wifi s))"
    unfolding gm_then_def by (rule gm_valid_bind [OF 1]) (auto intro: ensureIPAddress_frame)
  have 3: "gm_valid P (gm_try (gm_then ?m (ensureIPAddress p))) (\<lambda>_ s. J (n_wifi s))"
    using 2 by (auto simp: gm_valid_def gm_try_def split: go.splits prod.splits)
  have 4: "gm_valid P (gm_bind (gm_try (gm_then ?m (ensureIPAddress p)))
      (\<lambda>r. case r of Inl err \<Rightarrow> report_status p (Some err) | Inr _ \<Rightarrow> report_status p None)) (\<lambda>_ s. J (n_wifi s))"
    by (rule gm_valid_bind [OF 3]) (auto intro: report_status_frame split: sum.splits)
  show ?thesis
    by (rule gm_validD [OF 4 assms(2), of s' r])
       (use assms(3) in \<open>simp add: netif_reconcile_def gm_then_def gm_bind_def gm_modify_def\<close>)
qed

lemma one_mode_step: "netif_step s s' \<Longrightarrow> one_mode (n_wifi s) \<Longrightarrow> one_mode (n_wifi s')"
proof (induction rule: netif_step.induct)
  case (reconcile p got s s' r)
  show ?case
  proof (cases got)
    case (Inl err)
    with reconcile show ?thesis by (simp add: netif_reconcile_def gm_return_def)
  next
    case (Inr iface)
    have 1: "one_mode (n_wifi s2)"
      if "one_mode (n_wifi s1) \<and> n_iface s1 = iface" and r: "(if nl_Type (ns_Link (nif_Status (body iface))) = NetworkInterfaceTypeWifi
        then reconcileWifiNetworkInterface p else gm_return ()) s1 = Ret (s2, r)" for s1 s2 r
    proof (cases "nl_Type (ns_Link (nif_Status (body iface))) = NetworkInterfaceTypeWifi")
      case True
      with gm_validD [OF reconcile_wifi_mode [of "body iface" p], of s1 s2 r] that show ?thesis by (simp add: mode_one)
    next
      case False
      with that show ?thesis by (simp add: gm_return_def)
    qed
    show ?thesis
      by (rule netif_reconcile_after [where P = "\<lambda>s. one_mode (n_wifi s) \<and> n_iface s = iface" and J = one_mode and iface = iface and p = p
            and s = s and s' = s' and r = r]) (use reconcile Inr 1 in \<open>blast, simp_all\<close>)
  qed
qed (simp_all add: exit_one_mode)

text \<open>
  The access point and the station never run together: from the start of the program, after any
  sequence of reconciles of any wifi resource (failing ones included, with any host, secrets and API
  answer), of process exits and of their reports, there is no hostapd or there is neither
  wpa_supplicant nor dhcpcd, and never more than one process of each.
\<close>

theorem wifi_modes_exclusive:
  assumes "netif_step\<^sup>*\<^sup>* s s'" "n_wifi s = new_wifi h k files"
  shows "(rn_live (w_ap (n_wifi s')) = [] \<or> rn_live (w_station (n_wifi s')) = [] \<and> rn_live (w_dhcpcd (n_wifi s')) = []) \<and>
    length (rn_live (w_ap (n_wifi s'))) \<le> 1 \<and> length (rn_live (w_station (n_wifi s'))) \<le> 1 \<and>
    length (rn_live (w_dhcpcd (n_wifi s'))) \<le> 1"
proof -
  have "one_mode (n_wifi s)"
    using assms(2) by (simp add: one_mode_def no_ap_def wifi_inv_def new_wifi_def runner_inv_def new_runner_def)
  with assms(1) have one: "one_mode (n_wifi s')" by induction (auto dest: one_mode_step)
  moreover have "length (rn_live m) \<le> 1" if "runner_inv m" for m
    using that by (auto simp: runner_inv_def split: option.splits)
  ultimately show ?thesis by (auto simp: one_mode_def no_station_def no_ap_def wifi_inv_def)
qed

text \<open>A device that is to be an access point, on a host where every command works.\<close>

definition demo_params :: "(ipt_rule list, netif resource) nparams" where
  "demo_params =
     \<lparr>p_host = demo_host, p_env = demo_env, p_DeviceName = ''kubemate'', p_codec = demo_codec,
      p_passwords = (\<lambda>k. Inr (new_resource k ''secret'')), p_addrs = (\<lambda>_. Inr (Inr []))\<rparr>"

definition demo_iface :: "string \<Rightarrow> netif resource" where
  "demo_iface mode = new_resource ''wlan0''
     \<lparr>nif_Wifi = zero_wifi_spec\<lparr>wf_Mode := mode, wf_CountryCode := ''DE''\<rparr>,
      nif_Status = zero_netif_status\<lparr>ns_Link := (ns_Link zero_netif_status)\<lparr>nl_Type := NetworkInterfaceTypeWifi\<rparr>\<rparr>\<rparr>"

definition demo_nstate :: "(ipt_rule list, netif resource) nstate" where
  "demo_nstate = \<lparr>n_wifi = new_wifi demo_host [] [], n_networks = InMemory, n_store = demo_store, n_iface = demo_iface []\<rparr>"

lemma demo_ap_runs:
  "\<exists>s' r. netif_reconcile demo_params (Inr (demo_iface WifiModeAccessPoint)) demo_nstate = Ret (s', r) \<and>
     rn_live (w_ap (n_wifi s')) = [7]"
proof -
  have scan: "parseIwNetworkScanResult [] = Ret []" by code_simp
  show ?thesis
    by (simp add: netif_reconcile_def demo_params_def demo_iface_def demo_nstate_def new_resource_def zero_wifi_spec_def
      zero_netif_status_def reconcileWifiNetworkInterface_def Let_def get_iface_def gm_defs on_wifi_def gm_zoom_def
      StopStation_def stop_station_def stop_dhcpcd_def restoreResolvConf_def writeHostResolvConf_def new_wifi_def
      StartWifiInterface_def restartWifiInterface_def runCmd_def demo_host_def wifi_scan_def cli_run_def
      detectIface_def runner_stop_def new_runner_def scan update_networks_def updateWifiNetworkList_def mem_list_def InMemory_def
      setWifiIfaceCountry_def StartAccessPoint_def generateNetworkInterfacesConfIfNotExist_def generateHostapdConf_def
      WriteTempConfigFile_def write_template_def conf_file_def conf_path_def write_text_def file_write_def ModeAccessPoint_def installAPRoutes_def addIPTablesRule_def
      modifyIPTables_def ap_rules_def ipt_args_def start_ap_def lift_runner_def runner_start_def StartProcess_def report_def
      ensureIPAddress_def report_status_def zero_link_status_def error_message_def WifiModeAccessPoint_def)
qed

theorem wifi_modes_exclusive_witness:
  "\<exists>s'. netif_step\<^sup>*\<^sup>* demo_nstate s' \<and> rn_live (w_ap (n_wifi s')) = [7] \<and>
     rn_live (w_station (n_wifi s')) = [] \<and> rn_live (w_dhcpcd (n_wifi s')) = []"
proof -
  obtain s' r where "netif_reconcile demo_params (Inr (demo_iface WifiModeAccessPoint)) demo_nstate = Ret (s', r)"
    and ap: "rn_live (w_ap (n_wifi s')) = [7]" using demo_ap_runs by blast
  then have step: "netif_step\<^sup>*\<^sup>* demo_nstate s'" by (blast intro: netif_step.reconcile)
  have "n_wifi demo_nstate = new_wifi demo_host [] []" by (simp add: demo_nstate_def)
  from wifi_modes_exclusive [OF step this] step ap show ?thesis by auto
qed

text \<open>
  C19. A reconcile of a wifi interface enforces its mode, whatever fails on the way: in access point mode no
  wpa_supplicant and no dhcpcd is left running, in station mode no hostapd, and in any other mode
  none of them.
\<close>

theorem wifi_mode_enforced:
  assumes "one_mode (n_wifi s)" "nl_Type (ns_Link (nif_Status (body iface))) = NetworkInterfaceTypeWifi"
    and "netif_reconcile p (Inr iface) s = Ret (s', r)"
  shows "if wf_Mode (nif_Wifi (body iface)) = WifiModeAccessPoint
         then rn_live (w_station (n_wifi s')) = [] \<and> rn_live (w_dhcpcd (n_wifi s')) = []
         else if wf_Mode (nif_Wifi (body iface)) = WifiModeStation then rn_live (w_ap (n_wifi s')) = []
         else rn_live (w_ap (n_wifi s')) = [] \<and> rn_live (w_station (n_wifi s')) = [] \<and> rn_live (w_dhcpcd (n_wifi s')) = []"
proof -
  have 1: "mode_condition (body iface) (n_wifi s2)"
    if "one_mode (n_wifi s1) \<and> n_iface s1 = iface" and r: "(if nl_Type (ns_Link (nif_Status (body iface))) = NetworkInterfaceTypeWifi
      then reconcileWifiNetworkInterface p else gm_return ()) s1 = Ret (s2, r)" for s1 s2 r
    using gm_validD [OF reconcile_wifi_mode [of "body iface" p], of s1 s2 r] that assms(2) by simp
  have "mode_condition (body iface) (n_wifi s')"
    by (rule netif_reconcile_after [where P = "\<lambda>s. one_mode (n_wifi s) \<and> n_iface s = iface"
        and J = "mode_condition (body iface)" and iface = iface and p = p and s = s and s' = s' and r = r])
       (use assms 1 in \<open>blast, simp_all\<close>)
  then show ?thesis by (simp add: mode_condition_def no_station_def no_ap_def split: if_splits)
qed

theorem wifi_mode_enforced_witness:
  "\<exists>s' r. netif_reconcile demo_params (Inr (demo_iface WifiModeAccessPoint)) demo_nstate = Ret (s', r) \<and>
     rn_live (w_station (n_wifi s')) = [] \<and> rn_live (w_dhcpcd (n_wifi s')) = []"
proof -
  obtain s' r where r: "netif_reconcile demo_params (Inr (demo_iface WifiModeAccessPoint)) demo_nstate = Ret (s', r)"
    using demo_ap_runs by blast
  have 1: "one_mode (n_wifi demo_nstate)"
    by (simp add: demo_nstate_def one_mode_def no_ap_def wifi_inv_def new_wifi_def runner_inv_def new_runner_def)
  have 2: "nl_Type (ns_Link (nif_Status (body (demo_iface WifiModeAccessPoint)))) = NetworkInterfaceTypeWifi"
    "wf_Mode (nif_Wifi (body (demo_iface WifiModeAccessPoint))) = WifiModeAccessPoint"
    by (simp_all add: demo_iface_def new_resource_def)
  from wifi_mode_enforced [OF 1 2(1) r] 2(2) r show ?thesis by auto
qed

end
