(* ===== verification/DeviceReconciler.thy ===== *)
theory DeviceReconciler
  imports Dns NetIfaceReconciler
begin

text \<open>
  The reconciler of the device (\<open>pkg/reconciler/device/device_reconciler.go\<close>): it runs k3s as server or
  agent, the DNS server, the controllers that belong to the role and the ingress controller, records
  address and message in the device's status and advertises the device in the local network.

  The stores of devices and tokens are the interface \<open>store_ops\<close>; mDNS, the URL parser and the server
  token file are parameters.
\<close>

section \<open>Controller managers\<close>

text \<open>
  \<open>ControllerManager\<close> (\<open>pkg/controller/controllermanager.go\<close>): started or not, and how often its reconcilers were
  closed. Start may fail while a reconciler registers its types; the manager itself runs in a
  goroutine that tries again until it is stopped.
\<close>

record controller_manager =
  cm_running :: bool
  cm_closed :: nat

definition NewControllerManager :: controller_manager where
  "NewControllerManager = \<lparr>cm_running = False, cm_closed = 0\<rparr>"

definition cm_start :: "go_error option \<Rightarrow> controller_manager \<Rightarrow> controller_manager \<times> go_error option" where
  "cm_start addToScheme m =
     (if cm_running m then (m, None)
      else (case addToScheme of Some err \<Rightarrow> (m, Some err) | None \<Rightarrow> (m\<lparr>cm_running := True\<rparr>, None)))"

definition cm_stop :: "controller_manager \<Rightarrow> controller_manager" where
  "cm_stop m = (if cm_running m then m\<lparr>cm_running := False, cm_closed := cm_closed m + 1\<rparr> else m)"

section \<open>State\<close>

record ('d, 't) dvstate =
  dv_devices :: 'd
  dv_tokens :: 't
  dv_ifaces :: "netif resource list"
  dv_dns :: dns
  dv_k3s :: runner
  dv_controllers :: controller_manager
  dv_nodeController :: controller_manager
  dv_ingress :: bool
  dv_proxy :: bool
  dv_adverts :: "(device_discovery resource \<times> string) list"
  dv_k3s_seen :: nat
  dv_dns_seen :: nat
  dv_device :: "device resource"

record ('d, 't) dvparams =
  dp_DeviceName :: string
  dp_DeviceAddress :: string
  dp_DataDir :: string
  dp_ExternalPort :: int
  dp_Docker :: bool
  dp_KubeletArgs :: "string list"
  dp_devices :: "('d, device) store_ops"
  dp_tokens :: "('t, device_token) store_ops"
  dp_env :: env
  dp_host :: proc_host
  dp_hostname :: "string \<Rightarrow> go_error + string"
  dp_advertise :: "go_error option"
  dp_addToScheme :: "go_error option"
  dp_tokenFile :: "go_error + string"

section \<open>Arguments of k3s\<close>

text \<open>
  \<open>net.ParseIP\<close> of an IPv4 address, printed again: the text itself, or \<open><nil>\<close> for anything that is not
  four numbers below 256 without leading zeros.
\<close>

definition dec_octet :: "string \<Rightarrow> bool" where
  "dec_octet f \<longleftrightarrow> f \<noteq> [] \<and> length f \<le> 3 \<and> list_all ascii_digit f \<and> (length f > 1 \<longrightarrow> hd f \<noteq> CHR ''0'') \<and>
     foldl (\<lambda>n c. n * 10 + (of_char c - 48)) (0 :: nat) f \<le> 255"

definition ip_string :: "string \<Rightarrow> string" where
  "ip_string s = (let fs = split_on CHR ''.'' s in
     if length fs = 4 \<and> list_all dec_octet fs then s else ''<nil>'')"

fun lowest_up :: "netif resource list \<Rightarrow> int \<Rightarrow> string \<Rightarrow> string" where
  "lowest_up [] idx ip = ip"
| "lowest_up (r # rs) idx ip =
     (let l = ns_Link (nif_Status (body r)) in
      if nl_Up l \<and> nl_IP4 l \<noteq> [] \<and> nl_Index l < idx then lowest_up rs (nl_Index l) (nl_IP4 l)
      else lowest_up rs idx ip)"

definition ipAddress :: "netif resource list \<Rightarrow> go_error + string" where
  "ipAddress ifaces =
     (let ip = lowest_up ifaces 9999999 [] in
      if ip = [] then Inl (Errorf ''all network links appear to be down'') else Inr (ip_string ip))"

definition joinAddress :: "(string \<Rightarrow> go_error + string) \<Rightarrow> device \<Rightarrow> go_error + string" where
  "joinAddress hostname d =
     (case hostname (ds_ServerAddress (dev_Spec d)) of
        Inl err \<Rightarrow> Inl (Wrap (''invalid server address '' @ go_quote (ds_ServerAddress (dev_Spec d)) @ '' specified: '') err)
      | Inr hn \<Rightarrow> Inr (''https://'' @ hn @ '':6443''))"

definition node_args :: "('d, 't) dvparams \<Rightarrow> string list" where
  "node_args p = (if dp_Docker p then [''--docker''] else []) @ map (\<lambda>a. ''--kubelet-arg='' @ a) (dp_KubeletArgs p)"

definition buildK3sServerArgs :: "('d, 't) dvparams \<Rightarrow> 't \<Rightarrow> string \<Rightarrow> string \<Rightarrow> string list" where
  "buildK3sServerArgs p tokens deviceName nodeIP =
     [''server'', ''--node-external-ip='' @ nodeIP, ''--disable-cloud-controller'', ''--disable-helm-controller'',
      ''--disable=servicelb,traefik'', ''--kube-apiserver-arg=--token-auth-file=/etc/kubemate/tokens'',
      ''--data-dir='' @ dp_DataDir p] @
     (case op_get (dp_tokens p) tokens deviceName of Inl _ \<Rightarrow> [] | Inr t \<Rightarrow> [''--token='' @ dt_Token (body t)]) @
     node_args p"

definition buildK3sAgentArgs :: "('d, 't) dvparams \<Rightarrow> 't \<Rightarrow> string \<Rightarrow> string \<Rightarrow> string \<Rightarrow> string list" where
  "buildK3sAgentArgs p tokens joinAddr tokenName nodeIP =
     (case op_get (dp_tokens p) tokens tokenName of
        Inl _ \<Rightarrow> []
      | Inr t \<Rightarrow>
          [''agent'', ''--node-external-ip='' @ nodeIP, ''--data-dir='' @ dp_DataDir p,
           ''--server='' @ joinAddr, ''--token='' @ dt_Token (body t)] @ node_args p)"

text \<open>The arguments for the role of the device, or why there are none.\<close>

definition k3s_args :: "('d, 't) dvparams \<Rightarrow> 't \<Rightarrow> device resource \<Rightarrow> string \<Rightarrow> go_error + string list" where
  "k3s_args p tokens d nodeIP =
     (let sp = dev_Spec (body d) in
      if ds_Mode sp = DeviceModeServer then Inr (buildK3sServerArgs p tokens (rname d) nodeIP)
      else if ds_ServerAddress sp = [] then Inl (Errorf ''no server specified to join'')
      else if ds_ServerAddress sp = dst_Address (dev_Status (body d)) then Inl (Errorf ''cannot join itself'')
      else if ds_JoinTokenName sp = [] then Inl (Errorf ''cannot join server since no join token name specified'')
      else
        (case joinAddress (dp_hostname p) (body d) of
           Inl err \<Rightarrow> Inl (Wrap ''join cluster: '' err)
         | Inr addr \<Rightarrow> Inr (buildK3sAgentArgs p tokens addr (ds_JoinTokenName sp) nodeIP)))"

section \<open>Steps\<close>

type_synonym ('d, 't, 'a) dvgm = "(('d, 't) dvstate, 'a) gm"

definition on_dns :: "(dns, 'a) gm \<Rightarrow> ('d, 't, 'a) dvgm" where
  "on_dns m = gm_zoom dv_dns (\<lambda>x s. s\<lparr>dv_dns := x\<rparr>) m"

definition start_k3s :: "proc_host \<Rightarrow> command_spec \<Rightarrow> ('d, 't, bool) dvgm" where
  "start_k3s h cmd s =
     (case runner_start ''SIGQUIT'' (ph_now h) (ph_now h) (ph_start h (cs_Command cmd)) cmd (dv_k3s s) of
        (m, Panic e) \<Rightarrow> Panic e
      | (m, Ret res) \<Rightarrow> Ret (s\<lparr>dv_k3s := m\<rparr>, res))"

definition k3s_cmd :: "string list \<Rightarrow> command_spec" where
  "k3s_cmd args = \<lparr>cs_Command = ''/proc/self/exe'', cs_Args = args\<rparr>"

definition start_controllers :: "('d, 't) dvparams \<Rightarrow> ('d, 't, unit) dvgm" where
  "start_controllers p = gm_modify (\<lambda>s. s\<lparr>dv_controllers := fst (cm_start (dp_addToScheme p) (dv_controllers s))\<rparr>)"

definition start_nodeController :: "('d, 't) dvparams \<Rightarrow> ('d, 't, unit) dvgm" where
  "start_nodeController p = gm_modify (\<lambda>s. s\<lparr>dv_nodeController := fst (cm_start (dp_addToScheme p) (dv_nodeController s))\<rparr>)"

definition stop_controllers :: "('d, 't, unit) dvgm" where
  "stop_controllers = gm_modify (\<lambda>s. s\<lparr>dv_controllers := cm_stop (dv_controllers s)\<rparr>)"

definition stop_nodeController :: "('d, 't, unit) dvgm" where
  "stop_nodeController = gm_modify (\<lambda>s. s\<lparr>dv_nodeController := cm_stop (dv_nodeController s)\<rparr>)"

definition set_ingress :: "bool \<Rightarrow> ('d, 't, unit) dvgm" where
  "set_ingress b = gm_modify (\<lambda>s. s\<lparr>dv_ingress := b\<rparr>)"

definition trim_newline :: "string \<Rightarrow> string" where
  "trim_newline s = (if s \<noteq> [] \<and> last s = newline then butlast s else s)"

definition reconcileServerToken :: "('d, 't) dvparams \<Rightarrow> ('d, 't, unit) dvgm" where
  "reconcileServerToken p s =
     (case op_get (dp_tokens p) (dv_tokens s) (dp_DeviceName p) of
        Inl err \<Rightarrow> Ret (s, Inl err)
      | Inr t \<Rightarrow>
          if dt_JoinToken (body t) \<noteq> [] then Ret (s, Inr ())
          else
            (case op_update (dp_tokens p) (dp_env p) (dv_tokens s) (dp_DeviceName p)
               (\<lambda>t. case dp_tokenFile p of
                  Inl err \<Rightarrow> Inl err
                | Inr b \<Rightarrow> Inr (t\<lparr>body := (body t)\<lparr>dt_JoinToken := trim_newline b\<rparr>\<rparr>)) of
               (ts, Inl err) \<Rightarrow> Ret (s\<lparr>dv_tokens := ts\<rparr>, Inl err)
             | (ts, Inr _) \<Rightarrow> Ret (s\<lparr>dv_tokens := ts\<rparr>, Inr ())))"

definition device_address :: "('d, 't) dvparams \<Rightarrow> string" where
  "device_address p =
     (let addr = ''https://'' @ dp_DeviceName p in
      if dp_ExternalPort p \<noteq> 443 then addr @ '':'' @ show_int (dp_ExternalPort p) else addr)"

definition update_device_status :: "('d, 't) dvparams \<Rightarrow> string \<Rightarrow> ('d, 't, unit) dvgm" where
  "update_device_status p msg s =
     (let st = dev_Status (body (dv_device s)) in
      if dst_Message st \<noteq> msg \<or> dst_Address st \<noteq> device_address p then
        (case op_update (dp_devices p) (dp_env p) (dv_devices s) (rname (dv_device s))
           (\<lambda>d. Inr (d\<lparr>body := (body d)\<lparr>dev_Status := (dev_Status (body d))
              \<lparr>dst_Message := msg, dst_Address := device_address p, dst_Current := True\<rparr>\<rparr>\<rparr>)) of
           (ds, Inl err) \<Rightarrow> Ret (s\<lparr>dv_devices := ds\<rparr>, Inl err)
         | (ds, Inr d) \<Rightarrow> Ret (s\<lparr>dv_devices := ds, dv_device := d\<rparr>, Inr ()))
      else Ret (s, Inr ()))"

definition advertise_device :: "('d, 't) dvparams \<Rightarrow> string \<Rightarrow> ('d, 't, unit) dvgm" where
  "advertise_device p nodeIP s =
     (let d = dv_device s in
      if om_Generation (md d) = dst_Generation (dev_Status (body d)) then
        (let s' = s\<lparr>dv_adverts := dv_adverts s @
              [(new_resource (rname d) \<lparr>dd_Mode = ds_Mode (dev_Spec (body d)), dd_Server = ds_ServerAddress (dev_Spec (body d)),
                  dd_Address = dst_Address (dev_Status (body d)), dd_Current = True\<rparr>, nodeIP)]\<rparr> in
         case dp_advertise p of Some err \<Rightarrow> Ret (s', Inl err) | None \<Rightarrow> Ret (s', Inr ()))
      else Ret (s, Inr ()))"

section \<open>The reconciler\<close>

definition terminating :: "device resource \<Rightarrow> bool" where
  "terminating d \<longleftrightarrow> dst_State (dev_Status (body d)) = DeviceStateTerminating"

definition is_server :: "device resource \<Rightarrow> bool" where
  "is_server d \<longleftrightarrow> ds_Mode (dev_Spec (body d)) = DeviceModeServer"

text \<open>The controllers of the role.\<close>

definition run_controllers :: "('d, 't) dvparams \<Rightarrow> ('d, 't, unit) dvgm" where
  "run_controllers p =
     gm_bind gm_get (\<lambda>s.
       if is_server (dv_device s) \<and> \<not> terminating (dv_device s) then
         gm_then stop_nodeController (gm_then (start_controllers p) (set_ingress True))
       else
         gm_then stop_controllers (gm_then (set_ingress False)
           (if terminating (dv_device s) then stop_nodeController else start_nodeController p)))"

text \<open>
  k3s and the controllers. What \<open>Start\<close> of k3s returns is ignored; a failure to record the server's join
  token ends the reconcile.
\<close>

definition run_role :: "('d, 't) dvparams \<Rightarrow> string list \<Rightarrow> ('d, 't, reconcile_result) dvgm" where
  "run_role p args =
     (if args = [] then gm_return no_requeue
      else
        gm_bind gm_get (\<lambda>s.
        gm_bind
          (if terminating (dv_device s) then
             gm_try (gm_modify (\<lambda>s. s\<lparr>dv_k3s := runner_stop (dv_k3s s)\<rparr>))
           else
             gm_then (gm_ignore (start_k3s (dp_host p) (k3s_cmd args)))
             (gm_try (gm_when (is_server (dv_device s)) (reconcileServerToken p)))) (\<lambda>r.
        case r of
          Inl err \<Rightarrow> gm_return \<lparr>rq_after = 1000, rq_error = None\<rparr>
        | Inr _ \<Rightarrow> gm_then (run_controllers p) (gm_return no_requeue))))"

definition reconcile_role :: "('d, 't) dvparams \<Rightarrow> device resource \<Rightarrow> string \<Rightarrow> ('d, 't, reconcile_result) dvgm" where
  "reconcile_role p d nodeIP =
     gm_then (gm_modify (\<lambda>s. s\<lparr>dv_proxy := is_server d\<rparr>))
     (gm_bind gm_get (\<lambda>s.
       let fn = k3s_args p (dv_tokens s) d nodeIP;
           args = (case fn of Inl _ \<Rightarrow> [] | Inr a \<Rightarrow> a);
           statusMessage = (case fn of Inl err \<Rightarrow> error_text err | Inr _ \<Rightarrow> [])
       in gm_bind (gm_try (gm_then (update_device_status p statusMessage) (advertise_device p nodeIP))) (\<lambda>r.
          gm_bind (case r of Inl err \<Rightarrow> gm_return (requeue err) | Inr _ \<Rightarrow> run_role p args) (\<lambda>res.
          gm_return (if isl fn then res\<lparr>rq_after := 10000\<rparr> else res)))))"

definition device_reconcile :: "('d, 't) dvparams \<Rightarrow> go_error + device resource \<Rightarrow> ('d, 't, reconcile_result) dvgm" where
  "device_reconcile p got =
     (case got of
        Inl err \<Rightarrow> gm_return (if is_not_found err then no_requeue else requeue err)
      | Inr d \<Rightarrow>
          if ds_Mode (dev_Spec (body d)) \<noteq> DeviceModeServer \<and> ds_Mode (dev_Spec (body d)) \<noteq> DeviceModeAgent then
            gm_return no_requeue
          else
            gm_then (gm_modify (\<lambda>s. s\<lparr>dv_device := d\<rparr>))
            (gm_bind gm_get (\<lambda>s.
              case ipAddress (dv_ifaces s) of
                Inl _ \<Rightarrow> gm_return no_requeue
              | Inr nodeIP \<Rightarrow>
                  gm_bind (gm_try (on_dns (dns_reconcile (dp_host p) (dp_DeviceName p) (body d) (dv_ifaces s)))) (\<lambda>r.
                    case r of
                      Inl err \<Rightarrow> gm_return (requeue err)
                    | Inr _ \<Rightarrow> reconcile_role p d nodeIP))))"

section \<open>Status reports\<close>

fun state_text :: "process_state \<Rightarrow> string" where
  "state_text ProcessRunning = ''running''"
| "state_text ProcessFailed = ''failed''"
| "state_text ProcessExited = ''exited''"

definition k3s_report :: "('d, 't) dvparams \<Rightarrow> command_status \<Rightarrow> device resource \<Rightarrow> device resource" where
  "k3s_report p c d =
     (let st = dev_Status (body d) in
      d\<lparr>body := (body d)\<lparr>dev_Status := st
          \<lparr>dst_Generation := om_Generation (md d),
           dst_State := (if dst_State st \<noteq> DeviceStateTerminating then state_text (st_State c) else dst_State st),
           dst_Message := st_Message c, dst_Address := ''https://'' @ dp_DeviceAddress p, dst_Current := True\<rparr>\<rparr>\<rparr>)"

definition deliver_k3s :: "('d, 't) dvparams \<Rightarrow> ('d, 't) dvstate \<Rightarrow> ('d, 't) dvstate" where
  "deliver_k3s p s =
     (case drop (dv_k3s_seen s) (rn_reports (dv_k3s s)) of
        [] \<Rightarrow> s
      | (_, c) # _ \<Rightarrow>
          s\<lparr>dv_k3s_seen := dv_k3s_seen s + 1,
            dv_devices := fst (op_update (dp_devices p) (dp_env p) (dv_devices s) (dp_DeviceName p)
              (\<lambda>d. Inr (k3s_report p c d)))\<rparr>)"

definition deliver_dns :: "('d, 't) dvparams \<Rightarrow> ('d, 't) dvstate \<Rightarrow> ('d, 't) dvstate" where
  "deliver_dns p s =
     (case drop (dv_dns_seen s) (rn_reports (dn_proc (dv_dns s))) of
        [] \<Rightarrow> s
      | (_, c) # _ \<Rightarrow>
          s\<lparr>dv_dns_seen := dv_dns_seen s + 1,
            dv_devices := fst (op_update (dp_devices p) (dp_env p) (dv_devices s) (dp_DeviceName p)
              (\<lambda>d. Inr (d\<lparr>body := dns_report c (body d)\<rparr>)))\<rparr>)"

section \<open>Roles\<close>

text \<open>What each step changes of the processes and controllers.\<close>

definition roles_inv :: "('d, 't) dvstate \<Rightarrow> bool" where
  "roles_inv s \<longleftrightarrow> runner_inv (dv_k3s s) \<and> runner_inv (dn_proc (dv_dns s)) \<and>
     (cm_running (dv_controllers s) \<longrightarrow> dv_ingress s) \<and> (dv_ingress s \<longrightarrow> \<not> cm_running (dv_nodeController s))"

lemma run_controllers_eq:
  "run_controllers p s =
     Ret (if is_server (dv_device s) \<and> \<not> terminating (dv_device s) then
            s\<lparr>dv_nodeController := cm_stop (dv_nodeController s),
              dv_controllers := fst (cm_start (dp_addToScheme p) (dv_controllers s)), dv_ingress := True\<rparr>
          else
            s\<lparr>dv_controllers := cm_stop (dv_controllers s), dv_ingress := False,
              dv_nodeController := (if terminating (dv_device s) then cm_stop (dv_nodeController s)
                else fst (cm_start (dp_addToScheme p) (dv_nodeController s)))\<rparr>, Inr ())"
  by (simp add: run_controllers_def gm_defs start_controllers_def start_nodeController_def stop_controllers_def
      stop_nodeController_def set_ingress_def)

lemma cm_simps [simp]: "\<not> cm_running (cm_stop m)" "cm_running (fst (cm_start None m))"
  by (simp_all add: cm_stop_def cm_start_def)

lemma run_controllers_inv [gm_rules]: "gm_inv roles_inv (run_controllers p)"
  by (auto simp: gm_valid_def run_controllers_eq roles_inv_def)

lemma start_k3s_inv [gm_rules]: "gm_inv roles_inv (start_k3s h cmd)"
  using runner_exec_inv [of _ "''SIGQUIT''" "EvStart (ph_now h) (ph_now h) (ph_start h (cs_Command cmd)) cmd"]
  by (auto simp: gm_valid_def start_k3s_def roles_inv_def split: prod.splits go.splits)

lemma roles_inv_steps [gm_rules]:
  "gm_inv roles_inv (gm_modify (\<lambda>s. s\<lparr>dv_k3s := runner_stop (dv_k3s s)\<rparr>))"
  "gm_inv roles_inv (gm_modify (\<lambda>s. s\<lparr>dv_device := d\<rparr>))"
  "gm_inv roles_inv (gm_modify (\<lambda>s. s\<lparr>dv_proxy := b\<rparr>))"
  "gm_inv roles_inv (reconcileServerToken p)"
  "gm_inv roles_inv (update_device_status p msg)"
  "gm_inv roles_inv (advertise_device p ip)"
  by (auto simp: gm_valid_def gm_modify_def roles_inv_def runner_inv_stop reconcileServerToken_def
      update_device_status_def advertise_device_def Let_def split: sum.splits prod.splits if_splits option.splits)

lemma on_dns_inv [gm_rules]: "gm_inv (\<lambda>x. runner_inv (dn_proc x)) m \<Longrightarrow> gm_inv roles_inv (on_dns m)"
  unfolding on_dns_def gm_zoom_def gm_valid_def roles_inv_def by (auto split: go.splits prod.splits)

lemma run_role_inv [gm_rules]: "gm_inv roles_inv (run_role p args)"
  unfolding run_role_def by (intro gm_rules)

lemma reconcile_role_inv [gm_rules]: "gm_inv roles_inv (reconcile_role p d ip)"
  unfolding reconcile_role_def Let_def by (intro gm_rules)

lemma device_reconcile_inv: "gm_inv roles_inv (device_reconcile p got)"
  unfolding device_reconcile_def by (intro gm_rules dns_reconcile_inv)

text \<open>
  The life of the reconciler: reconciles, each with the parameters of its time, exits and reports of its
  two processes, and the delivery of the reports to the device's status, in any order.
\<close>

inductive dv_step :: "('d, 't) dvstate \<Rightarrow> ('d, 't) dvstate \<Rightarrow> bool" where
  reconcile: "device_reconcile p got s = Ret (s', r) \<Longrightarrow> dv_step s s'"
| interfaces: "dv_step s (s\<lparr>dv_ifaces := l\<rparr>)"
| stores: "dv_step s (s\<lparr>dv_devices := ds, dv_tokens := ts\<rparr>)"
| k3s: "exit_event e \<Longrightarrow> runner_exec ''SIGQUIT'' (dv_k3s s) e = Ret m \<Longrightarrow> dv_step s (s\<lparr>dv_k3s := m\<rparr>)"
| dnsmasq: "exit_event e \<Longrightarrow> runner_exec ''SIGTERM'' (dn_proc (dv_dns s)) e = Ret m \<Longrightarrow>
    dv_step s (s\<lparr>dv_dns := (dv_dns s)\<lparr>dn_proc := m\<rparr>\<rparr>)"
| k3s_status: "dv_step s (deliver_k3s p s)"
| dns_status: "dv_step s (deliver_dns p s)"

lemma deliver_roles [simp]: "roles_inv (deliver_k3s p s) = roles_inv s" "roles_inv (deliver_dns p s) = roles_inv s"
  by (auto simp: deliver_k3s_def deliver_dns_def roles_inv_def split: list.splits)

lemma roles_inv_step: "dv_step s s' \<Longrightarrow> roles_inv s \<Longrightarrow> roles_inv s'"
proof (induction rule: dv_step.induct)
  case (reconcile p got s s' r)
  then show ?case using gm_validD [OF device_reconcile_inv] by blast
next
  case (k3s e s m)
  then show ?case using runner_exec_inv [of "dv_k3s s"] by (simp add: roles_inv_def)
next
  case (dnsmasq e s m)
  then show ?case using runner_exec_inv [of "dn_proc (dv_dns s)"] by (simp add: roles_inv_def)
next
  case (interfaces s l)
  then show ?case by (simp add: roles_inv_def)
next
  case (stores s ds ts)
  then show ?case by (simp add: roles_inv_def)
qed simp_all

text \<open>
  The parts of the two roles never run together: from the start of the program, after any sequence of
  reconciles, process exits, status reports and changes of the stores, the controllers of a server run
  only while the ingress controller runs, the ingress controller never runs together with the node
  controller of an agent, and there is at most one k3s and one dnsmasq.
\<close>

theorem device_roles_exclusive:
  assumes "dv_step\<^sup>*\<^sup>* s s'" "dv_k3s s = new_runner" "dn_proc (dv_dns s) = new_runner"
    and "dv_controllers s = NewControllerManager" "dv_nodeController s = NewControllerManager" "\<not> dv_ingress s"
  shows "(cm_running (dv_controllers s') \<longrightarrow> dv_ingress s') \<and> \<not> (dv_ingress s' \<and> cm_running (dv_nodeController s')) \<and>
    length (rn_live (dv_k3s s')) \<le> 1 \<and> length (rn_live (dn_proc (dv_dns s'))) \<le> 1"
proof -
  have "roles_inv s" using assms(2-) by (simp add: roles_inv_def runner_inv_def new_runner_def NewControllerManager_def)
  with assms(1) have inv: "roles_inv s'" by induction (auto dest: roles_inv_step)
  moreover have "length (rn_live m) \<le> 1" if "runner_inv m" for m
    using that by (auto simp: runner_inv_def)
  ultimately show ?thesis by (simp add: roles_inv_def)
qed

text \<open>A start that does not fail leaves the one process that was asked for, unless the cooldown refuses it.\<close>

lemma runner_start_outcome:
  assumes "runner_inv m" "runner_start sig now now' os cmd m = (m', Ret res)"
  shows "(\<exists>pid c. rn_proc m' = Some (pid, c) \<and> rn_live m' = [pid] \<and> command_string c = command_string cmd) \<or>
    rn_live m' = [] \<and> (\<exists>t. rn_terminated m = Some t \<and> now < t + cooldown)"
proof (cases res)
  case (Inl err)
  with assms(2) have "\<exists>t. rn_terminated m = Some t \<and> now < t + cooldown"
    by (auto simp: runner_start_def Let_def split: if_splits option.splits start_result.splits)
  with Inl runner_start_refused [OF assms(1)] assms(2) show ?thesis by blast
next
  case (Inr b)
  with runner_start_holds [OF assms(1)] assms(2) show ?thesis by blast
qed

text \<open>
  C18. A reconcile that completes enforces the role: for a supported device with an address and arguments for
  k3s, if the reconcile returns neither an error nor a retry, then for the device as it was last read a
  terminating one has no k3s, no controllers and no ingress controller. Otherwise k3s runs, as one process
  with the command for the role, unless its last start or exit was less than the cooldown ago, when the
  runner refuses it and no k3s runs; and a server runs the controllers and the ingress controller and no
  node controller, an agent the node controller alone. The controllers can run only where their types
  register with the scheme, which is what \<open>dp_addToScheme\<close> answers.
\<close>

theorem device_role_enforced:
  assumes "runner_inv (dv_k3s s)" "device_reconcile p (Inr d) s = Ret (s', Inr no_requeue)"
    and "ds_Mode (dev_Spec (body d)) \<in> {DeviceModeServer, DeviceModeAgent}"
    and "ipAddress (dv_ifaces s) = Inr nodeIP" "k3s_args p (dv_tokens s) d nodeIP = Inr args" "args \<noteq> []"
  shows "if terminating (dv_device s') then
           rn_live (dv_k3s s') = [] \<and> \<not> cm_running (dv_controllers s') \<and> \<not> dv_ingress s' \<and> \<not> cm_running (dv_nodeController s')
         else
           ((\<exists>pid c. rn_proc (dv_k3s s') = Some (pid, c) \<and> rn_live (dv_k3s s') = [pid] \<and>
               command_string c = command_string (k3s_cmd args)) \<or>
            rn_live (dv_k3s s') = [] \<and> (\<exists>t. rn_terminated (dv_k3s s) = Some t \<and> ph_now (dp_host p) < t + cooldown)) \<and>
           (if is_server (dv_device s') then
              (dp_addToScheme p = None \<longrightarrow> cm_running (dv_controllers s')) \<and> dv_ingress s' \<and> \<not> cm_running (dv_nodeController s')
            else
              \<not> cm_running (dv_controllers s') \<and> \<not> dv_ingress s' \<and> (dp_addToScheme p = None \<longrightarrow> cm_running (dv_nodeController s')))"
proof -
  obtain s1 where s1: "run_role p args s1 = Ret (s', Inr no_requeue)" "dv_k3s s1 = dv_k3s s"
    using assms(2-5)
    by (auto simp: device_reconcile_def reconcile_role_def gm_defs on_dns_def gm_zoom_def Let_def
        update_device_status_def advertise_device_def split: go.splits sum.splits prod.splits if_splits option.splits)
  show ?thesis
  proof (cases "terminating (dv_device s1)")
    case True
    with s1 assms(1,6) runner_inv_stop [of "dv_k3s s"] show ?thesis
      by (auto simp: run_role_def gm_defs run_controllers_eq)
  next
    case False
    obtain m res where k: "runner_start ''SIGQUIT'' (ph_now (dp_host p)) (ph_now (dp_host p))
        (ph_start (dp_host p) ''/proc/self/exe'') (k3s_cmd args) (dv_k3s s) = (m, Ret res)"
      and s': "dv_k3s s' = m" "dv_device s' = dv_device s1"
      "if is_server (dv_device s') then
          (dp_addToScheme p = None \<longrightarrow> cm_running (dv_controllers s')) \<and> dv_ingress s' \<and> \<not> cm_running (dv_nodeController s')
        else \<not> cm_running (dv_controllers s') \<and> \<not> dv_ingress s' \<and> (dp_addToScheme p = None \<longrightarrow> cm_running (dv_nodeController s'))"
      using s1 False assms(6)
      by (auto simp: run_role_def gm_defs run_controllers_eq start_k3s_def k3s_cmd_def reconcileServerToken_def no_requeue_def
          split: go.splits sum.splits prod.splits if_splits)
    from runner_start_outcome [OF assms(1) k] False s' show ?thesis by simp
  qed
qed

text \<open>A server with an address and a join token.\<close>

definition demo_params_dv :: "(device memstore, device_token memstore) dvparams" where
  "demo_params_dv =
     \<lparr>dp_DeviceName = ''kubemate'', dp_DeviceAddress = ''kubemate'', dp_DataDir = ''/data'', dp_ExternalPort = 443,
      dp_Docker = False, dp_KubeletArgs = [], dp_devices = mem_ops device_rt,
      dp_tokens = (mem_ops token_rt)\<lparr>op_get := \<lambda>_ k. Inr (new_resource k \<lparr>dt_Token = ''t'', dt_JoinToken = ''j''\<rparr>)\<rparr>,
      dp_env = demo_env, dp_host = demo_proc_host, dp_hostname = (\<lambda>s. Inr s), dp_advertise = None, dp_addToScheme = None,
      dp_tokenFile = Inr ''j''\<rparr>"

definition demo_device :: "device resource" where
  "demo_device = new_resource ''kubemate''
     \<lparr>dev_Spec = zero_device_spec\<lparr>ds_Mode := DeviceModeServer\<rparr>,
      dev_Status = zero_device_status\<lparr>dst_Address := ''https://kubemate''\<rparr>\<rparr>"

definition demo_up :: "netif resource" where
  "demo_up = new_resource ''eth0'' \<lparr>nif_Wifi = zero_wifi_spec, nif_Status = zero_netif_status\<lparr>ns_Link :=
     zero_link_status\<lparr>nl_Index := 2, nl_Up := True, nl_IP4 := ''10.0.0.2''\<rparr>\<rparr>\<rparr>"

definition demo_dvstate :: "(device memstore, device_token memstore) dvstate" where
  "demo_dvstate =
     \<lparr>dv_devices = InMemory, dv_tokens = InMemory, dv_ifaces = [demo_up], dv_dns = \<lparr>dn_proc = new_runner, dn_files = []\<rparr>,
      dv_k3s = new_runner, dv_controllers = NewControllerManager, dv_nodeController = NewControllerManager, dv_ingress = False,
      dv_proxy = False, dv_adverts = [], dv_k3s_seen = 0, dv_dns_seen = 0, dv_device = demo_device\<rparr>"

lemma demo_ip: "ipAddress [demo_up] = Inr ''10.0.0.2''"
proof -
  have "ip_string ''10.0.0.2'' = ''10.0.0.2''" by code_simp
  then show ?thesis by (simp add: ipAddress_def demo_up_def new_resource_def zero_netif_status_def zero_link_status_def Let_def)
qed

lemma demo_no_ap: "isAccessPoint [demo_up] = (False, ''eth0'', ''10.0.0.2'')"
  by (simp add: isAccessPoint_def is_ap_iface_def demo_up_def new_resource_def zero_netif_status_def zero_link_status_def
      zero_wifi_spec_def WifiModeAccessPoint_def empty_meta_def)

lemma demo_device_runs:
  "\<exists>s'. device_reconcile demo_params_dv (Inr demo_device) demo_dvstate = Ret (s', Inr no_requeue) \<and> rn_live (dv_k3s s') = [7] \<and>
     cm_running (dv_controllers s') \<and> dv_device s' = demo_device"
  by (simp add: device_reconcile_def demo_dvstate_def demo_ip gm_defs on_dns_def gm_zoom_def dns_reconcile_def demo_no_ap
      demo_device_def demo_params_dv_def new_resource_def dns_files_def demo_proc_host_def dns_start_def
      generateDnsmasqConfig_def WriteTempConfigFile_def conf_file_def file_write_def Let_def dnsmasq_cmd_of_def
      runner_start_def runner_stop_def new_runner_def StartProcess_def report_def reconcile_role_def k3s_args_def
      buildK3sServerArgs_def node_args_def update_device_status_def device_address_def advertise_device_def
      zero_device_status_def zero_device_spec_def empty_meta_def run_role_def run_controllers_eq is_server_def terminating_def
      DeviceStateTerminating_def start_k3s_def k3s_cmd_def reconcileServerToken_def NewControllerManager_def cm_start_def
      no_requeue_def)

theorem device_roles_exclusive_witness:
  "\<exists>s'. dv_step\<^sup>*\<^sup>* demo_dvstate s' \<and> cm_running (dv_controllers s') \<and> dv_ingress s' \<and> \<not> cm_running (dv_nodeController s')"
proof -
  obtain s' where "device_reconcile demo_params_dv (Inr demo_device) demo_dvstate = Ret (s', Inr no_requeue)"
    and c: "cm_running (dv_controllers s')" using demo_device_runs by blast
  then have step: "dv_step\<^sup>*\<^sup>* demo_dvstate s'" by (blast intro: dv_step.reconcile)
  from device_roles_exclusive [OF step] c step show ?thesis by (auto simp: demo_dvstate_def)
qed

theorem device_role_enforced_witness:
  "\<exists>s'. device_reconcile demo_params_dv (Inr demo_device) demo_dvstate = Ret (s', Inr no_requeue) \<and>
     (\<exists>pid. rn_live (dv_k3s s') = [pid]) \<and> cm_running (dv_controllers s') \<and> dv_ingress s' \<and> \<not> cm_running (dv_nodeController s')"
proof -
  obtain s' where r: "device_reconcile demo_params_dv (Inr demo_device) demo_dvstate = Ret (s', Inr no_requeue)"
    and d: "dv_device s' = demo_device" using demo_device_runs by blast
  have 1: "runner_inv (dv_k3s demo_dvstate)" by (simp add: demo_dvstate_def runner_inv_def new_runner_def)
  have 2: "ds_Mode (dev_Spec (body demo_device)) \<in> {DeviceModeServer, DeviceModeAgent}"
    "is_server demo_device" "\<not> terminating demo_device"
    by (simp_all add: demo_device_def new_resource_def is_server_def terminating_def zero_device_status_def DeviceStateTerminating_def)
  have 3: "ipAddress (dv_ifaces demo_dvstate) = Inr ''10.0.0.2''" by (simp add: demo_dvstate_def demo_ip)
  have 4: "\<exists>a as. k3s_args demo_params_dv (dv_tokens demo_dvstate) demo_device ''10.0.0.2'' = Inr (a # as)"
    using 2(2) by (simp add: k3s_args_def is_server_def Let_def buildK3sServerArgs_def)
  then obtain a as where 5: "k3s_args demo_params_dv (dv_tokens demo_dvstate) demo_device ''10.0.0.2'' = Inr (a # as)" by blast
  have 6: "rn_terminated (dv_k3s demo_dvstate) = None" "dp_addToScheme demo_params_dv = None"
    by (simp_all add: demo_dvstate_def new_runner_def demo_params_dv_def)
  from device_role_enforced [OF 1 r 2(1) 3 5] 2(2,3) d r 6 show ?thesis by auto
qed

text \<open>
  k3s is not restarted after a crash: when the k3s process has exited and its exit was reported, a
  reconcile less than a second later, such as the one the report itself causes, is refused by the
  runner; the refusal is dropped, no retry is requested, and k3s stays down.
\<close>

theorem k3s_restart_lost:
  assumes "rn_proc m = Some (pid, cmd)" "rn_live m = [pid]" "rn_waiting m = []"
    and "dv_k3s s = report_exit pid t err (proc_exit pid m)" "ph_now (dp_host p) < t + cooldown"
    and "args \<noteq> []" "\<not> terminating (dv_device s)" "\<not> is_server (dv_device s)"
  shows "\<exists>s'. run_role p args s = Ret (s', Inr no_requeue) \<and> rn_live (dv_k3s s') = []"
  using assms
  by (simp add: run_role_def gm_defs start_k3s_def runner_start_def runner_stop_def proc_stop_def report_exit_def proc_exit_def
      report_def run_controllers_eq Let_def k3s_cmd_def)

theorem k3s_restart_lost_witness:
  "\<exists>s'. run_role (demo_params_dv\<lparr>dp_host := demo_proc_host\<lparr>ph_now := 5500\<rparr>\<rparr>) [''agent'']
      (demo_dvstate\<lparr>dv_device := demo_device\<lparr>body := (body demo_device)\<lparr>dev_Spec := zero_device_spec\<lparr>ds_Mode := DeviceModeAgent\<rparr>\<rparr>\<rparr>,
         dv_k3s := report_exit 7 5000 (Some ''exit status 1'') (proc_exit 7
           (new_runner\<lparr>rn_proc := Some (7, k3s_cmd [''agent'']), rn_live := [7], rn_terminated := Some 1000\<rparr>))\<rparr>) =
      Ret (s', Inr no_requeue) \<and> rn_live (dv_k3s s') = []"
  by (rule k3s_restart_lost [where m = "new_runner\<lparr>rn_proc := Some (7, k3s_cmd [''agent'']), rn_live := [7], rn_terminated := Some 1000\<rparr>"
        and pid = 7 and cmd = "k3s_cmd [''agent'']" and t = 5000 and err = "Some ''exit status 1''"])
     (simp_all add: new_runner_def cooldown_def terminating_def is_server_def demo_device_def new_resource_def zero_device_status_def
        zero_device_spec_def DeviceStateTerminating_def DeviceModeAgent_def DeviceModeServer_def)

text \<open>
  A device that cannot join keeps its role: for an agent without a server to join, with its own address as the
  server, without the name of a token or with a token that is not there, a reconcile leaves k3s, the
  controllers, the node controller and the ingress controller as they are; so a server that is made such
  an agent goes on as a server. Only its k3s proxy is switched off, when the reconcile gets that far.
\<close>

theorem role_kept_without_join:
  assumes "device_reconcile p (Inr d) s = Ret (s', r)" "ds_Mode (dev_Spec (body d)) = DeviceModeAgent"
    and "ds_ServerAddress (dev_Spec (body d)) \<in> {[], dst_Address (dev_Status (body d))} \<or> ds_JoinTokenName (dev_Spec (body d)) = [] \<or>
      isl (op_get (dp_tokens p) (dv_tokens s) (ds_JoinTokenName (dev_Spec (body d))))"
  shows "dv_k3s s' = dv_k3s s \<and> dv_controllers s' = dv_controllers s \<and> dv_nodeController s' = dv_nodeController s \<and>
    dv_ingress s' = dv_ingress s \<and> dv_proxy s' \<in> {dv_proxy s, False}"
proof -
  have no: "k3s_args p (dv_tokens s) d ip = Inr [] \<or> isl (k3s_args p (dv_tokens s) d ip)" for ip
    using assms(2,3) by (auto simp: k3s_args_def buildK3sAgentArgs_def Let_def isl_def DeviceModeAgent_def DeviceModeServer_def split: sum.splits)
  let ?same = "\<lambda>t t'. dv_k3s t' = dv_k3s t \<and> dv_controllers t' = dv_controllers t \<and> dv_nodeController t' = dv_nodeController t \<and> dv_ingress t' = dv_ingress t"
  consider "?same s s'" "dv_proxy s' = dv_proxy s"
    | ip s1 where "reconcile_role p d ip s1 = Ret (s', r)" "?same s s1" "dv_tokens s1 = dv_tokens s"
    using assms(1) by (auto simp: device_reconcile_def gm_defs on_dns_def gm_zoom_def split: go.splits sum.splits prod.splits if_splits)
  then show ?thesis
  proof cases
    case 2
    have "\<not> is_server d" using assms(2) by (simp add: is_server_def DeviceModeAgent_def DeviceModeServer_def)
    with 2 no [of ip] have "?same s1 s'" "\<not> dv_proxy s'"
      by (auto simp: reconcile_role_def gm_defs Let_def run_role_def advertise_device_def update_device_status_def
          split: go.splits sum.splits prod.splits if_splits option.splits)
    with 2(2) show ?thesis by simp
  qed simp
qed

text \<open>A running server that is made an agent without a server to join.\<close>

definition demo_orphan :: "device resource" where
  "demo_orphan = demo_device\<lparr>body := (body demo_device)\<lparr>dev_Spec := zero_device_spec\<lparr>ds_Mode := DeviceModeAgent\<rparr>,
     dev_Status := zero_device_status\<lparr>dst_Address := ''https://kubemate'', dst_Message := ''no server specified to join''\<rparr>\<rparr>\<rparr>"

lemma demo_orphan_runs:
  "\<exists>s' r. device_reconcile demo_params_dv (Inr demo_orphan) (demo_dvstate\<lparr>dv_ingress := True\<rparr>) = Ret (s', r)"
  by (simp add: device_reconcile_def demo_dvstate_def demo_ip gm_defs on_dns_def gm_zoom_def dns_reconcile_def demo_no_ap
      demo_orphan_def demo_device_def demo_params_dv_def new_resource_def demo_proc_host_def Let_def runner_stop_def new_runner_def
      reconcile_role_def k3s_args_def DeviceModeAgent_def DeviceModeServer_def
      update_device_status_def device_address_def advertise_device_def zero_device_status_def zero_device_spec_def empty_meta_def
      run_role_def is_server_def no_requeue_def)

theorem role_kept_without_join_witness:
  "\<exists>s' r. device_reconcile demo_params_dv (Inr demo_orphan) (demo_dvstate\<lparr>dv_ingress := True\<rparr>) = Ret (s', r) \<and> dv_ingress s'"
proof -
  obtain s' r where r: "device_reconcile demo_params_dv (Inr demo_orphan) (demo_dvstate\<lparr>dv_ingress := True\<rparr>) = Ret (s', r)"
    using demo_orphan_runs by blast
  from role_kept_without_join [OF r] r show ?thesis by (simp add: demo_orphan_def demo_device_def new_resource_def zero_device_spec_def)
qed

end
