(* ===== verification/GoUrl.thy ===== *)
theory GoUrl
  imports Prelude
begin

text \<open>
  What the program uses of Go's \<open>path\<close> and \<open>net/url\<close> packages: \<open>path.Clean\<close> and \<open>url.ParseQuery\<close>, on byte
  strings.
\<close>

section \<open>Cleaning a path\<close>

text \<open>
  \<open>path.Clean\<close> takes the elements from left to right: an empty one and a dot go, and two dots remove the
  element before them, if there is one that is not itself two dots. The elements kept so far are held in
  reverse.
\<close>

fun clean_step :: "bool \<Rightarrow> string list \<Rightarrow> string \<Rightarrow> string list" where
  "clean_step rooted acc e =
     (if e = [] \<or> e = ''.'' then acc
      else if e = ''..'' then
        (case acc of
           [] \<Rightarrow> if rooted then [] else [''..'']
         | a # as \<Rightarrow> if a = ''..'' then ''..'' # acc else as)
      else e # acc)"

definition clean_elements :: "bool \<Rightarrow> string list \<Rightarrow> string list" where
  "clean_elements rooted es = rev (foldl (clean_step rooted) [] es)"

definition path_clean :: "string \<Rightarrow> string" where
  "path_clean p =
     (if p = [] then ''.''
      else
        (let rooted = (hd p = CHR ''/''); es = clean_elements rooted (split_on CHR ''/'' p) in
         if rooted then CHR ''/'' # join ''/'' es
         else if es = [] then ''.'' else join ''/'' es))"

lemma foldl_clean_rooted: "''..'' \<notin> set acc \<Longrightarrow> ''..'' \<notin> set (foldl (clean_step True) acc es)"
proof (induction es arbitrary: acc)
  case (Cons e es)
  have "''..'' \<notin> set (clean_step True acc e)" using Cons.prems by (auto split: list.splits)
  then show ?case using Cons.IH by simp
qed simp

definition path_element :: "string \<Rightarrow> bool" where
  "path_element e \<longleftrightarrow> e \<noteq> [] \<and> e \<noteq> ''.'' \<and> CHR ''/'' \<notin> set e"

lemma clean_step_elements:
  assumes "list_all path_element acc" "CHR ''/'' \<notin> set e"
  shows "list_all path_element (clean_step r acc e)"
proof -
  have "path_element ''..''" by (simp add: path_element_def)
  moreover have "path_element e" if "e \<noteq> []" "e \<noteq> ''.''" using that assms(2) by (simp add: path_element_def)
  ultimately show ?thesis using assms(1) by (cases acc) simp_all
qed

lemma foldl_clean_elements:
  "list_all path_element acc \<Longrightarrow> \<forall>e \<in> set es. CHR ''/'' \<notin> set e \<Longrightarrow> list_all path_element (foldl (clean_step r) acc es)"
proof (induction es arbitrary: acc)
  case (Cons e es)
  show ?case using Cons.IH [OF clean_step_elements [OF Cons.prems(1)]] Cons.prems(2) by simp
qed simp

text \<open>
  The result for a rooted path is the slash followed by elements none of which is empty, a dot or two
  dots: it names nothing outside the root.
\<close>

lemma path_clean_rooted:
  assumes "p \<noteq> []" "hd p = CHR ''/''"
  shows "\<exists>es. path_clean p = CHR ''/'' # join ''/'' es \<and> list_all path_element es \<and> ''..'' \<notin> set es"
proof -
  let ?es = "clean_elements True (split_on CHR ''/'' p)"
  have nosep: "\<forall>e \<in> set (split_on CHR ''/'' p). CHR ''/'' \<notin> set e" using split_on_no_sep by blast
  have "list_all path_element ?es"
    using foldl_clean_elements [OF _ nosep, of "[]" True] by (simp add: clean_elements_def)
  moreover have "''..'' \<notin> set ?es"
    using foldl_clean_rooted [of "[]" "split_on CHR ''/'' p"] by (simp add: clean_elements_def)
  moreover have "path_clean p = CHR ''/'' # join ''/'' ?es"
    using assms by (simp add: path_clean_def Let_def)
  ultimately show ?thesis by blast
qed

text \<open>Cleaning is idempotent, and does not see a slash at the end.\<close>

lemma clean_elements_id:
  "list_all path_element es \<Longrightarrow> ''..'' \<notin> set es \<Longrightarrow> clean_elements True es = es"
proof -
  have "foldl (clean_step True) acc es = rev es @ acc" if "list_all path_element es" "''..'' \<notin> set es" for acc
    using that by (induction es arbitrary: acc) (auto simp: path_element_def)
  then show "list_all path_element es \<Longrightarrow> ''..'' \<notin> set es \<Longrightarrow> clean_elements True es = es"
    by (simp add: clean_elements_def)
qed

lemma clean_elements_sep:
  "clean_elements r ([] # es) = clean_elements r es" "clean_elements r (es @ [[]]) = clean_elements r es"
  by (simp_all add: clean_elements_def)

lemma split_on_slash_end: "split_on d (s @ [d]) = split_on d s @ [[]]"
proof (induction s)
  case (Cons c s)
  then show ?case using split_on_nonempty [of d s] by (cases "split_on d s") auto
qed simp

lemma path_clean_slash_end: "p \<noteq> [] \<Longrightarrow> hd p = CHR ''/'' \<Longrightarrow> path_clean (p @ ''/'') = path_clean p"
  by (simp add: path_clean_def split_on_slash_end clean_elements_sep)

lemma path_clean_elements:
  assumes "list_all path_element es" "''..'' \<notin> set es"
  shows "path_clean (CHR ''/'' # join ''/'' es) = CHR ''/'' # join ''/'' es"
proof (cases "es = []")
  case False
  have "CHR ''/'' \<notin> set w" if "w \<in> set es" for w
    using assms(1) that by (auto simp: list_all_iff path_element_def)
  then have "split_on CHR ''/'' (join ''/'' es) = es" by (rule split_on_join [OF False])
  then show ?thesis by (simp add: path_clean_def clean_elements_sep clean_elements_id [OF assms])
qed (simp add: path_clean_def clean_elements_def)

lemma path_clean_idem: "p \<noteq> [] \<Longrightarrow> hd p = CHR ''/'' \<Longrightarrow> path_clean (path_clean p) = path_clean p"
  using path_clean_rooted path_clean_elements by metis

lemma join_nonempty: "ws \<noteq> [] \<Longrightarrow> last ws \<noteq> [] \<Longrightarrow> join sep ws \<noteq> []"
  by (induction sep ws rule: join.induct) auto

lemma last_join: "ws \<noteq> [] \<Longrightarrow> last ws \<noteq> [] \<Longrightarrow> last (join sep ws) = last (last ws)"
proof (induction sep ws rule: join.induct)
  case (3 sep w v vs)
  have "join sep (v # vs) \<noteq> []" using 3(3) by (intro join_nonempty) auto
  then show ?case using 3 by simp
qed auto

lemma path_clean_last:
  assumes "p \<noteq> []" "hd p = CHR ''/''" "path_clean p \<noteq> ''/''"
  shows "last (path_clean p) \<noteq> CHR ''/''"
proof -
  obtain es where es: "path_clean p = CHR ''/'' # join ''/'' es" "list_all path_element es"
    using path_clean_rooted [OF assms(1,2)] by blast
  then have ne: "es \<noteq> []" using assms(3) by auto
  then have e: "path_element (last es)" using es(2) by (simp add: list_all_iff)
  then have "last es \<noteq> []" by (simp add: path_element_def)
  then have "last (path_clean p) = last (last es)" using ne by (simp add: es(1) last_join join_nonempty)
  then show ?thesis using e last_in_set [of "last es"] unfolding path_element_def by metis
qed

section \<open>Parsing a query\<close>

definition hex_value :: "char \<Rightarrow> nat option" where
  "hex_value c =
     (if CHR ''0'' \<le> c \<and> c \<le> CHR ''9'' then Some (of_char c - 48)
      else if CHR ''a'' \<le> c \<and> c \<le> CHR ''f'' then Some (of_char c - 87)
      else if CHR ''A'' \<le> c \<and> c \<le> CHR ''F'' then Some (of_char c - 55)
      else None)"

text \<open>\<open>QueryUnescape\<close>: nothing for an incomplete or malformed escape.\<close>

fun query_unescape :: "string \<Rightarrow> string option" where
  "query_unescape [] = Some []"
| "query_unescape (c # cs) =
     (if c = CHR ''%'' then
        (case cs of
           a # b # rest \<Rightarrow>
             (case (hex_value a, hex_value b) of
                (Some x, Some y) \<Rightarrow> map_option (\<lambda>r. char_of (16 * x + y) # r) (query_unescape rest)
              | _ \<Rightarrow> None)
         | _ \<Rightarrow> None)
      else map_option (\<lambda>r. (if c = CHR ''+'' then CHR '' '' else c) # r) (query_unescape cs))"

definition cut :: "char \<Rightarrow> string \<Rightarrow> string \<times> string" where
  "cut d s = (case index_of d s of None \<Rightarrow> (s, []) | Some i \<Rightarrow> (take i s, drop (i + 1) s))"

type_synonym url_values = "(string \<times> string list) list"

definition add_value :: "string \<Rightarrow> string \<Rightarrow> url_values \<Rightarrow> url_values" where
  "add_value k v m = AList.update k ((case map_of m k of None \<Rightarrow> [] | Some vs \<Rightarrow> vs) @ [v]) m"

text \<open>\<open>ParseQuery\<close>: the valid settings, and whether there was an invalid one.\<close>

fun parse_query_parts :: "string list \<Rightarrow> url_values \<Rightarrow> url_values \<times> bool" where
  "parse_query_parts [] m = (m, False)"
| "parse_query_parts (part # parts) m =
     (if CHR '';'' \<in> set part then (fst (parse_query_parts parts m), True)
      else if part = [] then parse_query_parts parts m
      else
        (case cut CHR ''='' part of (k, v) \<Rightarrow>
           (case (query_unescape k, query_unescape v) of
              (Some k', Some v') \<Rightarrow> parse_query_parts parts (add_value k' v' m)
            | _ \<Rightarrow> (fst (parse_query_parts parts m), True))))"

definition ParseQuery :: "string \<Rightarrow> url_values \<times> bool" where
  "ParseQuery s = parse_query_parts (split_on CHR ''&'' s) []"

end
