(* ===== verification/Ingress.thy ===== *)
theory Ingress
  imports GoUrl Runner
begin

text \<open>
  The ingress controller (\<open>pkg/ingress/ingress.go\<close>): it builds an HTTP router from the cluster's Ingress
  resources, whose backends are looked up in the Endpoints of their service.

  The router is gorilla/mux's: the model keeps the routes in the order in which they are registered
  with it, and what mux makes of them is the parameter \<open>mux\<close>. Answers of the API server are parameters
  too, and \<open>url_ok\<close> says whether \<open>url.Parse\<close> accepts a backend's URL.
\<close>

section \<open>Resources\<close>

record service_backend =
  sb_Name :: string
  sb_PortName :: string
  sb_PortNumber :: int

record ingress_backend =
  ib_Resource :: bool
  ib_Service :: "service_backend option"

record ingress_path =
  ip_Path :: string
  ip_Type :: "string option"
  ip_Backend :: ingress_backend

record ingress_rule =
  ir_Host :: string
  ir_HTTP :: "ingress_path list option"

record ingress =
  ig_Namespace :: string
  ig_Name :: string
  ig_Class :: "string option"
  ig_Annotations :: "(string \<times> string) list"
  ig_Rules :: "ingress_rule list"

record endpoint_port =
  ep_Name :: string
  ep_Port :: int

record endpoint_subset =
  es_Addresses :: "string list"
  es_Ports :: "endpoint_port list"

section \<open>Backends\<close>

definition validateIngressBackend :: "ingress_backend \<Rightarrow> go_error + service_backend" where
  "validateIngressBackend b =
     (if ib_Resource b then
        Inl (Errorf ''ingress resource specifies an unsupported backend resource - only service backends are supported'')
      else
        (case ib_Service b of
           None \<Rightarrow> Inl (Errorf ''ingress resource does not specify a service'')
         | Some s \<Rightarrow>
             if sb_Name s = [] then Inl (Errorf ''ingress resource does not specify a backend service name'')
             else if sb_PortName s = [] \<and> sb_PortNumber s = 0 then
               Inl (Errorf ''ingress resource does not specify a backend service port'')
             else Inr s))"

fun findPort :: "service_backend \<Rightarrow> endpoint_port list \<Rightarrow> int" where
  "findPort port [] = - 1"
| "findPort port (p # ps) =
     (if ep_Port p = sb_PortNumber port \<or> ep_Name p = sb_PortName port then ep_Port p else findPort port ps)"

text \<open>The first address of the first subset that has the port and an address.\<close>

fun find_address :: "string list \<Rightarrow> string option" where
  "find_address [] = None"
| "find_address (a # as) = (if a \<noteq> [] then Some a else find_address as)"

fun find_endpoint :: "service_backend \<Rightarrow> bool \<Rightarrow> endpoint_subset list \<Rightarrow> go_error + (string \<times> int)" where
  "find_endpoint svc portMatched [] =
     Inl (Errorf (if portMatched then ''endpoint is not ready'' else ''port does not match endpoint''))"
| "find_endpoint svc portMatched (s # ss) =
     (let port = findPort svc (es_Ports s) in
      if port > 0 then
        (case find_address (es_Addresses s) of
           Some ip \<Rightarrow> Inr (ip, port)
         | None \<Rightarrow> find_endpoint svc True ss)
      else find_endpoint svc portMatched ss)"

record cluster_view =
  cv_Endpoints :: "string \<Rightarrow> string \<Rightarrow> go_error + endpoint_subset list"
  cv_url_ok :: "string \<Rightarrow> bool"

definition endpointURL :: "cluster_view \<Rightarrow> string \<Rightarrow> service_backend \<Rightarrow> string \<Rightarrow> go_error + string" where
  "endpointURL c protocol svc ns =
     (case cv_Endpoints c ns (sb_Name svc) of
        Inl err \<Rightarrow> Inl err
      | Inr subsets \<Rightarrow>
          (case find_endpoint svc False subsets of
             Inl err \<Rightarrow> Inl err
           | Inr (ip, port) \<Rightarrow>
               (let u = protocol @ ''://'' @ ip @ '':'' @ show_int port in
                if cv_url_ok c u then Inr u else Inl (Errorf ''parse backend endpoint url''))))"

section \<open>The router\<close>

record backend_handler =
  bh_URL :: string
  bh_insecureTLS :: bool
  bh_targetPath :: string
  bh_rewriteTargetPath :: string
  bh_headers :: url_values
  bh_ingressName :: string
  bh_serviceName :: string

text \<open>
  What is registered with the root router: a host, for which a new router without routes answers, or
  a handler for a path.
\<close>

datatype mux_route =
    HostRoute string
  | PrefixRoute string backend_handler
  | ExactRoute string backend_handler

record router_state =
  rs_routes :: "mux_route list"
  rs_hosts :: "string list"
  rs_paths :: "(string \<times> string) list"

definition annotation :: "ingress \<Rightarrow> string \<Rightarrow> string" where
  "annotation ing k = (case map_of (ig_Annotations ing) k of None \<Rightarrow> [] | Some v \<Rightarrow> v)"

definition first_annotation :: "ingress \<Rightarrow> string \<Rightarrow> string" where
  "first_annotation ing k =
     (let a = annotation ing (''kubemate.mgoltzsche.github.com/'' @ k) in
      if a = [] then annotation ing (''nginx.ingress.kubernetes.io/'' @ k) else a)"

definition backend_protocol :: "ingress \<Rightarrow> string" where
  "backend_protocol ing = (let p = first_annotation ing ''backend-protocol'' in to_lower (if p = [] then ''http'' else p))"

definition set_headers :: "ingress \<Rightarrow> url_values" where
  "set_headers ing =
     (let h = annotation ing ''kubemate.mgoltzsche.github.com/set-headers'' in if h = [] then [] else fst (ParseQuery h))"

definition ingress_key :: "ingress \<Rightarrow> string" where
  "ingress_key ing = ig_Namespace ing @ ''/'' @ ig_Name ing"

definition path_handler :: "ingress \<Rightarrow> ingress_path \<Rightarrow> service_backend \<Rightarrow> string \<Rightarrow> backend_handler" where
  "path_handler ing p svc u =
     \<lparr>bh_URL = u, bh_insecureTLS = (backend_protocol ing = ''https''), bh_targetPath = ip_Path p,
      bh_rewriteTargetPath = first_annotation ing ''rewrite-target'', bh_headers = set_headers ing,
      bh_ingressName = ingress_key ing, bh_serviceName = sb_Name svc\<rparr>"

definition path_route :: "ingress_path \<Rightarrow> backend_handler \<Rightarrow> mux_route list" where
  "path_route p h =
     (case ip_Type p of
        None \<Rightarrow> [PrefixRoute (ip_Path p) h]
      | Some t \<Rightarrow>
          if t = ''Prefix'' \<or> t = ''ImplementationSpecific'' then [PrefixRoute (ip_Path p) h]
          else if t = ''Exact'' then [ExactRoute (ip_Path p) h]
          else [])"

fun add_paths :: "cluster_view \<Rightarrow> ingress \<Rightarrow> string \<Rightarrow> ingress_path list \<Rightarrow> router_state \<Rightarrow> go_error + router_state" where
  "add_paths c ing host [] s = Inr s"
| "add_paths c ing host (p # ps) s =
     (case validateIngressBackend (ip_Backend p) of
        Inl _ \<Rightarrow> add_paths c ing host ps s
      | Inr svc \<Rightarrow>
          (let hostPath = host @ ip_Path p in
           case map_of (rs_paths s) hostPath of
             Some other \<Rightarrow>
               Inl (Errorf (''duplicate ingress endpoint '' @ hostPath @ '', ingresses: '' @ ingress_key ing @ '' and '' @ other))
           | None \<Rightarrow>
               (let s1 = s\<lparr>rs_paths := (hostPath, ingress_key ing) # rs_paths s\<rparr> in
                case endpointURL c (backend_protocol ing) svc (ig_Namespace ing) of
                  Inl _ \<Rightarrow> add_paths c ing host ps s1
                | Inr u \<Rightarrow>
                    add_paths c ing host ps
                      (s1\<lparr>rs_routes := rs_routes s1 @ path_route p (path_handler ing p svc u)\<rparr>))))"

text \<open>
  A rule with a host registers a router of its own for the host, once; but the variable that is to hold
  it is a new one, and the paths of the rule go to the root router. The HTTP part of a rule is a pointer.
\<close>

fun add_rules :: "cluster_view \<Rightarrow> ingress \<Rightarrow> ingress_rule list \<Rightarrow> router_state \<Rightarrow> (go_error + router_state) go" where
  "add_rules c ing [] s = Ret (Inr s)"
| "add_rules c ing (r # rs) s =
     (let s1 = (if ir_Host r \<noteq> [] \<and> ir_Host r \<notin> set (rs_hosts s)
                then s\<lparr>rs_routes := rs_routes s @ [HostRoute (ir_Host r)], rs_hosts := ir_Host r # rs_hosts s\<rparr> else s)
      in case ir_HTTP r of
           None \<Rightarrow> Panic ''nil pointer dereference''
         | Some ps \<Rightarrow>
             (case add_paths c ing (ir_Host r) ps s1 of
                Inl err \<Rightarrow> Ret (Inl err)
              | Inr s2 \<Rightarrow> add_rules c ing rs s2))"

fun add_ingresses :: "cluster_view \<Rightarrow> ingress list \<Rightarrow> router_state \<Rightarrow> (go_error + router_state) go" where
  "add_ingresses c [] s = Ret (Inr s)"
| "add_ingresses c (ing # is) s =
     (case add_rules c ing (ig_Rules ing) s of
        Panic m \<Rightarrow> Panic m
      | Ret (Inl err) \<Rightarrow> Ret (Inl err)
      | Ret (Inr s') \<Rightarrow> add_ingresses c is s')"

text \<open>The ingresses of the class or without one, by their keys.\<close>

definition ingress_selected :: "string \<Rightarrow> ingress \<Rightarrow> bool" where
  "ingress_selected ingressClass ing \<longleftrightarrow> ig_Class ing = None \<or> ig_Class ing = Some ingressClass"

definition sorted_ingresses :: "string \<Rightarrow> ingress list \<Rightarrow> ingress list" where
  "sorted_ingresses ingressClass items =
     (let sel = filter (ingress_selected ingressClass) items;
          m = map_of (rev (map (\<lambda>i. (ingress_key i, i)) sel))
      in map (\<lambda>k. the (m k)) (sort (map ingress_key sel)))"

definition empty_router :: router_state where
  "empty_router = \<lparr>rs_routes = [], rs_hosts = [], rs_paths = []\<rparr>"

definition newRouter :: "cluster_view \<Rightarrow> string \<Rightarrow> go_error + ingress list \<Rightarrow> (go_error + mux_route list) go" where
  "newRouter c ingressClass listed =
     (case listed of
        Inl err \<Rightarrow> Ret (Inl err)
      | Inr items \<Rightarrow>
          (case add_ingresses c (sorted_ingresses ingressClass items) empty_router of
             Panic m \<Rightarrow> Panic m
           | Ret (Inl err) \<Rightarrow> Ret (Inl err)
           | Ret (Inr s) \<Rightarrow> Ret (Inr (rs_routes s))))"

section \<open>Requests\<close>

record http_request =
  rq_path :: string
  rq_host :: string
  rq_tls :: bool
  rq_remote :: string
  rq_headers :: url_values

definition header_set :: "string \<Rightarrow> string \<Rightarrow> url_values \<Rightarrow> url_values" where
  "header_set k v hs = AList.update k [v] hs"

text \<open>The request as it is handed to the reverse proxy.\<close>

definition ingress_serve :: "backend_handler \<Rightarrow> http_request \<Rightarrow> http_request go" where
  "ingress_serve h req =
     go_bind
       (if bh_rewriteTargetPath h \<noteq> [] then
          (if length (bh_targetPath h) \<le> length (rq_path req) then
             Ret (req\<lparr>rq_path := path_clean (bh_rewriteTargetPath h @ drop (length (bh_targetPath h)) (rq_path req))\<rparr>)
           else Panic ''slice bounds out of range'')
        else Ret req)
       (\<lambda>req.
          let scheme = (if rq_tls req then ''https'' else ''http'');
              hs = header_set ''X-Forwarded-Scheme'' scheme (header_set ''X-Forwarded-Proto'' scheme
                     (header_set ''X-Forwarded-Host'' (rq_host req) (header_set ''X-Forwarded-For'' (rq_remote req) (rq_headers req))))
          in Ret (req\<lparr>rq_headers := foldl (\<lambda>m (k, v). AList.update k v m) hs (bh_headers h)\<rparr>))"

section \<open>The controller\<close>

text \<open>
  \<open>ic_pending\<close> counts the goroutines that have not installed their router yet: the routes they find are
  installed when they get there, whatever happened to the controller meanwhile.
\<close>

record ingress_controller =
  ic_class :: string
  ic_started :: bool
  ic_pending :: nat
  ic_routes :: "mux_route list"

definition NewIngressController :: "string \<Rightarrow> ingress_controller" where
  "NewIngressController ingressClass = \<lparr>ic_class = ingressClass, ic_started = False, ic_pending = 0, ic_routes = []\<rparr>"

definition ingress_start :: "ingress_controller \<Rightarrow> ingress_controller" where
  "ingress_start s = (if ic_started s then s else s\<lparr>ic_started := True, ic_pending := ic_pending s + 1\<rparr>)"

definition ingress_stop :: "ingress_controller \<Rightarrow> ingress_controller" where
  "ingress_stop s = (if ic_started s then s\<lparr>ic_started := False, ic_routes := []\<rparr> else s)"

definition router_update :: "cluster_view \<Rightarrow> string \<Rightarrow> go_error + ingress list \<Rightarrow> mux_route list \<Rightarrow> mux_route list go" where
  "router_update c ingressClass listed old =
     go_bind (newRouter c ingressClass listed) (\<lambda>r. Ret (case r of Inl _ \<Rightarrow> old | Inr rs \<Rightarrow> rs))"

definition ingress_install :: "cluster_view \<Rightarrow> go_error + ingress list \<Rightarrow> ingress_controller \<Rightarrow> ingress_controller go" where
  "ingress_install c listed s =
     (if ic_pending s = 0 then Ret s
      else go_bind (router_update c (ic_class s) listed [])
        (\<lambda>rs. Ret (s\<lparr>ic_pending := ic_pending s - 1, ic_routes := rs\<rparr>)))"

definition ingress_event :: "cluster_view \<Rightarrow> go_error + ingress list \<Rightarrow> ingress_controller \<Rightarrow> ingress_controller go" where
  "ingress_event c listed s =
     go_bind (router_update c (ic_class s) listed (ic_routes s)) (\<lambda>rs. Ret (s\<lparr>ic_routes := rs\<rparr>))"

text \<open>
  A change of a watched object counts if its generation grew or its annotations print differently; the
  annotations are printed in the order in which Go iterates over the map.
\<close>

definition mapToString :: "(string \<times> string) list \<Rightarrow> string" where
  "mapToString iteration = join '','' (map (\<lambda>(k, v). go_quote k @ ''='' @ go_quote v) iteration)"

definition informer_OnUpdate :: "int \<Rightarrow> (string \<times> string) list \<Rightarrow> int \<Rightarrow> (string \<times> string) list \<Rightarrow> bool" where
  "informer_OnUpdate oldGeneration oldAnnotations newGeneration newAnnotations \<longleftrightarrow>
     newGeneration > oldGeneration \<or> mapToString oldAnnotations \<noteq> mapToString newAnnotations"

section \<open>What is registered\<close>

definition path_routes :: "cluster_view \<Rightarrow> ingress \<Rightarrow> ingress_path \<Rightarrow> mux_route list" where
  "path_routes c ing p =
     (case validateIngressBackend (ip_Backend p) of
        Inl _ \<Rightarrow> []
      | Inr svc \<Rightarrow>
          (case endpointURL c (backend_protocol ing) svc (ig_Namespace ing) of
             Inl _ \<Rightarrow> [] | Inr u \<Rightarrow> path_route p (path_handler ing p svc u)))"

definition rule_paths :: "ingress_rule \<Rightarrow> ingress_path list" where
  "rule_paths r = (case ir_HTTP r of None \<Rightarrow> [] | Some ps \<Rightarrow> ps)"

definition ingress_routes :: "cluster_view \<Rightarrow> ingress \<Rightarrow> mux_route list" where
  "ingress_routes c ing = concat (map (\<lambda>r. concat (map (path_routes c ing) (rule_paths r))) (ig_Rules ing))"

definition path_keys :: "string \<Rightarrow> ingress_path list \<Rightarrow> string list" where
  "path_keys host ps = map (\<lambda>p. host @ ip_Path p) (filter (\<lambda>p. \<not> isl (validateIngressBackend (ip_Backend p))) ps)"

definition endpoint_keys :: "ingress \<Rightarrow> string list" where
  "endpoint_keys ing = concat (map (\<lambda>r. path_keys (ir_Host r) (rule_paths r)) (ig_Rules ing))"

definition is_host_route :: "mux_route \<Rightarrow> bool" where
  "is_host_route r = (case r of HostRoute _ \<Rightarrow> True | _ \<Rightarrow> False)"

lemma is_host_route_simps [simp]:
  "is_host_route (HostRoute h)" "\<not> is_host_route (PrefixRoute p b)" "\<not> is_host_route (ExactRoute p b)"
  by (simp_all add: is_host_route_def)

lemma path_route_no_host: "filter (\<lambda>r. \<not> is_host_route r) (path_route p h) = path_route p h"
  by (auto simp: path_route_def is_host_route_def split: option.splits)

lemma path_routes_no_host: "filter (\<lambda>r. \<not> is_host_route r) (path_routes c ing p) = path_routes c ing p"
  by (auto simp: path_routes_def path_route_no_host split: sum.splits)

lemma add_paths_ok:
  "distinct (path_keys host ps) \<Longrightarrow> set (path_keys host ps) \<inter> dom (map_of (rs_paths s)) = {} \<Longrightarrow>
   \<exists>s'. add_paths c ing host ps s = Inr s' \<and> rs_routes s' = rs_routes s @ concat (map (path_routes c ing) ps) \<and>
     rs_hosts s' = rs_hosts s \<and> dom (map_of (rs_paths s')) = dom (map_of (rs_paths s)) \<union> set (path_keys host ps)"
proof (induction ps arbitrary: s)
  case Nil
  then show ?case by (simp add: path_keys_def)
next
  case (Cons p ps)
  show ?case
  proof (cases "validateIngressBackend (ip_Backend p)")
    case (Inl err)
    with Cons show ?thesis by (simp add: path_keys_def path_routes_def)
  next
    case (Inr svc)
    let ?k = "host @ ip_Path p"
    have keys: "path_keys host (p # ps) = ?k # path_keys host ps" using Inr by (simp add: path_keys_def)
    let ?s1 = "s\<lparr>rs_paths := (?k, ingress_key ing) # rs_paths s\<rparr>"
    let ?s2 = "case endpointURL c (backend_protocol ing) svc (ig_Namespace ing) of Inl _ \<Rightarrow> ?s1
      | Inr u \<Rightarrow> ?s1\<lparr>rs_routes := rs_routes s @ path_route p (path_handler ing p svc u)\<rparr>"
    have fresh: "map_of (rs_paths s) ?k = None" using Cons.prems(2) keys by auto
    have dom2: "dom (map_of (rs_paths ?s2)) = insert ?k (dom (map_of (rs_paths s)))" by (auto split: sum.splits)
    have "set (path_keys host ps) \<inter> dom (map_of (rs_paths ?s2)) = {}"
      using Cons.prems keys unfolding dom2 by auto
    with Cons.IH [of ?s2] Cons.prems(1) keys obtain s' where s': "add_paths c ing host ps ?s2 = Inr s'"
      "rs_routes s' = rs_routes ?s2 @ concat (map (path_routes c ing) ps)" "rs_hosts s' = rs_hosts ?s2"
      "dom (map_of (rs_paths s')) = dom (map_of (rs_paths ?s2)) \<union> set (path_keys host ps)" by auto
    have "add_paths c ing host (p # ps) s = Inr s'"
      using s'(1) Inr fresh by (simp add: Let_def split: sum.splits)
    moreover have "rs_routes s' = rs_routes s @ concat (map (path_routes c ing) (p # ps))"
      using s'(2) Inr by (simp add: path_routes_def split: sum.splits)
    moreover have "rs_hosts s' = rs_hosts s" using s'(3) by (simp split: sum.splits)
    ultimately show ?thesis using s'(4) dom2 keys by auto
  qed
qed

text \<open>What a list of rules adds: its path routes, a route for each new host, its endpoint keys.\<close>

definition adds :: "router_state \<Rightarrow> mux_route list \<Rightarrow> string set \<Rightarrow> string set \<Rightarrow> router_state \<Rightarrow> bool" where
  "adds s routes hosts keys s' \<longleftrightarrow>
     (\<exists>new. rs_routes s' = rs_routes s @ new \<and> filter (\<lambda>r. \<not> is_host_route r) new = routes \<and>
        {h. HostRoute h \<in> set new} = hosts - set (rs_hosts s)) \<and>
     set (rs_hosts s') = set (rs_hosts s) \<union> hosts \<and>
     dom (map_of (rs_paths s')) = dom (map_of (rs_paths s)) \<union> keys"

lemma adds_trans:
  assumes "adds s r1 h1 k1 s1" "adds s1 r2 h2 k2 s2"
  shows "adds s (r1 @ r2) (h1 \<union> h2) (k1 \<union> k2) s2"
proof -
  obtain n1 n2 where "rs_routes s1 = rs_routes s @ n1" "filter (\<lambda>r. \<not> is_host_route r) n1 = r1"
    "{h. HostRoute h \<in> set n1} = h1 - set (rs_hosts s)"
    "rs_routes s2 = rs_routes s1 @ n2" "filter (\<lambda>r. \<not> is_host_route r) n2 = r2"
    "{h. HostRoute h \<in> set n2} = h2 - set (rs_hosts s1)" "set (rs_hosts s1) = set (rs_hosts s) \<union> h1"
    using assms unfolding adds_def by auto
  moreover from this have "{h. HostRoute h \<in> set (n1 @ n2)} = (h1 \<union> h2) - set (rs_hosts s)"
    by (auto simp: set_eq_iff)
  ultimately have "\<exists>new. rs_routes s2 = rs_routes s @ new \<and> filter (\<lambda>r. \<not> is_host_route r) new = r1 @ r2 \<and>
      {h. HostRoute h \<in> set new} = (h1 \<union> h2) - set (rs_hosts s)"
    by (intro exI [of _ "n1 @ n2"]) simp
  then show ?thesis using assms unfolding adds_def by auto
qed

lemma adds_refl: "adds s [] {} {} s"
  by (simp add: adds_def)

lemma concat_no_host: "filter (\<lambda>r. \<not> is_host_route r) (concat (map (path_routes c ing) ps)) = concat (map (path_routes c ing) ps)"
  by (induction ps) (simp_all add: path_routes_no_host)

lemma no_host_member: "HostRoute h \<notin> set (concat (map (path_routes c ing) ps))"
proof
  assume "HostRoute h \<in> set (concat (map (path_routes c ing) ps))"
  then have "HostRoute h \<in> set (filter (\<lambda>r. \<not> is_host_route r) (concat (map (path_routes c ing) ps)))"
    by (simp only: concat_no_host)
  then show False by (simp add: is_host_route_def)
qed

definition rule_hosts :: "ingress_rule list \<Rightarrow> string set" where
  "rule_hosts rs = {h. h \<noteq> [] \<and> (\<exists>r \<in> set rs. ir_Host r = h)}"

lemma add_rule_ok:
  assumes "ir_HTTP r = Some ps" "distinct (path_keys (ir_Host r) ps)"
    "set (path_keys (ir_Host r) ps) \<inter> dom (map_of (rs_paths s)) = {}"
  shows "\<exists>s'. add_rules c ing (r # rs) s = add_rules c ing rs s' \<and>
    adds s (concat (map (path_routes c ing) ps)) (rule_hosts [r]) (set (path_keys (ir_Host r) ps)) s'"
proof -
  let ?new = "ir_Host r \<noteq> [] \<and> ir_Host r \<notin> set (rs_hosts s)"
  let ?s1 = "if ?new then s\<lparr>rs_routes := rs_routes s @ [HostRoute (ir_Host r)], rs_hosts := ir_Host r # rs_hosts s\<rparr> else s"
  have "rs_paths ?s1 = rs_paths s" by simp
  then obtain s' where s': "add_paths c ing (ir_Host r) ps ?s1 = Inr s'"
    "rs_routes s' = rs_routes ?s1 @ concat (map (path_routes c ing) ps)" "rs_hosts s' = rs_hosts ?s1"
    "dom (map_of (rs_paths s')) = dom (map_of (rs_paths s)) \<union> set (path_keys (ir_Host r) ps)"
    using add_paths_ok [OF assms(2), of ?s1] assms(3) by metis
  let ?add = "(if ?new then [HostRoute (ir_Host r)] else []) @ concat (map (path_routes c ing) ps)"
  have "rs_routes s' = rs_routes s @ ?add" using s'(2) by simp
  moreover have "filter (\<lambda>r. \<not> is_host_route r) ?add = concat (map (path_routes c ing) ps)"
    by (simp add: concat_no_host)
  moreover have "{h. HostRoute h \<in> set ?add} = rule_hosts [r] - set (rs_hosts s)"
    using no_host_member [of _ c ing ps] by (auto simp: rule_hosts_def)
  moreover have "set (rs_hosts s') = set (rs_hosts s) \<union> rule_hosts [r]" using s'(3) by (auto simp: rule_hosts_def)
  ultimately have "adds s (concat (map (path_routes c ing) ps)) (rule_hosts [r]) (set (path_keys (ir_Host r) ps)) s'"
    using s'(4) unfolding adds_def by blast
  moreover have "add_rules c ing (r # rs) s = add_rules c ing rs s'"
    using s'(1) assms(1) by (simp add: Let_def)
  ultimately show ?thesis by blast
qed

lemma add_rules_ok:
  "\<forall>r \<in> set rs. ir_HTTP r \<noteq> None \<Longrightarrow> distinct (concat (map (\<lambda>r. path_keys (ir_Host r) (rule_paths r)) rs)) \<Longrightarrow>
   set (concat (map (\<lambda>r. path_keys (ir_Host r) (rule_paths r)) rs)) \<inter> dom (map_of (rs_paths s)) = {} \<Longrightarrow>
   \<exists>s'. add_rules c ing rs s = Ret (Inr s') \<and>
     adds s (concat (map (\<lambda>r. concat (map (path_routes c ing) (rule_paths r))) rs)) (rule_hosts rs)
       (set (concat (map (\<lambda>r. path_keys (ir_Host r) (rule_paths r)) rs))) s'"
proof (induction rs arbitrary: s)
  case Nil
  then show ?case by (simp add: adds_refl rule_hosts_def)
next
  case (Cons r rs)
  let ?keys = "\<lambda>rs. concat (map (\<lambda>r. path_keys (ir_Host r) (rule_paths r)) rs)"
  obtain ps where ps: "ir_HTTP r = Some ps" "rule_paths r = ps" using Cons.prems(1) by (auto simp: rule_paths_def)
  obtain s1 where s1: "add_rules c ing (r # rs) s = add_rules c ing rs s1"
    "adds s (concat (map (path_routes c ing) ps)) (rule_hosts [r]) (set (path_keys (ir_Host r) ps)) s1"
    using add_rule_ok [OF ps(1), of s c ing rs] Cons.prems(2,3) ps(2) by auto
  have "set (?keys rs) \<inter> dom (map_of (rs_paths s1)) = {}"
    using s1(2) Cons.prems(2,3) ps(2) unfolding adds_def by auto
  with Cons.IH [of s1] Cons.prems(1,2) obtain s' where s': "add_rules c ing rs s1 = Ret (Inr s')"
    "adds s1 (concat (map (\<lambda>r. concat (map (path_routes c ing) (rule_paths r))) rs)) (rule_hosts rs) (set (?keys rs)) s'"
    by auto
  have "rule_hosts (r # rs) = rule_hosts [r] \<union> rule_hosts rs" by (auto simp: rule_hosts_def)
  with s1(1) s'(1) adds_trans [OF s1(2) s'(2)] ps(2) show ?case by auto
qed

lemma add_ingresses_ok:
  "\<forall>ing \<in> set ings. \<forall>r \<in> set (ig_Rules ing). ir_HTTP r \<noteq> None \<Longrightarrow> distinct (concat (map endpoint_keys ings)) \<Longrightarrow>
   set (concat (map endpoint_keys ings)) \<inter> dom (map_of (rs_paths s)) = {} \<Longrightarrow>
   \<exists>s'. add_ingresses c ings s = Ret (Inr s') \<and>
     adds s (concat (map (ingress_routes c) ings)) (rule_hosts (concat (map ig_Rules ings)))
       (set (concat (map endpoint_keys ings))) s'"
proof (induction ings arbitrary: s)
  case Nil
  then show ?case by (simp add: adds_refl rule_hosts_def)
next
  case (Cons ing ings)
  obtain s1 where s1: "add_rules c ing (ig_Rules ing) s = Ret (Inr s1)"
    "adds s (ingress_routes c ing) (rule_hosts (ig_Rules ing)) (set (endpoint_keys ing)) s1"
    using add_rules_ok [of "ig_Rules ing" s c ing] Cons.prems unfolding ingress_routes_def endpoint_keys_def by auto
  have "set (concat (map endpoint_keys ings)) \<inter> dom (map_of (rs_paths s1)) = {}"
    using s1(2) Cons.prems(2,3) unfolding adds_def by auto
  with Cons.IH [of s1] Cons.prems(1,2) obtain s' where s': "add_ingresses c ings s1 = Ret (Inr s')"
    "adds s1 (concat (map (ingress_routes c) ings)) (rule_hosts (concat (map ig_Rules ings)))
       (set (concat (map endpoint_keys ings))) s'" by auto
  have "rule_hosts (concat (map ig_Rules (ing # ings))) = rule_hosts (ig_Rules ing) \<union> rule_hosts (concat (map ig_Rules ings))"
    by (auto simp: rule_hosts_def)
  with s1(1) s'(1) adds_trans [OF s1(2) s'(2)] show ?case by auto
qed

section \<open>Properties\<close>

text \<open>
  What gorilla/mux documents, for paths and hosts without template variables: the first route, in the
  order of registration, that matches the host and path of the request.
\<close>

fun route_matches :: "string \<Rightarrow> string \<Rightarrow> mux_route \<Rightarrow> bool" where
  "route_matches host path (HostRoute h) \<longleftrightarrow> h = host"
| "route_matches host path (PrefixRoute p _) \<longleftrightarrow> prefix p path"
| "route_matches host path (ExactRoute p _) \<longleftrightarrow> p = path"

fun plain_route :: "mux_route \<Rightarrow> bool" where
  "plain_route (HostRoute h) \<longleftrightarrow> CHR ''{'' \<notin> set h"
| "plain_route (PrefixRoute p _) \<longleftrightarrow> CHR ''{'' \<notin> set p"
| "plain_route (ExactRoute p _) \<longleftrightarrow> CHR ''{'' \<notin> set p"

definition mux_documented :: "(mux_route list \<Rightarrow> string \<Rightarrow> string \<Rightarrow> mux_route option) \<Rightarrow> bool" where
  "mux_documented mux \<longleftrightarrow>
     (\<forall>rs host path. list_all plain_route rs \<longrightarrow> mux rs host path = find (route_matches host path) rs)"

text \<open>
  C28. The router serves what the ingresses ask for, read declaratively: if no two valid paths of the selected
  ingresses claim the same endpoint and every rule has an HTTP part, the router is built, its path routes
  are those of the ingresses in the order of their keys, rule by rule and path by path, one for each
  path with a valid backend that has a ready endpoint; its host routes are the hosts of the rules.
\<close>

theorem ingress_router_reference:
  assumes "\<forall>ing \<in> set (sorted_ingresses ingressClass items). \<forall>r \<in> set (ig_Rules ing). ir_HTTP r \<noteq> None"
    and "distinct (concat (map endpoint_keys (sorted_ingresses ingressClass items)))"
  shows "\<exists>rs. newRouter c ingressClass (Inr items) = Ret (Inr rs) \<and>
    filter (\<lambda>r. \<not> is_host_route r) rs = concat (map (ingress_routes c) (sorted_ingresses ingressClass items)) \<and>
    {h. HostRoute h \<in> set rs} = rule_hosts (concat (map ig_Rules (sorted_ingresses ingressClass items)))"
proof -
  obtain s' where "add_ingresses c (sorted_ingresses ingressClass items) empty_router = Ret (Inr s')"
    "adds empty_router (concat (map (ingress_routes c) (sorted_ingresses ingressClass items)))
      (rule_hosts (concat (map ig_Rules (sorted_ingresses ingressClass items))))
      (set (concat (map endpoint_keys (sorted_ingresses ingressClass items)))) s'"
    using add_ingresses_ok [OF assms, of empty_router c] by (auto simp: empty_router_def)
  then show ?thesis by (auto simp: newRouter_def adds_def empty_router_def)
qed

definition demo_ingress :: "string \<Rightarrow> ingress" where
  "demo_ingress host =
     \<lparr>ig_Namespace = ''default'', ig_Name = ''web'', ig_Class = None, ig_Annotations = [],
      ig_Rules = [\<lparr>ir_Host = host, ir_HTTP = Some [\<lparr>ip_Path = ''/app'', ip_Type = None,
        ip_Backend = \<lparr>ib_Resource = False, ib_Service = Some \<lparr>sb_Name = ''web'', sb_PortName = [], sb_PortNumber = 80\<rparr>\<rparr>\<rparr>]\<rparr>]\<rparr>"

definition demo_cluster :: cluster_view where
  "demo_cluster =
     \<lparr>cv_Endpoints = (\<lambda>_ _. Inr [\<lparr>es_Addresses = [''10.42.0.7''], es_Ports = [\<lparr>ep_Name = ''http'', ep_Port = 80\<rparr>]\<rparr>]),
      cv_url_ok = (\<lambda>_. True)\<rparr>"

lemma sorted_single: "ingress_selected k ing \<Longrightarrow> sorted_ingresses k [ing] = [ing]"
  by (simp add: sorted_ingresses_def)

lemma demo_ingress_ok:
  "ingress_selected ''kubemate'' (demo_ingress host)" "distinct (endpoint_keys (demo_ingress host))"
  "\<forall>r \<in> set (ig_Rules (demo_ingress host)). ir_HTTP r \<noteq> None"
  by (simp_all add: demo_ingress_def ingress_selected_def endpoint_keys_def rule_paths_def path_keys_def validateIngressBackend_def)

theorem ingress_router_reference_witness:
  "\<exists>rs h. newRouter demo_cluster ''kubemate'' (Inr [demo_ingress []]) = Ret (Inr rs) \<and>
     filter (\<lambda>r. \<not> is_host_route r) rs = [PrefixRoute ''/app'' h] \<and> bh_URL h = ''http://10.42.0.7:80''"
proof -
  have port: "show_int 80 = ''80''" by code_simp
  have proto: "backend_protocol (demo_ingress []) = ''http''"
    unfolding backend_protocol_def first_annotation_def annotation_def demo_ingress_def by code_simp
  note proto' = proto [unfolded demo_ingress_def]
  have r: "\<exists>h. ingress_routes demo_cluster (demo_ingress []) = [PrefixRoute ''/app'' h] \<and> bh_URL h = ''http://10.42.0.7:80''"
    by (simp add: ingress_routes_def rule_paths_def path_routes_def path_route_def path_handler_def proto' endpointURL_def port
        Let_def demo_cluster_def validateIngressBackend_def demo_ingress_def)
  have "sorted_ingresses ''kubemate'' [demo_ingress []] = [demo_ingress []]" by (rule sorted_single [OF demo_ingress_ok(1)])
  with ingress_router_reference [of "''kubemate''" "[demo_ingress []]" demo_cluster] demo_ingress_ok [of "[]"] r
  show ?thesis by auto
qed

text \<open>
  Rules with a host are served on every host but their own: for an ingress with one rule for a host, every
  request to that host goes to the empty router registered for the host, which has no route to answer
  with, and a request to any other host is answered by the rule's paths.
\<close>

theorem ingress_host_rule_misplaced:
  assumes "mux_documented mux" "ingress_selected ingressClass ing" "ig_Rules ing = [r]" "ir_HTTP r = Some ps"
    and "ir_Host r \<noteq> []" "distinct (path_keys (ir_Host r) ps)"
    and "CHR ''{'' \<notin> set (ir_Host r)" "\<forall>p \<in> set ps. CHR ''{'' \<notin> set (ip_Path p)"
  shows "\<exists>rs. newRouter c ingressClass (Inr [ing]) = Ret (Inr rs) \<and>
    (\<forall>path. mux rs (ir_Host r) path = Some (HostRoute (ir_Host r))) \<and>
    (\<forall>host path. host \<noteq> ir_Host r \<longrightarrow>
       mux rs host path = find (route_matches host path) (concat (map (path_routes c ing) ps)))"
proof -
  let ?rs = "HostRoute (ir_Host r) # concat (map (path_routes c ing) ps)"
  have "plain_route x" if "x \<in> set (path_route p h)" "p \<in> set ps" for x p h
    using that assms(8) by (auto simp: path_route_def split: option.splits if_splits)
  then have "list_all plain_route ?rs"
    using assms(7) by (auto simp: list_all_iff path_routes_def split: sum.splits)
  then have mux: "mux ?rs host path = find (route_matches host path) ?rs" for host path
    using assms(1) unfolding mux_documented_def by blast
  obtain s' where s': "add_paths c ing (ir_Host r) ps (empty_router\<lparr>rs_routes := [HostRoute (ir_Host r)], rs_hosts := [ir_Host r]\<rparr>) = Inr s'"
    "rs_routes s' = ?rs"
    using add_paths_ok [OF assms(6), of "empty_router\<lparr>rs_routes := [HostRoute (ir_Host r)], rs_hosts := [ir_Host r]\<rparr>" c ing]
    by (auto simp: empty_router_def)
  then have "add_rules c ing [r] empty_router = Ret (Inr s')" using assms(4,5) by (simp add: empty_router_def)
  then have "newRouter c ingressClass (Inr [ing]) = Ret (Inr ?rs)"
    using s'(2) sorted_single [OF assms(2)] assms(3) by (simp add: newRouter_def)
  then show ?thesis using mux by auto
qed

theorem ingress_host_rule_misplaced_witness:
  "\<exists>rs h. newRouter demo_cluster ''kubemate'' (Inr [demo_ingress ''a.example'']) = Ret (Inr rs) \<and>
     find (route_matches ''a.example'' ''/app/x'') rs = Some (HostRoute ''a.example'') \<and>
     find (route_matches ''b.example'' ''/app/x'') rs = Some (PrefixRoute ''/app'' h)"
proof -
  let ?mux = "\<lambda>rs host path. find (route_matches host path) rs"
  let ?ing = "demo_ingress ''a.example''"
  have mux: "mux_documented ?mux" by (simp add: mux_documented_def)
  obtain r ps where r: "ig_Rules ?ing = [r]" "ir_HTTP r = Some ps" "ir_Host r = ''a.example''"
    "distinct (path_keys (ir_Host r) ps)" "\<forall>p \<in> set ps. CHR ''{'' \<notin> set (ip_Path p)"
    "\<exists>h. concat (map (path_routes demo_cluster ?ing) ps) = [PrefixRoute ''/app'' h]"
    by (simp add: demo_ingress_def path_keys_def path_routes_def validateIngressBackend_def endpointURL_def demo_cluster_def
        Let_def path_route_def)
  from ingress_host_rule_misplaced [OF mux demo_ingress_ok(1) r(1,2) _ r(4) _ r(5), of demo_cluster] r(3,6)
  show ?thesis by fastforce
qed

text \<open>
  C40. A path rewritten to a target that starts with a slash cannot leave the root of the backend: for a handler
  with such a target, a request for a path under the handler's path does not panic, and the path handed to the
  backend is a slash followed by elements none of which is empty, a dot or two dots. It may leave the
  target itself, as the example shows; a target without the slash keeps nothing in (below).
\<close>

theorem ingress_rewrite_contained:
  assumes "prefix (bh_targetPath h) (rq_path req)" "bh_rewriteTargetPath h \<noteq> []" "hd (bh_rewriteTargetPath h) = CHR ''/''"
  shows "\<exists>req' es. ingress_serve h req = Ret req' \<and> rq_path req' = CHR ''/'' # join ''/'' es \<and>
    list_all path_element es \<and> ''..'' \<notin> set es \<and> rq_host req' = rq_host req"
proof -
  let ?p = "bh_rewriteTargetPath h @ drop (length (bh_targetPath h)) (rq_path req)"
  obtain es where "path_clean ?p = CHR ''/'' # join ''/'' es" "list_all path_element es" "''..'' \<notin> set es"
    using path_clean_rooted [of ?p] assms(2,3) by auto
  then show ?thesis
    using assms(1,2) prefix_length_le [OF assms(1)] by (auto simp: ingress_serve_def Let_def)
qed

theorem ingress_rewrite_contained_witness:
  "\<exists>req' es. ingress_serve \<lparr>bh_URL = ''http://10.42.0.7:80'', bh_insecureTLS = False, bh_targetPath = ''/app'',
       bh_rewriteTargetPath = ''/srv/'', bh_headers = [], bh_ingressName = [], bh_serviceName = []\<rparr>
     \<lparr>rq_path = ''/app/../../etc'', rq_host = ''h'', rq_tls = False, rq_remote = [], rq_headers = []\<rparr> = Ret req' \<and>
     rq_path req' = CHR ''/'' # join ''/'' es \<and> ''..'' \<notin> set es"
  using ingress_rewrite_contained [of "\<lparr>bh_URL = ''http://10.42.0.7:80'', bh_insecureTLS = False, bh_targetPath = ''/app'',
       bh_rewriteTargetPath = ''/srv/'', bh_headers = [], bh_ingressName = [], bh_serviceName = []\<rparr>"
     "\<lparr>rq_path = ''/app/../../etc'', rq_host = ''h'', rq_tls = False, rq_remote = [], rq_headers = []\<rparr>"]
  by auto

text \<open>A target without a leading slash: the request for a path under the handler's is sent to one above the root.\<close>

theorem ingress_relative_rewrite_escapes:
  "\<exists>req'. ingress_serve \<lparr>bh_URL = ''http://10.42.0.7:80'', bh_insecureTLS = False, bh_targetPath = ''/app'',
       bh_rewriteTargetPath = ''x'', bh_headers = [], bh_ingressName = [], bh_serviceName = []\<rparr>
     \<lparr>rq_path = ''/app/../../etc'', rq_host = ''h'', rq_tls = False, rq_remote = [], rq_headers = []\<rparr> = Ret req' \<and>
     rq_path req' = ''../etc''"
proof -
  have "path_clean ''x/../../etc'' = ''../etc''" by code_simp
  then show ?thesis by (simp add: ingress_serve_def Let_def)
qed

text \<open>A rule without HTTP part, which the API server accepts, ends the process.\<close>

lemma ingress_rule_without_http_panics:
  assumes "ingress_selected ingressClass ing" "ig_Rules ing = [r]" "ir_HTTP r = None"
  shows "\<exists>m. ingress_event c (Inr [ing]) (s\<lparr>ic_class := ingressClass\<rparr>) = Panic m"
  using assms sorted_single [OF assms(1)]
  by (simp add: ingress_event_def router_update_def newRouter_def)

text \<open>A router may be installed after the controller was stopped.\<close>

lemma ingress_serves_after_stop:
  assumes "newRouter c ingressClass listed = Ret (Inr rs)"
  shows "\<exists>s. ingress_install c listed (ingress_stop (ingress_start (NewIngressController ingressClass))) = Ret s \<and>
    \<not> ic_started s \<and> ic_routes s = rs"
  using assms by (simp add: ingress_install_def ingress_stop_def ingress_start_def NewIngressController_def router_update_def)

end
