(* ===== verification/ApiServer.thy ===== *)
theory ApiServer
  imports Ingress NetIfaces
begin

text \<open>
  The HTTP server (\<open>pkg/apiserver\<close>, \<open>pkg/middleware\<close>): authorization, the proxy to the cluster's API server,
  and the chain of handlers a request passes. The generic API server's authenticators and its impersonation
  filter are library code: parameters, with what they document as hypotheses.
\<close>

section \<open>Users and authorization\<close>

record user_info =
  us_Name :: string
  us_UID :: string
  us_Groups :: "string list"

record attributes =
  at_Group :: string
  at_Resource :: string
  at_Name :: string
  at_Verb :: string

definition adminGroup :: string where "adminGroup = ''admin''"
definition Anonymous :: string where "Anonymous = ''system:anonymous''"

definition readOnlyVerbs :: "string list" where
  "readOnlyVerbs = [''get'', ''list'', ''watch'']"

definition list_contains :: "string list \<Rightarrow> string \<Rightarrow> bool" where
  "list_contains l item = list_ex (\<lambda>s. s = item) l"

datatype decision = Allow | Deny string

definition Authorize :: "user_info \<Rightarrow> attributes \<Rightarrow> decision" where
  "Authorize u a =
     (if at_Group a \<noteq> fst GroupVersion then Allow
      else if list_contains (us_Groups u) adminGroup then Allow
      else if us_Name u = Anonymous \<and> (at_Group a = fst GroupVersion \<and> at_Resource a = ''devicediscovery'') \<and>
              list_contains readOnlyVerbs (at_Verb a) then Allow
      else Deny (''you must login to use this device. to manage the device, you need to be a member of the '' @ adminGroup @ '' group''))"

text \<open>The rules the authorizer reports for a user: verbs, groups and resources.\<close>

definition RulesFor :: "user_info \<Rightarrow> (string list \<times> string list \<times> string list) list \<times> (string list \<times> string list) list" where
  "RulesFor u = ([([''get'', ''list'', ''watch''], [fst GroupVersion], [''devicediscovery''])], [([''get'', ''list''], [''*''])])"

section \<open>Authentication\<close>

text \<open>
  The accounts of \<open>NewServer\<close>: those of the accounts file, or one generated admin token, and a generated
  token for the controllers. A request without a known token is anonymous.
\<close>

definition admin_user :: "string \<Rightarrow> user_info" where
  "admin_user n = \<lparr>us_Name = n, us_UID = n, us_Groups = [adminGroup]\<rparr>"

definition anonymous_user :: user_info where
  "anonymous_user = \<lparr>us_Name = Anonymous, us_UID = [], us_Groups = [''system:unauthenticated'']\<rparr>"

definition accounts :: "(string \<times> user_info) list option \<Rightarrow> string \<Rightarrow> (string \<times> user_info) list" where
  "accounts file token = (case file of Some us \<Rightarrow> us | None \<Rightarrow> [(token, admin_user ''admin'')])"

definition authenticate :: "(string \<times> user_info) list option \<Rightarrow> string \<Rightarrow> string \<Rightarrow> string option \<Rightarrow> user_info" where
  "authenticate file token controllerToken bearer =
     (case bearer of
        None \<Rightarrow> anonymous_user
      | Some t \<Rightarrow>
          (case map_of (accounts file token) t of
             Some u \<Rightarrow> u
           | None \<Rightarrow> if t = controllerToken then admin_user ''controller'' else anonymous_user))"

text \<open>The token the device controllers send.\<close>

definition controllerBearerToken :: string where
  "controllerBearerToken = ''adminsecret''"

section \<open>The proxy\<close>

text \<open>
  The client certificate and the CA, read anew for every request; loading a key pair and reading a file are
  the parameters. A CA file without certificates gives an empty pool.
\<close>

definition tlsTransport :: "(string \<Rightarrow> string \<Rightarrow> go_error + 'c) \<Rightarrow> (string \<Rightarrow> go_error + string) \<Rightarrow> string \<Rightarrow> go_error + 'c \<times> string" where
  "tlsTransport load_pair read_file tlsDir =
     (case load_pair (tlsDir @ ''/client-admin.crt'') (tlsDir @ ''/client-admin.key'') of
        Inl err \<Rightarrow> Inl (Wrap ''load apiserver client cert: '' err)
      | Inr cert \<Rightarrow>
          (case read_file (tlsDir @ ''/server-ca.crt'') of Inl err \<Rightarrow> Inl err | Inr ca \<Rightarrow> Inr (cert, ca)))"

text \<open>
  A request to the cluster's API server: what \<open>client.Do\<close> returns (status line, code and what reading the body
  gives), and the JSON decoder, are the parameters.
\<close>

definition proxy_request ::
  "go_error + 't \<Rightarrow> ('t \<Rightarrow> string \<Rightarrow> go_error + string \<times> nat \<times> (go_error + string)) \<Rightarrow> (string \<Rightarrow> go_error + 'v) \<Rightarrow>
   string \<Rightarrow> string \<Rightarrow> go_error + 'v" where
  "proxy_request tls do_get unmarshal host path =
     (case tls of
        Inl err \<Rightarrow> Inl err
      | Inr t \<Rightarrow>
          (case do_get t (''https://'' @ host @ path) of
             Inl err \<Rightarrow> Inl err
           | Inr (status, code, content) \<Rightarrow>
               if code \<noteq> 200 then Inl (Errorf status)
               else (case content of Inl err \<Rightarrow> Inl err | Inr json \<Rightarrow> unmarshal json)))"

definition ListedPaths :: "go_error + string list \<Rightarrow> string list" where
  "ListedPaths answer = (case answer of Inl _ \<Rightarrow> [] | Inr ps \<Rightarrow> ps)"

datatype proxy_reply =
    Forward http_request
  | EmptyAPIVersions
  | Unavailable string

definition header_add :: "string \<Rightarrow> string \<Rightarrow> url_values \<Rightarrow> url_values" where
  "header_add k v hs = add_value k v hs"

text \<open>
  A request of a user who is no admin carries the user's identity. The order of the calls is the code's: the
  groups are added to those that are there, user and uid are set.
\<close>

definition impersonation_headers :: "user_info \<Rightarrow> url_values \<Rightarrow> url_values" where
  "impersonation_headers u hs =
     (if adminGroup \<in> set (us_Groups u) then hs
      else header_set ''Impersonate-Uid'' (us_UID u) (header_set ''Impersonate-User'' (us_Name u)
             (foldl (\<lambda>m g. header_add ''Impersonate-Group'' g m) hs (us_Groups u))))"

text \<open>
  \<open>ServeHTTP\<close> of the delegation target: \<open>tls\<close> is the transport, \<open>enabled\<close> says whether this device runs a server.
\<close>

definition proxy_serve :: "string \<Rightarrow> go_error + 't \<Rightarrow> bool \<Rightarrow> user_info option \<Rightarrow> http_request \<Rightarrow> proxy_reply" where
  "proxy_serve targetHost tls enabled usr r =
     (let api_root = (rq_path r = ''/api'' \<or> rq_path r = ''/api/'');
          u = (case usr of Some u \<Rightarrow> u | None \<Rightarrow> \<lparr>us_Name = Anonymous, us_UID = [], us_Groups = []\<rparr>)
      in if isl tls then
           (if api_root then EmptyAPIVersions else Unavailable ''failed to load target apiserver's TLS config'')
         else if \<not> enabled then
           (if api_root then EmptyAPIVersions else Unavailable ''server is disabled on this device'')
         else Forward (r\<lparr>rq_host := targetHost, rq_headers := impersonation_headers u (rq_headers r)\<rparr>))"

text \<open>
  \<open>APIGroupListCompletionFilter\<close>: for \<open>/apis\<close> the groups of the cluster are appended to the device's own, unless
  they cannot be had or the device's answer is no list. The answers of the two sides are the parameters.
\<close>

definition group_list_filter ::
  "bool \<Rightarrow> (go_error + 'g list) \<Rightarrow> nat \<times> ('g list) option \<Rightarrow> string \<Rightarrow> nat \<times> ('g list) option" where
  "group_list_filter enabled backend own path =
     (if path_clean path = ''/apis'' \<and> enabled then
        (case backend of
           Inl _ \<Rightarrow> own
         | Inr bg \<Rightarrow> if fst own \<noteq> 200 then own else (200, map_option (\<lambda>gs. gs @ bg) (snd own)))
      else own)"

section \<open>The handler chain\<close>

datatype reply =
    Redirect bool string string
  | ServeAPI
  | ServeUI
  | ServeIngress

definition loopback :: "http_request \<Rightarrow> bool" where
  "loopback r \<longleftrightarrow> prefix ''127.0.0.1'' (rq_remote r)"

definition ForceHTTPS :: "(http_request \<Rightarrow> reply) \<Rightarrow> http_request \<Rightarrow> reply" where
  "ForceHTTPS h r = (if \<not> rq_tls r \<and> \<not> loopback r then Redirect True (rq_host r) (rq_path r) else h r)"

definition ForceHTTPSHost :: "string \<Rightarrow> (http_request \<Rightarrow> reply) \<Rightarrow> http_request \<Rightarrow> reply" where
  "ForceHTTPSHost host h r =
     (if rq_host r \<noteq> to_lower host \<and> \<not> loopback r then Redirect True (to_lower host) ''/'' else h r)"

definition rootPathHandler :: "http_request \<Rightarrow> reply" where
  "rootPathHandler r =
     (if rq_path r = ''/'' then
        (if prefix ''application/json'' (case map_of (rq_headers r) ''Accept'' of Some (v # _) \<Rightarrow> v | _ \<Rightarrow> []) then ServeAPI
         else Redirect (rq_tls r) (rq_host r) ''/ui/'')
      else ServeIngress)"

definition apiPaths :: "string list" where
  "apiPaths = [''/api'', ''/apis'', ''/readyz'', ''/healthz'', ''/livez'', ''/metrics'', ''/openapi'', ''/.well-known'', ''/version'']"

text \<open>
  The mux of Go's standard library (paths without percent-encoding): the path is cleaned, but keeps its slash at
  the end; a pattern that ends with a slash serves the paths below it, and its path without the slash is
  redirected to it. A request whose path was not clean is redirected to the clean one.
\<close>

definition mux_clean :: "string \<Rightarrow> string" where
  "mux_clean p =
     (let q = (if p = [] \<or> hd p \<noteq> CHR ''/'' then CHR ''/'' # p else p); c = path_clean q
      in if last q = CHR ''/'' \<and> c \<noteq> ''/'' then c @ ''/'' else c)"

definition serve_mux :: "http_request \<Rightarrow> reply" where
  "serve_mux r =
     (let p = mux_clean (rq_path r)
      in if list_contains (''/ui'' # apiPaths) p then Redirect (rq_tls r) (rq_host r) (p @ ''/'')
         else if p \<noteq> rq_path r then Redirect (rq_tls r) (rq_host r) p
         else if list_ex (\<lambda>a. prefix (a @ ''/'') p) apiPaths then ServeAPI
         else if prefix ''/ui/'' p then ServeUI
         else rootPathHandler r)"

definition externalAddr :: "string \<Rightarrow> int \<Rightarrow> string" where
  "externalAddr deviceName httpsPort = (if httpsPort = 443 then deviceName else deviceName @ '':'' @ show_int httpsPort)"

definition server_handler :: "string \<Rightarrow> int \<Rightarrow> http_request \<Rightarrow> reply" where
  "server_handler deviceName httpsPort =
     ForceHTTPSHost (externalAddr deviceName httpsPort) (ForceHTTPS serve_mux)"

text \<open>A client that follows redirects: the next request, with the same address and headers.\<close>

fun follow :: "(http_request \<Rightarrow> reply) \<Rightarrow> nat \<Rightarrow> http_request \<Rightarrow> reply" where
  "follow h 0 r = h r"
| "follow h (Suc n) r =
     (case h r of
        Redirect tls host path \<Rightarrow> follow h n (r\<lparr>rq_tls := tls, rq_host := host, rq_path := path\<rparr>)
      | x \<Rightarrow> x)"

section \<open>Interfaces\<close>

definition detectIfaces :: "go_error + string list \<Rightarrow> go_error + string list" where
  "detectIfaces ifaces =
     (case ifaces of
        Inl err \<Rightarrow> Inl err
      | Inr names \<Rightarrow> Inr (filter (\<lambda>n. list_ex (\<lambda>p. prefix p n) [''enp'', ''wlp'', ''eth'', ''wlan'']) names))"

text \<open>The address of the API on the device itself.\<close>

definition localAddr :: "int \<Rightarrow> string" where
  "localAddr httpPort = (if httpPort = 80 then ''http://127.0.0.1'' else ''http://127.0.0.1:'' @ show_int httpPort)"

text \<open>
  When a process of the wifi component ends, the resources of the wifi interfaces are written unchanged, so that
  their reconciler sees an event; a failed write is logged.
\<close>

definition wifi_process_exit :: "('s, netif) store_ops \<Rightarrow> env \<Rightarrow> 's \<Rightarrow> 's" where
  "wifi_process_exit ops e s =
     foldl (\<lambda>s iface.
       if nl_Type (ns_Link (nif_Status (body iface))) = NetworkInterfaceTypeWifi
       then fst (op_update ops e s (om_Name (md iface)) (\<lambda>r. Inr r)) else s) s (ll_Items (op_list ops s))"

section \<open>Redirects end\<close>

lemma mux_clean_rooted: "mux_clean p \<noteq> [] \<and> hd (mux_clean p) = CHR ''/''"
proof -
  have "q \<noteq> [] \<Longrightarrow> hd q = CHR ''/'' \<Longrightarrow> path_clean q \<noteq> [] \<and> hd (path_clean q) = CHR ''/''" for q
    using path_clean_rooted [of q] by fastforce
  then show ?thesis by (auto simp: mux_clean_def Let_def)
qed

lemma mux_clean_idem: "mux_clean (mux_clean p) = mux_clean p"
proof -
  define q where "q = (if p = [] \<or> hd p \<noteq> CHR ''/'' then CHR ''/'' # p else p)"
  have q: "q \<noteq> []" "hd q = CHR ''/''" by (auto simp: q_def)
  have c: "path_clean q \<noteq> []" "hd (path_clean q) = CHR ''/''" using path_clean_rooted [OF q] by auto
  have "mux_clean (path_clean q) = path_clean q"
    using c path_clean_last [OF q] by (auto simp: mux_clean_def path_clean_idem [OF q] Let_def)
  moreover have "mux_clean (path_clean q @ ''/'') = path_clean q @ ''/''" if "path_clean q \<noteq> ''/''"
    using c that by (simp add: mux_clean_def path_clean_slash_end path_clean_idem [OF q])
  moreover have "mux_clean p = (if last q = CHR ''/'' \<and> path_clean q \<noteq> ''/'' then path_clean q @ ''/'' else path_clean q)"
    by (simp add: mux_clean_def q_def Let_def)
  ultimately show ?thesis by simp
qed

definition is_redirect :: "reply \<Rightarrow> bool" where
  "is_redirect x = (case x of Redirect _ _ _ \<Rightarrow> True | _ \<Rightarrow> False)"

text \<open>The paths the mux redirects to, in the end.\<close>

lemma serve_mux_slash:
  assumes "list_contains (''/ui'' # apiPaths) p" "rq_path r = p @ ''/''"
  shows "\<not> is_redirect (serve_mux r)"
  using assms by (auto simp: list_contains_def apiPaths_def serve_mux_def mux_clean_def path_clean_def clean_elements_def
    is_redirect_def)

lemma serve_mux_ui: "rq_path r = ''/ui/'' \<Longrightarrow> serve_mux r = ServeUI"
  by (simp add: serve_mux_def mux_clean_def path_clean_def clean_elements_def list_contains_def apiPaths_def)

lemma serve_mux_clean:
  assumes "mux_clean (rq_path r) = rq_path r" "\<not> list_contains (''/ui'' # apiPaths) (rq_path r)"
  shows "\<not> is_redirect (serve_mux r) \<or> serve_mux r = Redirect (rq_tls r) (rq_host r) ''/ui/''"
  using assms by (auto simp: serve_mux_def rootPathHandler_def is_redirect_def Let_def)

lemma serve_mux_redirect:
  assumes "is_redirect (serve_mux r)"
  shows "\<exists>p. serve_mux r = Redirect (rq_tls r) (rq_host r) p \<and>
    (p = ''/ui/'' \<or> (\<exists>a. list_contains (''/ui'' # apiPaths) a \<and> p = a @ ''/'') \<or>
     mux_clean p = p \<and> \<not> list_contains (''/ui'' # apiPaths) p)"
proof -
  consider "list_contains (''/ui'' # apiPaths) (mux_clean (rq_path r))"
    | "\<not> list_contains (''/ui'' # apiPaths) (mux_clean (rq_path r))" "mux_clean (rq_path r) \<noteq> rq_path r"
    | "\<not> list_contains (''/ui'' # apiPaths) (mux_clean (rq_path r))" "mux_clean (rq_path r) = rq_path r" by blast
  then show ?thesis
  proof cases
    case 1
    then show ?thesis by (auto simp: serve_mux_def)
  next
    case 2
    then show ?thesis by (auto simp: serve_mux_def mux_clean_idem)
  next
    case 3
    then show ?thesis using serve_mux_clean [of r] assms by auto
  qed
qed

text \<open>A request the two middlewares let pass stays one when it follows a redirect of the mux.\<close>

definition passes :: "string \<Rightarrow> http_request \<Rightarrow> bool" where
  "passes host r \<longleftrightarrow> rq_host r = to_lower host \<and> rq_tls r \<or> loopback r"

lemma follow_step:
  "h r = Redirect tls host p \<Longrightarrow> follow h (Suc n) r = follow h n (r\<lparr>rq_tls := tls, rq_host := host, rq_path := p\<rparr>)"
  "h r = Redirect (rq_tls r) (rq_host r) p \<Longrightarrow> follow h (Suc n) r = follow h n (r\<lparr>rq_path := p\<rparr>)"
  by simp_all

declare follow.simps(2) [simp del]

lemma passes_mux:
  "passes (externalAddr d port) r \<Longrightarrow> server_handler d port r = serve_mux r"
  "passes host (r\<lparr>rq_path := p\<rparr>) = passes host r"
  by (auto simp: passes_def server_handler_def ForceHTTPSHost_def ForceHTTPS_def loopback_def)

lemma follow_done: "\<not> is_redirect (h r) \<Longrightarrow> follow h n r = h r"
  by (cases n) (auto simp: is_redirect_def follow.simps(2) split: reply.splits)

lemma follow_clean:
  assumes "passes (externalAddr d port) r" "mux_clean (rq_path r) = rq_path r"
    "\<not> list_contains (''/ui'' # apiPaths) (rq_path r)"
  shows "\<not> is_redirect (follow (server_handler d port) (Suc n) r)"
proof (cases "is_redirect (serve_mux r)")
  case True
  then have "serve_mux r = Redirect (rq_tls r) (rq_host r) ''/ui/''" using serve_mux_clean [OF assms(2,3)] by simp
  moreover have "serve_mux (r\<lparr>rq_path := ''/ui/''\<rparr>) = ServeUI" by (rule serve_mux_ui) simp
  ultimately show ?thesis
    using assms(1) by (simp add: follow_step(2) [of _ r] passes_mux follow_done is_redirect_def)
qed (simp add: follow_done passes_mux(1) [OF assms(1)])

lemma follow_passes:
  assumes "passes (externalAddr d port) r"
  shows "\<not> is_redirect (follow (server_handler d port) (Suc (Suc n)) r)"
proof (cases "is_redirect (serve_mux r)")
  case True
  then obtain p where p: "serve_mux r = Redirect (rq_tls r) (rq_host r) p"
      "p = ''/ui/'' \<or> (\<exists>a. list_contains (''/ui'' # apiPaths) a \<and> p = a @ ''/'') \<or>
       mux_clean p = p \<and> \<not> list_contains (''/ui'' # apiPaths) p"
    using serve_mux_redirect by blast
  have ok: "passes (externalAddr d port) (r\<lparr>rq_path := p\<rparr>)" using assms by (simp add: passes_mux)
  have step: "follow (server_handler d port) (Suc (Suc n)) r = follow (server_handler d port) (Suc n) (r\<lparr>rq_path := p\<rparr>)"
    using p(1) by (intro follow_step(2)) (simp add: passes_mux(1) [OF assms])
  from p(2) show ?thesis
  proof (elim disjE exE conjE)
    assume "p = ''/ui/''"
    then have "serve_mux (r\<lparr>rq_path := p\<rparr>) = ServeUI" by (intro serve_mux_ui) simp
    then show ?thesis by (simp add: step follow_done passes_mux(1) [OF ok] is_redirect_def)
  next
    fix a assume a: "list_contains (''/ui'' # apiPaths) a" "p = a @ ''/''"
    then have "\<not> is_redirect (serve_mux (r\<lparr>rq_path := p\<rparr>))" by (intro serve_mux_slash) simp_all
    then show ?thesis using ok by (simp add: step follow_done passes_mux(1) [OF ok])
  next
    assume "mux_clean p = p" "\<not> list_contains (''/ui'' # apiPaths) p"
    then show ?thesis unfolding step using follow_clean [OF ok] by simp
  qed
qed (simp add: follow_done passes_mux(1) [OF assms])

text \<open>
  C31. Redirects end: whatever the request, a client that follows them is served after at most three, though
  the name, the scheme, the mux and the start page each redirect on their own.
\<close>

theorem redirects_end: "\<not> is_redirect (follow (server_handler d port) 3 r)"
proof -
  let ?host = "externalAddr d port"
  have num: "(3::nat) = Suc (Suc (Suc 0))" by simp
  consider "passes ?host r" | "\<not> loopback r" "rq_host r \<noteq> to_lower ?host"
    | "\<not> loopback r" "rq_host r = to_lower ?host" "\<not> rq_tls r" by (auto simp: passes_def)
  then show ?thesis
  proof cases
    case 1
    then show ?thesis unfolding num by (rule follow_passes)
  next
    case 2
    let ?r = "r\<lparr>rq_tls := True, rq_host := to_lower ?host, rq_path := ''/''\<rparr>"
    have "follow (server_handler d port) (Suc (Suc (Suc 0))) r = follow (server_handler d port) (Suc (Suc 0)) ?r"
      using 2 by (intro follow_step(1)) (simp add: server_handler_def ForceHTTPSHost_def)
    moreover have "passes ?host ?r" by (simp add: passes_def)
    ultimately show ?thesis unfolding num by (simp only: follow_passes not_False_eq_True)
  next
    case 3
    let ?r = "r\<lparr>rq_tls := True, rq_host := rq_host r, rq_path := rq_path r\<rparr>"
    have "follow (server_handler d port) (Suc (Suc (Suc 0))) r = follow (server_handler d port) (Suc (Suc 0)) ?r"
      using 3 by (intro follow_step(1)) (simp add: server_handler_def ForceHTTPSHost_def ForceHTTPS_def)
    moreover have "passes ?host ?r" using 3 by (simp add: passes_def)
    ultimately show ?thesis unfolding num by (simp only: follow_passes not_False_eq_True)
  qed
qed

section \<open>Who may do what\<close>

text \<open>
  The impersonation filter of the generic API server, as it documents itself: the user a request asks for is
  taken on if the authorizer allows the requestor the verb \<open>impersonate\<close> on that user and on each group asked
  for, resources of the core group.
\<close>

definition impersonate_attributes :: "string \<Rightarrow> string \<Rightarrow> attributes" where
  "impersonate_attributes res name = \<lparr>at_Group = [], at_Resource = res, at_Name = name, at_Verb = ''impersonate''\<rparr>"

definition impersonation_documented ::
  "((user_info \<Rightarrow> attributes \<Rightarrow> decision) \<Rightarrow> user_info \<Rightarrow> url_values \<Rightarrow> user_info option) \<Rightarrow> bool" where
  "impersonation_documented filt \<longleftrightarrow>
     (\<forall>authz u hs name groups.
        map_of hs ''Impersonate-User'' = Some [name] \<and> map_of hs ''Impersonate-Group'' = Some groups \<and>
        map_of hs ''Impersonate-Uid'' = None \<and> name \<noteq> [] \<and>
        authz u (impersonate_attributes ''users'' name) = Allow \<and>
        (\<forall>g \<in> set groups. authz u (impersonate_attributes ''groups'' g) = Allow) \<longrightarrow>
        (\<exists>v. filt authz u hs = Some v \<and> us_Name v = name \<and> set groups \<subseteq> set (us_Groups v)))"

text \<open>A request of the device API: authenticated, impersonated if it asks for it, authorized.\<close>

definition request_allowed ::
  "((user_info \<Rightarrow> attributes \<Rightarrow> decision) \<Rightarrow> user_info \<Rightarrow> url_values \<Rightarrow> user_info option) \<Rightarrow>
   user_info \<Rightarrow> url_values \<Rightarrow> attributes \<Rightarrow> bool" where
  "request_allowed filt u hs a =
     (case filt Authorize u hs of None \<Rightarrow> False | Some v \<Rightarrow> Authorize v a = Allow)"

lemma list_contains_iff [simp]: "list_contains l x \<longleftrightarrow> x \<in> set l"
  by (auto simp: list_contains_def list_ex_iff)

lemma authorize_device:
  "at_Group a = fst GroupVersion \<Longrightarrow>
   Authorize u a = Allow \<longleftrightarrow>
     adminGroup \<in> set (us_Groups u) \<or>
     us_Name u = Anonymous \<and> at_Resource a = ''devicediscovery'' \<and> at_Verb a \<in> {''get'', ''list'', ''watch''}"
  by (auto simp: Authorize_def readOnlyVerbs_def)

text \<open>Someone who has logged in without being an admin may do less than who has not, and less than the rules say.\<close>

lemma rules_exceed_authorization:
  assumes "us_Name u \<noteq> Anonymous" "adminGroup \<notin> set (us_Groups u)"
  shows "fst (RulesFor u) = [([''get'', ''list'', ''watch''], [fst GroupVersion], [''devicediscovery''])]"
    "Authorize u \<lparr>at_Group = fst GroupVersion, at_Resource = ''devicediscovery'', at_Name = n, at_Verb = ''get''\<rparr> \<noteq> Allow"
    "Authorize anonymous_user \<lparr>at_Group = fst GroupVersion, at_Resource = ''devicediscovery'', at_Name = n, at_Verb = ''get''\<rparr> = Allow"
  using assms by (simp_all add: RulesFor_def authorize_device anonymous_user_def)

text \<open>The controllers authenticate with a fixed token, which nothing but the accounts file can make valid.\<close>

lemma controllers_anonymous:
  assumes "controllerToken \<noteq> controllerBearerToken" "controllerBearerToken \<notin> fst ` set (accounts file token)"
  shows "authenticate file token controllerToken (Some controllerBearerToken) = anonymous_user"
proof -
  have "map_of (accounts file token) controllerBearerToken = None" using assms(2) by (simp add: map_of_eq_None_iff)
  then show ?thesis using assms(1) by (simp add: authenticate_def)
qed

text \<open>
  C21. Anyone is an admin who asks for it: the authorizer leaves every resource outside the device API to the
  cluster's API server, and the impersonation of a user or group is such a resource to it. So any caller,
  without a token or with a wrong one, may do anything with the device by naming a user and the group \<open>admin\<close>
  in the headers of the request.
\<close>

theorem impersonation_grants_admin:
  assumes "impersonation_documented filt" "name \<noteq> []"
  shows "request_allowed filt (authenticate file token controllerToken bearer)
    [(''Impersonate-User'', [name]), (''Impersonate-Group'', [adminGroup])] a"
proof -
  let ?u = "authenticate file token controllerToken bearer"
  let ?hs = "[(''Impersonate-User'', [name]), (''Impersonate-Group'', [adminGroup])]"
  have allow: "Authorize ?u (impersonate_attributes res n) = Allow" for res n
    by (simp add: Authorize_def impersonate_attributes_def GroupVersion_def)
  have "\<exists>v. filt Authorize ?u ?hs = Some v \<and> us_Name v = name \<and> set [adminGroup] \<subseteq> set (us_Groups v)"
    using assms(1) [unfolded impersonation_documented_def, rule_format, of ?hs name "[adminGroup]" Authorize ?u] assms(2)
    by (simp add: allow)
  then obtain v where "filt Authorize ?u ?hs = Some v" "set [adminGroup] \<subseteq> set (us_Groups v)" by blast
  then show ?thesis by (simp add: request_allowed_def Authorize_def)
qed

text \<open>Without the headers the filter changes nothing, and only admins change the device.\<close>

lemma device_api_protected:
  assumes "filt Authorize u hs = Some u" "adminGroup \<notin> set (us_Groups u)" "at_Group a = fst GroupVersion"
    "at_Verb a \<notin> {''get'', ''list'', ''watch''}"
  shows "\<not> request_allowed filt u hs a"
  using assms by (simp add: request_allowed_def authorize_device)

definition demo_filter :: "(user_info \<Rightarrow> attributes \<Rightarrow> decision) \<Rightarrow> user_info \<Rightarrow> url_values \<Rightarrow> user_info option" where
  "demo_filter authz u hs =
     (case map_of hs ''Impersonate-User'' of
        None \<Rightarrow> Some u
      | Some ns \<Rightarrow>
          (let gs = (case map_of hs ''Impersonate-Group'' of None \<Rightarrow> [] | Some gs \<Rightarrow> gs)
           in if authz u (impersonate_attributes ''users'' (hd ns)) = Allow \<and>
                 list_all (\<lambda>g. authz u (impersonate_attributes ''groups'' g) = Allow) gs
              then Some \<lparr>us_Name = hd ns, us_UID = [], us_Groups = gs @ [''system:authenticated'']\<rparr>
              else None))"

theorem impersonation_grants_admin_witness:
  "request_allowed demo_filter (authenticate None ''secret'' ''other'' None)
     [(''Impersonate-User'', [''x'']), (''Impersonate-Group'', [adminGroup])]
     \<lparr>at_Group = fst GroupVersion, at_Resource = ''devices'', at_Name = ''dev'', at_Verb = ''delete''\<rparr> \<and>
   us_Groups (authenticate None ''secret'' ''other'' None) = [''system:unauthenticated'']"
proof -
  have "impersonation_documented demo_filter"
    by (auto simp: impersonation_documented_def demo_filter_def Let_def list_all_iff)
  from impersonation_grants_admin [OF this, of "''x''"]
  have "request_allowed demo_filter (authenticate None ''secret'' ''other'' None)
     [(''Impersonate-User'', [''x'']), (''Impersonate-Group'', [adminGroup])] a" for a by simp
  then show ?thesis by (simp add: authenticate_def anonymous_user_def)
qed

text \<open>
  What the cluster's API server is told: of an admin nothing more than the request says, of anyone else the
  name, the id and the groups, in order, if the request itself has no such headers (the filter has removed them).
\<close>

lemma map_of_header_add:
  "map_of (header_add k v hs) k' =
     (if k' = k then Some ((case map_of hs k of None \<Rightarrow> [] | Some vs \<Rightarrow> vs) @ [v]) else map_of hs k')"
  by (simp add: header_add_def add_value_def update_conv)

lemma map_of_add_groups:
  "k \<noteq> ''Impersonate-Group'' \<Longrightarrow> map_of (foldl (\<lambda>m g. header_add ''Impersonate-Group'' g m) hs gs) k = map_of hs k"
  "gs \<noteq> [] \<Longrightarrow> map_of (foldl (\<lambda>m g. header_add ''Impersonate-Group'' g m) hs gs) ''Impersonate-Group'' =
     Some ((case map_of hs ''Impersonate-Group'' of None \<Rightarrow> [] | Some vs \<Rightarrow> vs) @ gs)"
proof -
  show "k \<noteq> ''Impersonate-Group'' \<Longrightarrow> map_of (foldl (\<lambda>m g. header_add ''Impersonate-Group'' g m) hs gs) k = map_of hs k"
    by (induction gs arbitrary: hs) (simp_all add: map_of_header_add)
next
  have "map_of (foldl (\<lambda>m g. header_add ''Impersonate-Group'' g m) hs (g # gs)) ''Impersonate-Group'' =
     Some ((case map_of hs ''Impersonate-Group'' of None \<Rightarrow> [] | Some vs \<Rightarrow> vs) @ g # gs)" for g gs
  proof (induction gs arbitrary: g hs)
    case (Cons a gs)
    show ?case using Cons.IH [of "header_add ''Impersonate-Group'' g hs" a] by (simp add: map_of_header_add)
  qed (simp add: map_of_header_add)
  then show "gs \<noteq> [] \<Longrightarrow> map_of (foldl (\<lambda>m g. header_add ''Impersonate-Group'' g m) hs gs) ''Impersonate-Group'' =
     Some ((case map_of hs ''Impersonate-Group'' of None \<Rightarrow> [] | Some vs \<Rightarrow> vs) @ gs)"
    by (cases gs) simp_all
qed

lemma proxy_identity:
  assumes "map_of (rq_headers r) ''Impersonate-Group'' = None" "adminGroup \<notin> set (us_Groups u)"
    and "proxy_serve host tls enabled (Some u) r = Forward r'"
  shows "map_of (rq_headers r') ''Impersonate-User'' = Some [us_Name u]"
    "map_of (rq_headers r') ''Impersonate-Uid'' = Some [us_UID u]"
    "map_of (rq_headers r') ''Impersonate-Group'' = (if us_Groups u = [] then None else Some (us_Groups u))"
    "rq_host r' = host" "rq_path r' = rq_path r"
proof -
  have r': "r' = r\<lparr>rq_host := host, rq_headers := impersonation_headers u (rq_headers r)\<rparr>"
    using assms(3) by (auto simp: proxy_serve_def Let_def split: if_splits)
  show "map_of (rq_headers r') ''Impersonate-User'' = Some [us_Name u]"
    "map_of (rq_headers r') ''Impersonate-Uid'' = Some [us_UID u]"
    "rq_host r' = host" "rq_path r' = rq_path r"
    using assms(2) by (simp_all add: r' impersonation_headers_def header_set_def update_conv)
  show "map_of (rq_headers r') ''Impersonate-Group'' = (if us_Groups u = [] then None else Some (us_Groups u))"
    using assms(1,2) by (simp add: r' impersonation_headers_def header_set_def update_conv map_of_add_groups)
qed

text \<open>An ingress can be reached under the device's own name only: any other host is redirected.\<close>

lemma ingress_hosts_redirected:
  "\<not> loopback r \<Longrightarrow> rq_host r \<noteq> to_lower (externalAddr d port) \<Longrightarrow>
   server_handler d port r = Redirect True (to_lower (externalAddr d port)) ''/''"
  by (simp add: server_handler_def ForceHTTPSHost_def)

text \<open>The event that a wifi process has ended changes no interface's configuration or status.\<close>

context storage
begin

lemma touch_keeps:
  assumes "inv s"
  shows "inv (fst (op_update ops e s k (\<lambda>r. Inr r)))"
    "map_option body (view (fst (op_update ops e s k (\<lambda>r. Inr r))) k') = map_option body (view s k')"
proof -
  obtain s' r where u: "op_update ops e s k (\<lambda>r. Inr r) = (s', r)" by fastforce
  show "inv (fst (op_update ops e s k (\<lambda>r. Inr r)))" by (rule update_inv [OF assms])
  show "map_option body (view (fst (op_update ops e s k (\<lambda>r. Inr r))) k') = map_option body (view s k')"
  proof (cases r)
    case (Inl err)
    then show ?thesis using update_fail [OF assms] u by simp
  next
    case (Inr r')
    then show ?thesis using update_ok [OF assms, of e k "\<lambda>r. Inr r" s' r'] u by auto
  qed
qed

end

lemma wifi_process_exit_keeps:
  assumes "fs_inv s"
  shows "fs_inv (wifi_process_exit (fs_ops codec netif_rt) e s) \<and>
    map_option body (fs_view (wifi_process_exit (fs_ops codec netif_rt) e s) k) = map_option body (fs_view s k)"
proof -
  let ?f = "\<lambda>s iface. if nl_Type (ns_Link (nif_Status (body iface))) = NetworkInterfaceTypeWifi
       then fst (op_update (fs_ops codec netif_rt) e s (om_Name (md iface)) (\<lambda>r. Inr r)) else s"
  have "fs_inv t \<Longrightarrow> fs_inv (foldl ?f t its) \<and> map_option body (fs_view (foldl ?f t its) k) = map_option body (fs_view t k)" for t its
  proof (induction its arbitrary: t)
    case (Cons i its)
    from Cons.IH [of "?f t i"] Cons.prems fs.touch_keeps [OF Cons.prems] show ?case by (auto split: if_splits)
  qed simp
  from this [OF assms] show ?thesis unfolding wifi_process_exit_def by blast
qed

end
