(* ===== verification/Apps.thy ===== *)
theory Apps
  imports Names
begin

text \<open>
  The reconciler of apps (\<open>pkg/reconciler/app/app_reconciler.go\<close>): an app is installed by a Kustomization of
  Flux, which gets the app's configuration as a secret named by its content. The API server is a parameter: its
  answer to each read and each write. A reconcile gives the writes it makes, in order, and its result.
\<close>

section \<open>Resources\<close>

definition AppStateNotInstalled :: string where "AppStateNotInstalled = ''NotInstalled''"
definition AppStateInstalling :: string where "AppStateInstalling = ''Installing''"
definition AppStateUpgrading :: string where "AppStateUpgrading = ''Upgrading''"
definition AppStateInstalled :: string where "AppStateInstalled = ''Installed''"
definition AppStateDeinstalling :: string where "AppStateDeinstalling = ''Deinstalling''"
definition AppStateError :: string where "AppStateError = ''Error''"
definition AppStateConfigRequired :: string where "AppStateConfigRequired = ''ConfigRequired''"

definition finalizerKubemate :: string where "finalizerKubemate = ''kubemate.mgoltzsche.github.com''"

record source_ref =
  sr_Kind :: string
  sr_Name :: string
  sr_Namespace :: string

record app_kustomization =
  ak_SourceRef :: source_ref
  ak_Path :: string
  ak_Timeout :: "int option"

record app_status =
  as_ObservedGeneration :: int
  as_State :: string
  as_Message :: string
  as_LastAppliedRevision :: string
  as_LastAttemptedRevision :: string
  as_ConfigSchemaName :: string
  as_ConfigSecretName :: string

record app =
  ap_Name :: string
  ap_Namespace :: string
  ap_Generation :: int
  ap_Finalizers :: "string list"
  ap_Deleted :: bool
  ap_Enabled :: "bool option"
  ap_Kustomization :: "app_kustomization option"
  ap_Status :: app_status

record param_definition =
  pd_Name :: string
  pd_Title :: string

record config_schema =
  cs_Name :: string
  cs_Params :: "param_definition list"

text \<open>The data of a secret; \<open>None\<close> is Go's nil map.\<close>

type_synonym secret_data = "(string \<times> string) list option"

definition secret_key :: "secret_data \<Rightarrow> string \<Rightarrow> string option" where
  "secret_key d k = (case d of None \<Rightarrow> None | Some m \<Rightarrow> map_of m k)"

text \<open>
  A Kustomization of Flux: of its spec what the reconciler sets, and the settings it does not know; of its
  status the conditions and revisions. Maps are lists in the order of the keys.
\<close>

record condition =
  co_Type :: string
  co_Status :: string
  co_ObservedGeneration :: int
  co_Reason :: string
  co_Message :: string

record kustomization_spec =
  ks_SourceRef :: source_ref
  ks_Path :: string
  ks_Timeout :: "int option"
  ks_Prune :: bool
  ks_Wait :: bool
  ks_Substitute :: "(string \<times> string) list"
  ks_other :: "(string \<times> string) list"

record kustomization =
  ku_Name :: string
  ku_Namespace :: string
  ku_Generation :: int
  ku_Owners :: "string list"
  ku_Spec :: kustomization_spec
  ku_Conditions :: "condition list"
  ku_LastAppliedRevision :: string
  ku_LastAttemptedRevision :: string

definition zero_source_ref :: source_ref where
  "zero_source_ref = \<lparr>sr_Kind = [], sr_Name = [], sr_Namespace = []\<rparr>"

definition new_kustomization :: kustomization where
  "new_kustomization = \<lparr>ku_Name = [], ku_Namespace = [], ku_Generation = 0, ku_Owners = [],
     ku_Spec = \<lparr>ks_SourceRef = zero_source_ref, ks_Path = [], ks_Timeout = None, ks_Prune = False, ks_Wait = False,
                ks_Substitute = [], ks_other = []\<rparr>,
     ku_Conditions = [], ku_LastAppliedRevision = [], ku_LastAttemptedRevision = []\<rparr>"

section \<open>The API server\<close>

text \<open>
  \<open>aa_update_app\<close> and the other writes answer with an error or the object as the API server has it then.
\<close>

record app_api =
  aa_app :: "go_error + app"
  aa_kustomization :: "go_error + kustomization"
  aa_secret :: "string \<Rightarrow> go_error + secret_data"
  aa_schema :: "go_error + config_schema"
  aa_set_owner :: "go_error option"
  aa_update_app :: "app \<Rightarrow> go_error option"
  aa_create_secret :: "string \<Rightarrow> secret_data \<Rightarrow> go_error option"
  aa_create_kustomization :: "kustomization \<Rightarrow> go_error + kustomization"
  aa_update_kustomization :: "kustomization \<Rightarrow> go_error + kustomization"
  aa_delete_kustomization :: "go_error option"

datatype app_write =
    UpdateApp app
  | UpdateStatus app
  | CreateSecret string secret_data
  | CreateKustomization kustomization
  | UpdateKustomization kustomization
  | DeleteKustomization

section \<open>Configuration\<close>

definition defaultConfigSecretName :: "app \<Rightarrow> string" where
  "defaultConfigSecretName a = ap_Name a @ ''-defaultconfig''"

definition defaultConfigSecret :: "app_api \<Rightarrow> app \<Rightarrow> go_error + secret_data" where
  "defaultConfigSecret api a =
     (case aa_secret api (defaultConfigSecretName a) of
        Inl err \<Rightarrow> if is_not_found err then Inr None else Inl err
      | Inr d \<Rightarrow> Inr d)"

text \<open>The first parameter, by its index, that has no name or no value stops it.\<close>

fun validate_params :: "nat \<Rightarrow> param_definition list \<Rightarrow> secret_data option \<Rightarrow> secret_data \<Rightarrow> app_status \<Rightarrow> app_status" where
  "validate_params i [] custom defaults st = st"
| "validate_params i (p # ps) custom defaults st =
     (if pd_Name p = [] then
        st\<lparr>as_State := AppStateError,
           as_Message := ''invalid parameter definition: no name specified for app parameter definition '' @ show_nat i\<rparr>
      else
        (let notUserDefined = (case custom of None \<Rightarrow> True | Some d \<Rightarrow> secret_key d (pd_Name p) = None);
             notDefault = (secret_key defaults (pd_Name p) = None)
         in if notDefault \<and> notUserDefined then
              st\<lparr>as_State := AppStateConfigRequired,
                 as_Message := (if pd_Title p = [] then pd_Name p else pd_Title p) @ '' must be specified''\<rparr>
            else validate_params (Suc i) ps custom defaults st))"

definition validateConfiguration :: "config_schema \<Rightarrow> secret_data option \<Rightarrow> secret_data \<Rightarrow> app_status \<Rightarrow> app_status" where
  "validateConfiguration cs custom defaults st = validate_params 0 (cs_Params cs) custom defaults st"

definition zero_condition :: condition where
  "zero_condition = \<lparr>co_Type = [], co_Status = [], co_ObservedGeneration = 0, co_Reason = [], co_Message = []\<rparr>"

definition getCondition :: "condition list \<Rightarrow> string \<Rightarrow> condition" where
  "getCondition cs name = (case find (\<lambda>c. co_Type c = name) cs of None \<Rightarrow> zero_condition | Some c \<Rightarrow> c)"

definition configSchema :: "app_api \<Rightarrow> go_error + config_schema option" where
  "configSchema api =
     (case aa_schema api of
        Inl err \<Rightarrow> if is_not_found err then Inr None else Inl (Wrap ''load app config schema: '' err)
      | Inr cs \<Rightarrow> Inr (Some cs))"

text \<open>
  The copy of the user's configuration is named by its content; \<open>json.Marshal\<close> of the data is the parameter
  \<open>marshal\<close>. The name never exceeds the limit, so \<open>TruncateName\<close> does not panic (see below).
\<close>

definition secret_hash :: "(secret_data \<Rightarrow> string) \<Rightarrow> secret_data \<Rightarrow> string" where
  "secret_hash marshal d = sha256_hex (marshal d)"

definition userconfig_name :: "app \<Rightarrow> string" where
  "userconfig_name a = ap_Name a @ ''-userconfig''"

definition config_secret_name :: "(secret_data \<Rightarrow> string) \<Rightarrow> app \<Rightarrow> secret_data \<Rightarrow> string go" where
  "config_secret_name marshal a d = TruncateName (userconfig_name a @ ''-'' @ secret_hash marshal d) 63"

definition set_secret_name :: "string \<Rightarrow> app \<Rightarrow> app" where
  "set_secret_name n a = a\<lparr>ap_Status := (ap_Status a)\<lparr>as_ConfigSecretName := n\<rparr>\<rparr>"

definition reconcileSecret ::
  "app_api \<Rightarrow> (secret_data \<Rightarrow> string) \<Rightarrow> app \<Rightarrow> (app_write list \<times> app \<times> (go_error + secret_data option)) go" where
  "reconcileSecret api marshal a =
     (case aa_secret api (userconfig_name a) of
        Inl err \<Rightarrow>
          Ret (if is_not_found err then ([], set_secret_name (defaultConfigSecretName a) a, Inr None) else ([], a, Inl err))
      | Inr src \<Rightarrow>
          go_bind (config_secret_name marshal a src) (\<lambda>name.
            Ret (case aa_secret api name of
                   Inr _ \<Rightarrow> ([], set_secret_name name a, Inr (Some src))
                 | Inl err \<Rightarrow>
                     if \<not> is_not_found err then ([], a, Inl err)
                     else
                       (case aa_set_owner api of
                          Some err \<Rightarrow> ([], a, Inl err)
                        | None \<Rightarrow>
                            (case aa_create_secret api name src of
                               Some err \<Rightarrow> ([CreateSecret name src], a, Inl err)
                             | None \<Rightarrow> ([CreateSecret name src], set_secret_name name a, Inr (Some src)))))))"

section \<open>The Kustomization\<close>

definition desired_spec :: "app \<Rightarrow> app_kustomization \<Rightarrow> kustomization_spec" where
  "desired_spec a ak =
     \<lparr>ks_SourceRef = ak_SourceRef ak, ks_Path = ak_Path ak, ks_Timeout = ak_Timeout ak, ks_Prune = True, ks_Wait = True,
      ks_Substitute = [(''APP_CONFIG_SECRET_NAME'', as_ConfigSecretName (ap_Status a)), (''APP_NAME'', ap_Name a)],
      ks_other = []\<rparr>"

definition app_enabled :: "app \<Rightarrow> bool" where
  "app_enabled a \<longleftrightarrow> ap_Enabled a = Some True"

definition set_owner_reference :: "app \<Rightarrow> kustomization \<Rightarrow> kustomization" where
  "set_owner_reference a k = k\<lparr>ku_Owners := List.insert (ap_Name a) (ku_Owners k)\<rparr>"

text \<open>A write that fails leaves the object as it was sent.\<close>

definition written :: "kustomization \<Rightarrow> go_error + kustomization \<Rightarrow> kustomization \<times> go_error option" where
  "written k res = (case res of Inl err \<Rightarrow> (k, Some err) | Inr k' \<Rightarrow> (k', None))"

definition reconcileKustomization ::
  "app_api \<Rightarrow> app \<Rightarrow> app_kustomization \<Rightarrow> app_write list \<times> kustomization \<times> go_error option" where
  "reconcileKustomization api a ak =
     (let got = aa_kustomization api; found = \<not> isl got;
          k = (case got of Inl _ \<Rightarrow> new_kustomization | Inr k \<Rightarrow> k)
      in if isl got \<and> \<not> is_not_found (projl got) then ([], k, Some (projl got))
         else if app_enabled a then
           (let k1 = k\<lparr>ku_Name := ap_Name a, ku_Namespace := ap_Namespace a, ku_Spec := desired_spec a ak\<rparr>
            in case aa_set_owner api of
                 Some err \<Rightarrow> ([], k1, Some err)
               | None \<Rightarrow>
                   (let k2 = set_owner_reference a k1
                    in if found then
                         (if ku_Spec k \<noteq> ku_Spec k2 then
                            ([UpdateKustomization k2], written k2 (aa_update_kustomization api k2))
                          else ([], k2, None))
                       else ([CreateKustomization k2], written k2 (aa_create_kustomization api k2))))
         else if found then ([DeleteKustomization], k, aa_delete_kustomization api)
         else ([], k, None))"

definition deleteKustomization :: "app_api \<Rightarrow> app_write list \<times> (go_error + bool)" where
  "deleteKustomization api =
     (case aa_kustomization api of
        Inl err \<Rightarrow> ([], if is_not_found err then Inr True else Inl err)
      | Inr k \<Rightarrow>
          ([DeleteKustomization],
           case aa_delete_kustomization api of
             None \<Rightarrow> Inr False
           | Some err \<Rightarrow> if is_not_found err then Inr True else Inl err))"

section \<open>The status\<close>

definition status_error :: "string \<Rightarrow> app \<Rightarrow> app" where
  "status_error msg a = a\<lparr>ap_Status := (ap_Status a)\<lparr>as_State := AppStateError, as_Message := msg\<rparr>\<rparr>"

text \<open>The deferred update: only if state, message or schema have changed.\<close>

definition status_writes :: "app_status \<Rightarrow> kustomization \<Rightarrow> app \<Rightarrow> app_write list" where
  "status_writes old k a =
     (let st = ap_Status a
      in if as_State st \<noteq> as_State old \<or> as_Message st \<noteq> as_Message old \<or> as_ConfigSchemaName old \<noteq> as_ConfigSchemaName st
         then [UpdateStatus (a\<lparr>ap_Status := st\<lparr>as_ObservedGeneration := ap_Generation a,
                 as_LastAppliedRevision := ku_LastAppliedRevision k, as_LastAttemptedRevision := ku_LastAttemptedRevision k\<rparr>\<rparr>)]
         else [])"

text \<open>The status of an enabled app, from the Kustomization and its condition.\<close>

definition enabled_status ::
  "kustomization \<Rightarrow> config_schema option \<Rightarrow> secret_data option \<Rightarrow> secret_data \<Rightarrow> app_status \<Rightarrow> app_status" where
  "enabled_status k cs custom defaults st =
     (let c = getCondition (ku_Conditions k) ''Ready'';
          validate = (\<lambda>st. case cs of None \<Rightarrow> st | Some cs \<Rightarrow> validateConfiguration cs custom defaults st)
      in if co_ObservedGeneration c = ku_Generation k then
           (if co_Status c = ''True'' then validate (st\<lparr>as_State := AppStateInstalled\<rparr>)
            else if co_Status c = ''False'' then
              validate (st\<lparr>as_State := AppStateError, as_Message := co_Reason c @ '': '' @ co_Message c\<rparr>)
            else
              (let st1 = validate (st\<lparr>as_State := (if ku_LastAppliedRevision k = ku_LastAttemptedRevision k then AppStateInstalling
                                                  else AppStateUpgrading)\<rparr>);
                   msg = (if cs = None \<or> as_Message st1 = [] then [] else as_Message st1 @ ''. '')
               in st1\<lparr>as_Message := co_Reason c @ '': '' @ msg @ co_Message c\<rparr>))
         else validate (st\<lparr>as_State := AppStateInstalling\<rparr>))"

definition app_report_status ::
  "app_api \<Rightarrow> kustomization \<Rightarrow> secret_data option \<Rightarrow> app \<Rightarrow> app \<times> go_error option" where
  "app_report_status api k custom a =
     (case configSchema api of
        Inl err \<Rightarrow> (status_error (error_text err) a, None)
      | Inr cs \<Rightarrow>
          (let st = (ap_Status a)\<lparr>as_ConfigSchemaName := (case cs of None \<Rightarrow> [] | Some c \<Rightarrow> cs_Name c), as_Message := []\<rparr>
           in if \<not> app_enabled a then
                (a\<lparr>ap_Status := st\<lparr>as_State := (if 0 < ku_Generation k then AppStateDeinstalling else AppStateNotInstalled)\<rparr>\<rparr>, None)
              else
                (case defaultConfigSecret api a of
                   Inl err \<Rightarrow> (a\<lparr>ap_Status := st\<rparr>, Some err)
                 | Inr defaults \<Rightarrow> (a\<lparr>ap_Status := enabled_status k cs custom defaults st\<rparr>, None))))"

section \<open>The reconcile\<close>

definition reconcile_install ::
  "app_api \<Rightarrow> (secret_data \<Rightarrow> string) \<Rightarrow> app_kustomization \<Rightarrow> app \<Rightarrow> (app_write list \<times> go_error option) go" where
  "reconcile_install api marshal ak a =
     go_bind (reconcileSecret api marshal a) (\<lambda>(ws, a1, sec). Ret
       (case sec of
          Inl err \<Rightarrow> (ws, Some err)
        | Inr custom \<Rightarrow>
            (case reconcileKustomization api a1 ak of
               (ws2, k, Some err) \<Rightarrow>
                 (let a2 = (if is_conflict err then a1 else status_error (error_text err) a1)
                  in (ws @ ws2 @ status_writes (ap_Status a1) k a2, Some err))
             | (ws2, k, None) \<Rightarrow>
                 (case app_report_status api k custom a1 of
                    (a2, err) \<Rightarrow> (ws @ ws2 @ status_writes (ap_Status a1) k a2, err)))))"

definition app_reconcile :: "app_api \<Rightarrow> (secret_data \<Rightarrow> string) \<Rightarrow> (app_write list \<times> go_error option) go" where
  "app_reconcile api marshal =
     (case aa_app api of
        Inl err \<Rightarrow> Ret ([], if is_not_found err then None else Some err)
      | Inr a \<Rightarrow>
          (case ap_Kustomization a of
             None \<Rightarrow> Ret ([], None)
           | Some ak \<Rightarrow>
               if finalizerKubemate \<notin> set (ap_Finalizers a) then
                 (let a1 = a\<lparr>ap_Finalizers := ap_Finalizers a @ [finalizerKubemate]\<rparr>
                  in Ret ([UpdateApp a1], aa_update_app api a1))
               else if ap_Deleted a then
                 Ret (case deleteKustomization api of
                        (ws, Inl err) \<Rightarrow> (ws, Some err)
                      | (ws, Inr False) \<Rightarrow> (ws, None)
                      | (ws, Inr True) \<Rightarrow>
                          (let a1 = a\<lparr>ap_Finalizers := removeAll finalizerKubemate (ap_Finalizers a)\<rparr>
                           in (ws @ [UpdateApp a1], aa_update_app api a1)))
               else reconcile_install api marshal ak a))"

text \<open>What a change of another resource asks to reconcile: the app by name and namespace.\<close>

definition userconfig_request :: "string \<Rightarrow> string \<Rightarrow> (string \<times> string) list" where
  "userconfig_request name namespace =
     (if suffix ''-userconfig'' name then [(take (length name - 11) name, namespace)] else [])"

definition schema_request :: "(string \<times> string) list \<Rightarrow> (string \<times> string) list" where
  "schema_request labels =
     (case map_of labels ''kustomize.toolkit.fluxcd.io/name'' of
        Some name \<Rightarrow>
          if name \<noteq> [] then
            [(name, case map_of labels ''kustomize.toolkit.fluxcd.io/namespace'' of Some ns \<Rightarrow> ns | None \<Rightarrow> [])]
          else []
      | None \<Rightarrow> [])"

lemma userconfig_request_owner: "userconfig_request (userconfig_name a) ns = [(ap_Name a, ns)]"
  by (simp add: userconfig_request_def userconfig_name_def suffix_def)

section \<open>What a reconcile writes\<close>

lemma config_secret_name_Ret: "\<exists>n. config_secret_name marshal a d = Ret n"
  by (simp add: config_secret_name_def TruncateName_Ret)

text \<open>The configuration secret an app ends up with: that of the user's configuration, or the default one.\<close>

definition chosen_secret :: "app_api \<Rightarrow> (secret_data \<Rightarrow> string) \<Rightarrow> app \<Rightarrow> string" where
  "chosen_secret api marshal a =
     (case aa_secret api (userconfig_name a) of
        Inl _ \<Rightarrow> defaultConfigSecretName a
      | Inr src \<Rightarrow> (case config_secret_name marshal a src of Ret n \<Rightarrow> n | Panic _ \<Rightarrow> []))"

definition user_config :: "app_api \<Rightarrow> app \<Rightarrow> secret_data option" where
  "user_config api a = (case aa_secret api (userconfig_name a) of Inl _ \<Rightarrow> None | Inr src \<Rightarrow> Some src)"

lemma reconcileSecret_cases:
  obtains (failed) ws err where "reconcileSecret api marshal a = Ret (ws, a, Inl err)" "list_all (\<lambda>w. \<exists>n d. w = CreateSecret n d) ws"
  | (ok) ws where "reconcileSecret api marshal a =
        Ret (ws, set_secret_name (chosen_secret api marshal a) a, Inr (user_config api a))"
      "ws = [] \<or> (\<exists>src. user_config api a = Some src \<and> ws = [CreateSecret (chosen_secret api marshal a) src])"
      "user_config api a \<noteq> None \<Longrightarrow> ws = [] \<Longrightarrow> \<not> isl (aa_secret api (chosen_secret api marshal a))"
proof (cases "aa_secret api (userconfig_name a)")
  case (Inl err)
  then show ?thesis
    by (cases "is_not_found err")
       (auto simp: reconcileSecret_def chosen_secret_def user_config_def intro: failed ok)
next
  case (Inr src)
  obtain n where n: "config_secret_name marshal a src = Ret n" using config_secret_name_Ret by blast
  have c: "chosen_secret api marshal a = n" "user_config api a = Some src"
    by (simp_all add: chosen_secret_def user_config_def Inr n)
  show ?thesis
  proof (cases "aa_secret api n")
    case (Inr d)
    show ?thesis by (rule ok [of "[]"]) (simp_all add: reconcileSecret_def \<open>aa_secret api (userconfig_name a) = Inr src\<close> n c Inr)
  next
    case (Inl err)
    note eqs = reconcileSecret_def \<open>aa_secret api (userconfig_name a) = Inr src\<close> n Inl
    show ?thesis
    proof (cases "is_not_found err \<and> aa_set_owner api = None \<and> aa_create_secret api n src = None")
      case True
      show ?thesis by (rule ok [of "[CreateSecret n src]"]) (use True in \<open>simp_all add: eqs c\<close>)
    next
      case False
      then show ?thesis
        by (cases "is_not_found err"; cases "aa_set_owner api"; cases "aa_create_secret api n src")
           (auto simp: eqs intro: failed)
    qed
  qed
qed

definition kustomization_gone :: "app_api \<Rightarrow> bool" where
  "kustomization_gone api \<longleftrightarrow>
     (case aa_kustomization api of
        Inl e \<Rightarrow> is_not_found e
      | Inr _ \<Rightarrow> (case aa_delete_kustomization api of None \<Rightarrow> False | Some e \<Rightarrow> is_not_found e))"

lemma deleteKustomization_cases:
  "set (fst (deleteKustomization api)) \<subseteq> {DeleteKustomization}"
  "snd (deleteKustomization api) = Inr True \<longleftrightarrow> kustomization_gone api"
  by (auto simp: deleteKustomization_def kustomization_gone_def split: sum.splits option.splits)

definition install_write :: "app \<Rightarrow> app_kustomization \<Rightarrow> app_write \<Rightarrow> bool" where
  "install_write a ak w \<longleftrightarrow>
     (case w of
        CreateKustomization k \<Rightarrow> app_enabled a \<and> ku_Name k = ap_Name a \<and> ku_Spec k = desired_spec a ak
      | UpdateKustomization k \<Rightarrow> app_enabled a \<and> ku_Name k = ap_Name a \<and> ku_Spec k = desired_spec a ak
      | DeleteKustomization \<Rightarrow> \<not> app_enabled a
      | _ \<Rightarrow> False)"

lemma reconcileKustomization_writes: "list_all (install_write a ak) (fst (reconcileKustomization api a ak))"
  by (auto simp: reconcileKustomization_def Let_def install_write_def set_owner_reference_def split: sum.splits option.splits)

lemma status_writes_status:
  "w \<in> set (status_writes old k a) \<Longrightarrow> \<exists>st. w = UpdateStatus (a\<lparr>ap_Status := st\<rparr>) \<and> as_State st = as_State (ap_Status a)"
  by (auto simp: status_writes_def Let_def split: if_splits)

lemma app_report_status_shape: "\<exists>st. fst (app_report_status api k custom a) = a\<lparr>ap_Status := st\<rparr>"
  by (auto simp: app_report_status_def status_error_def Let_def split: sum.splits intro: exI [of _ "ap_Status a"])

lemma app_enabled_secret [simp]: "app_enabled (set_secret_name n a) = app_enabled a"
  by (simp add: app_enabled_def set_secret_name_def)

lemma defaultConfigSecret_secret [simp]: "defaultConfigSecret api (set_secret_name n a) = defaultConfigSecret api a"
  by (simp add: defaultConfigSecret_def defaultConfigSecretName_def set_secret_name_def)

text \<open>The writes of an app that is neither new nor deleted, and what they rest on.\<close>

lemma reconcile_install_cases:
  assumes "reconcile_install api marshal ak a = Ret (ws, err)"
  obtains (no_secret) e where "reconcileSecret api marshal a = Ret (ws, a, Inl e)" "err = Some e"
  | (failed) ws1 ws2 k st e where
      "ws = ws1 @ ws2 @ status_writes (ap_Status (set_secret_name (chosen_secret api marshal a) a)) k (a\<lparr>ap_Status := st\<rparr>)"
      "reconcileKustomization api (set_secret_name (chosen_secret api marshal a) a) ak = (ws2, k, Some e)" "err = Some e"
      "st = ap_Status (set_secret_name (chosen_secret api marshal a) a) \<or> as_State st = AppStateError"
      "reconcileSecret api marshal a = Ret (ws1, set_secret_name (chosen_secret api marshal a) a, Inr (user_config api a))"
  | (ok) ws1 ws2 k a2 where
      "ws = ws1 @ ws2 @ status_writes (ap_Status (set_secret_name (chosen_secret api marshal a) a)) k a2"
      "reconcileKustomization api (set_secret_name (chosen_secret api marshal a) a) ak = (ws2, k, None)"
      "app_report_status api k (user_config api a) (set_secret_name (chosen_secret api marshal a) a) = (a2, err)"
      "reconcileSecret api marshal a = Ret (ws1, set_secret_name (chosen_secret api marshal a) a, Inr (user_config api a))"
proof (rule reconcileSecret_cases [of api marshal a])
  fix ws1 e assume "reconcileSecret api marshal a = Ret (ws1, a, Inl e)" "list_all (\<lambda>w. \<exists>n d. w = CreateSecret n d) ws1"
  then show thesis using assms no_secret by (auto simp: reconcile_install_def)
next
  let ?a1 = "set_secret_name (chosen_secret api marshal a) a"
  fix ws1 assume s: "reconcileSecret api marshal a = Ret (ws1, ?a1, Inr (user_config api a))"
  obtain ws2 k r where k: "reconcileKustomization api ?a1 ak = (ws2, k, r)" by (metis prod.exhaust)
  show thesis
  proof (cases r)
    case (Some e)
    have "\<exists>st. (if is_conflict e then ?a1 else status_error (error_text e) ?a1) = a\<lparr>ap_Status := st\<rparr> \<and>
        (st = ap_Status ?a1 \<or> as_State st = AppStateError)"
      by (auto simp: set_secret_name_def status_error_def)
    then obtain st where "(if is_conflict e then ?a1 else status_error (error_text e) ?a1) = a\<lparr>ap_Status := st\<rparr>"
      "st = ap_Status ?a1 \<or> as_State st = AppStateError" by blast
    then show thesis
      using assms s k by (intro failed [of ws1 ws2 k st e]) (simp_all add: reconcile_install_def Some Let_def)
  next
    case None
    obtain a2 e where "app_report_status api k (user_config api a) ?a1 = (a2, e)" by fastforce
    then show thesis using assms s k by (intro ok [of ws1 ws2 k a2]) (simp_all add: reconcile_install_def None)
  qed
qed

lemma reconcileSecret_writes:
  assumes "reconcileSecret api marshal a = Ret (ws, a1, res)"
  shows "set ws \<subseteq> {w. \<exists>src. aa_secret api (userconfig_name a) = Inr src \<and> w = CreateSecret (chosen_secret api marshal a) src}"
proof (cases "aa_secret api (userconfig_name a)")
  case (Inl e)
  then show ?thesis using assms by (auto simp: reconcileSecret_def split: if_splits)
next
  case (Inr src)
  obtain n where "config_secret_name marshal a src = Ret n" using config_secret_name_Ret by blast
  then show ?thesis
    using assms by (auto simp: reconcileSecret_def chosen_secret_def Inr split: sum.splits if_splits option.splits)
qed

definition app_write_ok :: "app_api \<Rightarrow> (secret_data \<Rightarrow> string) \<Rightarrow> app \<Rightarrow> app_kustomization \<Rightarrow> app_write \<Rightarrow> bool" where
  "app_write_ok api marshal a ak w \<longleftrightarrow>
     (case w of
        UpdateApp a' \<Rightarrow>
          a' = a\<lparr>ap_Finalizers := ap_Finalizers a @ [finalizerKubemate]\<rparr> \<and> finalizerKubemate \<notin> set (ap_Finalizers a) \<or>
          a' = a\<lparr>ap_Finalizers := removeAll finalizerKubemate (ap_Finalizers a)\<rparr> \<and> ap_Deleted a \<and> kustomization_gone api
      | UpdateStatus a' \<Rightarrow> \<not> ap_Deleted a \<and> a' = a\<lparr>ap_Status := ap_Status a'\<rparr>
      | CreateSecret n d \<Rightarrow> \<not> ap_Deleted a \<and> n = chosen_secret api marshal a \<and> aa_secret api (userconfig_name a) = Inr d
      | CreateKustomization k \<Rightarrow> \<not> ap_Deleted a \<and> app_enabled a \<and> finalizerKubemate \<in> set (ap_Finalizers a) \<and> ku_Name k = ap_Name a
      | UpdateKustomization k \<Rightarrow> \<not> ap_Deleted a \<and> app_enabled a \<and> finalizerKubemate \<in> set (ap_Finalizers a) \<and> ku_Name k = ap_Name a
      | DeleteKustomization \<Rightarrow> finalizerKubemate \<in> set (ap_Finalizers a) \<and> (ap_Deleted a \<or> \<not> app_enabled a))"

lemma install_writes_ok:
  assumes "reconcile_install api marshal ak a = Ret (ws, err)" "finalizerKubemate \<in> set (ap_Finalizers a)" "\<not> ap_Deleted a"
    and "w \<in> set ws"
  shows "app_write_ok api marshal a ak w"
proof -
  let ?a1 = "set_secret_name (chosen_secret api marshal a) a"
  have kust: "app_write_ok api marshal a ak w"
    if "reconcileKustomization api ?a1 ak = (ws2, k, r)" "w \<in> set ws2" for ws2 k r
  proof -
    have "install_write ?a1 ak w" using reconcileKustomization_writes [of ?a1 ak api] that by (simp add: list_all_iff)
    then show ?thesis
      using assms(2,3) by (auto simp: app_write_ok_def install_write_def set_secret_name_def app_enabled_def split: app_write.splits)
  qed
  have sec: "app_write_ok api marshal a ak w" if "reconcileSecret api marshal a = Ret (ws1, a1, r)" "w \<in> set ws1" for ws1 a1 r
    using reconcileSecret_writes [OF that(1)] that(2) assms(3) by (auto simp: app_write_ok_def)
  have st: "app_write_ok api marshal a ak w" if "w \<in> set (status_writes old k (a\<lparr>ap_Status := st\<rparr>))" for old k st
    using status_writes_status [OF that] assms(3) by (auto simp: app_write_ok_def)
  from assms(1) show ?thesis
  proof (cases rule: reconcile_install_cases)
    case (no_secret e)
    show ?thesis by (rule sec [OF no_secret(1) assms(4)])
  next
    case (failed ws1 ws2 k st' e)
    then show ?thesis using assms(4) sec kust st by auto
  next
    case (ok ws1 ws2 k a2)
    obtain st' where "a2 = ?a1\<lparr>ap_Status := st'\<rparr>"
      using app_report_status_shape [of api k "user_config api a" ?a1] ok(3) by auto
    then have "a2 = a\<lparr>ap_Status := st'\<rparr>" by (simp add: set_secret_name_def)
    then show ?thesis using ok(1,2,4) assms(4) sec kust st by auto
  qed
qed

text \<open>
  C23. An app is not let go before its Kustomization is gone: the finalizer is removed only from a deleted app
  whose Kustomization the API server no longer has, a Kustomization is created or changed only for an app that is
  enabled, not deleted and holds the finalizer, and deleted only for one that is deleted or not enabled; the
  user's configuration is copied unchanged, and of the app itself only finalizers and status are written.
\<close>

theorem app_writes_guarded:
  assumes "app_reconcile api marshal = Ret (ws, err)" "w \<in> set ws"
  shows "\<exists>a ak. aa_app api = Inr a \<and> ap_Kustomization a = Some ak \<and> app_write_ok api marshal a ak w"
proof -
  obtain a ak where a: "aa_app api = Inr a" "ap_Kustomization a = Some ak"
    using assms by (auto simp: app_reconcile_def split: sum.splits option.splits)
  consider "finalizerKubemate \<notin> set (ap_Finalizers a)" | "finalizerKubemate \<in> set (ap_Finalizers a)" "ap_Deleted a"
    | "finalizerKubemate \<in> set (ap_Finalizers a)" "\<not> ap_Deleted a" by blast
  then have "app_write_ok api marshal a ak w"
  proof cases
    case 1
    then show ?thesis using assms a by (auto simp: app_reconcile_def app_write_ok_def Let_def)
  next
    case 2
    obtain ws1 r where d: "deleteKustomization api = (ws1, r)" by fastforce
    have "w \<in> set ws1 \<Longrightarrow> w = DeleteKustomization" "r = Inr True \<longleftrightarrow> kustomization_gone api"
      using deleteKustomization_cases [of api] d by auto
    then consider "w = DeleteKustomization"
      | "w = UpdateApp (a\<lparr>ap_Finalizers := removeAll finalizerKubemate (ap_Finalizers a)\<rparr>)" "kustomization_gone api"
      using assms a 2 by (auto simp: app_reconcile_def d Let_def split: sum.splits bool.splits)
    then show ?thesis using 2 by cases (auto simp: app_write_ok_def)
  next
    case 3
    then have "reconcile_install api marshal ak a = Ret (ws, err)" using assms(1) a by (simp add: app_reconcile_def)
    from install_writes_ok [OF this 3 assms(2)] show ?thesis .
  qed
  with a show ?thesis by blast
qed

section \<open>What a reconcile reports\<close>

text \<open>The Kustomization after some writes, as far as the answers tell.\<close>

fun kustomization_seen :: "app_api \<Rightarrow> kustomization option \<Rightarrow> app_write \<Rightarrow> kustomization option" where
  "kustomization_seen api k (CreateKustomization n) = (case aa_create_kustomization api n of Inl _ \<Rightarrow> k | Inr k' \<Rightarrow> Some k')"
| "kustomization_seen api k (UpdateKustomization n) = (case aa_update_kustomization api n of Inl _ \<Rightarrow> k | Inr k' \<Rightarrow> Some k')"
| "kustomization_seen api k DeleteKustomization = (if aa_delete_kustomization api = None then None else k)"
| "kustomization_seen api k _ = k"

definition kustomization_after :: "app_api \<Rightarrow> app_write list \<Rightarrow> kustomization option" where
  "kustomization_after api ws =
     foldl (kustomization_seen api) (case aa_kustomization api of Inl _ \<Rightarrow> None | Inr k \<Rightarrow> Some k) ws"

text \<open>The API server stores the spec it is sent.\<close>

definition stores_spec :: "app_api \<Rightarrow> bool" where
  "stores_spec api \<longleftrightarrow>
     (\<forall>k k'. aa_create_kustomization api k = Inr k' \<or> aa_update_kustomization api k = Inr k' \<longrightarrow> ku_Spec k' = ku_Spec k)"

lemma stores_specD:
  "stores_spec api \<Longrightarrow> aa_create_kustomization api k = Inr k' \<Longrightarrow> ku_Spec k' = ku_Spec k"
  "stores_spec api \<Longrightarrow> aa_update_kustomization api k = Inr k' \<Longrightarrow> ku_Spec k' = ku_Spec k"
  by (simp_all add: stores_spec_def)

lemma kustomization_seen_other:
  "list_all (\<lambda>w. case w of CreateSecret _ _ \<Rightarrow> True | UpdateStatus _ \<Rightarrow> True | _ \<Rightarrow> False) ws \<Longrightarrow>
   foldl (kustomization_seen api) k ws = k"
  by (induction ws) (auto split: app_write.splits)

lemma reconcileKustomization_install:
  assumes "reconcileKustomization api a ak = (ws, k, None)" "app_enabled a" "stores_spec api"
  shows "\<exists>k'. kustomization_after api ws = Some k' \<and> ku_Spec k' = desired_spec a ak \<and>
    ku_Generation k' = ku_Generation k \<and> ku_Conditions k' = ku_Conditions k"
proof (cases "aa_kustomization api")
  case (Inl e)
  let ?n = "set_owner_reference a (new_kustomization\<lparr>ku_Name := ap_Name a, ku_Namespace := ap_Namespace a, ku_Spec := desired_spec a ak\<rparr>)"
  have "is_not_found e" "aa_set_owner api = None" "ws = [CreateKustomization ?n]" "aa_create_kustomization api ?n = Inr k"
    using assms(1,2) by (auto simp: reconcileKustomization_def Inl written_def Let_def split: if_splits option.splits sum.splits)
  then show ?thesis
    using stores_specD(1) [OF assms(3), of ?n k] by (simp add: kustomization_after_def set_owner_reference_def)
next
  case (Inr old)
  let ?n = "set_owner_reference a (old\<lparr>ku_Name := ap_Name a, ku_Namespace := ap_Namespace a, ku_Spec := desired_spec a ak\<rparr>)"
  have n: "ku_Spec ?n = desired_spec a ak" "ku_Generation ?n = ku_Generation old" "ku_Conditions ?n = ku_Conditions old"
    by (simp_all add: set_owner_reference_def)
  have own: "aa_set_owner api = None"
    using assms(1,2) by (auto simp: reconcileKustomization_def Inr Let_def split: option.splits)
  show ?thesis
  proof (cases "ku_Spec old = desired_spec a ak")
    case True
    then have "ws = []" "k = ?n" using assms(1,2) by (simp_all add: reconcileKustomization_def Inr own n Let_def)
    then show ?thesis using True n by (simp add: kustomization_after_def Inr)
  next
    case False
    then have "ws = [UpdateKustomization ?n]" "aa_update_kustomization api ?n = Inr k"
      using assms(1,2) by (auto simp: reconcileKustomization_def Inr own n written_def Let_def split: sum.splits)
    then show ?thesis using stores_specD(2) [OF assms(3), of ?n k] by (simp add: kustomization_after_def n)
  qed
qed

definition param_given :: "secret_data option \<Rightarrow> secret_data \<Rightarrow> param_definition \<Rightarrow> bool" where
  "param_given custom defaults p \<longleftrightarrow>
     pd_Name p \<noteq> [] \<and>
     (secret_key defaults (pd_Name p) \<noteq> None \<or> (\<exists>d. custom = Some d \<and> secret_key d (pd_Name p) \<noteq> None))"

lemma validate_params_step:
  "param_given custom defaults p \<Longrightarrow>
   validate_params i (p # ps) custom defaults st = validate_params (Suc i) ps custom defaults st"
  "\<not> param_given custom defaults p \<Longrightarrow>
   as_State (validate_params i (p # ps) custom defaults st) \<in> {AppStateError, AppStateConfigRequired}"
  by (cases custom; force simp: param_given_def)+

declare validate_params.simps(2) [simp del]

lemma validate_params_state:
  "as_State (validate_params i ps custom defaults st) \<notin> {AppStateError, AppStateConfigRequired} \<Longrightarrow>
   validate_params i ps custom defaults st = st \<and> list_all (param_given custom defaults) ps"
proof (induction ps arbitrary: i)
  case (Cons p ps)
  then show ?case using validate_params_step [of custom defaults p i ps st] by (cases "param_given custom defaults p") auto
qed simp

lemmas app_states = AppStateNotInstalled_def AppStateInstalling_def AppStateUpgrading_def AppStateInstalled_def
  AppStateDeinstalling_def AppStateError_def AppStateConfigRequired_def

lemma enabled_status_installed:
  assumes "as_State (enabled_status k cs custom defaults st) = AppStateInstalled"
  shows "co_ObservedGeneration (getCondition (ku_Conditions k) ''Ready'') = ku_Generation k \<and>
    co_Status (getCondition (ku_Conditions k) ''Ready'') = ''True'' \<and>
    (\<forall>c. cs = Some c \<longrightarrow> list_all (param_given custom defaults) (cs_Params c))"
proof -
  define val where "val = (\<lambda>st. case cs of None \<Rightarrow> st | Some cs \<Rightarrow> validateConfiguration cs custom defaults st)"
  have val: "as_State st' = AppStateInstalled \<and> (\<forall>c. cs = Some c \<longrightarrow> list_all (param_given custom defaults) (cs_Params c))"
    if "as_State (val st') = AppStateInstalled" for st'
  proof (cases cs)
    case (Some c)
    have "as_State (validate_params 0 (cs_Params c) custom defaults st') \<notin> {AppStateError, AppStateConfigRequired}"
      using that by (simp add: val_def Some validateConfiguration_def app_states)
    from validate_params_state [OF this] show ?thesis using that by (simp add: val_def Some validateConfiguration_def)
  qed (use that in \<open>simp add: val_def\<close>)
  let ?c = "getCondition (ku_Conditions k) ''Ready''"
  have states: "AppStateError \<noteq> AppStateInstalled" "AppStateInstalling \<noteq> AppStateInstalled" "AppStateUpgrading \<noteq> AppStateInstalled"
    by (simp_all add: app_states)
  consider "co_ObservedGeneration ?c \<noteq> ku_Generation k" | "co_ObservedGeneration ?c = ku_Generation k" "co_Status ?c = ''True''"
    | "co_ObservedGeneration ?c = ku_Generation k" "co_Status ?c = ''False''"
    | "co_ObservedGeneration ?c = ku_Generation k" "co_Status ?c \<noteq> ''True''" "co_Status ?c \<noteq> ''False''" by blast
  then show ?thesis
  proof cases
    case 1
    then show ?thesis using assms val [of "st\<lparr>as_State := AppStateInstalling\<rparr>"] states
      by (simp add: enabled_status_def Let_def val_def)
  next
    case 2
    then show ?thesis using assms val [of "st\<lparr>as_State := AppStateInstalled\<rparr>"]
      by (simp add: enabled_status_def Let_def val_def)
  next
    case 3
    then show ?thesis using assms val [of "st\<lparr>as_State := AppStateError, as_Message := co_Reason ?c @ '': '' @ co_Message ?c\<rparr>"] states
      by (simp add: enabled_status_def Let_def flip: val_def)
  next
    case 4
    let ?st = "st\<lparr>as_State := if ku_LastAppliedRevision k = ku_LastAttemptedRevision k then AppStateInstalling else AppStateUpgrading\<rparr>"
    have "as_State (val ?st) = AppStateInstalled" using 4 assms by (simp add: enabled_status_def Let_def val_def)
    from val [OF this] show ?thesis using states by (simp split: if_splits)
  qed
qed

lemma app_report_status_installed:
  assumes "app_report_status api k custom a = (a2, None)" "as_State (ap_Status a2) = AppStateInstalled"
  shows "app_enabled a \<and>
    co_ObservedGeneration (getCondition (ku_Conditions k) ''Ready'') = ku_Generation k \<and>
    co_Status (getCondition (ku_Conditions k) ''Ready'') = ''True'' \<and>
    (\<exists>defaults. defaultConfigSecret api a = Inr defaults \<and>
       (\<forall>c. aa_schema api = Inr c \<longrightarrow> list_all (param_given custom defaults) (cs_Params c)))"
proof (cases "configSchema api")
  case (Inl e)
  then show ?thesis using assms by (auto simp: app_report_status_def status_error_def app_states)
next
  case (Inr cs)
  have schema: "aa_schema api = Inr c \<Longrightarrow> cs = Some c" for c using Inr by (simp add: configSchema_def)
  have en: "app_enabled a"
    using assms by (cases "app_enabled a") (auto simp: app_report_status_def Inr Let_def app_states split: if_splits)
  obtain d where d: "defaultConfigSecret api a = Inr d"
    using assms(1) en by (cases "defaultConfigSecret api a") (auto simp: app_report_status_def Inr Let_def)
  obtain st where "a2 = a\<lparr>ap_Status := enabled_status k cs custom d st\<rparr>"
    using assms(1) en d by (auto simp: app_report_status_def Inr Let_def)
  then have "as_State (enabled_status k cs custom d st) = AppStateInstalled" using assms(2) by simp
  from enabled_status_installed [OF this] en d schema show ?thesis by blast
qed

lemma app_report_status_failed:
  assumes "app_report_status api k custom a = (a2, Some e)"
  shows "app_enabled a \<and> defaultConfigSecret api a = Inl e \<and> as_State (ap_Status a2) = as_State (ap_Status a)"
  using assms by (auto simp: app_report_status_def Let_def split: sum.splits if_splits)

lemma set_secret_name_state [simp]: "as_State (ap_Status (set_secret_name n a)) = as_State (ap_Status a)"
  by (simp add: set_secret_name_def)

definition final_spec :: "app_api \<Rightarrow> (secret_data \<Rightarrow> string) \<Rightarrow> app \<Rightarrow> app_kustomization \<Rightarrow> kustomization_spec" where
  "final_spec api marshal a ak = desired_spec (set_secret_name (chosen_secret api marshal a) a) ak"

lemma list_all_secret_writes:
  "reconcileSecret api marshal a = Ret (ws, a1, res) \<Longrightarrow>
   list_all (\<lambda>w. case w of CreateSecret _ _ \<Rightarrow> True | UpdateStatus _ \<Rightarrow> True | _ \<Rightarrow> False) ws"
  "list_all (\<lambda>w. case w of CreateSecret _ _ \<Rightarrow> True | UpdateStatus _ \<Rightarrow> True | _ \<Rightarrow> False) (status_writes old k a)"
  using reconcileSecret_writes [of api marshal a ws a1 res] status_writes_status [of _ old k a]
  by (fastforce simp: list_all_iff)+

lemma install_done:
  assumes "ws = ws1 @ ws2 @ status_writes old k a2" "reconcileSecret api marshal a = Ret (ws1, set_secret_name n a, res)"
    and "reconcileKustomization api (set_secret_name n a) ak = (ws2, k, None)" "app_enabled a" "stores_spec api"
  shows "\<exists>k'. kustomization_after api ws = Some k' \<and> ku_Spec k' = desired_spec (set_secret_name n a) ak \<and>
    ku_Generation k' = ku_Generation k \<and> ku_Conditions k' = ku_Conditions k"
proof -
  have "app_enabled (set_secret_name n a)" using assms(4) by simp
  from reconcileKustomization_install [OF assms(3) this assms(5)] obtain k' where
    "kustomization_after api ws2 = Some k'" "ku_Spec k' = desired_spec (set_secret_name n a) ak"
      "ku_Generation k' = ku_Generation k" "ku_Conditions k' = ku_Conditions k" by blast
  moreover have "kustomization_after api ws = kustomization_after api ws2"
    using list_all_secret_writes(1) [OF assms(2)] list_all_secret_writes(2)
    by (simp add: kustomization_after_def assms(1) kustomization_seen_other)
  ultimately show ?thesis by simp
qed

text \<open>
  C24. A reconcile of an enabled app that is not deleted and that succeeds either only gives the app its
  finalizer, when it has none yet, or leaves its Kustomization with the spec the app asks for. That spec names
  the secret of the configuration: without a configuration of the user that of the defaults, of which only
  the name is known, and otherwise one that is named by the content of the user's configuration and is there,
  created with that content by this reconcile or before. The API server stores the specs it is sent.
\<close>

theorem app_spec_applied:
  assumes "app_reconcile api marshal = Ret (ws, None)" "aa_app api = Inr a" "ap_Kustomization a = Some ak"
    and "\<not> ap_Deleted a" "app_enabled a" "stores_spec api"
  shows "if finalizerKubemate \<notin> set (ap_Finalizers a) then
      ws = [UpdateApp (a\<lparr>ap_Finalizers := ap_Finalizers a @ [finalizerKubemate]\<rparr>)]
    else
      (\<exists>k n. kustomization_after api ws = Some k \<and> ku_Spec k = desired_spec (set_secret_name n a) ak \<and>
        (case aa_secret api (userconfig_name a) of
           Inl _ \<Rightarrow> n = defaultConfigSecretName a
         | Inr src \<Rightarrow> config_secret_name marshal a src = Ret n \<and> (CreateSecret n src \<in> set ws \<or> (\<exists>d. aa_secret api n = Inr d))))"
proof (cases "finalizerKubemate \<in> set (ap_Finalizers a)")
  case False
  with assms(1-3) show ?thesis by (auto simp: app_reconcile_def Let_def)
next
  case True
  then have r: "reconcile_install api marshal ak a = Ret (ws, None)" using assms(1-4) by (simp add: app_reconcile_def)
  let ?a1 = "set_secret_name (chosen_secret api marshal a) a"
  from r obtain ws1 ws2 k a2 where
    d: "ws = ws1 @ ws2 @ status_writes (ap_Status ?a1) k a2"
      "reconcileSecret api marshal a = Ret (ws1, ?a1, Inr (user_config api a))"
      "reconcileKustomization api ?a1 ak = (ws2, k, None)"
    by (rule reconcile_install_cases) simp_all
  from install_done [OF d assms(5,6)] obtain k' where
    k': "kustomization_after api ws = Some k'" "ku_Spec k' = desired_spec ?a1 ak" by blast
  have "case aa_secret api (userconfig_name a) of
       Inl _ \<Rightarrow> chosen_secret api marshal a = defaultConfigSecretName a
     | Inr src \<Rightarrow> config_secret_name marshal a src = Ret (chosen_secret api marshal a) \<and>
         (CreateSecret (chosen_secret api marshal a) src \<in> set ws \<or> (\<exists>d. aa_secret api (chosen_secret api marshal a) = Inr d))"
  proof (cases "aa_secret api (userconfig_name a)")
    case (Inr src)
    obtain n where n: "config_secret_name marshal a src = Ret n" using config_secret_name_Ret by blast
    have u: "user_config api a = Some src" and c: "chosen_secret api marshal a = n"
      by (simp_all add: user_config_def chosen_secret_def Inr n)
    have "ws1 = [CreateSecret n src] \<or> \<not> isl (aa_secret api n)"
    proof (rule reconcileSecret_cases [of api marshal a])
      fix ws' assume "reconcileSecret api marshal a = Ret (ws', set_secret_name (chosen_secret api marshal a) a, Inr (user_config api a))"
        "ws' = [] \<or> (\<exists>src. user_config api a = Some src \<and> ws' = [CreateSecret (chosen_secret api marshal a) src])"
        "user_config api a \<noteq> None \<Longrightarrow> ws' = [] \<Longrightarrow> \<not> isl (aa_secret api (chosen_secret api marshal a))"
      then show ?thesis using d(2) u c by auto
    qed (use d(2) in simp)
    then show ?thesis using n c d(1) by (cases "aa_secret api n") (auto simp: Inr)
  qed (simp add: chosen_secret_def)
  with k' True show ?thesis by auto
qed

lemma app_reported_installed:
  assumes "app_reconcile api marshal = Ret (ws, err)" "UpdateStatus a' \<in> set ws"
    and "as_State (ap_Status a') = AppStateInstalled"
  obtains a ak ws1 ws2 k a2 where "aa_app api = Inr a" "ap_Kustomization a = Some ak"
    "as_State (ap_Status a2) = AppStateInstalled"
    "ws = ws1 @ ws2 @ status_writes (ap_Status (set_secret_name (chosen_secret api marshal a) a)) k a2"
    "reconcileKustomization api (set_secret_name (chosen_secret api marshal a) a) ak = (ws2, k, None)"
    "app_report_status api k (user_config api a) (set_secret_name (chosen_secret api marshal a) a) = (a2, err)"
    "reconcileSecret api marshal a = Ret (ws1, set_secret_name (chosen_secret api marshal a) a, Inr (user_config api a))"
proof -
  obtain a ak where a: "aa_app api = Inr a" "ap_Kustomization a = Some ak"
    using assms(1,2) by (auto simp: app_reconcile_def split: sum.splits option.splits)
  have fin: "finalizerKubemate \<in> set (ap_Finalizers a)"
    using assms(1,2) a by (auto simp: app_reconcile_def Let_def split: if_splits)
  obtain ws0 r0 where d0: "deleteKustomization api = (ws0, r0)" by fastforce
  then have "UpdateStatus a' \<notin> set ws0" using deleteKustomization_cases(1) [of api] by auto
  then have del: "\<not> ap_Deleted a"
    using assms(1,2) a fin d0
    by (auto simp: app_reconcile_def Let_def split: sum.splits bool.splits)
  have r: "reconcile_install api marshal ak a = Ret (ws, err)" using assms(1) a(1,2) del fin by (simp add: app_reconcile_def)
  let ?a1 = "set_secret_name (chosen_secret api marshal a) a"
  have before: "UpdateStatus a' \<notin> set ws1" if "reconcileSecret api marshal a = Ret (ws1, a1, res)" for ws1 a1 res
    using reconcileSecret_writes [OF that] by auto
  have middle: "UpdateStatus a' \<notin> set ws2" if "reconcileKustomization api ?a1 ak = (ws2, k, res)" for ws2 k res
    using reconcileKustomization_writes [of ?a1 ak api] that by (auto simp: list_all_iff install_write_def)
  from r obtain ws1 ws2 k a2 where
    d: "ws = ws1 @ ws2 @ status_writes (ap_Status ?a1) k a2" "reconcileKustomization api ?a1 ak = (ws2, k, None)"
      "app_report_status api k (user_config api a) ?a1 = (a2, err)"
      "reconcileSecret api marshal a = Ret (ws1, ?a1, Inr (user_config api a))"
  proof (cases rule: reconcile_install_cases)
    case (no_secret e)
    with before assms(2) show ?thesis by blast
  next
    case (failed ws1 ws2 k st e)
    then have w: "UpdateStatus a' \<in> set (status_writes (ap_Status ?a1) k (a\<lparr>ap_Status := st\<rparr>))"
      using before middle assms(2) by auto
    then have "as_State st = AppStateInstalled" using status_writes_status assms(3) by fastforce
    with failed(4) have "st = ap_Status ?a1" by (simp add: app_states)
    with w show ?thesis by (simp add: status_writes_def Let_def)
  qed (rule that)
  have "UpdateStatus a' \<in> set (status_writes (ap_Status ?a1) k a2)" using assms(2) d(1) before [OF d(4)] middle [OF d(2)] by simp
  then have st: "as_State (ap_Status a2) = AppStateInstalled" using status_writes_status assms(3) by fastforce
  show thesis by (rule that [OF a st d])
qed

text \<open>
  C22. An app is newly reported as installed only if it is: a reconcile that writes this state, failed or not, has
  seen an enabled app and has left its Kustomization with the spec the app asks for. If it succeeded, the
  Kustomization is ready in its current generation and every parameter of the app's schema has a value; if it
  failed, it is the secret of the defaults that could not be read, and the app was reported as installed before:
  the state is written again, unchecked. The API server stores the specs it is sent.
\<close>

theorem app_installed_truthful:
  assumes "app_reconcile api marshal = Ret (ws, err)" "UpdateStatus a' \<in> set ws"
    and "as_State (ap_Status a') = AppStateInstalled" "stores_spec api"
  shows "\<exists>a ak k. aa_app api = Inr a \<and> ap_Kustomization a = Some ak \<and> app_enabled a \<and>
    kustomization_after api ws = Some k \<and> ku_Spec k = final_spec api marshal a ak \<and>
    (case err of
       Some e \<Rightarrow> defaultConfigSecret api a = Inl e \<and> as_State (ap_Status a) = AppStateInstalled
     | None \<Rightarrow>
         co_Status (getCondition (ku_Conditions k) ''Ready'') = ''True'' \<and>
         co_ObservedGeneration (getCondition (ku_Conditions k) ''Ready'') = ku_Generation k \<and>
         (\<exists>defaults. defaultConfigSecret api a = Inr defaults \<and>
           (case aa_schema api of
              Inl _ \<Rightarrow> True
            | Inr cs \<Rightarrow> list_all (param_given (user_config api a) defaults) (cs_Params cs))))"
proof -
  obtain a ak ws1 ws2 k a2 where a: "aa_app api = Inr a" "ap_Kustomization a = Some ak"
    and st: "as_State (ap_Status a2) = AppStateInstalled"
    and d: "ws = ws1 @ ws2 @ status_writes (ap_Status (set_secret_name (chosen_secret api marshal a) a)) k a2"
      "reconcileKustomization api (set_secret_name (chosen_secret api marshal a) a) ak = (ws2, k, None)"
      "app_report_status api k (user_config api a) (set_secret_name (chosen_secret api marshal a) a) = (a2, err)"
      "reconcileSecret api marshal a = Ret (ws1, set_secret_name (chosen_secret api marshal a) a, Inr (user_config api a))"
    by (rule app_reported_installed [OF assms(1-3)])
  let ?a1 = "set_secret_name (chosen_secret api marshal a) a"
  have en: "app_enabled a \<and> (case err of Some e \<Rightarrow> defaultConfigSecret api a = Inl e \<and> as_State (ap_Status a) = AppStateInstalled | None \<Rightarrow> True)"
    using app_report_status_installed [of api k "user_config api a" ?a1 a2] app_report_status_failed [of api k "user_config api a" ?a1 a2] d(3) st
    by (cases err) simp_all
  then have "app_enabled a" by simp
  from install_done [OF d(1,4,2) this assms(4)] obtain k' where k':
    "kustomization_after api ws = Some k'" "ku_Spec k' = final_spec api marshal a ak"
      "ku_Generation k' = ku_Generation k" "ku_Conditions k' = ku_Conditions k" by (auto simp: final_spec_def)
  show ?thesis
  proof (cases err)
    case (Some e)
    with en a k' show ?thesis by auto
  next
    case None
    with app_report_status_installed [of api k "user_config api a" ?a1 a2] d(3) st en a k' show ?thesis
      by (auto split: sum.splits)
  qed
qed

section \<open>On a concrete cluster\<close>

definition demo_app_kustomization :: app_kustomization where
  "demo_app_kustomization = \<lparr>ak_SourceRef = \<lparr>sr_Kind = ''GitRepository'', sr_Name = ''apps'', sr_Namespace = []\<rparr>,
     ak_Path = ''./radio'', ak_Timeout = None\<rparr>"

definition demo_app :: app where
  "demo_app = \<lparr>ap_Name = ''radio'', ap_Namespace = ''default'', ap_Generation = 1, ap_Finalizers = [finalizerKubemate],
     ap_Deleted = False, ap_Enabled = Some True, ap_Kustomization = Some demo_app_kustomization,
     ap_Status = \<lparr>as_ObservedGeneration = 0, as_State = AppStateInstalling, as_Message = [], as_LastAppliedRevision = [],
                  as_LastAttemptedRevision = [], as_ConfigSchemaName = [], as_ConfigSecretName = []\<rparr>\<rparr>"

definition demo_kustomization :: kustomization where
  "demo_kustomization = new_kustomization
     \<lparr>ku_Name := ''radio'', ku_Namespace := ''default'', ku_Generation := 1,
      ku_Spec := desired_spec (set_secret_name ''radio-defaultconfig'' demo_app) demo_app_kustomization,
      ku_Conditions := [\<lparr>co_Type = ''Ready'', co_Status = ''True'', co_ObservedGeneration = 1, co_Reason = [], co_Message = []\<rparr>]\<rparr>"

definition demo_app_api :: app_api where
  "demo_app_api =
     \<lparr>aa_app = Inr demo_app, aa_kustomization = Inr demo_kustomization,
      aa_secret = (\<lambda>n. if n = ''radio-defaultconfig'' then Inr (Some [(''station'', ''one'')]) else Inl (NotFound ''secrets'' n)),
      aa_schema = Inr \<lparr>cs_Name = ''radio'', cs_Params = [\<lparr>pd_Name = ''station'', pd_Title = []\<rparr>]\<rparr>,
      aa_set_owner = None, aa_update_app = (\<lambda>_. None), aa_create_secret = (\<lambda>_ _. None),
      aa_create_kustomization = Inr, aa_update_kustomization = Inr, aa_delete_kustomization = None\<rparr>"

definition demo_installed :: app where
  "demo_installed = demo_app\<lparr>ap_Status := \<lparr>as_ObservedGeneration = 1, as_State = AppStateInstalled, as_Message = [],
     as_LastAppliedRevision = [], as_LastAttemptedRevision = [], as_ConfigSchemaName = ''radio'',
     as_ConfigSecretName = ''radio-defaultconfig''\<rparr>\<rparr>"

lemma demo_app_reconcile: "app_reconcile demo_app_api f = Ret ([UpdateStatus demo_installed], None)"
  by (simp add: app_reconcile_def demo_app_api_def demo_app_def demo_app_kustomization_def finalizerKubemate_def
      reconcile_install_def reconcileSecret_def userconfig_name_def defaultConfigSecretName_def set_secret_name_def
      reconcileKustomization_def app_enabled_def demo_kustomization_def new_kustomization_def desired_spec_def
      set_owner_reference_def app_report_status_def configSchema_def defaultConfigSecret_def enabled_status_def getCondition_def
      validateConfiguration_def validate_params.simps secret_key_def status_writes_def demo_installed_def app_states)

lemma demo_stores_spec: "stores_spec demo_app_api"
  by (simp add: stores_spec_def demo_app_api_def)

theorem app_writes_guarded_witness:
  "\<exists>a ak. aa_app demo_app_api = Inr a \<and> ap_Kustomization a = Some ak \<and>
     app_write_ok demo_app_api (\<lambda>_. []) a ak (UpdateStatus demo_installed)"
  by (rule app_writes_guarded [OF demo_app_reconcile]) simp

theorem app_spec_applied_witness:
  "\<exists>k n. kustomization_after demo_app_api [UpdateStatus demo_installed] = Some k \<and>
     ku_Spec k = desired_spec (set_secret_name n demo_app) demo_app_kustomization \<and> n = ''radio-defaultconfig''"
proof -
  have 1: "aa_app demo_app_api = Inr demo_app" "ap_Kustomization demo_app = Some demo_app_kustomization"
    "\<not> ap_Deleted demo_app" "app_enabled demo_app"
    by (simp_all add: demo_app_api_def demo_app_def app_enabled_def)
  have 2: "aa_secret demo_app_api (userconfig_name demo_app) = Inl (NotFound ''secrets'' ''radio-userconfig'')"
    "defaultConfigSecretName demo_app = ''radio-defaultconfig''"
    by (simp_all add: demo_app_api_def demo_app_def userconfig_name_def defaultConfigSecretName_def)
  have "finalizerKubemate \<in> set (ap_Finalizers demo_app)" by (simp add: demo_app_def)
  with app_spec_applied [OF demo_app_reconcile 1 demo_stores_spec] show ?thesis by (simp add: 2)
qed

theorem app_installed_truthful_witness:
  "\<exists>a ak k defaults. aa_app demo_app_api = Inr a \<and> ap_Kustomization a = Some ak \<and> app_enabled a \<and>
     kustomization_after demo_app_api [UpdateStatus demo_installed] = Some k \<and>
     ku_Spec k = final_spec demo_app_api (\<lambda>_. []) a ak \<and>
     defaultConfigSecret demo_app_api a = Inr defaults \<and> param_given None defaults \<lparr>pd_Name = ''station'', pd_Title = []\<rparr>"
proof -
  have s: "as_State (ap_Status demo_installed) = AppStateInstalled" by (simp add: demo_installed_def)
  have p: "aa_schema demo_app_api = Inr \<lparr>cs_Name = ''radio'', cs_Params = [\<lparr>pd_Name = ''station'', pd_Title = []\<rparr>]\<rparr>"
    by (simp add: demo_app_api_def)
  have u: "aa_app demo_app_api = Inr a \<Longrightarrow> user_config demo_app_api a = None" for a
    by (auto simp: demo_app_api_def user_config_def userconfig_name_def demo_app_def)
  obtain a ak k defaults where "aa_app demo_app_api = Inr a" "ap_Kustomization a = Some ak" "app_enabled a"
      "kustomization_after demo_app_api [UpdateStatus demo_installed] = Some k"
      "ku_Spec k = final_spec demo_app_api (\<lambda>_. []) a ak"
      "defaultConfigSecret demo_app_api a = Inr defaults"
      "list_all (param_given (user_config demo_app_api a) defaults) [\<lparr>pd_Name = ''station'', pd_Title = []\<rparr>]"
    using app_installed_truthful [OF demo_app_reconcile _ s demo_stores_spec, of "\<lambda>_. []"] by (auto simp: p)
  then show ?thesis using u by auto
qed

text \<open>
  The state that is written again unchecked: the app is reported as installed, with its current generation as the
  observed one, while its Kustomization says that it is not ready.
\<close>

definition demo_stale_api :: app_api where
  "demo_stale_api = demo_app_api
     \<lparr>aa_app := Inr (demo_installed\<lparr>ap_Generation := 2, ap_Status := (ap_Status demo_installed)\<lparr>as_ConfigSchemaName := []\<rparr>\<rparr>),
      aa_kustomization := Inr (demo_kustomization\<lparr>ku_Conditions :=
        [\<lparr>co_Type = ''Ready'', co_Status = ''False'', co_ObservedGeneration = 1, co_Reason = ''BuildFailed'', co_Message = []\<rparr>]\<rparr>),
      aa_secret := (\<lambda>n. if n = ''radio-userconfig'' then Inl (NotFound ''secrets'' n) else Inl (Errorf ''timeout''))\<rparr>"

theorem app_installed_unchecked:
  "\<exists>a'. app_reconcile demo_stale_api f = Ret ([UpdateStatus a'], Some (Errorf ''timeout'')) \<and>
     as_State (ap_Status a') = AppStateInstalled \<and> as_ObservedGeneration (ap_Status a') = ap_Generation a' \<and> ap_Generation a' = 2 \<and>
     (\<exists>k. aa_kustomization demo_stale_api = Inr k \<and> co_Status (getCondition (ku_Conditions k) ''Ready'') = ''False'')"
  by (simp add: app_reconcile_def demo_stale_api_def demo_app_api_def demo_app_def demo_app_kustomization_def finalizerKubemate_def
      reconcile_install_def reconcileSecret_def userconfig_name_def defaultConfigSecretName_def set_secret_name_def
      reconcileKustomization_def app_enabled_def demo_kustomization_def new_kustomization_def desired_spec_def
      set_owner_reference_def app_report_status_def configSchema_def defaultConfigSecret_def getCondition_def
      status_writes_def demo_installed_def app_states)

text \<open>Once its Kustomization is what it should be and its status is up to date, a reconcile writes nothing.\<close>

lemma demo_app_settles: "app_reconcile (demo_app_api\<lparr>aa_app := Inr demo_installed\<rparr>) f = Ret ([], None)"
  by (simp add: app_reconcile_def demo_app_api_def demo_app_def demo_app_kustomization_def finalizerKubemate_def
      reconcile_install_def reconcileSecret_def userconfig_name_def defaultConfigSecretName_def set_secret_name_def
      reconcileKustomization_def app_enabled_def demo_kustomization_def new_kustomization_def desired_spec_def
      set_owner_reference_def app_report_status_def configSchema_def defaultConfigSecret_def enabled_status_def getCondition_def
      validateConfiguration_def validate_params.simps secret_key_def status_writes_def demo_installed_def app_states)

text \<open>An app whose Kustomization was taken out of its spec keeps the finalizer: once deleted, it stays forever.\<close>

lemma app_without_kustomization_stuck:
  "aa_app api = Inr a \<Longrightarrow> ap_Kustomization a = None \<Longrightarrow> app_reconcile api marshal = Ret ([], None)"
  by (simp add: app_reconcile_def)

end
