(* ===== verification/Discovery.thy ===== *)
theory Discovery
  imports NetIfaces
begin

text \<open>
  Finding and announcing devices and services by mDNS (\<open>pkg/discovery/device_discovery.go\<close>,
  \<open>pkg/reconciler/app/mdns_service_reconciler.go\<close>). The mDNS libraries and the host's network interfaces are
  parameters. \<open>populateDevicesFromMDNS\<close> takes the store without its refresher, as it is when the refresher runs it.
\<close>

section \<open>Addresses\<close>

text \<open>
  The interfaces of the host with the answer to their addresses; of an interface the last usable address counts.
  The first error is remembered.
\<close>

type_synonym host_ifaces = "(string \<times> (go_error + (ipv4 \<times> ipv4) option list)) list"

definition note_addr :: "string \<Rightarrow> (string \<times> ipv4) list \<Rightarrow> (ipv4 \<times> ipv4) option \<Rightarrow> (string \<times> ipv4) list" where
  "note_addr n m a =
     (case a of
        None \<Rightarrow> m
      | Some (v4, msk) \<Rightarrow>
          if special_ipv4 v4 then m else if toBroadcastIP v4 msk = v4 then m else AList.update n v4 m)"

definition note_iface ::
  "go_error option \<times> (string \<times> ipv4) list \<Rightarrow> string \<times> (go_error + (ipv4 \<times> ipv4) option list) \<Rightarrow> go_error option \<times> (string \<times> ipv4) list" where
  "note_iface acc i =
     (case (acc, i) of
        ((err, m), n, Inl e) \<Rightarrow> (if err = None then Some e else err, m)
      | ((err, m), n, Inr as) \<Rightarrow> (err, foldl (note_addr n) m as))"

definition ifaceIPMap :: "host_ifaces \<Rightarrow> go_error option \<times> (string \<times> ipv4) list" where
  "ifaceIPMap ifaces = foldl note_iface (None, []) ifaces"

definition chosen_ips :: "string list \<Rightarrow> host_ifaces \<Rightarrow> ipv4 list" where
  "chosen_ips names ifaces =
     List.map_filter (map_of (snd (ifaceIPMap ifaces))) (if names \<noteq> [] then names else map fst ifaces)"

definition ExternalIPs :: "string list \<Rightarrow> go_error + host_ifaces \<Rightarrow> go_error + ipv4 list" where
  "ExternalIPs advertiseIfaces got =
     (case got of
        Inl err \<Rightarrow> Inl err
      | Inr ifaces \<Rightarrow>
          (let ips = chosen_ips advertiseIfaces ifaces in
           case fst (ifaceIPMap ifaces) of
             Some err \<Rightarrow> if ips = [] then Inl (Wrap ''detect external IPs: '' err) else Inr ips
           | None \<Rightarrow> if ips = [] then Inl (Errorf ''detect external IPs: no external IP available'') else Inr ips))"

definition ipsForNetworkInterfaces :: "string list \<Rightarrow> go_error + host_ifaces \<Rightarrow> go_error + ipv4 list" where
  "ipsForNetworkInterfaces ifaceNames got =
     (case got of
        Inl err \<Rightarrow> Inl err
      | Inr ifaces \<Rightarrow> (let ips = chosen_ips ifaceNames ifaces in if ips = [] then Inl (Errorf ''no IP available'') else Inr ips))"

section \<open>Announcing this device\<close>

definition mdnsDiscoveryLabel :: string where "mdnsDiscoveryLabel = ''kubemate.mgoltzsche.github.com/mdns-discovery''"
definition mdnsFieldDeviceMode :: string where "mdnsFieldDeviceMode = ''kubemate.mgoltzsche.github.com/device-mode''"
definition mdnsFieldServer :: string where "mdnsFieldServer = ''kubemate.mgoltzsche.github.com/server''"

record mdns_service =
  mz_Instance :: string
  mz_Host :: string
  mz_Port :: int
  mz_IP :: string
  mz_Info :: "string list"

text \<open>\<open>dc_srv\<close> is the server the process holds, \<open>dc_live\<close> says whether it answers.\<close>

record 's discovery =
  dc_deviceName :: string
  dc_port :: int
  dc_advertiseIfaces :: "string list"
  dc_srv :: "mdns_service option"
  dc_live :: bool
  dc_store :: 's

record mdns_lib =
  mdns_new_service :: "mdns_service \<Rightarrow> go_error option"
  mdns_shutdown :: "go_error option"
  mdns_new_server :: "mdns_service \<Rightarrow> go_error option"

definition NewDeviceDiscovery :: "string \<Rightarrow> int \<Rightarrow> string list \<Rightarrow> 's \<Rightarrow> 's discovery" where
  "NewDeviceDiscovery deviceName port ifaces store =
     \<lparr>dc_deviceName = deviceName, dc_port = port, dc_advertiseIfaces = ifaces, dc_srv = None, dc_live = False, dc_store = store\<rparr>"

definition advertise_error :: "go_error \<Rightarrow> go_error" where
  "advertise_error err = Errorf (''advertise mdns name: '' @ error_text err)"

definition device_service :: "'s discovery \<Rightarrow> device_discovery \<Rightarrow> string \<Rightarrow> mdns_service" where
  "device_service d spec ip =
     \<lparr>mz_Instance = dc_deviceName d, mz_Host = dc_deviceName d @ ''.'', mz_Port = dc_port d, mz_IP = ip,
      mz_Info = [''kubemate'', mdnsFieldDeviceMode @ ''='' @ dd_Mode spec] @
        (if dd_Server spec \<noteq> [] then [mdnsFieldServer @ ''='' @ dd_Server spec] else [])\<rparr>"

definition Advertise ::
  "('s, device_discovery) store_ops \<Rightarrow> env \<Rightarrow> mdns_lib \<Rightarrow> string \<Rightarrow> device_discovery \<Rightarrow> string \<Rightarrow> 's discovery \<Rightarrow>
   's discovery \<times> go_error option" where
  "Advertise ops e lib name spec ip d =
     (if name \<noteq> dc_deviceName d then
        (d, Some (Errorf ''refusing to advertise a different device than this one via mdns''))
      else
        (let svc = device_service d spec ip in
         case mdns_new_service lib svc of
           Some err \<Rightarrow> (d, Some (advertise_error err))
         | None \<Rightarrow>
             (if dc_srv d \<noteq> None \<and> mdns_shutdown lib \<noteq> None then (d, Some (advertise_error (the (mdns_shutdown lib))))
              else
                (case mdns_new_server lib svc of
                   Some err \<Rightarrow> (d\<lparr>dc_live := False\<rparr>, Some (advertise_error err))
                 | None \<Rightarrow>
                     (let d1 = d\<lparr>dc_srv := Some svc, dc_live := True\<rparr> in
                      case op_update ops e (dc_store d1) name (\<lambda>r. Inr (r\<lparr>body := spec\<rparr>)) of
                        (s1, Inr _) \<Rightarrow> (d1\<lparr>dc_store := s1\<rparr>, None)
                      | (s1, Inl err) \<Rightarrow>
                          (case op_create ops e s1 name (new_resource name spec) of
                             (s2, Inr _) \<Rightarrow> (d1\<lparr>dc_store := s2\<rparr>, None)
                           | (s2, Inl e2) \<Rightarrow>
                               (d1\<lparr>dc_store := s2\<rparr>, Some (Errorf (''advertise mdns name: '' @ error_text err @ ''. '' @ error_text e2)))))))))"

definition discovery_Close :: "mdns_lib \<Rightarrow> 's discovery \<Rightarrow> 's discovery \<times> go_error option" where
  "discovery_Close lib d =
     (if dc_srv d = None then (d, None)
      else (d\<lparr>dc_srv := None, dc_live := (if mdns_shutdown lib = None then False else dc_live d)\<rparr>, mdns_shutdown lib))"

section \<open>Finding devices\<close>

record mdns_entry =
  me_Host :: string
  me_Port :: int
  me_InfoFields :: "string list"

definition getMDNSEntryField :: "mdns_entry \<Rightarrow> string \<Rightarrow> string" where
  "getMDNSEntryField en field =
     (let p = field @ ''='' in
      case find (\<lambda>v. prefix p v) (me_InfoFields en) of None \<Rightarrow> [] | Some v \<Rightarrow> drop (length p) v)"

definition hasLabel :: "device_discovery resource \<Rightarrow> string \<Rightarrow> bool" where
  "hasLabel r l \<longleftrightarrow> map_of (om_Labels (md r)) l \<noteq> None"

definition entry_name :: "mdns_entry \<Rightarrow> string" where
  "entry_name en = trim_right (\<lambda>c. c = CHR ''.'') (me_Host en)"

definition entry_address :: "mdns_entry \<Rightarrow> string" where
  "entry_address en =
     (let addrs = ''https://'' @ entry_name en in if me_Port en \<noteq> 443 then addrs @ '':'' @ show_int (me_Port en) else addrs)"

definition modify_device :: "mdns_entry \<Rightarrow> device_discovery resource \<Rightarrow> device_discovery resource" where
  "modify_device en r =
     r\<lparr>md := (md r)\<lparr>om_Labels := [(mdnsDiscoveryLabel, ''true'')]\<rparr>,
       body := (body r)\<lparr>dd_Address := entry_address en, dd_Mode := getMDNSEntryField en mdnsFieldDeviceMode,
                        dd_Server := getMDNSEntryField en mdnsFieldServer\<rparr>\<rparr>"

definition zero_discovery :: device_discovery where
  "zero_discovery = \<lparr>dd_Mode = [], dd_Server = [], dd_Address = [], dd_Current = False\<rparr>"

text \<open>One answer; a failed write is logged.\<close>

definition discover_entry ::
  "('s, device_discovery) store_ops \<Rightarrow> env \<Rightarrow> string \<Rightarrow> 's \<times> string list \<Rightarrow> mdns_entry \<Rightarrow> 's \<times> string list" where
  "discover_entry ops e own st en =
     (case st of (s, found) \<Rightarrow>
        let n = entry_name en in
        (if n = own then s
         else
           (case op_get ops s n of
              Inl err \<Rightarrow>
                if is_not_found err then fst (op_create ops e s n (modify_device en (new_resource n zero_discovery))) else s
            | Inr d \<Rightarrow>
                if body (modify_device en d) = body d then s else fst (op_update ops e s n (\<lambda>r. Inr (modify_device en r)))),
         n # found))"

text \<open>The devices that did not answer. The loop asks whether the error it has recorded is \<open>NotFound\<close>.\<close>

fun remove_offline ::
  "('s, device_discovery) store_ops \<Rightarrow> env \<Rightarrow> string list \<Rightarrow> device_discovery resource list \<Rightarrow> go_error option \<Rightarrow> 's \<Rightarrow>
   's \<times> go_error option" where
  "remove_offline ops e found [] err s = (s, err)"
| "remove_offline ops e found (d # ds) err s =
     (if hasLabel d mdnsDiscoveryLabel \<and> rname d \<notin> set found then
        (case op_delete ops e s (rname d) (\<lambda>_. None) of
           (s', Inr _) \<Rightarrow> remove_offline ops e found ds err s'
         | (s', Inl e') \<Rightarrow>
             remove_offline ops e found ds
               (if err = None \<and> \<not> (case err of None \<Rightarrow> False | Some x \<Rightarrow> is_not_found x) then Some e' else err) s')
      else remove_offline ops e found ds err s)"

definition populateDevicesFromMDNS ::
  "('s, device_discovery) store_ops \<Rightarrow> env \<Rightarrow> string \<Rightarrow> mdns_entry list \<times> go_error option \<Rightarrow> 's \<Rightarrow> 's \<times> go_error option" where
  "populateDevicesFromMDNS ops e own answer s =
     (case foldl (discover_entry ops e own) (s, [own]) (fst answer) of
        (s1, found) \<Rightarrow>
          (case snd answer of
             Some err \<Rightarrow> (s1, Some (Wrap ''mdns lookup: '' err))
           | None \<Rightarrow> remove_offline ops e found (ll_Items (op_list ops s1)) None s1))"

section \<open>Services of the cluster\<close>

definition annotationMDNSService :: string where "annotationMDNSService = ''kubemate.mgoltzsche.github.com/mdns-service''"
definition annotationMDNSName :: string where "annotationMDNSName = ''kubemate.mgoltzsche.github.com/mdns-name''"

record kube_service =
  sv_Name :: string
  sv_Annotations :: "(string \<times> string) list"
  sv_Type :: string
  sv_NodePorts :: "int list"

record mdns_config =
  mc_Name :: string
  mc_Type :: string
  mc_Port :: int
  mc_Ifaces :: "string list"
  mc_IPs :: "ipv4 list"

text \<open>The services announced for a key, and whether the responder still runs.\<close>

record mdns_responder =
  mr_configs :: "mdns_config list"
  mr_running :: bool

record mdns_reconciler =
  mm_DeviceName :: string
  mm_NetworkInterfaces :: "string list"
  mm_servers :: "(string \<times> mdns_responder) list"

record dnssd_lib =
  sd_new_responder :: "go_error option"
  sd_new_service :: "mdns_config \<Rightarrow> go_error option"
  sd_add :: "mdns_config \<Rightarrow> go_error option"

definition annotation_of :: "kube_service \<Rightarrow> string \<Rightarrow> string" where
  "annotation_of svc k = (case map_of (sv_Annotations svc) k of None \<Rightarrow> [] | Some v \<Rightarrow> v)"

definition hasMDNSServiceAnnotation :: "kube_service \<Rightarrow> bool" where
  "hasMDNSServiceAnnotation svc \<longleftrightarrow> annotation_of svc annotationMDNSService \<noteq> []"

text \<open>The separator is a comma and the spaces that follow it.\<close>

definition csv_split :: "string \<Rightarrow> string list" where
  "csv_split s = (case split_on CHR '','' s of [] \<Rightarrow> [] | w # ws \<Rightarrow> w # map (trim_left (\<lambda>c. c = CHR '' '')) ws)"

definition toMDNSEntries :: "go_error + host_ifaces \<Rightarrow> mdns_reconciler \<Rightarrow> kube_service \<Rightarrow> (go_error + mdns_config list) go" where
  "toMDNSEntries got r svc =
     (let name = annotation_of svc annotationMDNSName;
          instanceName = mm_DeviceName r @ ''-'' @ (if name \<noteq> [] then name else sv_Name svc)
      in case sv_NodePorts svc of
           [] \<Rightarrow> Panic ''index out of range''
         | port # _ \<Rightarrow> Ret
             (case ipsForNetworkInterfaces (mm_NetworkInterfaces r) got of
                Inl err \<Rightarrow> Inl (Wrap ''failed to get IPs to advertize for mdns service: '' err)
              | Inr ips \<Rightarrow>
                  Inr (map (\<lambda>t. \<lparr>mc_Name = instanceName, mc_Type = t, mc_Port = port, mc_Ifaces = mm_NetworkInterfaces r, mc_IPs = ips\<rparr>)
                    (filter (\<lambda>t. t \<noteq> []) (csv_split (annotation_of svc annotationMDNSService))))))"

fun add_services :: "dnssd_lib \<Rightarrow> mdns_config list \<Rightarrow> go_error option" where
  "add_services lib [] = None"
| "add_services lib (c # cs) =
     (case sd_new_service lib c of
        Some err \<Rightarrow> Some (Wrap ''new mdns service: '' err)
      | None \<Rightarrow>
          (case sd_add lib c of
             Some err \<Rightarrow> Some (Wrap ''add mdns service to responder: '' err)
           | None \<Rightarrow> add_services lib cs))"

definition advertizeService :: "dnssd_lib \<Rightarrow> string \<Rightarrow> mdns_config list \<Rightarrow> mdns_reconciler \<Rightarrow> mdns_reconciler \<times> go_error option" where
  "advertizeService lib key svcs r =
     (case sd_new_responder lib of
        Some err \<Rightarrow> (r, Some (Wrap ''new mdns responder: '' err))
      | None \<Rightarrow>
          (case add_services lib svcs of
             Some err \<Rightarrow> (r, Some err)
           | None \<Rightarrow> (r\<lparr>mm_servers := AList.update key \<lparr>mr_configs = svcs, mr_running = True\<rparr> (mm_servers r)\<rparr>, None)))"

definition shutdownMDNSServer :: "string \<Rightarrow> mdns_reconciler \<Rightarrow> mdns_reconciler" where
  "shutdownMDNSServer key r = r\<lparr>mm_servers := AList.delete key (mm_servers r)\<rparr>"

definition mdns_Close :: "mdns_reconciler \<Rightarrow> mdns_reconciler" where
  "mdns_Close r = foldl (\<lambda>r key. shutdownMDNSServer key r) r (map fst (mm_servers r))"

text \<open>The goroutine of a responder that fails ends; nothing looks after it.\<close>

definition responder_fails :: "string \<Rightarrow> mdns_reconciler \<Rightarrow> mdns_reconciler" where
  "responder_fails key r =
     r\<lparr>mm_servers := map (\<lambda>(k, x). (k, if k = key then x\<lparr>mr_running := False\<rparr> else x)) (mm_servers r)\<rparr>"

definition mdns_reconcile ::
  "dnssd_lib \<Rightarrow> go_error + host_ifaces \<Rightarrow> string \<Rightarrow> go_error + kube_service \<Rightarrow> mdns_reconciler \<Rightarrow> (mdns_reconciler \<times> go_error option) go" where
  "mdns_reconcile lib ifaces key got r =
     (case got of
        Inl err \<Rightarrow> Ret (if is_not_found err then (shutdownMDNSServer key r, None) else (r, Some err))
      | Inr svc \<Rightarrow>
          if \<not> hasMDNSServiceAnnotation svc \<or> sv_Type svc \<noteq> ''NodePort'' \<or> sv_NodePorts svc = [] then
            Ret (shutdownMDNSServer key r, None)
          else if map_of (mm_servers r) key \<noteq> None then Ret (r, None)
          else
            go_bind (toMDNSEntries ifaces r svc) (\<lambda>es.
              Ret (case es of Inl err \<Rightarrow> (r, Some err) | Inr svcs \<Rightarrow> advertizeService lib key svcs r)))"

text \<open>
  The events the controller lets pass: of a changed service, the new object must have the annotation.
\<close>

definition mdns_event :: "kube_service \<Rightarrow> kube_service \<Rightarrow> bool" where
  "mdns_event old new = hasMDNSServiceAnnotation new"

section \<open>What a discovery leaves in the store\<close>

definition names_match :: "(string \<Rightarrow> 'a resource option) \<Rightarrow> bool" where
  "names_match v \<longleftrightarrow> (\<forall>k r. v k = Some r \<longrightarrow> rname r = k)"

definition reports :: "mdns_entry \<Rightarrow> device_discovery \<Rightarrow> bool" where
  "reports en d \<longleftrightarrow> dd_Address d = entry_address en \<and> dd_Mode d = getMDNSEntryField en mdnsFieldDeviceMode \<and>
     dd_Server d = getMDNSEntryField en mdnsFieldServer"

definition last_answer :: "string \<Rightarrow> mdns_entry list \<Rightarrow> mdns_entry option" where
  "last_answer k entries = find (\<lambda>en. entry_name en = k) (rev entries)"

lemma last_answer_simps:
  "last_answer k [] = None" "last_answer k (es @ [en]) = (if entry_name en = k then Some en else last_answer k es)"
  by (simp_all add: last_answer_def)

lemma last_answer_None: "last_answer k es = None \<longleftrightarrow> k \<notin> entry_name ` set es"
  by (auto simp: last_answer_def find_None_iff)

lemma modify_device_simps [simp]:
  "rname (modify_device en r) = rname r" "version (modify_device en r) = version r"
  "reports en (body (modify_device en r))"
  by (simp_all add: modify_device_def reports_def)

context reliable_storage
begin

lemma update_modify:
  assumes "inv s" "view s k = Some old" "\<And>r. version (f r) = version r"
  shows "\<exists>s' r'. op_update ops e s k (\<lambda>r. Inr (f r)) = (s', Inr r') \<and> inv s' \<and> view s' = (view s)(k \<mapsto> r') \<and>
    body r' = body (f old) \<and> rname r' = rname (f old)"
proof -
  obtain s' r' where u: "op_update ops e s k (\<lambda>r. Inr (f r)) = (s', Inr r')"
    using update_succeeds [OF assms(1,2), of "\<lambda>r. Inr (f r)" "f old" e] assms(3) by auto
  from update_ok [OF assms(1) u] assms(2) update_inv [OF assms(1), of e k "\<lambda>r. Inr (f r)"] u show ?thesis by auto
qed

lemma create_new:
  assumes "inv s" "view s k = None"
  shows "\<exists>s' r'. op_create ops e s k r = (s', Inr r') \<and> inv s' \<and> view s' = (view s)(k \<mapsto> r') \<and> body r' = body r \<and> rname r' = k"
proof -
  obtain s' r' where c: "op_create ops e s k r = (s', Inr r')" using create_succeeds [OF assms] by blast
  from create_ok [OF assms(1) c] create_inv [OF assms(1), of e k r] c show ?thesis by auto
qed

lemma delete_present:
  assumes "inv s" "view s k = Some old"
  shows "\<exists>s'. op_delete ops e s k (\<lambda>_. None) = (s', Inr old) \<and> inv s' \<and> view s' = (view s)(k := None)"
proof -
  obtain s' where d: "op_delete ops e s k (\<lambda>_. None) = (s', Inr old)" using delete_succeeds [OF assms, of "\<lambda>_. None" e] by auto
  from delete_ok [OF assms(1) d] delete_inv [OF assms(1), of e k "\<lambda>_. None"] d show ?thesis by auto
qed

end

locale discovery_storage = reliable_storage ops inv view rt
  for ops :: "('s, device_discovery) store_ops" and inv view rt
begin

lemma discover_entry_step:
  assumes "inv s" "names_match (view s)" "discover_entry ops e own (s, found) en = (s', found')"
  shows "inv s' \<and> names_match (view s') \<and> found' = entry_name en # found \<and>
    (\<forall>k. k \<noteq> entry_name en \<or> k = own \<longrightarrow> view s' k = view s k) \<and>
    (entry_name en \<noteq> own \<longrightarrow> (\<exists>r. view s' (entry_name en) = Some r \<and> reports en (body r)))"
proof (cases "entry_name en = own")
  case True
  then show ?thesis using assms by (simp add: discover_entry_def)
next
  case False
  let ?n = "entry_name en"
  show ?thesis
  proof (cases "view s ?n")
    case None
    let ?r = "modify_device en (new_resource ?n zero_discovery)"
    obtain s1 r1 where c: "op_create ops e s ?n ?r = (s1, Inr r1)" "inv s1" "view s1 = (view s)(?n \<mapsto> r1)" "body r1 = body ?r"
        "rname r1 = ?n" using create_new [OF assms(1) None] by metis
    have "s' = s1" "found' = ?n # found"
      using assms(3) False c(1) get_law [OF assms(1), of ?n] by (simp_all add: discover_entry_def None)
    then show ?thesis using c False assms(2) by (auto simp: names_match_def)
  next
    case (Some d)
    have g: "op_get ops s ?n = Inr d" using get_law [OF assms(1), of ?n] by (simp add: Some)
    show ?thesis
    proof (cases "body (modify_device en d) = body d")
      case True
      then have "reports en (body d)" using modify_device_simps(3) [of en d] by simp
      moreover have "s' = s" "found' = ?n # found" using assms(3) False True g by (simp_all add: discover_entry_def)
      ultimately show ?thesis using assms(1,2) Some by auto
    next
      case changed: False
      obtain s1 r1 where u: "op_update ops e s ?n (\<lambda>r. Inr (modify_device en r)) = (s1, Inr r1)" "inv s1"
          "view s1 = (view s)(?n \<mapsto> r1)" "body r1 = body (modify_device en d)" "rname r1 = rname d"
        using update_modify [OF assms(1) Some, of "modify_device en" e] by auto
      have "s' = s1" "found' = ?n # found" using assms(3) False changed g u(1) by (simp_all add: discover_entry_def)
      then show ?thesis using u False assms(2) Some by (auto simp: names_match_def)
    qed
  qed
qed

lemma discover_entries:
  assumes "inv s" "names_match (view s)" "foldl (discover_entry ops e own) (s, [own]) entries = (s', found)"
  shows "inv s' \<and> names_match (view s') \<and> set found = insert own (entry_name ` set entries) \<and> view s' own = view s own \<and>
    (\<forall>k. k \<noteq> own \<longrightarrow>
      (case last_answer k entries of
         None \<Rightarrow> view s' k = view s k
       | Some en \<Rightarrow> \<exists>r. view s' k = Some r \<and> reports en (body r)))"
  using assms(3)
proof (induction entries arbitrary: s' found rule: rev_induct)
  case Nil
  then show ?case using assms(1,2) by (auto simp: last_answer_simps)
next
  case (snoc en es)
  obtain s1 found1 where f: "foldl (discover_entry ops e own) (s, [own]) es = (s1, found1)" by fastforce
  note ih = snoc.IH [OF f]
  have "discover_entry ops e own (s1, found1) en = (s', found)" using snoc.prems f by simp
  note step = discover_entry_step [OF _ _ this]
  have step: "names_match (view s') \<and> inv s' \<and> found = entry_name en # found1 \<and>
      (\<forall>k. k \<noteq> entry_name en \<or> k = own \<longrightarrow> view s' k = view s1 k) \<and>
      (entry_name en \<noteq> own \<longrightarrow> (\<exists>r. view s' (entry_name en) = Some r \<and> reports en (body r)))"
    using step ih by blast
  have "case last_answer k (es @ [en]) of None \<Rightarrow> view s' k = view s k | Some en \<Rightarrow> \<exists>r. view s' k = Some r \<and> reports en (body r)"
    if "k \<noteq> own" for k
  proof (cases "entry_name en = k")
    case True
    then show ?thesis using step that by (simp add: last_answer_simps)
  next
    case False
    then have "view s' k = view s1 k" using step by metis
    moreover have "case last_answer k es of None \<Rightarrow> view s1 k = view s k | Some en \<Rightarrow> \<exists>r. view s1 k = Some r \<and> reports en (body r)"
      using ih that by blast
    ultimately show ?thesis using False by (cases "last_answer k es") (simp_all add: last_answer_simps)
  qed
  moreover have "view s' own = view s1 own" using step by metis
  moreover have "set found = insert own (entry_name ` set (es @ [en]))" using ih step by auto
  ultimately show ?case using ih step by simp
qed

lemma remove_offline_ok:
  "inv s \<Longrightarrow> names_match (view s) \<Longrightarrow> distinct (map rname items) \<Longrightarrow> rname ` set items \<subseteq> dom (view s) \<Longrightarrow>
   \<exists>s'. remove_offline ops e found items None s = (s', None) \<and> inv s' \<and> names_match (view s') \<and>
     view s' = (\<lambda>k. if \<exists>d \<in> set items. rname d = k \<and> hasLabel d mdnsDiscoveryLabel \<and> k \<notin> set found then None else view s k)"
proof (induction items arbitrary: s)
  case (Cons d ds)
  have new: "\<And>r. r \<in> set ds \<Longrightarrow> rname r \<noteq> rname d" using Cons.prems(3) by (force simp: image_iff)
  show ?case
  proof (cases "hasLabel d mdnsDiscoveryLabel \<and> rname d \<notin> set found")
    case False
    then show ?thesis using Cons.IH [OF Cons.prems(1,2)] Cons.prems(3,4) by (auto intro!: ext)
  next
    case True
    obtain old where "view s (rname d) = Some old" using Cons.prems(4) by auto
    then obtain s1 where s1: "op_delete ops e s (rname d) (\<lambda>_. None) = (s1, Inr old)" "inv s1" "view s1 = (view s)(rname d := None)"
      using delete_present [OF Cons.prems(1)] by blast
    have "names_match (view s1)" using Cons.prems(2) s1(3) by (auto simp: names_match_def)
    moreover have "rname ` set ds \<subseteq> dom (view s1)" using Cons.prems(4) s1(3) new by auto
    ultimately obtain s' where s': "remove_offline ops e found ds None s1 = (s', None)" "inv s'" "names_match (view s')"
      "view s' = (\<lambda>k. if \<exists>d \<in> set ds. rname d = k \<and> hasLabel d mdnsDiscoveryLabel \<and> k \<notin> set found then None else view s1 k)"
      using Cons.IH [OF s1(2)] Cons.prems(3) by auto
    have "remove_offline ops e found (d # ds) None s = (s', None)" using True s1(1) s'(1) by simp
    moreover have "view s' = (\<lambda>k. if \<exists>d' \<in> set (d # ds). rname d' = k \<and> hasLabel d' mdnsDiscoveryLabel \<and> k \<notin> set found
        then None else view s k)" by (rule ext) (use s'(4) s1(3) True in auto)
    ultimately show ?thesis using s'(2,3) by blast
  qed
qed auto

end

interpretation disc: discovery_storage "mem_ops devicediscovery_rt" mem_inv mem_view devicediscovery_rt
  by (intro discovery_storage.intro mem.reliable_storage_axioms)

lemma keys_named_names_match: "keys_named s \<longleftrightarrow> names_match (mem_view s)"
  by (simp add: keys_named_def names_match_def)

lemma hasLabel_gvk [simp]: "hasLabel (set_gvk rt r) l = hasLabel r l"
  by (simp add: hasLabel_def)

text \<open>
  C25. A discovery brings the list of devices up to date: whatever mDNS answers, the store afterwards has, for
  every other device that answered, a resource with the mode, server and address of its last answer; a device
  found by an earlier discovery that did not answer is gone; and this device and those put there by others are
  as before. No error is returned.
\<close>

theorem discovery_synced:
  assumes "mem_inv s" "keys_named s"
  shows "\<exists>s'. populateDevicesFromMDNS (mem_ops devicediscovery_rt) e own (entries, None) s = (s', None) \<and>
    mem_inv s' \<and> keys_named s' \<and>
    (if k = own then mem_view s' k = mem_view s k
     else
       (case last_answer k entries of
          Some en \<Rightarrow> \<exists>r. mem_view s' k = Some r \<and> reports en (body r)
        | None \<Rightarrow> mem_view s' k = (case mem_view s k of None \<Rightarrow> None | Some r \<Rightarrow> if hasLabel r mdnsDiscoveryLabel then None else Some r)))"
proof -
  let ?ops = "mem_ops devicediscovery_rt"
  obtain s1 found where f: "foldl (discover_entry ?ops e own) (s, [own]) entries = (s1, found)" by fastforce
  note d = disc.discover_entries [OF assms(1) assms(2) [unfolded keys_named_names_match] f]
  have inv1: "mem_inv s1" and kn1: "keys_named s1" using d by (simp_all add: keys_named_names_match)
  let ?l = "ll_Items (op_list ?ops s1)"
  have names: "map rname ?l = sort (map fst (ms_items s1))" using list_names [OF inv1 kn1] by (simp add: mem_ops_def)
  have wf: "wf_map (ms_items s1)" using inv1 unfolding mem_inv_def by blast
  have dist: "distinct (map rname ?l)" using names sorted_keys_dom [OF wf] by metis
  have set: "rname ` set ?l = dom (mem_view s1)"
    using arg_cong [OF names, of set] sorted_keys_dom [OF wf] by (metis list.set_map)
  have l: "?l = map (\<lambda>k. set_gvk devicediscovery_rt (the (mem_view s1 k))) (sort (map fst (ms_items s1)))"
    by (simp add: mem_ops_def mem_list_def)
  have set_l: "set ?l = (\<lambda>k. set_gvk devicediscovery_rt (the (mem_view s1 k))) ` dom (mem_view s1)"
    unfolding l set_map using sorted_keys_dom [OF wf] by metis
  have offline: "(\<exists>d \<in> set ?l. rname d = k \<and> hasLabel d mdnsDiscoveryLabel \<and> k \<notin> set found) \<longleftrightarrow>
      (\<exists>r. mem_view s1 k = Some r \<and> hasLabel r mdnsDiscoveryLabel \<and> k \<notin> set found)" for k
  proof
    assume "\<exists>d \<in> set ?l. rname d = k \<and> hasLabel d mdnsDiscoveryLabel \<and> k \<notin> set found"
    then obtain d where d: "d \<in> set ?l" "rname d = k" "hasLabel d mdnsDiscoveryLabel" "k \<notin> set found" by blast
    then obtain k' where "k' \<in> dom (mem_view s1)" "d = set_gvk devicediscovery_rt (the (mem_view s1 k'))"
      unfolding set_l by blast
    with d have "k' \<in> dom (mem_view s1)" "rname (the (mem_view s1 k')) = k" "hasLabel (the (mem_view s1 k')) mdnsDiscoveryLabel"
        "k \<notin> set found" by simp_all
    then show "\<exists>r. mem_view s1 k = Some r \<and> hasLabel r mdnsDiscoveryLabel \<and> k \<notin> set found"
      using kn1 by (auto simp: keys_named_def)
  next
    assume "\<exists>r. mem_view s1 k = Some r \<and> hasLabel r mdnsDiscoveryLabel \<and> k \<notin> set found"
    then obtain r where r: "mem_view s1 k = Some r" "hasLabel r mdnsDiscoveryLabel" "k \<notin> set found" by blast
    have "set_gvk devicediscovery_rt r \<in> set ?l"
      unfolding set_l using r(1) by (intro image_eqI [of _ _ k]) auto
    moreover have "rname r = k" using kn1 r(1) by (simp add: keys_named_def)
    ultimately show "\<exists>d \<in> set ?l. rname d = k \<and> hasLabel d mdnsDiscoveryLabel \<and> k \<notin> set found"
      using r(2,3) by (intro bexI [of _ "set_gvk devicediscovery_rt r"]) simp_all
  qed
  obtain s' where s': "remove_offline ?ops e found ?l None s1 = (s', None)" "mem_inv s'" "names_match (mem_view s')"
    "mem_view s' = (\<lambda>k. if \<exists>d \<in> set ?l. rname d = k \<and> hasLabel d mdnsDiscoveryLabel \<and> k \<notin> set found then None else mem_view s1 k)"
    using disc.remove_offline_ok [OF inv1 kn1 [unfolded keys_named_names_match] dist equalityD1 [OF set], of e found] by blast
  have v: "mem_view s' k = (if \<exists>r. mem_view s1 k = Some r \<and> hasLabel r mdnsDiscoveryLabel \<and> k \<notin> set found then None else mem_view s1 k)"
    by (simp only: s'(4) offline)
  have "populateDevicesFromMDNS ?ops e own (entries, None) s = (s', None)"
    by (simp add: populateDevicesFromMDNS_def f s'(1))
  moreover have "if k = own then mem_view s' k = mem_view s k
     else
       (case last_answer k entries of
          Some en \<Rightarrow> \<exists>r. mem_view s' k = Some r \<and> reports en (body r)
        | None \<Rightarrow> mem_view s' k = (case mem_view s k of None \<Rightarrow> None | Some r \<Rightarrow> if hasLabel r mdnsDiscoveryLabel then None else Some r))"
  proof (cases "k = own")
    case True
    then show ?thesis using v d by auto
  next
    case False
    have dk: "case last_answer k entries of None \<Rightarrow> mem_view s1 k = mem_view s k
        | Some en \<Rightarrow> \<exists>r. mem_view s1 k = Some r \<and> reports en (body r)" using d False by blast
    show ?thesis
    proof (cases "last_answer k entries")
      case None
      have "mem_view s1 k = mem_view s k" using dk None by simp
      moreover have "k \<notin> set found" using None d False by (simp add: last_answer_None)
      ultimately show ?thesis using v False None by (simp split: option.splits)
    next
      case (Some en)
      then have "k \<in> set found" using d last_answer_None [of k entries] by auto
      then show ?thesis using v dk False Some by simp
    qed
  qed
  ultimately show ?thesis using s'(2,3) keys_named_names_match by blast
qed

definition demo_answer :: mdns_entry where
  "demo_answer = \<lparr>me_Host = ''kitchen.'', me_Port = 443, me_InfoFields = [''kubemate'', mdnsFieldDeviceMode @ ''=agent'']\<rparr>"

theorem discovery_synced_witness:
  "\<exists>s' r. populateDevicesFromMDNS (mem_ops devicediscovery_rt) demo_env ''pi'' ([demo_answer], None) InMemory = (s', None) \<and>
     mem_view s' ''kitchen'' = Some r \<and> dd_Mode (body r) = ''agent'' \<and> dd_Address (body r) = ''https://kitchen''"
proof -
  have kn: "keys_named InMemory" by (simp add: keys_named_def InMemory_def)
  have n: "entry_name demo_answer = ''kitchen''" "entry_address demo_answer = ''https://kitchen''"
    by (simp_all add: entry_name_def entry_address_def demo_answer_def trim_right_def)
  have "getMDNSEntryField demo_answer mdnsFieldDeviceMode = ''agent''"
    by (simp add: getMDNSEntryField_def demo_answer_def mdnsFieldDeviceMode_def)
  moreover have "last_answer ''kitchen'' [demo_answer] = Some demo_answer" by (simp add: last_answer_def n)
  ultimately show ?thesis
    using discovery_synced [OF mem_inv_InMemory kn, of demo_env "''pi''" "[demo_answer]" "''kitchen''"] n
    by (auto simp: reports_def)
qed

section \<open>What is announced\<close>

text \<open>The addresses announced are usable ones, of the interfaces asked for.\<close>

lemma chosen_ips_usable:
  assumes "ip \<in> set (chosen_ips names ifaces)"
  shows "\<exists>n as msk. (n, Inr as) \<in> set ifaces \<and> Some (ip, msk) \<in> set as \<and> \<not> special_ipv4 ip \<and> toBroadcastIP ip msk \<noteq> ip \<and>
    (names \<noteq> [] \<longrightarrow> n \<in> set names)"
proof -
  define good :: "host_ifaces \<Rightarrow> string \<Rightarrow> ipv4 \<Rightarrow> bool" where "good = (\<lambda>is n ip. \<exists>as msk. (n, Inr as) \<in> set is \<and> Some (ip, msk) \<in> set as \<and> \<not> special_ipv4 ip \<and> toBroadcastIP ip msk \<noteq> ip)"
  have addrs: "map_of (foldl (note_addr n) m as) k = Some ip \<Longrightarrow>
      map_of m k = Some ip \<or> k = n \<and> (\<exists>msk. Some (ip, msk) \<in> set as \<and> \<not> special_ipv4 ip \<and> toBroadcastIP ip msk \<noteq> ip)" for n m as k ip
    by (induction as arbitrary: m) (fastforce simp: note_addr_def alist_simps split: option.splits if_splits prod.splits)+
  have step: "map_of (snd (note_iface acc i)) k = Some ip \<Longrightarrow> map_of (snd acc) k = Some ip \<or> good [i] k ip" for acc i k ip
    using addrs by (cases acc; cases i; cases "snd i") (fastforce simp: note_iface_def good_def)+
  have "map_of (snd (foldl note_iface acc is)) k = Some ip \<Longrightarrow> map_of (snd acc) k = Some ip \<or> good is k ip" for acc "is" k ip
  proof (induction "is" arbitrary: acc)
    case (Cons i "is")
    from Cons.IH [of "note_iface acc i"] Cons.prems step [of acc i k ip] show ?case by (auto simp: good_def)
  qed simp
  from this [of "(None, [])" ifaces] have map: "map_of (snd (ifaceIPMap ifaces)) k = Some ip \<Longrightarrow> good ifaces k ip" for k ip
    by (simp add: ifaceIPMap_def)
  obtain n where "map_of (snd (ifaceIPMap ifaces)) n = Some ip" "names \<noteq> [] \<longrightarrow> n \<in> set names"
    using assms by (auto simp: chosen_ips_def List.map_filter_def split: if_splits)
  then show ?thesis using map by (fastforce simp: good_def)
qed

text \<open>
  After a reconcile without error a service is announced exactly if it exists, asks for it and has a node
  port; what was announced before stays as it was, even if the service has changed meanwhile.
\<close>

lemma mdns_follows_service:
  assumes "mdns_reconcile lib ifaces key got r = Ret (r', None)"
  shows "map_of (mm_servers r') key \<noteq> None \<longleftrightarrow>
      (case got of
         Inl _ \<Rightarrow> False
       | Inr svc \<Rightarrow> hasMDNSServiceAnnotation svc \<and> sv_Type svc = ''NodePort'' \<and> sv_NodePorts svc \<noteq> [])"
    and "map_of (mm_servers r) key = Some x \<Longrightarrow> map_of (mm_servers r') key \<in> {None, Some x}"
    and "k \<noteq> key \<Longrightarrow> map_of (mm_servers r') k = map_of (mm_servers r) k"
  using assms
  by (auto simp: mdns_reconcile_def shutdownMDNSServer_def toMDNSEntries_def advertizeService_def alist_simps Let_def
      split: sum.splits if_splits option.splits list.splits)

text \<open>Taking the annotation off a service is not noticed: the event is not let pass.\<close>

lemma mdns_removal_unnoticed:
  "hasMDNSServiceAnnotation old \<Longrightarrow> \<not> hasMDNSServiceAnnotation new \<Longrightarrow> \<not> mdns_event old new"
  by (simp add: mdns_event_def)

text \<open>A responder that failed is not started again: the key is taken for announced.\<close>

lemma mdns_failed_responder_stays:
  assumes "map_of (mm_servers r) key = Some x" "hasMDNSServiceAnnotation svc" "sv_Type svc = ''NodePort''" "sv_NodePorts svc \<noteq> []"
  shows "mdns_reconcile lib ifaces key (Inr svc) (responder_fails key r) = Ret (responder_fails key r, None)"
proof -
  have "map_of (map (\<lambda>(k, x). (k, if k = key then x\<lparr>mr_running := False\<rparr> else x)) m) key \<noteq> None" if "map_of m key = Some x" for m
    using that by (induction m) (auto split: if_splits)
  then show ?thesis using assms by (simp add: mdns_reconcile_def responder_fails_def)
qed

lemma mdns_Close_all: "mm_servers (mdns_Close r) = []"
proof -
  have "foldl (\<lambda>r key. shutdownMDNSServer key r) r ks = r\<lparr>mm_servers := filter (\<lambda>(k, _). k \<notin> set ks) (mm_servers r)\<rparr>" for ks r
    by (induction ks arbitrary: r) (auto simp: shutdownMDNSServer_def AList.delete_eq intro!: arg_cong [where f = "\<lambda>l. mm_servers_update (\<lambda>_. l) _"] filter_cong)
  then show ?thesis by (force simp add: mdns_Close_def filter_empty_conv image_iff)
qed

end
