(* ===== verification/Node.thy ===== *)
theory Node
  imports DeviceApi
begin

text \<open>
  Draining and shutting down a node (\<open>pkg/reconciler/device/node_reconciler.go\<close>, \<open>pkg/drain/drain.go\<close>): the
  reconciler of the server and the one on the node itself take turns, by annotations of the node. The
  API server and the drain helper of kubectl are parameters.
\<close>

definition nodeDrainAnnotation :: string where "nodeDrainAnnotation = NodeDrainAnnotation"
definition nodeShutdownAnnotation :: string where "nodeShutdownAnnotation = ''kubemate.mgoltzsche.github.com/shutdown''"
definition nodeUncordonAnnotation :: string where "nodeUncordonAnnotation = ''kubemate.mgoltzsche.github.com/uncordon''"
definition nodeRestartedAnnotation :: string where "nodeRestartedAnnotation = ''kubemate.mgoltzsche.github.com/restarted''"
definition nodeTerminatedAnnotation :: string where "nodeTerminatedAnnotation = ''kubemate.mgoltzsche.github.com/terminated''"

lemmas node_annotations = nodeDrainAnnotation_def nodeShutdownAnnotation_def nodeUncordonAnnotation_def
  nodeRestartedAnnotation_def nodeTerminatedAnnotation_def NodeDrainAnnotation_def

section \<open>Draining\<close>

text \<open>
  The node as the cluster has it, the pods that run on it, and the calls of the shutdown function. The
  cordon helper of kubectl sends the difference between its node, a new one, and the state desired of
  it, which is schedulable unless it is told otherwise.
\<close>

record node =
  nd_Name :: string
  nd_Annotations :: "(string \<times> string) list"
  nd_Unschedulable :: bool
  nd_Pods :: "string list"
  nd_Shutdowns :: nat

record cordon_helper =
  ch_Unschedulable :: bool
  ch_desired :: bool

definition NewCordonHelper :: cordon_helper where
  "NewCordonHelper = \<lparr>ch_Unschedulable = False, ch_desired = False\<rparr>"

record kube =
  k_client :: "go_error option"
  k_patch :: "cordon_helper \<Rightarrow> bool \<Rightarrow> bool \<times> go_error option"
  k_list :: "go_error option"
  k_evict :: "string list \<Rightarrow> string list \<times> go_error option"
  k_list2 :: "go_error option"
  k_update :: "go_error option"
  k_update2 :: "go_error option"
  k_shutdown :: "go_error option"

definition cordonOrUncordon :: "kube \<Rightarrow> bool \<Rightarrow> node \<Rightarrow> node \<times> go_error option" where
  "cordonOrUncordon k cordon n =
     (case k_patch k NewCordonHelper (nd_Unschedulable n) of (u, err) \<Rightarrow> (n\<lparr>nd_Unschedulable := u\<rparr>, err))"

definition DrainNode :: "kube \<Rightarrow> node \<Rightarrow> node \<times> go_error option" where
  "DrainNode k n =
     (case cordonOrUncordon k True n of
        (n1, Some err) \<Rightarrow> (n1, Some (Wrap ''drain node: '' err))
      | (n1, None) \<Rightarrow>
          (case k_list k of
             Some err \<Rightarrow> (n1, Some (Wrap ''get pods for deletion: '' err))
           | None \<Rightarrow>
               (case k_evict k (nd_Pods n1) of
                  (pods, None) \<Rightarrow> (n1\<lparr>nd_Pods := pods\<rparr>, None)
                | (pods, Some err) \<Rightarrow>
                    (n1\<lparr>nd_Pods := pods\<rparr>,
                     Some (case k_list2 k of
                             Some e2 \<Rightarrow> Wrap ''drain: get pending pods: '' e2
                           | None \<Rightarrow> Wrap ''delete or evict pods on node: '' err)))))"

definition Uncordon :: "kube \<Rightarrow> node \<Rightarrow> node \<times> go_error option" where
  "Uncordon k n = cordonOrUncordon k False n"

section \<open>The reconciler\<close>

definition annot :: "(string \<times> string) list \<Rightarrow> string \<Rightarrow> string" where
  "annot a k = (case map_of a k of None \<Rightarrow> [] | Some v \<Rightarrow> v)"

text \<open>\<open>Client.Update\<close> with new annotations.\<close>

definition put_annotations :: "go_error option \<Rightarrow> (string \<times> string) list \<Rightarrow> node \<Rightarrow> node \<times> go_error option" where
  "put_annotations res a n = (case res of Some err \<Rightarrow> (n, Some err) | None \<Rightarrow> (n\<lparr>nd_Annotations := a\<rparr>, None))"

definition and_then :: "node \<times> go_error option \<Rightarrow> (node \<Rightarrow> node \<times> go_error option) \<Rightarrow> node \<times> go_error option" where
  "and_then m f = (case m of (n, Some err) \<Rightarrow> (n, Some err) | (n, None) \<Rightarrow> f n)"

definition drain_on_server :: "kube \<Rightarrow> node \<Rightarrow> node \<times> go_error option" where
  "drain_on_server k n =
     and_then (n, k_client k) (\<lambda>n.
       let a = AList.update nodeRestartedAnnotation ''false'' (AList.update nodeUncordonAnnotation ''true'' (nd_Annotations n)) in
       and_then (put_annotations (k_update k) a n) (\<lambda>n.
       and_then (DrainNode k n)
         (put_annotations (k_update2 k) (AList.update nodeShutdownAnnotation ''true'' (AList.delete nodeDrainAnnotation a)))))"

definition uncordon_on_server :: "kube \<Rightarrow> node \<Rightarrow> node \<times> go_error option" where
  "uncordon_on_server k n =
     and_then (n, k_client k) (\<lambda>n.
     and_then (Uncordon k n)
       (put_annotations (k_update k) (AList.delete nodeUncordonAnnotation (nd_Annotations n))))"

definition shutdown_on_node :: "kube \<Rightarrow> string \<Rightarrow> node \<Rightarrow> node \<times> go_error option" where
  "shutdown_on_node k rebootID n =
     and_then
       (put_annotations (k_update k)
          (AList.update nodeTerminatedAnnotation rebootID (AList.delete nodeShutdownAnnotation (nd_Annotations n))) n)
       (\<lambda>n. (n\<lparr>nd_Shutdowns := nd_Shutdowns n + 1\<rparr>, k_shutdown k))"

definition restarted_on_node :: "kube \<Rightarrow> node \<Rightarrow> node \<times> go_error option" where
  "restarted_on_node k n =
     put_annotations (k_update k)
       (AList.update nodeRestartedAnnotation ''true'' (AList.delete nodeTerminatedAnnotation (nd_Annotations n))) n"

text \<open>
  \<open>Reconcile\<close> on the device \<open>deviceName\<close> with the reboot id of its process; \<open>got\<close> is the device's own
  resource.
\<close>

definition node_reconcile :: "kube \<Rightarrow> string \<Rightarrow> string \<Rightarrow> go_error + device \<Rightarrow> node \<Rightarrow> node \<times> go_error option" where
  "node_reconcile k deviceName rebootID got n =
     (case got of
        Inl err \<Rightarrow> (n, Some err)
      | Inr d \<Rightarrow>
          (let a = annot (nd_Annotations n); server = (ds_Mode (dev_Spec d) = DeviceModeServer) in
           if server \<and> a nodeDrainAnnotation = ''true'' then drain_on_server k n
           else if server \<and> a nodeUncordonAnnotation = ''true'' \<and> a nodeRestartedAnnotation = ''true'' \<and>
                   a nodeTerminatedAnnotation = [] then uncordon_on_server k n
           else if nd_Name n = deviceName \<and> a nodeTerminatedAnnotation \<noteq> rebootID then
             (if a nodeShutdownAnnotation = ''true'' then shutdown_on_node k rebootID n
              else if a nodeRestartedAnnotation = ''false'' \<and> a nodeTerminatedAnnotation \<noteq> [] then restarted_on_node k n
              else (n, None))
           else (n, None)))"

section \<open>The cycle\<close>

text \<open>
  The reconciler of the server, the one on the node, and restarts of the node, each of which gives its
  reconciler a new reboot id, \<open>bid\<close> of the number of restarts. Every reconcile has its own answers of the
  API server.
\<close>

datatype actor = Server | OnNode | Restart

record cycle =
  cy_node :: node
  cy_boot :: nat

definition cycle_step :: "(nat \<Rightarrow> string) \<Rightarrow> string \<Rightarrow> device \<Rightarrow> device \<Rightarrow> actor \<times> kube \<Rightarrow> cycle \<Rightarrow> cycle" where
  "cycle_step bid server ds dn ev s =
     (case ev of
        (Server, k) \<Rightarrow> s\<lparr>cy_node := fst (node_reconcile k server [] (Inr ds) (cy_node s))\<rparr>
      | (OnNode, k) \<Rightarrow> s\<lparr>cy_node := fst (node_reconcile k (nd_Name (cy_node s)) (bid (cy_boot s)) (Inr dn) (cy_node s))\<rparr>
      | (Restart, k) \<Rightarrow> s\<lparr>cy_boot := cy_boot s + 1\<rparr>)"

definition cycle_run :: "(nat \<Rightarrow> string) \<Rightarrow> string \<Rightarrow> device \<Rightarrow> device \<Rightarrow> (actor \<times> kube) list \<Rightarrow> cycle \<Rightarrow> cycle" where
  "cycle_run bid server ds dn evs s = foldl (\<lambda>s ev. cycle_step bid server ds dn ev s) s evs"

lemma annot_simps [simp]:
  "annot (AList.update k v a) k' = (if k' = k then v else annot a k')"
  "annot (AList.delete k a) k' = (if k' = k then [] else annot a k')"
  by (simp_all add: annot_def alist_simps)

lemma annotations_ne [simp]:
  "nodeDrainAnnotation \<noteq> nodeShutdownAnnotation" "nodeDrainAnnotation \<noteq> nodeUncordonAnnotation"
  "nodeDrainAnnotation \<noteq> nodeRestartedAnnotation" "nodeDrainAnnotation \<noteq> nodeTerminatedAnnotation"
  "nodeShutdownAnnotation \<noteq> nodeDrainAnnotation" "nodeShutdownAnnotation \<noteq> nodeUncordonAnnotation"
  "nodeShutdownAnnotation \<noteq> nodeRestartedAnnotation" "nodeShutdownAnnotation \<noteq> nodeTerminatedAnnotation"
  "nodeUncordonAnnotation \<noteq> nodeDrainAnnotation" "nodeUncordonAnnotation \<noteq> nodeShutdownAnnotation"
  "nodeUncordonAnnotation \<noteq> nodeRestartedAnnotation" "nodeUncordonAnnotation \<noteq> nodeTerminatedAnnotation"
  "nodeRestartedAnnotation \<noteq> nodeDrainAnnotation" "nodeRestartedAnnotation \<noteq> nodeShutdownAnnotation"
  "nodeRestartedAnnotation \<noteq> nodeUncordonAnnotation" "nodeRestartedAnnotation \<noteq> nodeTerminatedAnnotation"
  "nodeTerminatedAnnotation \<noteq> nodeDrainAnnotation" "nodeTerminatedAnnotation \<noteq> nodeShutdownAnnotation"
  "nodeTerminatedAnnotation \<noteq> nodeUncordonAnnotation" "nodeTerminatedAnnotation \<noteq> nodeRestartedAnnotation"
  by (simp_all add: node_annotations)

text \<open>Draining touches neither the annotations nor the name nor the shutdown count.\<close>

lemma cordon_keeps [simp]:
  "nd_Annotations (fst (cordonOrUncordon k c n)) = nd_Annotations n" "nd_Name (fst (cordonOrUncordon k c n)) = nd_Name n"
  "nd_Shutdowns (fst (cordonOrUncordon k c n)) = nd_Shutdowns n"
  by (simp_all add: cordonOrUncordon_def split: prod.splits)

lemma drain_keeps [simp]:
  "nd_Annotations (fst (DrainNode k n)) = nd_Annotations n" "nd_Name (fst (DrainNode k n)) = nd_Name n"
  "nd_Shutdowns (fst (DrainNode k n)) = nd_Shutdowns n"
proof -
  obtain n1 r where c: "cordonOrUncordon k True n = (n1, r)" by fastforce
  have n1: "nd_Annotations n1 = nd_Annotations n" "nd_Name n1 = nd_Name n" "nd_Shutdowns n1 = nd_Shutdowns n"
    using cordon_keeps [of k True n] c by simp_all
  have "\<exists>pods. fst (DrainNode k n) = n1\<lparr>nd_Pods := pods\<rparr>"
    by (cases r; cases "k_list k"; cases "k_evict k (nd_Pods n1)"; cases "snd (k_evict k (nd_Pods n1))")
       (auto simp: DrainNode_def c intro: exI [of _ "nd_Pods n1"])
  with n1 show "nd_Annotations (fst (DrainNode k n)) = nd_Annotations n" "nd_Name (fst (DrainNode k n)) = nd_Name n"
    "nd_Shutdowns (fst (DrainNode k n)) = nd_Shutdowns n" by auto
qed

lemma fst_and_then:
  "fst (and_then m f) = (if snd m = None then fst (f (fst m)) else fst m)"
  by (cases m) (auto simp: and_then_def split: option.splits)

lemma put_keeps [simp]:
  "nd_Name (fst (put_annotations r a n)) = nd_Name n" "nd_Shutdowns (fst (put_annotations r a n)) = nd_Shutdowns n"
  "nd_Annotations (fst (put_annotations r a n)) = (if r = None then a else nd_Annotations n)"
  "(snd (put_annotations r a n) = None) = (r = None)"
  by (auto simp: put_annotations_def split: option.splits)

text \<open>The count of shutdowns and what a reconcile does to it and to the terminated annotation.\<close>

definition boots_ok :: "string \<Rightarrow> nat \<Rightarrow> node \<Rightarrow> bool" where
  "boots_ok boot b n \<longleftrightarrow> nd_Shutdowns n \<le> b + (if annot (nd_Annotations n) nodeTerminatedAnnotation = boot then 1 else 0)"

lemma server_keeps_terminated:
  "annot (nd_Annotations (fst (drain_on_server k n))) nodeTerminatedAnnotation = annot (nd_Annotations n) nodeTerminatedAnnotation"
  "nd_Shutdowns (fst (drain_on_server k n)) = nd_Shutdowns n"
  "annot (nd_Annotations (fst (uncordon_on_server k n))) nodeTerminatedAnnotation = annot (nd_Annotations n) nodeTerminatedAnnotation"
  "nd_Shutdowns (fst (uncordon_on_server k n)) = nd_Shutdowns n"
  by (simp_all add: drain_on_server_def uncordon_on_server_def fst_and_then Uncordon_def Let_def)

lemma node_ops_boots:
  assumes "boots_ok boot b n"
  shows "boots_ok boot b (fst (drain_on_server k n))" "boots_ok boot b (fst (uncordon_on_server k n))"
    "annot (nd_Annotations n) nodeTerminatedAnnotation \<noteq> boot \<Longrightarrow> boots_ok boot b (fst (shutdown_on_node k boot n))"
    "annot (nd_Annotations n) nodeTerminatedAnnotation \<noteq> boot \<Longrightarrow> boots_ok boot b (fst (restarted_on_node k n))"
  using assms by (simp_all add: boots_ok_def server_keeps_terminated shutdown_on_node_def restarted_on_node_def fst_and_then)

lemma node_reconcile_cases:
  obtains (nothing) "fst (node_reconcile k name rid got n) = n"
  | (drain) "node_reconcile k name rid got n = drain_on_server k n"
  | (uncordon) "node_reconcile k name rid got n = uncordon_on_server k n"
  | (shutdown) "node_reconcile k name rid got n = shutdown_on_node k rid n" "nd_Name n = name"
      "annot (nd_Annotations n) nodeTerminatedAnnotation \<noteq> rid"
  | (restarted) "node_reconcile k name rid got n = restarted_on_node k n" "nd_Name n = name"
      "annot (nd_Annotations n) nodeTerminatedAnnotation \<noteq> rid"
proof (cases got)
  case (Inl err)
  then have "fst (node_reconcile k name rid got n) = n" by (simp add: node_reconcile_def)
  then show thesis by (rule nothing)
next
  case (Inr d)
  let ?a = "annot (nd_Annotations n)"
  let ?server = "ds_Mode (dev_Spec d) = DeviceModeServer"
  let ?c1 = "?server \<and> ?a nodeDrainAnnotation = ''true''"
  let ?c2 = "?server \<and> ?a nodeUncordonAnnotation = ''true'' \<and> ?a nodeRestartedAnnotation = ''true'' \<and> ?a nodeTerminatedAnnotation = []"
  let ?c3 = "nd_Name n = name \<and> ?a nodeTerminatedAnnotation \<noteq> rid"
  have e: "node_reconcile k name rid got n = (if ?c1 then drain_on_server k n else if ?c2 then uncordon_on_server k n
      else if ?c3 then (if ?a nodeShutdownAnnotation = ''true'' then shutdown_on_node k rid n
        else if ?a nodeRestartedAnnotation = ''false'' \<and> ?a nodeTerminatedAnnotation \<noteq> [] then restarted_on_node k n else (n, None))
      else (n, None))"
    unfolding node_reconcile_def Inr sum.case Let_def by (rule refl)
  consider "?c1" | "\<not> ?c1" "?c2" | "\<not> ?c1" "\<not> ?c2" "?c3" "?a nodeShutdownAnnotation = ''true''"
    | "\<not> ?c1" "\<not> ?c2" "?c3" "?a nodeShutdownAnnotation \<noteq> ''true''" "?a nodeRestartedAnnotation = ''false'' \<and> ?a nodeTerminatedAnnotation \<noteq> []"
    | "node_reconcile k name rid got n = (n, None)"
    using e by argo
  then show thesis
  proof cases
    case 1 then show thesis using e by (intro drain) (simp only: if_True simp_thms)
  next
    case 2 then show thesis using e by (intro uncordon) (simp only: if_True if_False simp_thms)
  next
    case 3 then show thesis using e by (intro shutdown) (simp_all only: if_True if_False simp_thms)
  next
    case 4 then show thesis using e by (intro restarted) (simp_all only: if_True if_False simp_thms)
  next
    case 5
    then have "fst (node_reconcile k name rid got n) = n" by simp
    then show thesis by (rule nothing)
  qed
qed

lemma node_reconcile_boots:
  assumes "boots_ok boot b n" "name = nd_Name n \<longrightarrow> rid = boot"
  shows "boots_ok boot b (fst (node_reconcile k name rid got n))"
  using node_ops_boots [OF assms(1), of k] assms
  by (cases k name rid got n rule: node_reconcile_cases) simp_all

lemma node_reconcile_name [simp]: "nd_Name (fst (node_reconcile k name rid got n)) = nd_Name n"
  by (cases k name rid got n rule: node_reconcile_cases)
     (simp_all add: drain_on_server_def uncordon_on_server_def shutdown_on_node_def restarted_on_node_def fst_and_then Uncordon_def Let_def)

section \<open>Properties\<close>

text \<open>
  C30. A node is shut down at most once per boot: in any sequence of reconciles on the server and on the node,
  whatever calls fail, and of restarts, the shutdown function is called at most once more often than the
  node was restarted.
\<close>

theorem node_shutdown_once_per_boot:
  assumes "nd_Name (cy_node s) \<noteq> server" "nd_Shutdowns (cy_node s) = 0" "cy_boot s = 0"
  shows "nd_Shutdowns (cy_node (cycle_run bid server ds dn evs s)) \<le> cy_boot (cycle_run bid server ds dn evs s) + 1"
proof -
  let ?ok = "\<lambda>s. nd_Name (cy_node s) \<noteq> server \<and> boots_ok (bid (cy_boot s)) (cy_boot s) (cy_node s)"
  have step: "?ok (cycle_step bid server ds dn ev s)" if ok: "?ok s" for ev s
  proof (cases ev)
    case (Pair x k)
    show ?thesis
    proof (cases x)
      case Restart
      with Pair ok show ?thesis by (auto simp: cycle_step_def boots_ok_def split: if_splits)
    next
      case Server
      with Pair ok node_reconcile_boots [of "bid (cy_boot s)" "cy_boot s" "cy_node s" server "[]" k "Inr ds"] show ?thesis
        by (auto simp: cycle_step_def)
    next
      case OnNode
      with Pair ok node_reconcile_boots [of "bid (cy_boot s)" "cy_boot s" "cy_node s" "nd_Name (cy_node s)" "bid (cy_boot s)" k "Inr dn"]
      show ?thesis by (simp add: cycle_step_def)
    qed
  qed
  have "?ok s" using assms by (simp add: boots_ok_def)
  then have "?ok (cycle_run bid server ds dn evs s)"
    unfolding cycle_run_def by (induction evs arbitrary: s) (simp_all add: step)
  then show ?thesis by (auto simp: boots_ok_def split: if_splits)
qed

text \<open>A cluster where every call succeeds.\<close>

definition kube_ok :: "kube \<Rightarrow> bool" where
  "kube_ok k \<longleftrightarrow> k_client k = None \<and> (\<forall>h u. snd (k_patch k h u) = None) \<and> k_list k = None \<and> (\<forall>ps. snd (k_evict k ps) = None) \<and>
     k_update k = None \<and> k_update2 k = None \<and> k_shutdown k = None"

lemma kube_ok_drain: "kube_ok k \<Longrightarrow> snd (DrainNode k n) = None \<and> snd (Uncordon k n) = None"
  by (cases "k_patch k NewCordonHelper (nd_Unschedulable n)"; cases "k_evict k (nd_Pods n)")
     (simp add: kube_ok_def DrainNode_def Uncordon_def cordonOrUncordon_def split: prod.splits option.splits, metis snd_conv)

text \<open>The phases of a cycle, by the node's annotations, and the actor each waits for.\<close>

fun phase :: "nat \<Rightarrow> (nat \<Rightarrow> string) \<Rightarrow> nat \<Rightarrow> (string \<Rightarrow> string) \<Rightarrow> bool" where
  "phase 0 bid b a \<longleftrightarrow> a nodeDrainAnnotation = ''true'' \<and> a nodeShutdownAnnotation \<noteq> ''true'' \<and> a nodeTerminatedAnnotation = []"
| "phase (Suc p) bid b a \<longleftrightarrow>
     a nodeDrainAnnotation \<noteq> ''true'' \<and> (a nodeShutdownAnnotation = ''true'') = (p = 0) \<and>
     (a nodeUncordonAnnotation = ''true'') = (p < 4) \<and> a nodeRestartedAnnotation = (if p < 3 then ''false'' else ''true'') \<and>
     (if p = 1 then a nodeTerminatedAnnotation = bid b
      else if p = 2 then \<exists>j < b. a nodeTerminatedAnnotation = bid j else a nodeTerminatedAnnotation = [])"

definition turns :: "actor list" where
  "turns = [Server, OnNode, Restart, OnNode, Server]"

definition in_phase :: "nat \<Rightarrow> (nat \<Rightarrow> string) \<Rightarrow> cycle \<Rightarrow> bool" where
  "in_phase p bid s \<longleftrightarrow> phase p bid (cy_boot s) (annot (nd_Annotations (cy_node s)))"

lemma phase_step:
  assumes ids: "inj bid" "\<And>i. bid i \<noteq> []" and name: "nd_Name (cy_node s) \<noteq> server"
    and modes: "ds_Mode (dev_Spec ds) = DeviceModeServer" "ds_Mode (dev_Spec dn) \<noteq> DeviceModeServer"
    and k: "kube_ok k" and p: "p \<le> 5" "in_phase p bid s"
  shows "in_phase (if p < 5 \<and> turns ! p = x then p + 1 else p) bid (cycle_step bid server ds dn (x, k) s)"
proof -
  have up: "k_client k = None" "k_update k = None" "k_update2 k = None" "k_shutdown k = None"
    using k by (simp_all add: kube_ok_def)
  have drain: "snd (DrainNode k n) = None" "snd (cordonOrUncordon k False n) = None" for n
    using kube_ok_drain [OF k] by (simp_all add: Uncordon_def)
  note defs = in_phase_def cycle_step_def node_reconcile_def Let_def drain_on_server_def uncordon_on_server_def
    shutdown_on_node_def restarted_on_node_def fst_and_then up drain turns_def modes name Uncordon_def
  have less: "\<exists>j < Suc b. bid b = bid j" for b by blast
  have ids2: "bid i \<noteq> []" "[] \<noteq> bid i" for i using ids(2) by metis+
  have neq: "j < b \<Longrightarrow> bid j \<noteq> bid b" "j < b \<Longrightarrow> bid b \<noteq> bid j" for j b using ids(1) by (auto simp: inj_eq)
  consider "p = 0" | "p = 1" | "p = 2" | "p = 3" | "p = 4" | "p = 5" using p(1) by linarith
  then show ?thesis
  proof cases
    case 1
    then show ?thesis using p(2) ids2 by (cases x) (simp_all add: defs)
  next
    case 2
    then show ?thesis using p(2) ids2 by (cases x) (simp_all add: defs)
  next
    case 3
    then show ?thesis using p(2) less by (cases x) (simp_all add: defs numeral_2_eq_2)
  next
    case 4
    then show ?thesis using p(2) neq ids2 by (cases x) (auto simp: defs numeral_3_eq_3 less_Suc_eq)
  next
    case 5
    then show ?thesis using p(2) ids2 by (cases x) (simp_all add: defs eval_nat_numeral)
  next
    case 6
    then show ?thesis using p(2) ids2 by (cases x) (simp_all add: defs eval_nat_numeral)
  qed
qed

lemma phase_run:
  assumes "inj bid" "\<And>i. bid i \<noteq> []" "ds_Mode (dev_Spec ds) = DeviceModeServer" "ds_Mode (dev_Spec dn) \<noteq> DeviceModeServer"
  shows "list_all (\<lambda>ev. kube_ok (snd ev)) evs \<Longrightarrow> p \<le> 5 \<Longrightarrow> in_phase p bid s \<Longrightarrow> nd_Name (cy_node s) \<noteq> server \<Longrightarrow>
    subseq (drop p turns) (map fst evs) \<Longrightarrow> in_phase 5 bid (cycle_run bid server ds dn evs s)"
proof (induction evs arbitrary: p s)
  case Nil
  then have "drop p turns = []" by (cases "drop p turns") simp_all
  then have "length turns \<le> p" by simp
  then have "5 \<le> p" by (simp add: turns_def)
  with Nil.prems(2) have "p = 5" by (simp add: turns_def)
  with Nil.prems(3) show ?case by (simp add: cycle_run_def)
next
  case (Cons ev evs)
  obtain x k where ev: "ev = (x, k)" by fastforce
  let ?p = "if p < 5 \<and> turns ! p = x then p + 1 else p"
  let ?s = "cycle_step bid server ds dn (x, k) s"
  have k: "kube_ok k" using Cons.prems(1) ev by simp
  have ph: "in_phase ?p bid ?s"
    by (rule phase_step [OF assms(1,2) Cons.prems(4) assms(3,4) k Cons.prems(2,3)])
  have le: "?p \<le> 5" using Cons.prems(2) by simp
  have name: "nd_Name (cy_node ?s) \<noteq> server"
    using Cons.prems(4) by (cases x) (simp_all add: cycle_step_def)
  have len: "length turns = 5" by (simp add: turns_def)
  have sub: "subseq (drop ?p turns) (map fst evs)"
  proof (cases "p < 5")
    case True
    then have d: "drop p turns = turns ! p # drop (p + 1) turns" using len by (simp add: Cons_nth_drop_Suc)
    show ?thesis using Cons.prems(5) True ev unfolding d by (auto split: if_splits simp: d dest: subseq_Cons')
  next
    case False
    with len show ?thesis by simp
  qed
  from Cons.IH [OF _ le ph name sub] Cons.prems(1) ev show ?case by (simp add: cycle_run_def)
qed

text \<open>
  C29. A requested drain completes: from a node with a drain request, if the calls succeed, any sequence of
  reconciles of the server, reconciles on the node (an agent) and restarts in which the five turns of the
  cycle occur in order, with anything in between, ends with no drain, shutdown, uncordon or terminated
  annotation left and the restarted annotation set.
\<close>

theorem node_drain_completes:
  assumes "inj bid" "\<forall>i. bid i \<noteq> []" "ds_Mode (dev_Spec ds) = DeviceModeServer" "ds_Mode (dev_Spec dn) \<noteq> DeviceModeServer"
    and "nd_Name (cy_node s) \<noteq> server" "annot (nd_Annotations (cy_node s)) nodeDrainAnnotation = ''true''"
    and "annot (nd_Annotations (cy_node s)) nodeShutdownAnnotation \<noteq> ''true''"
    and "annot (nd_Annotations (cy_node s)) nodeTerminatedAnnotation = []"
    and "list_all (\<lambda>ev. kube_ok (snd ev)) evs" "subseq [Server, OnNode, Restart, OnNode, Server] (map fst evs)"
  shows "(let a = annot (nd_Annotations (cy_node (cycle_run bid server ds dn evs s)))
          in a nodeDrainAnnotation \<noteq> ''true'' \<and> a nodeShutdownAnnotation \<noteq> ''true'' \<and> a nodeUncordonAnnotation \<noteq> ''true'' \<and>
             a nodeTerminatedAnnotation = [] \<and> a nodeRestartedAnnotation = ''true'')"
proof -
  have "in_phase 0 bid s" using assms(6-8) by (simp add: in_phase_def)
  moreover have "subseq (drop 0 turns) (map fst evs)" using assms(10) by (simp add: turns_def)
  ultimately have "in_phase 5 bid (cycle_run bid server ds dn evs s)"
    using phase_run [OF assms(1) _ assms(3,4,9), of 0 s server] assms(2,5) by blast
  then show ?thesis by (simp add: in_phase_def eval_nat_numeral Let_def)
qed

text \<open>
  Draining never cordons: with the cordon helper of kubectl, which sends the difference between its new node
  and the state desired of it, neither a drain nor an uncordon changes whether the node is schedulable,
  so pods can be scheduled to it while it is drained.
\<close>

definition patch_documented :: "kube \<Rightarrow> bool" where
  "patch_documented k \<longleftrightarrow>
     (\<forall>h u. k_patch k h u = ((if ch_desired h = ch_Unschedulable h then u else ch_desired h), snd (k_patch k h u)))"

theorem drain_never_cordons:
  assumes "patch_documented k"
  shows "nd_Unschedulable (fst (DrainNode k n)) = nd_Unschedulable n \<and>
    nd_Unschedulable (fst (Uncordon k n)) = nd_Unschedulable n"
proof
  have same: "fst (k_patch k NewCordonHelper u) = u" for u
  proof -
    have "k_patch k NewCordonHelper u = ((if ch_desired NewCordonHelper = ch_Unschedulable NewCordonHelper then u
        else ch_desired NewCordonHelper), snd (k_patch k NewCordonHelper u))"
      using assms unfolding patch_documented_def by blast
    from arg_cong [OF this, of fst] show ?thesis by (simp add: NewCordonHelper_def)
  qed
  have c: "nd_Unschedulable (fst (cordonOrUncordon k b n)) = nd_Unschedulable n" for b
    by (simp add: cordonOrUncordon_def split_def same)
  show "nd_Unschedulable (fst (Uncordon k n)) = nd_Unschedulable n" using c by (simp add: Uncordon_def)
  obtain n1 r where r: "cordonOrUncordon k True n = (n1, r)" by fastforce
  have "\<exists>pods. fst (DrainNode k n) = n1\<lparr>nd_Pods := pods\<rparr>"
    by (cases r; cases "k_list k"; cases "k_evict k (nd_Pods n1)"; cases "snd (k_evict k (nd_Pods n1))")
       (auto simp: DrainNode_def r intro: exI [of _ "nd_Pods n1"])
  with c [of True] r show "nd_Unschedulable (fst (DrainNode k n)) = nd_Unschedulable n" by auto
qed

section \<open>Witnesses\<close>

definition demo_kube :: kube where
  "demo_kube = \<lparr>k_client = None, k_patch = (\<lambda>h u. ((if ch_desired h = ch_Unschedulable h then u else ch_desired h), None)),
     k_list = None, k_evict = (\<lambda>_. ([], None)), k_list2 = None, k_update = None, k_update2 = None, k_shutdown = None\<rparr>"

definition demo_cycle :: cycle where
  "demo_cycle = \<lparr>cy_node = \<lparr>nd_Name = ''agent'', nd_Annotations = [(nodeDrainAnnotation, ''true'')], nd_Unschedulable = False,
     nd_Pods = [''p''], nd_Shutdowns = 0\<rparr>, cy_boot = 0\<rparr>"

definition demo_mode :: "device_mode \<Rightarrow> device" where
  "demo_mode m = \<lparr>dev_Spec = zero_device_spec\<lparr>ds_Mode := m\<rparr>, dev_Status = zero_device_status\<rparr>"

definition demo_events :: "(actor \<times> kube) list" where
  "demo_events = map (\<lambda>x. (x, demo_kube)) [OnNode, Server, Server, OnNode, Server, Restart, OnNode, Server, OnNode]"

theorem node_shutdown_once_per_boot_witness:
  "nd_Shutdowns (cy_node (cycle_run show_nat ''server'' (demo_mode DeviceModeServer) (demo_mode DeviceModeAgent) demo_events demo_cycle))
     \<le> cy_boot (cycle_run show_nat ''server'' (demo_mode DeviceModeServer) (demo_mode DeviceModeAgent) demo_events demo_cycle) + 1"
  by (rule node_shutdown_once_per_boot) (simp_all add: demo_cycle_def)

theorem node_drain_completes_witness:
  "annot (nd_Annotations (cy_node (cycle_run show_nat ''server'' (demo_mode DeviceModeServer) (demo_mode DeviceModeAgent)
     demo_events demo_cycle))) nodeRestartedAnnotation = ''true''"
proof -
  have 1: "inj show_nat" "\<forall>i. show_nat i \<noteq> []" by (simp_all add: inj_def show_nat_nonempty)
  have 2: "ds_Mode (dev_Spec (demo_mode m)) = m" for m by (simp add: demo_mode_def)
  have 3: "ds_Mode (dev_Spec (demo_mode DeviceModeAgent)) \<noteq> DeviceModeServer"
    by (simp add: 2 DeviceModeAgent_def DeviceModeServer_def)
  have 4: "nd_Name (cy_node demo_cycle) \<noteq> ''server''" "annot (nd_Annotations (cy_node demo_cycle)) nodeDrainAnnotation = ''true''"
    "annot (nd_Annotations (cy_node demo_cycle)) nodeShutdownAnnotation \<noteq> ''true''"
    "annot (nd_Annotations (cy_node demo_cycle)) nodeTerminatedAnnotation = []"
    by (simp_all add: demo_cycle_def annot_def)
  have 5: "list_all (\<lambda>ev. kube_ok (snd ev)) demo_events" by (simp add: demo_events_def kube_ok_def demo_kube_def)
  have 6: "subseq [Server, OnNode, Restart, OnNode, Server] (map fst demo_events)" by (simp add: demo_events_def)
  from node_drain_completes [OF 1 2 3 4 5 6] show ?thesis by (simp add: Let_def)
qed

theorem drain_never_cordons_witness:
  "\<not> nd_Unschedulable (fst (DrainNode demo_kube (cy_node demo_cycle)))"
proof -
  have "patch_documented demo_kube" by (simp add: patch_documented_def demo_kube_def)
  from drain_never_cordons [OF this, of "cy_node demo_cycle"] show ?thesis by (simp add: demo_cycle_def)
qed

end
