(* ===== verification/Password.thy ===== *)
theory Password
  imports Prelude "HOL-Library.Multiset"
begin

text \<open>
  Memorable passwords (\<open>pkg/passwordgen\<close>): words that read like English, from a table of weighted successors
  of two letters. The table is a parameter, of which \<open>table_ok\<close> states what is needed; \<open>Ngrams\<close> has the one that
  is shipped (\<open>ngrammapping.gen.go\<close>). The answers of \<open>rand.Int\<close> are a list of draws, each taken modulo the bound, so that any value below it may
  come; \<open>None\<close> is a failure of the reader. A procedure that uses up its draws waits for more.
\<close>

section \<open>Random procedures\<close>

type_synonym draws = "nat option list"
type_synonym 'a rnd = "draws \<Rightarrow> ('a \<times> draws) option go"

definition rnd_return :: "'a \<Rightarrow> 'a rnd" where
  "rnd_return a ds = Ret (Some (a, ds))"

definition rnd_bind :: "'a rnd \<Rightarrow> ('a \<Rightarrow> 'b rnd) \<Rightarrow> 'b rnd" where
  "rnd_bind m f ds = (case m ds of Panic p \<Rightarrow> Panic p | Ret None \<Rightarrow> Ret None | Ret (Some (a, ds')) \<Rightarrow> f a ds')"

definition rnd_panic :: "string \<Rightarrow> 'a rnd" where
  "rnd_panic p ds = Panic p"

fun rnd_list :: "'a rnd \<Rightarrow> nat \<Rightarrow> 'a list rnd" where
  "rnd_list m 0 = rnd_return []"
| "rnd_list m (Suc n) = rnd_bind m (\<lambda>a. rnd_bind (rnd_list m n) (\<lambda>as. rnd_return (a # as)))"

definition randInt :: "nat \<Rightarrow> nat rnd" where
  "randInt n ds =
     (if n = 0 then Panic ''crypto/rand: argument to Int is <= 0''
      else
        (case ds of
           [] \<Rightarrow> Ret None
         | None # _ \<Rightarrow> Panic ''failed to generate password''
         | Some d # ds' \<Rightarrow> Ret (Some (d mod n, ds'))))"

text \<open>The index is the first whose weight, with those before it, reaches the number drawn.\<close>

fun pick_weighted :: "nat \<Rightarrow> nat \<Rightarrow> nat list \<Rightarrow> nat option" where
  "pick_weighted k acc [] = None"
| "pick_weighted k acc (w # ws) = (if k \<le> acc + w then Some 0 else map_option Suc (pick_weighted k (acc + w) ws))"

definition weightedRandInt :: "nat list \<Rightarrow> nat rnd" where
  "weightedRandInt ws =
     rnd_bind (randInt (sum_list ws)) (\<lambda>k.
       case pick_weighted k 0 ws of None \<Rightarrow> rnd_panic ''should not happen'' | Some i \<Rightarrow> rnd_return i)"

section \<open>Words\<close>

record ngram_table =
  ng_bigrams :: "(string \<times> nat) list"
  ng_next :: "(string \<times> (char \<times> nat) list) list"

definition next_chars :: "ngram_table \<Rightarrow> string \<Rightarrow> (char \<times> nat) list" where
  "next_chars T b = (case map_of (ng_next T) b of None \<Rightarrow> [] | Some ng \<Rightarrow> ng)"

definition last_bigram :: "string \<Rightarrow> string" where
  "last_bigram token = to_lower (drop (length token - 2) token)"

definition randBigram :: "ngram_table \<Rightarrow> string rnd" where
  "randBigram T = rnd_bind (weightedRandInt (map snd (ng_bigrams T))) (\<lambda>i. rnd_return (fst (ng_bigrams T ! i)))"

lemma randInt_draws: "randInt n ds = Ret (Some (a, ds')) \<Longrightarrow> length ds' < length ds"
  by (auto simp: randInt_def split: if_splits list.splits option.splits)

lemma weightedRandInt_draws: "weightedRandInt ws ds = Ret (Some (i, ds')) \<Longrightarrow> length ds' < length ds"
  using randInt_draws
  by (auto simp: weightedRandInt_def rnd_bind_def rnd_return_def rnd_panic_def split: go.splits option.splits)

text \<open>The loop of \<open>generateWord\<close>: a letter after which the table knows no successor is drawn again.\<close>

function word_loop :: "ngram_table \<Rightarrow> nat \<Rightarrow> string \<Rightarrow> string rnd" where
  "word_loop T len token ds =
     (case weightedRandInt (map snd (next_chars T (last_bigram token))) ds of
        Panic p \<Rightarrow> Panic p
      | Ret None \<Rightarrow> Ret None
      | Ret (Some (i, ds')) \<Rightarrow>
          (let newToken = token @ [fst (next_chars T (last_bigram token) ! i)] in
           if map_of (ng_next T) (last_bigram newToken) = None then word_loop T len token ds'
           else if length newToken = len then Ret (Some (newToken, ds'))
           else word_loop T len newToken ds'))"
  by pat_completeness auto
termination
  by (relation "measure (\<lambda>(T, len, token, ds). length ds)") (auto dest: weightedRandInt_draws)

definition generateWord :: "ngram_table \<Rightarrow> int \<Rightarrow> (go_error + string) rnd" where
  "generateWord T len =
     (if len < 2 then rnd_return (Inl (Errorf (''generate word: length must be >= 2 but provided '' @ show_int len)))
      else
        rnd_bind (randBigram T) (\<lambda>token.
          if len = 2 then rnd_return (Inr token)
          else rnd_bind (word_loop T (nat len) token) (\<lambda>w. rnd_return (Inr w))))"

section \<open>Passwords\<close>

definition numbers :: string where "numbers = ''123456789''"
definition separatorChar :: string where "separatorChar = ''123456789''"

definition substitutions :: "(char \<times> char) list" where
  "substitutions = [(CHR ''b'', CHR ''6''), (CHR ''g'', CHR ''9''), (CHR ''i'', CHR ''!''), (CHR ''s'', CHR ''5''), (CHR ''t'', CHR ''+'')]"

text \<open>\<open>byte(unicode.ToUpper(rune(b)))\<close> of a byte.\<close>

definition upper_byte :: "char \<Rightarrow> char" where
  "upper_byte c =
     (let n = of_char c :: nat in
      if 97 \<le> n \<and> n \<le> 122 \<or> 224 \<le> n \<and> n \<le> 254 \<and> n \<noteq> 247 then char_of (n - 32)
      else if n = 181 then char_of (0x9C :: nat)
      else if n = 255 then char_of (0x78 :: nat)
      else c)"

definition modifyRandChar :: "string \<Rightarrow> string rnd" where
  "modifyRandChar word =
     rnd_bind (randInt (length word)) (\<lambda>i.
       rnd_return
         (case (if 0 < i \<and> i < length word - 1 then map_of substitutions (word ! i) else None) of
            Some subst \<Rightarrow> word[i := subst]
          | None \<Rightarrow> word[i := upper_byte (word ! i)]))"

text \<open>
  \<open>Shuffle\<close> of \<open>math/rand\<close> over the crypto source: from the last place down, each is swapped with one at or
  before it. The source does not look at errors of the reader: it then gives zero.
\<close>

definition source_below :: "nat \<Rightarrow> nat rnd" where
  "source_below n ds =
     (case ds of [] \<Rightarrow> Ret None | None # ds' \<Rightarrow> Ret (Some (0, ds')) | Some d # ds' \<Rightarrow> Ret (Some (d mod n, ds')))"

definition swap_at :: "nat \<Rightarrow> nat \<Rightarrow> 'a list \<Rightarrow> 'a list" where
  "swap_at i j xs = xs[i := xs ! j, j := xs ! i]"

fun shuffle_from :: "nat \<Rightarrow> 'a list \<Rightarrow> 'a list rnd" where
  "shuffle_from 0 xs = rnd_return xs"
| "shuffle_from (Suc i) xs = rnd_bind (source_below (Suc (Suc i))) (\<lambda>j. shuffle_from i (swap_at (Suc i) j xs))"

definition rnd_shuffle :: "'a list \<Rightarrow> 'a list rnd" where
  "rnd_shuffle xs = shuffle_from (length xs - 1) xs"

fun generate_words :: "ngram_table \<Rightarrow> int list \<Rightarrow> (go_error + string) rnd" where
  "generate_words T [] = rnd_return (Inr [])"
| "generate_words T (l # ls) =
     rnd_bind (generateWord T l) (\<lambda>w.
       case w of
         Inl err \<Rightarrow> rnd_return (Inl err)
       | Inr word \<Rightarrow>
           rnd_bind (generate_words T ls) (\<lambda>r. rnd_return (case r of Inl err \<Rightarrow> Inl err | Inr rest \<Rightarrow> Inr (word @ rest))))"

text \<open>The lengths of the words: each at least two, the rest is a word of its own or goes to the last one.\<close>

definition word_lengths :: "int \<Rightarrow> int list rnd" where
  "word_lengths phraseLen =
     (let minWordLen = 2; maxWordLen = 7; minWords = nat (phraseLen div maxWordLen) in
      rnd_bind (rnd_list (randInt 5) minWords) (\<lambda>ks.
        let ls = map (\<lambda>k. minWordLen + int k) ks; restLen = phraseLen - sum_list ls in
        if restLen \<ge> minWordLen then rnd_return (ls @ [restLen])
        else if ls = [] then rnd_panic ''index out of range''
        else rnd_return (butlast ls @ [last ls + restLen])))"

definition password_affix :: "nat \<Rightarrow> (string \<times> string) rnd" where
  "password_affix numLen =
     rnd_bind (rnd_list (rnd_bind (randInt (length numbers)) (\<lambda>i. rnd_return (numbers ! i))) numLen) (\<lambda>num.
     rnd_bind (randInt 2) (\<lambda>b.
     rnd_bind (randInt (length separatorChar)) (\<lambda>i.
       rnd_return (if b = 1 then (num @ [separatorChar ! i], []) else ([], separatorChar ! i # num)))))"

definition generateMemorablePassword :: "ngram_table \<Rightarrow> int \<Rightarrow> (go_error + string) rnd" where
  "generateMemorablePassword T len =
     (if len < 7 then rnd_return (Inl (Errorf ''password length < 7 is not supported''))
      else
        (let numLen = max 1 (min 3 (len div 2)); phraseLen = len - numLen - 1 in
         rnd_bind (password_affix (nat numLen)) (\<lambda>(pre, suf).
         rnd_bind (word_lengths phraseLen) (\<lambda>ls.
         rnd_bind (rnd_shuffle ls) (\<lambda>ls.
         rnd_bind (generate_words T ls) (\<lambda>r.
           case r of
             Inl err \<Rightarrow> rnd_return (Inl err)
           | Inr phrase \<Rightarrow>
               rnd_bind (randInt 3) (\<lambda>_.
               rnd_bind (modifyRandChar phrase) (\<lambda>phrase. rnd_return (Inr (pre @ phrase @ suf))))))))))"

definition GenerateMemorablePassword :: "ngram_table \<Rightarrow> (go_error + string) rnd" where
  "GenerateMemorablePassword T = generateMemorablePassword T 10"

section \<open>Procedures that go through\<close>

text \<open>
  On draws that never fail a procedure does not panic and yields what \<open>Q\<close> says; more draws do not change what
  it has yielded; and when it waits, some draws let it finish.
\<close>

definition good :: "draws \<Rightarrow> bool" where
  "good ds \<longleftrightarrow> list_all (\<lambda>d. d \<noteq> None) ds"

lemma good_simps [simp]: "good []" "good (x # ds) \<longleftrightarrow> x \<noteq> None \<and> good ds" "good (ds @ ds') \<longleftrightarrow> good ds \<and> good ds'"
  by (simp_all add: good_def)

definition yields :: "('a \<times> draws) option go \<Rightarrow> 'a \<Rightarrow> draws \<Rightarrow> bool" where
  "yields res a ds \<longleftrightarrow> res = Ret (Some (a, ds))"

definition rnd_ok :: "('a \<Rightarrow> bool) \<Rightarrow> 'a rnd \<Rightarrow> bool" where
  "rnd_ok Q m \<longleftrightarrow>
     (\<forall>ds. good ds \<longrightarrow> m ds = Ret None \<or> (\<exists>a ds'. yields (m ds) a ds' \<and> Q a \<and> good ds')) \<and>
     (\<forall>ds x a ds'. good ds \<longrightarrow> yields (m ds) a ds' \<longrightarrow> yields (m (ds @ x)) a (ds' @ x)) \<and>
     (\<forall>ds. good ds \<longrightarrow> m ds = Ret None \<longrightarrow> (\<exists>x a ds'. good x \<and> yields (m (ds @ x)) a ds'))"

lemma rnd_okD:
  "rnd_ok Q m \<Longrightarrow> good ds \<Longrightarrow> m ds = Ret None \<or> (\<exists>a ds'. yields (m ds) a ds' \<and> Q a \<and> good ds')"
  "rnd_ok Q m \<Longrightarrow> good ds \<Longrightarrow> yields (m ds) a ds' \<Longrightarrow> yields (m (ds @ x)) a (ds' @ x)"
  "rnd_ok Q m \<Longrightarrow> good ds \<Longrightarrow> m ds = Ret None \<Longrightarrow> \<exists>x a ds'. good x \<and> yields (m (ds @ x)) a ds'"
  unfolding rnd_ok_def by blast+

lemma rnd_ok_yields: "rnd_ok Q m \<Longrightarrow> good ds \<Longrightarrow> yields (m ds) a ds' \<Longrightarrow> Q a \<and> good ds'"
  using rnd_okD(1) [of Q m ds] by (auto simp: yields_def)

lemma rnd_ok_finishes: "rnd_ok Q m \<Longrightarrow> good ds \<Longrightarrow> \<exists>x a ds'. good x \<and> yields (m (ds @ x)) a ds' \<and> Q a \<and> good ds'"
proof -
  assume ok: "rnd_ok Q m" and g: "good ds"
  have "\<exists>x a ds'. good x \<and> yields (m (ds @ x)) a ds'"
    using rnd_okD(1,3) [OF ok g] by (metis append_Nil2 good_simps(1))
  then show ?thesis using rnd_ok_yields [OF ok] g by (metis good_simps(3))
qed

named_theorems rnd_rules \<open>procedures that go through\<close>

lemma rnd_ok_weaken: "rnd_ok Q m \<Longrightarrow> (\<And>a. Q a \<Longrightarrow> R a) \<Longrightarrow> rnd_ok R m"
  unfolding rnd_ok_def by meson

lemma rnd_ok_return [rnd_rules]: "Q a \<Longrightarrow> rnd_ok Q (rnd_return a)"
  by (simp add: rnd_ok_def rnd_return_def yields_def)

lemma yields_bind: "yields (rnd_bind m f ds) b ds2 \<longleftrightarrow> (\<exists>a ds1. yields (m ds) a ds1 \<and> yields (f a ds1) b ds2)"
  by (auto simp: yields_def rnd_bind_def split: go.splits option.splits)

lemma rnd_ok_bind:
  assumes m: "rnd_ok Q m" and f: "\<And>a. Q a \<Longrightarrow> rnd_ok R (f a)"
  shows "rnd_ok R (rnd_bind m f)"
proof -
  have 1: "rnd_bind m f ds = Ret None \<or> (\<exists>a ds'. yields (rnd_bind m f ds) a ds' \<and> R a \<and> good ds')" if g: "good ds" for ds
  proof (cases "m ds = Ret None")
    case True
    then show ?thesis by (simp add: rnd_bind_def)
  next
    case False
    then obtain a ds1 where a: "yields (m ds) a ds1" "Q a" "good ds1" using rnd_okD(1) [OF m g] by blast
    have "rnd_bind m f ds = f a ds1" using a(1) by (simp add: rnd_bind_def yields_def)
    then show ?thesis using rnd_okD(1) [OF f [OF a(2)] a(3)] by simp
  qed
  have 2: "yields (rnd_bind m f (ds @ x)) b (ds' @ x)" if y: "yields (rnd_bind m f ds) b ds'" and g: "good ds" for ds x b ds'
  proof -
    obtain a ds1 where a: "yields (m ds) a ds1" "yields (f a ds1) b ds'" using y by (auto simp: yields_bind)
    have "Q a" "good ds1" using rnd_ok_yields [OF m g a(1)] by simp_all
    with rnd_okD(2) [OF m g a(1), of x] rnd_okD(2) [OF f _ a(2), of x] show ?thesis unfolding yields_bind by blast
  qed
  have 3: "\<exists>x b ds'. good x \<and> yields (rnd_bind m f (ds @ x)) b ds'" if g: "good ds" for ds
  proof -
    obtain x a ds1 where a: "good x" "yields (m (ds @ x)) a ds1" "Q a" "good ds1" using rnd_ok_finishes [OF m g] by blast
    obtain y b ds2 where b: "good y" "yields (f a (ds1 @ y)) b ds2" using rnd_ok_finishes [OF f [OF a(3)] a(4)] by blast
    have "yields (m ((ds @ x) @ y)) a (ds1 @ y)" using rnd_okD(2) [OF m _ a(2), of y] g a(1) by simp
    then have "yields (rnd_bind m f (ds @ (x @ y))) b ds2" unfolding yields_bind using b(2) by auto
    then show ?thesis using a(1) b(1) good_simps(3) by blast
  qed
  show ?thesis unfolding rnd_ok_def using 1 2 3 by blast
qed

text \<open>A procedure that takes one draw.\<close>

lemma rnd_ok_draw:
  assumes "m [] = Ret None" "\<And>d ds. m (Some d # ds) = Ret (Some (f d, ds))" "\<And>d. Q (f d)"
  shows "rnd_ok Q m"
  unfolding rnd_ok_def
proof (intro conjI allI impI)
  fix ds assume "good ds"
  then show "m ds = Ret None \<or> (\<exists>a ds'. yields (m ds) a ds' \<and> Q a \<and> good ds')"
    using assms by (cases ds) (auto simp: yields_def)
next
  fix ds x a ds' assume "good ds" "yields (m ds) a ds'"
  then show "yields (m (ds @ x)) a (ds' @ x)" using assms by (cases ds) (auto simp: yields_def)
next
  fix ds assume "good ds" "m ds = Ret None"
  then have "ds = []" using assms by (cases ds) auto
  moreover have "yields (m ([] @ [Some 0])) (f 0) []" using assms(2) [of 0 "[]"] by (simp add: yields_def)
  ultimately show "\<exists>x a ds'. good x \<and> yields (m (ds @ x)) a ds'" by (intro exI [of _ "[Some 0]"]) auto
qed

lemma rnd_ok_randInt [rnd_rules]: "0 < n \<Longrightarrow> rnd_ok (\<lambda>k. k < n) (randInt n)"
  by (rule rnd_ok_draw [where f = "\<lambda>d. d mod n"]) (simp_all add: randInt_def)

lemma rnd_ok_source [rnd_rules]: "0 < n \<Longrightarrow> rnd_ok (\<lambda>k. k < n) (source_below n)"
  by (rule rnd_ok_draw [where f = "\<lambda>d. d mod n"]) (simp_all add: source_below_def)

lemma rnd_ok_list:
  "rnd_ok Q m \<Longrightarrow> rnd_ok (\<lambda>as. length as = n \<and> list_all Q as) (rnd_list m n)"
proof (induction n)
  case (Suc n)
  show ?case
    unfolding rnd_list.simps
    by (rule rnd_ok_bind [OF Suc.prems], rule rnd_ok_bind [OF Suc.IH [OF Suc.prems]], rule rnd_ok_return) simp
qed (simp add: rnd_ok_return)

lemma pick_weighted_Some:
  "k \<le> acc + sum_list ws \<Longrightarrow> ws \<noteq> [] \<Longrightarrow> \<exists>i < length ws. pick_weighted k acc ws = Some i"
proof (induction k acc ws rule: pick_weighted.induct)
  case (2 k acc w ws)
  then show ?case by (cases "ws = []") (auto simp: add.assoc)
qed simp

lemma weightedRandInt_Cons:
  assumes "0 < sum_list ws"
  shows "weightedRandInt ws (Some d # ds) =
    (case pick_weighted (d mod sum_list ws) 0 ws of None \<Rightarrow> Panic ''should not happen'' | Some i \<Rightarrow> Ret (Some (i, ds)))"
proof -
  obtain n where "sum_list ws = Suc n" using assms by (cases "sum_list ws") linarith+
  then have "randInt (sum_list ws) (Some d # ds) = Ret (Some (d mod sum_list ws, ds))" by (simp add: randInt_def)
  then show ?thesis
    by (simp add: weightedRandInt_def rnd_bind_def rnd_return_def rnd_panic_def split: option.splits)
qed

lemma rnd_ok_weighted: "0 < sum_list ws \<Longrightarrow> rnd_ok (\<lambda>i. i < length ws) (weightedRandInt ws)"
proof -
  assume s: "0 < sum_list ws"
  then have ne: "ws \<noteq> []" by auto
  show ?thesis
    unfolding weightedRandInt_def
  proof (rule rnd_ok_bind [OF rnd_ok_randInt [OF s]])
    fix k assume "k < sum_list ws"
    then obtain i where "i < length ws" "pick_weighted k 0 ws = Some i" using pick_weighted_Some [of k 0 ws] ne by auto
    then show "rnd_ok (\<lambda>i. i < length ws) (case pick_weighted k 0 ws of None \<Rightarrow> rnd_panic ''should not happen'' | Some i \<Rightarrow> rnd_return i)"
      by (simp add: rnd_ok_return)
  qed
qed

text \<open>Each index with a weight of at least two can be drawn; one of weight one, at the end, cannot.\<close>

lemma pick_weighted_hits:
  "i < length ws \<Longrightarrow> list_all (\<lambda>w. 2 \<le> w) ws \<Longrightarrow>
   \<exists>k. acc < k \<and> k < acc + sum_list ws \<and> pick_weighted k acc ws = Some i"
proof (induction ws arbitrary: i acc)
  case (Cons w ws)
  show ?case
  proof (cases i)
    case 0
    then show ?thesis using Cons.prems(2) by (intro exI [of _ "acc + 1"]) auto
  next
    case (Suc j)
    then obtain k where "acc + w < k" "k < acc + w + sum_list ws" "pick_weighted k (acc + w) ws = Some j"
      using Cons.IH [of j "acc + w"] Cons.prems by auto
    then show ?thesis by (intro exI [of _ k]) (auto simp: Suc)
  qed
qed simp

lemma pick_weighted_append: "pick_weighted k acc ws = Some i \<Longrightarrow> pick_weighted k acc (ws @ vs) = Some i"
  by (induction k acc ws arbitrary: i rule: pick_weighted.induct) (auto split: if_splits)

lemma pick_weighted_never:
  assumes "ws \<noteq> []" "k < sum_list (ws @ [1])"
  shows "pick_weighted k 0 (ws @ [1]) \<noteq> Some (length ws)"
proof -
  obtain i where "i < length ws" "pick_weighted k 0 ws = Some i" using pick_weighted_Some [of k 0 ws] assms by auto
  then show ?thesis by (simp add: pick_weighted_append)
qed

section \<open>The table\<close>

definition lower_letter :: "char \<Rightarrow> bool" where
  "lower_letter c \<longleftrightarrow> CHR ''a'' \<le> c \<and> c \<le> CHR ''z''"

definition table_ok :: "ngram_table \<Rightarrow> bool" where
  "table_ok T \<longleftrightarrow>
     ng_bigrams T \<noteq> [] \<and>
     list_all (\<lambda>(b, w). length b = 2 \<and> list_all lower_letter b \<and> 0 < w \<and> map_of (ng_next T) b \<noteq> None) (ng_bigrams T) \<and>
     list_all (\<lambda>(b, ng). length b = 2 \<and>
         list_all (\<lambda>(c, w). lower_letter c \<and> 2 \<le> w) ng \<and>
         list_ex (\<lambda>(c, w). map_of (ng_next T) [b ! 1, c] \<noteq> None) ng) (ng_next T)"

definition token_ok :: "ngram_table \<Rightarrow> string \<Rightarrow> bool" where
  "token_ok T t \<longleftrightarrow> 2 \<le> length t \<and> list_all lower_letter t \<and> map_of (ng_next T) (drop (length t - 2) t) \<noteq> None"

lemma to_lower_id: "list_all lower_letter s \<Longrightarrow> to_lower s = s"
proof -
  have "lower_letter c \<Longrightarrow> to_lower_char c = c" for c
    by (auto simp: lower_letter_def to_lower_char_def dest: order_trans [of "CHR ''a''" c "CHR ''Z''"])
  then show "list_all lower_letter s \<Longrightarrow> to_lower s = s" by (induction s) (simp_all add: to_lower_def)
qed

lemma last_bigram_lower: "list_all lower_letter t \<Longrightarrow> last_bigram t = drop (length t - 2) t"
  unfolding last_bigram_def by (rule to_lower_id) (auto simp: list_all_iff dest: in_set_dropD)

lemma token_next:
  assumes "table_ok T" "token_ok T t"
  shows "next_chars T (last_bigram t) \<noteq> []"
    "list_all (\<lambda>(c, w). lower_letter c \<and> 2 \<le> w) (next_chars T (last_bigram t))"
    "\<exists>i < length (next_chars T (last_bigram t)). token_ok T (t @ [fst (next_chars T (last_bigram t) ! i)])"
proof -
  let ?b = "drop (length t - 2) t"
  have lb: "last_bigram t = ?b" using assms(2) by (simp add: token_ok_def last_bigram_lower)
  obtain ng where ng: "map_of (ng_next T) ?b = Some ng" using assms(2) by (auto simp: token_ok_def)
  then have "(?b, ng) \<in> set (ng_next T)" by (rule map_of_SomeD)
  then have ok: "list_all (\<lambda>(c, w). lower_letter c \<and> 2 \<le> w) ng" "list_ex (\<lambda>(c, w). map_of (ng_next T) [?b ! 1, c] \<noteq> None) ng"
    using assms(1) unfolding table_ok_def list_all_iff by fastforce+
  have nx: "next_chars T (last_bigram t) = ng" by (simp add: next_chars_def lb ng)
  show "next_chars T (last_bigram t) \<noteq> []" using ok(2) nx by auto
  show "list_all (\<lambda>(c, w). lower_letter c \<and> 2 \<le> w) (next_chars T (last_bigram t))" using ok(1) nx by simp
  obtain i where i: "i < length ng" "map_of (ng_next T) [?b ! 1, fst (ng ! i)] \<noteq> None"
    using ok(2) by (auto simp: list_ex_iff in_set_conv_nth split_def)
  have len: "2 \<le> length t" using assms(2) by (simp add: token_ok_def)
  have "drop (length (t @ [c]) - 2) (t @ [c]) = [?b ! 1, c]" for c
  proof -
    obtain us y where "t = us @ [y]" "us \<noteq> []" using len by (cases t rule: rev_cases) (auto simp: Suc_le_eq)
    then obtain vs x where "t = vs @ [x, y]" by (cases us rule: rev_cases) auto
    then show ?thesis by (simp add: nth_append)
  qed
  moreover have "lower_letter (fst (ng ! i))" using ok(1) i(1) by (force simp: list_all_iff dest: nth_mem)
  ultimately have "token_ok T (t @ [fst (ng ! i)])" using assms(2) i(2) by (simp add: token_ok_def)
  then show "\<exists>i < length (next_chars T (last_bigram t)). token_ok T (t @ [fst (next_chars T (last_bigram t) ! i)])"
    using i(1) nx by auto
qed

section \<open>Words come to an end\<close>

declare word_loop.simps [simp del]

lemma next_weights_sum:
  assumes "table_ok T" "token_ok T t"
  shows "0 < sum_list (map snd (next_chars T (last_bigram t)))" "list_all (\<lambda>w. 2 \<le> w) (map snd (next_chars T (last_bigram t)))"
proof -
  show 2: "list_all (\<lambda>w. 2 \<le> w) (map snd (next_chars T (last_bigram t)))"
    using token_next(2) [OF assms] by (auto simp: list_all_iff)
  obtain x xs where "next_chars T (last_bigram t) = x # xs" using token_next(1) [OF assms] by (meson neq_Nil_conv)
  then show "0 < sum_list (map snd (next_chars T (last_bigram t)))" using 2 by auto
qed

lemma token_extend:
  assumes "table_ok T" "token_ok T t" "i < length (next_chars T (last_bigram t))"
    and "map_of (ng_next T) (last_bigram (t @ [fst (next_chars T (last_bigram t) ! i)])) \<noteq> None"
  shows "token_ok T (t @ [fst (next_chars T (last_bigram t) ! i)])"
proof -
  have "lower_letter (fst (next_chars T (last_bigram t) ! i))"
    using token_next(2) [OF assms(1,2)] assms(3) by (force simp: list_all_iff dest: nth_mem)
  then have "list_all lower_letter (t @ [fst (next_chars T (last_bigram t) ! i)])" using assms(2) by (simp add: token_ok_def)
  with assms(2,4) show ?thesis by (simp add: token_ok_def last_bigram_lower)
qed

lemma word_loop_runs:
  assumes "table_ok T"
  shows "good ds \<Longrightarrow> token_ok T token \<Longrightarrow> length token < len \<Longrightarrow>
    (\<exists>token'. token_ok T token' \<and> length token' < len \<and> word_loop T len token ds = Ret None \<and>
       (\<forall>x. word_loop T len token (ds @ x) = word_loop T len token' x)) \<or>
    (\<exists>w ds'. word_loop T len token ds = Ret (Some (w, ds')) \<and> token_ok T w \<and> length w = len \<and> good ds' \<and>
       (\<forall>x. word_loop T len token (ds @ x) = Ret (Some (w, ds' @ x))))"
proof (induction "length ds" arbitrary: ds token rule: less_induct)
  case less
  let ?nx = "next_chars T (last_bigram token)"
  note ok = rnd_ok_weighted [OF next_weights_sum(1) [OF assms less.prems(2)]]
  show ?case
  proof (cases "weightedRandInt (map snd ?nx) ds = Ret None")
    case True
    have "ds = []"
    proof (rule ccontr)
      assume "ds \<noteq> []"
      with less.prems(1) obtain d ds1 where "ds = Some d # ds1" by (cases ds) auto
      then show False using True next_weights_sum(1) [OF assms less.prems(2)]
        by (simp add: weightedRandInt_Cons split: option.splits)
    qed
    then show ?thesis using True less.prems(2,3) by (intro disjI1 exI [of _ token]) (simp add: word_loop.simps)
  next
    case False
    then obtain i ds1 where i: "yields (weightedRandInt (map snd ?nx) ds) i ds1" "i < length ?nx" "good ds1"
      using rnd_okD(1) [OF ok less.prems(1)] by auto
    have frame: "weightedRandInt (map snd ?nx) (ds @ x) = Ret (Some (i, ds1 @ x))" for x
      using rnd_okD(2) [OF ok less.prems(1) i(1)] by (simp add: yields_def)
    have here: "weightedRandInt (map snd ?nx) ds = Ret (Some (i, ds1))" using i(1) by (simp add: yields_def)
    have shorter: "length ds1 < length ds" using weightedRandInt_draws [OF here] .
    let ?new = "token @ [fst (?nx ! i)]"
    show ?thesis
    proof (cases "map_of (ng_next T) (last_bigram ?new) = None")
      case True
      then have "word_loop T len token (ds @ x) = word_loop T len token (ds1 @ x)" for x
        by (subst word_loop.simps) (simp add: frame Let_def)
      from this this [of "[]"] less.hyps [OF shorter i(3) less.prems(2,3)] show ?thesis by simp
    next
      case mapped: False
      have t: "token_ok T ?new" using token_extend [OF assms less.prems(2) i(2)] mapped by simp
      show ?thesis
      proof (cases "length ?new = len")
        case True
        then have "word_loop T len token (ds @ x) = Ret (Some (?new, ds1 @ x))" for x
          by (subst word_loop.simps) (simp add: frame Let_def mapped)
        from this this [of "[]"] t True i(3) show ?thesis by auto
      next
        case False
        then have "word_loop T len token (ds @ x) = word_loop T len ?new (ds1 @ x)" for x
          by (subst word_loop.simps) (simp add: frame Let_def mapped)
        moreover have "length ?new < len" using False less.prems(3) by simp
        ultimately show ?thesis using less.hyps [OF shorter i(3) t] by (metis append_Nil2)
      qed
    qed
  qed
qed

lemma word_loop_progress:
  assumes "table_ok T"
  shows "token_ok T token \<Longrightarrow> length token < len \<Longrightarrow> \<exists>x w. good x \<and> word_loop T len token x = Ret (Some (w, []))"
proof (induction "len - length token" arbitrary: token)
  case (Suc n)
  let ?nx = "next_chars T (last_bigram token)"
  obtain i where i: "i < length ?nx" "token_ok T (token @ [fst (?nx ! i)])" using token_next(3) [OF assms Suc.prems(1)] by blast
  let ?new = "token @ [fst (?nx ! i)]"
  obtain k where k: "k < sum_list (map snd ?nx)" "pick_weighted k 0 (map snd ?nx) = Some i"
    using pick_weighted_hits [of i "map snd ?nx" 0] i(1) next_weights_sum(2) [OF assms Suc.prems(1)] by auto
  have w: "weightedRandInt (map snd ?nx) (Some k # ds) = Ret (Some (i, ds))" for ds
    using k next_weights_sum(1) [OF assms Suc.prems(1)] by (simp add: weightedRandInt_Cons)
  have "list_all lower_letter ?new" using i(2) unfolding token_ok_def by blast
  then have mapped: "map_of (ng_next T) (last_bigram ?new) \<noteq> None" using i(2) unfolding token_ok_def by (metis last_bigram_lower)
  have step: "word_loop T len token (Some k # ds) = (if length ?new = len then Ret (Some (?new, ds)) else word_loop T len ?new ds)" for ds
    by (subst word_loop.simps) (simp add: w Let_def mapped)
  show ?case
  proof (cases "length ?new = len")
    case True
    then show ?thesis using step [of "[]"] by (intro exI [of _ "[Some k]"]) auto
  next
    case False
    have "n = len - length ?new" "length ?new < len" using Suc.hyps(2) Suc.prems(2) False by auto
    then obtain x v where "good x" "word_loop T len ?new x = Ret (Some (v, []))"
      using Suc.hyps(1) [of ?new] i(2) by blast
    then show ?thesis using step [of x] False by (intro exI [of _ "Some k # x"]) auto
  qed
qed simp

lemma rnd_ok_word_loop:
  assumes "table_ok T" "token_ok T token" "length token < len"
  shows "rnd_ok (\<lambda>w. length w = len \<and> list_all lower_letter w) (word_loop T len token)"
proof -
  note runs = word_loop_runs [OF assms(1) _ assms(2,3)]
  have "good ds \<Longrightarrow> word_loop T len token ds = Ret None \<or>
      (\<exists>a ds'. yields (word_loop T len token ds) a ds' \<and> (length a = len \<and> list_all lower_letter a) \<and> good ds')" for ds
    using runs [of ds] by (auto simp: yields_def token_ok_def)
  moreover have "good ds \<Longrightarrow> yields (word_loop T len token ds) a ds' \<Longrightarrow> yields (word_loop T len token (ds @ x)) a (ds' @ x)" for ds x a ds'
    using runs [of ds] by (auto simp: yields_def)
  moreover have "good ds \<Longrightarrow> word_loop T len token ds = Ret None \<Longrightarrow> \<exists>x a ds'. good x \<and> yields (word_loop T len token (ds @ x)) a ds'" for ds
  proof -
    assume "good ds" "word_loop T len token ds = Ret None"
    then obtain token' where "token_ok T token'" "length token' < len" "\<And>x. word_loop T len token (ds @ x) = word_loop T len token' x"
      using runs [of ds] by auto
    with word_loop_progress [OF assms(1), of token' len] show ?thesis by (auto simp: yields_def)
  qed
  ultimately show ?thesis unfolding rnd_ok_def by blast
qed

section \<open>Passwords come to an end\<close>

lemma rnd_ok_bigram:
  assumes "table_ok T"
  shows "rnd_ok (\<lambda>b. length b = 2 \<and> token_ok T b) (randBigram T)"
proof -
  have w: "list_all (\<lambda>(b, w). length b = 2 \<and> list_all lower_letter b \<and> 0 < w \<and> map_of (ng_next T) b \<noteq> None) (ng_bigrams T)"
    and ne: "ng_bigrams T \<noteq> []" using assms by (simp_all add: table_ok_def)
  obtain x xs where "ng_bigrams T = x # xs" using ne by (meson neq_Nil_conv)
  then have "0 < sum_list (map snd (ng_bigrams T))" using w by auto
  from rnd_ok_weighted [OF this] show ?thesis
    unfolding randBigram_def
  proof (rule rnd_ok_bind)
    fix i assume "i < length (map snd (ng_bigrams T))"
    then have "length (fst (ng_bigrams T ! i)) = 2 \<and> token_ok T (fst (ng_bigrams T ! i))"
      using w by (force simp: list_all_iff token_ok_def dest: nth_mem)
    then show "rnd_ok (\<lambda>b. length b = 2 \<and> token_ok T b) (rnd_return (fst (ng_bigrams T ! i)))" by (rule rnd_ok_return)
  qed
qed

definition lower_word :: "int \<Rightarrow> go_error + string \<Rightarrow> bool" where
  "lower_word len r \<longleftrightarrow> (case r of Inl _ \<Rightarrow> False | Inr w \<Rightarrow> int (length w) = len \<and> list_all lower_letter w)"

lemma rnd_ok_word: "table_ok T \<Longrightarrow> 2 \<le> len \<Longrightarrow> rnd_ok (lower_word len) (generateWord T len)"
proof -
  assume T: "table_ok T" and len: "2 \<le> len"
  have "rnd_ok (lower_word len) (if len = 2 then rnd_return (Inr t) else rnd_bind (word_loop T (nat len) t) (\<lambda>w. rnd_return (Inr w)))"
    if t: "length t = 2 \<and> token_ok T t" for t
  proof (cases "len = 2")
    case True
    then show ?thesis using t by (simp add: rnd_ok_return lower_word_def token_ok_def)
  next
    case False
    then have "length t < nat len" using t len by simp
    from rnd_ok_word_loop [OF T _ this] t have "rnd_ok (\<lambda>w. length w = nat len \<and> list_all lower_letter w) (word_loop T (nat len) t)"
      by simp
    then have "rnd_ok (lower_word len) (rnd_bind (word_loop T (nat len) t) (\<lambda>w. rnd_return (Inr w)))"
      by (rule rnd_ok_bind) (use len in \<open>simp add: rnd_ok_return lower_word_def\<close>)
    then show ?thesis using False by simp
  qed
  then have "rnd_ok (lower_word len) (rnd_bind (randBigram T) (\<lambda>t. if len = 2 then rnd_return (Inr t)
      else rnd_bind (word_loop T (nat len) t) (\<lambda>w. rnd_return (Inr w))))" by (rule rnd_ok_bind [OF rnd_ok_bigram [OF T]])
  then show ?thesis using len by (simp add: generateWord_def)
qed

lemma rnd_ok_words:
  "table_ok T \<Longrightarrow> list_all (\<lambda>l. 2 \<le> l) ls \<Longrightarrow> rnd_ok (lower_word (sum_list ls)) (generate_words T ls)"
proof (induction ls)
  case Nil
  then show ?case by (simp add: rnd_ok_return lower_word_def)
next
  case (Cons l ls)
  have "rnd_ok (lower_word l) (generateWord T l)" using Cons.prems by (intro rnd_ok_word) simp_all
  then show ?case
    unfolding generate_words.simps
  proof (rule rnd_ok_bind)
    fix w assume w: "lower_word l w"
    then obtain word where word: "w = Inr word" "int (length word) = l" "list_all lower_letter word"
      by (auto simp: lower_word_def split: sum.splits)
    have "rnd_ok (lower_word (sum_list ls)) (generate_words T ls)" using Cons by simp
    then have "rnd_ok (lower_word (sum_list (l # ls)))
        (rnd_bind (generate_words T ls) (\<lambda>r. rnd_return (case r of Inl err \<Rightarrow> Inl err | Inr rest \<Rightarrow> Inr (word @ rest))))"
      by (rule rnd_ok_bind, intro rnd_ok_return) (use word in \<open>auto simp: lower_word_def split: sum.splits\<close>)
    then show "rnd_ok (lower_word (sum_list (l # ls)))
        (case w of Inl err \<Rightarrow> rnd_return (Inl err)
         | Inr word \<Rightarrow>
             rnd_bind (generate_words T ls) (\<lambda>r. rnd_return (case r of Inl err \<Rightarrow> Inl err | Inr rest \<Rightarrow> Inr (word @ rest))))"
      by (simp add: word)
  qed
qed

lemma mset_swap_at: "i < length xs \<Longrightarrow> j < length xs \<Longrightarrow> mset (swap_at i j xs) = mset xs"
  by (simp add: swap_at_def mset_swap)

lemma rnd_ok_shuffle_from: "i < length xs \<Longrightarrow> rnd_ok (\<lambda>ys. mset ys = mset xs) (shuffle_from i xs)"
proof (induction i arbitrary: xs)
  case (Suc i)
  have "rnd_ok (\<lambda>j. j < Suc (Suc i)) (source_below (Suc (Suc i)))" by (rule rnd_ok_source) simp
  then show ?case
    unfolding shuffle_from.simps
  proof (rule rnd_ok_bind)
    fix j assume "j < Suc (Suc i)"
    then have m: "mset (swap_at (Suc i) j xs) = mset xs" using Suc.prems by (intro mset_swap_at) auto
    then have "length (swap_at (Suc i) j xs) = length xs" by (metis size_mset)
    then show "rnd_ok (\<lambda>ys. mset ys = mset xs) (shuffle_from i (swap_at (Suc i) j xs))"
      using Suc.IH [of "swap_at (Suc i) j xs"] Suc.prems m by simp
  qed
qed (simp add: rnd_ok_return)

lemma rnd_ok_lengths:
  assumes "3 \<le> n"
  shows "rnd_ok (\<lambda>ls. ls \<noteq> [] \<and> list_all (\<lambda>l. 2 \<le> l) ls \<and> sum_list ls = n) (word_lengths n)"
  unfolding word_lengths_def Let_def
proof (rule rnd_ok_bind [OF rnd_ok_list [OF rnd_ok_randInt]])
  fix ks :: "nat list" assume ks: "length ks = nat (n div 7) \<and> list_all (\<lambda>k. k < 5) ks"
  let ?ls = "map (\<lambda>k. 2 + int k) ks"
  have len: "int (length ks) = n div 7" using ks assms by simp
  have two: "list_all (\<lambda>l. 2 \<le> l) ?ls" by (simp add: list_all_iff)
  have "list_all (\<lambda>k. k < 5) js \<Longrightarrow> sum_list (map (\<lambda>k. 2 + int k) js) \<le> 6 * int (length js)" for js :: "nat list"
    by (induction js) auto
  then have "sum_list ?ls \<le> 6 * int (length ks)" using ks by blast
  then have rest: "n div 7 \<le> n - sum_list ?ls" using len by linarith
  show "rnd_ok (\<lambda>ls. ls \<noteq> [] \<and> list_all (\<lambda>l. 2 \<le> l) ls \<and> sum_list ls = n)
      (if 2 \<le> n - sum_list ?ls then rnd_return (?ls @ [n - sum_list ?ls])
       else if ?ls = [] then rnd_panic ''index out of range''
       else rnd_return (butlast ?ls @ [last ?ls + (n - sum_list ?ls)]))"
  proof (cases "2 \<le> n - sum_list ?ls")
    case True
    then show ?thesis using two by (simp add: rnd_ok_return)
  next
    case False
    have ne: "?ls \<noteq> []" using False assms by auto
    have split: "?ls = butlast ?ls @ [last ?ls]" using ne by (metis append_butlast_last_id)
    have "0 \<le> n - sum_list ?ls" using rest assms by linarith
    moreover have "sum_list ?ls = sum_list (butlast ?ls) + last ?ls" by (subst split) simp
    moreover have "\<forall>l \<in> set ?ls. 2 \<le> l" using two by (simp only: list_all_iff)
    then have "list_all (\<lambda>l. 2 \<le> l) (butlast ?ls) \<and> 2 \<le> last ?ls"
      using last_in_set [OF ne] in_set_butlastD [of _ ?ls] unfolding list_all_iff by blast
    ultimately have "rnd_ok (\<lambda>ls. ls \<noteq> [] \<and> list_all (\<lambda>l. 2 \<le> l) ls \<and> sum_list ls = n)
        (rnd_return (butlast ?ls @ [last ?ls + (n - sum_list ?ls)]))"
      by (intro rnd_ok_return) auto
    then show ?thesis using False ne by simp
  qed
qed simp

lemma rnd_ok_affix:
  "rnd_ok (\<lambda>(p, s). \<exists>num sep. length num = n \<and> set num \<subseteq> set numbers \<and> sep \<in> set separatorChar \<and>
     (p = num @ [sep] \<and> s = [] \<or> p = [] \<and> s = sep # num)) (password_affix n)"
proof -
  have "rnd_ok (\<lambda>c. c \<in> set numbers) (rnd_bind (randInt (length numbers)) (\<lambda>i. rnd_return (numbers ! i)))"
    by (rule rnd_ok_bind [OF rnd_ok_randInt], simp add: numbers_def, rule rnd_ok_return, rule nth_mem)
  from rnd_ok_list [OF this] show ?thesis
    unfolding password_affix_def
  proof (rule rnd_ok_bind)
    fix num assume num: "length num = n \<and> list_all (\<lambda>c. c \<in> set numbers) num"
    show "rnd_ok (\<lambda>(p, s). \<exists>num sep. length num = n \<and> set num \<subseteq> set numbers \<and> sep \<in> set separatorChar \<and>
        (p = num @ [sep] \<and> s = [] \<or> p = [] \<and> s = sep # num))
      (rnd_bind (randInt 2) (\<lambda>b. rnd_bind (randInt (length separatorChar)) (\<lambda>i.
         rnd_return (if b = 1 then (num @ [separatorChar ! i], []) else ([], separatorChar ! i # num)))))"
    proof (rule rnd_ok_bind [OF rnd_ok_randInt], simp, rule rnd_ok_bind [OF rnd_ok_randInt], simp add: separatorChar_def, rule rnd_ok_return)
      fix b i :: nat assume "i < length separatorChar"
      then have "separatorChar ! i \<in> set separatorChar" by (rule nth_mem)
      then show "case if b = 1 then (num @ [separatorChar ! i], []) else ([], separatorChar ! i # num) of
          (p, s) \<Rightarrow> \<exists>num sep. length num = n \<and> set num \<subseteq> set numbers \<and> sep \<in> set separatorChar \<and>
            (p = num @ [sep] \<and> s = [] \<or> p = [] \<and> s = sep # num)"
        using num by (auto simp: list_all_iff)
    qed
  qed
qed

text \<open>A word in which one letter is put in upper case or replaced by what looks like it.\<close>

definition modified_word :: "string \<Rightarrow> bool" where
  "modified_word p \<longleftrightarrow>
     (\<exists>w i. list_all lower_letter w \<and> i < length w \<and>
        (p = w[i := upper_byte (w ! i)] \<or> (\<exists>c. map_of substitutions (w ! i) = Some c \<and> p = w[i := c])))"

lemma rnd_ok_modify:
  "list_all lower_letter w \<Longrightarrow> w \<noteq> [] \<Longrightarrow> rnd_ok (\<lambda>p. length p = length w \<and> modified_word p) (modifyRandChar w)"
  unfolding modifyRandChar_def
proof (rule rnd_ok_bind [OF rnd_ok_randInt], simp, rule rnd_ok_return)
  fix i assume w: "list_all lower_letter w" "i < length w"
  let ?s = "if 0 < i \<and> i < length w - 1 then map_of substitutions (w ! i) else None"
  have "?s = Some c \<Longrightarrow> map_of substitutions (w ! i) = Some c" for c by (simp split: if_splits)
  then show "length (case ?s of Some subst \<Rightarrow> w[i := subst] | None \<Rightarrow> w[i := upper_byte (w ! i)]) = length w \<and>
      modified_word (case ?s of Some subst \<Rightarrow> w[i := subst] | None \<Rightarrow> w[i := upper_byte (w ! i)])"
    using w unfolding modified_word_def by (cases ?s) auto
qed

definition password_shape :: "int \<Rightarrow> go_error + string \<Rightarrow> bool" where
  "password_shape n r \<longleftrightarrow>
     (case r of
        Inl _ \<Rightarrow> False
      | Inr pw \<Rightarrow>
          int (length pw) = n \<and>
          (\<exists>num sep phrase. (pw = num @ [sep] @ phrase \<or> pw = phrase @ [sep] @ num) \<and> length num = 3 \<and>
             set num \<subseteq> set numbers \<and> sep \<in> set separatorChar \<and> modified_word phrase))"

lemma rnd_ok_password:
  assumes "table_ok T" "7 \<le> n"
  shows "rnd_ok (password_shape n) (generateMemorablePassword T n)"
proof -
  let ?k = "n - 4"
  have num: "max 1 (min 3 (n div 2)) = 3" using assms(2) by simp
  have phrase: "rnd_ok (password_shape n)
      (case r of Inl err \<Rightarrow> rnd_return (Inl err)
       | Inr phrase \<Rightarrow> rnd_bind (randInt 3) (\<lambda>_. rnd_bind (modifyRandChar phrase) (\<lambda>phrase. rnd_return (Inr (pre @ phrase @ suf)))))"
    if r: "lower_word ?k r" and affix: "length num = 3 \<and> set num \<subseteq> set numbers \<and> sep \<in> set separatorChar \<and>
        (pre = num @ [sep] \<and> suf = [] \<or> pre = [] \<and> suf = sep # num)" for r pre suf num sep
  proof -
    obtain w where w: "r = Inr w" "int (length w) = ?k" "list_all lower_letter w"
      using r by (auto simp: lower_word_def split: sum.splits)
    have "w \<noteq> []" using w(2) assms(2) by auto
    have "rnd_ok (password_shape n) (rnd_bind (randInt 3) (\<lambda>_. rnd_bind (modifyRandChar w) (\<lambda>phrase. rnd_return (Inr (pre @ phrase @ suf)))))"
    proof (rule rnd_ok_bind [OF rnd_ok_randInt], simp, rule rnd_ok_bind [OF rnd_ok_modify [OF w(3) \<open>w \<noteq> []\<close>]], rule rnd_ok_return)
      fix p assume p: "length p = length w \<and> modified_word p"
      then have "int (length (pre @ p @ suf)) = n" using affix w(2) by auto
      moreover have "\<exists>num sep phrase. (pre @ p @ suf = num @ [sep] @ phrase \<or> pre @ p @ suf = phrase @ [sep] @ num) \<and> length num = 3 \<and>
             set num \<subseteq> set numbers \<and> sep \<in> set separatorChar \<and> modified_word phrase"
        by (rule exI [of _ num], rule exI [of _ sep], rule exI [of _ p]) (use affix p in auto)
      ultimately show "password_shape n (Inr (pre @ p @ suf))" by (simp add: password_shape_def)
    qed
    then show ?thesis by (simp add: w(1))
  qed
  have words: "rnd_ok (lower_word ?k) (generate_words T ls)" if "ls \<noteq> [] \<and> list_all (\<lambda>l. 2 \<le> l) ls \<and> sum_list ls = ?k" for ls
    using rnd_ok_words [OF assms(1), of ls] that by simp
  have shuffled: "rnd_ok (\<lambda>ys. ys \<noteq> [] \<and> list_all (\<lambda>l. 2 \<le> l) ys \<and> sum_list ys = ?k) (rnd_shuffle ls)"
    if "ls \<noteq> [] \<and> list_all (\<lambda>l. 2 \<le> l) ls \<and> sum_list ls = ?k" for ls
    unfolding rnd_shuffle_def
  proof (rule rnd_ok_weaken [OF rnd_ok_shuffle_from])
    fix ys assume m: "mset ys = mset ls"
    then have "set ys = set ls" "sum_list ys = sum_list ls" by (metis set_mset_mset, metis sum_mset_sum_list)
    then show "ys \<noteq> [] \<and> list_all (\<lambda>l. 2 \<le> l) ys \<and> sum_list ys = ?k" using that m by (auto simp: list_all_iff)
  qed (use that in simp)
  have len: "rnd_ok (\<lambda>ls. ls \<noteq> [] \<and> list_all (\<lambda>l. 2 \<le> l) ls \<and> sum_list ls = ?k) (word_lengths ?k)"
    using assms(2) by (intro rnd_ok_lengths) simp
  have "rnd_ok (password_shape n)
      (rnd_bind (password_affix (nat 3)) (\<lambda>(pre, suf). rnd_bind (word_lengths ?k) (\<lambda>ls. rnd_bind (rnd_shuffle ls) (\<lambda>ls.
         rnd_bind (generate_words T ls) (\<lambda>r. case r of Inl err \<Rightarrow> rnd_return (Inl err)
           | Inr phrase \<Rightarrow> rnd_bind (randInt 3) (\<lambda>_. rnd_bind (modifyRandChar phrase) (\<lambda>phrase. rnd_return (Inr (pre @ phrase @ suf)))))))))"
  proof (rule rnd_ok_bind [OF rnd_ok_affix])
    fix a assume a: "case a of (p, s) \<Rightarrow> \<exists>num sep. length num = nat 3 \<and> set num \<subseteq> set numbers \<and> sep \<in> set separatorChar \<and>
      (p = num @ [sep] \<and> s = [] \<or> p = [] \<and> s = sep # num)"
    obtain pre suf where ps: "a = (pre, suf)" by fastforce
    obtain num sep where affix: "length num = 3 \<and> set num \<subseteq> set numbers \<and> sep \<in> set separatorChar \<and>
      (pre = num @ [sep] \<and> suf = [] \<or> pre = [] \<and> suf = sep # num)" using a by (auto simp: ps)
    show "rnd_ok (password_shape n)
      (case a of (pre, suf) \<Rightarrow> rnd_bind (word_lengths ?k) (\<lambda>ls. rnd_bind (rnd_shuffle ls) (\<lambda>ls.
         rnd_bind (generate_words T ls) (\<lambda>r. case r of Inl err \<Rightarrow> rnd_return (Inl err)
           | Inr phrase \<Rightarrow> rnd_bind (randInt 3) (\<lambda>_. rnd_bind (modifyRandChar phrase) (\<lambda>phrase. rnd_return (Inr (pre @ phrase @ suf))))))))"
      unfolding ps prod.case
      by (rule rnd_ok_bind [OF len], rule rnd_ok_bind [OF shuffled], assumption, rule rnd_ok_bind [OF words], assumption,
          rule phrase [OF _ affix])
  qed
  then show ?thesis using assms(2) unfolding generateMemorablePassword_def Let_def num by simp
qed

text \<open>
  Every password has its type: whatever is drawn, as long as the reader does not fail, the generator
  does not panic and does not give up: either it has produced a password of the length asked for, three digits
  and a separator before or after words of lower-case letters of which one is modified, or it waits for more
  draws, and there are draws with which it finishes.
\<close>

theorem password_generated:
  assumes "table_ok T" "7 \<le> n" "good ds"
  shows "case generateMemorablePassword T n ds of
      Panic _ \<Rightarrow> False
    | Ret None \<Rightarrow> \<exists>x r ds'. good x \<and> generateMemorablePassword T n (ds @ x) = Ret (Some (r, ds')) \<and> password_shape n r
    | Ret (Some (r, _)) \<Rightarrow> password_shape n r"
proof (cases "generateMemorablePassword T n ds = Ret None")
  case True
  from rnd_ok_finishes [OF rnd_ok_password [OF assms(1,2)] assms(3)] show ?thesis by (auto simp: True yields_def)
next
  case False
  from rnd_okD(1) [OF rnd_ok_password [OF assms(1,2)] assms(3)] False show ?thesis by (auto simp: yields_def)
qed

definition demo_table :: ngram_table where
  "demo_table = \<lparr>ng_bigrams = [(''ba'', 10)], ng_next = [(''ba'', [(CHR ''b'', 5)]), (''ab'', [(CHR ''a'', 3), (CHR ''x'', 2)])]\<rparr>"

theorem password_generated_witness:
  "table_ok demo_table \<and> (\<exists>x r ds'. generateMemorablePassword demo_table 7 x = Ret (Some (r, ds')) \<and> password_shape 7 r)"
proof -
  have T: "table_ok demo_table" by (simp add: table_ok_def demo_table_def lower_letter_def)
  have "generateMemorablePassword demo_table 7 [] = Ret None"
    by (simp add: generateMemorablePassword_def password_affix_def rnd_bind_def numeral_3_eq_3 randInt_def numbers_def)
  with password_generated [OF T, of 7 "[]"] show ?thesis using T by auto
qed

text \<open>The passwords the program asks for are ten long: their phrase is always a single word.\<close>

lemma default_single_word: "word_lengths 6 ds = Ret (Some ([6], ds))"
  by (simp add: word_lengths_def rnd_bind_def rnd_return_def)

end
