(* ===== verification/LetterTable.thy ===== *)
theory LetterTable
  imports Main
begin

text \<open>
  The letter frequencies of the password generator (\<open>pkg/passwordgen/ngrammapping.gen.go\<close>): the pairs of
  letters words begin with, and for every pair the letters that follow it, each with its weight. The two
  variables of the file are cut into pieces by the first letter of the pair, at most 150 lines of the file each.
\<close>

section \<open>Pairs words begin with\<close>

definition bigrams_1 :: "(string \<times> nat) list" where
  "bigrams_1 =
    [(''th'', 82191954206), (''of'', 32360430348), (''an'', 29085241508), (''in'', 27799770674),
     (''to'', 22226470501), (''co'', 17720707392), (''re'', 13676064272), (''be'', 13192202949),
     (''fo'', 11149689634), (''pr'', 10477241957), (''wh'', 10430616004), (''ha'', 9900759288),
     (''ma'', 9641091920), (''wi'', 9260197748), (''he'', 9112438473), (''is'', 9031299344),
     (''no'', 9025663599), (''wa'', 8852313882), (''on'', 8364400586), (''de'', 8183007142),
     (''st'', 7859239625), (''se'', 7674775084), (''as'', 7620135116), (''it'', 7555018907),
     (''ca'', 7339016324), (''hi'', 6832412743), (''so'', 6576226290), (''we'', 6571607236),
     (''ar'', 6424875618), (''di'', 6424023212), (''mo'', 6253154612), (''al'', 6003034247),
     (''su'', 5807926161), (''pa'', 5652090837), (''fr'', 5621876735), (''me'', 5325149689),
     (''or'', 5312508408), (''sh'', 5200314231), (''li'', 5085286521), (''ch'', 4942607276),
     (''wo'', 4863781188), (''po'', 4799579109), (''ex'', 4765671650), (''by'', 4748221678),
     (''at'', 4632096352), (''fi'', 4499526605), (''pe'', 4376595932), (''bu'', 4360852264),
     (''la'', 4289223460), (''ne'', 4170065476), (''un'', 4070503465), (''le'', 4043542193),
     (''sa'', 3995420031), (''tr'', 3908650599), (''ho'', 3863829003), (''yo'', 3844649484),
     (''lo'', 3819328277), (''do'', 3742193239), (''fa'', 3740840884), (''si'', 3712923585),
     (''gr'', 3387063486), (''en'', 3379510331), (''ac'', 3366641162), (''mi'', 3243364651),
     (''te'', 3205516541), (''bo'', 2982830352), (''ba'', 2920173812), (''go'', 2913476948),
     (''sp'', 2795524191), (''ou'', 2564517637), (''pl'', 2398706788), (''ev'', 2392475327),
     (''ab'', 2385772257), (''ta'', 2358252071), (''ra'', 2338918757), (''us'', 2326777176),
     (''br'', 2321215978), (''cl'', 2303821857), (''da'', 2267991812), (''ge'', 2230187113),
     (''ti'', 2147768486), (''fe'', 2145874401), (''ad'', 2142735786), (''mu'', 2136649758),
     (''im'', 2096179943), (''ap'', 2084578154), (''ro'', 2039254483), (''na'', 2023968235),
     (''sc'', 1939213511), (''pu'', 1932934252), (''ea'', 1883649717), (''cr'', 1873080749),
     (''vi'', 1858771673), (''ce'', 1787953760), (''ot'', 1786504716), (''am'', 1775304516),
     (''ag'', 1773675373), (''up'', 1750039244), (''ri'', 1674573752), (''ve'', 1640092150),
     (''va'', 1613137092), (''qu'', 1598696806), (''if'', 1570715890), (''af'', 1519444047),
     (''ye'', 1511074911), (''fu'', 1505084482), (''ju'', 1381389518), (''op'', 1374677378),
     (''tw'', 1349908811), (''my'', 1319032489), (''dr'', 1307706120), (''cu'', 1278128873),
     (''el'', 1233732784), (''kn'', 1231649714), (''du'', 1196361209), (''gi'', 1189741300),
     (''ga'', 1160311003), (''ob'', 1143990667), (''jo'', 1115075857), (''bi'', 1099641443),
     (''em'', 1097951222), (''fl'', 1096925901), (''hu'', 1090915313), (''ov'', 1072003806)]"

definition bigrams_2 :: "(string \<times> nat) list" where
  "bigrams_2 =
    [(''ci'', 1069842264), (''ph'', 1060473332), (''sy'', 1056294122), (''es'', 1051204378),
     (''bl'', 1035693565), (''au'', 1004108853), (''ru'', 970905512), (''ki'', 956081443),
     (''pi'', 908065459), (''nu'', 894421176), (''ed'', 849587935), (''vo'', 827793681),
     (''wr'', 800161510), (''ef'', 796366904), (''sm'', 750903135), (''tu'', 732031871),
     (''ow'', 717442550), (''sl'', 686637092), (''id'', 678999306), (''oc'', 669501193),
     (''ja'', 640482829), (''ke'', 635247656), (''gu'', 608287374), (''ni'', 606826479),
     (''ol'', 538119802), (''gl'', 523305878), (''eq'', 516191562), (''av'', 516056080),
     (''ec'', 513298050), (''ai'', 482699523), (''et'', 473953203), (''je'', 469926275),
     (''ty'', 459405573), (''ei'', 445202640), (''aw'', 442975682), (''sw'', 410049091),
     (''ir'', 383537367), (''il'', 363028566), (''sk'', 342493709), (''lu'', 325523279),
     (''er'', 324230831), (''ii'', 317207507), (''ey'', 284712862), (''eu'', 281835532),
     (''hy'', 279987202), (''ps'', 241868307), (''ka'', 200395463), (''ur'', 199604930),
     (''ut'', 181967532), (''cy'', 167389237), (''ep'', 161847304), (''sq'', 149649891),
     (''ox'', 139430351), (''dy'', 137503800), (''sn'', 134284730), (''eg'', 133007943),
     (''ly'', 121360771), (''oi'', 116017226), (''ya'', 114017843), (''ul'', 112407162),
     (''mc'', 108321849), (''rh'', 105057621), (''ze'', 105044562), (''ig'', 100644932),
     (''ko'', 98333934), (''oh'', 96850139), (''iv'', 93640437), (''ib'', 92669701),
     (''ic'', 92018229), (''os'', 86441517), (''io'', 83433285), (''yi'', 81521116),
     (''zo'', 80235070), (''ah'', 69936437), (''ax'', 69928920), (''od'', 66384504),
     (''om'', 66066571), (''xi'', 65878777), (''mr'', 64834484), (''ae'', 61971676),
     (''oa'', 57464857), (''mm'', 55181203), (''xx'', 54846916), (''dw'', 51888813),
     (''ji'', 50130522), (''cm'', 49529942), (''ku'', 43399549), (''gh'', 42149385),
     (''zi'', 41899795), (''ll'', 39688985), (''py'', 37742910), (''ok'', 37283988),
     (''kr'', 36697497), (''ms'', 35318758), (''xv'', 34775797), (''cf'', 34579806),
     (''zu'', 33605620), (''vu'', 33500602), (''ml'', 32706905), (''mg'', 31986881),
     (''dn'', 31250086), (''kh'', 30517272), (''yu'', 29077384), (''aq'', 28461835),
     (''ny'', 26625189), (''lt'', 26232251), (''uk'', 25490391), (''cd'', 25373072),
     (''za'', 25351579), (''um'', 25021148), (''ft'', 24220873), (''kl'', 23962276),
     (''pp'', 23938644), (''ln'', 23912206), (''gy'', 23226788), (''dc'', 22562910),
     (''tv'', 22396425), (''ts'', 22151572), (''ip'', 22119259), (''ct'', 21883004),
     (''aa'', 21461108), (''pc'', 21301623), (''pt'', 20990662), (''rs'', 20970736)]"

definition bigrams_3 :: "(string \<times> nat) list" where
  "bigrams_3 =
    [(''cp'', 20327375), (''ss'', 19817584), (''ix'', 19538338), (''ee'', 19162008),
     (''ff'', 18770024), (''km'', 18703225), (''ia'', 18485534), (''ug'', 18481682),
     (''oe'', 18480551), (''sr'', 18195788), (''ak'', 17813407), (''cc'', 17784935),
     (''cz'', 17576991), (''ay'', 17345361), (''kg'', 17048577), (''az'', 16530510),
     (''ry'', 16173913), (''ie'', 15839615), (''pn'', 15719853), (''wy'', 15572012),
     (''eb'', 15149954), (''gn'', 15149258), (''oo'', 14976862), (''bh'', 14777709),
     (''ao'', 14436057), (''cs'', 14392889), (''nm'', 13891747), (''ng'', 13783981),
     (''lb'', 13346655), (''mp'', 13243927), (''mt'', 13183724), (''hr'', 13171866),
     (''rn'', 13136523), (''bc'', 12360566), (''ih'', 12300416), (''tc'', 12203901),
     (''hs'', 11464935), (''eo'', 11322636), (''tl'', 11306774), (''gd'', 11144077),
     (''pm'', 11110307), (''ns'', 10941143), (''ej'', 10924168), (''tn'', 10884760),
     (''wu'', 10867130), (''zh'', 10682193), (''ht'', 10586362), (''og'', 10537984),
     (''gm'', 10442890), (''nt'', 10413631), (''tb'', 10309143), (''dh'', 10222140),
     (''md'', 10217153), (''cb'', 9955106), (''oz'', 9937696), (''sd'', 9774558), (''cn'', 9421467),
     (''ky'', 9216407), (''fd'', 9193424), (''ls'', 9166363), (''xl'', 9143370), (''ds'', 9088642),
     (''pd'', 9059191), (''db'', 9025644), (''np'', 8786924), (''rp'', 8676436), (''mn'', 8598425),
     (''nc'', 8535925), (''dl'', 8500304), (''fc'', 8304641), (''lx'', 8225350), (''rt'', 8096659),
     (''dm'', 7942842), (''hm'', 7937823), (''eh'', 7727014), (''sv'', 7686365), (''mb'', 7664859),
     (''nj'', 7614450), (''ub'', 7422486), (''ew'', 7408543), (''ld'', 7397176), (''vl'', 7374909),
     (''xe'', 7283680), (''nd'', 7236446), (''tt'', 7230942), (''rd'', 7114661), (''gp'', 7035249),
     (''ez'', 7021267), (''rc'', 7019628), (''rf'', 6897159), (''nr'', 6877880), (''bp'', 6733757),
     (''oy'', 6654801), (''bb'', 6650106), (''kw'', 6615058), (''iu'', 6602440), (''fb'', 6591558),
     (''vs'', 6549033), (''wt'', 6455701), (''pf'', 6390484), (''lc'', 6388289), (''mh'', 6295141),
     (''hc'', 6271511), (''dt'', 6102149), (''wm'', 6078211), (''pb'', 6026580), (''lf'', 6018687),
     (''hp'', 5961270), (''dd'', 5925203), (''aj'', 5879585), (''uc'', 5875633), (''rm'', 5665696),
     (''tm'', 5663510), (''jr'', 5549278), (''bs'', 5503349), (''ud'', 5484504), (''xm'', 5298517),
     (''uv'', 5248522), (''dp'', 5232301), (''ik'', 5182217), (''fm'', 5168988), (''fs'', 5109914),
     (''bm'', 5092649), (''nb'', 5018674)]"

definition bigrams_4 :: "(string \<times> nat) list" where
  "bigrams_4 =
    [(''pv'', 4901191), (''iq'', 4840057), (''gw'', 4801917), (''zw'', 4743402), (''lh'', 4693967),
     (''bd'', 4649423), (''df'', 4631589), (''bv'', 4620660), (''bt'', 4568837), (''sf'', 4567639),
     (''nl'', 4520130), (''sb'', 4476233), (''lp'', 4471006), (''qi'', 4465894), (''ww'', 4464739),
     (''nh'', 4463560), (''cv'', 4364535), (''yr'', 4343546), (''gs'', 4337017), (''dv'', 4319913),
     (''hz'', 4310709), (''oj'', 4175902), (''uh'', 4146633), (''pg'', 4128239), (''xy'', 4109912),
     (''vc'', 4049565), (''tp'', 4007007), (''qa'', 3946147), (''nf'', 3877360), (''lv'', 3835535),
     (''vp'', 3835281), (''gc'', 3788581), (''hl'', 3763884), (''rb'', 3751984), (''rr'', 3723630),
     (''nn'', 3717003), (''mv'', 3678047), (''hb'', 3647744), (''vr'', 3631882), (''hg'', 3614292),
     (''cg'', 3583734), (''rl'', 3555655), (''kb'', 3550212), (''rg'', 3543654), (''iz'', 3537263),
     (''lm'', 3506323), (''cw'', 3432762), (''hd'', 3399065), (''jp'', 3398589), (''bn'', 3352137),
     (''wc'', 3311271), (''mf'', 3309261), (''td'', 3292332), (''ua'', 3174087), (''pk'', 3128071),
     (''kc'', 3116690), (''ui'', 3110948), (''jc'', 3098846), (''tf'', 3085477), (''js'', 3084967),
     (''uf'', 3072746), (''bj'', 3053941), (''jn'', 3028541), (''xa'', 3025424), (''rw'', 3020876),
     (''lr'', 3011622), (''mw'', 2999418), (''wl'', 2999363), (''dj'', 2984054), (''sg'', 2951550),
     (''ek'', 2948771), (''ue'', 2937608), (''nw'', 2932397), (''jh'', 2932074), (''vt'', 2919653),
     (''ks'', 2872608), (''jm'', 2781428), (''rj'', 2709000), (''nk'', 2692863), (''jl'', 2689697),
     (''ws'', 2688630), (''vn'', 2630679), (''gt'', 2591306), (''zn'', 2583491), (''yv'', 2572276),
     (''jt'', 2527435), (''fp'', 2514749), (''fn'', 2479222), (''vh'', 2476899), (''fy'', 2430848),
     (''tj'', 2412807), (''fh'', 2396475), (''kd'', 2372377), (''tz'', 2368435), (''rv'', 2307198),
     (''sz'', 2299945), (''sj'', 2299350), (''jf'', 2293417), (''vm'', 2289682), (''jj'', 2254647),
     (''tg'', 2242033), (''xp'', 2214219), (''hw'', 2206974), (''kp'', 2196999), (''vy'', 2178522),
     (''jd'', 2174319), (''bk'', 2130785), (''iw'', 2071395), (''fj'', 2065436), (''lj'', 2064198),
     (''vb'', 2061923), (''hf'', 2060797), (''zy'', 2021329), (''kv'', 1996097), (''wp'', 1961563),
     (''wb'', 1945697), (''kj'', 1942327), (''uz'', 1939475), (''gb'', 1936804), (''mk'', 1843588),
     (''pj'', 1838634), (''xu'', 1811603), (''pw'', 1783827), (''ij'', 1766367)]"

definition bigrams_5 :: "(string \<times> nat) list" where
  "bigrams_5 =
    [(''vd'', 1620222), (''wd'', 1617747), (''gf'', 1609214), (''kt'', 1582388), (''dg'', 1551641),
     (''tk'', 1518294), (''lg'', 1471825), (''vv'', 1428635), (''xc'', 1387322), (''qt'', 1385505),
     (''xt'', 1371647), (''hh'', 1369711), (''yt'', 1353977), (''ym'', 1335185), (''hj'', 1282370),
     (''bg'', 1275848), (''yd'', 1229259), (''bf'', 1226885), (''rk'', 1220241), (''hv'', 1193129),
     (''nv'', 1182377), (''vg'', 1153832), (''wn'', 1125500), (''hk'', 1103874), (''hq'', 1102839),
     (''ck'', 1101218), (''fg'', 1070208), (''xs'', 1061175), (''tq'', 1052493), (''xh'', 1047597),
     (''iy'', 1046131), (''lk'', 1045465), (''yp'', 1043926), (''wk'', 1034614), (''dk'', 1029760),
     (''fw'', 1012619), (''jv'', 992870), (''uo'', 980723), (''xo'', 977967), (''hn'', 955441),
     (''uj'', 949271), (''bw'', 938415), (''gg'', 920475), (''cx'', 876736), (''kk'', 854314),
     (''yh'', 849465), (''gj'', 842635), (''ys'', 840057), (''wf'', 825009), (''ux'', 800468),
     (''xr'', 785460), (''pq'', 775424), (''rx'', 761248), (''jk'', 718119), (''xn'', 714320),
     (''lw'', 707426), (''cq'', 681762), (''bz'', 678093), (''nz'', 642025), (''fv'', 635886),
     (''uw'', 631767), (''gv'', 629166), (''wg'', 624288), (''qs'', 614268), (''gk'', 609890),
     (''zv'', 607010), (''zr'', 595478), (''kf'', 575154), (''dz'', 542632), (''zl'', 515733),
     (''zt'', 507191), (''zb'', 495148), (''yl'', 486305), (''uu'', 485980), (''qv'', 454962),
     (''jy'', 441927), (''yn'', 434072), (''dq'', 412178), (''qb'', 393057), (''yb'', 391658),
     (''pz'', 385807), (''mz'', 385785), (''nx'', 375328), (''fk'', 372831), (''yf'', 368571),
     (''yc'', 357867), (''yw'', 355947), (''rq'', 350884), (''xg'', 344461), (''zs'', 332525),
     (''qn'', 325391), (''mq'', 324438), (''yy'', 320837), (''kx'', 286103), (''lz'', 273446),
     (''qq'', 238901), (''yj'', 238504), (''xb'', 236706), (''bq'', 229849), (''xf'', 222248),
     (''zz'', 222214), (''lq'', 221015), (''yg'', 216533), (''oq'', 208876), (''nq'', 207872),
     (''uy'', 199016), (''rz'', 193671), (''yz'', 185888), (''xq'', 179783), (''zm'', 176790),
     (''zj'', 174872), (''gx'', 173606), (''zd'', 169873), (''fz'', 154428), (''gq'', 151315),
     (''zp'', 151085), (''yk'', 150247), (''zf'', 143954), (''zk'', 124943), (''zc'', 122291),
     (''yx'', 117014), (''uq'', 114216), (''jz'', 109326), (''gz'', 103696)]"

definition bigrams :: "(string \<times> nat) list" where
  "bigrams = bigrams_1 @ bigrams_2 @ bigrams_3 @ bigrams_4 @ bigrams_5"

section \<open>Successors\<close>

definition ngrams_a1 :: "(string \<times> (char \<times> nat) list) list" where
  "ngrams_a1 =
    [(''aa'', [(CHR ''r'', 14525334), (CHR ''c'', 13387952), (CHR ''l'', 7063390), (CHR ''s'', 5875961),
        (CHR ''n'', 5137712), (CHR ''t'', 2101318), (CHR ''m'', 1946178), (CHR ''b'', 985679),
        (CHR ''d'', 908522), (CHR ''k'', 840193), (CHR ''p'', 687425), (CHR ''f'', 687176),
        (CHR ''a'', 589447), (CHR ''g'', 511184), (CHR ''v'', 481821), (CHR ''h'', 161241),
        (CHR ''u'', 134767), (CHR ''i'', 124386)]),
     (''ab'', [(CHR ''l'', 2813579939), (CHR ''o'', 1786192828), (CHR ''i'', 651224109), (CHR ''s'', 329801216),
        (CHR ''e'', 174984692), (CHR ''a'', 129677219), (CHR ''r'', 115689624), (CHR ''u'', 114538576),
        (CHR ''b'', 103888480), (CHR ''y'', 62790443), (CHR ''d'', 33692125), (CHR ''n'', 27645359),
        (CHR ''h'', 8878544), (CHR ''w'', 3211767), (CHR ''j'', 3020388), (CHR ''c'', 1727407),
        (CHR ''t'', 589704), (CHR ''m'', 331332), (CHR ''k'', 225036), (CHR ''g'', 180112)]),
     (''ac'', [(CHR ''t'', 3743469728), (CHR ''e'', 1974144763), (CHR ''h'', 1965240653),
        (CHR ''k'', 1463988954), (CHR ''c'', 1334044002), (CHR ''i'', 598085266), (CHR ''r'', 312889373),
        (CHR ''y'', 217585630), (CHR ''q'', 150436111), (CHR ''a'', 149766009), (CHR ''u'', 139602097),
        (CHR ''o'', 95032805), (CHR ''l'', 77565871), (CHR ''m'', 14183734), (CHR ''s'', 9097129),
        (CHR ''d'', 8425366), (CHR ''b'', 3214992), (CHR ''p'', 3119215), (CHR ''n'', 2552476),
        (CHR ''g'', 1310533), (CHR ''f'', 589246), (CHR ''z'', 170001), (CHR ''v'', 122534)]),
     (''ad'', [(CHR ''e'', 1877714974), (CHR ''i'', 938568898), (CHR ''d'', 590368640), (CHR ''v'', 526972730),
        (CHR ''y'', 394228422), (CHR ''m'', 384989714), (CHR ''o'', 304166657), (CHR ''a'', 273536995),
        (CHR ''s'', 217743128), (CHR ''u'', 201052540), (CHR ''j'', 129727560), (CHR ''l'', 82865721),
        (CHR ''r'', 72625153), (CHR ''h'', 43073928), (CHR ''c'', 24736253), (CHR ''q'', 18814499),
        (CHR ''f'', 18313144), (CHR ''n'', 17802196), (CHR ''w'', 14806645), (CHR ''t'', 12719921),
        (CHR ''g'', 9288534), (CHR ''b'', 5170342), (CHR ''p'', 2401036), (CHR ''z'', 735838),
        (CHR ''k'', 426436)]),
     (''ae'', [(CHR ''l'', 117775493), (CHR ''s'', 42987910), (CHR ''r'', 31393317), (CHR ''o'', 22540467),
        (CHR ''m'', 15141062), (CHR ''d'', 8668788), (CHR ''t'', 6246377), (CHR ''g'', 5693457),
        (CHR ''c'', 5685403), (CHR ''v'', 5222777), (CHR ''a'', 4788646), (CHR ''n'', 4752272),
        (CHR ''u'', 4496430), (CHR ''f'', 1610900), (CHR ''p'', 762563), (CHR ''z'', 733311),
        (CHR ''b'', 487991), (CHR ''e'', 147547), (CHR ''i'', 128039), (CHR ''w'', 127663)]),
     (''af'', [(CHR ''t'', 1078678196), (CHR ''f'', 563765387), (CHR ''r'', 183786838), (CHR ''e'', 146685305),
        (CHR ''o'', 14774362), (CHR ''a'', 14008747), (CHR ''i'', 9506336), (CHR ''g'', 9356740),
        (CHR ''l'', 7591373), (CHR ''n'', 2511805), (CHR ''y'', 1645825), (CHR ''k'', 1563740),
        (CHR ''s'', 1222239), (CHR ''d'', 1041051), (CHR ''h'', 210282), (CHR ''c'', 165140),
        (CHR ''z'', 109432)])]"

definition ngrams_a2 :: "(string \<times> (char \<times> nat) list) list" where
  "ngrams_a2 =
    [(''ag'', [(CHR ''e'', 2871323169), (CHR ''a'', 888079702), (CHR ''r'', 452291103), (CHR ''i'', 321972248),
        (CHR ''n'', 223587930), (CHR ''o'', 184545045), (CHR ''g'', 162591247), (CHR ''u'', 148063753),
        (CHR ''m'', 58974678), (CHR ''s'', 29726121), (CHR ''l'', 18063261), (CHR ''h'', 13692847),
        (CHR ''d'', 5602363), (CHR ''y'', 2475781), (CHR ''p'', 2236673), (CHR ''t'', 1019207),
        (CHR ''w'', 925125), (CHR ''c'', 314750), (CHR ''f'', 303360), (CHR ''b'', 238898)]),
     (''ah'', [(CHR ''a'', 65557636), (CHR ''e'', 43620283), (CHR ''o'', 29904337), (CHR ''m'', 25847962),
        (CHR ''i'', 12929584), (CHR ''r'', 11191010), (CHR ''l'', 7674775), (CHR ''n'', 6642590),
        (CHR ''u'', 5083055), (CHR ''w'', 3550124), (CHR ''s'', 1964627), (CHR ''y'', 1563325),
        (CHR ''d'', 930458), (CHR ''t'', 406825), (CHR ''v'', 191635), (CHR ''h'', 167765)]),
     (''ai'', [(CHR ''n'', 4506632459), (CHR ''l'', 1064594551), (CHR ''d'', 1059849593),
        (CHR ''r'', 749006429), (CHR ''t'', 370247284), (CHR ''s'', 294992984), (CHR ''m'', 268824424),
        (CHR ''g'', 138150978), (CHR ''c'', 31350882), (CHR ''v'', 14790059), (CHR ''i'', 11084056),
        (CHR ''w'', 10039227), (CHR ''a'', 8443326), (CHR ''z'', 6588199), (CHR ''k'', 5567043),
        (CHR ''e'', 5047763), (CHR ''p'', 3813667), (CHR ''u'', 2227861), (CHR ''f'', 1990363),
        (CHR ''b'', 1788739), (CHR ''j'', 1047159), (CHR ''o'', 719029), (CHR ''x'', 691306),
        (CHR ''y'', 210901)]),
     (''aj'', [(CHR ''o'', 250450217), (CHR ''e'', 41592970), (CHR ''a'', 18880306), (CHR ''i'', 4039114),
        (CHR ''p'', 1948278), (CHR ''u'', 1665885), (CHR ''r'', 578783), (CHR ''j'', 565467),
        (CHR ''n'', 533687), (CHR ''y'', 476583), (CHR ''l'', 370034), (CHR ''m'', 296321),
        (CHR ''k'', 158047), (CHR ''f'', 128367), (CHR ''c'', 113552), (CHR ''z'', 111349),
        (CHR ''s'', 102943)]),
     (''ak'', [(CHR ''e'', 1942634335), (CHR ''i'', 513117000), (CHR ''s'', 62323145), (CHR ''a'', 36174712),
        (CHR ''n'', 28519249), (CHR ''f'', 19835435), (CHR ''o'', 13458026), (CHR ''d'', 10851794),
        (CHR ''h'', 9393673), (CHR ''l'', 8636753), (CHR ''t'', 6368725), (CHR ''r'', 6211168),
        (CHR ''u'', 5426980), (CHR ''y'', 4500253), (CHR ''k'', 2128117), (CHR ''b'', 1794747),
        (CHR ''w'', 1030386), (CHR ''p'', 613346), (CHR ''v'', 108779)]),
     (''al'', [(CHR ''l'', 5255184938), (CHR ''i'', 2082886387), (CHR ''s'', 1992517377),
        (CHR ''t'', 1074741048), (CHR ''e'', 1052847136), (CHR ''u'', 610021457), (CHR ''o'', 555180547),
        (CHR ''a'', 431393975), (CHR ''y'', 383465018), (CHR ''m'', 378510010), (CHR ''k'', 373524938),
        (CHR ''w'', 294866898), (CHR ''f'', 268839508), (CHR ''r'', 227497993), (CHR ''c'', 223035077),
        (CHR ''d'', 127847588), (CHR ''v'', 100119729), (CHR ''b'', 79624868), (CHR ''g'', 68515387),
        (CHR ''p'', 68197679), (CHR ''n'', 8849584), (CHR ''z'', 6660429), (CHR ''h'', 6030275),
        (CHR ''q'', 340005), (CHR ''x'', 249782), (CHR ''j'', 184692)])]"

definition ngrams_a3 :: "(string \<times> (char \<times> nat) list) list" where
  "ngrams_a3 =
    [(''am'', [(CHR ''e'', 3062577200), (CHR ''i'', 951067722), (CHR ''p'', 911629591), (CHR ''o'', 687140115),
        (CHR ''a'', 344649322), (CHR ''b'', 296011297), (CHR ''s'', 271261402), (CHR ''m'', 235750800),
        (CHR ''u'', 70800130), (CHR ''n'', 26551612), (CHR ''y'', 17298095), (CHR ''l'', 15888341),
        (CHR ''w'', 3876051), (CHR ''d'', 3154510), (CHR ''h'', 2980742), (CHR ''t'', 2589304),
        (CHR ''f'', 1900496), (CHR ''r'', 1831633), (CHR ''c'', 1092324), (CHR ''k'', 471674),
        (CHR ''z'', 343651), (CHR ''v'', 164320), (CHR ''q'', 100308)]),
     (''an'', [(CHR ''d'', 3836673330), (CHR ''t'', 3750587187), (CHR ''c'', 3058999932),
        (CHR ''s'', 2022635692), (CHR ''g'', 1961267895), (CHR ''i'', 1624488639),
        (CHR ''y'', 1342760461), (CHR ''a'', 1071853127), (CHR ''n'', 793305684), (CHR ''o'', 650432441),
        (CHR ''e'', 642485125), (CHR ''k'', 596166885), (CHR ''u'', 299784438), (CHR ''x'', 63642441),
        (CHR ''z'', 29814989), (CHR ''l'', 27603106), (CHR ''w'', 24252400), (CHR ''h'', 22450853),
        (CHR ''f'', 19528671), (CHR ''v'', 19229554), (CHR ''q'', 18765855), (CHR ''b'', 8959530),
        (CHR ''j'', 6657545), (CHR ''p'', 6432107), (CHR ''m'', 3246432), (CHR ''r'', 915231)]),
     (''ao'', [(CHR ''r'', 44633635), (CHR ''s'', 13015944), (CHR ''l'', 5728306), (CHR ''h'', 4805234),
        (CHR ''t'', 4002154), (CHR ''i'', 3193971), (CHR ''u'', 2147445), (CHR ''m'', 1665649),
        (CHR ''p'', 1514490), (CHR ''n'', 1469285), (CHR ''c'', 1461198), (CHR ''k'', 516315),
        (CHR ''d'', 240296), (CHR ''b'', 151537), (CHR ''e'', 105301), (CHR ''y'', 101119)]),
     (''ap'', [(CHR ''p'', 2241534516), (CHR ''e'', 646361967), (CHR ''t'', 550555703), (CHR ''h'', 439825225),
        (CHR ''a'', 425433750), (CHR ''i'', 382194976), (CHR ''s'', 318709437), (CHR ''o'', 199817091),
        (CHR ''r'', 102444579), (CHR ''y'', 63130362), (CHR ''l'', 40721274), (CHR ''u'', 15421514),
        (CHR ''m'', 6878475), (CHR ''n'', 2825048), (CHR ''k'', 2392365), (CHR ''b'', 1569407),
        (CHR ''d'', 736150), (CHR ''g'', 447351), (CHR ''w'', 432768), (CHR ''c'', 172877),
        (CHR ''f'', 158452)]),
     (''aq'', [(CHR ''u'', 44535619), (CHR ''i'', 4294414), (CHR ''s'', 264222), (CHR ''a'', 243712),
        (CHR ''f'', 196684), (CHR ''q'', 108435)]),
     (''ar'', [(CHR ''t'', 3560864935), (CHR ''d'', 2486972002), (CHR ''e'', 2350498330),
        (CHR ''i'', 2097552294), (CHR ''y'', 1932641920), (CHR ''a'', 1391811673),
        (CHR ''r'', 1314672441), (CHR ''s'', 1215886912), (CHR ''l'', 1178262215),
        (CHR ''g'', 1162759730), (CHR ''c'', 937771338), (CHR ''k'', 898045993), (CHR ''m'', 756582645),
        (CHR ''n'', 537329363), (CHR ''o'', 419956260), (CHR ''b'', 267802930), (CHR ''v'', 126816488),
        (CHR ''p'', 122335580), (CHR ''f'', 43091750), (CHR ''x'', 30991039), (CHR ''w'', 18280639),
        (CHR ''q'', 15809843), (CHR ''u'', 15083249), (CHR ''h'', 5519773), (CHR ''j'', 4928058),
        (CHR ''z'', 4432399)])]"

definition ngrams_a4 :: "(string \<times> (char \<times> nat) list) list" where
  "ngrams_a4 =
    [(''as'', [(CHR ''s'', 2555355607), (CHR ''t'', 2339340393), (CHR ''e'', 2153912088),
        (CHR ''i'', 1027201460), (CHR ''o'', 489414564), (CHR ''h'', 453595701), (CHR ''u'', 435584121),
        (CHR ''k'', 410366351), (CHR ''p'', 211639425), (CHR ''c'', 170969223), (CHR ''a'', 134356666),
        (CHR ''y'', 127102524), (CHR ''m'', 92021203), (CHR ''l'', 19743920), (CHR ''q'', 8327101),
        (CHR ''g'', 8055177), (CHR ''b'', 7435436), (CHR ''w'', 1944755), (CHR ''d'', 1714151),
        (CHR ''r'', 1104888), (CHR ''n'', 941568), (CHR ''z'', 671613), (CHR ''j'', 401577),
        (CHR ''v'', 247678), (CHR ''f'', 209168)]),
     (''at'', [(CHR ''i'', 11777579880), (CHR ''e'', 8745208815), (CHR ''t'', 1873966382),
        (CHR ''h'', 1655933423), (CHR ''u'', 1271731815), (CHR ''o'', 746121300), (CHR ''a'', 477626358),
        (CHR ''c'', 292886972), (CHR ''r'', 284173337), (CHR ''s'', 215026297), (CHR ''m'', 211904896),
        (CHR ''l'', 103637196), (CHR ''y'', 55274542), (CHR ''f'', 26186286), (CHR ''n'', 12803459),
        (CHR ''k'', 7009368), (CHR ''z'', 5811191), (CHR ''v'', 2580819), (CHR ''w'', 1988586),
        (CHR ''p'', 1429308), (CHR ''q'', 1340939), (CHR ''b'', 934516), (CHR ''g'', 551932),
        (CHR ''d'', 550318)]),
     (''au'', [(CHR ''s'', 1256068500), (CHR ''t'', 742264182), (CHR ''g'', 417461699), (CHR ''l'', 237778143),
        (CHR ''d'', 175323926), (CHR ''n'', 105453201), (CHR ''r'', 91538860), (CHR ''c'', 72756446),
        (CHR ''m'', 34235415), (CHR ''x'', 24843727), (CHR ''b'', 11715004), (CHR ''e'', 10828814),
        (CHR ''f'', 10178854), (CHR ''v'', 6802638), (CHR ''p'', 6751501), (CHR ''k'', 6363095),
        (CHR ''z'', 2546426), (CHR ''h'', 1313842), (CHR ''q'', 812220), (CHR ''i'', 796000),
        (CHR ''j'', 549887), (CHR ''a'', 462584), (CHR ''u'', 387979), (CHR ''w'', 253784)]),
     (''av'', [(CHR ''e'', 4044223442), (CHR ''i'', 872553966), (CHR ''a'', 363268595), (CHR ''o'', 350929664),
        (CHR ''y'', 103619079), (CHR ''s'', 2770724), (CHR ''u'', 2612272), (CHR ''r'', 2466815),
        (CHR ''l'', 1775192), (CHR ''d'', 1364940), (CHR ''v'', 1061211), (CHR ''n'', 104387)]),
     (''aw'', [(CHR ''a'', 474354086), (CHR ''s'', 145835955), (CHR ''n'', 122897940), (CHR ''i'', 69325089),
        (CHR ''y'', 39436186), (CHR ''f'', 35627709), (CHR ''l'', 31122295), (CHR ''k'', 27937457),
        (CHR ''e'', 23523051), (CHR ''r'', 22452095), (CHR ''b'', 9909763), (CHR ''t'', 6364462),
        (CHR ''o'', 5787938), (CHR ''h'', 4600564), (CHR ''m'', 3679888), (CHR ''d'', 3665080),
        (CHR ''c'', 1228559), (CHR ''g'', 931287), (CHR ''u'', 124352)]),
     (''ax'', [(CHR ''i'', 166218377), (CHR ''e'', 69073045), (CHR ''a'', 42335328), (CHR ''o'', 25583803),
        (CHR ''p'', 12422697), (CHR ''w'', 6052637), (CHR ''t'', 5580781), (CHR ''y'', 4296965),
        (CHR ''l'', 3058188), (CHR ''m'', 632552), (CHR ''s'', 384938), (CHR ''c'', 199563),
        (CHR ''f'', 179224), (CHR ''u'', 134635), (CHR ''n'', 111697)])]"

definition ngrams_a5 :: "(string \<times> (char \<times> nat) list) list" where
  "ngrams_a5 =
    [(''ay'', [(CHR ''s'', 1005235947), (CHR ''e'', 352952163), (CHR ''i'', 186150448), (CHR ''m'', 94493747),
        (CHR ''a'', 58931255), (CHR ''b'', 48464907), (CHR ''o'', 47154413), (CHR ''l'', 43754956),
        (CHR ''n'', 19494204), (CHR ''t'', 12643810), (CHR ''r'', 8228510), (CHR ''w'', 8139763),
        (CHR ''f'', 8118894), (CHR ''d'', 6354801), (CHR ''g'', 3780876), (CHR ''u'', 3101468),
        (CHR ''h'', 2818368), (CHR ''c'', 1837188), (CHR ''y'', 1415698), (CHR ''p'', 981254),
        (CHR ''k'', 615829)]),
     (''az'', [(CHR ''i'', 126224896), (CHR ''e'', 79169877), (CHR ''a'', 54059771), (CHR ''z'', 18806559),
        (CHR ''y'', 17458141), (CHR ''o'', 15426498), (CHR ''u'', 3448089), (CHR ''t'', 3017762),
        (CHR ''l'', 1632186), (CHR ''q'', 913036), (CHR ''d'', 829420), (CHR ''r'', 519983),
        (CHR ''h'', 276095), (CHR ''n'', 207338), (CHR ''c'', 144823), (CHR ''s'', 133345)])]"

definition ngrams_b1 :: "(string \<times> (char \<times> nat) list) list" where
  "ngrams_b1 =
    [(''ba'', [(CHR ''s'', 742510471), (CHR ''c'', 678341044), (CHR ''n'', 637855542), (CHR ''r'', 451352123),
        (CHR ''l'', 401254885), (CHR ''t'', 339563070), (CHR ''b'', 314387605), (CHR ''d'', 45117901),
        (CHR ''k'', 36532941), (CHR ''g'', 35992857), (CHR ''p'', 34261449), (CHR ''i'', 30355787),
        (CHR ''y'', 28903406), (CHR ''u'', 21281912), (CHR ''m'', 17590259), (CHR ''h'', 8508059),
        (CHR ''f'', 5139343), (CHR ''v'', 5131835), (CHR ''z'', 4814441), (CHR ''x'', 2888883),
        (CHR ''j'', 2870790), (CHR ''e'', 2274690), (CHR ''w'', 2248610), (CHR ''a'', 2077020),
        (CHR ''o'', 984360), (CHR ''q'', 125623)]),
     (''bb'', [(CHR ''e'', 96297383), (CHR ''i'', 57946225), (CHR ''l'', 37514171), (CHR ''o'', 29395210),
        (CHR ''y'', 25855235), (CHR ''a'', 22116000), (CHR ''r'', 9053547), (CHR ''s'', 6924906),
        (CHR ''u'', 1956625)]),
     (''bc'', [(CHR ''o'', 13151996), (CHR ''u'', 6078752), (CHR ''l'', 3280058), (CHR ''a'', 1152521),
        (CHR ''h'', 904808), (CHR ''d'', 748955), (CHR ''e'', 682330), (CHR ''s'', 461069),
        (CHR ''r'', 171388), (CHR ''c'', 131600)]),
     (''bd'', [(CHR ''o'', 20504752), (CHR ''u'', 18794666), (CHR ''i'', 16782402), (CHR ''e'', 3498755),
        (CHR ''a'', 2176843), (CHR ''n'', 111791)]),
     (''be'', [(CHR ''r'', 2137607409), (CHR ''e'', 1681334956), (CHR ''c'', 1241283828),
        (CHR ''t'', 1118138791), (CHR ''l'', 842223417), (CHR ''i'', 674600786), (CHR ''f'', 616672761),
        (CHR ''a'', 499568023), (CHR ''s'', 474711276), (CHR ''g'', 458610233), (CHR ''n'', 377600045),
        (CHR ''h'', 366883480), (CHR ''d'', 363573764), (CHR ''y'', 152056080), (CHR ''v'', 14455233),
        (CHR ''w'', 12527837), (CHR ''q'', 6169679), (CHR ''z'', 3901173), (CHR ''m'', 3314498),
        (CHR ''k'', 2894045), (CHR ''o'', 1892336), (CHR ''u'', 1433287), (CHR ''b'', 672843),
        (CHR ''x'', 577698), (CHR ''p'', 262931), (CHR ''j'', 114199)]),
     (''bf'', [(CHR ''a'', 804861), (CHR ''o'', 739719), (CHR ''i'', 348751), (CHR ''u'', 176657),
        (CHR ''l'', 112634)]),
     (''bg'', [(CHR ''r'', 4433978), (CHR ''e'', 423419), (CHR ''o'', 315253), (CHR ''l'', 255693),
        (CHR ''c'', 202352), (CHR ''i'', 116600)]),
     (''bh'', [(CHR ''a'', 15750280), (CHR ''o'', 5679372), (CHR ''u'', 2728359), (CHR ''i'', 1200597),
        (CHR ''e'', 1140593), (CHR ''b'', 250528)]),
     (''bi'', [(CHR ''l'', 922936654), (CHR ''t'', 463413762), (CHR ''n'', 405730459), (CHR ''o'', 184460150),
        (CHR ''r'', 177768774), (CHR ''d'', 122084614), (CHR ''a'', 120856232), (CHR ''s'', 111069412),
        (CHR ''b'', 85399672), (CHR ''c'', 55657507), (CHR ''g'', 52055724), (CHR ''e'', 38167612),
        (CHR ''v'', 9546329), (CHR ''k'', 6138661), (CHR ''q'', 5715748), (CHR ''p'', 5492814),
        (CHR ''u'', 5049178), (CHR ''z'', 4656545), (CHR ''f'', 3975015), (CHR ''h'', 3145661),
        (CHR ''m'', 2677940), (CHR ''j'', 750435), (CHR ''i'', 654006), (CHR ''w'', 439709),
        (CHR ''x'', 208189)]),
     (''bj'', [(CHR ''e'', 643845268), (CHR ''u'', 4882097), (CHR ''o'', 1571190), (CHR ''a'', 309456)]),
     (''bk'', [(CHR ''n'', 283670), (CHR ''i'', 116778), (CHR ''h'', 108258)])]"

definition ngrams_b2 :: "(string \<times> (char \<times> nat) list) list" where
  "ngrams_b2 =
    [(''bl'', [(CHR ''e'', 3873734031), (CHR ''i'', 1279029992), (CHR ''y'', 497943485), (CHR ''a'', 415361868),
        (CHR ''o'', 373025429), (CHR ''u'', 127208905), (CHR ''v'', 1448201), (CHR ''d'', 1291356),
        (CHR ''j'', 374677), (CHR ''s'', 122290)]),
     (''bm'', [(CHR ''i'', 54987549), (CHR ''a'', 10853605), (CHR ''e'', 6452103), (CHR ''s'', 1381736),
        (CHR ''u'', 905622), (CHR ''o'', 119674)]),
     (''bn'', [(CHR ''o'', 28438291), (CHR ''e'', 8259067), (CHR ''i'', 3402680), (CHR ''a'', 1105053)]),
     (''bo'', [(CHR ''u'', 1470867313), (CHR ''t'', 689221869), (CHR ''r'', 668075411), (CHR ''o'', 512843855),
        (CHR ''d'', 461312854), (CHR ''n'', 280311356), (CHR ''a'', 270239603), (CHR ''v'', 262079202),
        (CHR ''l'', 222937178), (CHR ''s'', 94356099), (CHR ''y'', 91321490), (CHR ''w'', 74701825),
        (CHR ''m'', 49462831), (CHR ''i'', 43409365), (CHR ''x'', 29918282), (CHR ''h'', 18345972),
        (CHR ''e'', 10339424), (CHR ''b'', 9876292), (CHR ''g'', 8023710), (CHR ''c'', 6340043),
        (CHR ''k'', 2210442), (CHR ''p'', 1758504), (CHR ''f'', 1146652), (CHR ''z'', 533962),
        (CHR ''j'', 154035)]),
     (''bp'', [(CHR ''o'', 2490616), (CHR ''a'', 1897434), (CHR ''r'', 1149535), (CHR ''s'', 1130424),
        (CHR ''l'', 296325), (CHR ''e'', 207498), (CHR ''h'', 106501)]),
     (''bq'', [(CHR ''u'', 116657)]),
     (''br'', [(CHR ''i'', 943471819), (CHR ''o'', 786277414), (CHR ''a'', 711371314), (CHR ''e'', 490656364),
        (CHR ''u'', 170628163), (CHR ''y'', 28333204), (CHR ''d'', 473722), (CHR ''z'', 372695),
        (CHR ''n'', 323218)]),
     (''bs'', [(CHR ''e'', 462707743), (CHR ''t'', 320971837), (CHR ''o'', 162960428), (CHR ''c'', 62366461),
        (CHR ''i'', 54937661), (CHR ''u'', 20319287), (CHR ''y'', 4043390), (CHR ''p'', 3284542),
        (CHR ''b'', 2015609), (CHR ''a'', 1874034), (CHR ''h'', 427732), (CHR ''q'', 169254),
        (CHR ''k'', 128012)]),
     (''bt'', [(CHR ''a'', 191536332), (CHR ''e'', 47593904), (CHR ''l'', 35161544), (CHR ''s'', 25295647),
        (CHR ''f'', 13691446), (CHR ''r'', 13602357), (CHR ''o'', 12111597), (CHR ''i'', 4576129),
        (CHR ''u'', 2056163), (CHR ''y'', 1896839), (CHR ''h'', 270370)]),
     (''bu'', [(CHR ''t'', 495710793), (CHR ''r'', 472099314), (CHR ''s'', 427926311), (CHR ''i'', 335121284),
        (CHR ''l'', 201844579), (CHR ''n'', 103029074), (CHR ''d'', 94336617), (CHR ''c'', 49066720),
        (CHR ''y'', 40502690), (CHR ''f'', 34936721), (CHR ''m'', 21097778), (CHR ''b'', 14328992),
        (CHR ''g'', 10873251), (CHR ''e'', 10382133), (CHR ''k'', 6370001), (CHR ''o'', 6285764),
        (CHR ''z'', 5326983), (CHR ''q'', 2705907), (CHR ''h'', 1721716), (CHR ''x'', 1198952),
        (CHR ''p'', 809417), (CHR ''j'', 173398), (CHR ''a'', 126372)]),
     (''bv'', [(CHR ''i'', 93198288), (CHR ''e'', 8691555), (CHR ''r'', 774030)]),
     (''bw'', [(CHR ''e'', 4212748), (CHR ''a'', 3177136), (CHR ''o'', 148375)])]"

definition ngrams_b3 :: "(string \<times> (char \<times> nat) list) list" where
  "ngrams_b3 =
    [(''by'', [(CHR ''t'', 19560232), (CHR ''r'', 14104779), (CHR ''l'', 12247463), (CHR ''s'', 9708470),
        (CHR ''z'', 7422585), (CHR ''p'', 6285965), (CHR ''e'', 5339278), (CHR ''i'', 4279294),
        (CHR ''a'', 4058488), (CHR ''g'', 1233913), (CHR ''n'', 1043600), (CHR ''w'', 724863),
        (CHR ''v'', 721226), (CHR ''d'', 302583), (CHR ''h'', 230860), (CHR ''b'', 166061),
        (CHR ''x'', 128394), (CHR ''o'', 116090)]),
     (''bz'', [(CHR ''h'', 208154), (CHR ''o'', 121127)])]"

definition ngrams_c1 :: "(string \<times> (char \<times> nat) list) list" where
  "ngrams_c1 =
    [(''ca'', [(CHR ''l'', 3900972297), (CHR ''t'', 2143789914), (CHR ''r'', 1376589940),
        (CHR ''n'', 1279477980), (CHR ''s'', 1114669341), (CHR ''u'', 1077830852),
        (CHR ''m'', 780706358), (CHR ''p'', 688071316), (CHR ''d'', 183388024), (CHR ''b'', 151217633),
        (CHR ''v'', 88777674), (CHR ''g'', 68041387), (CHR ''c'', 39456838), (CHR ''i'', 30933248),
        (CHR ''y'', 23392438), (CHR ''e'', 16990988), (CHR ''f'', 15754866), (CHR ''k'', 15540095),
        (CHR ''h'', 4755900), (CHR ''o'', 2636829), (CHR ''j'', 2200996), (CHR ''w'', 1504939),
        (CHR ''a'', 773874), (CHR ''x'', 729481), (CHR ''q'', 614928), (CHR ''z'', 244815)]),
     (''cb'', [(CHR ''e'', 2998019), (CHR ''r'', 1159713), (CHR ''m'', 587820), (CHR ''s'', 585946),
        (CHR ''a'', 226935), (CHR ''u'', 128230), (CHR ''f'', 110760), (CHR ''o'', 101568)]),
     (''cc'', [(CHR ''o'', 724991418), (CHR ''e'', 697861268), (CHR ''u'', 563416109), (CHR ''a'', 178410014),
        (CHR ''i'', 80315482), (CHR ''l'', 39414133), (CHR ''r'', 17464768), (CHR ''h'', 9866492),
        (CHR ''t'', 498646), (CHR ''y'', 470845), (CHR ''p'', 403445), (CHR ''d'', 100465)]),
     (''cd'', [(CHR ''o'', 23538275), (CHR ''n'', 1579947), (CHR ''y'', 1323518), (CHR ''e'', 925601),
        (CHR ''a'', 465448), (CHR ''u'', 436748), (CHR ''m'', 401422), (CHR ''i'', 309431),
        (CHR ''d'', 229041), (CHR ''t'', 170254), (CHR ''r'', 164952), (CHR ''s'', 100465)]),
     (''ce'', [(CHR ''s'', 3142249876), (CHR ''n'', 1782968652), (CHR ''d'', 1216441942),
        (CHR ''r'', 1184730065), (CHR ''p'', 760954194), (CHR ''l'', 547341647), (CHR ''i'', 424487923),
        (CHR ''e'', 240445941), (CHR ''m'', 236123585), (CHR ''a'', 148203433), (CHR ''t'', 66798627),
        (CHR ''f'', 44890748), (CHR ''c'', 11751045), (CHR ''y'', 10528790), (CHR ''o'', 9327948),
        (CHR ''u'', 8823215), (CHR ''b'', 6630642), (CHR ''k'', 1901387), (CHR ''w'', 1814205),
        (CHR ''h'', 1695105), (CHR ''v'', 1322273), (CHR ''z'', 1052527), (CHR ''g'', 816339)]),
     (''cf'', [(CHR ''a'', 2442022), (CHR ''t'', 456650), (CHR ''c'', 392322), (CHR ''s'', 159283)]),
     (''cg'', [(CHR ''r'', 10746382), (CHR ''i'', 2441371), (CHR ''o'', 1612392), (CHR ''u'', 1510369),
        (CHR ''e'', 1243252), (CHR ''a'', 374013), (CHR ''m'', 300139), (CHR ''h'', 226073),
        (CHR ''l'', 108048)]),
     (''ch'', [(CHR ''a'', 2936574762), (CHR ''i'', 1967209483), (CHR ''e'', 1870653013),
        (CHR ''o'', 1109360118), (CHR ''r'', 466690811), (CHR ''u'', 374630133), (CHR ''n'', 317663907),
        (CHR ''m'', 90205730), (CHR ''l'', 68292215), (CHR ''y'', 52091209), (CHR ''t'', 43599791),
        (CHR ''s'', 21153087), (CHR ''b'', 17731567), (CHR ''w'', 17646737), (CHR ''f'', 6769904),
        (CHR ''d'', 6201498), (CHR ''c'', 5823447), (CHR ''h'', 1611597), (CHR ''k'', 1081166),
        (CHR ''g'', 438904), (CHR ''p'', 315915), (CHR ''z'', 142051)])]"

definition ngrams_c2 :: "(string \<times> (char \<times> nat) list) list" where
  "ngrams_c2 =
    [(''ci'', [(CHR ''a'', 1868362773), (CHR ''e'', 1273028165), (CHR ''t'', 917483520), (CHR ''p'', 619146443),
        (CHR ''s'', 594654269), (CHR ''n'', 509294888), (CHR ''d'', 445782131), (CHR ''l'', 327326550),
        (CHR ''f'', 323255403), (CHR ''r'', 320309629), (CHR ''o'', 302892051), (CHR ''v'', 178990006),
        (CHR ''m'', 47309382), (CHR ''u'', 27378819), (CHR ''z'', 21052153), (CHR ''b'', 21048209),
        (CHR ''g'', 19735850), (CHR ''c'', 17825398), (CHR ''i'', 1988084), (CHR ''q'', 915537),
        (CHR ''x'', 291731), (CHR ''j'', 106196)]),
     (''ck'', [(CHR ''e'', 498365777), (CHR ''s'', 319297278), (CHR ''i'', 163090370), (CHR ''l'', 148081313),
        (CHR ''n'', 105546049), (CHR ''g'', 53929273), (CHR ''y'', 52236688), (CHR ''a'', 50032192),
        (CHR ''w'', 38681851), (CHR ''o'', 22078274), (CHR ''h'', 21076441), (CHR ''b'', 13811726),
        (CHR ''m'', 8707396), (CHR ''u'', 8613411), (CHR ''p'', 7827045), (CHR ''t'', 6888628),
        (CHR ''f'', 4404008), (CHR ''d'', 3123296), (CHR ''r'', 2128913), (CHR ''v'', 1396525),
        (CHR ''c'', 1140460), (CHR ''j'', 526753), (CHR ''k'', 262687), (CHR ''x'', 121054)]),
     (''cl'', [(CHR ''e'', 1202251509), (CHR ''a'', 1040739651), (CHR ''u'', 828820014), (CHR ''o'', 615714254),
        (CHR ''i'', 473109855), (CHR ''y'', 17727043), (CHR ''n'', 1269661), (CHR ''c'', 856485),
        (CHR ''v'', 293877), (CHR ''s'', 172183), (CHR ''b'', 157484)]),
     (''cm'', [(CHR ''i'', 13751619), (CHR ''a'', 2637208), (CHR ''e'', 1630317), (CHR ''u'', 1055549),
        (CHR ''o'', 1017617), (CHR ''p'', 636561), (CHR ''n'', 336661), (CHR ''y'', 191535),
        (CHR ''l'', 125982), (CHR ''c'', 117521)]),
     (''cn'', [(CHR ''i'', 4628843), (CHR ''a'', 4447141), (CHR ''e'', 3786061), (CHR ''u'', 607767),
        (CHR ''r'', 351015), (CHR ''c'', 123143), (CHR ''o'', 122393)]),
     (''co'', [(CHR ''n'', 8047371668), (CHR ''m'', 5499043108), (CHR ''u'', 3131508280),
        (CHR ''r'', 1488816535), (CHR ''l'', 1282286447), (CHR ''v'', 451104788), (CHR ''s'', 356652217),
        (CHR ''p'', 297882836), (CHR ''o'', 247148400), (CHR ''a'', 245582271), (CHR ''g'', 225834364),
        (CHR ''t'', 176239408), (CHR ''d'', 124929108), (CHR ''h'', 86466966), (CHR ''i'', 79411617),
        (CHR ''c'', 73987706), (CHR ''e'', 60883165), (CHR ''w'', 59057153), (CHR ''b'', 45252888),
        (CHR ''f'', 41415126), (CHR ''k'', 8501795), (CHR ''y'', 6062813), (CHR ''x'', 4114694),
        (CHR ''z'', 1624189), (CHR ''q'', 1018485)]),
     (''cp'', [(CHR ''h'', 3031418), (CHR ''a'', 877386), (CHR ''s'', 775882), (CHR ''u'', 275150),
        (CHR ''o'', 218873), (CHR ''r'', 133115), (CHR ''l'', 110342)]),
     (''cq'', [(CHR ''u'', 153229589)]),
     (''cr'', [(CHR ''e'', 1602759420), (CHR ''i'', 1149810339), (CHR ''o'', 663203494), (CHR ''a'', 451438201),
        (CHR ''u'', 214950075), (CHR ''y'', 80791120), (CHR ''s'', 572636), (CHR ''c'', 321992),
        (CHR ''p'', 124570), (CHR ''t'', 104034)]),
     (''cs'', [(CHR ''t'', 6361175), (CHR ''i'', 4252628), (CHR ''o'', 2595628), (CHR ''c'', 874206),
        (CHR ''s'', 614877), (CHR ''e'', 553602), (CHR ''m'', 192632), (CHR ''h'', 118701),
        (CHR ''d'', 114426)])]"

definition ngrams_c3 :: "(string \<times> (char \<times> nat) list) list" where
  "ngrams_c3 =
    [(''ct'', [(CHR ''i'', 4965104461), (CHR ''e'', 1357083503), (CHR ''u'', 972918524), (CHR ''o'', 959116623),
        (CHR ''s'', 936845479), (CHR ''r'', 357740473), (CHR ''l'', 248314517), (CHR ''a'', 231111629),
        (CHR ''m'', 14394279), (CHR ''n'', 9979945), (CHR ''f'', 9235542), (CHR ''h'', 1886654),
        (CHR ''y'', 596927), (CHR ''w'', 228098), (CHR ''v'', 210834), (CHR ''b'', 111402)]),
     (''cu'', [(CHR ''l'', 1622357340), (CHR ''r'', 1128707968), (CHR ''s'', 647583276), (CHR ''t'', 320801061),
        (CHR ''m'', 311543494), (CHR ''p'', 162736011), (CHR ''i'', 64398681), (CHR ''b'', 55011141),
        (CHR ''e'', 27608476), (CHR ''n'', 22608761), (CHR ''o'', 19881839), (CHR ''a'', 14971715),
        (CHR ''u'', 12661400), (CHR ''f'', 5497129), (CHR ''c'', 4373196), (CHR ''d'', 3570277),
        (CHR ''z'', 1137999), (CHR ''v'', 1035931), (CHR ''y'', 551039), (CHR ''j'', 350700),
        (CHR ''k'', 153037)]),
     (''cv'', [(CHR ''e'', 326889), (CHR ''i'', 219475)]),
     (''cw'', [(CHR ''i'', 353018), (CHR ''t'', 190850), (CHR ''h'', 123443)]),
     (''cx'', [(CHR ''i'', 119182)]),
     (''cy'', [(CHR ''c'', 103924725), (CHR ''t'', 51012360), (CHR ''l'', 28053575), (CHR ''s'', 15150143),
        (CHR ''n'', 9576527), (CHR ''p'', 9259737), (CHR ''a'', 6948847), (CHR ''r'', 6418492),
        (CHR ''m'', 4549795), (CHR ''b'', 3659943), (CHR ''d'', 1545992), (CHR ''h'', 775582),
        (CHR ''o'', 535801), (CHR ''g'', 503014), (CHR ''i'', 356745), (CHR ''x'', 329236),
        (CHR ''e'', 106342), (CHR ''z'', 103695)]),
     (''cz'', [(CHR ''e'', 15543214), (CHR ''a'', 3264055), (CHR ''i'', 305011), (CHR ''y'', 113552)])]"

definition ngrams_d1 :: "(string \<times> (char \<times> nat) list) list" where
  "ngrams_d1 =
    [(''da'', [(CHR ''t'', 762209251), (CHR ''y'', 559052310), (CHR ''r'', 553901215), (CHR ''n'', 523386385),
        (CHR ''m'', 283767016), (CHR ''l'', 136707756), (CHR ''v'', 122815561), (CHR ''i'', 119041359),
        (CHR ''u'', 94160633), (CHR ''p'', 73449434), (CHR ''b'', 42462650), (CHR ''s'', 38923871),
        (CHR ''g'', 29296043), (CHR ''w'', 25461677), (CHR ''c'', 23605027), (CHR ''d'', 23020769),
        (CHR ''h'', 15804543), (CHR ''k'', 9880046), (CHR ''z'', 8407724), (CHR ''e'', 3806278),
        (CHR ''f'', 2020398), (CHR ''o'', 492685), (CHR ''q'', 480617), (CHR ''j'', 219984)]),
     (''db'', [(CHR ''a'', 22421221), (CHR ''o'', 18659455), (CHR ''e'', 9168928), (CHR ''y'', 4726762),
        (CHR ''u'', 4573591), (CHR ''i'', 3978865), (CHR ''r'', 2363040), (CHR ''l'', 1608083),
        (CHR ''m'', 1117610), (CHR ''c'', 665806)]),
     (''dc'', [(CHR ''a'', 25013480), (CHR ''h'', 5707251), (CHR ''u'', 3544738), (CHR ''o'', 2671361),
        (CHR ''l'', 2362797), (CHR ''s'', 1023916), (CHR ''r'', 483783), (CHR ''e'', 319495),
        (CHR ''c'', 193444), (CHR ''i'', 103235)]),
     (''dd'', [(CHR ''e'', 345850942), (CHR ''i'', 325191126), (CHR ''l'', 181986562), (CHR ''r'', 126207948),
        (CHR ''h'', 32319005), (CHR ''y'', 30955021), (CHR ''s'', 25739877), (CHR ''a'', 15366601),
        (CHR ''o'', 6413969), (CHR ''u'', 6097158), (CHR ''m'', 377167), (CHR ''b'', 117318),
        (CHR ''n'', 109462)]),
     (''de'', [(CHR ''r'', 4193810336), (CHR ''n'', 2407890586), (CHR ''s'', 1990670621),
        (CHR ''d'', 1927329229), (CHR ''a'', 997079259), (CHR ''c'', 918864282), (CHR ''p'', 872444860),
        (CHR ''v'', 856433306), (CHR ''l'', 800495204), (CHR ''f'', 699229629), (CHR ''m'', 627168840),
        (CHR ''t'', 601310328), (CHR ''e'', 399320513), (CHR ''g'', 193380287), (CHR ''b'', 168019020),
        (CHR ''x'', 79164957), (CHR ''o'', 76260516), (CHR ''q'', 76175772), (CHR ''u'', 31759358),
        (CHR ''i'', 22989970), (CHR ''w'', 20143305), (CHR ''h'', 13108410), (CHR ''z'', 8369842),
        (CHR ''k'', 3388970), (CHR ''j'', 2562914), (CHR ''y'', 832398)]),
     (''df'', [(CHR ''u'', 22895600), (CHR ''a'', 22199058), (CHR ''o'', 14611388), (CHR ''i'', 5737644),
        (CHR ''r'', 2630747), (CHR ''l'', 1004781), (CHR ''e'', 848566), (CHR ''s'', 114307)]),
     (''dg'', [(CHR ''e'', 730833728), (CHR ''m'', 88622466), (CHR ''i'', 30656323), (CHR ''a'', 7680231),
        (CHR ''w'', 3302829), (CHR ''r'', 2325141), (CHR ''k'', 1907678), (CHR ''s'', 1626480),
        (CHR ''l'', 1223279), (CHR ''u'', 1072877), (CHR ''y'', 793170), (CHR ''f'', 243150),
        (CHR ''o'', 107229)]),
     (''dh'', [(CHR ''e'', 39216187), (CHR ''o'', 35076237), (CHR ''i'', 34751365), (CHR ''a'', 27676673),
        (CHR ''u'', 3271342), (CHR ''y'', 2175846), (CHR ''r'', 1976087), (CHR ''d'', 1383789),
        (CHR ''c'', 736870), (CHR ''p'', 366454), (CHR ''h'', 230685), (CHR ''s'', 215067),
        (CHR ''v'', 130188)])]"

definition ngrams_d2 :: "(string \<times> (char \<times> nat) list) list" where
  "ngrams_d2 =
    [(''di'', [(CHR ''s'', 2765273749), (CHR ''n'', 2659279020), (CHR ''t'', 1280393700),
        (CHR ''a'', 1096001710), (CHR ''f'', 1093521116), (CHR ''c'', 983523730), (CHR ''e'', 760305456),
        (CHR ''v'', 744599393), (CHR ''r'', 580659210), (CHR ''o'', 193729815), (CHR ''m'', 153871647),
        (CHR ''g'', 153296138), (CHR ''l'', 136764397), (CHR ''u'', 117007027), (CHR ''d'', 80131643),
        (CHR ''p'', 55540090), (CHR ''x'', 39772344), (CHR ''b'', 36108959), (CHR ''z'', 35835057),
        (CHR ''k'', 4136193), (CHR ''i'', 3596753), (CHR ''j'', 1466870), (CHR ''w'', 1348667),
        (CHR ''h'', 1152432), (CHR ''q'', 520028)]),
     (''dj'', [(CHR ''u'', 87668527), (CHR ''a'', 19421925), (CHR ''o'', 13983659), (CHR ''e'', 8946524),
        (CHR ''i'', 881977)]),
     (''dk'', [(CHR ''e'', 5413844), (CHR ''a'', 1888825), (CHR ''i'', 844270)]),
     (''dl'', [(CHR ''e'', 401217661), (CHR ''y'', 383625855), (CHR ''i'', 69823313), (CHR ''o'', 21316924),
        (CHR ''a'', 20242069), (CHR ''u'', 1085756), (CHR ''l'', 286516), (CHR ''c'', 271802),
        (CHR ''p'', 138575), (CHR ''s'', 119482)]),
     (''dm'', [(CHR ''i'', 375211375), (CHR ''e'', 53523809), (CHR ''a'', 39187790), (CHR ''o'', 26059717),
        (CHR ''u'', 8579598), (CHR ''s'', 542397)]),
     (''dn'', [(CHR ''e'', 145040484), (CHR ''i'', 14052030), (CHR ''a'', 12393271), (CHR ''o'', 2008499),
        (CHR ''u'', 1142548), (CHR ''f'', 111791), (CHR ''y'', 110338), (CHR ''l'', 106922)]),
     (''do'', [(CHR ''w'', 712173314), (CHR ''n'', 642867415), (CHR ''m'', 545043026), (CHR ''e'', 433295497),
        (CHR ''u'', 321262316), (CHR ''c'', 293979542), (CHR ''r'', 181633165), (CHR ''o'', 174539964),
        (CHR ''l'', 168774957), (CHR ''p'', 119985008), (CHR ''i'', 118416474), (CHR ''s'', 68656157),
        (CHR ''g'', 46922923), (CHR ''t'', 42597883), (CHR ''x'', 38558202), (CHR ''z'', 30700157),
        (CHR ''v'', 16468808), (CHR ''d'', 13430363), (CHR ''b'', 6416338), (CHR ''y'', 3211032),
        (CHR ''a'', 2250206), (CHR ''f'', 1561495), (CHR ''h'', 1303572), (CHR ''k'', 1034540)]),
     (''dp'', [(CHR ''o'', 14260333), (CHR ''a'', 8621060), (CHR ''e'', 2205667), (CHR ''i'', 1613420),
        (CHR ''l'', 1319786), (CHR ''h'', 907567), (CHR ''r'', 472943), (CHR ''u'', 106778)]),
     (''dq'', [(CHR ''u'', 19515722)]),
     (''dr'', [(CHR ''e'', 929597725), (CHR ''a'', 542839118), (CHR ''i'', 362611349), (CHR ''o'', 309568265),
        (CHR ''u'', 144298089), (CHR ''y'', 32080884), (CHR ''s'', 327005), (CHR ''z'', 281584),
        (CHR ''g'', 125410)]),
     (''ds'', [(CHR ''o'', 66114722), (CHR ''h'', 62925714), (CHR ''t'', 58920011), (CHR ''c'', 29755226),
        (CHR ''w'', 10504930), (CHR ''m'', 8576528), (CHR ''i'', 8535084), (CHR ''e'', 6274735),
        (CHR ''p'', 4126562), (CHR ''a'', 3811013), (CHR ''l'', 2987480), (CHR ''u'', 2272457),
        (CHR ''k'', 1192549), (CHR ''b'', 723366), (CHR ''d'', 342239), (CHR ''r'', 113172),
        (CHR ''v'', 112594), (CHR ''s'', 103164)])]"

definition ngrams_d3 :: "(string \<times> (char \<times> nat) list) list" where
  "ngrams_d3 =
    [(''dt'', [(CHR ''h'', 41784649), (CHR ''a'', 1906938), (CHR ''i'', 1697333), (CHR ''e'', 1464545),
        (CHR ''r'', 536841), (CHR ''o'', 531228), (CHR ''l'', 464580), (CHR ''v'', 401127),
        (CHR ''s'', 244591), (CHR ''p'', 183898), (CHR ''y'', 118196)]),
     (''du'', [(CHR ''c'', 1817485860), (CHR ''r'', 667461719), (CHR ''a'', 461509535), (CHR ''s'', 327402741),
        (CHR ''l'', 253349395), (CHR ''t'', 155362372), (CHR ''n'', 44223486), (CHR ''m'', 44188228),
        (CHR ''k'', 43800340), (CHR ''e'', 37628024), (CHR ''b'', 25401290), (CHR ''p'', 23366119),
        (CHR ''o'', 11331130), (CHR ''i'', 8558785), (CHR ''d'', 5025701), (CHR ''f'', 4566660),
        (CHR ''g'', 2507271), (CHR ''v'', 1784733), (CHR ''q'', 730054), (CHR ''h'', 553722),
        (CHR ''u'', 456641), (CHR ''x'', 340686), (CHR ''y'', 122921), (CHR ''j'', 119583),
        (CHR ''z'', 105300)]),
     (''dv'', [(CHR ''a'', 261336753), (CHR ''e'', 124882983), (CHR ''i'', 107036317), (CHR ''o'', 37733112),
        (CHR ''d'', 308184)]),
     (''dw'', [(CHR ''a'', 100123356), (CHR ''i'', 61034549), (CHR ''e'', 46589828), (CHR ''o'', 13829877),
        (CHR ''r'', 5016158), (CHR ''y'', 1031622), (CHR ''h'', 180151)]),
     (''dy'', [(CHR ''n'', 81214816), (CHR ''i'', 46386927), (CHR ''s'', 30062228), (CHR ''e'', 10840907),
        (CHR ''l'', 7709716), (CHR ''a'', 4516519), (CHR ''k'', 3502868), (CHR ''m'', 2197722),
        (CHR ''c'', 2010433), (CHR ''g'', 1450100), (CHR ''w'', 504595), (CHR ''b'', 292955),
        (CHR ''t'', 192096)]),
     (''dz'', [(CHR ''e'', 811252), (CHR ''i'', 223779), (CHR ''o'', 139524), (CHR ''u'', 114018)])]"

definition ngrams_e1 :: "(string \<times> (char \<times> nat) list) list" where
  "ngrams_e1 =
    [(''ea'', [(CHR ''r'', 4536453829), (CHR ''s'', 2978413614), (CHR ''t'', 2879985235),
        (CHR ''d'', 2059983679), (CHR ''l'', 1576244641), (CHR ''c'', 1480899589),
        (CHR ''n'', 1110766080), (CHR ''k'', 533819143), (CHR ''v'', 488907405), (CHR ''m'', 382095011),
        (CHR ''u'', 236553298), (CHR ''g'', 137789200), (CHR ''p'', 119860270), (CHR ''b'', 76515710),
        (CHR ''f'', 74531254), (CHR ''h'', 13165962), (CHR ''w'', 6448438), (CHR ''e'', 1892935),
        (CHR ''z'', 1278516), (CHR ''y'', 162702)]),
     (''eb'', [(CHR ''r'', 202392419), (CHR ''e'', 105329480), (CHR ''a'', 98256021), (CHR ''t'', 74572074),
        (CHR ''y'', 59445771), (CHR ''o'', 46503926), (CHR ''u'', 36970514), (CHR ''l'', 23898853),
        (CHR ''s'', 20022519), (CHR ''b'', 17521418), (CHR ''i'', 16781381), (CHR ''n'', 934506),
        (CHR ''v'', 774030), (CHR ''h'', 340566), (CHR ''m'', 318938), (CHR ''k'', 283670),
        (CHR ''c'', 128816)]),
     (''ec'', [(CHR ''t'', 5632075916), (CHR ''o'', 1979809312), (CHR ''i'', 1414091861),
        (CHR ''e'', 1235807189), (CHR ''a'', 995541453), (CHR ''h'', 620070347), (CHR ''u'', 587768418),
        (CHR ''r'', 336233160), (CHR ''k'', 248711311), (CHR ''l'', 218505261), (CHR ''c'', 40494761),
        (CHR ''y'', 21194693), (CHR ''d'', 13270555), (CHR ''s'', 9495818), (CHR ''z'', 1432550),
        (CHR ''q'', 415497), (CHR ''n'', 145003), (CHR ''b'', 101951)]),
     (''ed'', [(CHR ''i'', 1450957769), (CHR ''u'', 764764019), (CHR ''e'', 551532121), (CHR ''g'', 384410968),
        (CHR ''s'', 269470512), (CHR ''o'', 152067387), (CHR ''l'', 132919621), (CHR ''a'', 79277856),
        (CHR ''y'', 72884337), (CHR ''d'', 71365407), (CHR ''w'', 63769978), (CHR ''r'', 59613451),
        (CHR ''n'', 35735580), (CHR ''m'', 24146623), (CHR ''b'', 18345264), (CHR ''f'', 9458934),
        (CHR ''t'', 4645329), (CHR ''h'', 1879724), (CHR ''c'', 1580777), (CHR ''k'', 664962),
        (CHR ''v'', 453270), (CHR ''p'', 428821)]),
     (''ee'', [(CHR ''n'', 3148204679), (CHR ''d'', 1437410151), (CHR ''t'', 730208815), (CHR ''m'', 609798272),
        (CHR ''p'', 576904972), (CHR ''l'', 474497457), (CHR ''k'', 405191587), (CHR ''s'', 350473750),
        (CHR ''r'', 332165945), (CHR ''c'', 130545667), (CHR ''i'', 61794528), (CHR ''z'', 38207091),
        (CHR ''f'', 21841175), (CHR ''a'', 18001198), (CHR ''v'', 15453943), (CHR ''b'', 13758235),
        (CHR ''e'', 6680144), (CHR ''h'', 5656677), (CHR ''w'', 3956327), (CHR ''x'', 3339370),
        (CHR ''g'', 996639), (CHR ''u'', 900692), (CHR ''o'', 808828), (CHR ''q'', 335390),
        (CHR ''y'', 192520)]),
     (''ef'', [(CHR ''o'', 1016116936), (CHR ''f'', 876465960), (CHR ''e'', 701627863), (CHR ''i'', 547765886),
        (CHR ''u'', 395242650), (CHR ''t'', 333487146), (CHR ''l'', 215983355), (CHR ''a'', 61873563),
        (CHR ''r'', 55776395), (CHR ''s'', 51370514), (CHR ''y'', 4527750), (CHR ''c'', 1407320),
        (CHR ''d'', 560881), (CHR ''n'', 212739), (CHR ''k'', 180181), (CHR ''w'', 172562)]),
     (''eg'', [(CHR ''i'', 827295919), (CHR ''a'', 801222020), (CHR ''r'', 417456260), (CHR ''e'', 373252036),
        (CHR ''u'', 293664646), (CHR ''o'', 204925626), (CHR ''y'', 103704137), (CHR ''g'', 61012273),
        (CHR ''l'', 60016115), (CHR ''n'', 42629907), (CHR ''m'', 42016539), (CHR ''s'', 37334405),
        (CHR ''h'', 4273666), (CHR ''f'', 2255415), (CHR ''t'', 953608), (CHR ''b'', 621516)])]"

definition ngrams_e2 :: "(string \<times> (char \<times> nat) list) list" where
  "ngrams_e2 =
    [(''eh'', [(CHR ''a'', 253831494), (CHR ''i'', 166277546), (CHR ''o'', 139083330), (CHR ''e'', 125612207),
        (CHR ''r'', 15955887), (CHR ''y'', 11420497), (CHR ''m'', 4242211), (CHR ''u'', 3581436),
        (CHR ''l'', 1981071), (CHR ''t'', 1972159), (CHR ''n'', 1277479), (CHR ''s'', 184043),
        (CHR ''d'', 148346), (CHR ''c'', 126556), (CHR ''p'', 114964)]),
     (''ei'', [(CHR ''r'', 2203791189), (CHR ''n'', 1044886238), (CHR ''g'', 737456312), (CHR ''t'', 411004145),
        (CHR ''v'', 382092120), (CHR ''s'', 75472407), (CHR ''l'', 62142543), (CHR ''z'', 43220194),
        (CHR ''d'', 33254930), (CHR ''c'', 26199432), (CHR ''m'', 25800089), (CHR ''p'', 25362933),
        (CHR ''b'', 7066451), (CHR ''j'', 7063529), (CHR ''f'', 6944703), (CHR ''a'', 5402048),
        (CHR ''k'', 4287795), (CHR ''e'', 3209478), (CHR ''o'', 2329980), (CHR ''u'', 1668998),
        (CHR ''i'', 1470085), (CHR ''h'', 851293), (CHR ''x'', 591981), (CHR ''y'', 154011)]),
     (''ej'', [(CHR ''e'', 69947817), (CHR ''u'', 29741424), (CHR ''o'', 20005040), (CHR ''a'', 4496996),
        (CHR ''i'', 885941), (CHR ''m'', 228492)]),
     (''ek'', [(CHR ''s'', 109725470), (CHR ''i'', 47507001), (CHR ''e'', 30313132), (CHR ''l'', 20906520),
        (CHR ''a'', 3989222), (CHR ''k'', 2180466), (CHR ''h'', 2100563), (CHR ''n'', 1954534),
        (CHR ''d'', 1348207), (CHR ''o'', 973933), (CHR ''t'', 971646), (CHR ''y'', 824547),
        (CHR ''m'', 727437), (CHR ''b'', 721440), (CHR ''r'', 125589), (CHR ''u'', 113987)]),
     (''el'', [(CHR ''l'', 2559296895), (CHR ''y'', 1749161395), (CHR ''e'', 1594036515),
        (CHR ''i'', 1571347766), (CHR ''a'', 1148898969), (CHR ''f'', 1071202432),
        (CHR ''o'', 1001713327), (CHR ''d'', 685166184), (CHR ''s'', 617044182), (CHR ''p'', 367036139),
        (CHR ''v'', 355181363), (CHR ''t'', 298646113), (CHR ''u'', 55561496), (CHR ''m'', 55397529),
        (CHR ''c'', 45004427), (CHR ''b'', 31175066), (CHR ''g'', 24458641), (CHR ''h'', 16778809),
        (CHR ''r'', 7306056), (CHR ''k'', 3810634), (CHR ''w'', 3623010), (CHR ''q'', 2235808),
        (CHR ''n'', 1959070), (CHR ''z'', 1045143), (CHR ''j'', 208966)]),
     (''em'', [(CHR ''e'', 2455707075), (CHR ''p'', 1300780013), (CHR ''b'', 1033996625),
        (CHR ''a'', 990671865), (CHR ''s'', 813818363), (CHR ''o'', 807109803), (CHR ''i'', 660464647),
        (CHR ''y'', 101562290), (CHR ''n'', 65995925), (CHR ''m'', 38485213), (CHR ''u'', 25435848),
        (CHR ''l'', 4927568), (CHR ''k'', 656239), (CHR ''f'', 500941), (CHR ''d'', 323517),
        (CHR ''t'', 149082), (CHR ''w'', 129817), (CHR ''c'', 112514)]),
     (''en'', [(CHR ''t'', 15512434495), (CHR ''c'', 3804044585), (CHR ''d'', 2555729404),
        (CHR ''e'', 2314959851), (CHR ''s'', 1770256048), (CHR ''g'', 1065558331),
        (CHR ''i'', 691253665), (CHR ''a'', 541024073), (CHR ''o'', 523829596), (CHR ''n'', 236231410),
        (CHR ''v'', 213749618), (CHR ''u'', 203862133), (CHR ''l'', 161999059), (CHR ''r'', 143680445),
        (CHR ''j'', 110650547), (CHR ''h'', 70383399), (CHR ''z'', 65507116), (CHR ''f'', 57321143),
        (CHR ''y'', 49297008), (CHR ''b'', 28193939), (CHR ''m'', 24808651), (CHR ''w'', 13111324),
        (CHR ''q'', 12804928), (CHR ''k'', 10379846), (CHR ''p'', 4127430)])]"

definition ngrams_e3 :: "(string \<times> (char \<times> nat) list) list" where
  "ngrams_e3 =
    [(''eo'', [(CHR ''p'', 732303726), (CHR ''r'', 429974409), (CHR ''u'', 178297266), (CHR ''n'', 176334504),
        (CHR ''l'', 163850046), (CHR ''v'', 61200729), (CHR ''g'', 52360683), (CHR ''f'', 35647208),
        (CHR ''m'', 32202667), (CHR ''t'', 24845634), (CHR ''c'', 21409948), (CHR ''d'', 18845225),
        (CHR ''i'', 16078171), (CHR ''s'', 15870801), (CHR ''w'', 3327298), (CHR ''b'', 2265005),
        (CHR ''z'', 1476076), (CHR ''a'', 867153), (CHR ''x'', 816878), (CHR ''k'', 570809),
        (CHR ''h'', 291338), (CHR ''y'', 216733), (CHR ''e'', 109394)]),
     (''ep'', [(CHR ''t'', 1066672616), (CHR ''a'', 665618871), (CHR ''e'', 569820096), (CHR ''r'', 560413477),
        (CHR ''o'', 474812734), (CHR ''l'', 249876615), (CHR ''i'', 244424009), (CHR ''h'', 181108964),
        (CHR ''u'', 172097183), (CHR ''s'', 110713635), (CHR ''p'', 44278474), (CHR ''y'', 4405833),
        (CHR ''w'', 1908985), (CHR ''f'', 1532068), (CHR ''m'', 1254651), (CHR ''c'', 1123578),
        (CHR ''b'', 1070950), (CHR ''n'', 731515), (CHR ''d'', 365076), (CHR ''z'', 164684)]),
     (''eq'', [(CHR ''u'', 1583052430), (CHR ''n'', 272660), (CHR ''q'', 269154)]),
     (''er'', [(CHR ''e'', 8932677371), (CHR ''s'', 6523078585), (CHR ''i'', 3634755994),
        (CHR ''a'', 3435273609), (CHR ''n'', 2267203803), (CHR ''y'', 1835264673),
        (CHR ''t'', 1809292700), (CHR ''v'', 1556518611), (CHR ''m'', 1474693976),
        (CHR ''c'', 831933677), (CHR ''r'', 726784080), (CHR ''f'', 638235514), (CHR ''o'', 536442363),
        (CHR ''g'', 521839941), (CHR ''l'', 412205663), (CHR ''p'', 333562172), (CHR ''h'', 239527259),
        (CHR ''w'', 191683094), (CHR ''b'', 169194056), (CHR ''d'', 123729824), (CHR ''u'', 95811901),
        (CHR ''k'', 63639878), (CHR ''j'', 7666352), (CHR ''z'', 7010565), (CHR ''q'', 2859554),
        (CHR ''x'', 1238326)]),
     (''es'', [(CHR ''s'', 5960720010), (CHR ''t'', 5069905443), (CHR ''e'', 3082481543),
        (CHR ''i'', 1310067566), (CHR ''p'', 1144902171), (CHR ''c'', 651768290), (CHR ''u'', 642570000),
        (CHR ''o'', 352588659), (CHR ''h'', 175317115), (CHR ''a'', 66148867), (CHR ''m'', 35217343),
        (CHR ''b'', 31326532), (CHR ''k'', 30078356), (CHR ''y'', 26748312), (CHR ''d'', 24190668),
        (CHR ''q'', 22079309), (CHR ''l'', 20938824), (CHR ''n'', 6687566), (CHR ''w'', 3286994),
        (CHR ''v'', 2413794), (CHR ''f'', 988618), (CHR ''r'', 773243), (CHR ''g'', 276739),
        (CHR ''j'', 147907), (CHR ''z'', 111330)]),
     (''et'', [(CHR ''h'', 1414077822), (CHR ''e'', 1323406931), (CHR ''i'', 1133658118),
        (CHR ''t'', 1070863646), (CHR ''w'', 837710782), (CHR ''a'', 769656566), (CHR ''s'', 453207490),
        (CHR ''y'', 437166561), (CHR ''r'', 378941978), (CHR ''u'', 328058396), (CHR ''o'', 143033019),
        (CHR ''c'', 107461980), (CHR ''l'', 38651114), (CHR ''n'', 30515252), (CHR ''z'', 15113519),
        (CHR ''b'', 8437217), (CHR ''p'', 5117482), (CHR ''f'', 4215671), (CHR ''m'', 1677764),
        (CHR ''d'', 693289), (CHR ''v'', 249679), (CHR ''j'', 215817), (CHR ''k'', 120118)])]"

definition ngrams_e4 :: "(string \<times> (char \<times> nat) list) list" where
  "ngrams_e4 =
    [(''eu'', [(CHR ''r'', 380934132), (CHR ''t'', 133171579), (CHR ''m'', 96220365), (CHR ''s'', 53453083),
        (CHR ''d'', 41401161), (CHR ''p'', 21732951), (CHR ''n'', 16869289), (CHR ''v'', 16236701),
        (CHR ''c'', 14828712), (CHR ''g'', 12646562), (CHR ''e'', 11099261), (CHR ''k'', 10986184),
        (CHR ''x'', 10609749), (CHR ''l'', 8041222), (CHR ''b'', 3036261), (CHR ''i'', 2984570),
        (CHR ''z'', 1229893), (CHR ''w'', 1101682), (CHR ''f'', 1068703), (CHR ''a'', 272008),
        (CHR ''h'', 173927), (CHR ''y'', 147338), (CHR ''o'', 108240)]),
     (''ev'', [(CHR ''e'', 5354133201), (CHR ''i'', 979301305), (CHR ''a'', 417311972), (CHR ''o'', 352696922),
        (CHR ''y'', 10062040), (CHR ''u'', 6826632), (CHR ''r'', 3527742), (CHR ''s'', 2960656),
        (CHR ''l'', 1205694), (CHR ''d'', 553821), (CHR ''c'', 143479), (CHR ''v'', 132725),
        (CHR ''g'', 111381), (CHR ''n'', 100497)]),
     (''ew'', [(CHR ''s'', 314416413), (CHR ''i'', 173880173), (CHR ''e'', 172509450), (CHR ''a'', 132161589),
        (CHR ''h'', 129086117), (CHR ''o'', 71894385), (CHR ''l'', 24999703), (CHR ''t'', 15680600),
        (CHR ''p'', 15028998), (CHR ''r'', 12900369), (CHR ''c'', 11044420), (CHR ''b'', 9742852),
        (CHR ''n'', 8570301), (CHR ''m'', 8080805), (CHR ''d'', 6928861), (CHR ''f'', 4523658),
        (CHR ''y'', 2040208), (CHR ''g'', 828287), (CHR ''k'', 324090)]),
     (''ex'', [(CHR ''p'', 1861543443), (CHR ''t'', 1174254731), (CHR ''a'', 775248241), (CHR ''c'', 743646271),
        (CHR ''i'', 517094815), (CHR ''e'', 358411765), (CHR ''h'', 115303930), (CHR ''u'', 113797895),
        (CHR ''o'', 28774943), (CHR ''q'', 8045753), (CHR ''y'', 2370944), (CHR ''f'', 1232223),
        (CHR ''l'', 1049823), (CHR ''x'', 764505), (CHR ''n'', 678196), (CHR ''m'', 274421),
        (CHR ''r'', 121949)]),
     (''ey'', [(CHR ''e'', 243305938), (CHR ''o'', 126628725), (CHR ''s'', 80777294), (CHR ''n'', 18865188),
        (CHR ''a'', 15291893), (CHR ''i'', 12651961), (CHR ''m'', 8371653), (CHR ''b'', 7343368),
        (CHR ''l'', 7158042), (CHR ''w'', 6350644), (CHR ''d'', 3925120), (CHR ''r'', 3829318),
        (CHR ''c'', 1968131), (CHR ''f'', 1800713), (CHR ''h'', 1635425), (CHR ''t'', 1448324),
        (CHR ''g'', 501279), (CHR ''k'', 356490), (CHR ''p'', 288237)]),
     (''ez'', [(CHR ''e'', 35398502), (CHR ''i'', 14097030), (CHR ''u'', 7373146), (CHR ''z'', 3846269),
        (CHR ''r'', 3419072), (CHR ''a'', 2974049), (CHR ''o'', 2806015), (CHR ''v'', 2536073),
        (CHR ''h'', 1498635), (CHR ''y'', 863379), (CHR ''b'', 214998), (CHR ''c'', 110123),
        (CHR ''f'', 108840), (CHR ''d'', 108474)])]"

definition ngrams_f1 :: "(string \<times> (char \<times> nat) list) list" where
  "ngrams_f1 =
    [(''fa'', [(CHR ''c'', 1471858283), (CHR ''i'', 588173864), (CHR ''m'', 500584216), (CHR ''t'', 365070427),
        (CHR ''l'', 315591642), (CHR ''r'', 297852956), (CHR ''s'', 206500665), (CHR ''v'', 167201465),
        (CHR ''n'', 155499739), (CHR ''u'', 79456509), (CHR ''b'', 45007319), (CHR ''d'', 17754447),
        (CHR ''y'', 7555060), (CHR ''x'', 6719953), (CHR ''e'', 4931684), (CHR ''k'', 4430320),
        (CHR ''w'', 3473397), (CHR ''h'', 3230226), (CHR ''g'', 2498518), (CHR ''z'', 613175),
        (CHR ''f'', 343386), (CHR ''q'', 131410), (CHR ''j'', 112195)]),
     (''fb'', [(CHR ''i'', 492418), (CHR ''a'', 403035), (CHR ''e'', 202902), (CHR ''o'', 106221)]),
     (''fc'', [(CHR ''a'', 2401592), (CHR ''o'', 1845713), (CHR ''s'', 392322), (CHR ''h'', 120158)]),
     (''fd'', [(CHR ''o'', 1571908), (CHR ''c'', 869545), (CHR ''e'', 812429), (CHR ''i'', 546654),
        (CHR ''d'', 272321), (CHR ''m'', 165046)]),
     (''fe'', [(CHR ''r'', 1973207904), (CHR ''c'', 981303323), (CHR ''e'', 568741840), (CHR ''a'', 352843753),
        (CHR ''s'', 345413175), (CHR ''l'', 342535908), (CHR ''n'', 295616988), (CHR ''d'', 171220350),
        (CHR ''m'', 135759852), (CHR ''t'', 104650887), (CHR ''b'', 67076488), (CHR ''v'', 29928985),
        (CHR ''w'', 21694998), (CHR ''i'', 20878799), (CHR ''u'', 17013266), (CHR ''g'', 10266857),
        (CHR ''y'', 1417909), (CHR ''o'', 637937), (CHR ''k'', 562578), (CHR ''x'', 427590),
        (CHR ''f'', 425951), (CHR ''h'', 325504), (CHR ''z'', 295981), (CHR ''p'', 159955)]),
     (''ff'', [(CHR ''e'', 1952351948), (CHR ''i'', 1102225334), (CHR ''o'', 216651890), (CHR ''a'', 112751290),
        (CHR ''s'', 67712188), (CHR ''l'', 44723310), (CHR ''u'', 38165531), (CHR ''r'', 28692520),
        (CHR ''m'', 8185701), (CHR ''y'', 5266758), (CHR ''n'', 4928627), (CHR ''h'', 631255),
        (CHR ''d'', 453028), (CHR ''t'', 251280), (CHR ''b'', 202902), (CHR ''k'', 110473)]),
     (''fg'', [(CHR ''h'', 9356740), (CHR ''a'', 2735232), (CHR ''o'', 560139), (CHR ''r'', 345193)]),
     (''fh'', [(CHR ''o'', 1459868), (CHR ''a'', 819899), (CHR ''e'', 511644), (CHR ''y'', 269459),
        (CHR ''i'', 115497)]),
     (''fi'', [(CHR ''c'', 1997524496), (CHR ''n'', 1514866459), (CHR ''r'', 1346145653),
        (CHR ''e'', 721335846), (CHR ''g'', 509373389), (CHR ''l'', 502924557), (CHR ''t'', 301094439),
        (CHR ''v'', 215637865), (CHR ''s'', 194623250), (CHR ''f'', 136576990), (CHR ''d'', 117342892),
        (CHR ''x'', 112442660), (CHR ''b'', 67918112), (CHR ''a'', 30457378), (CHR ''o'', 3784029),
        (CHR ''j'', 2955641), (CHR ''i'', 2297084), (CHR ''z'', 1397586), (CHR ''q'', 1021066),
        (CHR ''m'', 359645), (CHR ''u'', 293937), (CHR ''p'', 186081)]),
     (''fj'', [(CHR ''o'', 988579)]),
     (''fk'', [(CHR ''a'', 1674213), (CHR ''i'', 199887), (CHR ''o'', 180181), (CHR ''n'', 129290),
        (CHR ''l'', 108897)]),
     (''fl'', [(CHR ''o'', 462907481), (CHR ''u'', 373308093), (CHR ''e'', 365357220), (CHR ''a'', 292807104),
        (CHR ''i'', 214712390), (CHR ''y'', 79567274), (CHR ''p'', 358675), (CHR ''g'', 165853),
        (CHR ''s'', 157323)])]"

definition ngrams_f2 :: "(string \<times> (char \<times> nat) list) list" where
  "ngrams_f2 =
    [(''fm'', [(CHR ''a'', 12879762), (CHR ''e'', 567117), (CHR ''l'', 354106), (CHR ''r'', 278411)]),
     (''fn'', [(CHR ''e'', 7724479), (CHR ''a'', 293729), (CHR ''i'', 135698), (CHR ''u'', 105852)]),
     (''fo'', [(CHR ''r'', 4806900221), (CHR ''u'', 1021952789), (CHR ''l'', 763247976), (CHR ''o'', 321873705),
        (CHR ''c'', 113174212), (CHR ''s'', 39424034), (CHR ''n'', 38375232), (CHR ''i'', 10366452),
        (CHR ''w'', 9971856), (CHR ''a'', 8439104), (CHR ''e'', 7872329), (CHR ''x'', 3871654),
        (CHR ''d'', 3572160), (CHR ''g'', 3003161), (CHR ''m'', 2372016), (CHR ''y'', 1372795),
        (CHR ''t'', 674614), (CHR ''v'', 643332), (CHR ''k'', 412769), (CHR ''p'', 110516)]),
     (''fp'', [(CHR ''e'', 664613), (CHR ''a'', 487522), (CHR ''g'', 217380), (CHR ''r'', 144360)]),
     (''fr'', [(CHR ''o'', 3730375901), (CHR ''e'', 937524362), (CHR ''a'', 658155132), (CHR ''i'', 560361112),
        (CHR ''u'', 94677230), (CHR ''y'', 3878150), (CHR ''c'', 314514), (CHR ''s'', 105185)]),
     (''fs'', [(CHR ''e'', 11292498), (CHR ''p'', 9575403), (CHR ''h'', 5539465), (CHR ''t'', 1951069),
        (CHR ''a'', 824721), (CHR ''o'', 812340), (CHR ''u'', 531010), (CHR ''r'', 440173),
        (CHR ''k'', 435546), (CHR ''l'', 266222), (CHR ''s'', 182203), (CHR ''i'', 111827),
        (CHR ''c'', 103365), (CHR ''w'', 102045)]),
     (''ft'', [(CHR ''e'', 1371241285), (CHR ''s'', 66140876), (CHR ''y'', 59188389), (CHR ''h'', 51712104),
        (CHR ''i'', 41558472), (CHR ''w'', 36831321), (CHR ''l'', 16819232), (CHR ''o'', 6456152),
        (CHR ''a'', 6147111), (CHR ''n'', 3016758), (CHR ''r'', 985703), (CHR ''u'', 876672),
        (CHR ''b'', 663758), (CHR ''c'', 439136), (CHR ''m'', 437328), (CHR ''t'', 217878)]),
     (''fu'', [(CHR ''l'', 1233472181), (CHR ''n'', 520991783), (CHR ''r'', 372923078), (CHR ''s'', 236438121),
        (CHR ''t'', 173927098), (CHR ''g'', 42189852), (CHR ''e'', 40518966), (CHR ''c'', 15963739),
        (CHR ''m'', 12793248), (CHR ''z'', 5134184), (CHR ''j'', 2532851), (CHR ''k'', 1723248),
        (CHR ''i'', 988808), (CHR ''d'', 865074), (CHR ''h'', 736774), (CHR ''a'', 198561),
        (CHR ''o'', 147640)]),
     (''fv'', [(CHR ''e'', 171411)]),
     (''fw'', [(CHR ''a'', 5266330), (CHR ''h'', 262022), (CHR ''e'', 172562)]),
     (''fy'', [(CHR ''i'', 73144789), (CHR ''o'', 453976), (CHR ''f'', 221276), (CHR ''n'', 156407)]),
     (''fz'', [(CHR ''a'', 109432)])]"

definition ngrams_g1 :: "(string \<times> (char \<times> nat) list) list" where
  "ngrams_g1 =
    [(''ga'', [(CHR ''i'', 902318420), (CHR ''n'', 845094394), (CHR ''t'', 621158595), (CHR ''r'', 596511297),
        (CHR ''l'', 302401708), (CHR ''v'', 159022540), (CHR ''m'', 138606018), (CHR ''g'', 129793890),
        (CHR ''z'', 79631165), (CHR ''s'', 77847856), (CHR ''u'', 35503511), (CHR ''d'', 24393692),
        (CHR ''b'', 23648799), (CHR ''p'', 21584363), (CHR ''c'', 15417082), (CHR ''e'', 7743424),
        (CHR ''y'', 5434393), (CHR ''a'', 4688389), (CHR ''w'', 3981530), (CHR ''o'', 2684778),
        (CHR ''k'', 1036167), (CHR ''h'', 691400), (CHR ''f'', 658775), (CHR ''j'', 112344)]),
     (''gb'', [(CHR ''y'', 3185244), (CHR ''o'', 2560742), (CHR ''r'', 1275819), (CHR ''i'', 1265907),
        (CHR ''e'', 725632), (CHR ''u'', 262895), (CHR ''t'', 182931), (CHR ''l'', 138166),
        (CHR ''a'', 105519)]),
     (''gc'', [(CHR ''l'', 625642), (CHR ''h'', 541272), (CHR ''s'', 195658), (CHR ''o'', 159551)]),
     (''gd'', [(CHR ''o'', 67087181), (CHR ''a'', 7480989), (CHR ''e'', 2888380), (CHR ''i'', 389052),
        (CHR ''u'', 207663)]),
     (''ge'', [(CHR ''n'', 1986816208), (CHR ''s'', 1275395497), (CHR ''r'', 1266779063),
        (CHR ''d'', 705944914), (CHR ''t'', 559332307), (CHR ''o'', 310571075), (CHR ''m'', 288626199),
        (CHR ''l'', 185949759), (CHR ''a'', 65608842), (CHR ''e'', 26485352), (CHR ''b'', 11890051),
        (CHR ''i'', 6899960), (CHR ''w'', 4766224), (CHR ''v'', 3906028), (CHR ''h'', 3233484),
        (CHR ''g'', 2142954), (CHR ''f'', 1818107), (CHR ''y'', 1562772), (CHR ''p'', 1256344),
        (CHR ''c'', 1169540), (CHR ''u'', 508683), (CHR ''z'', 420092)]),
     (''gf'', [(CHR ''u'', 17420570), (CHR ''i'', 5953956), (CHR ''e'', 2067123), (CHR ''r'', 1847072),
        (CHR ''o'', 1833005), (CHR ''l'', 378258), (CHR ''a'', 102012)]),
     (''gg'', [(CHR ''e'', 373954137), (CHR ''l'', 100655611), (CHR ''r'', 70876259), (CHR ''i'', 55515725),
        (CHR ''s'', 31084660), (CHR ''a'', 19240501), (CHR ''y'', 9719770), (CHR ''o'', 3982437),
        (CHR ''p'', 810567), (CHR ''u'', 670905)]),
     (''gh'', [(CHR ''t'', 3588863596), (CHR ''e'', 276941336), (CHR ''l'', 150597544), (CHR ''o'', 126011497),
        (CHR ''b'', 91403380), (CHR ''a'', 64811807), (CHR ''i'', 29757772), (CHR ''s'', 22935604),
        (CHR ''w'', 22775004), (CHR ''n'', 11960500), (CHR ''u'', 4049674), (CHR ''d'', 3207747),
        (CHR ''p'', 2172700), (CHR ''f'', 1866286), (CHR ''g'', 1177751), (CHR ''m'', 954421),
        (CHR ''r'', 851752), (CHR ''y'', 603233), (CHR ''k'', 368024), (CHR ''q'', 203384)]),
     (''gi'', [(CHR ''n'', 1326489647), (CHR ''v'', 865866346), (CHR ''c'', 492835473), (CHR ''o'', 473653844),
        (CHR ''s'', 275064261), (CHR ''r'', 150788902), (CHR ''t'', 119730234), (CHR ''e'', 118800724),
        (CHR ''a'', 96250431), (CHR ''l'', 71679662), (CHR ''m'', 65387697), (CHR ''f'', 60854817),
        (CHR ''b'', 59691544), (CHR ''d'', 31759733), (CHR ''u'', 16072371), (CHR ''g'', 10433752),
        (CHR ''z'', 7415397), (CHR ''p'', 1456008), (CHR ''q'', 886910), (CHR ''i'', 573218),
        (CHR ''k'', 243905), (CHR ''y'', 166307)]),
     (''gj'', [(CHR ''i'', 250393)]),
     (''gk'', [(CHR ''o'', 3998551), (CHR ''i'', 2560522), (CHR ''a'', 169931)])]"

definition ngrams_g2 :: "(string \<times> (char \<times> nat) list) list" where
  "ngrams_g2 =
    [(''gl'', [(CHR ''e'', 473790144), (CHR ''a'', 415922865), (CHR ''i'', 313072252), (CHR ''y'', 240035714),
        (CHR ''o'', 220275381), (CHR ''u'', 37022971)]),
     (''gm'', [(CHR ''e'', 189554915), (CHR ''a'', 49891817), (CHR ''u'', 3957497), (CHR ''s'', 3015633),
        (CHR ''o'', 2688111), (CHR ''i'', 1511787), (CHR ''b'', 982022), (CHR ''y'', 661753),
        (CHR ''p'', 300139), (CHR ''l'', 239141), (CHR ''t'', 230056)]),
     (''gn'', [(CHR ''i'', 547389754), (CHR ''e'', 312900889), (CHR ''a'', 231573521), (CHR ''o'', 160267420),
        (CHR ''s'', 87601347), (CHR ''m'', 34859991), (CHR ''t'', 14713539), (CHR ''u'', 5878307),
        (CHR ''y'', 1393296), (CHR ''p'', 755741), (CHR ''r'', 530097), (CHR ''g'', 231399),
        (CHR ''l'', 220052), (CHR ''n'', 186330), (CHR ''b'', 150045)]),
     (''go'', [(CHR ''o'', 643106786), (CHR ''v'', 579675371), (CHR ''i'', 244830609), (CHR ''n'', 223757041),
        (CHR ''r'', 211986825), (CHR ''l'', 159058410), (CHR ''t'', 141198814), (CHR ''a'', 98542654),
        (CHR ''e'', 80731250), (CHR ''s'', 68938239), (CHR ''d'', 64713868), (CHR ''u'', 39838948),
        (CHR ''w'', 18944656), (CHR ''g'', 17461887), (CHR ''m'', 14713131), (CHR ''c'', 4739483),
        (CHR ''b'', 4548710), (CHR ''p'', 3331273), (CHR ''y'', 2724743), (CHR ''f'', 1674366),
        (CHR ''x'', 663595), (CHR ''k'', 522982), (CHR ''z'', 465358)]),
     (''gp'', [(CHR ''i'', 1283022), (CHR ''u'', 1058285), (CHR ''l'', 1033324), (CHR ''o'', 515115),
        (CHR ''r'', 196770)]),
     (''gq'', [(CHR ''i'', 194309)]),
     (''gr'', [(CHR ''e'', 2001105348), (CHR ''a'', 1958817188), (CHR ''o'', 1229986583),
        (CHR ''i'', 279097747), (CHR ''y'', 34692888), (CHR ''u'', 31286236), (CHR ''s'', 310408),
        (CHR ''p'', 243128), (CHR ''m'', 152041)]),
     (''gs'', [(CHR ''t'', 51231010), (CHR ''i'', 10670289), (CHR ''h'', 5514269), (CHR ''o'', 3403070),
        (CHR ''b'', 3131588), (CHR ''l'', 2101859), (CHR ''w'', 862801), (CHR ''a'', 773323),
        (CHR ''u'', 703604), (CHR ''g'', 395189), (CHR ''p'', 295591), (CHR ''k'', 234576),
        (CHR ''r'', 174492), (CHR ''f'', 160430), (CHR ''d'', 118570), (CHR ''m'', 103925)]),
     (''gt'', [(CHR ''h'', 272324944), (CHR ''o'', 146782961), (CHR ''i'', 2621551), (CHR ''e'', 2060232),
        (CHR ''a'', 964963), (CHR ''z'', 819272), (CHR ''u'', 519969), (CHR ''s'', 394539),
        (CHR ''p'', 122340), (CHR ''r'', 116610)]),
     (''gu'', [(CHR ''r'', 419920835), (CHR ''e'', 416659675), (CHR ''i'', 396948391), (CHR ''a'', 387258016),
        (CHR ''l'', 328580714), (CHR ''s'', 148954462), (CHR ''m'', 109764932), (CHR ''n'', 87137627),
        (CHR ''o'', 15699880), (CHR ''y'', 13028164), (CHR ''t'', 12939399), (CHR ''p'', 3810589),
        (CHR ''j'', 3134228), (CHR ''c'', 1675562), (CHR ''b'', 1667968), (CHR ''g'', 1395779),
        (CHR ''d'', 1125274), (CHR ''z'', 1098918), (CHR ''f'', 478998), (CHR ''h'', 324664)]),
     (''gv'', [(CHR ''e'', 444651), (CHR ''h'', 214179), (CHR ''i'', 118549)]),
     (''gw'', [(CHR ''a'', 6013089), (CHR ''o'', 4070158), (CHR ''i'', 2666825), (CHR ''e'', 2460391),
        (CHR ''y'', 1235038), (CHR ''r'', 830806), (CHR ''u'', 132306)])]"

definition ngrams_g3 :: "(string \<times> (char \<times> nat) list) list" where
  "ngrams_g3 =
    [(''gx'', [(CHR ''i'', 383424)]),
     (''gy'', [(CHR ''p'', 59068845), (CHR ''m'', 12259428), (CHR ''n'', 7825572), (CHR ''r'', 3973964),
        (CHR ''a'', 2385927), (CHR ''l'', 1949325), (CHR ''z'', 481037), (CHR ''o'', 400431),
        (CHR ''b'', 193226), (CHR ''u'', 139624), (CHR ''g'', 121944)]),
     (''gz'', [(CHR ''a'', 1704697), (CHR ''h'', 714816), (CHR ''e'', 576783), (CHR ''i'', 331202)])]"

definition ngrams_h1 :: "(string \<times> (char \<times> nat) list) list" where
  "ngrams_h1 =
    [(''ha'', [(CHR ''t'', 9572637401), (CHR ''v'', 3268688464), (CHR ''n'', 3230803706),
        (CHR ''r'', 1900162860), (CHR ''l'', 965253939), (CHR ''p'', 944576650), (CHR ''s'', 385464202),
        (CHR ''m'', 342359775), (CHR ''i'', 277652820), (CHR ''b'', 188498887), (CHR ''d'', 100591097),
        (CHR ''u'', 88868788), (CHR ''e'', 80731651), (CHR ''k'', 71041944), (CHR ''g'', 59878563),
        (CHR ''w'', 59017327), (CHR ''z'', 37824102), (CHR ''f'', 32419117), (CHR ''c'', 29403722),
        (CHR ''y'', 27500594), (CHR ''o'', 16635263), (CHR ''h'', 10632072), (CHR ''a'', 3690908),
        (CHR ''j'', 1686038), (CHR ''q'', 1024909), (CHR ''x'', 137119)]),
     (''hb'', [(CHR ''o'', 92568056), (CHR ''i'', 14075032), (CHR ''u'', 3066993), (CHR ''e'', 2796992),
        (CHR ''y'', 2419697), (CHR ''r'', 2178086), (CHR ''a'', 2050871), (CHR ''s'', 277021),
        (CHR ''h'', 250528), (CHR ''l'', 118491)]),
     (''hc'', [(CHR ''o'', 9774660), (CHR ''r'', 4860772), (CHR ''a'', 3393540), (CHR ''h'', 3057738),
        (CHR ''e'', 2280119), (CHR ''l'', 1139291), (CHR ''p'', 736870), (CHR ''f'', 204730)]),
     (''hd'', [(CHR ''r'', 47060799), (CHR ''a'', 14588566), (CHR ''e'', 2245602), (CHR ''i'', 1914609),
        (CHR ''o'', 1777847), (CHR ''u'', 1737079), (CHR ''l'', 341683), (CHR ''t'', 283711),
        (CHR ''y'', 271283), (CHR ''p'', 153766)]),
     (''he'', [(CHR ''r'', 9288493442), (CHR ''n'', 3022347806), (CHR ''y'', 2474291900),
        (CHR ''i'', 2313000076), (CHR ''s'', 2162688316), (CHR ''m'', 1835522858),
        (CHR ''a'', 1719590065), (CHR ''d'', 1175157244), (CHR ''l'', 895247415), (CHR ''t'', 432814626),
        (CHR ''o'', 359780053), (CHR ''e'', 259724382), (CHR ''c'', 133320819), (CHR ''w'', 57588473),
        (CHR ''p'', 33821308), (CHR ''b'', 30290690), (CHR ''v'', 26422322), (CHR ''f'', 17765505),
        (CHR ''u'', 17283024), (CHR ''g'', 14699837), (CHR ''q'', 8412233), (CHR ''x'', 6423830),
        (CHR ''z'', 6294358), (CHR ''k'', 4648814), (CHR ''j'', 661725), (CHR ''h'', 282091)]),
     (''hf'', [(CHR ''u'', 52251425), (CHR ''i'', 3458389), (CHR ''a'', 1724837), (CHR ''o'', 1178213),
        (CHR ''e'', 339376), (CHR ''r'', 322005), (CHR ''l'', 103878)]),
     (''hg'', [(CHR ''o'', 1591973), (CHR ''a'', 1192218), (CHR ''e'', 140059)]),
     (''hh'', [(CHR ''o'', 7782023), (CHR ''e'', 4061111), (CHR ''i'', 287937), (CHR ''a'', 270913),
        (CHR ''s'', 230685), (CHR ''h'', 156433)]),
     (''hi'', [(CHR ''s'', 4461712512), (CHR ''c'', 3617398963), (CHR ''n'', 3192166647),
        (CHR ''l'', 1622888124), (CHR ''g'', 771973561), (CHR ''p'', 711695140), (CHR ''t'', 430036623),
        (CHR ''e'', 404694761), (CHR ''r'', 403379173), (CHR ''m'', 356478949), (CHR ''b'', 152174662),
        (CHR ''a'', 113626929), (CHR ''o'', 109404633), (CHR ''d'', 76344377), (CHR ''f'', 74138190),
        (CHR ''v'', 43216565), (CHR ''z'', 19265009), (CHR ''k'', 7729319), (CHR ''u'', 5174779),
        (CHR ''h'', 4434608), (CHR ''j'', 3291535), (CHR ''i'', 1773068), (CHR ''q'', 588034),
        (CHR ''y'', 306352)]),
     (''hj'', [(CHR ''a'', 195243)]),
     (''hk'', [(CHR ''e'', 2404533), (CHR ''i'', 1830785), (CHR ''o'', 632290), (CHR ''a'', 283727)])]"

definition ngrams_h2 :: "(string \<times> (char \<times> nat) list) list" where
  "ngrams_h2 =
    [(''hl'', [(CHR ''y'', 176417896), (CHR ''e'', 71598222), (CHR ''o'', 47146746), (CHR ''i'', 26333216),
        (CHR ''a'', 17918058), (CHR ''u'', 944644), (CHR ''b'', 925147), (CHR ''g'', 282408),
        (CHR ''t'', 275884), (CHR ''s'', 222428), (CHR ''m'', 163599), (CHR ''h'', 106285)]),
     (''hm'', [(CHR ''e'', 191439726), (CHR ''a'', 61375932), (CHR ''i'', 30506101), (CHR ''s'', 16849355),
        (CHR ''o'', 15254559), (CHR ''u'', 3697566), (CHR ''m'', 527585)]),
     (''hn'', [(CHR ''i'', 221681657), (CHR ''o'', 133019877), (CHR ''s'', 56434631), (CHR ''e'', 40745282),
        (CHR ''a'', 8557285), (CHR ''n'', 7585217), (CHR ''u'', 2670272), (CHR ''q'', 650151),
        (CHR ''y'', 415696), (CHR ''t'', 122393)]),
     (''ho'', [(CHR ''u'', 3341949501), (CHR ''l'', 1312274624), (CHR ''s'', 1243955546),
        (CHR ''w'', 1185657658), (CHR ''r'', 1153037388), (CHR ''o'', 718319575), (CHR ''m'', 706505699),
        (CHR ''p'', 393942022), (CHR ''d'', 362440500), (CHR ''n'', 352660280), (CHR ''t'', 249096658),
        (CHR ''i'', 120568868), (CHR ''e'', 69032658), (CHR ''c'', 67972875), (CHR ''g'', 31452660),
        (CHR ''v'', 27735816), (CHR ''a'', 27721076), (CHR ''b'', 24155100), (CHR ''f'', 14509387),
        (CHR ''k'', 10412113), (CHR ''y'', 1996483), (CHR ''h'', 1989613), (CHR ''x'', 689693),
        (CHR ''z'', 554865), (CHR ''j'', 423605)]),
     (''hp'', [(CHR ''l'', 3352936), (CHR ''u'', 2591543), (CHR ''i'', 2336437), (CHR ''a'', 1063911),
        (CHR ''o'', 330936), (CHR ''r'', 273453)]),
     (''hq'', [(CHR ''u'', 10501517)]),
     (''hr'', [(CHR ''o'', 1080845222), (CHR ''e'', 697054423), (CHR ''i'', 419918784), (CHR ''a'', 89175045),
        (CHR ''u'', 48366391), (CHR ''y'', 7546125), (CHR ''h'', 1953987), (CHR ''l'', 1600866),
        (CHR ''b'', 1353764), (CHR ''m'', 1290278), (CHR ''k'', 387198), (CHR ''s'', 347245),
        (CHR ''r'', 138817), (CHR ''d'', 101931)]),
     (''hs'', [(CHR ''t'', 28357580), (CHR ''i'', 6145715), (CHR ''o'', 5170724), (CHR ''c'', 2418665),
        (CHR ''a'', 1750322), (CHR ''h'', 1695292), (CHR ''l'', 882937), (CHR ''e'', 771944),
        (CHR ''p'', 678919), (CHR ''u'', 628579), (CHR ''w'', 255022), (CHR ''b'', 219756),
        (CHR ''s'', 215067)]),
     (''ht'', [(CHR ''e'', 324027724), (CHR ''s'', 302136936), (CHR ''l'', 92133099), (CHR ''i'', 67785867),
        (CHR ''y'', 42217614), (CHR ''f'', 39536227), (CHR ''h'', 35292632), (CHR ''n'', 19704602),
        (CHR ''o'', 15439502), (CHR ''m'', 11894802), (CHR ''a'', 3528889), (CHR ''r'', 3454857),
        (CHR ''w'', 3391166), (CHR ''t'', 2937795), (CHR ''u'', 1919634), (CHR ''c'', 1374394),
        (CHR ''g'', 784454), (CHR ''d'', 179512), (CHR ''b'', 151094), (CHR ''p'', 105980)]),
     (''hu'', [(CHR ''s'', 542053309), (CHR ''m'', 492929202), (CHR ''r'', 430784977), (CHR ''n'', 322784114),
        (CHR ''g'', 67757937), (CHR ''t'', 56096296), (CHR ''d'', 22156677), (CHR ''a'', 21948640),
        (CHR ''l'', 21822494), (CHR ''b'', 13905950), (CHR ''c'', 11895992), (CHR ''e'', 7267151),
        (CHR ''f'', 5480794), (CHR ''x'', 2976514), (CHR ''y'', 2839702), (CHR ''i'', 2457676),
        (CHR ''k'', 1058274), (CHR ''p'', 978678), (CHR ''j'', 744284), (CHR ''o'', 483833),
        (CHR ''v'', 281864), (CHR ''z'', 137962)])]"

definition ngrams_h3 :: "(string \<times> (char \<times> nat) list) list" where
  "ngrams_h3 =
    [(''hv'', [(CHR ''i'', 4301623), (CHR ''e'', 554731), (CHR ''a'', 423401)]),
     (''hw'', [(CHR ''a'', 71336623), (CHR ''e'', 40518072), (CHR ''i'', 7862301), (CHR ''o'', 7584809),
        (CHR ''h'', 5788923), (CHR ''n'', 137376)]),
     (''hy'', [(CHR ''s'', 322262507), (CHR ''p'', 129405741), (CHR ''d'', 115507487), (CHR ''l'', 39353507),
        (CHR ''t'', 33724500), (CHR ''m'', 30966566), (CHR ''r'', 19727073), (CHR ''b'', 14129806),
        (CHR ''a'', 9608675), (CHR ''g'', 8692038), (CHR ''n'', 2692009), (CHR ''c'', 2478111),
        (CHR ''o'', 1623751), (CHR ''x'', 996149), (CHR ''e'', 943073), (CHR ''i'', 431626),
        (CHR ''u'', 369485), (CHR ''k'', 280847)]),
     (''hz'', [(CHR ''e'', 142051)])]"

definition ngrams_i1 :: "(string \<times> (char \<times> nat) list) list" where
  "ngrams_i1 =
    [(''ia'', [(CHR ''l'', 2846633594), (CHR ''n'', 1563599420), (CHR ''t'', 1151398626),
        (CHR ''m'', 294867823), (CHR ''b'', 278814199), (CHR ''r'', 235579995), (CHR ''g'', 226671636),
        (CHR ''s'', 120888711), (CHR ''c'', 31277193), (CHR ''h'', 25141380), (CHR ''d'', 14532343),
        (CHR ''e'', 11179632), (CHR ''p'', 10692090), (CHR ''z'', 9458198), (CHR ''i'', 5491509),
        (CHR ''o'', 3750777), (CHR ''v'', 2835058), (CHR ''x'', 1464312), (CHR ''u'', 731920),
        (CHR ''a'', 700154), (CHR ''f'', 659202), (CHR ''w'', 549880), (CHR ''k'', 515974),
        (CHR ''j'', 171967), (CHR ''q'', 148718)]),
     (''ib'', [(CHR ''l'', 886743270), (CHR ''e'', 572697716), (CHR ''i'', 483125904), (CHR ''u'', 434222762),
        (CHR ''r'', 226172472), (CHR ''b'', 38191925), (CHR ''a'', 37824218), (CHR ''o'', 28779390),
        (CHR ''s'', 14285455), (CHR ''n'', 6016233), (CHR ''y'', 5052095), (CHR ''t'', 923409),
        (CHR ''w'', 626117), (CHR ''d'', 197054)]),
     (''ic'', [(CHR ''a'', 4850258146), (CHR ''h'', 3573038913), (CHR ''e'', 2253804278),
        (CHR ''i'', 1410228443), (CHR ''t'', 973764320), (CHR ''u'', 818551635), (CHR ''k'', 709896837),
        (CHR ''s'', 579319127), (CHR ''l'', 283032596), (CHR ''y'', 208405164), (CHR ''o'', 155343545),
        (CHR ''r'', 100849130), (CHR ''c'', 6610740), (CHR ''n'', 4483840), (CHR ''b'', 587820),
        (CHR ''z'', 482421), (CHR ''m'', 426109), (CHR ''p'', 372422), (CHR ''q'', 249636),
        (CHR ''f'', 151383), (CHR ''d'', 114169)]),
     (''id'', [(CHR ''e'', 3915774185), (CHR ''u'', 355935495), (CHR ''i'', 316499616), (CHR ''a'', 293244222),
        (CHR ''d'', 217050585), (CHR ''s'', 181805419), (CHR ''g'', 164611855), (CHR ''l'', 91505697),
        (CHR ''o'', 68204499), (CHR ''n'', 40345326), (CHR ''t'', 34876593), (CHR ''y'', 14920779),
        (CHR ''w'', 12658079), (CHR ''r'', 2791683), (CHR ''p'', 1528944), (CHR ''m'', 1328125),
        (CHR ''b'', 1138413), (CHR ''c'', 319495), (CHR ''j'', 254605), (CHR ''h'', 207253),
        (CHR ''f'', 101900)]),
     (''ie'', [(CHR ''s'', 3605489822), (CHR ''n'', 1994973804), (CHR ''d'', 1295809482),
        (CHR ''t'', 704717548), (CHR ''r'', 585464873), (CHR ''w'', 560419110), (CHR ''v'', 484105010),
        (CHR ''l'', 451086003), (CHR ''f'', 392472917), (CHR ''c'', 135111004), (CHR ''u'', 60148971),
        (CHR ''g'', 37523606), (CHR ''m'', 9547599), (CHR ''b'', 7821473), (CHR ''e'', 6680144),
        (CHR ''k'', 4257765), (CHR ''z'', 3914521), (CHR ''h'', 3116880), (CHR ''p'', 1754350),
        (CHR ''j'', 462198), (CHR ''i'', 417061), (CHR ''y'', 395409), (CHR ''o'', 127923)]),
     (''if'', [(CHR ''i'', 1245558523), (CHR ''f'', 1136623194), (CHR ''e'', 885435941), (CHR ''t'', 373368349),
        (CHR ''y'', 214254482), (CHR ''o'', 131482838), (CHR ''u'', 103225246), (CHR ''l'', 30106616),
        (CHR ''a'', 18430203), (CHR ''s'', 5038277), (CHR ''r'', 1251893), (CHR ''k'', 199887),
        (CHR ''c'', 115592)])]"

definition ngrams_i2 :: "(string \<times> (char \<times> nat) list) list" where
  "ngrams_i2 =
    [(''ig'', [(CHR ''h'', 3553359963), (CHR ''n'', 1312307437), (CHR ''i'', 605813085), (CHR ''u'', 458187009),
        (CHR ''a'', 327246132), (CHR ''e'', 258680692), (CHR ''r'', 121426450), (CHR ''o'', 69796395),
        (CHR ''g'', 68601108), (CHR ''m'', 41579457), (CHR ''s'', 30396154), (CHR ''l'', 8605054),
        (CHR ''y'', 2215165), (CHR ''b'', 2180685), (CHR ''z'', 1704697), (CHR ''t'', 1400679),
        (CHR ''w'', 771658), (CHR ''v'', 236453), (CHR ''c'', 159551), (CHR ''d'', 153291),
        (CHR ''f'', 148715)]),
     (''ih'', [(CHR ''o'', 17408810), (CHR ''i'', 10848445), (CHR ''a'', 6670573), (CHR ''r'', 4269562),
        (CHR ''u'', 2439700), (CHR ''e'', 1789499), (CHR ''y'', 1333879), (CHR ''n'', 437305),
        (CHR ''l'', 358744)]),
     (''ii'', [(CHR ''i'', 60442240), (CHR ''a'', 4866899), (CHR ''n'', 4355409), (CHR ''r'', 3428061),
        (CHR ''l'', 2609164), (CHR ''b'', 2150158), (CHR ''s'', 2073708), (CHR ''h'', 1037539),
        (CHR ''e'', 1003413), (CHR ''t'', 985382), (CHR ''c'', 919012), (CHR ''g'', 358604),
        (CHR ''o'', 192663), (CHR ''d'', 108561)]),
     (''ij'', [(CHR ''i'', 11954228), (CHR ''a'', 8068729), (CHR ''u'', 3272599), (CHR ''o'', 2018192),
        (CHR ''k'', 863967), (CHR ''h'', 609795), (CHR ''n'', 588660), (CHR ''e'', 396450),
        (CHR ''m'', 353299), (CHR ''d'', 308865), (CHR ''p'', 144516), (CHR ''r'', 132751),
        (CHR ''l'', 132596), (CHR ''t'', 128039)]),
     (''ik'', [(CHR ''e'', 1095400355), (CHR ''i'', 49215237), (CHR ''a'', 12704329), (CHR ''h'', 10184417),
        (CHR ''o'', 6066438), (CHR ''s'', 5979897), (CHR ''k'', 2875988), (CHR ''u'', 1695650),
        (CHR ''t'', 809503), (CHR ''r'', 571894), (CHR ''l'', 472450), (CHR ''y'', 283052),
        (CHR ''m'', 102870)]),
     (''il'', [(CHR ''l'', 3939390949), (CHR ''i'', 1695955625), (CHR ''e'', 1548032389),
        (CHR ''d'', 989170477), (CHR ''y'', 747674471), (CHR ''a'', 602553991), (CHR ''s'', 288385539),
        (CHR ''t'', 260083596), (CHR ''o'', 222571330), (CHR ''m'', 115430651), (CHR ''u'', 107976988),
        (CHR ''k'', 82746146), (CHR ''v'', 60691989), (CHR ''w'', 44814935), (CHR ''r'', 35569938),
        (CHR ''b'', 21005196), (CHR ''g'', 17812225), (CHR ''f'', 14906757), (CHR ''h'', 11940046),
        (CHR ''n'', 7525308), (CHR ''c'', 3800230), (CHR ''p'', 1863815), (CHR ''j'', 108907)]),
     (''im'', [(CHR ''e'', 2375938415), (CHR ''p'', 1786015153), (CHR ''a'', 1062144066),
        (CHR ''i'', 904058377), (CHR ''s'', 442627601), (CHR ''m'', 375606700), (CHR ''u'', 262215981),
        (CHR ''o'', 125137848), (CHR ''b'', 105869244), (CHR ''l'', 7825065), (CHR ''n'', 7644062),
        (CHR ''r'', 2326890), (CHR ''y'', 2186054), (CHR ''h'', 780680), (CHR ''k'', 485024),
        (CHR ''c'', 426097), (CHR ''f'', 354719), (CHR ''t'', 135039), (CHR ''d'', 113668)])]"

definition ngrams_i3 :: "(string \<times> (char \<times> nat) list) list" where
  "ngrams_i3 =
    [(''in'', [(CHR ''g'', 21274346765), (CHR ''t'', 5259137203), (CHR ''e'', 4288534823),
        (CHR ''d'', 3367945923), (CHR ''c'', 2666735900), (CHR ''s'', 2571280733),
        (CHR ''a'', 2114329126), (CHR ''i'', 1890856427), (CHR ''f'', 1076772755),
        (CHR ''v'', 745388228), (CHR ''k'', 678407894), (CHR ''u'', 569208816), (CHR ''n'', 439498860),
        (CHR ''o'', 281324945), (CHR ''l'', 197797284), (CHR ''h'', 161888468), (CHR ''j'', 127478948),
        (CHR ''q'', 76484749), (CHR ''y'', 60081809), (CHR ''p'', 56756148), (CHR ''m'', 39250672),
        (CHR ''b'', 32306748), (CHR ''w'', 16455017), (CHR ''r'', 6935459), (CHR ''z'', 5529316),
        (CHR ''x'', 1879668)]),
     (''io'', [(CHR ''n'', 20429151208), (CHR ''u'', 1207801371), (CHR ''r'', 508839340),
        (CHR ''d'', 334302020), (CHR ''l'', 332405244), (CHR ''t'', 98721285), (CHR ''g'', 85684446),
        (CHR ''s'', 68959157), (CHR ''c'', 41897718), (CHR ''m'', 29545457), (CHR ''p'', 25990754),
        (CHR ''x'', 14044683), (CHR ''v'', 14030976), (CHR ''w'', 12300879), (CHR ''a'', 9850832),
        (CHR ''e'', 7372506), (CHR ''i'', 3764792), (CHR ''b'', 2672107), (CHR ''f'', 2215371),
        (CHR ''z'', 1145216), (CHR ''h'', 932542), (CHR ''o'', 196943), (CHR ''q'', 137185),
        (CHR ''j'', 135897), (CHR ''k'', 100852)]),
     (''ip'', [(CHR ''l'', 394734022), (CHR ''a'', 303027552), (CHR ''t'', 268445204), (CHR ''s'', 248709136),
        (CHR ''p'', 208115963), (CHR ''e'', 106350658), (CHR ''i'', 78623906), (CHR ''m'', 76737321),
        (CHR ''h'', 42747383), (CHR ''u'', 41132198), (CHR ''o'', 29935228), (CHR ''r'', 18012199),
        (CHR ''z'', 5831709), (CHR ''b'', 4260804), (CHR ''w'', 2806160), (CHR ''y'', 2301160),
        (CHR ''f'', 575620), (CHR ''k'', 432736), (CHR ''c'', 335878), (CHR ''j'', 120642),
        (CHR ''n'', 107072)]),
     (''iq'', [(CHR ''u'', 312966334), (CHR ''b'', 690386), (CHR ''h'', 159060)]),
     (''ir'', [(CHR ''e'', 1962987711), (CHR ''s'', 1128172195), (CHR ''i'', 431597703), (CHR ''c'', 357955785),
        (CHR ''t'', 341666350), (CHR ''o'', 296163973), (CHR ''m'', 281626031), (CHR ''a'', 280419327),
        (CHR ''d'', 276639697), (CHR ''l'', 207791290), (CHR ''r'', 175293899), (CHR ''g'', 69481056),
        (CHR ''y'', 54486481), (CHR ''u'', 38006861), (CHR ''p'', 25342854), (CHR ''k'', 18964407),
        (CHR ''w'', 13731854), (CHR ''n'', 11366824), (CHR ''v'', 10901762), (CHR ''f'', 7550024),
        (CHR ''b'', 7346845), (CHR ''z'', 1381357), (CHR ''h'', 588454), (CHR ''q'', 279066)]),
     (''is'', [(CHR ''t'', 4686522592), (CHR ''h'', 2073452616), (CHR ''e'', 1567743607),
        (CHR ''i'', 1169927242), (CHR ''s'', 1151333606), (CHR ''c'', 963057656), (CHR ''m'', 717500575),
        (CHR ''o'', 490905753), (CHR ''a'', 379608424), (CHR ''p'', 373832346), (CHR ''l'', 319203683),
        (CHR ''f'', 158811837), (CHR ''k'', 158669386), (CHR ''r'', 100460802), (CHR ''u'', 89361569),
        (CHR ''d'', 81525934), (CHR ''g'', 38113929), (CHR ''b'', 34672452), (CHR ''y'', 13176556),
        (CHR ''q'', 7337968), (CHR ''n'', 7073019), (CHR ''j'', 4378038), (CHR ''v'', 3386683),
        (CHR ''w'', 1937834), (CHR ''z'', 1888424)])]"

definition ngrams_i4 :: "(string \<times> (char \<times> nat) list) list" where
  "ngrams_i4 =
    [(''it'', [(CHR ''h'', 6792956801), (CHR ''i'', 4404816262), (CHR ''y'', 3739020112),
        (CHR ''e'', 2533734957), (CHR ''a'', 1425682181), (CHR ''t'', 1196334263),
        (CHR ''u'', 1143277162), (CHR ''s'', 769971935), (CHR ''o'', 380948511), (CHR ''l'', 187955960),
        (CHR ''c'', 161819870), (CHR ''r'', 129048362), (CHR ''n'', 76995788), (CHR ''m'', 47385442),
        (CHR ''z'', 47018028), (CHR ''f'', 14194526), (CHR ''d'', 2602527), (CHR ''b'', 2285299),
        (CHR ''k'', 1795009), (CHR ''w'', 1757522), (CHR ''v'', 731517), (CHR ''g'', 702725),
        (CHR ''j'', 200860)]),
     (''iu'', [(CHR ''m'', 338965146), (CHR ''s'', 126540207), (CHR ''r'', 6795011), (CHR ''l'', 2079667),
        (CHR ''d'', 1594362), (CHR ''t'', 819193), (CHR ''n'', 773050), (CHR ''c'', 396601),
        (CHR ''e'', 383248), (CHR ''g'', 220912), (CHR ''p'', 148939), (CHR ''k'', 138850),
        (CHR ''x'', 110308)]),
     (''iv'', [(CHR ''e'', 5737958461), (CHR ''i'', 1606123720), (CHR ''a'', 556983166), (CHR ''o'', 71789234),
        (CHR ''y'', 7352733), (CHR ''r'', 3989087), (CHR ''u'', 3165898), (CHR ''l'', 148176),
        (CHR ''t'', 131890)]),
     (''iw'', [(CHR ''a'', 12719391), (CHR ''e'', 1110715), (CHR ''i'', 1090407), (CHR ''o'', 1029890),
        (CHR ''y'', 122891)]),
     (''ix'', [(CHR ''e'', 134614571), (CHR ''t'', 127674482), (CHR ''i'', 26122281), (CHR ''o'', 15614190),
        (CHR ''a'', 8139989), (CHR ''p'', 1445786), (CHR ''b'', 208189), (CHR ''f'', 200376)]),
     (''iy'', [(CHR ''a'', 4084782), (CHR ''e'', 730802), (CHR ''o'', 549074), (CHR ''i'', 100215)]),
     (''iz'', [(CHR ''e'', 1021860422), (CHR ''a'', 545006745), (CHR ''i'', 113682052), (CHR ''o'', 71494572),
        (CHR ''z'', 17842950), (CHR ''u'', 11939164), (CHR ''m'', 919699), (CHR ''v'', 550124),
        (CHR ''s'', 212921), (CHR ''c'', 200181), (CHR ''h'', 169409), (CHR ''y'', 163774),
        (CHR ''n'', 139599), (CHR ''t'', 130465), (CHR ''d'', 126149), (CHR ''r'', 116248)])]"

definition ngrams_j1 :: "(string \<times> (char \<times> nat) list) list" where
  "ngrams_j1 =
    [(''ja'', [(CHR ''m'', 143326758), (CHR ''c'', 138737700), (CHR ''p'', 131483090), (CHR ''n'', 126123025),
        (CHR ''i'', 19223758), (CHR ''r'', 17933797), (CHR ''v'', 13977370), (CHR ''s'', 12884417),
        (CHR ''h'', 11887458), (CHR ''b'', 9632875), (CHR ''k'', 8562594), (CHR ''z'', 7894910),
        (CHR ''w'', 6631527), (CHR ''g'', 5434994), (CHR ''u'', 4355280), (CHR ''d'', 3485883),
        (CHR ''y'', 2761174), (CHR ''l'', 2547703), (CHR ''f'', 2259793), (CHR ''x'', 958352),
        (CHR ''e'', 915720), (CHR ''t'', 740021), (CHR ''q'', 437186), (CHR ''j'', 265247),
        (CHR ''a'', 214877)]),
     (''jc'', [(CHR ''a'', 131520), (CHR ''z'', 113552), (CHR ''i'', 113291)]),
     (''jd'', [(CHR ''b'', 307337), (CHR ''s'', 202175), (CHR ''r'', 106690)]),
     (''je'', [(CHR ''c'', 947396391), (CHR ''s'', 140188201), (CHR ''w'', 122240310), (CHR ''r'', 71777688),
        (CHR ''a'', 50363824), (CHR ''f'', 27579476), (CHR ''n'', 25516635), (CHR ''t'', 8435600),
        (CHR ''e'', 6484249), (CHR ''h'', 5497278), (CHR ''l'', 5085002), (CHR ''o'', 4697416),
        (CHR ''d'', 2503128), (CHR ''u'', 2475412), (CHR ''v'', 1299577), (CHR ''m'', 1226190),
        (CHR ''j'', 1022721), (CHR ''b'', 881039), (CHR ''z'', 601094), (CHR ''k'', 587034),
        (CHR ''p'', 472030)]),
     (''jf'', [(CHR ''e'', 263665)]),
     (''jh'', [(CHR ''o'', 609795), (CHR ''a'', 484990), (CHR ''e'', 171287)]),
     (''ji'', [(CHR ''n'', 11117915), (CHR ''m'', 10050317), (CHR ''l'', 4438247), (CHR ''a'', 4332608),
        (CHR ''t'', 2133777), (CHR ''b'', 1591111), (CHR ''g'', 1495647), (CHR ''v'', 1352206),
        (CHR ''h'', 1245518), (CHR ''d'', 1045876), (CHR ''k'', 738008), (CHR ''i'', 639782),
        (CHR ''w'', 409313), (CHR ''e'', 395295), (CHR ''s'', 284332), (CHR ''r'', 250286),
        (CHR ''f'', 165458), (CHR ''u'', 144811)]),
     (''jj'', [(CHR ''a'', 159836), (CHR ''i'', 131971)]),
     (''jk'', [(CHR ''s'', 399197), (CHR ''o'', 158047), (CHR ''e'', 135096)]),
     (''jl'', [(CHR ''i'', 370034)]),
     (''jm'', [(CHR ''e'', 649620)]),
     (''jn'', [(CHR ''a'', 847217), (CHR ''d'', 100405)]),
     (''jo'', [(CHR ''h'', 314385024), (CHR ''r'', 266712381), (CHR ''i'', 208196666), (CHR ''u'', 207821903),
        (CHR ''y'', 111147560), (CHR ''s'', 80443731), (CHR ''n'', 51606480), (CHR ''b'', 36248656),
        (CHR ''k'', 17285292), (CHR ''a'', 17276070), (CHR ''l'', 8975376), (CHR ''e'', 5878250),
        (CHR ''c'', 4569065), (CHR ''v'', 3577087), (CHR ''g'', 2240585), (CHR ''d'', 1604902),
        (CHR ''t'', 1249626), (CHR ''w'', 1119049), (CHR ''z'', 631315), (CHR ''p'', 608581),
        (CHR ''f'', 563999), (CHR ''m'', 420359), (CHR ''o'', 262895), (CHR ''j'', 100613)]),
     (''jp'', [(CHR ''u'', 1536307), (CHR ''e'', 525916), (CHR ''a'', 411971), (CHR ''h'', 144516),
        (CHR ''r'', 101095)]),
     (''jr'', [(CHR ''a'', 840946), (CHR ''o'', 115499)]),
     (''js'', [(CHR ''o'', 114655), (CHR ''h'', 102943)])]"

definition ngrams_j2 :: "(string \<times> (char \<times> nat) list) list" where
  "ngrams_j2 =
    [(''jt'', [(CHR ''h'', 196305), (CHR ''y'', 130037), (CHR ''i'', 128039), (CHR ''p'', 113548)]),
     (''ju'', [(CHR ''s'', 731017798), (CHR ''d'', 303864018), (CHR ''n'', 196642924), (CHR ''r'', 161720500),
        (CHR ''l'', 126138170), (CHR ''m'', 34265406), (CHR ''a'', 18806035), (CHR ''i'', 16680672),
        (CHR ''g'', 15976953), (CHR ''v'', 15687814), (CHR ''t'', 6675200), (CHR ''p'', 5674106),
        (CHR ''b'', 4735547), (CHR ''x'', 3958402), (CHR ''k'', 1114827), (CHR ''j'', 127484),
        (CHR ''e'', 124002), (CHR ''c'', 119941)]),
     (''jv'', [(CHR ''o'', 149495)]),
     (''jy'', [(CHR ''a'', 476583), (CHR ''o'', 129772)]),
     (''jz'', [(CHR ''e'', 111349)])]"

definition ngrams_k1 :: "(string \<times> (char \<times> nat) list) list" where
  "ngrams_k1 =
    [(''ka'', [(CHR ''n'', 63991967), (CHR ''b'', 63737559), (CHR ''r'', 53246215), (CHR ''g'', 49556909),
        (CHR ''t'', 45398943), (CHR ''l'', 29274649), (CHR ''y'', 22199574), (CHR ''d'', 13559415),
        (CHR ''s'', 12044674), (CHR ''m'', 11206631), (CHR ''p'', 8255998), (CHR ''i'', 7853381),
        (CHR ''u'', 6926451), (CHR ''h'', 5664227), (CHR ''z'', 3897672), (CHR ''w'', 3728486),
        (CHR ''f'', 2821402), (CHR ''c'', 1612145), (CHR ''o'', 1409865), (CHR ''v'', 1214748),
        (CHR ''a'', 852372), (CHR ''e'', 786273), (CHR ''k'', 645425), (CHR ''j'', 259935),
        (CHR ''x'', 129508)]),
     (''kb'', [(CHR ''o'', 11105528), (CHR ''u'', 2675809), (CHR ''a'', 2601397), (CHR ''e'', 2291430),
        (CHR ''i'', 1988061), (CHR ''r'', 1266028), (CHR ''p'', 498870), (CHR ''y'', 219485)]),
     (''kc'', [(CHR ''a'', 2968963), (CHR ''l'', 458685), (CHR ''o'', 421267), (CHR ''r'', 260508),
        (CHR ''h'', 161173)]),
     (''kd'', [(CHR ''o'', 11617571), (CHR ''a'', 2451081), (CHR ''r'', 2090227), (CHR ''e'', 363502)]),
     (''ke'', [(CHR ''d'', 947534105), (CHR ''n'', 597467063), (CHR ''r'', 510481690), (CHR ''t'', 435284805),
        (CHR ''s'', 379361483), (CHR ''e'', 273240167), (CHR ''l'', 222231192), (CHR ''p'', 112803935),
        (CHR ''y'', 85702289), (CHR ''w'', 33666466), (CHR ''i'', 11360634), (CHR ''m'', 10671798),
        (CHR ''a'', 9374940), (CHR ''f'', 7089654), (CHR ''o'', 5561836), (CHR ''g'', 5424691),
        (CHR ''v'', 5124374), (CHR ''h'', 4759456), (CHR ''u'', 3765139), (CHR ''b'', 1371606),
        (CHR ''c'', 419811), (CHR ''k'', 113987)]),
     (''kf'', [(CHR ''a'', 20205062), (CHR ''u'', 11958892), (CHR ''o'', 8027539), (CHR ''i'', 1554610),
        (CHR ''l'', 1379456), (CHR ''e'', 578484), (CHR ''r'', 468375)]),
     (''kg'', [(CHR ''r'', 53844038), (CHR ''u'', 401844), (CHR ''o'', 304038), (CHR ''a'', 243256)]),
     (''kh'', [(CHR ''a'', 35018124), (CHR ''o'', 19894231), (CHR ''e'', 6738319), (CHR ''s'', 5518026),
        (CHR ''r'', 3057738), (CHR ''i'', 1698508), (CHR ''t'', 1488613), (CHR ''u'', 1454822),
        (CHR ''m'', 1441404), (CHR ''y'', 794628), (CHR ''w'', 347598), (CHR ''p'', 173253),
        (CHR ''b'', 120853)]),
     (''ki'', [(CHR ''n'', 2144933969), (CHR ''l'', 250645813), (CHR ''s'', 72806001), (CHR ''d'', 47823407),
        (CHR ''t'', 46423171), (CHR ''r'', 34325032), (CHR ''e'', 33440970), (CHR ''c'', 16239166),
        (CHR ''m'', 14905773), (CHR ''p'', 12390531), (CHR ''a'', 11611654), (CHR ''o'', 2084960),
        (CHR ''i'', 2052732), (CHR ''b'', 1722425), (CHR ''k'', 1477234), (CHR ''v'', 945949),
        (CHR ''f'', 714005), (CHR ''w'', 614237), (CHR ''y'', 353105), (CHR ''u'', 252797),
        (CHR ''g'', 128937)]),
     (''kj'', [(CHR ''a'', 883243), (CHR ''e'', 331688), (CHR ''o'', 330056), (CHR ''v'', 164492)]),
     (''kk'', [(CHR ''e'', 5720650), (CHR ''a'', 2732053), (CHR ''i'', 1885380), (CHR ''h'', 349555),
        (CHR ''u'', 330686), (CHR ''o'', 290612), (CHR ''n'', 262687)]),
     (''kl'', [(CHR ''y'', 114000641), (CHR ''e'', 89760193), (CHR ''i'', 46532278), (CHR ''a'', 29416970),
        (CHR ''o'', 10487452), (CHR ''u'', 5301612)])]"

definition ngrams_k2 :: "(string \<times> (char \<times> nat) list) list" where
  "ngrams_k2 =
    [(''km'', [(CHR ''a'', 19109171), (CHR ''e'', 11368041), (CHR ''o'', 703141), (CHR ''u'', 544111),
        (CHR ''i'', 192999)]),
     (''kn'', [(CHR ''o'', 1087881956), (CHR ''e'', 293842643), (CHR ''i'', 54131878), (CHR ''a'', 9662239),
        (CHR ''u'', 3546777)]),
     (''ko'', [(CHR ''r'', 41556156), (CHR ''n'', 37375143), (CHR ''t'', 9789670), (CHR ''l'', 7996336),
        (CHR ''v'', 7943766), (CHR ''u'', 7273262), (CHR ''c'', 6495650), (CHR ''s'', 5933868),
        (CHR ''h'', 5498506), (CHR ''k'', 3908445), (CHR ''w'', 3592732), (CHR ''b'', 3131220),
        (CHR ''o'', 3119582), (CHR ''d'', 2573141), (CHR ''m'', 2546661), (CHR ''p'', 2470972),
        (CHR ''f'', 1997636), (CHR ''e'', 1689194), (CHR ''i'', 979645), (CHR ''g'', 845143),
        (CHR ''z'', 669995), (CHR ''y'', 577744), (CHR ''j'', 494742), (CHR ''a'', 360656)]),
     (''kp'', [(CHR ''l'', 7642502), (CHR ''i'', 3943223), (CHR ''o'', 3641243), (CHR ''a'', 2365739),
        (CHR ''e'', 575175), (CHR ''m'', 137370), (CHR ''r'', 127797)]),
     (''kr'', [(CHR ''a'', 22763015), (CHR ''i'', 19076212), (CHR ''u'', 17971703), (CHR ''o'', 7415793),
        (CHR ''e'', 4723411), (CHR ''s'', 1012510), (CHR ''y'', 682708), (CHR ''t'', 307518),
        (CHR ''z'', 111380)]),
     (''ks'', [(CHR ''o'', 34490692), (CHR ''h'', 33991363), (CHR ''t'', 9910133), (CHR ''e'', 4914237),
        (CHR ''g'', 4457463), (CHR ''m'', 4327551), (CHR ''p'', 3640680), (CHR ''b'', 2649655),
        (CHR ''a'', 1996754), (CHR ''i'', 1851947), (CHR ''c'', 1265855), (CHR ''k'', 901740),
        (CHR ''w'', 861894), (CHR ''l'', 551996), (CHR ''s'', 376094), (CHR ''d'', 366182),
        (CHR ''u'', 354691), (CHR ''r'', 187950), (CHR ''v'', 178059), (CHR ''z'', 165621),
        (CHR ''y'', 149254), (CHR ''n'', 132334)]),
     (''kt'', [(CHR ''o'', 12033529), (CHR ''a'', 4202571), (CHR ''i'', 3996177), (CHR ''h'', 3870547),
        (CHR ''u'', 839773), (CHR ''r'', 839213), (CHR ''e'', 494469)]),
     (''ku'', [(CHR ''l'', 15155911), (CHR ''p'', 12715377), (CHR ''r'', 10194356), (CHR ''n'', 8625881),
        (CHR ''m'', 3826280), (CHR ''w'', 3605018), (CHR ''a'', 2801582), (CHR ''h'', 2541871),
        (CHR ''s'', 2451743), (CHR ''b'', 2128429), (CHR ''o'', 2000751), (CHR ''t'', 1509723),
        (CHR ''g'', 1358832), (CHR ''d'', 1221349), (CHR ''y'', 1120761), (CHR ''k'', 795635),
        (CHR ''z'', 782274), (CHR ''f'', 522823), (CHR ''i'', 433642), (CHR ''e'', 407918),
        (CHR ''c'', 391096)]),
     (''kv'', [(CHR ''i'', 1605698), (CHR ''a'', 410709), (CHR ''d'', 402456)]),
     (''kw'', [(CHR ''a'', 38307817), (CHR ''o'', 8103448), (CHR ''e'', 6838601), (CHR ''i'', 3971671),
        (CHR ''h'', 639745), (CHR ''r'', 329009)]),
     (''kx'', [(CHR ''p'', 148265)]),
     (''ky'', [(CHR ''o'', 15160861), (CHR ''l'', 7262388), (CHR ''a'', 4626975), (CHR ''r'', 1501687),
        (CHR ''s'', 1262201), (CHR ''u'', 1213754), (CHR ''e'', 961672), (CHR ''i'', 779706),
        (CHR ''w'', 403443), (CHR ''p'', 315580), (CHR ''n'', 312035), (CHR ''d'', 185503),
        (CHR ''m'', 140738)])]"

definition ngrams_l1 :: "(string \<times> (char \<times> nat) list) list" where
  "ngrams_l1 =
    [(''la'', [(CHR ''t'', 3126186502), (CHR ''n'', 2501956611), (CHR ''r'', 2206167687),
        (CHR ''c'', 1255507900), (CHR ''s'', 1206532901), (CHR ''i'', 686628728), (CHR ''y'', 634849551),
        (CHR ''b'', 595829971), (CHR ''m'', 276573972), (CHR ''d'', 269972701), (CHR ''u'', 242054413),
        (CHR ''w'', 237061304), (CHR ''g'', 214741824), (CHR ''v'', 157236668), (CHR ''k'', 98251029),
        (CHR ''p'', 93730641), (CHR ''x'', 47076943), (CHR ''z'', 37906543), (CHR ''h'', 27516786),
        (CHR ''e'', 14758058), (CHR ''l'', 7487964), (CHR ''f'', 6922440), (CHR ''q'', 5778183),
        (CHR ''o'', 3904896), (CHR ''a'', 1908888), (CHR ''j'', 1106635)]),
     (''lb'', [(CHR ''e'', 62580868), (CHR ''o'', 33247177), (CHR ''a'', 27098220), (CHR ''u'', 19682617),
        (CHR ''r'', 6646103), (CHR ''i'', 5139983), (CHR ''y'', 4917881), (CHR ''s'', 3866991),
        (CHR ''l'', 1740428)]),
     (''lc'', [(CHR ''u'', 115422545), (CHR ''o'', 106023699), (CHR ''i'', 28931982), (CHR ''h'', 24565190),
        (CHR ''a'', 23802739), (CHR ''e'', 15473810), (CHR ''r'', 1729877), (CHR ''y'', 1037901),
        (CHR ''k'', 288531), (CHR ''l'', 193471), (CHR ''s'', 164065)]),
     (''ld'', [(CHR ''e'', 403514580), (CHR ''i'', 371006584), (CHR ''r'', 351774641), (CHR ''s'', 194243301),
        (CHR ''o'', 41207381), (CHR ''l'', 34150971), (CHR ''h'', 29903154), (CHR ''w'', 21256075),
        (CHR ''a'', 10772711), (CHR ''b'', 7519520), (CHR ''n'', 7127724), (CHR ''f'', 5568548),
        (CHR ''m'', 5426564), (CHR ''t'', 3666476), (CHR ''u'', 3611748), (CHR ''c'', 3490376),
        (CHR ''v'', 2423022), (CHR ''y'', 2078774), (CHR ''g'', 1436383), (CHR ''p'', 122039)]),
     (''le'', [(CHR ''s'', 2791661409), (CHR ''a'', 2128287180), (CHR ''d'', 1827837707),
        (CHR ''c'', 1200865303), (CHR ''n'', 984931135), (CHR ''m'', 969487628), (CHR ''t'', 846148204),
        (CHR ''r'', 704036849), (CHR ''g'', 672581421), (CHR ''v'', 581141039), (CHR ''f'', 327086190),
        (CHR ''y'', 272728317), (CHR ''x'', 270640664), (CHR ''e'', 192426514), (CHR ''l'', 90636023),
        (CHR ''i'', 88649139), (CHR ''o'', 80823706), (CHR ''p'', 78186220), (CHR ''b'', 72130660),
        (CHR ''u'', 64991264), (CHR ''w'', 58610382), (CHR ''h'', 10546230), (CHR ''z'', 3187433),
        (CHR ''k'', 2262164), (CHR ''j'', 2126260), (CHR ''q'', 1523967)]),
     (''lf'', [(CHR ''i'', 65830828), (CHR ''a'', 60955310), (CHR ''u'', 24274698), (CHR ''r'', 22729930),
        (CHR ''o'', 16940250), (CHR ''e'', 11511073), (CHR ''t'', 10316473), (CHR ''w'', 5139581),
        (CHR ''g'', 2981030), (CHR ''f'', 2896061), (CHR ''s'', 2251994), (CHR ''h'', 1812656),
        (CHR ''c'', 1730121), (CHR ''l'', 1684683), (CHR ''d'', 913244), (CHR ''p'', 910445),
        (CHR ''v'', 171411), (CHR ''b'', 160587), (CHR ''k'', 129290), (CHR ''m'', 101283)]),
     (''lg'', [(CHR ''a'', 45304994), (CHR ''e'', 44063505), (CHR ''i'', 32784559), (CHR ''o'', 25313727),
        (CHR ''r'', 19246324), (CHR ''u'', 1478777), (CHR ''h'', 340121), (CHR ''b'', 182931),
        (CHR ''t'', 140421), (CHR ''w'', 132306), (CHR ''l'', 132128)]),
     (''lh'', [(CHR ''i'', 14065490), (CHR ''o'', 11906164), (CHR ''e'', 8030826), (CHR ''a'', 7176033),
        (CHR ''y'', 241037), (CHR ''r'', 213436)])]"

definition ngrams_l2 :: "(string \<times> (char \<times> nat) list) list" where
  "ngrams_l2 =
    [(''li'', [(CHR ''t'', 2932093614), (CHR ''n'', 2713320607), (CHR ''c'', 1856108751),
        (CHR ''s'', 1680138971), (CHR ''e'', 1303949979), (CHR ''g'', 1066784046),
        (CHR ''k'', 1013445015), (CHR ''f'', 917646428), (CHR ''a'', 842188697), (CHR ''v'', 677119853),
        (CHR ''m'', 552521690), (CHR ''z'', 512069627), (CHR ''b'', 373921460), (CHR ''o'', 300185263),
        (CHR ''d'', 242727623), (CHR ''p'', 207450537), (CHR ''q'', 85633371), (CHR ''u'', 34029325),
        (CHR ''l'', 30259482), (CHR ''h'', 17153707), (CHR ''r'', 10652331), (CHR ''x'', 10540829),
        (CHR ''i'', 4523148), (CHR ''j'', 3383669), (CHR ''w'', 500621), (CHR ''y'', 344290)]),
     (''lj'', [(CHR ''u'', 583643), (CHR ''a'', 374677), (CHR ''e'', 184692), (CHR ''o'', 108907)]),
     (''lk'', [(CHR ''e'', 99460054), (CHR ''i'', 93184520), (CHR ''s'', 40977581), (CHR ''a'', 23914636),
        (CHR ''y'', 9172638), (CHR ''l'', 7527886), (CHR ''n'', 5453015), (CHR ''w'', 2468335),
        (CHR ''h'', 2067153), (CHR ''m'', 1148453), (CHR ''t'', 1146261), (CHR ''o'', 864565),
        (CHR ''b'', 560346)]),
     (''ll'', [(CHR ''y'', 2527757315), (CHR ''e'', 2165334747), (CHR ''o'', 1256384176),
        (CHR ''i'', 1235913264), (CHR ''a'', 629662319), (CHR ''s'', 566591623), (CHR ''u'', 285180158),
        (CHR ''n'', 42163692), (CHR ''m'', 26168050), (CHR ''f'', 9316367), (CHR ''b'', 7737962),
        (CHR ''p'', 6434593), (CHR ''w'', 5768671), (CHR ''t'', 4181040), (CHR ''d'', 2192510),
        (CHR ''k'', 1924205), (CHR ''r'', 1845623), (CHR ''h'', 1828568), (CHR ''g'', 1446859),
        (CHR ''c'', 1151511), (CHR ''l'', 908798), (CHR ''v'', 281767), (CHR ''q'', 110044)]),
     (''lm'', [(CHR ''o'', 267966009), (CHR ''e'', 77003641), (CHR ''s'', 48666964), (CHR ''a'', 41283012),
        (CHR ''i'', 39731775), (CHR ''l'', 5160338), (CHR ''u'', 4866708), (CHR ''m'', 2252556),
        (CHR ''y'', 1785911), (CHR ''n'', 1381844), (CHR ''h'', 1241994), (CHR ''q'', 283678),
        (CHR ''b'', 230405), (CHR ''w'', 195820), (CHR ''g'', 169100)]),
     (''ln'', [(CHR ''e'', 95981175), (CHR ''u'', 7120655), (CHR ''a'', 4002379), (CHR ''d'', 3509457),
        (CHR ''s'', 3468940), (CHR ''t'', 3011500), (CHR ''i'', 1181277), (CHR ''c'', 789647),
        (CHR ''o'', 594945), (CHR ''f'', 558683), (CHR ''w'', 199406), (CHR ''v'', 148550)]),
     (''lo'', [(CHR ''w'', 1791184398), (CHR ''n'', 1586213888), (CHR ''g'', 1061530854),
        (CHR ''s'', 937140387), (CHR ''o'', 914861991), (CHR ''r'', 735950692), (CHR ''p'', 704959284),
        (CHR ''c'', 689168035), (CHR ''y'', 408621512), (CHR ''v'', 383731771), (CHR ''u'', 379435983),
        (CHR ''t'', 260466719), (CHR ''a'', 204767898), (CHR ''b'', 109093414), (CHR ''m'', 95909676),
        (CHR ''i'', 65212764), (CHR ''d'', 61024506), (CHR ''q'', 18605036), (CHR ''f'', 16843751),
        (CHR ''e'', 8884938), (CHR ''l'', 8495947), (CHR ''h'', 3657841), (CHR ''k'', 1960620),
        (CHR ''z'', 1757432), (CHR ''x'', 1341734)]),
     (''lp'', [(CHR ''h'', 107722203), (CHR ''e'', 52625366), (CHR ''i'', 37782948), (CHR ''s'', 29299864),
        (CHR ''f'', 24101719), (CHR ''t'', 22365892), (CHR ''a'', 12920582), (CHR ''l'', 12355887),
        (CHR ''o'', 10049939), (CHR ''r'', 5339610), (CHR ''y'', 1771731), (CHR ''u'', 436078),
        (CHR ''m'', 316739), (CHR ''w'', 276980)])]"

definition ngrams_l3 :: "(string \<times> (char \<times> nat) list) list" where
  "ngrams_l3 =
    [(''lq'', [(CHR ''u'', 3361915)]),
     (''lr'', [(CHR ''e'', 198939074), (CHR ''o'', 41664122), (CHR ''y'', 28073202), (CHR ''i'', 5847277),
        (CHR ''a'', 1249717), (CHR ''u'', 1015140), (CHR ''b'', 986580), (CHR ''r'', 173423)]),
     (''ls'', [(CHR ''o'', 1113225440), (CHR ''e'', 255006125), (CHR ''i'', 53870490), (CHR ''t'', 47967051),
        (CHR ''h'', 21078040), (CHR ''a'', 12438381), (CHR ''s'', 3285317), (CHR ''c'', 2673551),
        (CHR ''y'', 2573803), (CHR ''b'', 2290687), (CHR ''u'', 1717808), (CHR ''w'', 1443852),
        (CHR ''d'', 1361293), (CHR ''k'', 1266752), (CHR ''p'', 1254948), (CHR ''l'', 877830),
        (CHR ''r'', 869521), (CHR ''f'', 145117), (CHR ''m'', 119294)]),
     (''lt'', [(CHR ''h'', 574451521), (CHR ''i'', 458665847), (CHR ''u'', 365484469), (CHR ''e'', 351725952),
        (CHR ''s'', 269187346), (CHR ''y'', 183850932), (CHR ''a'', 159897162), (CHR ''o'', 98916081),
        (CHR ''r'', 46791631), (CHR ''z'', 9257128), (CHR ''m'', 3381169), (CHR ''l'', 1468608),
        (CHR ''w'', 868974), (CHR ''k'', 769374), (CHR ''p'', 618014), (CHR ''d'', 495102),
        (CHR ''n'', 292534), (CHR ''t'', 257212), (CHR ''b'', 191451), (CHR ''g'', 147958)]),
     (''lu'', [(CHR ''e'', 740260220), (CHR ''t'', 585850574), (CHR ''d'', 564985772), (CHR ''s'', 537467083),
        (CHR ''m'', 416910460), (CHR ''n'', 174578682), (CHR ''a'', 157263351), (CHR ''c'', 147580854),
        (CHR ''r'', 136784976), (CHR ''b'', 86148094), (CHR ''i'', 62218826), (CHR ''x'', 47164379),
        (CHR ''l'', 37519077), (CHR ''g'', 24891150), (CHR ''o'', 21516099), (CHR ''k'', 19669823),
        (CHR ''f'', 8227510), (CHR ''p'', 7647471), (CHR ''v'', 4584037), (CHR ''w'', 1742989),
        (CHR ''z'', 1045648), (CHR ''h'', 917364), (CHR ''y'', 790583), (CHR ''j'', 783624),
        (CHR ''q'', 106499)]),
     (''lv'', [(CHR ''e'', 788914661), (CHR ''i'', 108242135), (CHR ''a'', 75537677), (CHR ''o'', 3025684),
        (CHR ''d'', 1448201), (CHR ''u'', 1361709), (CHR ''y'', 430606)]),
     (''lw'', [(CHR ''a'', 343420004), (CHR ''o'', 5464860), (CHR ''i'', 2723285), (CHR ''e'', 2548448),
        (CHR ''y'', 1089947), (CHR ''r'', 570366)]),
     (''lx'', [(CHR ''x'', 3391954), (CHR ''i'', 1222870), (CHR ''v'', 905898)]),
     (''ly'', [(CHR ''s'', 271017779), (CHR ''i'', 132861282), (CHR ''m'', 68269235), (CHR ''t'', 55238994),
        (CHR ''n'', 43940978), (CHR ''z'', 41569794), (CHR ''c'', 27689917), (CHR ''p'', 17695249),
        (CHR ''r'', 13541721), (CHR ''w'', 11700066), (CHR ''o'', 10602891), (CHR ''d'', 8184216),
        (CHR ''g'', 7537106), (CHR ''e'', 7249005), (CHR ''l'', 6873489), (CHR ''a'', 6173185),
        (CHR ''b'', 3142298), (CHR ''u'', 1530937), (CHR ''h'', 1324865), (CHR ''x'', 1065860),
        (CHR ''v'', 856543), (CHR ''f'', 399886), (CHR ''k'', 327350)]),
     (''lz'', [(CHR ''h'', 3346976), (CHR ''a'', 1974254), (CHR ''e'', 1767466), (CHR ''b'', 1244684),
        (CHR ''n'', 416144), (CHR ''m'', 349781), (CHR ''i'', 291083), (CHR ''o'', 119808)])]"

definition ngrams_m1 :: "(string \<times> (char \<times> nat) list) list" where
  "ngrams_m1 =
    [(''ma'', [(CHR ''n'', 3561310274), (CHR ''t'', 2151207570), (CHR ''r'', 1768594810),
        (CHR ''l'', 1289453127), (CHR ''k'', 891499062), (CHR ''d'', 851885281), (CHR ''i'', 820848063),
        (CHR ''g'', 601230217), (CHR ''s'', 566823665), (CHR ''c'', 325405131), (CHR ''j'', 281231473),
        (CHR ''x'', 108043093), (CHR ''y'', 94416474), (CHR ''m'', 47148390), (CHR ''p'', 40813593),
        (CHR ''z'', 33895141), (CHR ''h'', 32076026), (CHR ''u'', 30294998), (CHR ''b'', 30008630),
        (CHR ''e'', 5863658), (CHR ''o'', 5007555), (CHR ''f'', 3251663), (CHR ''a'', 2768556),
        (CHR ''v'', 1897655), (CHR ''w'', 910028), (CHR ''q'', 666661)]),
     (''mb'', [(CHR ''e'', 1376044343), (CHR ''i'', 277916471), (CHR ''l'', 246462577), (CHR ''r'', 180586601),
        (CHR ''o'', 146545612), (CHR ''a'', 130496380), (CHR ''u'', 51915273), (CHR ''s'', 34567425),
        (CHR ''n'', 1975124), (CHR ''d'', 1255969), (CHR ''h'', 1162428), (CHR ''y'', 955886),
        (CHR ''p'', 631554), (CHR ''f'', 503024), (CHR ''b'', 459486), (CHR ''t'', 208167),
        (CHR ''m'', 180886)]),
     (''mc'', [(CHR ''c'', 28294390), (CHR ''g'', 16848277), (CHR ''k'', 11155487), (CHR ''d'', 9495280),
        (CHR ''l'', 8616097), (CHR ''n'', 5610927), (CHR ''i'', 5003961), (CHR ''a'', 4111302),
        (CHR ''m'', 4055181), (CHR ''h'', 3445708), (CHR ''f'', 1648046), (CHR ''p'', 1624160),
        (CHR ''o'', 1229705), (CHR ''b'', 1195954), (CHR ''e'', 1058999), (CHR ''r'', 615241),
        (CHR ''q'', 500346), (CHR ''w'', 476461), (CHR ''t'', 449420), (CHR ''v'', 326889),
        (CHR ''s'', 118701)]),
     (''md'', [(CHR ''e'', 3189347), (CHR ''a'', 1129056), (CHR ''r'', 577767), (CHR ''u'', 216740),
        (CHR ''l'', 163808), (CHR ''m'', 142906), (CHR ''i'', 126188)]),
     (''me'', [(CHR ''n'', 6435072921), (CHR ''r'', 1863897921), (CHR ''d'', 1510404424),
        (CHR ''s'', 1334137919), (CHR ''t'', 1254932468), (CHR ''a'', 1061025115),
        (CHR ''m'', 670693509), (CHR ''l'', 270478198), (CHR ''e'', 243780772), (CHR ''w'', 136621102),
        (CHR ''c'', 134193064), (CHR ''o'', 82467604), (CHR ''x'', 76195490), (CHR ''h'', 25770780),
        (CHR ''b'', 17150910), (CHR ''i'', 15984775), (CHR ''g'', 12865004), (CHR ''y'', 11359428),
        (CHR ''f'', 3658050), (CHR ''z'', 3309597), (CHR ''p'', 2895513), (CHR ''v'', 2315848),
        (CHR ''u'', 1979612), (CHR ''k'', 1326338), (CHR ''j'', 407867)]),
     (''mf'', [(CHR ''o'', 79682682), (CHR ''u'', 8278526), (CHR ''e'', 6177915), (CHR ''i'', 2416957),
        (CHR ''r'', 1117011), (CHR ''l'', 639709), (CHR ''y'', 163209), (CHR ''s'', 105652)]),
     (''mg'', [(CHR ''a'', 577972), (CHR ''m'', 230056), (CHR ''r'', 169100), (CHR ''e'', 100767)]),
     (''mh'', [(CHR ''o'', 3746161), (CHR ''e'', 2725370), (CHR ''a'', 819966), (CHR ''g'', 808408),
        (CHR ''i'', 247427), (CHR ''u'', 110951)])]"

definition ngrams_m2 :: "(string \<times> (char \<times> nat) list) list" where
  "ngrams_m2 =
    [(''mi'', [(CHR ''n'', 2993364356), (CHR ''l'', 1435911924), (CHR ''t'', 1077989393),
        (CHR ''s'', 1063901991), (CHR ''c'', 838445152), (CHR ''g'', 540530453), (CHR ''d'', 280777918),
        (CHR ''r'', 159188573), (CHR ''x'', 97343631), (CHR ''e'', 92522759), (CHR ''a'', 73574756),
        (CHR ''z'', 55119717), (CHR ''u'', 21346990), (CHR ''k'', 14819489), (CHR ''m'', 14483510),
        (CHR ''o'', 13735697), (CHR ''f'', 7181328), (CHR ''i'', 3124571), (CHR ''p'', 2562467),
        (CHR ''b'', 1943362), (CHR ''q'', 1514050), (CHR ''h'', 1436658), (CHR ''y'', 843968),
        (CHR ''j'', 579704), (CHR ''w'', 115499), (CHR ''v'', 111961)]),
     (''mk'', [(CHR ''i'', 909973), (CHR ''e'', 599197), (CHR ''h'', 322346), (CHR ''a'', 149328)]),
     (''ml'', [(CHR ''y'', 46858263), (CHR ''e'', 23816721), (CHR ''i'', 7929039), (CHR ''a'', 3771667),
        (CHR ''o'', 1885054), (CHR ''u'', 796887), (CHR ''l'', 724749), (CHR ''n'', 182493),
        (CHR ''r'', 125982)]),
     (''mm'', [(CHR ''e'', 762172481), (CHR ''u'', 514873401), (CHR ''i'', 484468054), (CHR ''o'', 476104007),
        (CHR ''a'', 376828683), (CHR ''y'', 24175569), (CHR ''s'', 1826748), (CHR ''l'', 1372410),
        (CHR ''t'', 1006068), (CHR ''h'', 808408), (CHR ''p'', 727033), (CHR ''m'', 652290),
        (CHR ''r'', 212319), (CHR ''w'', 168755)]),
     (''mn'', [(CHR ''e'', 47188927), (CHR ''i'', 34295204), (CHR ''s'', 30133349), (CHR ''a'', 26112861),
        (CHR ''l'', 4402205), (CHR ''o'', 3555643), (CHR ''y'', 891921), (CHR ''c'', 682749),
        (CHR ''u'', 456003), (CHR ''d'', 336661)]),
     (''mo'', [(CHR ''r'', 2446383049), (CHR ''n'', 1949701332), (CHR ''s'', 1334663340),
        (CHR ''d'', 740610691), (CHR ''t'', 725995445), (CHR ''u'', 670389177), (CHR ''v'', 619830431),
        (CHR ''m'', 193412969), (CHR ''l'', 163120719), (CHR ''o'', 142863726), (CHR ''c'', 133116070),
        (CHR ''b'', 71454699), (CHR ''i'', 56448360), (CHR ''k'', 50093780), (CHR ''g'', 43310193),
        (CHR ''h'', 15363699), (CHR ''p'', 11273756), (CHR ''a'', 10705314), (CHR ''z'', 8731082),
        (CHR ''w'', 4516610), (CHR ''y'', 4082295), (CHR ''e'', 4022042), (CHR ''f'', 1827874),
        (CHR ''x'', 902520), (CHR ''j'', 471441)]),
     (''mp'', [(CHR ''l'', 2114102812), (CHR ''o'', 1098852475), (CHR ''a'', 984012998), (CHR ''e'', 660755351),
        (CHR ''t'', 520294655), (CHR ''r'', 445303671), (CHR ''u'', 233399172), (CHR ''h'', 197851211),
        (CHR ''i'', 170007428), (CHR ''s'', 100757469), (CHR ''b'', 14321447), (CHR ''y'', 4197121),
        (CHR ''k'', 3332829), (CHR ''m'', 2246246), (CHR ''f'', 1992334), (CHR ''g'', 1301951),
        (CHR ''d'', 1044613), (CHR ''n'', 884496), (CHR ''p'', 119427), (CHR ''q'', 113661)]),
     (''mq'', [(CHR ''u'', 203434), (CHR ''v'', 180552)]),
     (''mr'', [(CHR ''a'', 13024031), (CHR ''n'', 3927262), (CHR ''o'', 2609966), (CHR ''i'', 1726593),
        (CHR ''e'', 432349), (CHR ''u'', 235084), (CHR ''t'', 148014), (CHR ''y'', 115938),
        (CHR ''s'', 110609)])]"

definition ngrams_m3 :: "(string \<times> (char \<times> nat) list) list" where
  "ngrams_m3 =
    [(''ms'', [(CHR ''e'', 536753421), (CHR ''t'', 126616799), (CHR ''o'', 22618893), (CHR ''h'', 6060487),
        (CHR ''y'', 4688411), (CHR ''c'', 4601426), (CHR ''a'', 3993049), (CHR ''i'', 2814479),
        (CHR ''b'', 2538481), (CHR ''k'', 2447228), (CHR ''p'', 1630566), (CHR ''d'', 1241903),
        (CHR ''f'', 1046728), (CHR ''g'', 833544), (CHR ''u'', 543714), (CHR ''m'', 417000),
        (CHR ''s'', 367173), (CHR ''l'', 159021), (CHR ''w'', 147780)]),
     (''mt'', [(CHR ''h'', 10279341), (CHR ''e'', 6451197), (CHR ''o'', 592541), (CHR ''p'', 480311),
        (CHR ''d'', 344371), (CHR ''r'', 326000), (CHR ''b'', 240398), (CHR ''s'', 191498),
        (CHR ''a'', 117943)]),
     (''mu'', [(CHR ''s'', 1082812569), (CHR ''c'', 630921987), (CHR ''n'', 580177324), (CHR ''l'', 472919109),
        (CHR ''r'', 125395297), (CHR ''m'', 123123834), (CHR ''t'', 107204012), (CHR ''e'', 28963598),
        (CHR ''d'', 15547376), (CHR ''g'', 10091743), (CHR ''h'', 8115239), (CHR ''f'', 5585831),
        (CHR ''i'', 2974714), (CHR ''z'', 2924066), (CHR ''k'', 1715534), (CHR ''j'', 1212627),
        (CHR ''o'', 594444), (CHR ''b'', 438268), (CHR ''y'', 133538), (CHR ''a'', 131403),
        (CHR ''p'', 118246)]),
     (''mv'', [(CHR ''e'', 2425335), (CHR ''i'', 990157)]),
     (''mw'', [(CHR ''e'', 7431396), (CHR ''o'', 2856855), (CHR ''a'', 1920080), (CHR ''i'', 514029),
        (CHR ''r'', 168755)]),
     (''my'', [(CHR ''s'', 155564817), (CHR ''t'', 42242388), (CHR ''o'', 16610779), (CHR ''c'', 12168564),
        (CHR ''e'', 12007059), (CHR ''r'', 10919233), (CHR ''l'', 4293599), (CHR ''a'', 2640248),
        (CHR ''d'', 1117088), (CHR ''g'', 1009857), (CHR ''n'', 809523), (CHR ''x'', 552498),
        (CHR ''k'', 523072)]),
     (''mz'', [(CHR ''a'', 199033), (CHR ''i'', 144618)])]"

definition ngrams_n1 :: "(string \<times> (char \<times> nat) list) list" where
  "ngrams_n1 =
    [(''na'', [(CHR ''l'', 3327189574), (CHR ''t'', 2576239931), (CHR ''r'', 596719846), (CHR ''m'', 592752722),
        (CHR ''n'', 564797459), (CHR ''g'', 363688702), (CHR ''b'', 277586753), (CHR ''d'', 151704274),
        (CHR ''c'', 131227399), (CHR ''s'', 130149712), (CHR ''v'', 105033944), (CHR ''p'', 89369380),
        (CHR ''i'', 80422476), (CHR ''u'', 42805740), (CHR ''k'', 38700776), (CHR ''z'', 22030919),
        (CHR ''e'', 22023021), (CHR ''h'', 19850468), (CHR ''w'', 16007429), (CHR ''f'', 9624035),
        (CHR ''y'', 5569443), (CHR ''a'', 5413695), (CHR ''o'', 3618261), (CHR ''x'', 1227784),
        (CHR ''j'', 646989), (CHR ''q'', 150110)]),
     (''nb'', [(CHR ''e'', 38865054), (CHR ''u'', 31121129), (CHR ''o'', 17495861), (CHR ''a'', 10725781),
        (CHR ''r'', 9938567), (CHR ''l'', 3717793), (CHR ''i'', 2633001), (CHR ''y'', 2544801)]),
     (''nc'', [(CHR ''e'', 6936218361), (CHR ''i'', 1086913357), (CHR ''l'', 710461986), (CHR ''h'', 623552319),
        (CHR ''o'', 593429965), (CHR ''t'', 582944044), (CHR ''r'', 514033470), (CHR ''y'', 471086019),
        (CHR ''a'', 83443772), (CHR ''u'', 64472070), (CHR ''k'', 8774532), (CHR ''s'', 7147803),
        (CHR ''z'', 714063), (CHR ''c'', 516346), (CHR ''n'', 272240), (CHR ''m'', 116563)]),
     (''nd'', [(CHR ''e'', 3371649064), (CHR ''i'', 2324446180), (CHR ''s'', 1349930022),
        (CHR ''a'', 843681948), (CHR ''o'', 624543672), (CHR ''u'', 622888895), (CHR ''r'', 296530828),
        (CHR ''l'', 238015039), (CHR ''m'', 73256579), (CHR ''y'', 58885194), (CHR ''f'', 30822192),
        (CHR ''w'', 27740577), (CHR ''n'', 24509551), (CHR ''b'', 23783290), (CHR ''h'', 23359629),
        (CHR ''p'', 21734802), (CHR ''t'', 10846806), (CHR ''c'', 5972469), (CHR ''k'', 5069509),
        (CHR ''d'', 2494608), (CHR ''g'', 2082136), (CHR ''q'', 701223), (CHR ''z'', 179659),
        (CHR ''j'', 143888)]),
     (''ne'', [(CHR ''d'', 2403515100), (CHR ''s'', 2281713042), (CHR ''r'', 2164228499),
        (CHR ''e'', 695596493), (CHR ''c'', 614890927), (CHR ''v'', 537592192), (CHR ''t'', 512982482),
        (CHR ''a'', 510527172), (CHR ''w'', 421635894), (CHR ''y'', 370211198), (CHR ''n'', 336351297),
        (CHR ''x'', 291766720), (CHR ''l'', 291720904), (CHR ''g'', 258363772), (CHR ''i'', 212375900),
        (CHR ''m'', 184493114), (CHR ''u'', 183398126), (CHR ''f'', 170377244), (CHR ''o'', 128001780),
        (CHR ''q'', 30595337), (CHR ''p'', 29603941), (CHR ''b'', 14652907), (CHR ''z'', 13951319),
        (CHR ''h'', 9604940), (CHR ''k'', 884969)]),
     (''nf'', [(CHR ''o'', 580272256), (CHR ''l'', 392376513), (CHR ''e'', 301299116), (CHR ''i'', 288914638),
        (CHR ''a'', 129450031), (CHR ''u'', 112526017), (CHR ''r'', 76940474), (CHR ''t'', 795818),
        (CHR ''f'', 565234), (CHR ''p'', 386050)]),
     (''ng'', [(CHR ''e'', 1885057822), (CHR ''s'', 1209714468), (CHR ''l'', 934145713), (CHR ''u'', 467067830),
        (CHR ''t'', 425628035), (CHR ''i'', 395552905), (CHR ''r'', 238352607), (CHR ''a'', 185540334),
        (CHR ''d'', 67456115), (CHR ''o'', 55693222), (CHR ''h'', 53752604), (CHR ''f'', 26969553),
        (CHR ''n'', 15201309), (CHR ''m'', 8075905), (CHR ''w'', 7327595), (CHR ''k'', 4821326),
        (CHR ''y'', 4462388), (CHR ''b'', 3966425), (CHR ''z'', 1622801), (CHR ''c'', 852164),
        (CHR ''g'', 852132), (CHR ''p'', 716651), (CHR ''x'', 383424), (CHR ''j'', 250393),
        (CHR ''q'', 194309), (CHR ''v'', 118549)])]"

definition ngrams_n2 :: "(string \<times> (char \<times> nat) list) list" where
  "ngrams_n2 =
    [(''nh'', [(CHR ''a'', 141451657), (CHR ''e'', 74128262), (CHR ''i'', 40293260), (CHR ''o'', 31887897),
        (CHR ''u'', 6142148), (CHR ''y'', 3226809), (CHR ''c'', 572596), (CHR ''w'', 129761),
        (CHR ''t'', 117046)]),
     (''ni'', [(CHR ''n'', 2138474135), (CHR ''t'', 1679283051), (CHR ''s'', 1181759199),
        (CHR ''c'', 926738946), (CHR ''z'', 478334833), (CHR ''o'', 456556897), (CHR ''a'', 438265965),
        (CHR ''v'', 421057969), (CHR ''f'', 414708949), (CHR ''e'', 337601242), (CHR ''g'', 312529902),
        (CHR ''m'', 291523413), (CHR ''q'', 156065873), (CHR ''u'', 69100729), (CHR ''p'', 46911827),
        (CHR ''l'', 43421063), (CHR ''d'', 22013061), (CHR ''x'', 17276162), (CHR ''b'', 12652461),
        (CHR ''h'', 10695977), (CHR ''k'', 9614226), (CHR ''r'', 5941465), (CHR ''j'', 1185459),
        (CHR ''i'', 1148831)]),
     (''nj'', [(CHR ''u'', 138707706), (CHR ''o'', 99570072), (CHR ''e'', 38083475), (CHR ''a'', 24621754),
        (CHR ''i'', 2902687), (CHR ''y'', 201711)]),
     (''nk'', [(CHR ''i'', 210594190), (CHR ''s'', 203397536), (CHR ''e'', 140685786), (CHR ''l'', 53597706),
        (CHR ''n'', 46866346), (CHR ''a'', 24464703), (CHR ''r'', 14786949), (CHR ''f'', 13835783),
        (CHR ''t'', 4762997), (CHR ''y'', 4341237), (CHR ''m'', 2850189), (CHR ''o'', 2172347),
        (CHR ''h'', 1750644), (CHR ''w'', 471390), (CHR ''v'', 402456), (CHR ''c'', 396152),
        (CHR ''j'', 315536), (CHR ''g'', 304038), (CHR ''u'', 180201)]),
     (''nl'', [(CHR ''y'', 1440124041), (CHR ''i'', 136720353), (CHR ''e'', 125911588), (CHR ''a'', 68176466),
        (CHR ''o'', 18407111), (CHR ''u'', 2439696), (CHR ''r'', 1160325), (CHR ''v'', 581365),
        (CHR ''d'', 217722), (CHR ''m'', 106922)]),
     (''nm'', [(CHR ''e'', 709056976), (CHR ''a'', 36492247), (CHR ''i'', 11318181), (CHR ''o'', 10678247),
        (CHR ''d'', 499560), (CHR ''p'', 443010), (CHR ''y'', 198493), (CHR ''u'', 163975),
        (CHR ''f'', 105652)]),
     (''nn'', [(CHR ''e'', 916165849), (CHR ''i'', 437479681), (CHR ''o'', 174453154), (CHR ''a'', 162538900),
        (CHR ''u'', 113409496), (CHR ''y'', 73838960), (CHR ''s'', 31083879), (CHR ''h'', 1457807),
        (CHR ''t'', 1399869), (CHR ''k'', 1246078), (CHR ''d'', 121096)]),
     (''no'', [(CHR ''t'', 1348889851), (CHR ''w'', 1111892154), (CHR ''r'', 967684114), (CHR ''m'', 627247057),
        (CHR ''u'', 467799588), (CHR ''n'', 292928396), (CHR ''v'', 225481897), (CHR ''l'', 222434677),
        (CHR ''s'', 157691289), (CHR ''b'', 105760035), (CHR ''c'', 93402892), (CHR ''i'', 90275488),
        (CHR ''d'', 69447701), (CHR ''p'', 61056768), (CHR ''o'', 58470952), (CHR ''g'', 41223569),
        (CHR ''e'', 22003209), (CHR ''x'', 16054996), (CHR ''y'', 14007475), (CHR ''a'', 11885172),
        (CHR ''f'', 10102556), (CHR ''z'', 8373626), (CHR ''h'', 1804048), (CHR ''k'', 1305778),
        (CHR ''j'', 126337)]),
     (''np'', [(CHR ''u'', 65636598), (CHR ''r'', 30806408), (CHR ''o'', 21344780), (CHR ''l'', 19610167),
        (CHR ''a'', 13944572), (CHR ''e'', 1873169), (CHR ''i'', 1685260), (CHR ''h'', 459237),
        (CHR ''s'', 134468), (CHR ''d'', 100391)]),
     (''nq'', [(CHR ''u'', 166885227)])]"

definition ngrams_n3 :: "(string \<times> (char \<times> nat) list) list" where
  "ngrams_n3 =
    [(''nr'', [(CHR ''y'', 91164866), (CHR ''e'', 69537979), (CHR ''i'', 39970641), (CHR ''o'', 30660178),
        (CHR ''a'', 13023411), (CHR ''u'', 2660086), (CHR ''h'', 635933), (CHR ''s'', 534502),
        (CHR ''r'', 217812), (CHR ''w'', 180317), (CHR ''v'', 115129)]),
     (''ns'', [(CHR ''t'', 2054442085), (CHR ''i'', 1823046372), (CHR ''e'', 1155714995),
        (CHR ''u'', 488861098), (CHR ''p'', 259561729), (CHR ''o'', 259087558), (CHR ''h'', 248523959),
        (CHR ''c'', 223776360), (CHR ''w'', 205003966), (CHR ''a'', 200421912), (CHR ''f'', 194992603),
        (CHR ''l'', 107577599), (CHR ''m'', 74511277), (CHR ''y'', 29943299), (CHR ''k'', 17710559),
        (CHR ''v'', 16199630), (CHR ''g'', 8547544), (CHR ''d'', 7110325), (CHR ''b'', 6746273),
        (CHR ''n'', 4227720), (CHR ''s'', 4061708), (CHR ''j'', 394975), (CHR ''r'', 141452)]),
     (''nt'', [(CHR ''e'', 4325946804), (CHR ''i'', 3452682347), (CHR ''s'', 2819427388),
        (CHR ''r'', 2204208420), (CHR ''a'', 1978512490), (CHR ''o'', 1449480475),
        (CHR ''l'', 758074874), (CHR ''h'', 571704653), (CHR ''u'', 436507764), (CHR ''y'', 313628993),
        (CHR ''m'', 62148765), (CHR ''g'', 9841597), (CHR ''w'', 7909557), (CHR ''f'', 5727460),
        (CHR ''z'', 5288862), (CHR ''n'', 2846776), (CHR ''p'', 2096416), (CHR ''c'', 1332433),
        (CHR ''b'', 1185263), (CHR ''d'', 1159618), (CHR ''t'', 577923), (CHR ''j'', 340174),
        (CHR ''v'', 102486)]),
     (''nu'', [(CHR ''m'', 697049815), (CHR ''e'', 324006833), (CHR ''a'', 243323725), (CHR ''t'', 209239313),
        (CHR ''s'', 144188993), (CHR ''r'', 106285358), (CHR ''f'', 104267450), (CHR ''c'', 95664165),
        (CHR ''i'', 90566405), (CHR ''o'', 61547273), (CHR ''l'', 35592440), (CHR ''n'', 28261301),
        (CHR ''d'', 7829995), (CHR ''b'', 6430700), (CHR ''u'', 6132264), (CHR ''g'', 4932981),
        (CHR ''p'', 3622677), (CHR ''x'', 2138738), (CHR ''j'', 545101), (CHR ''k'', 459406),
        (CHR ''z'', 309535), (CHR ''y'', 133636), (CHR ''h'', 106183)]),
     (''nv'', [(CHR ''e'', 723429596), (CHR ''i'', 357631325), (CHR ''o'', 267466685), (CHR ''a'', 97802109),
        (CHR ''u'', 8563970), (CHR ''y'', 7174633)]),
     (''nw'', [(CHR ''a'', 62561071), (CHR ''i'', 31461891), (CHR ''h'', 24653220), (CHR ''e'', 22979850),
        (CHR ''o'', 15223969), (CHR ''r'', 3538542), (CHR ''f'', 124657)]),
     (''nx'', [(CHR ''i'', 61850145), (CHR ''e'', 201406)]),
     (''ny'', [(CHR ''t'', 128601193), (CHR ''o'', 62898019), (CHR ''w'', 37593047), (CHR ''m'', 36015443),
        (CHR ''i'', 21598782), (CHR ''a'', 15633463), (CHR ''b'', 14228086), (CHR ''l'', 11559076),
        (CHR ''s'', 9918420), (CHR ''h'', 3485662), (CHR ''d'', 2585962), (CHR ''e'', 816532),
        (CHR ''p'', 594252), (CHR ''x'', 417088), (CHR ''q'', 384882), (CHR ''v'', 151030),
        (CHR ''n'', 138497), (CHR ''g'', 119679), (CHR ''r'', 117025)]),
     (''nz'', [(CHR ''y'', 31825971), (CHR ''e'', 26597862), (CHR ''a'', 25814348), (CHR ''i'', 12562002),
        (CHR ''o'', 9810194), (CHR ''w'', 587647), (CHR ''b'', 543868), (CHR ''u'', 502212),
        (CHR ''h'', 376491)])]"

definition ngrams_o1 :: "(string \<times> (char \<times> nat) list) list" where
  "ngrams_o1 =
    [(''oa'', [(CHR ''d'', 424668969), (CHR ''c'', 254183465), (CHR ''r'', 234999609), (CHR ''t'', 215543255),
        (CHR ''l'', 152336936), (CHR ''s'', 111675419), (CHR ''n'', 98650304), (CHR ''k'', 25326711),
        (CHR ''m'', 18615140), (CHR ''p'', 11209975), (CHR ''g'', 7358731), (CHR ''h'', 6477449),
        (CHR ''x'', 4695598), (CHR ''f'', 3784221), (CHR ''v'', 2068860), (CHR ''b'', 1824238),
        (CHR ''q'', 1710412), (CHR ''u'', 885309), (CHR ''o'', 781670), (CHR ''a'', 499648),
        (CHR ''z'', 415801), (CHR ''i'', 355480)]),
     (''ob'', [(CHR ''l'', 565918607), (CHR ''s'', 427367422), (CHR ''a'', 335135456), (CHR ''j'', 318585260),
        (CHR ''e'', 303384747), (CHR ''t'', 195223525), (CHR ''i'', 168084089), (CHR ''v'', 94055801),
        (CHR ''b'', 67344210), (CHR ''o'', 43244580), (CHR ''u'', 20986364), (CHR ''r'', 9357343),
        (CHR ''y'', 5412676), (CHR ''n'', 1983938), (CHR ''d'', 1535639), (CHR ''h'', 1164701),
        (CHR ''w'', 1045680), (CHR ''z'', 208154), (CHR ''c'', 179592), (CHR ''f'', 176657)]),
     (''oc'', [(CHR ''i'', 1107578343), (CHR ''e'', 761797902), (CHR ''k'', 641528732), (CHR ''a'', 579596671),
        (CHR ''c'', 554766653), (CHR ''u'', 259455313), (CHR ''t'', 246186824), (CHR ''r'', 169474774),
        (CHR ''h'', 121318440), (CHR ''o'', 86811546), (CHR ''l'', 45176045), (CHR ''y'', 32443921),
        (CHR ''s'', 2951018), (CHR ''q'', 1627999), (CHR ''n'', 417822), (CHR ''p'', 218873)]),
     (''od'', [(CHR ''u'', 990596720), (CHR ''e'', 846939530), (CHR ''y'', 405905497), (CHR ''i'', 356413284),
        (CHR ''s'', 354394377), (CHR ''a'', 170857911), (CHR ''o'', 91149737), (CHR ''d'', 68765630),
        (CHR ''g'', 46677388), (CHR ''l'', 20126824), (CHR ''n'', 16894257), (CHR ''w'', 14762236),
        (CHR ''r'', 13095037), (CHR ''h'', 6673034), (CHR ''b'', 6407811), (CHR ''m'', 6229752),
        (CHR ''f'', 4714209), (CHR ''c'', 3960909), (CHR ''p'', 2652604), (CHR ''k'', 1641697),
        (CHR ''t'', 776207), (CHR ''v'', 731200), (CHR ''z'', 628557)]),
     (''oe'', [(CHR ''s'', 599076232), (CHR ''t'', 141380132), (CHR ''m'', 69986426), (CHR ''f'', 35177988),
        (CHR ''v'', 24715124), (CHR ''n'', 20505388), (CHR ''r'', 19778634), (CHR ''d'', 18370042),
        (CHR ''l'', 15844449), (CHR ''c'', 15258571), (CHR ''b'', 8384912), (CHR ''u'', 8326205),
        (CHR ''x'', 5404819), (CHR ''a'', 3844805), (CHR ''i'', 3418741), (CHR ''y'', 1922073),
        (CHR ''h'', 1471545), (CHR ''o'', 1426487), (CHR ''k'', 1271642), (CHR ''w'', 795628),
        (CHR ''g'', 261851), (CHR ''e'', 233696), (CHR ''p'', 233168), (CHR ''q'', 125324)]),
     (''of'', [(CHR ''f'', 835576777), (CHR ''t'', 466086486), (CHR ''e'', 207695313), (CHR ''i'', 145016444),
        (CHR ''o'', 42423931), (CHR ''a'', 18222070), (CHR ''s'', 15223184), (CHR ''u'', 8294392),
        (CHR ''l'', 5160550), (CHR ''m'', 1523938), (CHR ''r'', 1442536), (CHR ''n'', 606587),
        (CHR ''y'', 275428), (CHR ''d'', 165046), (CHR ''w'', 126749), (CHR ''h'', 115497),
        (CHR ''g'', 102142)])]"

definition ngrams_o2 :: "(string \<times> (char \<times> nat) list) list" where
  "ngrams_o2 =
    [(''og'', [(CHR ''r'', 701989031), (CHR ''i'', 510956915), (CHR ''e'', 408902317), (CHR ''y'', 402170092),
        (CHR ''n'', 235915305), (CHR ''u'', 71888808), (CHR ''a'', 67087480), (CHR ''s'', 42140119),
        (CHR ''o'', 28532777), (CHR ''g'', 24666748), (CHR ''l'', 19952737), (CHR ''m'', 11019440),
        (CHR ''h'', 3986429), (CHR ''d'', 2642497), (CHR ''t'', 814865), (CHR ''w'', 699265),
        (CHR ''b'', 462414), (CHR ''f'', 213693), (CHR ''p'', 125855)]),
     (''oh'', [(CHR ''n'', 308005611), (CHR ''i'', 63143537), (CHR ''o'', 52552588), (CHR ''e'', 43222791),
        (CHR ''a'', 31664534), (CHR ''y'', 8901035), (CHR ''l'', 5698124), (CHR ''m'', 4325393),
        (CHR ''r'', 3489770), (CHR ''u'', 1386093), (CHR ''s'', 872598), (CHR ''d'', 447191),
        (CHR ''t'', 154377)]),
     (''oi'', [(CHR ''n'', 1315707093), (CHR ''c'', 269258095), (CHR ''d'', 218749884), (CHR ''l'', 204447789),
        (CHR ''s'', 202710691), (CHR ''r'', 61702311), (CHR ''t'', 61653612), (CHR ''e'', 5150354),
        (CHR ''x'', 3709151), (CHR ''g'', 3493187), (CHR ''m'', 3186047), (CHR ''a'', 2874246),
        (CHR ''k'', 1013105), (CHR ''b'', 744417), (CHR ''f'', 396089), (CHR ''v'', 385975),
        (CHR ''o'', 353197), (CHR ''p'', 285701), (CHR ''z'', 184400), (CHR ''q'', 112653)]),
     (''oj'', [(CHR ''e'', 182481089), (CHR ''o'', 4504668), (CHR ''a'', 3859050), (CHR ''i'', 1592592),
        (CHR ''v'', 149495), (CHR ''t'', 130037), (CHR ''u'', 121196), (CHR ''c'', 113291)]),
     (''ok'', [(CHR ''e'', 542101221), (CHR ''s'', 205663695), (CHR ''i'', 170008851), (CHR ''a'', 21183249),
        (CHR ''l'', 18464283), (CHR ''y'', 14565761), (CHR ''o'', 6946437), (CHR ''u'', 4520242),
        (CHR ''k'', 3587911), (CHR ''m'', 1618511), (CHR ''b'', 1571838), (CHR ''h'', 1452026),
        (CHR ''c'', 1047245), (CHR ''w'', 621031), (CHR ''r'', 606411), (CHR ''f'', 555863),
        (CHR ''t'', 378393)]),
     (''ol'', [(CHR ''l'', 1597970087), (CHR ''i'', 1443152724), (CHR ''o'', 1265524937),
        (CHR ''d'', 1121949431), (CHR ''e'', 1053082246), (CHR ''u'', 797461296), (CHR ''v'', 417324769),
        (CHR ''a'', 377344392), (CHR ''s'', 280858634), (CHR ''y'', 203802715), (CHR ''t'', 101510785),
        (CHR ''k'', 57295317), (CHR ''f'', 46072059), (CHR ''m'', 33709671), (CHR ''n'', 29954725),
        (CHR ''c'', 18325277), (CHR ''p'', 15910581), (CHR ''b'', 12762603), (CHR ''g'', 7390491),
        (CHR ''h'', 2356860), (CHR ''w'', 1955922), (CHR ''z'', 1905249), (CHR ''r'', 1332242),
        (CHR ''q'', 515436)]),
     (''om'', [(CHR ''e'', 4214708846), (CHR ''p'', 2282867653), (CHR ''m'', 1747661259),
        (CHR ''i'', 1019758853), (CHR ''a'', 724462608), (CHR ''b'', 301902512), (CHR ''o'', 250498821),
        (CHR ''s'', 181382084), (CHR ''y'', 148509528), (CHR ''f'', 79983130), (CHR ''n'', 19340258),
        (CHR ''r'', 12479307), (CHR ''u'', 12204177), (CHR ''l'', 7846244), (CHR ''w'', 6622764),
        (CHR ''t'', 4931574), (CHR ''c'', 442871), (CHR ''k'', 367907), (CHR ''d'', 330102),
        (CHR ''h'', 190302)])]"

definition ngrams_o3 :: "(string \<times> (char \<times> nat) list) list" where
  "ngrams_o3 =
    [(''on'', [(CHR ''s'', 7186332838), (CHR ''t'', 2705916421), (CHR ''a'', 2321766962),
        (CHR ''e'', 2276126019), (CHR ''g'', 2000665906), (CHR ''d'', 1820808072),
        (CHR ''c'', 1235207234), (CHR ''l'', 1214684886), (CHR ''i'', 743997032), (CHR ''o'', 721985196),
        (CHR ''f'', 609631269), (CHR ''v'', 480585073), (CHR ''n'', 350314177), (CHR ''y'', 205773651),
        (CHR ''m'', 182350292), (CHR ''u'', 50234052), (CHR ''q'', 47282611), (CHR ''j'', 40919416),
        (CHR ''k'', 37340249), (CHR ''w'', 36615523), (CHR ''r'', 25546543), (CHR ''z'', 20078146),
        (CHR ''p'', 16220898), (CHR ''h'', 5391488), (CHR ''b'', 4256043), (CHR ''x'', 1434133)]),
     (''oo'', [(CHR ''d'', 1500326212), (CHR ''k'', 1340292528), (CHR ''l'', 667531400), (CHR ''r'', 464488807),
        (CHR ''m'', 359496509), (CHR ''n'', 353974874), (CHR ''t'', 340990250), (CHR ''p'', 186708153),
        (CHR ''s'', 150786834), (CHR ''f'', 95182650), (CHR ''v'', 14480602), (CHR ''g'', 4328202),
        (CHR ''c'', 4276246), (CHR ''z'', 2944410), (CHR ''e'', 2114209), (CHR ''i'', 1814489),
        (CHR ''h'', 1447563), (CHR ''o'', 1365584), (CHR ''b'', 904472), (CHR ''x'', 203091),
        (CHR ''u'', 147608), (CHR ''q'', 101952)]),
     (''op'', [(CHR ''e'', 1887737997), (CHR ''l'', 740318480), (CHR ''p'', 525860931), (CHR ''i'', 393952433),
        (CHR ''o'', 390416579), (CHR ''h'', 356600789), (CHR ''m'', 339713751), (CHR ''u'', 297563488),
        (CHR ''t'', 261383062), (CHR ''s'', 200241823), (CHR ''r'', 163638050), (CHR ''y'', 109588325),
        (CHR ''a'', 96928376), (CHR ''k'', 12481169), (CHR ''f'', 4287783), (CHR ''c'', 1662029),
        (CHR ''d'', 713456), (CHR ''w'', 600189), (CHR ''j'', 299019), (CHR ''g'', 293179),
        (CHR ''n'', 232632), (CHR ''b'', 139318)]),
     (''oq'', [(CHR ''u'', 28412446)]),
     (''or'', [(CHR ''e'', 3783784716), (CHR ''t'', 3524563442), (CHR ''m'', 2324327880),
        (CHR ''d'', 2285091043), (CHR ''k'', 1682887192), (CHR ''i'', 1679096667),
        (CHR ''s'', 1221868101), (CHR ''y'', 1206344074), (CHR ''a'', 1067476504),
        (CHR ''g'', 756889180), (CHR ''n'', 615280986), (CHR ''r'', 601742444), (CHR ''l'', 584621547),
        (CHR ''c'', 539951076), (CHR ''p'', 310011696), (CHR ''o'', 202917272), (CHR ''w'', 131296397),
        (CHR ''b'', 119583515), (CHR ''u'', 46224595), (CHR ''h'', 25185063), (CHR ''f'', 23301257),
        (CHR ''q'', 6370163), (CHR ''v'', 3101384), (CHR ''z'', 930044), (CHR ''j'', 294599)]),
     (''os'', [(CHR ''e'', 2535779077), (CHR ''t'', 2149464299), (CHR ''s'', 1188659603),
        (CHR ''i'', 1052659505), (CHR ''p'', 315734901), (CHR ''o'', 198279421), (CHR ''a'', 120580368),
        (CHR ''c'', 102428412), (CHR ''u'', 76282717), (CHR ''m'', 32765120), (CHR ''h'', 31672175),
        (CHR ''l'', 26723634), (CHR ''y'', 26395274), (CHR ''q'', 11579338), (CHR ''b'', 7995442),
        (CHR ''w'', 6785825), (CHR ''k'', 5172041), (CHR ''n'', 4791486), (CHR ''g'', 1910297),
        (CHR ''v'', 1040099), (CHR ''z'', 555750), (CHR ''f'', 553871), (CHR ''d'', 496036),
        (CHR ''r'', 165997)])]"

definition ngrams_o4 :: "(string \<times> (char \<times> nat) list) list" where
  "ngrams_o4 =
    [(''ot'', [(CHR ''h'', 3662187021), (CHR ''e'', 1295812964), (CHR ''i'', 755385378), (CHR ''a'', 446863544),
        (CHR ''t'', 389001995), (CHR ''o'', 285347932), (CHR ''s'', 175011425), (CHR ''l'', 51001520),
        (CHR ''r'', 35886749), (CHR ''y'', 35118546), (CHR ''w'', 19522265), (CHR ''c'', 16158018),
        (CHR ''u'', 14903337), (CHR ''b'', 11541309), (CHR ''n'', 7613540), (CHR ''m'', 4778484),
        (CHR ''p'', 3509832), (CHR ''g'', 2188707), (CHR ''z'', 1200836), (CHR ''k'', 1100162),
        (CHR ''f'', 408469), (CHR ''d'', 112816), (CHR ''v'', 100404)]),
     (''ou'', [(CHR ''n'', 3822846683), (CHR ''r'', 3531041773), (CHR ''l'', 3393890963),
        (CHR ''s'', 2922576865), (CHR ''t'', 2814018609), (CHR ''g'', 2428002205),
        (CHR ''p'', 572731037), (CHR ''b'', 329157076), (CHR ''c'', 128184243), (CHR ''d'', 119300676),
        (CHR ''i'', 72671472), (CHR ''v'', 23254253), (CHR ''e'', 7402394), (CHR ''x'', 5963867),
        (CHR ''a'', 4097226), (CHR ''m'', 3966040), (CHR ''f'', 3249061), (CHR ''q'', 2649767),
        (CHR ''j'', 1083314), (CHR ''k'', 1055053), (CHR ''z'', 813889), (CHR ''w'', 489264),
        (CHR ''y'', 214846)]),
     (''ov'', [(CHR ''e'', 3915769517), (CHR ''i'', 860059985), (CHR ''a'', 172385423), (CHR ''o'', 29134157),
        (CHR ''u'', 5227156), (CHR ''s'', 1908231), (CHR ''t'', 1738163), (CHR ''y'', 1084564),
        (CHR ''n'', 914062), (CHR ''g'', 803451), (CHR ''l'', 354772)]),
     (''ow'', [(CHR ''e'', 1892031850), (CHR ''n'', 1570013503), (CHR ''i'', 583694469), (CHR ''s'', 525286869),
        (CHR ''l'', 365816813), (CHR ''a'', 338554556), (CHR ''t'', 154425351), (CHR ''d'', 87174970),
        (CHR ''h'', 15475433), (CHR ''m'', 12532383), (CHR ''b'', 8193522), (CHR ''y'', 7072219),
        (CHR ''r'', 6346637), (CHR ''f'', 3615624), (CHR ''p'', 3536991), (CHR ''o'', 3159559),
        (CHR ''c'', 2786233), (CHR ''u'', 1440345), (CHR ''k'', 668357), (CHR ''g'', 241087),
        (CHR ''w'', 191572)]),
     (''ox'', [(CHR ''i'', 214230921), (CHR ''y'', 61334244), (CHR ''f'', 50540168), (CHR ''e'', 30188629),
        (CHR ''a'', 5269764), (CHR ''o'', 3034068), (CHR ''b'', 1287941), (CHR ''v'', 1248618),
        (CHR ''u'', 654015), (CHR ''c'', 627084), (CHR ''h'', 539368), (CHR ''l'', 400352),
        (CHR ''s'', 358627), (CHR ''w'', 239888), (CHR ''g'', 198087), (CHR ''p'', 154761),
        (CHR ''x'', 122295), (CHR ''t'', 121994), (CHR ''m'', 119604), (CHR ''n'', 109398)]),
     (''oy'', [(CHR ''e'', 291510614), (CHR ''a'', 154275711), (CHR ''m'', 108867948), (CHR ''s'', 103062515),
        (CHR ''i'', 32489798), (CHR ''d'', 18670475), (CHR ''c'', 13403791), (CHR ''o'', 10091202),
        (CHR ''l'', 8704892), (CHR ''f'', 7274058), (CHR ''n'', 5308351), (CHR ''b'', 2910051),
        (CHR ''h'', 2857097), (CHR ''t'', 915602), (CHR ''u'', 221832), (CHR ''g'', 141706),
        (CHR ''k'', 127986)]),
     (''oz'', [(CHR ''e'', 46745794), (CHR ''a'', 13694638), (CHR ''o'', 13110799), (CHR ''y'', 5379056),
        (CHR ''z'', 5362416), (CHR ''i'', 3444383), (CHR ''l'', 478285), (CHR ''n'', 414067),
        (CHR ''c'', 377763), (CHR ''u'', 156431), (CHR ''s'', 130815)])]"

definition ngrams_p1 :: "(string \<times> (char \<times> nat) list) list" where
  "ngrams_p1 =
    [(''pa'', [(CHR ''r'', 3666493050), (CHR ''t'', 1085970926), (CHR ''n'', 905511228), (CHR ''s'', 749984694),
        (CHR ''i'', 580213650), (CHR ''c'', 521191275), (CHR ''l'', 330264835), (CHR ''p'', 298270682),
        (CHR ''g'', 224770453), (CHR ''y'', 160207561), (CHR ''u'', 131548010), (CHR ''b'', 89177093),
        (CHR ''d'', 29769132), (CHR ''m'', 22362402), (CHR ''v'', 20993404), (CHR ''k'', 20430640),
        (CHR ''w'', 10169081), (CHR ''e'', 6024015), (CHR ''q'', 4623958), (CHR ''o'', 2512657),
        (CHR ''h'', 2181240), (CHR ''j'', 968074), (CHR ''z'', 825700), (CHR ''x'', 784961),
        (CHR ''a'', 607657), (CHR ''f'', 121734)]),
     (''pb'', [(CHR ''e'', 16066532), (CHR ''o'', 6125918), (CHR ''u'', 4033977), (CHR ''r'', 2722084),
        (CHR ''a'', 383889), (CHR ''g'', 202352), (CHR ''l'', 145240), (CHR ''s'', 144096)]),
     (''pc'', [(CHR ''o'', 3864296), (CHR ''b'', 585946), (CHR ''h'', 425069), (CHR ''i'', 398388),
        (CHR ''c'', 335878), (CHR ''k'', 188843), (CHR ''s'', 172877), (CHR ''a'', 131785),
        (CHR ''m'', 117521)]),
     (''pd'', [(CHR ''a'', 17819057), (CHR ''e'', 1145004), (CHR ''o'', 482427), (CHR ''i'', 407445),
        (CHR ''g'', 243150), (CHR ''m'', 148869), (CHR ''r'', 120294), (CHR ''f'', 114307)]),
     (''pe'', [(CHR ''r'', 5039999881), (CHR ''c'', 1783943336), (CHR ''n'', 1586517255),
        (CHR ''a'', 1237153306), (CHR ''o'', 693298944), (CHR ''d'', 691184184), (CHR ''t'', 414433161),
        (CHR ''s'', 280376890), (CHR ''e'', 222838115), (CHR ''l'', 217896828), (CHR ''p'', 31464903),
        (CHR ''u'', 21706899), (CHR ''f'', 11339513), (CHR ''g'', 11335026), (CHR ''w'', 9138441),
        (CHR ''k'', 8205486), (CHR ''i'', 7721382), (CHR ''x'', 6020274), (CHR ''m'', 5182394),
        (CHR ''z'', 5099422), (CHR ''b'', 4899400), (CHR ''y'', 4394330), (CHR ''v'', 1231275),
        (CHR ''j'', 746617), (CHR ''q'', 559044), (CHR ''h'', 275394)]),
     (''pf'', [(CHR ''u'', 24926086), (CHR ''a'', 1729728), (CHR ''i'', 1687251), (CHR ''e'', 1600181),
        (CHR ''l'', 440849), (CHR ''r'', 343565), (CHR ''o'', 335569), (CHR ''f'', 193801)]),
     (''pg'', [(CHR ''r'', 6618166), (CHR ''a'', 734679), (CHR ''o'', 223231)]),
     (''ph'', [(CHR ''i'', 560633025), (CHR ''y'', 519659124), (CHR ''e'', 419716079), (CHR ''o'', 385545945),
        (CHR ''a'', 384611972), (CHR ''r'', 88549780), (CHR ''s'', 45195904), (CHR ''u'', 17332377),
        (CHR ''l'', 15133863), (CHR ''t'', 13833747), (CHR ''n'', 2314189)]),
     (''pi'', [(CHR ''n'', 767215138), (CHR ''t'', 559817651), (CHR ''c'', 514938637), (CHR ''r'', 482343228),
        (CHR ''e'', 314268107), (CHR ''l'', 209058489), (CHR ''d'', 169305054), (CHR ''s'', 109489046),
        (CHR ''o'', 59684183), (CHR ''a'', 58945585), (CHR ''p'', 51522487), (CHR ''g'', 33680705),
        (CHR ''k'', 13924410), (CHR ''u'', 10640020), (CHR ''v'', 6946041), (CHR ''x'', 5487851),
        (CHR ''z'', 4409547), (CHR ''m'', 2528921), (CHR ''f'', 2348955), (CHR ''q'', 1908195),
        (CHR ''b'', 121540), (CHR ''j'', 110497), (CHR ''i'', 105111)]),
     (''pj'', [(CHR ''o'', 346355), (CHR ''e'', 299019), (CHR ''a'', 120642)]),
     (''pk'', [(CHR ''i'', 15892747), (CHR ''e'', 3648489)])]"

definition ngrams_p2 :: "(string \<times> (char \<times> nat) list) list" where
  "ngrams_p2 =
    [(''pl'', [(CHR ''e'', 2708980602), (CHR ''a'', 2560187618), (CHR ''i'', 983742329), (CHR ''o'', 580143786),
        (CHR ''y'', 414892785), (CHR ''u'', 138824914), (CHR ''c'', 1153548), (CHR ''s'', 236236),
        (CHR ''r'', 110342), (CHR ''f'', 109518)]),
     (''pm'', [(CHR ''e'', 416552500), (CHR ''a'', 10039625), (CHR ''o'', 2382133), (CHR ''u'', 423426),
        (CHR ''m'', 399751), (CHR ''l'', 309256), (CHR ''g'', 137370), (CHR ''n'', 109739)]),
     (''pn'', [(CHR ''e'', 19250256), (CHR ''o'', 7685745), (CHR ''i'', 356815), (CHR ''s'', 119861)]),
     (''po'', [(CHR ''s'', 2462784980), (CHR ''r'', 2246519507), (CHR ''n'', 1310497086),
        (CHR ''l'', 1180883101), (CHR ''i'', 736649896), (CHR ''w'', 590029921), (CHR ''t'', 354637021),
        (CHR ''p'', 347635376), (CHR ''o'', 223098784), (CHR ''u'', 206722044), (CHR ''e'', 196640461),
        (CHR ''k'', 97763212), (CHR ''c'', 61073496), (CHR ''v'', 40813183), (CHR ''m'', 17352844),
        (CHR ''g'', 14905880), (CHR ''d'', 11680893), (CHR ''x'', 8499168), (CHR ''a'', 2002867),
        (CHR ''y'', 1441468), (CHR ''z'', 653200), (CHR ''h'', 615824), (CHR ''f'', 555119),
        (CHR ''b'', 246202), (CHR ''q'', 238892)]),
     (''pp'', [(CHR ''e'', 1171385842), (CHR ''o'', 875394040), (CHR ''l'', 665841060), (CHR ''r'', 620910788),
        (CHR ''i'', 219392048), (CHR ''a'', 150753105), (CHR ''y'', 80039704), (CHR ''u'', 4857287),
        (CHR ''s'', 4579496), (CHR ''h'', 2375176), (CHR ''m'', 982866), (CHR ''b'', 144096),
        (CHR ''x'', 105131)]),
     (''pq'', [(CHR ''u'', 113661)]),
     (''pr'', [(CHR ''o'', 6415267992), (CHR ''e'', 4120739153), (CHR ''i'', 2092958852),
        (CHR ''a'', 594379165), (CHR ''u'', 57416913), (CHR ''y'', 2538393), (CHR ''s'', 408787),
        (CHR ''k'', 363942), (CHR ''z'', 214146)]),
     (''ps'', [(CHR ''y'', 221503713), (CHR ''e'', 97707314), (CHR ''o'', 32377696), (CHR ''i'', 30998850),
        (CHR ''t'', 21127210), (CHR ''a'', 17156407), (CHR ''u'', 16384321), (CHR ''h'', 12072651),
        (CHR ''w'', 1301869), (CHR ''b'', 1086713), (CHR ''k'', 929539), (CHR ''c'', 924148),
        (CHR ''s'', 626908), (CHR ''l'', 376110), (CHR ''p'', 264288), (CHR ''m'', 226631),
        (CHR ''g'', 178116)]),
     (''pt'', [(CHR ''i'', 944092341), (CHR ''e'', 612554931), (CHR ''a'', 174039827), (CHR ''u'', 151600142),
        (CHR ''o'', 140431773), (CHR ''s'', 133404072), (CHR ''h'', 52809176), (CHR ''y'', 36764853),
        (CHR ''l'', 20814790), (CHR ''c'', 9618536), (CHR ''r'', 5117736), (CHR ''n'', 1422065),
        (CHR ''f'', 629712), (CHR ''m'', 549371), (CHR ''t'', 233310), (CHR ''w'', 134122),
        (CHR ''p'', 114132)]),
     (''pu'', [(CHR ''b'', 738855333), (CHR ''r'', 596939935), (CHR ''l'', 533893537), (CHR ''t'', 454277338),
        (CHR ''n'', 107870409), (CHR ''s'', 100315852), (CHR ''p'', 53264493), (CHR ''m'', 31824408),
        (CHR ''e'', 18748946), (CHR ''z'', 15105237), (CHR ''d'', 14699608), (CHR ''f'', 6592334),
        (CHR ''g'', 6372926), (CHR ''c'', 4638573), (CHR ''i'', 3683176), (CHR ''a'', 2941464),
        (CHR ''j'', 462175), (CHR ''y'', 448769), (CHR ''k'', 203150), (CHR ''h'', 171422),
        (CHR ''v'', 122477)]),
     (''pv'', [(CHR ''c'', 117739), (CHR ''d'', 111108)])]"

definition ngrams_p3 :: "(string \<times> (char \<times> nat) list) list" where
  "ngrams_p3 =
    [(''pw'', [(CHR ''a'', 25937296), (CHR ''r'', 2806160), (CHR ''i'', 1651667), (CHR ''o'', 1279406),
        (CHR ''e'', 579104)]),
     (''py'', [(CHR ''r'', 55221769), (CHR ''i'', 16030421), (CHR ''l'', 5909880), (CHR ''t'', 4263881),
        (CHR ''a'', 1954969), (CHR ''o'', 1602071), (CHR ''g'', 1505001), (CHR ''e'', 1369841),
        (CHR ''s'', 1184926), (CHR ''n'', 680656), (CHR ''h'', 385093), (CHR ''j'', 322830),
        (CHR ''w'', 278902), (CHR ''k'', 156449), (CHR ''u'', 112337), (CHR ''c'', 111038)]),
     (''pz'', [(CHR ''i'', 5996393)])]"

definition ngrams_q1 :: "(string \<times> (char \<times> nat) list) list" where
  "ngrams_q1 =
    [(''qa'', [(CHR ''e'', 1008411), (CHR ''t'', 646513), (CHR ''d'', 547401), (CHR ''s'', 458130),
        (CHR ''b'', 243712), (CHR ''z'', 165459), (CHR ''n'', 129092), (CHR ''r'', 108435),
        (CHR ''i'', 104481)]),
     (''qb'', [(CHR ''a'', 690386)]),
     (''qi'', [(CHR ''n'', 1604741), (CHR ''s'', 687873), (CHR ''a'', 555439), (CHR ''g'', 129409)]),
     (''qn'', [(CHR ''s'', 272660)]),
     (''qq'', [(CHR ''a'', 108435)]),
     (''qs'', [(CHR ''a'', 256676)]),
     (''qt'', [(CHR ''i'', 102234)]),
     (''qu'', [(CHR ''e'', 1502923191), (CHR ''i'', 1365371574), (CHR ''a'', 1100745173),
        (CHR ''o'', 115622360), (CHR ''r'', 1693518), (CHR ''y'', 1662117), (CHR ''h'', 1657447),
        (CHR ''m'', 894130), (CHR ''u'', 559937), (CHR ''t'', 277799), (CHR ''s'', 114169),
        (CHR ''b'', 104380)]),
     (''qv'', [(CHR ''i'', 180552)])]"

definition ngrams_r1 :: "(string \<times> (char \<times> nat) list) list" where
  "ngrams_r1 =
    [(''ra'', [(CHR ''t'', 4328187671), (CHR ''n'', 2710446228), (CHR ''l'', 2640723672),
        (CHR ''c'', 1946279822), (CHR ''i'', 1121516170), (CHR ''d'', 997081038), (CHR ''m'', 784561596),
        (CHR ''p'', 717971204), (CHR ''g'', 599764652), (CHR ''b'', 507525454), (CHR ''r'', 465754121),
        (CHR ''s'', 415617535), (CHR ''v'', 330285712), (CHR ''w'', 293238524), (CHR ''y'', 278917875),
        (CHR ''f'', 169229659), (CHR ''h'', 81345934), (CHR ''e'', 77703578), (CHR ''u'', 76433096),
        (CHR ''z'', 60120571), (CHR ''o'', 39283185), (CHR ''k'', 26915419), (CHR ''j'', 23368021),
        (CHR ''q'', 16299916), (CHR ''x'', 9265499), (CHR ''a'', 2615615)]),
     (''rb'', [(CHR ''a'', 200215659), (CHR ''i'', 146994651), (CHR ''o'', 142161483), (CHR ''e'', 95652646),
        (CHR ''s'', 30546813), (CHR ''u'', 28358061), (CHR ''y'', 24479524), (CHR ''l'', 18709368),
        (CHR ''r'', 3688788), (CHR ''c'', 297296), (CHR ''n'', 122856), (CHR ''h'', 109927)]),
     (''rc'', [(CHR ''h'', 1261302449), (CHR ''e'', 1234682633), (CHR ''u'', 298310179), (CHR ''i'', 274034784),
        (CHR ''o'', 96496457), (CHR ''l'', 79027755), (CHR ''a'', 48503306), (CHR ''y'', 29572071),
        (CHR ''r'', 28893205), (CHR ''t'', 18506070), (CHR ''k'', 6720601), (CHR ''s'', 2359153),
        (CHR ''m'', 380372), (CHR ''p'', 341851), (CHR ''q'', 274940), (CHR ''b'', 110760)]),
     (''rd'', [(CHR ''e'', 1027838103), (CHR ''s'', 862798348), (CHR ''i'', 686808187), (CHR ''a'', 121830521),
        (CHR ''l'', 99081243), (CHR ''o'', 70078362), (CHR ''y'', 20451828), (CHR ''w'', 18228493),
        (CHR ''n'', 17882434), (CHR ''u'', 11094262), (CHR ''r'', 9732845), (CHR ''m'', 5324588),
        (CHR ''t'', 5126119), (CHR ''b'', 4173887), (CHR ''h'', 1702033), (CHR ''c'', 1513315),
        (CHR ''p'', 1460836), (CHR ''k'', 344335), (CHR ''f'', 341049), (CHR ''j'', 193280),
        (CHR ''g'', 138483)]),
     (''re'', [(CHR ''s'', 7479920104), (CHR ''a'', 5613291999), (CHR ''d'', 3548918199),
        (CHR ''n'', 2832986969), (CHR ''c'', 2523458763), (CHR ''e'', 2077995578),
        (CHR ''l'', 1879022351), (CHR ''p'', 1572060589), (CHR ''m'', 1376771504),
        (CHR ''t'', 1267276901), (CHR ''f'', 1260243708), (CHR ''g'', 1062530153),
        (CHR ''v'', 1004501101), (CHR ''q'', 681563255), (CHR ''i'', 400366213), (CHR ''w'', 286540011),
        (CHR ''r'', 201504862), (CHR ''b'', 160409600), (CHR ''h'', 154899535), (CHR ''o'', 152319844),
        (CHR ''j'', 106444322), (CHR ''y'', 87944510), (CHR ''u'', 54195089), (CHR ''z'', 10812335),
        (CHR ''k'', 8854381), (CHR ''x'', 7208627)]),
     (''rf'', [(CHR ''o'', 265896411), (CHR ''a'', 225124252), (CHR ''e'', 192610835), (CHR ''u'', 140942694),
        (CHR ''i'', 29084989), (CHR ''l'', 19401938), (CHR ''s'', 3137335), (CHR ''r'', 2691262),
        (CHR ''d'', 1011027), (CHR ''f'', 732704), (CHR ''m'', 332722), (CHR ''t'', 306214),
        (CHR ''g'', 120819), (CHR ''b'', 106221)]),
     (''rg'', [(CHR ''e'', 1318433016), (CHR ''a'', 547729328), (CHR ''i'', 271909543), (CHR ''u'', 202418928),
        (CHR ''y'', 181580716), (CHR ''o'', 94967700), (CHR ''h'', 31364488), (CHR ''r'', 29209753),
        (CHR ''l'', 8151712), (CHR ''s'', 4428635), (CHR ''m'', 1703335), (CHR ''n'', 533470),
        (CHR ''v'', 208198), (CHR ''t'', 187014), (CHR ''d'', 105696)])]"

definition ngrams_r2 :: "(string \<times> (char \<times> nat) list) list" where
  "ngrams_r2 =
    [(''rh'', [(CHR ''a'', 224343249), (CHR ''o'', 74541145), (CHR ''e'', 63729954), (CHR ''y'', 35848049),
        (CHR ''i'', 13429827), (CHR ''u'', 4849062), (CHR ''w'', 239913)]),
     (''ri'', [(CHR ''n'', 3061529279), (CHR ''e'', 2479319585), (CHR ''t'', 2393057886),
        (CHR ''c'', 2307752964), (CHR ''s'', 1781602422), (CHR ''a'', 1618734034),
        (CHR ''o'', 1209699430), (CHR ''g'', 1155675727), (CHR ''b'', 867466252), (CHR ''v'', 859529948),
        (CHR ''m'', 641836275), (CHR ''d'', 448305525), (CHR ''p'', 421109400), (CHR ''l'', 384546533),
        (CHR ''f'', 244979583), (CHR ''z'', 240597221), (CHR ''u'', 101787334), (CHR ''k'', 92340867),
        (CHR ''x'', 31030489), (CHR ''q'', 5187756), (CHR ''j'', 4382241), (CHR ''i'', 2305927),
        (CHR ''y'', 1727883), (CHR ''w'', 936393), (CHR ''h'', 783912), (CHR ''r'', 569015)]),
     (''rj'', [(CHR ''e'', 4962605), (CHR ''u'', 3422093), (CHR ''o'', 3392041), (CHR ''a'', 614196),
        (CHR ''i'', 498074)]),
     (''rk'', [(CHR ''e'', 658364464), (CHR ''s'', 303353340), (CHR ''i'', 221890667), (CHR ''a'', 61609045),
        (CHR ''n'', 28971707), (CHR ''m'', 16392960), (CHR ''l'', 13579512), (CHR ''p'', 9855288),
        (CHR ''h'', 7826775), (CHR ''f'', 5553365), (CHR ''o'', 4999329), (CHR ''y'', 3966237),
        (CHR ''u'', 3905220), (CHR ''b'', 3062601), (CHR ''w'', 2357308), (CHR ''t'', 1238775),
        (CHR ''r'', 1183026), (CHR ''d'', 835582), (CHR ''g'', 559865), (CHR ''x'', 148265),
        (CHR ''c'', 125866), (CHR ''v'', 100394)]),
     (''rl'', [(CHR ''y'', 941694513), (CHR ''d'', 540850186), (CHR ''i'', 322035202), (CHR ''e'', 195994633),
        (CHR ''a'', 113215428), (CHR ''o'', 76915076), (CHR ''s'', 69868642), (CHR ''b'', 4781652),
        (CHR ''f'', 3216272), (CHR ''t'', 2566485), (CHR ''u'', 2444213), (CHR ''w'', 1788893),
        (CHR ''p'', 1256869), (CHR ''m'', 837831), (CHR ''h'', 764536), (CHR ''v'', 219534),
        (CHR ''r'', 165067), (CHR ''l'', 110232)]),
     (''rm'', [(CHR ''a'', 1402587065), (CHR ''i'', 741775609), (CHR ''e'', 669902432), (CHR ''s'', 559113658),
        (CHR ''o'', 222438310), (CHR ''y'', 128121426), (CHR ''u'', 97781637), (CHR ''l'', 40365887),
        (CHR ''t'', 10279341), (CHR ''f'', 7949080), (CHR ''n'', 3548951), (CHR ''h'', 2424716),
        (CHR ''c'', 2126528), (CHR ''w'', 1394370), (CHR ''p'', 1167320), (CHR ''b'', 255659),
        (CHR ''r'', 110177), (CHR ''v'', 100453)]),
     (''rn'', [(CHR ''e'', 872086009), (CHR ''a'', 775369001), (CHR ''i'', 677063946), (CHR ''m'', 455872047),
        (CHR ''s'', 220493309), (CHR ''o'', 155943044), (CHR ''t'', 19932953), (CHR ''h'', 6547312),
        (CHR ''u'', 6275168), (CHR ''w'', 5850236), (CHR ''b'', 5797130), (CHR ''f'', 5582862),
        (CHR ''l'', 4430704), (CHR ''y'', 3920782), (CHR ''d'', 3017176), (CHR ''p'', 1685260),
        (CHR ''n'', 1160608), (CHR ''k'', 380538), (CHR ''c'', 226399)])]"

definition ngrams_r3 :: "(string \<times> (char \<times> nat) list) list" where
  "ngrams_r3 =
    [(''ro'', [(CHR ''m'', 4113115860), (CHR ''u'', 2724861564), (CHR ''p'', 1428244756),
        (CHR ''n'', 1274904383), (CHR ''v'', 1087210136), (CHR ''d'', 1050007322),
        (CHR ''c'', 959969169), (CHR ''w'', 905679428), (CHR ''b'', 878385166), (CHR ''l'', 861240349),
        (CHR ''s'', 817050120), (CHR ''t'', 756764074), (CHR ''o'', 618671674), (CHR ''a'', 604096070),
        (CHR ''g'', 587578275), (CHR ''f'', 396697770), (CHR ''r'', 241784465), (CHR ''j'', 185882026),
        (CHR ''y'', 174014423), (CHR ''k'', 136261620), (CHR ''x'', 117555451), (CHR ''i'', 95082161),
        (CHR ''e'', 52878519), (CHR ''h'', 37962844), (CHR ''z'', 19586543), (CHR ''q'', 7748994)]),
     (''rp'', [(CHR ''o'', 433622989), (CHR ''r'', 278681401), (CHR ''e'', 119459666), (CHR ''l'', 68534044),
        (CHR ''h'', 61013741), (CHR ''t'', 41286631), (CHR ''s'', 34766026), (CHR ''a'', 32760536),
        (CHR ''i'', 21133862), (CHR ''u'', 15265701), (CHR ''n'', 1585478), (CHR ''m'', 963424),
        (CHR ''y'', 406977), (CHR ''c'', 116321)]),
     (''rq'', [(CHR ''u'', 27513316)]),
     (''rr'', [(CHR ''e'', 1076901529), (CHR ''i'', 981231076), (CHR ''o'', 506856356), (CHR ''a'', 386910518),
        (CHR ''y'', 312299759), (CHR ''u'', 73371753), (CHR ''h'', 30252184), (CHR ''n'', 1100347),
        (CHR ''s'', 1076742), (CHR ''m'', 799026)]),
     (''rs'', [(CHR ''t'', 1364451007), (CHR ''e'', 1140048363), (CHR ''o'', 751293539), (CHR ''i'', 622309464),
        (CHR ''h'', 288177517), (CHR ''a'', 195510878), (CHR ''u'', 145907301), (CHR ''p'', 68612536),
        (CHR ''y'', 20841224), (CHR ''c'', 15602974), (CHR ''d'', 9551149), (CHR ''b'', 8224209),
        (CHR ''k'', 5640087), (CHR ''l'', 4080943), (CHR ''m'', 2212840), (CHR ''f'', 1757922),
        (CHR ''n'', 1468954), (CHR ''s'', 1466071), (CHR ''w'', 1072589), (CHR ''v'', 761858),
        (CHR ''z'', 546974), (CHR ''q'', 494265), (CHR ''r'', 469124), (CHR ''g'', 316842)]),
     (''rt'', [(CHR ''i'', 1820896186), (CHR ''h'', 1294585422), (CHR ''a'', 1186873824),
        (CHR ''e'', 876320368), (CHR ''s'', 662908976), (CHR ''y'', 584138340), (CHR ''u'', 428054327),
        (CHR ''m'', 191745251), (CHR ''o'', 120805092), (CHR ''l'', 112936085), (CHR ''n'', 84188453),
        (CHR ''r'', 83280275), (CHR ''f'', 22486722), (CHR ''g'', 21249047), (CHR ''z'', 18196413),
        (CHR ''w'', 8126494), (CHR ''c'', 7958804), (CHR ''b'', 3427158), (CHR ''t'', 1707765),
        (CHR ''v'', 164326)]),
     (''ru'', [(CHR ''c'', 774924407), (CHR ''s'', 601298067), (CHR ''l'', 337126492), (CHR ''e'', 262866701),
        (CHR ''m'', 247176477), (CHR ''n'', 202854808), (CHR ''t'', 200710674), (CHR ''g'', 196617661),
        (CHR ''i'', 159191407), (CHR ''p'', 151145706), (CHR ''d'', 91775936), (CHR ''b'', 74974520),
        (CHR ''a'', 72633505), (CHR ''r'', 54983320), (CHR ''f'', 11448299), (CHR ''z'', 6845119),
        (CHR ''v'', 5181704), (CHR ''o'', 2119421), (CHR ''h'', 2014142), (CHR ''x'', 1891707),
        (CHR ''y'', 1490164), (CHR ''k'', 1448406), (CHR ''j'', 840490), (CHR ''u'', 223562)]),
     (''rv'', [(CHR ''e'', 842146751), (CHR ''i'', 681816885), (CHR ''a'', 364236067), (CHR ''o'', 53388604),
        (CHR ''y'', 1952818), (CHR ''u'', 827270), (CHR ''l'', 616011), (CHR ''n'', 299212),
        (CHR ''s'', 133133)])]"

definition ngrams_r4 :: "(string \<times> (char \<times> nat) list) list" where
  "ngrams_r4 =
    [(''rw'', [(CHR ''a'', 192804732), (CHR ''i'', 99513268), (CHR ''h'', 21027006), (CHR ''e'', 20557271),
        (CHR ''o'', 18798621), (CHR ''r'', 5516080)]),
     (''rx'', [(CHR ''i'', 15947580), (CHR ''e'', 1238326)]),
     (''ry'', [(CHR ''i'', 177011612), (CHR ''t'', 111938520), (CHR ''o'', 80277720), (CHR ''s'', 69907177),
        (CHR ''l'', 29048623), (CHR ''w'', 28205161), (CHR ''b'', 24349586), (CHR ''a'', 22144320),
        (CHR ''d'', 21128109), (CHR ''n'', 17738003), (CHR ''p'', 15720498), (CHR ''m'', 14315284),
        (CHR ''e'', 4853393), (CHR ''c'', 2450469), (CHR ''g'', 1780883), (CHR ''k'', 1556263),
        (CHR ''z'', 484596), (CHR ''x'', 335533), (CHR ''u'', 193482), (CHR ''y'', 148728),
        (CHR ''v'', 109782)]),
     (''rz'', [(CHR ''e'', 3983388), (CHR ''a'', 3545507), (CHR ''o'', 3216547), (CHR ''b'', 1002271),
        (CHR ''l'', 713637), (CHR ''y'', 481062), (CHR ''i'', 430167), (CHR ''k'', 212547),
        (CHR ''s'', 199895), (CHR ''f'', 183650), (CHR ''u'', 158068), (CHR ''h'', 104478)])]"

definition ngrams_s1 :: "(string \<times> (char \<times> nat) list) list" where
  "ngrams_s1 =
    [(''sa'', [(CHR ''i'', 910058784), (CHR ''m'', 805448962), (CHR ''l'', 634962816), (CHR ''n'', 520631557),
        (CHR ''t'', 480769656), (CHR ''r'', 404199656), (CHR ''y'', 288586714), (CHR ''g'', 246330539),
        (CHR ''c'', 212650421), (CHR ''v'', 174641075), (CHR ''f'', 134810467), (CHR ''b'', 99194824),
        (CHR ''p'', 93922466), (CHR ''d'', 93168745), (CHR ''s'', 74363543), (CHR ''u'', 66173136),
        (CHR ''k'', 42352157), (CHR ''w'', 18535998), (CHR ''x'', 17094829), (CHR ''a'', 13630386),
        (CHR ''h'', 8746444), (CHR ''e'', 2110995), (CHR ''o'', 576533), (CHR ''z'', 520218),
        (CHR ''q'', 108435)]),
     (''sb'', [(CHR ''a'', 95586368), (CHR ''u'', 50364947), (CHR ''y'', 20358895), (CHR ''o'', 15385123),
        (CHR ''e'', 14221951), (CHR ''i'', 9698027), (CHR ''n'', 8751199), (CHR ''r'', 1192598)]),
     (''sc'', [(CHR ''h'', 860672646), (CHR ''r'', 799318585), (CHR ''o'', 666771231), (CHR ''i'', 591745725),
        (CHR ''a'', 497104317), (CHR ''u'', 402905888), (CHR ''e'', 377139657), (CHR ''l'', 106351433),
        (CHR ''s'', 4420709), (CHR ''y'', 2752188), (CHR ''m'', 111333)]),
     (''sd'', [(CHR ''a'', 41021384), (CHR ''o'', 37427078), (CHR ''i'', 35834130), (CHR ''e'', 10686491),
        (CHR ''u'', 4433173), (CHR ''r'', 1525778), (CHR ''n'', 1077012), (CHR ''l'', 557596),
        (CHR ''y'', 216929), (CHR ''s'', 105532)]),
     (''se'', [(CHR ''d'', 2707992327), (CHR ''n'', 2274947402), (CHR ''s'', 2043296996),
        (CHR ''r'', 1980815441), (CHR ''l'', 1943938672), (CHR ''c'', 1276976353),
        (CHR ''e'', 955233255), (CHR ''a'', 760587061), (CHR ''v'', 538280235), (CHR ''t'', 453735168),
        (CHR ''p'', 338203987), (CHR ''m'', 300616893), (CHR ''q'', 283500150), (CHR ''x'', 123851899),
        (CHR ''f'', 97811974), (CHR ''i'', 73116646), (CHR ''u'', 70323322), (CHR ''w'', 70274420),
        (CHR ''h'', 58583662), (CHR ''g'', 58416321), (CHR ''y'', 47118303), (CHR ''b'', 24965868),
        (CHR ''o'', 11487900), (CHR ''k'', 5839145), (CHR ''z'', 2566992), (CHR ''j'', 847017)]),
     (''sf'', [(CHR ''u'', 118888087), (CHR ''e'', 106172623), (CHR ''o'', 93408923), (CHR ''a'', 77570198),
        (CHR ''i'', 50564801), (CHR ''y'', 27970708), (CHR ''r'', 610734), (CHR ''s'', 440173)]),
     (''sg'', [(CHR ''u'', 24889240), (CHR ''r'', 18929268), (CHR ''o'', 9238923), (CHR ''i'', 7024069),
        (CHR ''e'', 3319625), (CHR ''a'', 1556345), (CHR ''s'', 471417), (CHR ''m'', 239141),
        (CHR ''b'', 189127)]),
     (''sh'', [(CHR ''o'', 2199759934), (CHR ''i'', 1272950319), (CHR ''e'', 1144597826),
        (CHR ''a'', 1087379625), (CHR ''m'', 145402582), (CHR ''r'', 90393844), (CHR ''u'', 64709715),
        (CHR ''n'', 22075154), (CHR ''l'', 19224318), (CHR ''y'', 9732199), (CHR ''w'', 7408534),
        (CHR ''t'', 5830180), (CHR ''b'', 5540406), (CHR ''v'', 4301623), (CHR ''c'', 3783389),
        (CHR ''k'', 3108556), (CHR ''f'', 2546929), (CHR ''d'', 968315), (CHR ''s'', 638228),
        (CHR ''g'', 544091), (CHR ''p'', 286226), (CHR ''h'', 156433)])]"

definition ngrams_s2 :: "(string \<times> (char \<times> nat) list) list" where
  "ngrams_s2 =
    [(''si'', [(CHR ''o'', 2666407502), (CHR ''n'', 2307249062), (CHR ''t'', 2012052262),
        (CHR ''d'', 1567374859), (CHR ''s'', 1298225422), (CHR ''g'', 953436564), (CHR ''b'', 805318117),
        (CHR ''c'', 675750488), (CHR ''m'', 664930602), (CHR ''v'', 516020371), (CHR ''a'', 411154164),
        (CHR ''l'', 354434275), (CHR ''z'', 220965831), (CHR ''r'', 200730016), (CHR ''e'', 142881364),
        (CHR ''f'', 93202398), (CHR ''x'', 83527779), (CHR ''u'', 39755825), (CHR ''p'', 39237289),
        (CHR ''k'', 8335501), (CHR ''q'', 3304224), (CHR ''i'', 878223), (CHR ''h'', 511144),
        (CHR ''w'', 223394)]),
     (''sj'', [(CHR ''u'', 2878648), (CHR ''o'', 2366643), (CHR ''i'', 401577), (CHR ''a'', 147907)]),
     (''sk'', [(CHR ''i'', 288281627), (CHR ''e'', 278298183), (CHR ''s'', 81617329), (CHR ''y'', 33078964),
        (CHR ''a'', 27190252), (CHR ''u'', 14143668), (CHR ''r'', 5732021), (CHR ''t'', 3601231),
        (CHR ''o'', 2611680), (CHR ''l'', 2186811), (CHR ''v'', 410709), (CHR ''b'', 333294),
        (CHR ''j'', 330056), (CHR ''m'', 198179), (CHR ''n'', 102332)]),
     (''sl'', [(CHR ''a'', 543249217), (CHR ''y'', 329895477), (CHR ''i'', 250330054), (CHR ''e'', 206326534),
        (CHR ''o'', 205203823), (CHR ''u'', 28140337), (CHR ''n'', 266222), (CHR ''t'', 261230)]),
     (''sm'', [(CHR ''a'', 556708257), (CHR ''i'', 275119433), (CHR ''e'', 142481951), (CHR ''o'', 127416653),
        (CHR ''s'', 70616947), (CHR ''u'', 27160111), (CHR ''y'', 3282141), (CHR ''t'', 480311),
        (CHR ''r'', 295160), (CHR ''c'', 176464)]),
     (''sn'', [(CHR ''e'', 115091932), (CHR ''a'', 56190299), (CHR ''o'', 53808370), (CHR ''i'', 12866467),
        (CHR ''u'', 7175967), (CHR ''y'', 2585962), (CHR ''c'', 705809), (CHR ''m'', 627686),
        (CHR ''p'', 134468)]),
     (''so'', [(CHR ''n'', 2029918425), (CHR ''m'', 1909499139), (CHR ''c'', 1071353581),
        (CHR ''u'', 995877670), (CHR ''l'', 938575567), (CHR ''r'', 623761386), (CHR ''o'', 190920870),
        (CHR ''p'', 187417133), (CHR ''f'', 126871052), (CHR ''v'', 120567962), (CHR ''i'', 97296790),
        (CHR ''d'', 58392361), (CHR ''t'', 36787978), (CHR ''a'', 26806546), (CHR ''b'', 25511433),
        (CHR ''e'', 17004346), (CHR ''w'', 12015401), (CHR ''s'', 9515360), (CHR ''y'', 3984044),
        (CHR ''j'', 3507191), (CHR ''h'', 3342738), (CHR ''z'', 3007964), (CHR ''k'', 2436092),
        (CHR ''g'', 2155255), (CHR ''q'', 153725), (CHR ''x'', 101840)]),
     (''sp'', [(CHR ''e'', 2317846417), (CHR ''o'', 987406369), (CHR ''i'', 755101078), (CHR ''a'', 548784316),
        (CHR ''r'', 271405490), (CHR ''l'', 202065169), (CHR ''h'', 154986292), (CHR ''u'', 74967202),
        (CHR ''s'', 5814115), (CHR ''y'', 2243657), (CHR ''n'', 2092907), (CHR ''b'', 1588353),
        (CHR ''f'', 347785), (CHR ''c'', 188843), (CHR ''q'', 185964), (CHR ''x'', 121979)]),
     (''sq'', [(CHR ''u'', 193045210), (CHR ''l'', 632864), (CHR ''r'', 201357)]),
     (''sr'', [(CHR ''a'', 65918662), (CHR ''o'', 29076706), (CHR ''e'', 21953704), (CHR ''u'', 16775743),
        (CHR ''i'', 1904107), (CHR ''s'', 850513), (CHR ''h'', 368778), (CHR ''d'', 155548),
        (CHR ''c'', 115289), (CHR ''n'', 113172)])]"

definition ngrams_s3 :: "(string \<times> (char \<times> nat) list) list" where
  "ngrams_s3 =
    [(''ss'', [(CHR ''i'', 2854738647), (CHR ''e'', 1960465720), (CHR ''u'', 742923095), (CHR ''a'', 699137067),
        (CHR ''o'', 579822266), (CHR ''f'', 107724600), (CHR ''m'', 87144711), (CHR ''l'', 45743589),
        (CHR ''r'', 40178752), (CHR ''y'', 29534171), (CHR ''n'', 23408809), (CHR ''w'', 9512944),
        (CHR ''p'', 6961155), (CHR ''h'', 4496478), (CHR ''b'', 3636624), (CHR ''t'', 2453894),
        (CHR ''c'', 1724716), (CHR ''s'', 1648957), (CHR ''k'', 443864)]),
     (''st'', [(CHR ''a'', 5001440804), (CHR ''r'', 4003189532), (CHR ''i'', 3837956744),
        (CHR ''e'', 3590970361), (CHR ''o'', 2113099683), (CHR ''u'', 1026502490),
        (CHR ''s'', 929339452), (CHR ''l'', 208604257), (CHR ''y'', 204657767), (CHR ''m'', 166858729),
        (CHR ''h'', 73280407), (CHR ''w'', 30202489), (CHR ''p'', 15246519), (CHR ''n'', 12749841),
        (CHR ''c'', 8289377), (CHR ''f'', 7969408), (CHR ''b'', 3713795), (CHR ''g'', 2458146),
        (CHR ''v'', 2005275), (CHR ''t'', 1700820), (CHR ''d'', 827514), (CHR ''k'', 183686),
        (CHR ''q'', 123968)]),
     (''su'', [(CHR ''r'', 1718756088), (CHR ''c'', 1463449595), (CHR ''p'', 994885018), (CHR ''b'', 964666815),
        (CHR ''l'', 668690034), (CHR ''m'', 596496690), (CHR ''a'', 408099656), (CHR ''e'', 362310365),
        (CHR ''s'', 352480158), (CHR ''g'', 281059087), (CHR ''f'', 274884596), (CHR ''i'', 197003169),
        (CHR ''n'', 128927838), (CHR ''d'', 100891706), (CHR ''t'', 19618590), (CHR ''z'', 5658091),
        (CHR ''o'', 4394064), (CHR ''k'', 1392688), (CHR ''v'', 1255653), (CHR ''h'', 993387),
        (CHR ''j'', 939007), (CHR ''u'', 451539)]),
     (''sv'', [(CHR ''e'', 15830137), (CHR ''i'', 8757403), (CHR ''a'', 3617914), (CHR ''s'', 209902),
        (CHR ''p'', 197240), (CHR ''o'', 185905)]),
     (''sw'', [(CHR ''e'', 364224376), (CHR ''i'', 134547019), (CHR ''a'', 83574131), (CHR ''o'', 67655031),
        (CHR ''u'', 6920155), (CHR ''r'', 233312), (CHR ''d'', 141590)]),
     (''sy'', [(CHR ''s'', 629577843), (CHR ''m'', 245055024), (CHR ''c'', 206980672), (CHR ''n'', 148743342),
        (CHR ''l'', 58932447), (CHR ''r'', 31428485), (CHR ''d'', 10671064), (CHR ''p'', 6684151),
        (CHR ''t'', 1598794), (CHR ''b'', 1308377), (CHR ''k'', 1167520), (CHR ''e'', 1055226),
        (CHR ''g'', 708975), (CHR ''a'', 602816), (CHR ''i'', 562567), (CHR ''o'', 109350)]),
     (''sz'', [(CHR ''t'', 1637324), (CHR ''a'', 1429299), (CHR ''e'', 1127040), (CHR ''l'', 407851),
        (CHR ''i'', 205133), (CHR ''k'', 164998), (CHR ''c'', 112123)])]"

definition ngrams_t1 :: "(string \<times> (char \<times> nat) list) list" where
  "ngrams_t1 =
    [(''ta'', [(CHR ''t'', 2814761656), (CHR ''n'', 2579054704), (CHR ''l'', 1971161761),
        (CHR ''i'', 1762842795), (CHR ''b'', 1097451398), (CHR ''r'', 1053073093),
        (CHR ''k'', 997097142), (CHR ''g'', 497450981), (CHR ''c'', 456137156), (CHR ''s'', 268186724),
        (CHR ''m'', 144424005), (CHR ''y'', 120182869), (CHR ''x'', 108552812), (CHR ''p'', 104659500),
        (CHR ''f'', 97380687), (CHR ''u'', 83206141), (CHR ''v'', 23207720), (CHR ''d'', 20473983),
        (CHR ''h'', 13545364), (CHR ''w'', 10492496), (CHR ''e'', 4798282), (CHR ''o'', 2817338),
        (CHR ''a'', 2231615), (CHR ''z'', 1018104), (CHR ''j'', 957497), (CHR ''q'', 379391)]),
     (''tb'', [(CHR ''a'', 21963237), (CHR ''o'', 15516609), (CHR ''r'', 12046831), (CHR ''u'', 6867385),
        (CHR ''e'', 3306785), (CHR ''i'', 1383337), (CHR ''s'', 960955), (CHR ''y'', 810078),
        (CHR ''f'', 111046)]),
     (''tc'', [(CHR ''h'', 626837845), (CHR ''o'', 53326816), (CHR ''a'', 10972318), (CHR ''y'', 9300921),
        (CHR ''r'', 4827276), (CHR ''l'', 2965625), (CHR ''u'', 2822646), (CHR ''i'', 464177),
        (CHR ''e'', 356486), (CHR ''d'', 229041), (CHR ''c'', 152471)]),
     (''td'', [(CHR ''o'', 12817788), (CHR ''e'', 3784952), (CHR ''a'', 1906260), (CHR ''s'', 441371),
        (CHR ''n'', 344371), (CHR ''i'', 340874), (CHR ''m'', 207772), (CHR ''r'', 179512)]),
     (''te'', [(CHR ''r'', 10294398027), (CHR ''d'', 6604761267), (CHR ''n'', 2930568724),
        (CHR ''s'', 2253285512), (CHR ''m'', 1620975741), (CHR ''l'', 1124248840),
        (CHR ''a'', 668537443), (CHR ''c'', 649920889), (CHR ''e'', 637599684), (CHR ''x'', 315280847),
        (CHR ''g'', 312899573), (CHR ''p'', 224768627), (CHR ''i'', 119944855), (CHR ''v'', 113283643),
        (CHR ''o'', 46159823), (CHR ''w'', 39306395), (CHR ''f'', 35902216), (CHR ''t'', 30529480),
        (CHR ''b'', 25445318), (CHR ''u'', 22930020), (CHR ''h'', 12192287), (CHR ''z'', 2256640),
        (CHR ''k'', 1534175), (CHR ''y'', 1078724), (CHR ''j'', 467564), (CHR ''q'', 330635)]),
     (''tf'', [(CHR ''u'', 76742710), (CHR ''o'', 52367776), (CHR ''i'', 10094664), (CHR ''a'', 6796633),
        (CHR ''l'', 3677718), (CHR ''e'', 3537816), (CHR ''r'', 1304528), (CHR ''s'', 305759)]),
     (''tg'', [(CHR ''a'', 25614353), (CHR ''o'', 10847142), (CHR ''e'', 7759698), (CHR ''r'', 5391167),
        (CHR ''u'', 2638469), (CHR ''i'', 377957), (CHR ''l'', 211529)]),
     (''th'', [(CHR ''e'', 16123759410), (CHR ''a'', 9444575886), (CHR ''i'', 6355652037),
        (CHR ''o'', 3352899315), (CHR ''r'', 1672419841), (CHR ''u'', 486487241), (CHR ''s'', 296910112),
        (CHR ''y'', 203716277), (CHR ''w'', 79594897), (CHR ''l'', 79090658), (CHR ''m'', 75980197),
        (CHR ''d'', 57822132), (CHR ''n'', 50216535), (CHR ''f'', 48195004), (CHR ''c'', 14200132),
        (CHR ''h'', 10622622), (CHR ''q'', 10298133), (CHR ''p'', 5366156), (CHR ''b'', 4478012),
        (CHR ''t'', 2053215), (CHR ''g'', 763504), (CHR ''k'', 449735), (CHR ''v'', 363096)])]"

definition ngrams_t2 :: "(string \<times> (char \<times> nat) list) list" where
  "ngrams_t2 =
    [(''ti'', [(CHR ''o'', 16818804772), (CHR ''n'', 4300564366), (CHR ''c'', 3826242861),
        (CHR ''v'', 2823689672), (CHR ''m'', 2271857252), (CHR ''e'', 1627358754),
        (CHR ''t'', 1243964068), (CHR ''l'', 1112536573), (CHR ''a'', 1034053231),
        (CHR ''s'', 891848049), (CHR ''f'', 624378284), (CHR ''r'', 295898790), (CHR ''g'', 250309106),
        (CHR ''p'', 130717085), (CHR ''z'', 129112465), (CHR ''b'', 116248780), (CHR ''d'', 70367894),
        (CHR ''q'', 50223516), (CHR ''u'', 19781835), (CHR ''k'', 4948672), (CHR ''h'', 2189111),
        (CHR ''i'', 1200985), (CHR ''w'', 913514), (CHR ''j'', 834062), (CHR ''y'', 628685)]),
     (''tj'', [(CHR ''o'', 340174), (CHR ''e'', 215817), (CHR ''i'', 202015), (CHR ''a'', 200860)]),
     (''tk'', [(CHR ''i'', 7758165), (CHR ''a'', 1474776), (CHR ''e'', 1243215), (CHR ''y'', 414948),
        (CHR ''n'', 183686), (CHR ''o'', 159483), (CHR ''r'', 158392)]),
     (''tl'', [(CHR ''y'', 1303246357), (CHR ''e'', 1251381323), (CHR ''a'', 97438329), (CHR ''i'', 92315144),
        (CHR ''o'', 14801529), (CHR ''v'', 305292), (CHR ''n'', 244757), (CHR ''t'', 186501),
        (CHR ''u'', 113140)]),
     (''tm'', [(CHR ''e'', 586154162), (CHR ''o'', 75164174), (CHR ''a'', 56891658), (CHR ''i'', 9791637),
        (CHR ''l'', 5072048), (CHR ''u'', 1247148), (CHR ''s'', 226728)]),
     (''tn'', [(CHR ''e'', 206375701), (CHR ''a'', 33163067), (CHR ''i'', 16288168), (CHR ''o'', 7844079),
        (CHR ''u'', 6482894), (CHR ''c'', 451437), (CHR ''y'', 189894), (CHR ''f'', 113391)]),
     (''to'', [(CHR ''r'', 3112257656), (CHR ''n'', 1082908044), (CHR ''m'', 546876238), (CHR ''w'', 519339133),
        (CHR ''o'', 496471836), (CHR ''l'', 346585847), (CHR ''g'', 315901639), (CHR ''p'', 286160280),
        (CHR ''t'', 280043209), (CHR ''u'', 235595402), (CHR ''c'', 218564382), (CHR ''d'', 139417608),
        (CHR ''b'', 118460723), (CHR ''s'', 71608883), (CHR ''i'', 51519178), (CHR ''x'', 43910365),
        (CHR ''k'', 36387847), (CHR ''e'', 32481444), (CHR ''y'', 13376864), (CHR ''v'', 13141967),
        (CHR ''a'', 9918066), (CHR ''f'', 9867901), (CHR ''z'', 3592289), (CHR ''h'', 723015),
        (CHR ''j'', 266598), (CHR ''q'', 100973)]),
     (''tp'', [(CHR ''u'', 69074650), (CHR ''o'', 15717739), (CHR ''a'', 7852705), (CHR ''l'', 5309714),
        (CHR ''e'', 2915101), (CHR ''r'', 2678306), (CHR ''h'', 1590198)]),
     (''tq'', [(CHR ''u'', 1464907)]),
     (''tr'', [(CHR ''a'', 4101921578), (CHR ''i'', 2272464288), (CHR ''e'', 1615558958),
        (CHR ''o'', 1582413767), (CHR ''u'', 1548953958), (CHR ''y'', 767570989), (CHR ''l'', 1854339),
        (CHR ''n'', 1330462), (CHR ''d'', 138483), (CHR ''v'', 121240)]),
     (''ts'', [(CHR ''e'', 237368599), (CHR ''i'', 133440092), (CHR ''o'', 31018464), (CHR ''t'', 30703309),
        (CHR ''c'', 22693968), (CHR ''m'', 16140256), (CHR ''b'', 10146542), (CHR ''h'', 9211316),
        (CHR ''k'', 8959677), (CHR ''u'', 8072868), (CHR ''a'', 7505736), (CHR ''y'', 4812232),
        (CHR ''w'', 3683684), (CHR ''p'', 3493441), (CHR ''d'', 2638528), (CHR ''f'', 942717),
        (CHR ''v'', 830428), (CHR ''l'', 159063), (CHR ''s'', 108956), (CHR ''z'', 102419)])]"

definition ngrams_t3 :: "(string \<times> (char \<times> nat) list) list" where
  "ngrams_t3 =
    [(''tt'', [(CHR ''e'', 2421253360), (CHR ''l'', 777507087), (CHR ''i'', 532415612), (CHR ''a'', 342330165),
        (CHR ''o'', 219362097), (CHR ''r'', 161117124), (CHR ''y'', 86318735), (CHR ''s'', 48184906),
        (CHR ''h'', 21149671), (CHR ''g'', 6558603), (CHR ''u'', 6017505), (CHR ''p'', 1850617),
        (CHR ''v'', 1811232), (CHR ''m'', 1694092), (CHR ''f'', 1161827), (CHR ''n'', 659695),
        (CHR ''k'', 414948), (CHR ''w'', 377906)]),
     (''tu'', [(CHR ''r'', 3715597085), (CHR ''d'', 974798180), (CHR ''a'', 833794003), (CHR ''t'', 544279744),
        (CHR ''n'', 302367823), (CHR ''s'', 186881309), (CHR ''m'', 150266987), (CHR ''e'', 104469854),
        (CHR ''b'', 102016863), (CHR ''l'', 42901186), (CHR ''c'', 42625062), (CHR ''i'', 34827872),
        (CHR ''f'', 34065696), (CHR ''p'', 28124413), (CHR ''g'', 27224705), (CHR ''o'', 24745037),
        (CHR ''k'', 1023626), (CHR ''y'', 716755), (CHR ''x'', 523520), (CHR ''u'', 499447),
        (CHR ''z'', 134186), (CHR ''v'', 126893)]),
     (''tv'', [(CHR ''i'', 4248985), (CHR ''a'', 2241508), (CHR ''e'', 619300), (CHR ''o'', 613671),
        (CHR ''p'', 108487)]),
     (''tw'', [(CHR ''e'', 965763959), (CHR ''i'', 117695254), (CHR ''o'', 110062893), (CHR ''a'', 89669899),
        (CHR ''r'', 1641919), (CHR ''h'', 1223226), (CHR ''y'', 221849), (CHR ''u'', 117369)]),
     (''ty'', [(CHR ''p'', 453885448), (CHR ''l'', 130053117), (CHR ''r'', 44157731), (CHR ''a'', 8721983),
        (CHR ''i'', 6343666), (CHR ''m'', 6148852), (CHR ''n'', 4804441), (CHR ''s'', 4618211),
        (CHR ''f'', 3063239), (CHR ''c'', 1824472), (CHR ''t'', 1433486), (CHR ''e'', 830945),
        (CHR ''o'', 618316), (CHR ''b'', 506863), (CHR ''x'', 269420), (CHR ''g'', 240319),
        (CHR ''w'', 229238), (CHR ''d'', 176700), (CHR ''h'', 109490)]),
     (''tz'', [(CHR ''e'', 20891832), (CHR ''s'', 6918405), (CHR ''g'', 4726653), (CHR ''i'', 3327648),
        (CHR ''m'', 2399704), (CHR ''a'', 1528396), (CHR ''p'', 1210761), (CHR ''h'', 1137414),
        (CHR ''t'', 932149), (CHR ''b'', 920614), (CHR ''v'', 738842), (CHR ''r'', 669737),
        (CHR ''w'', 555301), (CHR ''l'', 451129), (CHR ''o'', 449668), (CHR ''k'', 404049),
        (CHR ''f'', 171945), (CHR ''j'', 134157), (CHR ''c'', 105050), (CHR ''u'', 103632)])]"

definition ngrams_u1 :: "(string \<times> (char \<times> nat) list) list" where
  "ngrams_u1 =
    [(''ua'', [(CHR ''l'', 1996040869), (CHR ''t'', 624513390), (CHR ''r'', 536583980), (CHR ''g'', 216883280),
        (CHR ''n'', 189933012), (CHR ''d'', 63002731), (CHR ''b'', 52249404), (CHR ''i'', 41211401),
        (CHR ''s'', 26394135), (CHR ''k'', 18191334), (CHR ''c'', 13775775), (CHR ''y'', 9484505),
        (CHR ''m'', 7843272), (CHR ''e'', 3742222), (CHR ''v'', 1817971), (CHR ''w'', 1640180),
        (CHR ''h'', 885947), (CHR ''u'', 243262), (CHR ''f'', 202116), (CHR ''x'', 148202)]),
     (''ub'', [(CHR ''l'', 943284050), (CHR ''s'', 400450396), (CHR ''j'', 328560179), (CHR ''t'', 204158911),
        (CHR ''e'', 112624643), (CHR ''m'', 72487397), (CHR ''b'', 70775459), (CHR ''i'', 51984460),
        (CHR ''a'', 47770130), (CHR ''o'', 31277503), (CHR ''u'', 30661244), (CHR ''c'', 24185977),
        (CHR ''d'', 23175890), (CHR ''r'', 16849179), (CHR ''v'', 7834042), (CHR ''p'', 6147909),
        (CHR ''g'', 5544943), (CHR ''y'', 3745692), (CHR ''h'', 2563157), (CHR ''n'', 2527075),
        (CHR ''w'', 2497890), (CHR ''f'', 1502941), (CHR ''z'', 121127), (CHR ''q'', 116657)]),
     (''uc'', [(CHR ''h'', 1883487722), (CHR ''t'', 1516479303), (CHR ''e'', 624817434), (CHR ''c'', 348385281),
        (CHR ''a'', 341193770), (CHR ''k'', 220771001), (CHR ''i'', 161204979), (CHR ''l'', 95553765),
        (CHR ''o'', 36131083), (CHR ''r'', 27812297), (CHR ''u'', 11030821), (CHR ''y'', 10398991),
        (CHR ''s'', 2087044), (CHR ''n'', 396601), (CHR ''p'', 137073)]),
     (''ud'', [(CHR ''e'', 933835760), (CHR ''i'', 631585347), (CHR ''y'', 280447225), (CHR ''g'', 262714044),
        (CHR ''d'', 158629626), (CHR ''a'', 58816170), (CHR ''s'', 44754706), (CHR ''o'', 21948809),
        (CHR ''l'', 16593371), (CHR ''u'', 5330283), (CHR ''w'', 4293092), (CHR ''r'', 4257372),
        (CHR ''h'', 2586413), (CHR ''n'', 1135771), (CHR ''b'', 597963), (CHR ''m'', 280816),
        (CHR ''f'', 228585), (CHR ''v'', 215757), (CHR ''z'', 114018)]),
     (''ue'', [(CHR ''s'', 1093723514), (CHR ''n'', 785681398), (CHR ''d'', 279157324), (CHR ''l'', 146085097),
        (CHR ''r'', 106901475), (CHR ''e'', 81228540), (CHR ''t'', 25747607), (CHR ''b'', 19801188),
        (CHR ''z'', 10117204), (CHR ''u'', 7821435), (CHR ''a'', 7375394), (CHR ''o'', 7286223),
        (CHR ''v'', 5894302), (CHR ''f'', 3286873), (CHR ''g'', 2566273), (CHR ''p'', 2540016),
        (CHR ''h'', 1960616), (CHR ''m'', 1886818), (CHR ''i'', 1765202), (CHR ''c'', 1025692),
        (CHR ''y'', 975694)]),
     (''uf'', [(CHR ''f'', 385031519), (CHR ''a'', 102370541), (CHR ''t'', 5598406), (CHR ''m'', 3202895),
        (CHR ''o'', 3042151), (CHR ''u'', 2599511), (CHR ''i'', 2494038), (CHR ''l'', 2445718),
        (CHR ''e'', 1256789), (CHR ''r'', 642370), (CHR ''g'', 436573), (CHR ''b'', 242448),
        (CHR ''c'', 120158), (CHR ''k'', 108897), (CHR ''s'', 100118)]),
     (''ug'', [(CHR ''h'', 2701350975), (CHR ''g'', 358718875), (CHR ''u'', 134487562), (CHR ''e'', 101183478),
        (CHR ''a'', 85157764), (CHR ''s'', 50225966), (CHR ''l'', 33384719), (CHR ''o'', 16403618),
        (CHR ''i'', 11281799), (CHR ''m'', 10511878), (CHR ''n'', 4488987), (CHR ''b'', 1961392),
        (CHR ''d'', 701291), (CHR ''r'', 314278), (CHR ''w'', 300189)])]"

definition ngrams_u2 :: "(string \<times> (char \<times> nat) list) list" where
  "ngrams_u2 =
    [(''uh'', [(CHR ''a'', 12383226), (CHR ''r'', 3422089), (CHR ''n'', 2175024), (CHR ''l'', 1413794),
        (CHR ''e'', 911260), (CHR ''o'', 285131), (CHR ''i'', 253853), (CHR ''m'', 230372),
        (CHR ''t'', 113163), (CHR ''u'', 102704)]),
     (''ui'', [(CHR ''t'', 650900214), (CHR ''r'', 543000381), (CHR ''l'', 450594824), (CHR ''s'', 336825051),
        (CHR ''d'', 240344701), (CHR ''n'', 196882466), (CHR ''c'', 149971363), (CHR ''p'', 84692048),
        (CHR ''e'', 74871269), (CHR ''v'', 57884703), (CHR ''a'', 6467815), (CHR ''z'', 5599944),
        (CHR ''b'', 2834326), (CHR ''x'', 2383658), (CHR ''f'', 2315175), (CHR ''g'', 2218623),
        (CHR ''u'', 1237033), (CHR ''o'', 1128923), (CHR ''m'', 1047565), (CHR ''k'', 578834),
        (CHR ''j'', 351620)]),
     (''uj'', [(CHR ''a'', 5651822), (CHR ''i'', 3688659), (CHR ''e'', 1728834), (CHR ''o'', 1389922),
        (CHR ''u'', 877246), (CHR ''j'', 159836), (CHR ''r'', 129412)]),
     (''uk'', [(CHR ''e'', 74063373), (CHR ''r'', 8133696), (CHR ''a'', 6191852), (CHR ''o'', 6040595),
        (CHR ''i'', 4412286), (CHR ''u'', 2475058), (CHR ''h'', 2046565), (CHR ''t'', 1007664),
        (CHR ''k'', 536454), (CHR ''s'', 450709), (CHR ''y'', 409657), (CHR ''d'', 363502),
        (CHR ''l'', 278726), (CHR ''c'', 161173)]),
     (''ul'', [(CHR ''d'', 3259961228), (CHR ''a'', 1713084349), (CHR ''t'', 1712147437),
        (CHR ''l'', 713647946), (CHR ''e'', 464274375), (CHR ''i'', 181001364), (CHR ''y'', 147188229),
        (CHR ''s'', 137446482), (CHR ''f'', 85434272), (CHR ''o'', 73854046), (CHR ''u'', 71231214),
        (CHR ''p'', 67309952), (CHR ''g'', 49507609), (CHR ''n'', 48176575), (CHR ''k'', 30989438),
        (CHR ''m'', 30068224), (CHR ''c'', 25135758), (CHR ''b'', 13297425), (CHR ''v'', 5455346),
        (CHR ''w'', 2848370), (CHR ''r'', 2499137), (CHR ''z'', 1883523), (CHR ''h'', 697216),
        (CHR ''q'', 160622)]),
     (''um'', [(CHR ''e'', 827222362), (CHR ''b'', 710795416), (CHR ''a'', 442912351), (CHR ''p'', 268926833),
        (CHR ''m'', 221878406), (CHR ''s'', 155106997), (CHR ''i'', 124582187), (CHR ''n'', 97838638),
        (CHR ''o'', 94256747), (CHR ''u'', 55533601), (CHR ''f'', 7787643), (CHR ''c'', 3488572),
        (CHR ''v'', 3150719), (CHR ''t'', 1500613), (CHR ''l'', 1241417), (CHR ''d'', 931409),
        (CHR ''r'', 894130), (CHR ''g'', 678739), (CHR ''h'', 311915), (CHR ''w'', 301285)]),
     (''un'', [(CHR ''d'', 3490359848), (CHR ''t'', 1982399980), (CHR ''i'', 1941633362),
        (CHR ''c'', 909575187), (CHR ''g'', 520471430), (CHR ''e'', 335620815), (CHR ''s'', 249380719),
        (CHR ''a'', 240625947), (CHR ''l'', 176507678), (CHR ''n'', 169998986), (CHR ''k'', 119351990),
        (CHR ''f'', 114551322), (CHR ''r'', 68344865), (CHR ''p'', 67423808), (CHR ''w'', 48457951),
        (CHR ''u'', 43232343), (CHR ''o'', 40704457), (CHR ''b'', 35612787), (CHR ''h'', 31509749),
        (CHR ''m'', 26425047), (CHR ''j'', 18872903), (CHR ''q'', 11448787), (CHR ''y'', 5119739),
        (CHR ''v'', 3861593), (CHR ''z'', 1401191)])]"

definition ngrams_u3 :: "(string \<times> (char \<times> nat) list) list" where
  "ngrams_u3 =
    [(''uo'', [(CHR ''u'', 128235153), (CHR ''t'', 86551932), (CHR ''r'', 32067828), (CHR ''d'', 10018884),
        (CHR ''i'', 5946622), (CHR ''y'', 5024287), (CHR ''n'', 3559985), (CHR ''s'', 3546582),
        (CHR ''m'', 3020182), (CHR ''l'', 2166451), (CHR ''v'', 1622369), (CHR ''k'', 642805),
        (CHR ''q'', 522022), (CHR ''x'', 341115), (CHR ''h'', 183582), (CHR ''a'', 181517),
        (CHR ''p'', 159890), (CHR ''g'', 141924), (CHR ''c'', 135689), (CHR ''b'', 117780)]),
     (''up'', [(CHR ''p'', 789463523), (CHR ''o'', 552304038), (CHR ''e'', 258202729), (CHR ''s'', 210503183),
        (CHR ''t'', 142549267), (CHR ''i'', 130765870), (CHR ''l'', 105610981), (CHR ''r'', 97958331),
        (CHR ''a'', 74294193), (CHR ''w'', 26228551), (CHR ''h'', 24526081), (CHR ''y'', 20385070),
        (CHR ''d'', 17874259), (CHR ''u'', 9494749), (CHR ''b'', 6409600), (CHR ''g'', 5316215),
        (CHR ''c'', 2005401), (CHR ''k'', 1039396), (CHR ''f'', 784307), (CHR ''j'', 346355),
        (CHR ''m'', 272211)]),
     (''uq'', [(CHR ''u'', 7004447)]),
     (''ur'', [(CHR ''e'', 3943714160), (CHR ''i'', 1195449558), (CHR ''a'', 1083374767),
        (CHR ''n'', 1063079215), (CHR ''s'', 1026746808), (CHR ''t'', 781997713), (CHR ''c'', 717790756),
        (CHR ''r'', 574723133), (CHR ''p'', 368459192), (CHR ''y'', 366670889), (CHR ''o'', 310259788),
        (CHR ''g'', 293935372), (CHR ''v'', 253114122), (CHR ''f'', 188501410), (CHR ''b'', 180221261),
        (CHR ''d'', 147896067), (CHR ''k'', 66444087), (CHR ''m'', 38625936), (CHR ''l'', 38231925),
        (CHR ''h'', 16142159), (CHR ''u'', 16140352), (CHR ''z'', 3065287), (CHR ''q'', 2194690),
        (CHR ''w'', 1161749)]),
     (''us'', [(CHR ''e'', 2713363815), (CHR ''t'', 2625663601), (CHR ''i'', 1101102074),
        (CHR ''s'', 495847002), (CHR ''l'', 324294218), (CHR ''u'', 282704995), (CHR ''a'', 261694048),
        (CHR ''h'', 227018420), (CHR ''c'', 149644599), (CHR ''p'', 113045280), (CHR ''b'', 88160407),
        (CHR ''n'', 73805622), (CHR ''y'', 33432220), (CHR ''k'', 24542719), (CHR ''o'', 12741168),
        (CHR ''q'', 2478613), (CHR ''d'', 2346817), (CHR ''g'', 1693597), (CHR ''m'', 1465695),
        (CHR ''z'', 587596), (CHR ''v'', 118947)]),
     (''ut'', [(CHR ''i'', 1413519303), (CHR ''e'', 1064585772), (CHR ''h'', 1044436559),
        (CHR ''s'', 270123878), (CHR ''t'', 259906065), (CHR ''u'', 230872652), (CHR ''o'', 211792076),
        (CHR ''a'', 158531921), (CHR ''y'', 141392915), (CHR ''r'', 121004904), (CHR ''l'', 107272366),
        (CHR ''c'', 104927553), (CHR ''p'', 76702151), (CHR ''w'', 23032391), (CHR ''m'', 17199538),
        (CHR ''b'', 16501753), (CHR ''d'', 13351015), (CHR ''f'', 9868811), (CHR ''g'', 8357146),
        (CHR ''n'', 7846249), (CHR ''z'', 3453856), (CHR ''v'', 294440)]),
     (''uu'', [(CHR ''m'', 20314290), (CHR ''n'', 507619), (CHR ''s'', 375388), (CHR ''t'', 175472),
        (CHR ''c'', 137073)]),
     (''uv'', [(CHR ''e'', 44644838), (CHR ''i'', 12142660), (CHR ''r'', 9908283), (CHR ''a'', 7278567),
        (CHR ''o'', 2673810), (CHR ''u'', 299418), (CHR ''s'', 110554)]),
     (''uw'', [(CHR ''a'', 3710453), (CHR ''e'', 2666064)])]"

definition ngrams_u4 :: "(string \<times> (char \<times> nat) list) list" where
  "ngrams_u4 =
    [(''ux'', [(CHR ''u'', 18130013), (CHR ''i'', 11645879), (CHR ''e'', 8229868), (CHR ''t'', 4982507),
        (CHR ''l'', 2976514), (CHR ''o'', 772320), (CHR ''a'', 631035), (CHR ''b'', 431888),
        (CHR ''h'', 380234), (CHR ''m'', 143995)]),
     (''uy'', [(CHR ''e'', 21505397), (CHR ''i'', 16530140), (CHR ''s'', 13920626), (CHR ''a'', 2247136),
        (CHR ''l'', 1963110), (CHR ''t'', 1795221), (CHR ''o'', 1223865), (CHR ''u'', 670165),
        (CHR ''g'', 600981), (CHR ''v'', 584420), (CHR ''n'', 284647), (CHR ''b'', 133538),
        (CHR ''p'', 125097), (CHR ''c'', 122921)]),
     (''uz'', [(CHR ''z'', 28932187), (CHR ''e'', 5819036), (CHR ''a'', 3249730), (CHR ''u'', 1688213),
        (CHR ''b'', 1436628), (CHR ''o'', 971592), (CHR ''c'', 928443), (CHR ''m'', 867634),
        (CHR ''i'', 595867), (CHR ''n'', 539883), (CHR ''y'', 539329), (CHR ''h'', 268049)])]"

definition ngrams_v1 :: "(string \<times> (char \<times> nat) list) list" where
  "ngrams_v1 =
    [(''va'', [(CHR ''l'', 1164439298), (CHR ''r'', 693649533), (CHR ''t'', 632255713), (CHR ''n'', 566953779),
        (CHR ''i'', 248158786), (CHR ''s'', 155072620), (CHR ''g'', 81571157), (CHR ''c'', 78274243),
        (CHR ''d'', 42152315), (CHR ''b'', 37581179), (CHR ''p'', 33077333), (CHR ''u'', 17266556),
        (CHR ''k'', 12201441), (CHR ''e'', 7621580), (CHR ''h'', 5367799), (CHR ''j'', 4478205),
        (CHR ''m'', 3049127), (CHR ''a'', 2780018), (CHR ''y'', 569119), (CHR ''z'', 446655),
        (CHR ''x'', 312491), (CHR ''q'', 299808), (CHR ''o'', 223110), (CHR ''v'', 216072)]),
     (''vb'', [(CHR ''s'', 237728)]),
     (''vc'', [(CHR ''r'', 265295), (CHR ''h'', 143479), (CHR ''s'', 117739)]),
     (''vd'', [(CHR ''a'', 1364940), (CHR ''s'', 308184), (CHR ''f'', 111108)]),
     (''ve'', [(CHR ''r'', 7412285704), (CHR ''n'', 2560163706), (CHR ''l'', 1651503642),
        (CHR ''s'', 1604979047), (CHR ''d'', 1358811184), (CHR ''m'', 385026394), (CHR ''y'', 135446584),
        (CHR ''a'', 92389243), (CHR ''g'', 51708343), (CHR ''t'', 50295267), (CHR ''i'', 49422641),
        (CHR ''h'', 45878891), (CHR ''c'', 38096794), (CHR ''x'', 11047414), (CHR ''o'', 5442014),
        (CHR ''f'', 4547167), (CHR ''e'', 4074691), (CHR ''w'', 2482502), (CHR ''z'', 1913411),
        (CHR ''b'', 1271811), (CHR ''u'', 976370), (CHR ''k'', 891541), (CHR ''j'', 714648),
        (CHR ''p'', 549912), (CHR ''v'', 152021)]),
     (''vg'', [(CHR ''o'', 803451), (CHR ''e'', 111381)]),
     (''vh'', [(CHR ''d'', 437220), (CHR ''i'', 207740), (CHR ''e'', 157486), (CHR ''a'', 124537)]),
     (''vi'', [(CHR ''n'', 1334205532), (CHR ''d'', 1211195347), (CHR ''s'', 884364150), (CHR ''c'', 764834067),
        (CHR ''e'', 756121826), (CHR ''t'', 595270291), (CHR ''o'', 568218537), (CHR ''l'', 506345918),
        (CHR ''r'', 372978011), (CHR ''v'', 140256375), (CHR ''a'', 131466509), (CHR ''g'', 65590076),
        (CHR ''i'', 51429772), (CHR ''b'', 23267736), (CHR ''k'', 12019859), (CHR ''u'', 4373202),
        (CHR ''x'', 3272693), (CHR ''z'', 2824676), (CHR ''p'', 2261200), (CHR ''m'', 1349058),
        (CHR ''j'', 897691), (CHR ''f'', 624602), (CHR ''h'', 207515), (CHR ''y'', 192698)]),
     (''vl'', [(CHR ''a'', 4586437), (CHR ''o'', 1794218), (CHR ''i'', 1327363), (CHR ''e'', 901833),
        (CHR ''s'', 645024), (CHR ''d'', 273890), (CHR ''l'', 154031)]),
     (''vm'', [(CHR ''a'', 186471)]),
     (''vn'', [(CHR ''a'', 622410), (CHR ''t'', 452490), (CHR ''i'', 266419), (CHR ''d'', 159993),
        (CHR ''o'', 125730), (CHR ''e'', 104387)]),
     (''vo'', [(CHR ''l'', 757856824), (CHR ''i'', 288442073), (CHR ''r'', 183888159), (CHR ''t'', 172923823),
        (CHR ''u'', 158842497), (CHR ''c'', 106971098), (CHR ''k'', 42064008), (CHR ''y'', 35677406),
        (CHR ''w'', 21874851), (CHR ''n'', 14486741), (CHR ''m'', 9127572), (CHR ''s'', 7814478),
        (CHR ''g'', 6286563), (CHR ''o'', 2922090), (CHR ''d'', 2001257), (CHR ''b'', 469425),
        (CHR ''v'', 427000), (CHR ''e'', 412931), (CHR ''x'', 380641), (CHR ''p'', 284955),
        (CHR ''j'', 149495)]),
     (''vp'', [(CHR ''o'', 451384), (CHR ''n'', 119861), (CHR ''e'', 108487)])]"

definition ngrams_v2 :: "(string \<times> (char \<times> nat) list) list" where
  "ngrams_v2 =
    [(''vr'', [(CHR ''e'', 15395864), (CHR ''i'', 2613479), (CHR ''a'', 2363129), (CHR ''o'', 2232109),
        (CHR ''m'', 178988), (CHR ''y'', 103877)]),
     (''vs'', [(CHR ''k'', 4942640), (CHR ''t'', 209902), (CHR ''n'', 196915), (CHR ''a'', 142563),
        (CHR ''e'', 119299)]),
     (''vt'', [(CHR ''h'', 241020)]),
     (''vu'', [(CHR ''l'', 48399614), (CHR ''e'', 5070353), (CHR ''s'', 2894549), (CHR ''m'', 2462865),
        (CHR ''r'', 662415), (CHR ''d'', 225946), (CHR ''t'', 125428), (CHR ''n'', 118419)]),
     (''vv'', [(CHR ''y'', 922409), (CHR ''i'', 138802), (CHR ''e'', 132725)]),
     (''vy'', [(CHR ''i'', 1839747), (CHR ''g'', 679975), (CHR ''a'', 636655), (CHR ''w'', 584598),
        (CHR ''n'', 553594), (CHR ''s'', 260917)])]"

definition ngrams_w1 :: "(string \<times> (char \<times> nat) list) list" where
  "ngrams_w1 =
    [(''wa'', [(CHR ''r'', 1248431879), (CHR ''y'', 871241522), (CHR ''t'', 594399193), (CHR ''n'', 470670109),
        (CHR ''l'', 462975105), (CHR ''s'', 220828770), (CHR ''i'', 181059262), (CHR ''v'', 118344625),
        (CHR ''g'', 107232524), (CHR ''k'', 54892793), (CHR ''d'', 20067730), (CHR ''m'', 16862957),
        (CHR ''b'', 12800684), (CHR ''f'', 5638898), (CHR ''u'', 5511717), (CHR ''x'', 4596227),
        (CHR ''h'', 4399161), (CHR ''p'', 4308638), (CHR ''z'', 1906347), (CHR ''c'', 1786798),
        (CHR ''a'', 1061242), (CHR ''j'', 320025), (CHR ''w'', 283414), (CHR ''q'', 196684)]),
     (''wb'', [(CHR ''o'', 11531926), (CHR ''a'', 6568399), (CHR ''e'', 5626256), (CHR ''u'', 2070362),
        (CHR ''r'', 1567855), (CHR ''y'', 348544), (CHR ''i'', 132795)]),
     (''wc'', [(CHR ''o'', 6651387), (CHR ''a'', 6217499), (CHR ''h'', 1234317), (CHR ''e'', 1082720),
        (CHR ''r'', 275849), (CHR ''t'', 171388), (CHR ''i'', 109360)]),
     (''wd'', [(CHR ''e'', 44375405), (CHR ''s'', 6939848), (CHR ''i'', 4428157), (CHR ''o'', 3133626),
        (CHR ''r'', 1589001), (CHR ''y'', 1541874), (CHR ''l'', 1172982), (CHR ''u'', 1079676),
        (CHR ''n'', 991195), (CHR ''h'', 213557)]),
     (''we'', [(CHR ''r'', 3453947066), (CHR ''l'', 1041303196), (CHR ''e'', 1035732757),
        (CHR ''v'', 519328079), (CHR ''d'', 502670961), (CHR ''n'', 407626430), (CHR ''s'', 393254547),
        (CHR ''a'', 380559753), (CHR ''i'', 181349820), (CHR ''b'', 32914036), (CHR ''p'', 17443104),
        (CHR ''t'', 13133901), (CHR ''g'', 8859091), (CHR ''y'', 7735202), (CHR ''h'', 4826267),
        (CHR ''c'', 1171763), (CHR ''x'', 1058427), (CHR ''f'', 868008), (CHR ''m'', 399361)]),
     (''wf'', [(CHR ''u'', 32341157), (CHR ''o'', 9349771), (CHR ''l'', 826322), (CHR ''a'', 748063),
        (CHR ''i'', 501678), (CHR ''p'', 124657)]),
     (''wg'', [(CHR ''i'', 1032732), (CHR ''a'', 828287), (CHR ''l'', 139642)]),
     (''wh'', [(CHR ''i'', 4056088093), (CHR ''e'', 2819593081), (CHR ''a'', 1407365615),
        (CHR ''o'', 695704205), (CHR ''y'', 1145476), (CHR ''m'', 262022), (CHR ''u'', 236213)]),
     (''wi'', [(CHR ''t'', 6257419614), (CHR ''l'', 1931142259), (CHR ''n'', 1188860317),
        (CHR ''s'', 471430056), (CHR ''d'', 249179023), (CHR ''f'', 144532423), (CHR ''c'', 94924661),
        (CHR ''r'', 60577576), (CHR ''v'', 22708801), (CHR ''m'', 20772770), (CHR ''g'', 18707535),
        (CHR ''e'', 15597394), (CHR ''p'', 13407710), (CHR ''z'', 5166523), (CHR ''x'', 2534850),
        (CHR ''i'', 1227585), (CHR ''k'', 564460)]),
     (''wk'', [(CHR ''w'', 9002445), (CHR ''i'', 5545199), (CHR ''e'', 4085254), (CHR ''s'', 2612694),
        (CHR ''y'', 126818), (CHR ''n'', 100329)]),
     (''wl'', [(CHR ''e'', 277107331), (CHR ''y'', 79716244), (CHR ''i'', 15002680), (CHR ''s'', 11110095),
        (CHR ''a'', 8638240), (CHR ''b'', 564100), (CHR ''t'', 543564), (CHR ''o'', 516640),
        (CHR ''d'', 146342)]),
     (''wm'', [(CHR ''a'', 13575773), (CHR ''e'', 8572440), (CHR ''i'', 1398187), (CHR ''o'', 327016)])]"

definition ngrams_w2 :: "(string \<times> (char \<times> nat) list) list" where
  "ngrams_w2 =
    [(''wn'', [(CHR ''e'', 172781918), (CHR ''s'', 87985998), (CHR ''i'', 26672086), (CHR ''w'', 15476686),
        (CHR ''t'', 8355886), (CHR ''l'', 5465378), (CHR ''f'', 2857753), (CHR ''y'', 2744265),
        (CHR ''r'', 2275562), (CHR ''h'', 2215905), (CHR ''p'', 1736001), (CHR ''c'', 767892),
        (CHR ''g'', 704825), (CHR ''b'', 601571), (CHR ''d'', 545199), (CHR ''u'', 407461),
        (CHR ''a'', 244800), (CHR ''m'', 211547)]),
     (''wo'', [(CHR ''r'', 2730379143), (CHR ''u'', 1530956183), (CHR ''m'', 492701428), (CHR ''o'', 225159238),
        (CHR ''n'', 113350749), (CHR ''l'', 41315963), (CHR ''k'', 9726125), (CHR ''v'', 8726886),
        (CHR ''f'', 3536111), (CHR ''e'', 2654503), (CHR ''b'', 1995104), (CHR ''t'', 1607589),
        (CHR ''h'', 1208294), (CHR ''d'', 1006677), (CHR ''s'', 685685), (CHR ''p'', 651862),
        (CHR ''c'', 589384), (CHR ''w'', 448586), (CHR ''j'', 243328), (CHR ''y'', 199826),
        (CHR ''g'', 119081), (CHR ''a'', 118783), (CHR ''z'', 106762)]),
     (''wp'', [(CHR ''o'', 15181078), (CHR ''e'', 2273850), (CHR ''a'', 537478), (CHR ''i'', 471474),
        (CHR ''l'', 102109)]),
     (''wr'', [(CHR ''i'', 565378186), (CHR ''o'', 194056166), (CHR ''e'', 63098524), (CHR ''a'', 32829910),
        (CHR ''y'', 7220971), (CHR ''u'', 1255043), (CHR ''s'', 133050)]),
     (''ws'', [(CHR ''p'', 56405547), (CHR ''h'', 10311367), (CHR ''o'', 9497165), (CHR ''e'', 8069011),
        (CHR ''l'', 5271215), (CHR ''t'', 4435913), (CHR ''u'', 4253193), (CHR ''i'', 3108639),
        (CHR ''k'', 2628558), (CHR ''w'', 2183306), (CHR ''b'', 1882494), (CHR ''y'', 1153157),
        (CHR ''r'', 1000688), (CHR ''g'', 998076), (CHR ''m'', 963263), (CHR ''c'', 741741),
        (CHR ''d'', 483160), (CHR ''s'', 407895)]),
     (''wt'', [(CHR ''h'', 158866521), (CHR ''o'', 15313407), (CHR ''e'', 886863), (CHR ''s'', 353258),
        (CHR ''u'', 228946), (CHR ''r'', 179244), (CHR ''a'', 119574), (CHR ''i'', 113931)]),
     (''wu'', [(CHR ''n'', 7691207), (CHR ''r'', 3731606), (CHR ''l'', 1503443), (CHR ''p'', 674875),
        (CHR ''h'', 382036), (CHR ''t'', 304889), (CHR ''m'', 224733), (CHR ''c'', 126406)]),
     (''ww'', [(CHR ''i'', 450841), (CHR ''o'', 191572)]),
     (''wy'', [(CHR ''e'', 40833325), (CHR ''n'', 5280407), (CHR ''o'', 4433094), (CHR ''a'', 2562180),
        (CHR ''c'', 1752959), (CHR ''l'', 1237479), (CHR ''s'', 793511), (CHR ''m'', 656298),
        (CHR ''t'', 637676), (CHR ''k'', 291968), (CHR ''g'', 122891), (CHR ''d'', 109763)])]"

definition ngrams_x1 :: "(string \<times> (char \<times> nat) list) list" where
  "ngrams_x1 =
    [(''xa'', [(CHR ''m'', 554911076), (CHR ''c'', 99755462), (CHR ''n'', 48707535), (CHR ''t'', 46241619),
        (CHR ''s'', 37669698), (CHR ''g'', 19586289), (CHR ''l'', 12374775), (CHR ''b'', 8779770),
        (CHR ''v'', 1637588), (CHR ''d'', 592021), (CHR ''r'', 468673), (CHR ''e'', 375213),
        (CHR ''z'', 183232), (CHR ''f'', 157482)]),
     (''xb'', [(CHR ''u'', 1197456), (CHR ''r'', 369942), (CHR ''y'', 208189), (CHR ''o'', 152431)]),
     (''xc'', [(CHR ''e'', 388278983), (CHR ''l'', 112435288), (CHR ''h'', 103270204), (CHR ''i'', 79443501),
        (CHR ''u'', 31243053), (CHR ''a'', 15035685), (CHR ''r'', 11391142), (CHR ''o'', 3726678),
        (CHR ''v'', 219475)]),
     (''xe'', [(CHR ''r'', 153190074), (CHR ''d'', 150695750), (CHR ''c'', 129886158), (CHR ''s'', 102405115),
        (CHR ''m'', 41908609), (CHR ''n'', 10275698), (CHR ''l'', 8506418), (CHR ''t'', 3494926),
        (CHR ''g'', 2894626), (CHR ''i'', 641871), (CHR ''u'', 275263), (CHR ''y'', 263999)]),
     (''xf'', [(CHR ''o'', 51660934), (CHR ''a'', 311833), (CHR ''i'', 179224)]),
     (''xg'', [(CHR ''l'', 198087)]),
     (''xh'', [(CHR ''i'', 69934308), (CHR ''a'', 38884381), (CHR ''o'', 7226205), (CHR ''u'', 499604),
        (CHR ''t'', 271532), (CHR ''l'', 101840)]),
     (''xi'', [(CHR ''s'', 357525633), (CHR ''m'', 176641915), (CHR ''c'', 123809306), (CHR ''d'', 64249063),
        (CHR ''o'', 55620601), (CHR ''n'', 53164809), (CHR ''t'', 43491917), (CHR ''e'', 40733377),
        (CHR ''l'', 34212508), (CHR ''b'', 31013948), (CHR ''i'', 26027288), (CHR ''a'', 21355510),
        (CHR ''v'', 8861887), (CHR ''x'', 4140098), (CHR ''g'', 3486691), (CHR ''f'', 1505022),
        (CHR ''r'', 746144), (CHR ''u'', 355303), (CHR ''k'', 241632), (CHR ''p'', 130428),
        (CHR ''q'', 101177)]),
     (''xl'', [(CHR ''e'', 7135526), (CHR ''i'', 3027008), (CHR ''v'', 1817084), (CHR ''y'', 349351)]),
     (''xm'', [(CHR ''a'', 852268), (CHR ''o'', 274421), (CHR ''i'', 236093)]),
     (''xn'', [(CHR ''e'', 789893), (CHR ''a'', 109398)]),
     (''xo'', [(CHR ''n'', 41323392), (CHR ''t'', 9359948), (CHR ''r'', 9224891), (CHR ''d'', 5168834),
        (CHR ''g'', 3776095), (CHR ''p'', 1971965), (CHR ''s'', 1100940), (CHR ''l'', 648087),
        (CHR ''c'', 583985), (CHR ''m'', 436681), (CHR ''i'', 315991), (CHR ''u'', 291731),
        (CHR ''k'', 153477)]),
     (''xp'', [(CHR ''e'', 905786325), (CHR ''l'', 379955084), (CHR ''r'', 282876921), (CHR ''o'', 172901108),
        (CHR ''a'', 111546480), (CHR ''i'', 16281640), (CHR ''u'', 5795836), (CHR ''t'', 783914)]),
     (''xq'', [(CHR ''u'', 8045753)]),
     (''xr'', [(CHR ''a'', 177773), (CHR ''o'', 121949)]),
     (''xs'', [(CHR ''l'', 261230), (CHR ''e'', 259165), (CHR ''a'', 179983), (CHR ''w'', 178644),
        (CHR ''o'', 125773)])]"

definition ngrams_x2 :: "(string \<times> (char \<times> nat) list) list" where
  "ngrams_x2 =
    [(''xt'', [(CHR ''e'', 432168167), (CHR ''r'', 262526653), (CHR ''u'', 69411411), (CHR ''s'', 38688191),
        (CHR ''i'', 38081121), (CHR ''y'', 24333079), (CHR ''h'', 22190734), (CHR ''b'', 11805533),
        (CHR ''o'', 10393055), (CHR ''a'', 9442392)]),
     (''xu'', [(CHR ''a'', 96797952), (CHR ''r'', 20181499), (CHR ''s'', 6052450), (CHR ''d'', 3783113),
        (CHR ''l'', 3257720), (CHR ''b'', 2760412), (CHR ''p'', 120552)]),
     (''xv'', [(CHR ''i'', 30182663), (CHR ''t'', 109130)]),
     (''xw'', [(CHR ''e'', 6052637), (CHR ''o'', 239888)]),
     (''xx'', [(CHR ''i'', 24390797), (CHR ''x'', 15864975), (CHR ''v'', 14728695), (CHR ''o'', 764505)]),
     (''xy'', [(CHR ''g'', 36307552), (CHR ''l'', 8648087), (CHR ''s'', 2340604), (CHR ''t'', 1117289),
        (CHR ''r'', 516006), (CHR ''p'', 460192), (CHR ''c'', 336426), (CHR ''a'', 292289),
        (CHR ''m'', 238389), (CHR ''h'', 210980), (CHR ''e'', 110721), (CHR ''u'', 109917)])]"

definition ngrams_y1 :: "(string \<times> (char \<times> nat) list) list" where
  "ngrams_y1 =
    [(''ya'', [(CHR ''l'', 138310163), (CHR ''n'', 80339209), (CHR ''r'', 76049481), (CHR ''g'', 23651315),
        (CHR ''b'', 15481225), (CHR ''m'', 10140901), (CHR ''t'', 9695622), (CHR ''s'', 7192266),
        (CHR ''c'', 6439112), (CHR ''h'', 4835071), (CHR ''k'', 3787503), (CHR ''d'', 3442278),
        (CHR ''w'', 3389402), (CHR ''p'', 943595), (CHR ''q'', 902201), (CHR ''z'', 843191),
        (CHR ''y'', 557931), (CHR ''u'', 482064), (CHR ''e'', 460541), (CHR ''j'', 360380),
        (CHR ''a'', 223207), (CHR ''o'', 182993), (CHR ''i'', 108113), (CHR ''v'', 103413)]),
     (''yb'', [(CHR ''e'', 50797127), (CHR ''o'', 45482594), (CHR ''r'', 16153458), (CHR ''a'', 3109462),
        (CHR ''d'', 2303812), (CHR ''i'', 1936478), (CHR ''u'', 880073), (CHR ''l'', 166061),
        (CHR ''c'', 112789)]),
     (''yc'', [(CHR ''h'', 210416399), (CHR ''l'', 105011705), (CHR ''e'', 25715517), (CHR ''o'', 20192894),
        (CHR ''a'', 7063445), (CHR ''i'', 6239692), (CHR ''k'', 1759759), (CHR ''y'', 1360841),
        (CHR ''r'', 720237), (CHR ''u'', 579328)]),
     (''yd'', [(CHR ''r'', 105405224), (CHR ''e'', 27254475), (CHR ''a'', 17669251), (CHR ''n'', 11722222),
        (CHR ''i'', 6941457), (CHR ''o'', 1917160), (CHR ''g'', 636391), (CHR ''s'', 381428),
        (CHR ''b'', 288752), (CHR ''d'', 120367)]),
     (''ye'', [(CHR ''a'', 985791414), (CHR ''d'', 330433170), (CHR ''r'', 325868377), (CHR ''s'', 213346791),
        (CHR ''e'', 83723380), (CHR ''l'', 78450660), (CHR ''n'', 8686677), (CHR ''t'', 8521221),
        (CHR ''b'', 7124226), (CHR ''i'', 3039988), (CHR ''m'', 2785105), (CHR ''o'', 2212092),
        (CHR ''w'', 1844374), (CHR ''u'', 1748164), (CHR ''k'', 1009726), (CHR ''h'', 924302),
        (CHR ''g'', 878453), (CHR ''p'', 803268), (CHR ''y'', 759015), (CHR ''v'', 690385),
        (CHR ''c'', 220849)]),
     (''yf'', [(CHR ''u'', 9635916), (CHR ''i'', 3853744), (CHR ''r'', 3299312), (CHR ''a'', 1423084),
        (CHR ''o'', 1306501), (CHR ''l'', 1030165), (CHR ''e'', 329344)]),
     (''yg'', [(CHR ''e'', 37971100), (CHR ''o'', 12019608), (CHR ''i'', 9344802), (CHR ''r'', 4765549),
        (CHR ''a'', 2353326), (CHR ''m'', 1758503), (CHR ''u'', 1450100), (CHR ''d'', 1009857),
        (CHR ''y'', 599344), (CHR ''l'', 488770), (CHR ''n'', 361405)]),
     (''yh'', [(CHR ''o'', 11136690), (CHR ''e'', 2408143), (CHR ''w'', 715636), (CHR ''a'', 288589)]),
     (''yi'', [(CHR ''n'', 718645193), (CHR ''e'', 72141012), (CHR ''s'', 8868453), (CHR ''d'', 2994223),
        (CHR ''k'', 1269445), (CHR ''t'', 694570), (CHR ''m'', 398606), (CHR ''i'', 273338),
        (CHR ''c'', 207081), (CHR ''v'', 100428)]),
     (''yj'', [(CHR ''a'', 322830)]),
     (''yk'', [(CHR ''e'', 5396157), (CHR ''h'', 615829), (CHR ''o'', 448119), (CHR ''i'', 414216),
        (CHR ''s'', 393478), (CHR ''n'', 379000), (CHR ''j'', 356490)])]"

definition ngrams_y2 :: "(string \<times> (char \<times> nat) list) list" where
  "ngrams_y2 =
    [(''yl'', [(CHR ''e'', 151321035), (CHR ''o'', 57755018), (CHR ''i'', 50170733), (CHR ''a'', 41084458),
        (CHR ''v'', 35556967), (CHR ''l'', 26954122), (CHR ''u'', 9270228), (CHR ''y'', 4040992),
        (CHR ''c'', 2463531), (CHR ''s'', 975986), (CHR ''k'', 721477), (CHR ''p'', 579826),
        (CHR ''m'', 499065), (CHR ''t'', 433461), (CHR ''h'', 329388), (CHR ''b'', 283177),
        (CHR ''d'', 206153), (CHR ''g'', 132128)]),
     (''ym'', [(CHR ''e'', 263778278), (CHR ''p'', 169632427), (CHR ''b'', 85560985), (CHR ''o'', 50167760),
        (CHR ''a'', 30628980), (CHR ''m'', 27667168), (CHR ''n'', 16265436), (CHR ''i'', 6822643),
        (CHR ''s'', 3384580), (CHR ''u'', 2134811), (CHR ''y'', 1144439), (CHR ''c'', 807142),
        (CHR ''l'', 140738), (CHR ''r'', 123344)]),
     (''yn'', [(CHR ''a'', 97053196), (CHR ''t'', 65210283), (CHR ''e'', 44926812), (CHR ''d'', 36866388),
        (CHR ''o'', 33799439), (CHR ''c'', 26328222), (CHR ''n'', 10027892), (CHR ''g'', 8759391),
        (CHR ''i'', 8674662), (CHR ''x'', 6568006), (CHR ''y'', 1070452), (CHR ''b'', 937125),
        (CHR ''u'', 657622), (CHR ''m'', 443495), (CHR ''s'', 189735), (CHR ''h'', 119744)]),
     (''yo'', [(CHR ''u'', 1189151299), (CHR ''r'', 327996824), (CHR ''n'', 264044484), (CHR ''t'', 12538953),
        (CHR ''s'', 10903848), (CHR ''g'', 10667167), (CHR ''c'', 7866759), (CHR ''k'', 7113076),
        (CHR ''l'', 6533847), (CHR ''f'', 4936780), (CHR ''m'', 4749505), (CHR ''p'', 3756736),
        (CHR ''d'', 1656227), (CHR ''i'', 784927), (CHR ''v'', 747466), (CHR ''z'', 266665),
        (CHR ''o'', 212420), (CHR ''a'', 211791), (CHR ''h'', 179255), (CHR ''b'', 121818),
        (CHR ''j'', 116429), (CHR ''e'', 105438)]),
     (''yp'', [(CHR ''e'', 388643374), (CHR ''i'', 95072856), (CHR ''o'', 86847223), (CHR ''t'', 67608064),
        (CHR ''h'', 22635328), (CHR ''s'', 11472066), (CHR ''r'', 11303649), (CHR ''a'', 8667549),
        (CHR ''n'', 7177207), (CHR ''l'', 768718), (CHR ''u'', 513593), (CHR ''d'', 157703),
        (CHR ''y'', 102994)]),
     (''yq'', [(CHR ''u'', 384882)]),
     (''yr'', [(CHR ''i'', 84242116), (CHR ''o'', 37544633), (CHR ''a'', 36344226), (CHR ''e'', 18345721),
        (CHR ''u'', 10566233), (CHR ''d'', 5539292), (CHR ''s'', 4693611), (CHR ''n'', 3566940),
        (CHR ''r'', 2370319), (CHR ''t'', 1690656), (CHR ''y'', 1366262), (CHR ''g'', 481037),
        (CHR ''c'', 425349), (CHR ''m'', 139872), (CHR ''w'', 124523)]),
     (''ys'', [(CHR ''t'', 804081058), (CHR ''i'', 514268650), (CHR ''e'', 134075581), (CHR ''s'', 13775480),
        (CHR ''o'', 12590476), (CHR ''m'', 7944249), (CHR ''f'', 7568092), (CHR ''a'', 6040434),
        (CHR ''p'', 5654255), (CHR ''h'', 3369045), (CHR ''l'', 3319337), (CHR ''c'', 2100573),
        (CHR ''u'', 1922667), (CHR ''b'', 1804561), (CHR ''q'', 632864), (CHR ''r'', 505799),
        (CHR ''k'', 465294), (CHR ''v'', 337902), (CHR ''w'', 292130), (CHR ''d'', 254091),
        (CHR ''g'', 173330), (CHR ''y'', 134324), (CHR ''z'', 111380)]),
     (''yt'', [(CHR ''h'', 314895409), (CHR ''e'', 60835883), (CHR ''i'', 47366134), (CHR ''o'', 37971483),
        (CHR ''t'', 2245817), (CHR ''a'', 1152308), (CHR ''r'', 780038), (CHR ''u'', 729041),
        (CHR ''w'', 628754), (CHR ''l'', 443149)])]"

definition ngrams_y3 :: "(string \<times> (char \<times> nat) list) list" where
  "ngrams_y3 =
    [(''yu'', [(CHR ''g'', 9832205), (CHR ''a'', 3872977), (CHR ''n'', 3611845), (CHR ''r'', 2914602),
        (CHR ''k'', 1958939), (CHR ''c'', 1934729), (CHR ''s'', 1649734), (CHR ''l'', 792049),
        (CHR ''b'', 713355), (CHR ''m'', 698013), (CHR ''e'', 527449), (CHR ''d'', 317918),
        (CHR ''p'', 261629), (CHR ''z'', 221832), (CHR ''v'', 100889)]),
     (''yv'', [(CHR ''e'', 1778349), (CHR ''o'', 1118232), (CHR ''a'', 1076390), (CHR ''i'', 869396)]),
     (''yw'', [(CHR ''h'', 46308801), (CHR ''a'', 24012950), (CHR ''o'', 17107063), (CHR ''r'', 4688366),
        (CHR ''e'', 1558489), (CHR ''i'', 1038651), (CHR ''c'', 355947)]),
     (''yx'', [(CHR ''i'', 1146662), (CHR ''e'', 250459), (CHR ''o'', 151526)]),
     (''yy'', [(CHR ''a'', 783529), (CHR ''i'', 780897)]),
     (''yz'', [(CHR ''e'', 33379021), (CHR ''i'', 8182227), (CHR ''a'', 8019422), (CHR ''s'', 275431)])]"

definition ngrams_z1 :: "(string \<times> (char \<times> nat) list) list" where
  "ngrams_z1 =
    [(''za'', [(CHR ''t'', 475132589), (CHR ''r'', 64489748), (CHR ''b'', 45736308), (CHR ''n'', 24886472),
        (CHR ''m'', 9168704), (CHR ''l'', 7199443), (CHR ''c'', 6070312), (CHR ''s'', 3967351),
        (CHR ''k'', 3484607), (CHR ''a'', 3328030), (CHR ''g'', 3301615), (CHR ''i'', 2448875),
        (CHR ''p'', 2055273), (CHR ''w'', 1182856), (CHR ''d'', 1148562), (CHR ''h'', 1069607),
        (CHR ''e'', 790870), (CHR ''v'', 504006), (CHR ''f'', 291948), (CHR ''j'', 254637),
        (CHR ''y'', 232153), (CHR ''z'', 144575)]),
     (''zb'', [(CHR ''e'', 2907343), (CHR ''u'', 2240722), (CHR ''i'', 252077), (CHR ''o'', 214998)]),
     (''zc'', [(CHR ''o'', 1306206), (CHR ''a'', 455127), (CHR ''z'', 112123), (CHR ''h'', 105050)]),
     (''zd'', [(CHR ''a'', 773916), (CHR ''i'', 181860), (CHR ''o'', 108267)]),
     (''ze'', [(CHR ''d'', 530137656), (CHR ''n'', 140426255), (CHR ''r'', 93870205), (CHR ''s'', 76113740),
        (CHR ''a'', 34234328), (CHR ''c'', 15459916), (CHR ''t'', 11649466), (CHR ''l'', 9236205),
        (CHR ''i'', 8819853), (CHR ''m'', 7819242), (CHR ''k'', 4559230), (CHR ''p'', 4378758),
        (CHR ''b'', 3635224), (CHR ''u'', 3367443), (CHR ''e'', 3259259), (CHR ''o'', 1015903),
        (CHR ''g'', 990276), (CHR ''z'', 476813), (CHR ''v'', 311942), (CHR ''w'', 296662),
        (CHR ''j'', 281584), (CHR ''f'', 280516), (CHR ''y'', 179659)]),
     (''zf'', [(CHR ''e'', 355595), (CHR ''a'', 108840)]),
     (''zg'', [(CHR ''e'', 4515319), (CHR ''i'', 211334)]),
     (''zh'', [(CHR ''e'', 5254333), (CHR ''a'', 4517147), (CHR ''o'', 3816125), (CHR ''u'', 1343713),
        (CHR ''n'', 1164246), (CHR ''d'', 369538), (CHR ''i'', 284307)]),
     (''zi'', [(CHR ''n'', 223247412), (CHR ''l'', 25994105), (CHR ''e'', 17362794), (CHR ''o'', 13520191),
        (CHR ''g'', 9281467), (CHR ''m'', 8644453), (CHR ''s'', 5693798), (CHR ''a'', 3289470),
        (CHR ''r'', 2518600), (CHR ''c'', 1802877), (CHR ''d'', 1679189), (CHR ''b'', 1644002),
        (CHR ''p'', 1637069), (CHR ''t'', 1621747), (CHR ''z'', 1216152), (CHR ''u'', 752705),
        (CHR ''j'', 425160), (CHR ''f'', 257944), (CHR ''v'', 193483), (CHR ''k'', 151112),
        (CHR ''y'', 114312)]),
     (''zj'', [(CHR ''a'', 134157)]),
     (''zk'', [(CHR ''o'', 377545), (CHR ''r'', 276574), (CHR ''y'', 127475)]),
     (''zl'', [(CHR ''e'', 24326896), (CHR ''i'', 7880326), (CHR ''y'', 1093449), (CHR ''o'', 973728)]),
     (''zm'', [(CHR ''a'', 4326129), (CHR ''i'', 210689)]),
     (''zn'', [(CHR ''i'', 730244), (CHR ''e'', 539883), (CHR ''a'', 435445), (CHR ''s'', 110813)])]"

definition ngrams_z2 :: "(string \<times> (char \<times> nat) list) list" where
  "ngrams_z2 =
    [(''zo'', [(CHR ''n'', 128726130), (CHR ''o'', 12664196), (CHR ''p'', 8673294), (CHR ''i'', 6383232),
        (CHR ''r'', 5931536), (CHR ''l'', 5403152), (CHR ''a'', 4147965), (CHR ''d'', 2754178),
        (CHR ''s'', 2292843), (CHR ''m'', 1661340), (CHR ''t'', 1410356), (CHR ''g'', 1389166),
        (CHR ''e'', 917370), (CHR ''v'', 748301), (CHR ''h'', 480283), (CHR ''b'', 434449),
        (CHR ''y'', 356502), (CHR ''u'', 172194), (CHR ''c'', 127615)]),
     (''zp'', [(CHR ''a'', 1210761)]),
     (''zq'', [(CHR ''u'', 913036)]),
     (''zr'', [(CHR ''a'', 3640004), (CHR ''o'', 669737), (CHR ''e'', 173109), (CHR ''u'', 139224),
        (CHR ''i'', 102966)]),
     (''zs'', [(CHR ''c'', 6787617), (CHR ''i'', 330683), (CHR ''t'', 275431), (CHR ''a'', 212921),
        (CHR ''e'', 130815)]),
     (''zt'', [(CHR ''e'', 3309238), (CHR ''s'', 256966), (CHR ''l'', 165032), (CHR ''a'', 130465),
        (CHR ''o'', 111380)]),
     (''zu'', [(CHR ''r'', 16582770), (CHR ''e'', 6569530), (CHR ''l'', 3275866), (CHR ''k'', 1898343),
        (CHR ''m'', 1792727), (CHR ''n'', 1505550), (CHR ''c'', 1449646), (CHR ''s'', 1241721),
        (CHR ''g'', 352981), (CHR ''o'', 329067), (CHR ''b'', 124441), (CHR ''t'', 112549)]),
     (''zv'', [(CHR ''o'', 2683999), (CHR ''e'', 658598), (CHR ''a'', 590916)]),
     (''zw'', [(CHR ''i'', 2879378), (CHR ''e'', 2623287), (CHR ''a'', 383685)]),
     (''zy'', [(CHR ''m'', 30007884), (CHR ''g'', 5207166), (CHR ''l'', 449362), (CHR ''i'', 439822),
        (CHR ''k'', 113552), (CHR ''s'', 111380)]),
     (''zz'', [(CHR ''l'', 31258030), (CHR ''a'', 10119346), (CHR ''i'', 9577774), (CHR ''y'', 7627595),
        (CHR ''o'', 4201375), (CHR ''e'', 2588534)])]"

definition ngrams_a :: "(string \<times> (char \<times> nat) list) list" where
  "ngrams_a = ngrams_a1 @ ngrams_a2 @ ngrams_a3 @ ngrams_a4 @ ngrams_a5"

definition ngrams_b :: "(string \<times> (char \<times> nat) list) list" where
  "ngrams_b = ngrams_b1 @ ngrams_b2 @ ngrams_b3"

definition ngrams_c :: "(string \<times> (char \<times> nat) list) list" where
  "ngrams_c = ngrams_c1 @ ngrams_c2 @ ngrams_c3"

definition ngrams_d :: "(string \<times> (char \<times> nat) list) list" where
  "ngrams_d = ngrams_d1 @ ngrams_d2 @ ngrams_d3"

definition ngrams_e :: "(string \<times> (char \<times> nat) list) list" where
  "ngrams_e = ngrams_e1 @ ngrams_e2 @ ngrams_e3 @ ngrams_e4"

definition ngrams_f :: "(string \<times> (char \<times> nat) list) list" where
  "ngrams_f = ngrams_f1 @ ngrams_f2"

definition ngrams_g :: "(string \<times> (char \<times> nat) list) list" where
  "ngrams_g = ngrams_g1 @ ngrams_g2 @ ngrams_g3"

definition ngrams_h :: "(string \<times> (char \<times> nat) list) list" where
  "ngrams_h = ngrams_h1 @ ngrams_h2 @ ngrams_h3"

definition ngrams_i :: "(string \<times> (char \<times> nat) list) list" where
  "ngrams_i = ngrams_i1 @ ngrams_i2 @ ngrams_i3 @ ngrams_i4"

definition ngrams_j :: "(string \<times> (char \<times> nat) list) list" where
  "ngrams_j = ngrams_j1 @ ngrams_j2"

definition ngrams_k :: "(string \<times> (char \<times> nat) list) list" where
  "ngrams_k = ngrams_k1 @ ngrams_k2"

definition ngrams_l :: "(string \<times> (char \<times> nat) list) list" where
  "ngrams_l = ngrams_l1 @ ngrams_l2 @ ngrams_l3"

definition ngrams_m :: "(string \<times> (char \<times> nat) list) list" where
  "ngrams_m = ngrams_m1 @ ngrams_m2 @ ngrams_m3"

definition ngrams_n :: "(string \<times> (char \<times> nat) list) list" where
  "ngrams_n = ngrams_n1 @ ngrams_n2 @ ngrams_n3"

definition ngrams_o :: "(string \<times> (char \<times> nat) list) list" where
  "ngrams_o = ngrams_o1 @ ngrams_o2 @ ngrams_o3 @ ngrams_o4"

definition ngrams_p :: "(string \<times> (char \<times> nat) list) list" where
  "ngrams_p = ngrams_p1 @ ngrams_p2 @ ngrams_p3"

definition ngrams_q :: "(string \<times> (char \<times> nat) list) list" where
  "ngrams_q = ngrams_q1"

definition ngrams_r :: "(string \<times> (char \<times> nat) list) list" where
  "ngrams_r = ngrams_r1 @ ngrams_r2 @ ngrams_r3 @ ngrams_r4"

definition ngrams_s :: "(string \<times> (char \<times> nat) list) list" where
  "ngrams_s = ngrams_s1 @ ngrams_s2 @ ngrams_s3"

definition ngrams_t :: "(string \<times> (char \<times> nat) list) list" where
  "ngrams_t = ngrams_t1 @ ngrams_t2 @ ngrams_t3"

definition ngrams_u :: "(string \<times> (char \<times> nat) list) list" where
  "ngrams_u = ngrams_u1 @ ngrams_u2 @ ngrams_u3 @ ngrams_u4"

definition ngrams_v :: "(string \<times> (char \<times> nat) list) list" where
  "ngrams_v = ngrams_v1 @ ngrams_v2"

definition ngrams_w :: "(string \<times> (char \<times> nat) list) list" where
  "ngrams_w = ngrams_w1 @ ngrams_w2"

definition ngrams_x :: "(string \<times> (char \<times> nat) list) list" where
  "ngrams_x = ngrams_x1 @ ngrams_x2"

definition ngrams_y :: "(string \<times> (char \<times> nat) list) list" where
  "ngrams_y = ngrams_y1 @ ngrams_y2 @ ngrams_y3"

definition ngrams_z :: "(string \<times> (char \<times> nat) list) list" where
  "ngrams_z = ngrams_z1 @ ngrams_z2"

definition ngramMapping :: "(string \<times> (char \<times> nat) list) list" where
  "ngramMapping =
     ngrams_a @ ngrams_b @ ngrams_c @ ngrams_d @ ngrams_e @ ngrams_f @ ngrams_g @ ngrams_h @ ngrams_i @
     ngrams_j @ ngrams_k @ ngrams_l @ ngrams_m @ ngrams_n @ ngrams_o @ ngrams_p @ ngrams_q @ ngrams_r @
     ngrams_s @ ngrams_t @ ngrams_u @ ngrams_v @ ngrams_w @ ngrams_x @ ngrams_y @ ngrams_z"

text \<open>The definitions, to unfold at once.\<close>

lemmas bigrams_defs = bigrams_def bigrams_1_def bigrams_2_def bigrams_3_def bigrams_4_def bigrams_5_def

lemmas ngrams_piece_defs =
  ngrams_a1_def ngrams_a2_def ngrams_a3_def ngrams_a4_def ngrams_a5_def ngrams_b1_def ngrams_b2_def
  ngrams_b3_def ngrams_c1_def ngrams_c2_def ngrams_c3_def ngrams_d1_def ngrams_d2_def ngrams_d3_def
  ngrams_e1_def ngrams_e2_def ngrams_e3_def ngrams_e4_def ngrams_f1_def ngrams_f2_def ngrams_g1_def
  ngrams_g2_def ngrams_g3_def ngrams_h1_def ngrams_h2_def ngrams_h3_def ngrams_i1_def ngrams_i2_def
  ngrams_i3_def ngrams_i4_def ngrams_j1_def ngrams_j2_def ngrams_k1_def ngrams_k2_def ngrams_l1_def
  ngrams_l2_def ngrams_l3_def ngrams_m1_def ngrams_m2_def ngrams_m3_def ngrams_n1_def ngrams_n2_def
  ngrams_n3_def ngrams_o1_def ngrams_o2_def ngrams_o3_def ngrams_o4_def ngrams_p1_def ngrams_p2_def
  ngrams_p3_def ngrams_q1_def ngrams_r1_def ngrams_r2_def ngrams_r3_def ngrams_r4_def ngrams_s1_def
  ngrams_s2_def ngrams_s3_def ngrams_t1_def ngrams_t2_def ngrams_t3_def ngrams_u1_def ngrams_u2_def
  ngrams_u3_def ngrams_u4_def ngrams_v1_def ngrams_v2_def ngrams_w1_def ngrams_w2_def ngrams_x1_def
  ngrams_x2_def ngrams_y1_def ngrams_y2_def ngrams_y3_def ngrams_z1_def ngrams_z2_def

lemmas ngrams_letter_defs =
  ngrams_a_def ngrams_b_def ngrams_c_def ngrams_d_def ngrams_e_def ngrams_f_def ngrams_g_def ngrams_h_def
  ngrams_i_def ngrams_j_def ngrams_k_def ngrams_l_def ngrams_m_def ngrams_n_def ngrams_o_def ngrams_p_def
  ngrams_q_def ngrams_r_def ngrams_s_def ngrams_t_def ngrams_u_def ngrams_v_def ngrams_w_def ngrams_x_def
  ngrams_y_def ngrams_z_def

end
