(* ===== verification/Ngrams.thy ===== *)
theory Ngrams
  imports Password LetterTable "HOL-Library.Word"
begin

text \<open>
  The password generator with the table it is shipped with: the table meets \<open>table_ok\<close>, so the properties of
  the generator hold without a hypothesis on the table; and the generator of words with Go's 64-bit \<open>int\<close>,
  whose sums may wrap around, is the one with unbounded numbers for this table.
\<close>

definition ngrams :: ngram_table where
  "ngrams = \<lparr>ng_bigrams = bigrams, ng_next = ngramMapping\<rparr>"

section \<open>The table is in order\<close>

text \<open>The pairs that have successors, as rewrite rules; and the lower-case letters.\<close>

definition known :: "string \<Rightarrow> bool" where
  "known b \<longleftrightarrow> b \<in> set (map fst ngramMapping)"

lemma all_known: "list_all known (map fst ngramMapping)"
  by (simp add: known_def list_all_iff)

lemmas known_pairs =
  all_known [unfolded ngramMapping_def ngrams_letter_defs ngrams_piece_defs list.map append.simps fst_conv list.pred_inject simp_thms]

lemma all_lower: "list_all lower_letter ''abcdefghijklmnopqrstuvwxyz''"
  by (simp add: lower_letter_def)

lemmas lower_letters = all_lower [unfolded list.pred_inject simp_thms]

definition row_ok :: "string \<times> (char \<times> nat) list \<Rightarrow> bool" where
  "row_ok r \<longleftrightarrow> length (fst r) = 2 \<and> length (snd r) \<le> 26 \<and>
     list_all (\<lambda>e. lower_letter (fst e) \<and> 2 \<le> snd e \<and> snd e < 2 ^ 40) (snd r) \<and> list_ex (\<lambda>e. known [fst r ! 1, fst e]) (snd r)"

lemma rows_a1: "list_all row_ok ngrams_a1"
  by (simp add: ngrams_a1_def row_ok_def lower_letters known_pairs)

lemma rows_a2: "list_all row_ok ngrams_a2"
  by (simp add: ngrams_a2_def row_ok_def lower_letters known_pairs)

lemma rows_a3: "list_all row_ok ngrams_a3"
  by (simp add: ngrams_a3_def row_ok_def lower_letters known_pairs)

lemma rows_a4: "list_all row_ok ngrams_a4"
  by (simp add: ngrams_a4_def row_ok_def lower_letters known_pairs)

lemma rows_a5: "list_all row_ok ngrams_a5"
  by (simp add: ngrams_a5_def row_ok_def lower_letters known_pairs)

lemma rows_b1: "list_all row_ok ngrams_b1"
  by (simp add: ngrams_b1_def row_ok_def lower_letters known_pairs)

lemma rows_b2: "list_all row_ok ngrams_b2"
  by (simp add: ngrams_b2_def row_ok_def lower_letters known_pairs)

lemma rows_b3: "list_all row_ok ngrams_b3"
  by (simp add: ngrams_b3_def row_ok_def lower_letters known_pairs)

lemma rows_c1: "list_all row_ok ngrams_c1"
  by (simp add: ngrams_c1_def row_ok_def lower_letters known_pairs)

lemma rows_c2: "list_all row_ok ngrams_c2"
  by (simp add: ngrams_c2_def row_ok_def lower_letters known_pairs)

lemma rows_c3: "list_all row_ok ngrams_c3"
  by (simp add: ngrams_c3_def row_ok_def lower_letters known_pairs)

lemma rows_d1: "list_all row_ok ngrams_d1"
  by (simp add: ngrams_d1_def row_ok_def lower_letters known_pairs)

lemma rows_d2: "list_all row_ok ngrams_d2"
  by (simp add: ngrams_d2_def row_ok_def lower_letters known_pairs)

lemma rows_d3: "list_all row_ok ngrams_d3"
  by (simp add: ngrams_d3_def row_ok_def lower_letters known_pairs)

lemma rows_e1: "list_all row_ok ngrams_e1"
  by (simp add: ngrams_e1_def row_ok_def lower_letters known_pairs)

lemma rows_e2: "list_all row_ok ngrams_e2"
  by (simp add: ngrams_e2_def row_ok_def lower_letters known_pairs)

lemma rows_e3: "list_all row_ok ngrams_e3"
  by (simp add: ngrams_e3_def row_ok_def lower_letters known_pairs)

lemma rows_e4: "list_all row_ok ngrams_e4"
  by (simp add: ngrams_e4_def row_ok_def lower_letters known_pairs)

lemma rows_f1: "list_all row_ok ngrams_f1"
  by (simp add: ngrams_f1_def row_ok_def lower_letters known_pairs)

lemma rows_f2: "list_all row_ok ngrams_f2"
  by (simp add: ngrams_f2_def row_ok_def lower_letters known_pairs)

lemma rows_g1: "list_all row_ok ngrams_g1"
  by (simp add: ngrams_g1_def row_ok_def lower_letters known_pairs)

lemma rows_g2: "list_all row_ok ngrams_g2"
  by (simp add: ngrams_g2_def row_ok_def lower_letters known_pairs)

lemma rows_g3: "list_all row_ok ngrams_g3"
  by (simp add: ngrams_g3_def row_ok_def lower_letters known_pairs)

lemma rows_h1: "list_all row_ok ngrams_h1"
  by (simp add: ngrams_h1_def row_ok_def lower_letters known_pairs)

lemma rows_h2: "list_all row_ok ngrams_h2"
  by (simp add: ngrams_h2_def row_ok_def lower_letters known_pairs)

lemma rows_h3: "list_all row_ok ngrams_h3"
  by (simp add: ngrams_h3_def row_ok_def lower_letters known_pairs)

lemma rows_i1: "list_all row_ok ngrams_i1"
  by (simp add: ngrams_i1_def row_ok_def lower_letters known_pairs)

lemma rows_i2: "list_all row_ok ngrams_i2"
  by (simp add: ngrams_i2_def row_ok_def lower_letters known_pairs)

lemma rows_i3: "list_all row_ok ngrams_i3"
  by (simp add: ngrams_i3_def row_ok_def lower_letters known_pairs)

lemma rows_i4: "list_all row_ok ngrams_i4"
  by (simp add: ngrams_i4_def row_ok_def lower_letters known_pairs)

lemma rows_j1: "list_all row_ok ngrams_j1"
  by (simp add: ngrams_j1_def row_ok_def lower_letters known_pairs)

lemma rows_j2: "list_all row_ok ngrams_j2"
  by (simp add: ngrams_j2_def row_ok_def lower_letters known_pairs)

lemma rows_k1: "list_all row_ok ngrams_k1"
  by (simp add: ngrams_k1_def row_ok_def lower_letters known_pairs)

lemma rows_k2: "list_all row_ok ngrams_k2"
  by (simp add: ngrams_k2_def row_ok_def lower_letters known_pairs)

lemma rows_l1: "list_all row_ok ngrams_l1"
  by (simp add: ngrams_l1_def row_ok_def lower_letters known_pairs)

lemma rows_l2: "list_all row_ok ngrams_l2"
  by (simp add: ngrams_l2_def row_ok_def lower_letters known_pairs)

lemma rows_l3: "list_all row_ok ngrams_l3"
  by (simp add: ngrams_l3_def row_ok_def lower_letters known_pairs)

lemma rows_m1: "list_all row_ok ngrams_m1"
  by (simp add: ngrams_m1_def row_ok_def lower_letters known_pairs)

lemma rows_m2: "list_all row_ok ngrams_m2"
  by (simp add: ngrams_m2_def row_ok_def lower_letters known_pairs)

lemma rows_m3: "list_all row_ok ngrams_m3"
  by (simp add: ngrams_m3_def row_ok_def lower_letters known_pairs)

lemma rows_n1: "list_all row_ok ngrams_n1"
  by (simp add: ngrams_n1_def row_ok_def lower_letters known_pairs)

lemma rows_n2: "list_all row_ok ngrams_n2"
  by (simp add: ngrams_n2_def row_ok_def lower_letters known_pairs)

lemma rows_n3: "list_all row_ok ngrams_n3"
  by (simp add: ngrams_n3_def row_ok_def lower_letters known_pairs)

lemma rows_o1: "list_all row_ok ngrams_o1"
  by (simp add: ngrams_o1_def row_ok_def lower_letters known_pairs)

lemma rows_o2: "list_all row_ok ngrams_o2"
  by (simp add: ngrams_o2_def row_ok_def lower_letters known_pairs)

lemma rows_o3: "list_all row_ok ngrams_o3"
  by (simp add: ngrams_o3_def row_ok_def lower_letters known_pairs)

lemma rows_o4: "list_all row_ok ngrams_o4"
  by (simp add: ngrams_o4_def row_ok_def lower_letters known_pairs)

lemma rows_p1: "list_all row_ok ngrams_p1"
  by (simp add: ngrams_p1_def row_ok_def lower_letters known_pairs)

lemma rows_p2: "list_all row_ok ngrams_p2"
  by (simp add: ngrams_p2_def row_ok_def lower_letters known_pairs)

lemma rows_p3: "list_all row_ok ngrams_p3"
  by (simp add: ngrams_p3_def row_ok_def lower_letters known_pairs)

lemma rows_q1: "list_all row_ok ngrams_q1"
  by (simp add: ngrams_q1_def row_ok_def lower_letters known_pairs)

lemma rows_r1: "list_all row_ok ngrams_r1"
  by (simp add: ngrams_r1_def row_ok_def lower_letters known_pairs)

lemma rows_r2: "list_all row_ok ngrams_r2"
  by (simp add: ngrams_r2_def row_ok_def lower_letters known_pairs)

lemma rows_r3: "list_all row_ok ngrams_r3"
  by (simp add: ngrams_r3_def row_ok_def lower_letters known_pairs)

lemma rows_r4: "list_all row_ok ngrams_r4"
  by (simp add: ngrams_r4_def row_ok_def lower_letters known_pairs)

lemma rows_s1: "list_all row_ok ngrams_s1"
  by (simp add: ngrams_s1_def row_ok_def lower_letters known_pairs)

lemma rows_s2: "list_all row_ok ngrams_s2"
  by (simp add: ngrams_s2_def row_ok_def lower_letters known_pairs)

lemma rows_s3: "list_all row_ok ngrams_s3"
  by (simp add: ngrams_s3_def row_ok_def lower_letters known_pairs)

lemma rows_t1: "list_all row_ok ngrams_t1"
  by (simp add: ngrams_t1_def row_ok_def lower_letters known_pairs)

lemma rows_t2: "list_all row_ok ngrams_t2"
  by (simp add: ngrams_t2_def row_ok_def lower_letters known_pairs)

lemma rows_t3: "list_all row_ok ngrams_t3"
  by (simp add: ngrams_t3_def row_ok_def lower_letters known_pairs)

lemma rows_u1: "list_all row_ok ngrams_u1"
  by (simp add: ngrams_u1_def row_ok_def lower_letters known_pairs)

lemma rows_u2: "list_all row_ok ngrams_u2"
  by (simp add: ngrams_u2_def row_ok_def lower_letters known_pairs)

lemma rows_u3: "list_all row_ok ngrams_u3"
  by (simp add: ngrams_u3_def row_ok_def lower_letters known_pairs)

lemma rows_u4: "list_all row_ok ngrams_u4"
  by (simp add: ngrams_u4_def row_ok_def lower_letters known_pairs)

lemma rows_v1: "list_all row_ok ngrams_v1"
  by (simp add: ngrams_v1_def row_ok_def lower_letters known_pairs)

lemma rows_v2: "list_all row_ok ngrams_v2"
  by (simp add: ngrams_v2_def row_ok_def lower_letters known_pairs)

lemma rows_w1: "list_all row_ok ngrams_w1"
  by (simp add: ngrams_w1_def row_ok_def lower_letters known_pairs)

lemma rows_w2: "list_all row_ok ngrams_w2"
  by (simp add: ngrams_w2_def row_ok_def lower_letters known_pairs)

lemma rows_x1: "list_all row_ok ngrams_x1"
  by (simp add: ngrams_x1_def row_ok_def lower_letters known_pairs)

lemma rows_x2: "list_all row_ok ngrams_x2"
  by (simp add: ngrams_x2_def row_ok_def lower_letters known_pairs)

lemma rows_y1: "list_all row_ok ngrams_y1"
  by (simp add: ngrams_y1_def row_ok_def lower_letters known_pairs)

lemma rows_y2: "list_all row_ok ngrams_y2"
  by (simp add: ngrams_y2_def row_ok_def lower_letters known_pairs)

lemma rows_y3: "list_all row_ok ngrams_y3"
  by (simp add: ngrams_y3_def row_ok_def lower_letters known_pairs)

lemma rows_z1: "list_all row_ok ngrams_z1"
  by (simp add: ngrams_z1_def row_ok_def lower_letters known_pairs)

lemma rows_z2: "list_all row_ok ngrams_z2"
  by (simp add: ngrams_z2_def row_ok_def lower_letters known_pairs)

lemmas piece_rows =
  rows_a1 rows_a2 rows_a3 rows_a4 rows_a5 rows_b1 rows_b2 rows_b3 rows_c1 rows_c2 rows_c3 rows_d1 rows_d2
  rows_d3 rows_e1 rows_e2 rows_e3 rows_e4 rows_f1 rows_f2 rows_g1 rows_g2 rows_g3 rows_h1 rows_h2 rows_h3
  rows_i1 rows_i2 rows_i3 rows_i4 rows_j1 rows_j2 rows_k1 rows_k2 rows_l1 rows_l2 rows_l3 rows_m1 rows_m2
  rows_m3 rows_n1 rows_n2 rows_n3 rows_o1 rows_o2 rows_o3 rows_o4 rows_p1 rows_p2 rows_p3 rows_q1 rows_r1
  rows_r2 rows_r3 rows_r4 rows_s1 rows_s2 rows_s3 rows_t1 rows_t2 rows_t3 rows_u1 rows_u2 rows_u3 rows_u4
  rows_v1 rows_v2 rows_w1 rows_w2 rows_x1 rows_x2 rows_y1 rows_y2 rows_y3 rows_z1 rows_z2

lemma all_rows: "list_all row_ok ngramMapping"
  by (simp only: ngramMapping_def ngrams_letter_defs list_all_append piece_rows simp_thms)

lemma known_iff: "known b \<longleftrightarrow> map_of ngramMapping b \<noteq> None"
  by (simp add: known_def map_of_eq_None_iff)

definition pair_ok :: "string \<times> nat \<Rightarrow> bool" where
  "pair_ok p \<longleftrightarrow> length (fst p) = 2 \<and> list_all lower_letter (fst p) \<and> 0 < snd p \<and> snd p < 2 ^ 40 \<and> known (fst p)"

lemma pairs_1: "list_all pair_ok bigrams_1"
  by (simp add: bigrams_1_def pair_ok_def lower_letters known_pairs)

lemma pairs_2: "list_all pair_ok bigrams_2"
  by (simp add: bigrams_2_def pair_ok_def lower_letters known_pairs)

lemma pairs_3: "list_all pair_ok bigrams_3"
  by (simp add: bigrams_3_def pair_ok_def lower_letters known_pairs)

lemma pairs_4: "list_all pair_ok bigrams_4"
  by (simp add: bigrams_4_def pair_ok_def lower_letters known_pairs)

lemma pairs_5: "list_all pair_ok bigrams_5"
  by (simp add: bigrams_5_def pair_ok_def lower_letters known_pairs)

lemma all_pairs: "list_all pair_ok bigrams"
  by (simp only: bigrams_def list_all_append pairs_1 pairs_2 pairs_3 pairs_4 pairs_5 simp_thms)

lemma ngrams_ok: "table_ok ngrams"
  unfolding table_ok_def
proof (intro conjI)
  show "ng_bigrams ngrams \<noteq> []" by (simp add: ngrams_def bigrams_def bigrams_1_def)
  show "list_all (\<lambda>(b, w). length b = 2 \<and> list_all lower_letter b \<and> 0 < w \<and> map_of (ng_next ngrams) b \<noteq> None) (ng_bigrams ngrams)"
    using all_pairs by (auto simp: ngrams_def list_all_iff pair_ok_def known_iff)
  show "list_all (\<lambda>(b, ng). length b = 2 \<and> list_all (\<lambda>(c, w). lower_letter c \<and> 2 \<le> w) ng \<and>
      list_ex (\<lambda>(c, w). map_of (ng_next ngrams) [b ! 1, c] \<noteq> None) ng) (ng_next ngrams)"
    using all_rows by (fastforce simp: ngrams_def list_all_iff list_ex_iff row_ok_def known_iff)
qed

section \<open>64-bit arithmetic\<close>

text \<open>The draws of weighted choices with machine integers: sums wrap around, comparisons are signed.\<close>

type_synonym go_int = "64 word"

definition randInt64 :: "go_int \<Rightarrow> go_int rnd" where
  "randInt64 m ds =
     (if sint m \<le> 0 then Panic ''crypto/rand: argument to Int is <= 0''
      else
        (case ds of
           [] \<Rightarrow> Ret None
         | None # _ \<Rightarrow> Panic ''failed to generate password''
         | Some d # ds' \<Rightarrow> Ret (Some (word_of_nat (d mod nat (sint m)), ds'))))"

fun pick_weighted64 :: "go_int \<Rightarrow> go_int \<Rightarrow> go_int list \<Rightarrow> nat option" where
  "pick_weighted64 k acc [] = None"
| "pick_weighted64 k acc (w # ws) =
     (if sint k \<le> sint (acc + w) then Some 0 else map_option Suc (pick_weighted64 k (acc + w) ws))"

definition weightedRandInt64 :: "go_int list \<Rightarrow> nat rnd" where
  "weightedRandInt64 ws =
     rnd_bind (randInt64 (foldl (+) 0 ws)) (\<lambda>k.
       case pick_weighted64 k 0 ws of None \<Rightarrow> rnd_panic ''should not happen'' | Some i \<Rightarrow> rnd_return i)"

definition weights64 :: "('a \<times> nat) list \<Rightarrow> go_int list" where
  "weights64 es = map (\<lambda>e. word_of_nat (snd e)) es"

definition randBigram64 :: "ngram_table \<Rightarrow> string rnd" where
  "randBigram64 T = rnd_bind (weightedRandInt64 (weights64 (ng_bigrams T))) (\<lambda>i. rnd_return (fst (ng_bigrams T ! i)))"

lemma weightedRandInt64_draws: "weightedRandInt64 ws ds = Ret (Some (i, ds')) \<Longrightarrow> length ds' < length ds"
  by (auto simp: weightedRandInt64_def randInt64_def rnd_bind_def rnd_return_def rnd_panic_def
      split: if_splits list.splits option.splits)

function word_loop64 :: "ngram_table \<Rightarrow> nat \<Rightarrow> string \<Rightarrow> string rnd" where
  "word_loop64 T len token ds =
     (case weightedRandInt64 (weights64 (next_chars T (last_bigram token))) ds of
        Panic p \<Rightarrow> Panic p
      | Ret None \<Rightarrow> Ret None
      | Ret (Some (i, ds')) \<Rightarrow>
          (let newToken = token @ [fst (next_chars T (last_bigram token) ! i)] in
           if map_of (ng_next T) (last_bigram newToken) = None then word_loop64 T len token ds'
           else if length newToken = len then Ret (Some (newToken, ds'))
           else word_loop64 T len newToken ds'))"
  by pat_completeness auto
termination
  by (relation "measure (\<lambda>(T, len, token, ds). length ds)") (auto dest: weightedRandInt64_draws)

definition generateWord64 :: "ngram_table \<Rightarrow> int \<Rightarrow> (go_error + string) rnd" where
  "generateWord64 T len =
     (if len < 2 then rnd_return (Inl (Errorf (''generate word: length must be >= 2 but provided '' @ show_int len)))
      else
        rnd_bind (randBigram64 T) (\<lambda>token.
          if len = 2 then rnd_return (Inr token)
          else rnd_bind (word_loop64 T (nat len) token) (\<lambda>w. rnd_return (Inr w))))"

text \<open>Below the sign bit machine integers are the numbers.\<close>

lemma sint_small: "n < 2 ^ 63 \<Longrightarrow> sint (word_of_nat n :: go_int) = int n"
  by (simp add: signed_of_nat signed_take_bit_int_eq_self)

lemma foldl_add64: "foldl (+) (word_of_nat a) (map word_of_nat ws) = (word_of_nat (a + sum_list ws) :: go_int)"
proof (induction ws arbitrary: a)
  case (Cons w ws)
  from Cons.IH [of "a + w"] show ?case by (simp add: add.assoc)
qed simp

lemma randInt64_exact:
  "n < 2 ^ 63 \<Longrightarrow> randInt64 (word_of_nat n) ds = rnd_bind (randInt n) (\<lambda>k. rnd_return (word_of_nat k)) ds"
  by (auto simp: randInt64_def randInt_def rnd_bind_def rnd_return_def sint_small split: list.split option.split)

lemma pick_weighted64_exact:
  assumes "k < 2 ^ 63" "acc + sum_list ws < 2 ^ 63"
  shows "pick_weighted64 (word_of_nat k) (word_of_nat acc) (map word_of_nat ws) = pick_weighted k acc ws"
  using assms(2)
proof (induction ws arbitrary: acc)
  case (Cons w ws)
  have "acc + w < 2 ^ 63" "acc + w + sum_list ws < 2 ^ 63" using Cons.prems by simp_all
  note ih = Cons.IH [OF this(2)] and s = sint_small [OF this(1)] sint_small [OF assms(1)]
  have "word_of_nat acc + word_of_nat w = (word_of_nat (acc + w) :: go_int)" by simp
  with ih s show ?case by (simp del: of_nat_add)
qed simp

lemma weightedRandInt64_exact:
  assumes "sum_list ws < 2 ^ 63"
  shows "weightedRandInt64 (map word_of_nat ws) ds = weightedRandInt ws ds"
proof -
  have sum: "foldl (+) 0 (map word_of_nat ws) = (word_of_nat (sum_list ws) :: go_int)" using foldl_add64 [of 0 ws] by simp
  have pick: "pick_weighted64 (word_of_nat k) 0 (map word_of_nat ws) = pick_weighted k 0 ws" if "k < 2 ^ 63" for k
    using pick_weighted64_exact [OF that, of 0 ws] assms by simp
  have less: "k < 2 ^ 63" if "randInt (sum_list ws) ds = Ret (Some (k, ds'))" for k ds'
  proof -
    have "k < sum_list ws"
      using that unfolding randInt_def
      by (cases "sum_list ws = 0") (auto simp del: sum_list_eq_0_iff split: list.splits option.splits)
    with assms show ?thesis by simp
  qed
  have "weightedRandInt64 (map word_of_nat ws) ds =
      rnd_bind (rnd_bind (randInt (sum_list ws)) (\<lambda>k. rnd_return (word_of_nat k)))
        (\<lambda>k. case pick_weighted64 k 0 (map word_of_nat ws) of None \<Rightarrow> rnd_panic ''should not happen'' | Some i \<Rightarrow> rnd_return i) ds"
    unfolding weightedRandInt64_def rnd_bind_def sum randInt64_exact [OF assms, unfolded rnd_bind_def] by simp
  also have "\<dots> = weightedRandInt ws ds"
    using pick less by (auto simp: weightedRandInt_def rnd_bind_def rnd_return_def split: go.split option.split)
  finally show ?thesis .
qed

section \<open>Properties\<close>

lemma sum_list_bound: "list_all (\<lambda>x. x < b) xs \<Longrightarrow> length xs \<le> n \<Longrightarrow> sum_list xs \<le> n * (b :: nat)"
proof (induction xs arbitrary: n)
  case (Cons x xs)
  then obtain m where "n = Suc m" "length xs \<le> m" by (cases n) auto
  with Cons.IH [of m] Cons.prems show ?case by simp
qed simp

lemma weights_fit:
  "sum_list (map snd (ng_bigrams ngrams)) < 2 ^ 63 \<and>
   (\<forall>b. sum_list (map snd (next_chars ngrams b)) < 2 ^ 63 \<and> length (next_chars ngrams b) \<le> 26)"
proof (intro conjI allI)
  have "list_all (\<lambda>x. x < 2 ^ 40) (map snd bigrams)" using all_pairs by (auto simp: list_all_iff pair_ok_def)
  moreover have "length (map snd bigrams) \<le> 2 ^ 10" by (simp add: bigrams_defs)
  ultimately have "sum_list (map snd bigrams) \<le> 2 ^ 10 * 2 ^ 40" by (rule sum_list_bound)
  then show "sum_list (map snd (ng_bigrams ngrams)) < 2 ^ 63" by (simp add: ngrams_def)
next
  fix b
  have r: "length ng \<le> 26 \<and> list_all (\<lambda>x. x < 2 ^ 40) (map snd ng)" if "map_of ngramMapping b = Some ng" for ng
    using all_rows map_of_SomeD [OF that] by (force simp: list_all_iff row_ok_def)
  then show "length (next_chars ngrams b) \<le> 26" by (simp add: next_chars_def ngrams_def split: option.split)
  have "sum_list (map snd ng) \<le> 26 * 2 ^ 40" if "map_of ngramMapping b = Some ng" for ng
    using r [OF that] by (intro sum_list_bound) simp_all
  then show "sum_list (map snd (next_chars ngrams b)) < 2 ^ 63"
    by (fastforce simp: next_chars_def ngrams_def split: option.split)
qed

text \<open>
  C27. The generator of words computes with 64-bit integers what it computes with numbers: for the shipped table, for
  every length and whatever is drawn, no sum of weights wraps around, so the generator of Go's \<open>int\<close> has
  the same panics, the same errors and the same words, and takes the same draws, as the one with unbounded numbers.
\<close>

theorem shipped_sums_exact: "generateWord64 ngrams len ds = generateWord ngrams len ds"
proof -
  have pairs: "weightedRandInt64 (weights64 (ng_bigrams ngrams)) ds = weightedRandInt (map snd (ng_bigrams ngrams)) ds" for ds
    using weightedRandInt64_exact [of "map snd (ng_bigrams ngrams)"] weights_fit by (simp add: weights64_def o_def)
  have succ: "weightedRandInt64 (weights64 (next_chars ngrams b)) ds = weightedRandInt (map snd (next_chars ngrams b)) ds" for b ds
    using weightedRandInt64_exact [of "map snd (next_chars ngrams b)"] weights_fit by (simp add: weights64_def o_def)
  have loop: "word_loop64 T n token ds = word_loop T n token ds" if "T = ngrams" for T n token ds
    using that
  proof (induction T n token ds rule: word_loop.induct)
    case (1 T n token ds)
    let ?nx = "next_chars T (last_bigram token)"
    have w: "weightedRandInt64 (weights64 ?nx) ds = weightedRandInt (map snd ?nx) ds" using succ 1(3) by simp
    show ?case
      unfolding word_loop64.simps [of T n token ds] word_loop.simps [of T n token ds] w
      using 1 by (auto simp: Let_def split: go.split option.split)
  qed
  have "randBigram64 ngrams = randBigram ngrams"
    unfolding randBigram64_def randBigram_def using pairs by (metis ext)
  moreover have "word_loop64 ngrams n token = word_loop ngrams n token" for n token by (rule ext) (rule loop [OF refl])
  ultimately show ?thesis by (simp only: generateWord64_def generateWord_def)
qed

text \<open>
  C26. Every password has its type: with the table that is shipped, whatever is drawn, as long as the reader does
  not fail, the generator does not panic and does not give up: either it has produced a password of the length
  asked for, three digits and a separator before or after words of lower-case letters of which one is
  modified, or it waits for more draws, and there are draws with which it finishes.
\<close>

theorem shipped_passwords:
  assumes "7 \<le> n" "good ds"
  shows "case generateMemorablePassword ngrams n ds of
      Panic _ \<Rightarrow> False
    | Ret None \<Rightarrow> \<exists>x r ds'. good x \<and> generateMemorablePassword ngrams n (ds @ x) = Ret (Some (r, ds')) \<and> password_shape n r
    | Ret (Some (r, _)) \<Rightarrow> password_shape n r"
  by (rule password_generated [OF ngrams_ok assms])

theorem shipped_passwords_witness:
  "\<exists>x r ds'. good x \<and> generateMemorablePassword ngrams 10 x = Ret (Some (r, ds')) \<and> password_shape 10 r"
proof -
  have g: "good []" by (simp add: good_def)
  have "generateMemorablePassword ngrams 10 [] = Ret None"
    by (simp add: generateMemorablePassword_def password_affix_def rnd_bind_def numeral_3_eq_3 randInt_def numbers_def)
  with shipped_passwords [OF _ g, of 10] show ?thesis by auto
qed

end
