(* ===== verification/Lifecycle.thy ===== *)
theory Lifecycle
  imports Prelude
begin

text \<open>
  How the process runs (\<open>pkg/cli/cmds/connect.go\<close>, \<open>pkg/controller/controllermanager.go\<close>) and the manifests it
  gives the cluster (\<open>pkg/reconciler/device/manifests.go\<close>).
\<close>

section \<open>Manifests\<close>

text \<open>
  The files of the target directory by name. \<open>mf_copy\<close> of a source file is the error of opening it, or what is
  copied of it and the error of copying, if any. The target is created before the source is opened.
\<close>

record manifest_env =
  mf_mkdir :: "go_error option"
  mf_entries :: "go_error + (string \<times> bool) list"
  mf_create :: "string \<Rightarrow> go_error option"
  mf_copy :: "string \<Rightarrow> go_error + string \<times> go_error option"

type_synonym manifest_files = "(string \<times> string) list"

definition copy_manifest_file :: "manifest_env \<Rightarrow> string \<Rightarrow> manifest_files \<Rightarrow> manifest_files \<times> go_error option" where
  "copy_manifest_file m name fs =
     (case mf_create m name of
        Some err \<Rightarrow> (fs, Some err)
      | None \<Rightarrow>
          (case mf_copy m name of
             Inl err \<Rightarrow> (AList.update name [] fs, Some err)
           | Inr (content, err) \<Rightarrow> (AList.update name content fs, err)))"

fun copy_entries :: "manifest_env \<Rightarrow> (string \<times> bool) list \<Rightarrow> manifest_files \<Rightarrow> manifest_files \<times> go_error option" where
  "copy_entries m [] fs = (fs, None)"
| "copy_entries m ((name, isDir) # es) fs =
     (if \<not> isDir \<and> suffix ''.yaml'' name \<and> map_of fs name = None then
        (case copy_manifest_file m name fs of
           (fs', Some err) \<Rightarrow> (fs', Some err)
         | (fs', None) \<Rightarrow> copy_entries m es fs')
      else copy_entries m es fs)"

definition copyManifests :: "manifest_env \<Rightarrow> manifest_files \<Rightarrow> manifest_files \<times> go_error option" where
  "copyManifests m fs =
     (case mf_mkdir m of
        Some err \<Rightarrow> (fs, Some err)
      | None \<Rightarrow> (case mf_entries m of Inl err \<Rightarrow> (fs, Some err) | Inr es \<Rightarrow> copy_entries m es fs))"

lemma copy_manifest_file_done:
  "copy_manifest_file m name fs = (fs', None) \<Longrightarrow> \<exists>content. mf_copy m name = Inr (content, None) \<and> map_of fs' = (map_of fs)(name \<mapsto> content)"
  by (auto simp: copy_manifest_file_def update_conv' split: option.splits sum.splits)

lemma copy_entries_done:
  "copy_entries m es fs = (fs', None) \<Longrightarrow>
   map_of fs' name =
     (if map_of fs name = None \<and> (name, False) \<in> set es \<and> suffix ''.yaml'' name
      then (case mf_copy m name of Inr (content, None) \<Rightarrow> Some content | _ \<Rightarrow> None) else map_of fs name)"
proof (induction es arbitrary: fs)
  case (Cons e es)
  obtain n d where e: "e = (n, d)" by fastforce
  show ?case
  proof (cases "\<not> d \<and> suffix ''.yaml'' n \<and> map_of fs n = None")
    case True
    obtain fs1 r where c: "copy_manifest_file m n fs = (fs1, r)" by fastforce
    then have "r = None" "copy_entries m es fs1 = (fs', None)" using Cons.prems True by (auto simp: e split: option.splits)
    moreover obtain content where "mf_copy m n = Inr (content, None)" "map_of fs1 = (map_of fs)(n \<mapsto> content)"
      using copy_manifest_file_done c \<open>r = None\<close> by blast
    ultimately show ?thesis using Cons.IH [of fs1] True by (cases "name = n") (auto simp: e)
  next
    case False
    then have "copy_entries m es fs = (fs', None)" using Cons.prems by (auto simp: e)
    from Cons.IH [OF this] False show ?thesis by (auto simp: e)
  qed
qed simp

text \<open>
  Manifests reach the cluster: when \<open>copyManifests\<close> returns without an error, the target directory has
  every YAML file of the source; those it had before are as they were, the others are copies, and nothing else
  was added.
\<close>

theorem manifests_copied:
  assumes "copyManifests m fs = (fs', None)"
  shows "\<exists>es. mf_entries m = Inr es \<and>
    (if map_of fs name = None \<and> (name, False) \<in> set es \<and> suffix ''.yaml'' name
     then (\<exists>content. mf_copy m name = Inr (content, None) \<and> map_of fs' name = Some content)
     else map_of fs' name = map_of fs name)"
proof -
  obtain es where es: "mf_entries m = Inr es" "copy_entries m es fs = (fs', None)"
    using assms by (auto simp: copyManifests_def split: option.splits sum.splits)
  have "copy_entries m es fs = (fs', None) \<Longrightarrow> map_of fs name = None \<Longrightarrow> (name, False) \<in> set es \<Longrightarrow> suffix ''.yaml'' name \<Longrightarrow>
      \<exists>content. mf_copy m name = Inr (content, None)" for es fs
  proof (induction es arbitrary: fs)
    case (Cons e es)
    obtain n d where e: "e = (n, d)" by fastforce
    show ?case
    proof (cases "\<not> d \<and> suffix ''.yaml'' n \<and> map_of fs n = None")
      case True
      obtain fs1 r where c: "copy_manifest_file m n fs = (fs1, r)" by fastforce
      then have r: "r = None" "copy_entries m es fs1 = (fs', None)" using Cons.prems(1) True by (auto simp: e split: option.splits)
      then obtain content where "mf_copy m n = Inr (content, None)" "map_of fs1 = (map_of fs)(n \<mapsto> content)"
        using copy_manifest_file_done c by blast
      then show ?thesis using Cons.IH [OF r(2)] Cons.prems(2-4) by (cases "name = n") (auto simp: e)
    next
      case False
      then show ?thesis using Cons.IH [of fs] Cons.prems by (auto simp: e)
    qed
  qed simp
  from this [OF es(2)] copy_entries_done [OF es(2), of name] es(1) show ?thesis by auto
qed

definition demo_manifests :: manifest_env where
  "demo_manifests = \<lparr>mf_mkdir = None, mf_entries = Inr [(''a.yaml'', False), (''doc.md'', False)], mf_create = (\<lambda>_. None),
     mf_copy = (\<lambda>n. Inr (''kind: App'', None))\<rparr>"

theorem manifests_copied_witness:
  "\<exists>fs'. copyManifests demo_manifests [] = (fs', None) \<and> map_of fs' ''a.yaml'' = Some ''kind: App'' \<and> map_of fs' ''doc.md'' = None"
proof -
  have c: "copyManifests demo_manifests [] = ([(''a.yaml'', ''kind: App'')], None)"
    by (simp add: copyManifests_def demo_manifests_def copy_manifest_file_def suffix_def)
  have "suffix ''.yaml'' ''a.yaml''" "\<not> suffix ''.yaml'' ''doc.md''" by (simp_all add: suffix_def)
  then show ?thesis
    using c manifests_copied [OF c, of "''a.yaml''"] manifests_copied [OF c, of "''doc.md''"] by (auto simp: demo_manifests_def)
qed

text \<open>
  A copy that fails leaves what it has written, and the next attempt takes the file for copied: it succeeds
  with an empty or cut manifest.
\<close>

lemma failed_copy_not_repaired:
  assumes "mf_mkdir m = None" "mf_entries m = Inr [(name, False)]" "suffix ''.yaml'' name" "map_of fs name = None"
    "mf_create m name = None" "mf_copy m name = Inr (part, Some err)"
    and "mf_mkdir m' = None" "mf_entries m' = Inr [(name, False)]"
  shows "copyManifests m fs = (AList.update name part fs, Some err)"
    "copyManifests m' (AList.update name part fs) = (AList.update name part fs, None)"
  using assms by (simp_all add: copyManifests_def copy_manifest_file_def update_conv')

section \<open>The controller manager\<close>

text \<open>
  An attempt to run the manager: the configuration, the new manager, the set-up of each reconciler with the
  library and the run itself, each of which may fail. \<open>'l\<close> is what the library keeps for the whole process.
\<close>

record 'l manager_env =
  mn_config :: "go_error option"
  mn_new :: "go_error option"
  mn_setup :: "nat \<Rightarrow> 'l \<Rightarrow> 'l \<times> go_error option"
  mn_start :: "go_error option"

datatype retry_level = DebugLevel | WarnLevel

fun setup_reconcilers :: "'l manager_env \<Rightarrow> nat list \<Rightarrow> 'l \<Rightarrow> 'l \<times> go_error option" where
  "setup_reconcilers m [] l = (l, None)"
| "setup_reconcilers m (r # rs) l =
     (case mn_setup m r l of
        (l', Some err) \<Rightarrow> (l', Some (Wrap ''reconciler setup: '' err))
      | (l', None) \<Rightarrow> setup_reconcilers m rs l')"

definition runControllerManager :: "'l manager_env \<Rightarrow> nat list \<Rightarrow> 'l \<Rightarrow> 'l \<times> go_error option" where
  "runControllerManager m rs l =
     (case mn_config m of
        Some err \<Rightarrow> (l, Some err)
      | None \<Rightarrow>
          (case mn_new m of
             Some err \<Rightarrow> (l, Some err)
           | None \<Rightarrow>
               (case setup_reconcilers m rs l of
                  (l', Some err) \<Rightarrow> (l', Some err)
                | (l', None) \<Rightarrow> (l', map_option (Wrap ''start manager: '') (mn_start m)))))"

text \<open>The attempts until the context is cancelled, with what each logs: a warning after ten attempts.\<close>

fun manager_loop :: "nat list \<Rightarrow> nat \<Rightarrow> 'l manager_env list \<Rightarrow> 'l \<Rightarrow> 'l \<times> (retry_level \<times> go_error) list" where
  "manager_loop rs attempt [] l = (l, [])"
| "manager_loop rs attempt (m # ms) l =
     (case runControllerManager m rs l of
        (l1, r) \<Rightarrow>
          (case manager_loop rs (Suc attempt) ms l1 of
             (l2, logs) \<Rightarrow>
               (l2, (case r of None \<Rightarrow> [] | Some err \<Rightarrow> [(if attempt > 10 then WarnLevel else DebugLevel, err)]) @ logs)))"

text \<open>
  The library refuses to set up a controller under a name it knows, and it does not forget names. Then a manager
  that was set up once is never set up again: every later attempt fails.
\<close>

definition names_unique :: "'l manager_env \<Rightarrow> ('l \<Rightarrow> nat set) \<Rightarrow> bool" where
  "names_unique m known \<longleftrightarrow>
     (\<forall>r l. (r \<in> known l \<longrightarrow> snd (mn_setup m r l) \<noteq> None) \<and>
        known l \<subseteq> known (fst (mn_setup m r l)) \<and>
        (snd (mn_setup m r l) = None \<longrightarrow> r \<in> known (fst (mn_setup m r l))))"

lemma names_uniqueD:
  "names_unique m known \<Longrightarrow> known l \<subseteq> known (fst (mn_setup m r l))"
  "names_unique m known \<Longrightarrow> snd (mn_setup m r l) = None \<Longrightarrow> r \<in> known (fst (mn_setup m r l))"
  unfolding names_unique_def by blast+

lemma setup_reconcilers_mono: "names_unique m known \<Longrightarrow> known l \<subseteq> known (fst (setup_reconcilers m rs l))"
proof (induction rs arbitrary: l)
  case (Cons r rs)
  obtain l' e where "mn_setup m r l = (l', e)" by fastforce
  then show ?case using names_uniqueD(1) [OF Cons.prems, of l r] Cons.IH [OF Cons.prems, of l'] by (cases e) auto
qed simp

lemma setup_reconcilers_known:
  "names_unique m known \<Longrightarrow> snd (setup_reconcilers m rs l) = None \<Longrightarrow> set rs \<subseteq> known (fst (setup_reconcilers m rs l))"
proof (induction rs arbitrary: l)
  case (Cons r rs)
  obtain l' e where "mn_setup m r l = (l', e)" by fastforce
  then show ?case
    using Cons names_uniqueD(2) [OF Cons.prems(1), of r l] setup_reconcilers_mono [OF Cons.prems(1), of l' rs] by (cases e) auto
qed simp

lemma manager_set_up_once:
  assumes "names_unique m known" "names_unique m' known" "rs \<noteq> []" "setup_reconcilers m rs l = (l1, None)"
  shows "snd (runControllerManager m' rs l1) \<noteq> None"
proof -
  obtain r rs' where rs: "rs = r # rs'" using assms(3) by (meson neq_Nil_conv)
  have "r \<in> known l1" using setup_reconcilers_known [OF assms(1), of rs l] assms(4) rs by auto
  then have "snd (mn_setup m' r l1) \<noteq> None" using assms(2) unfolding names_unique_def by blast
  then have "snd (setup_reconcilers m' rs l1) \<noteq> None" by (auto simp: rs split: prod.splits option.splits)
  then show ?thesis by (auto simp: runControllerManager_def split: prod.splits option.splits)
qed

section \<open>Daemons in parallel\<close>

text \<open>
  \<open>parallelize\<close>: every daemon runs until it returns, then sends its error and cancels the common context; the
  surrounding context may be cancelled at any time. The results are received in the order they were sent.
\<close>

datatype daemon = Running | Reported | Ended

record parallel =
  pa_daemons :: "daemon list"
  pa_cancelled :: bool
  pa_received :: "go_error option list"

definition par_start :: "nat \<Rightarrow> parallel" where
  "par_start n = \<lparr>pa_daemons = replicate n Running, pa_cancelled = False, pa_received = []\<rparr>"

inductive par_step :: "parallel \<Rightarrow> parallel \<Rightarrow> bool" where
  outer: "par_step s (s\<lparr>pa_cancelled := True\<rparr>)"
| report: "i < length (pa_daemons s) \<Longrightarrow> pa_daemons s ! i = Running \<Longrightarrow>
    par_step s (s\<lparr>pa_daemons := (pa_daemons s)[i := Reported], pa_received := pa_received s @ [e]\<rparr>)"
| cancel: "i < length (pa_daemons s) \<Longrightarrow> pa_daemons s ! i = Reported \<Longrightarrow>
    par_step s (s\<lparr>pa_daemons := (pa_daemons s)[i := Ended], pa_cancelled := True\<rparr>)"

inductive_cases par_stepE: "par_step s s'"

fun first_error :: "go_error option list \<Rightarrow> go_error option" where
  "first_error [] = None"
| "first_error (Some e # es) = Some e"
| "first_error (None # es) = first_error es"

definition par_result :: "parallel \<Rightarrow> go_error option option" where
  "par_result s = (if length (pa_received s) = length (pa_daemons s) then Some (first_error (pa_received s)) else None)"

definition par_inv :: "nat \<Rightarrow> parallel \<Rightarrow> bool" where
  "par_inv n s \<longleftrightarrow> length (pa_daemons s) = n \<and>
     length (pa_received s) + length (filter (\<lambda>d. d = Running) (pa_daemons s)) = n \<and>
     (Ended \<in> set (pa_daemons s) \<longrightarrow> pa_cancelled s)"

lemma running_count:
  "i < length ds \<Longrightarrow> ds ! i = Running \<Longrightarrow> d \<noteq> Running \<Longrightarrow>
   Suc (length (filter (\<lambda>d. d = Running) (ds[i := d]))) = length (filter (\<lambda>d. d = Running) ds)"
  "i < length ds \<Longrightarrow> ds ! i \<noteq> Running \<Longrightarrow> d \<noteq> Running \<Longrightarrow>
   filter (\<lambda>d. d = Running) (ds[i := d]) = filter (\<lambda>d. d = Running) ds"
  by (induction ds arbitrary: i) (auto simp: nth_Cons split: nat.splits)

lemma par_step_inv: "par_inv n s \<Longrightarrow> par_step s s' \<Longrightarrow> par_inv n s'"
proof (erule par_stepE)
  fix i e assume inv: "par_inv n s" and "s' = s\<lparr>pa_daemons := (pa_daemons s)[i := Reported], pa_received := pa_received s @ [e]\<rparr>"
    and i: "i < length (pa_daemons s)" "pa_daemons s ! i = Running"
  then show "par_inv n s'"
    using running_count(1) [OF i, of Reported] set_update_subset_insert [of "pa_daemons s" i Reported]
    by (auto simp: par_inv_def)
next
  fix i assume inv: "par_inv n s" and "s' = s\<lparr>pa_daemons := (pa_daemons s)[i := Ended], pa_cancelled := True\<rparr>"
    and i: "i < length (pa_daemons s)" "pa_daemons s ! i = Reported"
  then show "par_inv n s'" using running_count(2) [of i "pa_daemons s" Ended] by (auto simp: par_inv_def)
qed (auto simp: par_inv_def)

lemma par_reachable_inv:
  assumes "par_step\<^sup>*\<^sup>* (par_start n) s"
  shows "par_inv n s"
  using assms
proof induction
  case base
  then show ?case by (simp add: par_start_def par_inv_def)
next
  case (step y z)
  then show ?case using par_step_inv by blast
qed

text \<open>
  \<open>parallelize\<close> returns when every daemon has, no earlier, with the first error that was sent; a daemon that has
  ended has cancelled the context of the others.
\<close>

lemma parallelize_waits:
  assumes "par_step\<^sup>*\<^sup>* (par_start n) s"
  shows "par_result s \<noteq> None \<longleftrightarrow> Running \<notin> set (pa_daemons s)"
    "Ended \<in> set (pa_daemons s) \<Longrightarrow> pa_cancelled s"
proof -
  note inv = par_reachable_inv [OF assms, unfolded par_inv_def]
  then show "Ended \<in> set (pa_daemons s) \<Longrightarrow> pa_cancelled s" by blast
  have "filter (\<lambda>d. d = Running) (pa_daemons s) = [] \<longleftrightarrow> Running \<notin> set (pa_daemons s)" by (auto simp: filter_empty_conv)
  then show "par_result s \<noteq> None \<longleftrightarrow> Running \<notin> set (pa_daemons s)"
    using inv by (auto simp: par_result_def)
qed

section \<open>Shutting down\<close>

text \<open>
  The shutdown function handed to the reconcilers: it writes the file that tells the host to power off, if one
  is set, and cancels the context, but does not when the file cannot be written.
\<close>

definition shutdown_device :: "string \<Rightarrow> go_error option \<Rightarrow> parallel \<times> string list \<Rightarrow> (parallel \<times> string list) \<times> go_error option" where
  "shutdown_device shutdownFile writeErr st =
     (case st of (s, files) \<Rightarrow>
        if shutdownFile \<noteq> [] then
          (case writeErr of
             Some err \<Rightarrow> ((s, files), Some (Wrap ''write shutdown file: '' err))
           | None \<Rightarrow> ((s\<lparr>pa_cancelled := True\<rparr>, shutdownFile # files), None))
        else ((s\<lparr>pa_cancelled := True\<rparr>, files), None))"

lemma shutdown_is_step: "shutdown_device f w (s, files) = ((s', files'), None) \<Longrightarrow> par_step s s'"
  by (auto simp: shutdown_device_def intro: par_step.outer split: if_splits option.splits)

text \<open>\<open>clientconf.New\<close>: the configuration file to use, which the client library reads.\<close>

definition clientconf_path :: "string \<Rightarrow> string \<Rightarrow> string" where
  "clientconf_path k3sDir mode =
     (if mode = ''agent'' then k3sDir @ ''/agent/kubelet.kubeconfig'' else k3sDir @ ''/server/cred/admin.kubeconfig'')"

end
