(* ===== verification/Views.thy ===== *)
theory Views
  imports DeviceApi
begin

text \<open>
  What the program shows: devices as a table (\<open>pkg/rest/device_table.go\<close>) and log entries of the controller
  libraries (\<open>pkg/logrusadapter/logrusadapter.go\<close>).
\<close>

section \<open>The device table\<close>

text \<open>
  An object handed to the converter: a device, something else (with its Go type), or a list with its
  metadata: resource version, self link, continue token and the number of remaining items. An object that is no
  list may have metadata, too; \<open>ob_NoMeta\<close> is one without.
\<close>

datatype table_item = ItemDevice "device resource" | ItemOther string | ItemNoMeta string

record list_meta =
  lm_ResourceVersion :: string
  lm_SelfLink :: string
  lm_Continue :: string
  lm_Remaining :: "int option"

datatype table_object = TableItem table_item | TableList list_meta "table_item list"

record table_row =
  tr_Name :: string
  tr_Mode :: string
  tr_State :: string
  tr_Created :: string
  tr_Object :: "device resource"

record table =
  tb_Rows :: "table_row list"
  tb_Meta :: list_meta
  tb_Columns :: "string list"

definition table_row_of :: "(nat option \<Rightarrow> string) \<Rightarrow> table_item \<Rightarrow> go_error + table_row" where
  "table_row_of rfc3339 it =
     (case it of
        ItemNoMeta t \<Rightarrow> Inl (Wrap ''convert to device table: '' (Errorf ''object does not implement the Object interfaces''))
      | ItemOther t \<Rightarrow> Inl (Errorf (''convert to device table: expected object of type Device but was '' @ t))
      | ItemDevice d \<Rightarrow>
          Inr \<lparr>tr_Name = om_Name (md d), tr_Mode = ds_Mode (dev_Spec (body d)), tr_State = dst_State (dev_Status (body d)),
               tr_Created = rfc3339 (om_CreationTimestamp (md d)), tr_Object = d\<rparr>)"

fun table_rows :: "(nat option \<Rightarrow> string) \<Rightarrow> table_item list \<Rightarrow> go_error + table_row list" where
  "table_rows f [] = Inr []"
| "table_rows f (it # its) =
     (case table_row_of f it of
        Inl err \<Rightarrow> Inl err
      | Inr r \<Rightarrow> (case table_rows f its of Inl err \<Rightarrow> Inl err | Inr rs \<Rightarrow> Inr (r # rs)))"

definition zero_list_meta :: list_meta where
  "zero_list_meta = \<lparr>lm_ResourceVersion = [], lm_SelfLink = [], lm_Continue = [], lm_Remaining = None\<rparr>"

definition ConvertToTable :: "(nat option \<Rightarrow> string) \<Rightarrow> bool option \<Rightarrow> table_object \<Rightarrow> go_error + table" where
  "ConvertToTable f noHeaders ob =
     (case table_rows f (case ob of TableItem it \<Rightarrow> [it] | TableList _ its \<Rightarrow> its) of
        Inl err \<Rightarrow> Inl err
      | Inr rows \<Rightarrow>
          Inr \<lparr>tb_Rows = rows,
               tb_Meta =
                 (case ob of
                    TableList m _ \<Rightarrow> m
                  | TableItem (ItemDevice d) \<Rightarrow> zero_list_meta\<lparr>lm_ResourceVersion := om_ResourceVersion (md d)\<rparr>
                  | TableItem _ \<Rightarrow> zero_list_meta),
               tb_Columns = (if noHeaders = Some True then [] else [''Name'', ''Mode'', ''State'', ''Created At''])\<rparr>)"

text \<open>A list of devices gives one row each, in order; any other item makes the conversion fail.\<close>

lemma table_rows_devices:
  "table_rows f its = Inr rows \<Longrightarrow> \<exists>ds. its = map ItemDevice ds \<and> map tr_Object rows = ds \<and> map tr_Name rows = map rname ds"
proof (induction its arbitrary: rows)
  case (Cons it its)
  then obtain r rs where r: "table_row_of f it = Inr r" "table_rows f its = Inr rs" "rows = r # rs"
    by (auto split: sum.splits)
  obtain d where "it = ItemDevice d" "tr_Object r = d" "tr_Name r = rname d"
    using r(1) by (auto simp: table_row_of_def split: table_item.splits)
  then show ?case using Cons.IH [OF r(2)] r(3) by (auto intro: exI [of _ "d # _"])
qed simp

lemma ConvertToTable_list:
  assumes "ConvertToTable f h (TableList m its) = Inr t"
  shows "\<exists>ds. its = map ItemDevice ds \<and> map tr_Object (tb_Rows t) = ds \<and> tb_Meta t = m"
  using assms table_rows_devices [of f its] by (auto simp: ConvertToTable_def split: sum.splits)

section \<open>Log entries\<close>

text \<open>An argument of a logging call: a value, or a slice of arguments passed as one.\<close>

datatype log_arg = LogValue string | LogSlice "log_arg list"

fun log_text :: "log_arg \<Rightarrow> string" where
  "log_text (LogValue v) = v"
| "log_text (LogSlice as) = ''['' @ join '' '' (map log_text as) @ '']''"

fun withFields :: "log_arg list \<Rightarrow> (string \<times> log_arg) list \<Rightarrow> (string \<times> log_arg) list" where
  "withFields (k # v # rest) m = withFields rest (AList.update (log_text k) v m)"
| "withFields _ m = m"

record log_sink =
  ls_fields :: "(string \<times> log_arg) list"
  ls_names :: "string list"

definition log_Info :: "log_sink \<Rightarrow> log_arg list \<Rightarrow> (string \<times> log_arg) list" where
  "log_Info l args = AList.updates (map fst (withFields args [])) (map snd (withFields args [])) (ls_fields l)"

text \<open>\<open>Error\<close> and \<open>WithValues\<close> hand the slice on as one argument.\<close>

definition log_Error :: "log_sink \<Rightarrow> log_arg list \<Rightarrow> (string \<times> log_arg) list" where
  "log_Error l args =
     (let m = withFields [LogSlice args] [] in AList.updates (map fst m) (map snd m) (ls_fields l))"

definition log_WithValues :: "log_sink \<Rightarrow> log_arg list \<Rightarrow> log_sink" where
  "log_WithValues l args =
     (let m = withFields [LogSlice args] [] in l\<lparr>ls_fields := AList.updates (map fst m) (map snd m) (ls_fields l)\<rparr>)"

definition log_WithName :: "log_sink \<Rightarrow> string \<Rightarrow> log_sink" where
  "log_WithName l name =
     \<lparr>ls_fields = AList.update ''component'' (LogValue (join ''.'' (ls_names l @ [name]))) (ls_fields l), ls_names = ls_names l @ [name]\<rparr>"

text \<open>So the key/value pairs of an error, and those a logger is given, are lost.\<close>

lemma log_values_lost: "log_Error l args = ls_fields l" "log_WithValues l args = l"
  by (simp_all add: log_Error_def log_WithValues_def)

lemma log_Info_keeps: "log_Info l [LogValue k, LogValue v] = AList.update k (LogValue v) (ls_fields l)"
  by (simp add: log_Info_def)

end
