(* ===== verification/Recovery.thy ===== *)
theory Recovery
  imports Demo
begin

text \<open>
  What a file store's directory is worth after a restart: the relation between memory and disk
  that the operations keep, the one operation result that breaks it, what loading the directory
  gives back, and what a crash in the middle of a write leaves behind. The codec is a parameter;
  \<open>faithful_codec\<close> says that decoding what was encoded gives the resource back, and that clearing
  a status twice is clearing it once.
\<close>

section \<open>Persistent content\<close>

definition faithful_codec :: "('a, 'b) codec \<Rightarrow> 'a resource_type \<Rightarrow> bool" where
  "faithful_codec codec rt \<longleftrightarrow>
     (\<forall>r b. encode codec r = Inr b \<longrightarrow> decode codec (Some b) = Inr r) \<and>
     (\<forall>b. rt_ClearStatus rt (rt_ClearStatus rt b) = rt_ClearStatus rt b)"

text \<open>
  What survives a restart of the resource stored under \<open>key\<close>: everything but its status, its
  resource version and a creation timestamp; its type is the scheme's and its name the key.
\<close>

definition persistent :: "'a resource_type \<Rightarrow> string \<Rightarrow> 'a resource \<Rightarrow> 'a resource" where
  "persistent rt key r =
     (let p = set_gvk rt (without_status_and_resource_version rt r)
      in p\<lparr>md := (md p)\<lparr>om_Name := key, om_CreationTimestamp := None\<rparr>\<rparr>)"

definition on_disk :: "('a, 'b) codec \<Rightarrow> 'a resource_type \<Rightarrow> 'b dir \<Rightarrow> string \<Rightarrow> 'a resource option" where
  "on_disk codec rt dir key =
     (case map_of dir (file_name key) of
        None \<Rightarrow> None
      | Some c \<Rightarrow> (case decode codec c of Inl _ \<Rightarrow> None | Inr r \<Rightarrow> Some (persistent rt key r)))"

definition readable :: "('a, 'b) codec \<Rightarrow> 'b dir \<Rightarrow> bool" where
  "readable codec dir \<longleftrightarrow> (\<forall>k c. map_of dir (file_name k) = Some c \<longrightarrow> (\<exists>r. decode codec c = Inr r))"

definition mirrored :: "('a, 'b) codec \<Rightarrow> 'a resource_type \<Rightarrow> ('a, 'b) filestore \<Rightarrow> bool" where
  "mirrored codec rt s \<longleftrightarrow> readable codec (fs_dir s) \<and>
     (\<forall>k. on_disk codec rt (fs_dir s) k = map_option (persistent rt k) (fs_view s k))"

lemma set_gvk_idem [simp]: "set_gvk rt (set_gvk rt r) = set_gvk rt r"
  by (auto simp: set_gvk_def split: option.splits)

lemma body_persistent: "body (persistent rt key r) = rt_ClearStatus rt (body r)"
  by (simp add: persistent_def without_status_and_resource_version_def Let_def)

lemma persistent_cong:
  assumes "body r = body r'"
    "(md r)\<lparr>om_Name := [], om_ResourceVersion := [], om_CreationTimestamp := None\<rparr> =
     (md r')\<lparr>om_Name := [], om_ResourceVersion := [], om_CreationTimestamp := None\<rparr>"
    and "tm_APIVersion (set_gvk rt r) = tm_APIVersion (set_gvk rt r')"
    "tm_Kind (set_gvk rt r) = tm_Kind (set_gvk rt r')"
  shows "persistent rt k r = persistent rt k r'"
  using assms
  by (cases r; cases r'; cases "md r"; cases "md r'")
     (auto simp: persistent_def without_status_and_resource_version_def set_gvk_def Let_def split: option.splits)

lemma persistent_gvk: "persistent rt k ((set_gvk rt r)\<lparr>md := (md r)\<lparr>om_ResourceVersion := v\<rparr>\<rparr>) = persistent rt k r"
  by (rule persistent_cong) (auto simp: set_gvk_def split: option.splits)

lemma persistent_created:
  "persistent rt k ((set_name_and_creation_timestamp e (set_gvk rt r) k)
     \<lparr>md := (md (set_name_and_creation_timestamp e (set_gvk rt r) k))\<lparr>om_ResourceVersion := v\<rparr>\<rparr>) = persistent rt k r"
  by (rule persistent_cong) (auto simp: set_gvk_def set_name_and_creation_timestamp_def split: option.splits)

lemma persistent_stripped:
  "faithful_codec codec rt \<Longrightarrow> persistent rt k (without_status_and_resource_version rt r) = persistent rt k r"
  by (auto simp: faithful_codec_def persistent_def without_status_and_resource_version_def set_gvk_def Let_def
      split: option.splits)

section \<open>Loading a directory\<close>

definition loaded :: "'a resource_type \<Rightarrow> string \<Rightarrow> 'a resource option \<Rightarrow> 'a resource option \<Rightarrow> bool" where
  "loaded rt k c r \<longleftrightarrow> map_option (persistent rt k) r = map_option (persistent rt k) c"

lemma file_name_take: "suffix ''.yaml'' n \<Longrightarrow> file_name (take (length n - 5) n) = n"
  using yaml_is_file_name [of n] by simp

lemma load_files_ok:
  assumes "\<And>n. n \<in> set ns \<Longrightarrow> suffix ''.yaml'' n \<Longrightarrow>
      \<exists>r. decode codec (case map_of dir n of None \<Rightarrow> None | Some c \<Rightarrow> c) = Inr r"
    and "distinct ns" "mem_inv s" "\<And>k. file_name k \<in> set ns \<Longrightarrow> mem_view s k = None"
  shows "\<exists>s'. load_files codec rt e dir ns s = Inr s' \<and> mem_inv s' \<and>
    (\<forall>k. map_option (persistent rt k) (mem_view s' k) =
      (if file_name k \<in> set ns then
         (case decode codec (case map_of dir (file_name k) of None \<Rightarrow> None | Some c \<Rightarrow> c) of
            Inl _ \<Rightarrow> None | Inr r \<Rightarrow> Some (persistent rt k r))
       else map_option (persistent rt k) (mem_view s k)))"
  using assms
proof (induction ns arbitrary: s)
  case Nil
  then show ?case by simp
next
  case (Cons n ns)
  show ?case
  proof (cases "suffix ''.yaml'' n")
    case False
    then have "file_name k \<noteq> n" for k by (metis yaml_file_name)
    with False Cons show ?thesis by simp
  next
    case True
    let ?k = "take (length n - 5) n"
    have n: "n = file_name ?k" using file_name_take [OF True] by simp
    obtain r where r: "decode codec (case map_of dir n of None \<Rightarrow> None | Some c \<Rightarrow> c) = Inr r"
      using Cons.prems(1) [of n] True by auto
    have free: "mem_view s ?k = None" using Cons.prems(4) [of ?k] n by simp
    obtain s1 r1 where c: "mem_create rt e s ?k r = (s1, Inr r1)"
      using mem.create_succeeds [OF Cons.prems(3) free, of rt e r] by (auto simp: mem_ops_def)
    then have r1: "r1 = (set_name_and_creation_timestamp e (set_gvk rt r) ?k)
        \<lparr>md := (md (set_name_and_creation_timestamp e (set_gvk rt r) ?k))\<lparr>om_ResourceVersion := show_nat (ms_seq s + 1)\<rparr>\<rparr>"
      by (auto simp: mem_create_cases Let_def split: if_splits)
    have v1: "mem_view s1 = (mem_view s)(?k \<mapsto> r1)"
      using mem_create_Inr(2) [OF c] by (simp add: alist_simps)
    have inv1: "mem_inv s1" using mem_inv_create [OF Cons.prems(3), of rt e ?k r] c by simp
    have "mem_view s1 k = None" if "file_name k \<in> set ns" for k
      using that Cons.prems(2,4) n v1 by (cases "k = ?k") auto
    then obtain s' where s': "load_files codec rt e dir ns s1 = Inr s'" "mem_inv s'"
      and v': "\<And>k. map_option (persistent rt k) (mem_view s' k) =
        (if file_name k \<in> set ns then
         (case decode codec (case map_of dir (file_name k) of None \<Rightarrow> None | Some c \<Rightarrow> c) of
            Inl _ \<Rightarrow> None | Inr r \<Rightarrow> Some (persistent rt k r))
         else map_option (persistent rt k) (mem_view s1 k))"
      using Cons.IH [of s1] Cons.prems(1,2) inv1 by auto
    have l: "load_files codec rt e dir (n # ns) s = Inr s'"
      using True r c s'(1) by simp
    have "map_option (persistent rt k) (mem_view s' k) =
      (if file_name k \<in> set (n # ns) then
         (case decode codec (case map_of dir (file_name k) of None \<Rightarrow> None | Some c \<Rightarrow> c) of
            Inl _ \<Rightarrow> None | Inr r \<Rightarrow> Some (persistent rt k r))
       else map_option (persistent rt k) (mem_view s k))" for k
    proof (cases "k = ?k")
      case True
      then have "file_name k \<notin> set ns" using Cons.prems(2) n by auto
      then show ?thesis
        using v' [of k] True v1 r n r1 persistent_created [where rt = rt and k = ?k and e = e and r = r] by simp
    next
      case False
      then have "file_name k \<noteq> n" using n by (metis file_name_inj)
      with v' [of k] False v1 show ?thesis by simp
    qed
    with l s'(2) show ?thesis by blast
  qed
qed

lemma load_files_readable:
  assumes "load_files codec rt e dir ns s = Inr s'" "n \<in> set ns" "suffix ''.yaml'' n"
  shows "\<exists>r. decode codec (case map_of dir n of None \<Rightarrow> None | Some c \<Rightarrow> c) = Inr r"
  using assms by (induction ns arbitrary: s) (auto split: sum.splits prod.splits if_splits)

lemma load_dir:
  assumes "wf_map dir" "readable codec dir"
  shows "\<exists>s'. FileStore codec rt e (Inr (Some dir)) = Inr s' \<and> fs_dir s' = dir \<and> fs_inv s' \<and> mirrored codec rt s'"
proof -
  let ?ns = "sort (map fst dir)"
  have "\<exists>r. decode codec (case map_of dir n of None \<Rightarrow> None | Some c \<Rightarrow> c) = Inr r"
    if n: "n \<in> set ?ns" "suffix ''.yaml'' n" for n
  proof -
    obtain c where "map_of dir n = Some c"
      using n(1) map_of_eq_None_iff [of dir n] by (cases "map_of dir n") auto
    with assms(2) file_name_take [OF n(2)] show ?thesis
      unfolding readable_def by (metis option.simps(5))
  qed
  moreover have "distinct ?ns" using assms(1) by (simp add: wf_map_def)
  moreover have "mem_view InMemory k = None" for k by (simp add: InMemory_def)
  ultimately obtain m where m: "load_files codec rt e dir ?ns InMemory = Inr m" "mem_inv m"
    and v: "\<And>k. map_option (persistent rt k) (mem_view m k) =
      (if file_name k \<in> set ?ns then
         (case decode codec (case map_of dir (file_name k) of None \<Rightarrow> None | Some c \<Rightarrow> c) of
            Inl _ \<Rightarrow> None | Inr r \<Rightarrow> Some (persistent rt k r))
       else map_option (persistent rt k) (mem_view InMemory k))"
    using load_files_ok [of ?ns codec dir InMemory rt e] by auto
  have "on_disk codec rt dir k = map_option (persistent rt k) (mem_view m k)" for k
  proof (cases "map_of dir (file_name k)")
    case None
    then have "file_name k \<notin> set ?ns" by (simp add: map_of_eq_None_iff)
    with v [of k] None show ?thesis by (simp add: on_disk_def InMemory_def)
  next
    case (Some c)
    then have "file_name k \<in> set ?ns" using map_of_eq_None_iff [of dir "file_name k"] by auto
    with v [of k] Some show ?thesis by (simp add: on_disk_def)
  qed
  with m assms show ?thesis
    by (simp add: FileStore_def load_from_files_def fs_inv_def mirrored_def)
qed

lemma FileStore_readable:
  assumes "FileStore codec rt e (Inr (Some dir)) = Inr s" "wf_map dir"
  shows "readable codec dir"
  unfolding readable_def
proof (intro allI impI)
  fix k c assume k: "map_of dir (file_name k) = Some c"
  obtain m where "load_files codec rt e dir (sort (map fst dir)) InMemory = Inr m"
    using assms(1) by (auto simp: FileStore_def load_from_files_def split: sum.splits)
  moreover have "file_name k \<in> set (sort (map fst dir))"
    using k map_of_eq_None_iff [of dir "file_name k"] by auto
  ultimately have "\<exists>r. decode codec (case map_of dir (file_name k) of None \<Rightarrow> None | Some c \<Rightarrow> c) = Inr r"
    by (rule load_files_readable) simp
  with k show "\<exists>r. decode codec c = Inr r" by simp
qed

section \<open>Runs\<close>

datatype 'a store_cmd =
    CreateCmd env string "'a resource"
  | UpdateCmd env string "'a resource \<Rightarrow> go_error + 'a resource"
  | DeleteCmd env string "'a resource \<Rightarrow> go_error option"

fun fs_exec ::
  "('a, 'b) codec \<Rightarrow> 'a resource_type \<Rightarrow> ('a, 'b) filestore \<Rightarrow> 'a store_cmd
   \<Rightarrow> ('a, 'b) filestore \<times> (go_error + 'a resource)" where
  "fs_exec codec rt s (CreateCmd e k r) = op_create (fs_ops codec rt) e s k r"
| "fs_exec codec rt s (UpdateCmd e k f) = op_update (fs_ops codec rt) e s k f"
| "fs_exec codec rt s (DeleteCmd e k v) = op_delete (fs_ops codec rt) e s k v"

fun fs_run ::
  "('a, 'b) codec \<Rightarrow> 'a resource_type \<Rightarrow> ('a, 'b) filestore \<Rightarrow> 'a store_cmd list
   \<Rightarrow> ('a, 'b) filestore \<times> (go_error + 'a resource) list" where
  "fs_run codec rt s [] = (s, [])"
| "fs_run codec rt s (c # cs) =
     (case fs_exec codec rt s c of (s1, res) \<Rightarrow>
        (case fs_run codec rt s1 cs of (s2, rs) \<Rightarrow> (s2, res # rs)))"

text \<open>A result that refuses an update because it was made to an older version.\<close>

fun stale :: "go_error + 'a resource \<Rightarrow> bool" where
  "stale (Inl (Conflict _ _ _)) = True"
| "stale _ = False"

lemma fs_inv_exec: "fs_inv s \<Longrightarrow> fs_inv (fst (fs_exec codec rt s c))"
  by (cases c) (simp_all add: fs.create_inv fs.update_inv fs.delete_inv)

text \<open>A write puts the resource's persistent content under its key and touches no other resource file.\<close>

lemma on_disk_write:
  assumes "faithful_codec codec rt" "write_file codec rt e key obj dir = (d, None)"
  shows "on_disk codec rt d k = (if k = key then Some (persistent rt k obj) else on_disk codec rt dir k)"
    "readable codec dir \<Longrightarrow> readable codec d"
proof -
  obtain b where b: "encode codec (without_status_and_resource_version rt obj) = Inr b"
    and d: "\<And>k. map_of d (file_name k) = (if k = key then Some (Some b) else map_of dir (file_name k))"
    using assms(2) by (elim write_file_None) blast
  have dec: "decode codec (Some b) = Inr (without_status_and_resource_version rt obj)"
    using assms(1) b by (simp add: faithful_codec_def)
  show "on_disk codec rt d k = (if k = key then Some (persistent rt k obj) else on_disk codec rt dir k)"
    using d dec persistent_stripped [OF assms(1)] by (simp add: on_disk_def)
  show "readable codec dir \<Longrightarrow> readable codec d"
    unfolding readable_def using d dec by (metis option.inject)
qed

lemma mirrored_same:
  assumes "mirrored codec rt s" "\<And>k. map_of d (file_name k) = map_of (fs_dir s) (file_name k)"
    and "mem_view m = fs_view s"
  shows "mirrored codec rt (s\<lparr>fs_mem := m, fs_dir := d\<rparr>)"
  using assms by (simp add: mirrored_def on_disk_def readable_def)

lemma mirrored_stored:
  assumes "mirrored codec rt s" "readable codec d"
    "\<And>k. on_disk codec rt d k = (if k = key then Some (persistent rt k new) else on_disk codec rt (fs_dir s) k)"
  shows "mirrored codec rt (fst (fs_stored rt e s key new d))"
  using assms persistent_gvk [where rt = rt and k = key and r = new and v = "show_nat (ms_seq (fs_mem s) + 1)"]
  by (simp add: mirrored_def fs_stored_def Let_def alist_simps)

lemma mirrored_update:
  assumes fc: "faithful_codec codec rt" and mir: "mirrored codec rt s"
    and ns: "\<not> stale (snd (fs_update codec rt e s key f))"
  shows "mirrored codec rt (fst (fs_update codec rt e s key f))"
proof (cases "fs_view s key")
  case None
  with mir show ?thesis by (simp add: fs_update_cases)
next
  case old: (Some old)
  show ?thesis
  proof (cases "f old")
    case (Inl err)
    with mir old show ?thesis by (simp add: fs_update_cases)
  next
    case new: (Inr new)
    show ?thesis
    proof (cases "old = new")
      case True
      have "mirrored codec rt (fst (fs_stored rt e s key new (fs_dir s)))"
        using mir old True by (intro mirrored_stored) (auto simp: mirrored_def)
      with old new True show ?thesis by (simp add: fs_update_cases)
    next
      case False
      obtain d err where w: "write_file codec rt e key new (fs_dir s) = (d, err)" by fastforce
      show ?thesis
      proof (cases err)
        case None
        with w have w: "write_file codec rt e key new (fs_dir s) = (d, None)" by simp
        have "mirrored codec rt (fst (fs_stored rt e s key new d))"
          using mir on_disk_write [OF fc w] by (intro mirrored_stored) (auto simp: mirrored_def)
        with ns old new False w show ?thesis by (auto simp: fs_update_cases split: if_splits)
      next
        case (Some x)
        with w have w: "write_file codec rt e key new (fs_dir s) = (d, Some x)" by simp
        have "mirrored codec rt (s\<lparr>fs_mem := fs_mem s, fs_dir := d\<rparr>)"
          by (rule mirrored_same [OF mir write_file_Some [OF w]]) simp
        with old new False w show ?thesis by (simp add: fs_update_cases)
      qed
    qed
  qed
qed

lemma mirrored_create:
  assumes fc: "faithful_codec codec rt" and mir: "mirrored codec rt s"
  shows "mirrored codec rt (fst (fs_create codec rt e s key res))"
proof (cases "key \<in> dom (fs_view s)")
  case True
  with mir show ?thesis by (simp add: fs_create_cases)
next
  case False
  let ?r = "(set_name_and_creation_timestamp e (set_gvk rt res) key)
     \<lparr>md := (md (set_name_and_creation_timestamp e (set_gvk rt res) key))\<lparr>om_ResourceVersion := show_nat (ms_seq (fs_mem s) + 1)\<rparr>\<rparr>"
  obtain d err where w: "write_file codec rt e key ?r (fs_dir s) = (d, err)" by fastforce
  show ?thesis
  proof (cases err)
    case None
    with w have w: "write_file codec rt e key ?r (fs_dir s) = (d, None)" by simp
    have "fst (fs_create codec rt e s key res) = s\<lparr>fs_mem := fst (mem_create rt e (fs_mem s) key res), fs_dir := d\<rparr>"
      using False w by (simp add: fs_create_cases Let_def)
    moreover have "mem_view (fst (mem_create rt e (fs_mem s) key res)) = (fs_view s)(key \<mapsto> ?r)"
      using False by (simp add: mem_create_cases Let_def alist_simps)
    ultimately show ?thesis
      using mir on_disk_write [OF fc w] by (simp add: mirrored_def)
  next
    case (Some x)
    with w have w: "write_file codec rt e key ?r (fs_dir s) = (d, Some x)" by simp
    have "mirrored codec rt (s\<lparr>fs_mem := (fs_mem s)\<lparr>ms_seq := ms_seq (fs_mem s) + 1\<rparr>, fs_dir := d\<rparr>)"
      by (rule mirrored_same [OF mir write_file_Some [OF w]]) simp
    with False w show ?thesis
      by (simp add: fs_create_cases Let_def)
  qed
qed

lemma mirrored_delete:
  assumes "mirrored codec rt s"
  shows "mirrored codec rt (fst (fs_delete rt e s key v))"
proof -
  have "on_disk codec rt (AList.delete (file_name key) (fs_dir s)) k =
      (if k = key then None else on_disk codec rt (fs_dir s) k)" for k
    by (simp add: on_disk_def alist_simps)
  moreover have "readable codec (AList.delete (file_name key) (fs_dir s))"
    using assms by (auto simp: mirrored_def readable_def alist_simps)
  ultimately show ?thesis
    using assms by (auto simp: fs_delete_cases mirrored_def alist_simps split: option.splits)
qed

lemma mirrored_exec:
  "faithful_codec codec rt \<Longrightarrow> mirrored codec rt s \<Longrightarrow> \<not> stale (snd (fs_exec codec rt s c)) \<Longrightarrow>
   mirrored codec rt (fst (fs_exec codec rt s c))"
  by (cases c) (simp_all add: fs_ops_def mirrored_create mirrored_update mirrored_delete)

lemma fs_run_mirrored:
  assumes "faithful_codec codec rt" "fs_inv s" "mirrored codec rt s"
    and "fs_run codec rt s cs = (s', rs)" "\<not> list_ex stale rs"
  shows "fs_inv s' \<and> mirrored codec rt s'"
  using assms
proof (induction cs arbitrary: s rs)
  case Nil
  then show ?case by simp
next
  case (Cons c cs)
  then show ?case
    using fs_inv_exec [of s codec rt c] mirrored_exec [of codec rt s c]
    by (auto split: prod.splits)
qed

section \<open>Properties\<close>

text \<open>
  C1. Recovery: open a file store on a directory, run any sequence of creates, updates and deletes,
  with whatever the operating system refuses on the way, in which no update is refused as stale. Then
  opening the resulting directory again succeeds and gives every key the resource it had, up to its
  status, resource version and creation timestamp, and no other key.
\<close>

theorem filestore_recovers:
  assumes "faithful_codec codec rt" "wf_map dir" "FileStore codec rt e0 (Inr (Some dir)) = Inr s0"
    and "fs_run codec rt s0 cs = (s, rs)" "\<not> list_ex stale rs"
  shows "\<exists>s'. FileStore codec rt e (Inr (Some (fs_dir s))) = Inr s' \<and>
    (\<forall>k. map_option (persistent rt k) (fs_view s' k) = map_option (persistent rt k) (fs_view s k))"
proof -
  have "fs_inv s0 \<and> mirrored codec rt s0"
    using load_dir [OF assms(2) FileStore_readable [OF assms(3,2)], of rt e0] assms(3) by simp
  then have s: "fs_inv s" "mirrored codec rt s"
    using fs_run_mirrored [OF assms(1) _ _ assms(4,5)] by blast+
  then obtain s' where "FileStore codec rt e (Inr (Some (fs_dir s))) = Inr s'" "fs_dir s' = fs_dir s" "mirrored codec rt s'"
    using load_dir [of "fs_dir s" codec rt e] by (auto simp: fs_inv_def mirrored_def)
  with s(2) show ?thesis by (auto simp: mirrored_def)
qed

definition demo_rt :: "(string \<times> string) resource_type" where
  "demo_rt = \<lparr>rt_GroupResource = ''apps'', rt_Resource = ''apps'', rt_GVK = Some (''v1'', ''App''),
     rt_ClearStatus = (\<lambda>(spec, status). (spec, [])), rt_GoType = ''App''\<rparr>"

definition demo_cmds :: "(string \<times> string) store_cmd list" where
  "demo_cmds =
     [CreateCmd demo_env ''a'' (new_resource ''a'' (''spec'', ''status'')),
      UpdateCmd demo_env ''a'' (\<lambda>r. Inr (r\<lparr>body := (''spec2'', ''running'')\<rparr>)),
      CreateCmd demo_env ''b'' (new_resource ''b'' (''spec'', ''status'')),
      DeleteCmd demo_env ''b'' (\<lambda>r. None)]"

lemma demo_faithful: "faithful_codec demo_codec demo_rt"
  by (auto simp: faithful_codec_def demo_codec_def demo_rt_def)

lemma demo_open_empty: "FileStore demo_codec demo_rt demo_env (Inr (Some [])) = Inr demo_store"
  by (simp add: FileStore_def load_from_files_def demo_store_def)

lemmas demo_defs = demo_op_defs demo_rt_def demo_cmds_def

lemma demo_run_results: "\<not> list_ex stale (snd (fs_run demo_codec demo_rt demo_store demo_cmds))"
  by (simp add: demo_defs)

lemma demo_run_view:
  "map_option (persistent demo_rt ''a'') (fs_view (fst (fs_run demo_codec demo_rt demo_store demo_cmds)) ''a'') =
     Some \<lparr>tm_APIVersion = ''v1'', tm_Kind = ''App'', md = empty_meta\<lparr>om_Name := ''a''\<rparr>, body = (''spec2'', [])\<rparr>"
  by (simp add: demo_defs persistent_def)

theorem filestore_recovers_witness:
  "\<exists>s'. FileStore demo_codec demo_rt demo_env (Inr (Some (fs_dir (fst (fs_run demo_codec demo_rt demo_store demo_cmds))))) = Inr s' \<and>
     map_option (persistent demo_rt ''a'') (fs_view s' ''a'') =
       Some \<lparr>tm_APIVersion = ''v1'', tm_Kind = ''App'', md = empty_meta\<lparr>om_Name := ''a''\<rparr>, body = (''spec2'', [])\<rparr>"
  using filestore_recovers [OF demo_faithful wf_map_Nil demo_open_empty prod.collapse [symmetric] demo_run_results,
      where e = demo_env] demo_run_view
  by metis

text \<open>
  C2. Crash safety: whatever state of the directory a crash during \<open>writeFile\<close> leaves behind, half-written
  temporary file included, opening it again succeeds and gives the content before the write or the
  content after it, never a mixture and never a damaged resource.
\<close>

theorem filestore_crash_safe:
  assumes "faithful_codec codec rt" "fs_inv s" "mirrored codec rt s"
    and "write_file_states codec rt e key obj (fs_dir s) = (ds, err)" "d \<in> set ds"
  shows "\<exists>s'. FileStore codec rt e' (Inr (Some d)) = Inr s' \<and>
    ((\<forall>k. map_option (persistent rt k) (fs_view s' k) = map_option (persistent rt k) (fs_view s k)) \<or>
     (\<forall>k. map_option (persistent rt k) (fs_view s' k) =
        (if k = key then Some (persistent rt key obj) else map_option (persistent rt k) (fs_view s k))))"
proof -
  let ?o = "without_status_and_resource_version rt obj"
  have wf: "wf_map d" using write_file_states_wf [OF assms(4) _ assms(5)] assms(2) by (simp add: fs_inv_def)
  have each: "map_of d (file_name k) = map_of (fs_dir s) (file_name k) \<or>
      k = key \<and> (\<exists>c. map_of d (file_name k) = Some c \<and> decode codec c = Inr ?o)" for k
    using write_file_states_yaml [OF assms(4,5), of k] assms(1) by (auto simp: faithful_codec_def)
  have "readable codec d"
    unfolding readable_def using each assms(3) by (metis mirrored_def option.inject readable_def)
  with wf obtain s' where s': "FileStore codec rt e' (Inr (Some d)) = Inr s'" "fs_dir s' = d" "mirrored codec rt s'"
    using load_dir by blast
  have same: "on_disk codec rt d k = on_disk codec rt (fs_dir s) k" if "map_of d (file_name k) = map_of (fs_dir s) (file_name k)" for k
    using that by (simp add: on_disk_def)
  show ?thesis
  proof (cases "map_of d (file_name key) = map_of (fs_dir s) (file_name key)")
    case True
    then have "on_disk codec rt d k = on_disk codec rt (fs_dir s) k" for k
      using each [of k] same [of k] by auto
    with s' assms(3) show ?thesis by (auto simp: mirrored_def)
  next
    case False
    then have "on_disk codec rt d key = Some (persistent rt key obj)"
      using each [of key] persistent_stripped [OF assms(1), of key obj] by (auto simp: on_disk_def)
    moreover have "on_disk codec rt d k = on_disk codec rt (fs_dir s) k" if "k \<noteq> key" for k
      using that each [of k] same [of k] by auto
    ultimately show ?thesis using s' assms(3) by (auto simp: mirrored_def)
  qed
qed

theorem filestore_crash_safe_witness:
  "\<exists>s'. FileStore demo_codec demo_rt demo_env (Inr (Some [(tmp_name demo_env, None)])) = Inr s' \<and>
    (fs_view s' ''a'' = None \<or> map_option (persistent demo_rt ''a'') (fs_view s' ''a'') =
       Some (persistent demo_rt ''a'' (new_resource ''a'' (''spec'', ''status''))))"
proof -
  have "fs_inv demo_store" "mirrored demo_codec demo_rt demo_store"
    using load_dir [of "[]" demo_codec demo_rt demo_env] demo_open_empty by (auto simp: readable_def)
  moreover obtain ds err where w: "write_file_states demo_codec demo_rt demo_env ''a''
      (new_resource ''a'' (''spec'', ''status'')) (fs_dir demo_store) = (ds, err)" by fastforce
  moreover have "[(tmp_name demo_env, None)] \<in> set ds"
    using w by (auto simp: demo_defs)
  moreover have "fs_view demo_store k = None" for k by (simp add: demo_store_def InMemory_def)
  ultimately obtain s' where
    s': "FileStore demo_codec demo_rt demo_env (Inr (Some [(tmp_name demo_env, None)])) = Inr s'" and
    v: "(\<forall>k. map_option (persistent demo_rt k) (fs_view s' k) = None) \<or>
     (\<forall>k. map_option (persistent demo_rt k) (fs_view s' k) =
        (if k = ''a'' then Some (persistent demo_rt ''a'' (new_resource ''a'' (''spec'', ''status''))) else None))"
    using filestore_crash_safe [OF demo_faithful, of demo_store demo_env "''a''"
        "new_resource ''a'' (''spec'', ''status'')" ds err "[(tmp_name demo_env, None)]" demo_env] by auto
  from v have "fs_view s' ''a'' = None \<or> map_option (persistent demo_rt ''a'') (fs_view s' ''a'') =
       Some (persistent demo_rt ''a'' (new_resource ''a'' (''spec'', ''status'')))" by (metis None_eq_map_option_iff)
  with s' show ?thesis by blast
qed

text \<open>
  C3. The file store refuses a stale update too late: the update is answered with a conflict and readers
  keep seeing the old resource, but the refused resource has already replaced the old one on disk,
  so that the next start of the program serves it.
\<close>

theorem stale_update_reaches_disk:
  assumes "faithful_codec codec rt" "fs_inv s" "mirrored codec rt s" "fs_view s key = Some old"
    and "f old = Inr new" "version new \<noteq> version old"
    and "write_file codec rt e key new (fs_dir s) = (d, None)"
    and "fs_update codec rt e s key f = (s', res)"
  shows "stale res \<and> fs_view s' = fs_view s \<and>
    (\<exists>s''. FileStore codec rt e' (Inr (Some (fs_dir s'))) = Inr s'' \<and>
       map_option (persistent rt key) (fs_view s'' key) = Some (persistent rt key new))"
proof -
  have "old \<noteq> new" using assms(6) by auto
  with assms(4-8) have res: "stale res" "fs_mem s' = fs_mem s" "fs_dir s' = d"
    by (auto simp: fs_update_cases)
  have "wf_map d" using write_file_wf [of "fs_dir s" codec rt e key new] assms(2,7) by (simp add: fs_inv_def)
  moreover have "readable codec d" using on_disk_write(2) [OF assms(1,7)] assms(3) by (simp add: mirrored_def)
  ultimately obtain s'' where "FileStore codec rt e' (Inr (Some d)) = Inr s''" "fs_dir s'' = d" "mirrored codec rt s''"
    using load_dir by blast
  with res on_disk_write(1) [OF assms(1,7), of key] show ?thesis
    by (auto simp: mirrored_def)
qed

definition demo_stale :: "(string \<times> string) resource \<Rightarrow> go_error + (string \<times> string) resource" where
  "demo_stale r = Inr (r\<lparr>body := (''refused'', []), md := (md r)\<lparr>om_ResourceVersion := show_nat 0\<rparr>\<rparr>)"

definition demo_full :: "(string \<times> string, (string \<times> string) resource) filestore" where
  "demo_full = fst (fs_run demo_codec demo_rt demo_store [CreateCmd demo_env ''a'' (new_resource ''a'' (''spec'', ''status''))])"

theorem stale_update_reaches_disk_witness:
  "\<exists>s' res s''. fs_update demo_codec demo_rt demo_env demo_full ''a'' demo_stale = (s', res) \<and> stale res \<and>
     map_option body (fs_view s' ''a'') = Some (''spec'', ''status'') \<and>
     FileStore demo_codec demo_rt demo_env (Inr (Some (fs_dir s'))) = Inr s'' \<and>
     map_option (\<lambda>r. body (persistent demo_rt ''a'' r)) (fs_view s'' ''a'') = Some (''refused'', [])"
proof -
  obtain s' res where u: "fs_update demo_codec demo_rt demo_env demo_full ''a'' demo_stale = (s', res)" by fastforce
  have "fs_inv demo_store" "mirrored demo_codec demo_rt demo_store"
    using load_dir [of "[]" demo_codec demo_rt demo_env] demo_open_empty by (auto simp: readable_def)
  moreover have "fs_run demo_codec demo_rt demo_store [CreateCmd demo_env ''a'' (new_resource ''a'' (''spec'', ''status''))] =
      (demo_full, snd (fs_run demo_codec demo_rt demo_store [CreateCmd demo_env ''a'' (new_resource ''a'' (''spec'', ''status''))]))"
    unfolding demo_full_def by simp
  moreover have "\<not> list_ex stale (snd (fs_run demo_codec demo_rt demo_store [CreateCmd demo_env ''a'' (new_resource ''a'' (''spec'', ''status''))]))"
    by (simp add: demo_defs)
  ultimately have full: "fs_inv demo_full" "mirrored demo_codec demo_rt demo_full"
    using fs_run_mirrored [OF demo_faithful] by blast+
  obtain old where old: "fs_view demo_full ''a'' = Some old" "body old = (''spec'', ''status'')" "version old = show_nat 1"
    by (simp add: demo_full_def demo_defs)
  obtain new where new: "demo_stale old = Inr new" "version new \<noteq> version old" "body new = (''refused'', [])"
    using old(3) show_nat_eq_iff [of 0 1] unfolding demo_stale_def by simp
  obtain d where "write_file demo_codec demo_rt demo_env ''a'' new (fs_dir demo_full) = (d, None)"
    by (simp add: write_file_def write_file_states_def demo_codec_def demo_env_def Let_def)
  from stale_update_reaches_disk [OF demo_faithful full old(1) new(1,2) this u, of demo_env]
  obtain s'' r where "stale res" "fs_view s' ''a'' = Some old"
    "FileStore demo_codec demo_rt demo_env (Inr (Some (fs_dir s'))) = Inr s''" "fs_view s'' ''a'' = Some r"
    "persistent demo_rt ''a'' r = persistent demo_rt ''a'' new" using old(1) by auto
  moreover have "body (persistent demo_rt ''a'' new) = (''refused'', [])"
    using new(3) by (simp add: body_persistent demo_rt_def)
  ultimately show ?thesis using u old(2) by auto
qed

section \<open>The file store and the in-memory store\<close>

fun mem_exec :: "'a resource_type \<Rightarrow> 'a memstore \<Rightarrow> 'a store_cmd \<Rightarrow> 'a memstore \<times> (go_error + 'a resource)" where
  "mem_exec rt s (CreateCmd e k r) = op_create (mem_ops rt) e s k r"
| "mem_exec rt s (UpdateCmd e k f) = op_update (mem_ops rt) e s k f"
| "mem_exec rt s (DeleteCmd e k v) = op_delete (mem_ops rt) e s k v"

fun cmd_env :: "'a store_cmd \<Rightarrow> env" where
  "cmd_env (CreateCmd e _ _) = e"
| "cmd_env (UpdateCmd e _ _) = e"
| "cmd_env (DeleteCmd e _ _) = e"

lemma write_file_succeeds:
  "(\<And>io. env_io e io = None) \<Longrightarrow> (\<And>r. \<exists>b. encode codec r = Inr b) \<Longrightarrow> \<exists>d. write_file codec rt e key obj dir = (d, None)"
  by (auto simp: write_file_def write_file_states_def Let_def split: sum.splits) (metis sum.distinct(1))

text \<open>
  C4. Refinement: with a working disk and codec, the file store answers every create, update and
  delete as the in-memory store does, and its memory moves the same way.
\<close>

theorem filestore_refines_memory:
  assumes "\<And>io. env_io (cmd_env c) io = None" "\<And>r. \<exists>b. encode codec r = Inr b"
  shows "(fs_mem (fst (fs_exec codec rt s c)), snd (fs_exec codec rt s c)) = mem_exec rt (fs_mem s) c"
proof (cases c)
  case (CreateCmd e k r)
  with assms have io: "\<And>io. env_io e io = None" by simp
  show ?thesis
    using CreateCmd write_file_succeeds [OF io assms(2), where dir = "fs_dir s" and key = k and rt = rt]
    by (auto simp: fs_ops_def mem_ops_def fs_create_cases mem_create_cases Let_def split: prod.splits option.splits)
       (metis option.distinct(1) prod.inject)+
next
  case (UpdateCmd e k f)
  with assms have io: "\<And>io. env_io e io = None" by simp
  show ?thesis
    using UpdateCmd write_file_succeeds [OF io assms(2), where dir = "fs_dir s" and key = k and rt = rt]
    by (auto simp: fs_ops_def mem_ops_def fs_update_cases mem_update_def mem_update_cb_cases fs_stored_def Let_def
        split: prod.splits option.splits sum.splits) (metis option.distinct(1) prod.inject)+
next
  case (DeleteCmd e k v)
  with assms have io: "\<And>io. env_io e io = None" by simp
  with DeleteCmd show ?thesis
    by (auto simp: fs_ops_def mem_ops_def fs_delete_cases mem_delete_def mem_delete_cb_def Let_def
        split: prod.splits option.splits)
qed

theorem filestore_refines_memory_witness:
  "snd (fs_exec demo_codec demo_rt demo_full (UpdateCmd demo_env ''a'' demo_stale)) =
   snd (mem_exec demo_rt (fs_mem demo_full) (UpdateCmd demo_env ''a'' demo_stale))"
  using filestore_refines_memory [of "UpdateCmd demo_env ''a'' demo_stale" demo_codec demo_rt demo_full]
  by (simp add: demo_env_def demo_codec_def del: fs_exec.simps mem_exec.simps) (metis snd_conv)

end
