(* ===== verification/Refresh.thy ===== *)
theory Refresh
  imports Storage
begin

text \<open>
  The refresher of \<open>pkg/storage/refresh.go\<close>: a store that is brought up to date by a function
  \<open>fn\<close> of its owner whenever somebody uses it, but not by two callers at once and not twice within
  an interval. The two critical sections of the closure \<open>rateLimit\<close> returns are \<open>rl_enter\<close> and
  \<open>rl_leave\<close>; between them \<open>fn\<close> runs, and other callers may enter. The zero time of Go is \<open>None\<close>.
\<close>

record rate_limit =
  rl_refreshing :: bool
  rl_last :: "nat option"

definition rate_limit_init :: rate_limit where
  "rate_limit_init = \<lparr>rl_refreshing = False, rl_last = None\<rparr>"

definition rl_enter :: "nat \<Rightarrow> nat \<Rightarrow> rate_limit \<Rightarrow> rate_limit \<times> bool" where
  "rl_enter interval now s =
     (if rl_refreshing s \<or> (case rl_last s of None \<Rightarrow> False | Some t \<Rightarrow> now < t + interval) then (s, False)
      else (s\<lparr>rl_last := Some now, rl_refreshing := True\<rparr>, True))"

definition rl_leave :: "rate_limit \<Rightarrow> rate_limit" where
  "rl_leave s = s\<lparr>rl_refreshing := False\<rparr>"

section \<open>Concurrent callers\<close>

text \<open>
  A call at some time, or the end of the refresh that runs. A trace gives the times at which
  \<open>fn\<close> was started, and whether it is running.
\<close>

datatype rl_event = Call nat | Done

fun rl_exec :: "nat \<Rightarrow> rate_limit \<times> nat list \<Rightarrow> rl_event \<Rightarrow> rate_limit \<times> nat list" where
  "rl_exec interval (s, starts) (Call now) =
     (case rl_enter interval now s of (s', started) \<Rightarrow> (s', if started then starts @ [now] else starts))"
| "rl_exec interval (s, starts) Done = (if rl_refreshing s then (rl_leave s, starts) else (s, starts))"

definition rl_run :: "nat \<Rightarrow> rl_event list \<Rightarrow> rate_limit \<times> nat list" where
  "rl_run interval es = foldl (rl_exec interval) (rate_limit_init, []) es"

fun call_times :: "rl_event list \<Rightarrow> nat list" where
  "call_times [] = []"
| "call_times (Call t # es) = t # call_times es"
| "call_times (Done # es) = call_times es"

lemma call_times_append [simp]: "call_times (es @ es') = call_times es @ call_times es'"
  by (induction es rule: call_times.induct) auto

lemma rl_run_snoc: "rl_run interval (es @ [e]) = rl_exec interval (rl_run interval es) e"
  by (simp add: rl_run_def)

text \<open>The last start is the recorded one, starts are spaced by the interval and are call times.\<close>

lemma rl_run_inv:
  assumes "rl_run interval es = (s, starts)"
  shows "rl_last s = (if starts = [] then None else Some (last starts)) \<and>
    sorted_wrt (\<lambda>a b. a + interval \<le> b) starts \<and> set starts \<subseteq> set (call_times es)"
  using assms
proof (induction es arbitrary: s starts rule: rev_induct)
  case Nil
  then show ?case by (auto simp: rl_run_def rate_limit_init_def)
next
  case (snoc e es)
  obtain s1 st1 where r: "rl_run interval es = (s1, st1)" by fastforce
  note ih = snoc.IH [OF r]
  show ?case
  proof (cases e)
    case Done
    with snoc.prems r ih show ?thesis by (auto simp: rl_run_snoc rl_leave_def split: if_splits)
  next
    case (Call now)
    show ?thesis
    proof (cases "snd (rl_enter interval now s1)")
      case False
      with Call snoc.prems r ih show ?thesis by (auto simp: rl_run_snoc rl_enter_def split: if_splits option.splits)
    next
      case True
      have last: "st1 \<noteq> [] \<Longrightarrow> last st1 + interval \<le> now"
        using True ih by (auto simp: rl_enter_def split: if_splits)
      have "t + interval \<le> now" if t: "t \<in> set st1" for t
      proof -
        have ne: "st1 \<noteq> []" using t by auto
        then have split: "st1 = butlast st1 @ [last st1]" by simp
        with ih have "sorted_wrt (\<lambda>a b. a + interval \<le> b) (butlast st1 @ [last st1])" by metis
        moreover have "t \<in> set (butlast st1) \<or> t = last st1" using t split by (metis insert_iff set_append Un_iff list.set(1,2) empty_iff)
        ultimately have "t \<le> last st1"
          by (auto simp: sorted_wrt_append dest: add_leD1)
        with last [OF ne] show ?thesis by simp
      qed
      with True Call snoc.prems r ih show ?thesis
        by (auto simp: rl_run_snoc rl_enter_def sorted_wrt_append split: if_splits)
    qed
  qed
qed

section \<open>The refresher\<close>

record 's refresher =
  rf_store :: 's
  rf_limit :: rate_limit

definition rf_refresh :: "('s \<Rightarrow> 's) \<Rightarrow> nat \<Rightarrow> nat \<Rightarrow> 's refresher \<Rightarrow> 's refresher" where
  "rf_refresh fn interval now r =
     (case rl_enter interval now (rf_limit r) of
        (l, True) \<Rightarrow> \<lparr>rf_store = fn (rf_store r), rf_limit = rl_leave l\<rparr>
      | (l, False) \<Rightarrow> r\<lparr>rf_limit := l\<rparr>)"

definition RefreshPeriodically :: "'s \<Rightarrow> 's refresher" where
  "RefreshPeriodically store = \<lparr>rf_store = store, rf_limit = rate_limit_init\<rparr>"

definition rf_get ::
  "('s, 'a) store_ops \<Rightarrow> ('s \<Rightarrow> 's) \<Rightarrow> nat \<Rightarrow> nat \<Rightarrow> 's refresher \<Rightarrow> string \<Rightarrow> 's refresher \<times> (go_error + 'a resource)" where
  "rf_get ops fn interval now r key =
     (case op_get ops (rf_store r) key of
        Inl err \<Rightarrow>
          if is_not_found err then
            (let r' = rf_refresh fn interval now r in (r', op_get ops (rf_store r') key))
          else (r, Inl err)
      | Inr res \<Rightarrow> (r, Inr res))"

text \<open>
  \<open>List\<close> starts a refresh it does not wait for: \<open>refreshed\<close> says whether it was over when the
  list was taken.
\<close>

definition rf_list ::
  "('s, 'a) store_ops \<Rightarrow> ('s \<Rightarrow> 's) \<Rightarrow> nat \<Rightarrow> nat \<Rightarrow> bool \<Rightarrow> 's refresher \<Rightarrow> 's refresher \<times> 'a list_result" where
  "rf_list ops fn interval now refreshed r =
     (let r' = rf_refresh fn interval now r in (r', op_list ops (rf_store (if refreshed then r' else r))))"

text \<open>
  The watcher's loop forwards what the store's watcher delivers; when nothing arrives for an
  interval it refreshes and waits again.
\<close>

datatype 'e watch_input = Arrives 'e | IntervalOver nat | DelegateClosed

fun rf_watch_loop ::
  "('s \<Rightarrow> 's) \<Rightarrow> nat \<Rightarrow> 's refresher \<Rightarrow> 'e watch_input list \<Rightarrow> 's refresher \<times> 'e list \<times> bool" where
  "rf_watch_loop fn interval r [] = (r, [], True)"
| "rf_watch_loop fn interval r (Arrives evt # is) =
     (case rf_watch_loop fn interval r is of (r', out, running) \<Rightarrow> (r', evt # out, running))"
| "rf_watch_loop fn interval r (IntervalOver now # is) = rf_watch_loop fn interval (rf_refresh fn interval now r) is"
| "rf_watch_loop fn interval r (DelegateClosed # is) = (r, [], False)"

text \<open>
  The watcher has a channel once \<open>ResultChan\<close> was called, which may happen once. \<open>Stop\<close> stops the
  store's watcher and then receives from the channel until it is closed: given what the loop still
  sees, the state it ends in, or \<open>None\<close> when it goes on waiting. Receiving from the nil channel of a
  watcher whose \<open>ResultChan\<close> was never called waits forever.
\<close>

record refreshing_watcher =
  rw_delegate :: nat
  rw_ch :: bool

definition refreshingWatcher :: "nat \<Rightarrow> refreshing_watcher" where
  "refreshingWatcher delegate = \<lparr>rw_delegate = delegate, rw_ch = False\<rparr>"

definition rf_watch ::
  "('s, 'a) store_ops \<Rightarrow> 's refresher \<Rightarrow> string \<Rightarrow> 's refresher \<times> (go_error + refreshing_watcher)" where
  "rf_watch ops r resourceVersion =
     (case op_watch ops (rf_store r) resourceVersion of
        (s, Inl err) \<Rightarrow> (r\<lparr>rf_store := s\<rparr>, Inl err)
      | (s, Inr w) \<Rightarrow> (r\<lparr>rf_store := s\<rparr>, Inr (refreshingWatcher w)))"

definition rf_ResultChan :: "refreshing_watcher \<Rightarrow> refreshing_watcher go" where
  "rf_ResultChan w =
     (if rw_ch w then Panic ''ResultChan() cannot be called more than once'' else Ret (w\<lparr>rw_ch := True\<rparr>))"

definition rf_stop ::
  "('s \<Rightarrow> 's) \<Rightarrow> nat \<Rightarrow> 's refresher \<Rightarrow> refreshing_watcher \<Rightarrow> 'e watch_input list \<Rightarrow> 's refresher option" where
  "rf_stop fn interval r w is =
     (if rw_ch w then
        (case rf_watch_loop fn interval r is of (r', out, running) \<Rightarrow> if running then None else Some r')
      else None)"

text \<open>The loop forwards, in order, what arrives before the store's watcher is closed, and ends then.\<close>

lemma rf_watch_loop_out:
  "snd (rf_watch_loop fn interval r is) =
     (List.map_filter (\<lambda>i. case i of Arrives evt \<Rightarrow> Some evt | _ \<Rightarrow> None) (takeWhile (\<lambda>i. i \<noteq> DelegateClosed) is),
      DelegateClosed \<notin> set is)"
  by (induction fn interval r "is" rule: rf_watch_loop.induct)
     (auto simp: List.map_filter_def split: prod.splits)

text \<open>
  \<open>Stop\<close> returns exactly when the channel was asked for and the store's watcher closes; a watcher
  that was stopped before anybody asked for its channel is never done stopping.
\<close>

lemma rf_stop_returns: "rf_stop fn interval r w is = None \<longleftrightarrow> \<not> rw_ch w \<or> DelegateClosed \<notin> set is"
  using rf_watch_loop_out [of fn interval r "is"] by (auto simp: rf_stop_def split: prod.splits)

lemma rf_unread_watch_never_stops:
  assumes "rf_watch ops r rv = (r', Inr w)"
  shows "rf_stop fn interval r'' w is = None"
  using assms by (auto simp: rf_watch_def refreshingWatcher_def rf_stop_def split: prod.splits sum.splits)

lemma rf_ResultChan_once: "rf_ResultChan w = Ret w' \<Longrightarrow> \<exists>m. rf_ResultChan w' = Panic m"
  by (auto simp: rf_ResultChan_def split: if_splits)

lemma rf_refresh_limit: "rl_refreshing (rf_limit r) = False \<Longrightarrow> rl_refreshing (rf_limit (rf_refresh fn interval now r)) = False"
  by (auto simp: rf_refresh_def rl_enter_def rl_leave_def split: prod.splits bool.splits if_splits)

text \<open>A client of any store that meets the contract, whatever the refresh does within it.\<close>

context storage begin

lemma rf_get_hit: "inv (rf_store r) \<Longrightarrow> view (rf_store r) key = Some res \<Longrightarrow> rf_get ops fn interval now r key = (r, Inr res)"
  by (simp add: rf_get_def get_law)

lemma rf_get_miss:
  assumes "inv (rf_store r)" "inv (fn (rf_store r))" "view (rf_store r) key = None"
    and "\<not> rl_refreshing (rf_limit r)" "\<forall>t. rl_last (rf_limit r) = Some t \<longrightarrow> t + interval \<le> now"
  shows "rf_store (fst (rf_get ops fn interval now r key)) = fn (rf_store r)"
    "snd (rf_get ops fn interval now r key) = (case view (fn (rf_store r)) key of
       None \<Rightarrow> Inl (NotFound (rt_GroupResource rt) key) | Some res \<Rightarrow> Inr res)"
  using assms by (auto simp: rf_get_def get_law rf_refresh_def rl_enter_def Let_def split: option.splits)

end

section \<open>Properties\<close>

text \<open>
  C32. Rate limit: however many callers ask for a refresh concurrently, two refreshes never start less
  than the interval apart, every start is some caller's call, and a call that finds no refresh
  running and the last start an interval ago does start one.
\<close>

theorem refresh_rate_limited:
  "sorted_wrt (\<lambda>a b. a + interval \<le> b) (snd (rl_run interval es)) \<and>
   set (snd (rl_run interval es)) \<subseteq> set (call_times es) \<and>
   snd (rl_enter interval now (fst (rl_run interval es))) =
     (\<not> rl_refreshing (fst (rl_run interval es)) \<and>
      list_all (\<lambda>t. t + interval \<le> now) (take 1 (rev (snd (rl_run interval es)))))"
proof -
  obtain s starts where r: "rl_run interval es = (s, starts)" by fastforce
  from rl_run_inv [OF r] have l: "rl_last s = (if starts = [] then None else Some (last starts))" by simp
  have "take 1 (rev starts) = (if starts = [] then [] else [last starts])"
    by (cases starts rule: rev_cases) auto
  with r rl_run_inv [OF r] l show ?thesis
    by (auto simp: rl_enter_def split: if_splits)
qed

text \<open>
  Read-through: a lookup through the refresher of a key the in-memory store does not have runs the
  owner's refresh once, when none ran within the interval, and answers from the refreshed store;
  of a key it has, it answers at once and refreshes nothing.
\<close>

theorem refresher_reads_through:
  assumes "mem_inv (rf_store r)" "mem_inv (fn (rf_store r))"
    and "\<not> rl_refreshing (rf_limit r)" "\<forall>t. rl_last (rf_limit r) = Some t \<longrightarrow> t + interval \<le> now"
  shows "rf_get (mem_ops rt) fn interval now r key =
    (case mem_view (rf_store r) key of
       Some res \<Rightarrow> (r, Inr res)
     | None \<Rightarrow>
         (\<lparr>rf_store = fn (rf_store r), rf_limit = \<lparr>rl_refreshing = False, rl_last = Some now\<rparr>\<rparr>,
          case mem_view (fn (rf_store r)) key of
            None \<Rightarrow> Inl (NotFound (rt_GroupResource rt) key) | Some res \<Rightarrow> Inr res))"
proof (cases "mem_view (rf_store r) key")
  case None
  have "rf_limit (fst (rf_get (mem_ops rt) fn interval now r key)) = \<lparr>rl_refreshing = False, rl_last = Some now\<rparr>"
    using assms None by (auto simp: rf_get_def mem.get_law rf_refresh_def rl_enter_def rl_leave_def Let_def split: option.splits)
  with mem.rf_get_miss [where fn = fn, OF assms(1,2) None assms(3,4), where rt = rt] None show ?thesis
    by (cases "rf_get (mem_ops rt) fn interval now r key") (auto intro: refresher.equality)
next
  case (Some res)
  with mem.rf_get_hit [OF assms(1) Some] show ?thesis by simp
qed

theorem refresher_reads_through_witness:
  "\<forall>(rt :: 'a resource_type) e res.
     snd (rf_get (mem_ops rt) (\<lambda>s. fst (mem_create rt e s ''wlan0'' res)) 10 5 (RefreshPeriodically InMemory) ''wlan0'') =
     snd (mem_create rt e InMemory ''wlan0'' res)"
proof (intro allI)
  fix rt :: "'a resource_type" and e res
  let ?fn = "\<lambda>s. fst (mem_create rt e s ''wlan0'' res)"
  have inv: "mem_inv (rf_store (RefreshPeriodically InMemory))" "mem_inv (?fn (rf_store (RefreshPeriodically InMemory)))"
    by (simp_all add: RefreshPeriodically_def mem_inv_create)
  obtain r' where r': "mem_create rt e InMemory ''wlan0'' res = (fst (mem_create rt e InMemory ''wlan0'' res), Inr r')"
    by (simp add: mem_create_cases InMemory_def Let_def)
  have "mem_view (?fn InMemory) ''wlan0'' = Some r'"
    using mem_create_Inr(2) [OF r'] by (simp add: alist_simps)
  moreover have "snd (mem_create rt e InMemory ''wlan0'' res) = Inr r'" using r' by (metis snd_conv)
  ultimately show "snd (rf_get (mem_ops rt) ?fn 10 5 (RefreshPeriodically InMemory) ''wlan0'') =
     snd (mem_create rt e InMemory ''wlan0'' res)"
    using refresher_reads_through [where fn = ?fn, OF inv, of 10 5 rt "''wlan0''"]
    by (simp add: RefreshPeriodically_def rate_limit_init_def)
qed

end
