(* ===== verification/Rest.thy ===== *)
theory Rest
  imports DeviceApi Names Demo
begin

text \<open>
  The API handlers of \<open>pkg/rest\<close>: the generic one (\<open>rest.go\<close>), over any store that meets the
  storage contract, and the kinds that restrict or extend it. Admission callbacks of the API server
  (\<open>createValidation\<close>, \<open>updateValidation\<close>, \<open>UpdatedObject\<close>) and bcrypt are parameters. A callback
  that changes the object it validates returns the changed object.
\<close>

section \<open>The generic handler\<close>

definition rest_list :: "('s, 'a) store_ops \<Rightarrow> 's \<Rightarrow> 'a list_result" where
  "rest_list ops s = op_list ops s"

definition rest_watch :: "('s, 'a) store_ops \<Rightarrow> 's \<Rightarrow> string \<Rightarrow> 's \<times> (go_error + nat)" where
  "rest_watch ops s resourceVersion = op_watch ops s resourceVersion"

definition rest_get :: "('s, 'a) store_ops \<Rightarrow> 's \<Rightarrow> string \<Rightarrow> go_error + 'a resource" where
  "rest_get ops s name = op_get ops s name"

definition named :: "('a resource \<Rightarrow> go_error + string) \<Rightarrow> 'a resource \<Rightarrow> go_error + 'a resource" where
  "named marshal obj =
     (if om_GenerateName (md obj) \<noteq> [] then
        (case GenerateObjectName marshal obj (om_GenerateName (md obj)) of
           Inl err \<Rightarrow> Inl (Wrap ''generate object name: '' err)
         | Inr name \<Rightarrow> Inr (obj\<lparr>md := (md obj)\<lparr>om_Name := name\<rparr>\<rparr>))
      else Inr obj)"

definition rest_create ::
  "('s, 'a) store_ops \<Rightarrow> ('a resource \<Rightarrow> go_error + string) \<Rightarrow> ('a resource \<Rightarrow> go_error option)
   \<Rightarrow> env \<Rightarrow> 's \<Rightarrow> 'a resource \<Rightarrow> 's \<times> (go_error + 'a resource)" where
  "rest_create ops marshal createValidation e s obj =
     (case createValidation obj of
        Some err \<Rightarrow> (s, Inl err)
      | None \<Rightarrow>
          (case named marshal obj of
             Inl err \<Rightarrow> (s, Inl err)
           | Inr obj' \<Rightarrow>
               if rname obj' = [] then (s, Inl (Errorf ''no name specified''))
               else op_create ops e s (rname obj') obj'))"

definition rest_update ::
  "('s, 'a) store_ops \<Rightarrow> ('a resource \<Rightarrow> go_error + 'a resource)
   \<Rightarrow> ('a resource \<Rightarrow> 'a resource \<Rightarrow> go_error + 'a resource) option
   \<Rightarrow> env \<Rightarrow> 's \<Rightarrow> string \<Rightarrow> 's \<times> (go_error + 'a resource)" where
  "rest_update ops UpdatedObject updateValidation e s key =
     op_update ops e s key (\<lambda>obj.
       case UpdatedObject obj of
         Inl err \<Rightarrow> Inl (Wrap ''get updated object: '' err)
       | Inr updated \<Rightarrow>
           (case updateValidation of
              None \<Rightarrow> Inr updated
            | Some validate \<Rightarrow> validate updated obj))"

definition rest_delete ::
  "('s, 'a) store_ops \<Rightarrow> ('a resource \<Rightarrow> go_error option) \<Rightarrow> env \<Rightarrow> 's \<Rightarrow> string \<Rightarrow> 's \<times> (go_error + 'a resource)" where
  "rest_delete ops deleteValidation e s key = op_delete ops e s key deleteValidation"

lemma named_Inr:
  "named marshal obj = Inr obj' \<Longrightarrow> body obj' = body obj \<and>
     (om_GenerateName (md obj) = [] \<longrightarrow> obj' = obj) \<and>
     (om_GenerateName (md obj) \<noteq> [] \<longrightarrow> GenerateObjectName marshal obj (om_GenerateName (md obj)) = Inr (rname obj'))"
  by (auto simp: named_def split: if_splits sum.splits)

text \<open>What the handlers do on any store with the contract.\<close>

context storage begin

lemma rest_create_inv: "inv s \<Longrightarrow> inv (fst (rest_create ops m v e s obj))"
  by (auto simp: rest_create_def create_inv split: option.splits sum.splits)

lemma rest_update_inv: "inv s \<Longrightarrow> inv (fst (rest_update ops u v e s k))"
  by (simp add: rest_update_def update_inv)

lemma rest_delete_inv: "inv s \<Longrightarrow> inv (fst (rest_delete ops v e s k))"
  by (simp add: rest_delete_def delete_inv)

lemma rest_create_ok:
  assumes "inv s" "rest_create ops m v e s obj = (s', Inr r)"
  shows "rest_get ops s' (rname r) = Inr r" "view s (rname r) = None" "view s' = (view s)(rname r \<mapsto> r)"
    "body r = body obj" "rname r \<noteq> []" "v obj = None" "named m obj = Inr obj' \<Longrightarrow> rname r = rname obj'"
proof -
  from assms(2) obtain o' where o': "v obj = None" "named m obj = Inr o'" "rname o' \<noteq> []"
    "op_create ops e s (rname o') o' = (s', Inr r)"
    by (auto simp: rest_create_def split: option.splits sum.splits if_splits)
  note ok = create_ok [OF assms(1) o'(4)]
  show "rest_get ops s' (rname r) = Inr r"
    using get_after_create [OF assms(1) o'(4)] ok by (simp add: rest_get_def)
  show "view s (rname r) = None" "view s' = (view s)(rname r \<mapsto> r)" "body r = body obj" "rname r \<noteq> []" "v obj = None"
    "named m obj = Inr obj' \<Longrightarrow> rname r = rname obj'"
    using ok o' named_Inr [OF o'(2)] by simp_all
qed

lemma rest_create_err:
  "inv s \<Longrightarrow> rest_create ops m v e s obj = (s', Inl err) \<Longrightarrow> view s' = view s"
  by (auto simp: rest_create_def dest: create_fail split: option.splits sum.splits if_splits)

lemma rest_update_ok:
  assumes "inv s" "rest_update ops u v e s k = (s', Inr r)"
  shows "\<exists>old. view s k = Some old \<and> version r \<noteq> version old \<and> view s' = (view s)(k \<mapsto> r)"
  using update_ok [OF assms(1), of e k] assms(2) unfolding rest_update_def by blast

lemma update_dom: "inv s \<Longrightarrow> dom (view (fst (op_update ops e s k f))) = dom (view s)"
proof -
  assume inv: "inv s"
  obtain s' res where r: "op_update ops e s k f = (s', res)" by fastforce
  show ?thesis
  proof (cases res)
    case (Inl err)
    with r update_fail [OF inv] show ?thesis by simp
  next
    case (Inr x)
    with update_ok [OF inv, of e k f s' x] r obtain old where "view s k = Some old" "view s' = (view s)(k \<mapsto> x)"
      by blast
    with r show ?thesis by auto
  qed
qed

lemma rest_update_dom: "inv s \<Longrightarrow> dom (view (fst (rest_update ops u v e s k))) = dom (view s)"
  by (simp add: rest_update_def update_dom)

end

section \<open>Read-only kinds\<close>

text \<open>
  Certificates, discovered devices and scanned wifi networks are written by the program only, and
  network interfaces are not created through the API.
\<close>

datatype api_verb = VerbCreate | VerbUpdate | VerbDelete

definition certificate_write :: "api_verb \<Rightarrow> go_error" where
  "certificate_write v = Errorf (case v of VerbCreate \<Rightarrow> ''cannot create certificate''
     | VerbUpdate \<Rightarrow> ''cannot update certificate'' | VerbDelete \<Rightarrow> ''cannot delete certificate'')"

definition devicediscovery_write :: "api_verb \<Rightarrow> go_error" where
  "devicediscovery_write v = Errorf (case v of VerbCreate \<Rightarrow> ''cannot create device discovery result''
     | VerbUpdate \<Rightarrow> ''cannot update device discovery result'' | VerbDelete \<Rightarrow> ''cannot delete device discovery result'')"

definition wifinetwork_write :: "api_verb \<Rightarrow> go_error" where
  "wifinetwork_write v = Errorf (case v of VerbCreate \<Rightarrow> ''cannot create wifi network scan result''
     | VerbUpdate \<Rightarrow> ''cannot update wifi network scan result'' | VerbDelete \<Rightarrow> ''cannot delete wifi network scan result'')"

definition networkinterface_create :: "'s \<Rightarrow> 's \<times> (go_error + netif resource)" where
  "networkinterface_create s = (s, Inl (Errorf ''cannot create network interface''))"

definition NewCertificateREST :: "(string \<Rightarrow> string) \<Rightarrow> env \<Rightarrow> string \<Rightarrow> certificate memstore go" where
  "NewCertificateREST base64 e caCert =
     (case mem_create certificate_rt e InMemory ''self'' (new_resource ''self'' (base64 caCert)) of
        (s, Inl err) \<Rightarrow> Panic ''create''
      | (s, Inr _) \<Rightarrow> Ret s)"

lemma NewCertificateREST_Ret: "\<exists>s. NewCertificateREST base64 e caCert = Ret s \<and> mem_inv s \<and>
  map_option body (mem_view s ''self'') = Some (base64 caCert)"
proof -
  let ?r = "new_resource ''self'' (base64 caCert)"
  obtain s r where c: "mem_create certificate_rt e InMemory ''self'' ?r = (s, Inr r)"
    using mem.create_succeeds [OF mem_inv_InMemory view_InMemory, of certificate_rt e "''self''" ?r]
    by (auto simp: mem_ops_def)
  have "mem_inv s" using mem_inv_create [OF mem_inv_InMemory, of certificate_rt e "''self''" ?r] c by simp
  with c mem_create_Inr [OF c] show ?thesis
    by (simp add: NewCertificateREST_def alist_simps new_resource_def)
qed

section \<open>Devices\<close>

text \<open>\<open>deviceStore\<close>: a file store that refuses to delete.\<close>

definition device_store_delete ::
  "env \<Rightarrow> ('a, 'b) filestore \<Rightarrow> string \<Rightarrow> ('a resource \<Rightarrow> go_error option) \<Rightarrow> ('a, 'b) filestore \<times> (go_error + 'a resource)" where
  "device_store_delete e s key validate = (s, Inl (BadRequest ''refusing to delete device''))"

definition device_ops :: "(device, 'b) codec \<Rightarrow> ((device, 'b) filestore, device) store_ops" where
  "device_ops codec = (fs_ops codec device_rt)\<lparr>op_delete := device_store_delete\<rparr>"

interpretation dev: storage "device_ops codec" fs_inv fs_view device_rt for codec
  by (unfold_locales)
     (auto simp: device_ops_def device_store_delete_def fs.get_law fs.list_law fs.create_inv fs.create_exists
       fs.update_inv fs.update_missing dest: fs.create_fail fs.create_ok fs.update_fail fs.update_ok)

definition default_device :: "string \<Rightarrow> device resource" where
  "default_device deviceName = new_resource deviceName
     \<lparr>dev_Spec = zero_device_spec\<lparr>ds_Mode := DeviceModeServer\<rparr>,
      dev_Status = zero_device_status\<lparr>dst_Current := True, dst_State := DeviceStateUnknown\<rparr>\<rparr>"

definition newDeviceStore ::
  "(device, 'b) codec \<Rightarrow> env \<Rightarrow> string \<Rightarrow> go_error + 'b dir option \<Rightarrow> go_error + (device, 'b) filestore" where
  "newDeviceStore codec e deviceName rd =
     (case FileStore codec device_rt e rd of
        Inl err \<Rightarrow> Inl err
      | Inr s \<Rightarrow>
          (case mem_get device_rt (fs_mem s) deviceName of
             Inl err \<Rightarrow>
               if \<not> is_not_found err then Inl err
               else (case fs_create codec device_rt e s deviceName (default_device deviceName) of
                       (_, Inl err) \<Rightarrow> Inl (Wrap ''create default device config: '' err)
                     | (s', Inr _) \<Rightarrow> Inr s')
           | Inr _ \<Rightarrow> Inr s))"

definition device_update ::
  "(device, 'b) codec \<Rightarrow> string \<Rightarrow> (device resource \<Rightarrow> go_error + device resource)
   \<Rightarrow> (device resource \<Rightarrow> device resource \<Rightarrow> go_error + device resource) option
   \<Rightarrow> env \<Rightarrow> (device, 'b) filestore \<Rightarrow> string \<Rightarrow> (device, 'b) filestore \<times> (go_error + device resource)" where
  "device_update codec deviceName UpdatedObject updateValidation e s name =
     (if name \<noteq> deviceName then (s, Inl (NotFound (rt_GroupResource device_rt) name))
      else rest_update (device_ops codec) UpdatedObject updateValidation e s name)"

text \<open>
  Shutting the device down: the handler of the subresource \<open>devices/shutdown\<close>. \<open>client\<close> builds a
  cluster client for a mode and \<open>patch\<close> sets an annotation of a node; both are the cluster's.
\<close>

definition kubeconfig_path :: "string \<Rightarrow> device_mode \<Rightarrow> string" where
  "kubeconfig_path k3sDir m =
     (if m = DeviceModeAgent then k3sDir @ ''/agent/kubelet.kubeconfig''
      else k3sDir @ ''/server/cred/admin.kubeconfig'')"

definition shutdown_create ::
  "('s, device) store_ops \<Rightarrow> string \<Rightarrow> string \<Rightarrow> (string \<Rightarrow> go_error + 'c)
   \<Rightarrow> ('c \<Rightarrow> string \<Rightarrow> string \<Rightarrow> string \<Rightarrow> 'n \<Rightarrow> 'n \<times> go_error option)
   \<Rightarrow> 's \<Rightarrow> 'n \<Rightarrow> device resource \<Rightarrow> 'n \<times> (go_error + device resource)" where
  "shutdown_create ops deviceName k3sDir client patch s nodes obj =
     (if rname obj = deviceName then
        (nodes, Inl (NotFound (group_resource ''devices/shutdown'') (rname obj)))
      else
        (case op_get ops s deviceName of
           Inl err \<Rightarrow> (nodes, Inl err)
         | Inr d \<Rightarrow>
             (case client (kubeconfig_path k3sDir (ds_Mode (dev_Spec (body d)))) of
                Inl err \<Rightarrow> (nodes, Inl err)
              | Inr c \<Rightarrow>
                  (case patch c deviceName NodeDrainAnnotation ''true'' nodes of
                     (nodes', Some err) \<Rightarrow> (nodes', Inl err)
                   | (nodes', None) \<Rightarrow> (nodes', Inr obj)))))"

section \<open>Device tokens\<close>

text \<open>
  \<open>tokengen.GenerateRandomString\<close>: \<open>draws\<close> are the answers of \<open>rand.Int\<close>, an error or a number below
  the number of letters.
\<close>

definition token_letters :: string where
  "token_letters = ''0123456789ABCDEFGHIJKLMNOPQRSTUVWXYZabcdefghijklmnopqrstuvwxyz-''"

fun GenerateRandomString :: "nat \<Rightarrow> (nat \<Rightarrow> go_error + nat) \<Rightarrow> go_error + string" where
  "GenerateRandomString 0 draws = Inr []"
| "GenerateRandomString (Suc n) draws =
     (case draws 0 of
        Inl err \<Rightarrow> Inl err
      | Inr num \<Rightarrow>
          (case GenerateRandomString n (\<lambda>i. draws (Suc i)) of
             Inl err \<Rightarrow> Inl err
           | Inr rest \<Rightarrow> Inr ((token_letters ! num) # rest)))"

definition regenerate_token ::
  "('s, device_token) store_ops \<Rightarrow> string \<Rightarrow> (nat \<Rightarrow> go_error + nat) \<Rightarrow> env \<Rightarrow> 's \<Rightarrow> 's \<times> (go_error + device_token resource)" where
  "regenerate_token ops deviceName draws e s =
     (case GenerateRandomString 32 draws of
        Inl err \<Rightarrow> (s, Inl err)
      | Inr token \<Rightarrow>
          (case op_get ops s deviceName of
             Inl err \<Rightarrow>
               if \<not> is_not_found err then (s, Inl err)
               else op_create ops e s deviceName (new_resource [] \<lparr>dt_Token = token, dt_JoinToken = []\<rparr>)
           | Inr _ \<Rightarrow>
               op_update ops e s deviceName (\<lambda>t. Inr (t\<lparr>body := \<lparr>dt_Token = token, dt_JoinToken = []\<rparr>\<rparr>))))"

definition token_update ::
  "('s, device_token) store_ops \<Rightarrow> string \<Rightarrow> (device_token resource \<Rightarrow> go_error + device_token resource)
   \<Rightarrow> (device_token resource \<Rightarrow> device_token resource \<Rightarrow> go_error + device_token resource) option
   \<Rightarrow> env \<Rightarrow> 's \<Rightarrow> string \<Rightarrow> 's \<times> (go_error + device_token resource)" where
  "token_update ops deviceName UpdatedObject updateValidation e s key =
     (if key = deviceName then
        (s, Inl (Errorf ''refusing to update cluster join token on the server manually. please delete it to force regeneration''))
      else rest_update ops UpdatedObject updateValidation e s key)"

definition token_create ::
  "('s, device_token) store_ops \<Rightarrow> string \<Rightarrow> (device_token resource \<Rightarrow> go_error + string)
   \<Rightarrow> (device_token resource \<Rightarrow> go_error option) \<Rightarrow> env \<Rightarrow> 's \<Rightarrow> device_token resource \<Rightarrow> 's \<times> (go_error + device_token resource)" where
  "token_create ops deviceName marshal createValidation e s obj =
     (if rname obj = deviceName then
        (s, Inl (Errorf ''refusing to create cluster join token on the server manually. please delete it to force regeneration''))
      else rest_create ops marshal createValidation e s obj)"

text \<open>\<open>Delete\<close> answers with no object for the device's own token, whatever became of the regeneration.\<close>

definition token_delete ::
  "('s, device_token) store_ops \<Rightarrow> string \<Rightarrow> (nat \<Rightarrow> go_error + nat) \<Rightarrow> (device_token resource \<Rightarrow> go_error option)
   \<Rightarrow> env \<Rightarrow> 's \<Rightarrow> string \<Rightarrow> 's \<times> (go_error + device_token resource option)" where
  "token_delete ops deviceName draws deleteValidation e s key =
     (if key = deviceName then
        (case op_get ops s deviceName of
           Inl err \<Rightarrow> (s, Inl err)
         | Inr _ \<Rightarrow> (fst (regenerate_token ops deviceName draws e s), Inr None))
      else
        (case rest_delete ops deleteValidation e s key of
           (s', Inl err) \<Rightarrow> (s', Inl err)
         | (s', Inr r) \<Rightarrow> (s', Inr (Some r))))"

definition NewDeviceTokenREST ::
  "(device_token, 'b) codec \<Rightarrow> string \<Rightarrow> (nat \<Rightarrow> go_error + nat) \<Rightarrow> env \<Rightarrow> go_error + 'b dir option
   \<Rightarrow> go_error + (device_token, 'b) filestore" where
  "NewDeviceTokenREST codec deviceName draws e rd =
     (case FileStore codec token_rt e rd of
        Inl err \<Rightarrow> Inl err
      | Inr s \<Rightarrow>
          (case mem_get token_rt (fs_mem s) deviceName of
             Inl err \<Rightarrow>
               if \<not> is_not_found err then Inl err
               else (case regenerate_token (fs_ops codec token_rt) deviceName draws e s of
                       (_, Inl err) \<Rightarrow> Inl (Wrap ''generate cluster join token: '' err)
                     | (s', Inr _) \<Rightarrow> Inr s')
           | Inr t \<Rightarrow>
               if dt_Token (body t) = [] then
                 (case regenerate_token (fs_ops codec token_rt) deviceName draws e s of
                    (_, Inl err) \<Rightarrow> Inl (Wrap ''generate cluster join token: '' err)
                  | (s', Inr _) \<Rightarrow> Inr s')
               else Inr s))"

section \<open>Wifi passwords\<close>

text \<open>The generated password is the parameter \<open>password\<close>; see \<open>Password\<close> for the generator.\<close>

definition regenerate_wifi_password ::
  "('s, wifi_password) store_ops \<Rightarrow> go_error + string \<Rightarrow> env \<Rightarrow> 's \<Rightarrow> 's \<times> go_error option" where
  "regenerate_wifi_password ops password e s =
     (case password of
        Inl err \<Rightarrow> (s, Some err)
      | Inr pw \<Rightarrow>
          (case op_get ops s AccessPointPasswordKey of
             Inl err \<Rightarrow>
               if \<not> is_not_found err then (s, Some err)
               else (case op_create ops e s AccessPointPasswordKey (new_resource [] pw) of
                       (s', Inl err) \<Rightarrow> (s', Some err) | (s', Inr _) \<Rightarrow> (s', None))
           | Inr _ \<Rightarrow>
               (case op_update ops e s AccessPointPasswordKey (\<lambda>r. Inr (r\<lparr>body := pw\<rparr>)) of
                  (s', Inl err) \<Rightarrow> (s', Some err) | (s', Inr _) \<Rightarrow> (s', None))))"

definition wifipassword_delete ::
  "('s, wifi_password) store_ops \<Rightarrow> go_error + string \<Rightarrow> (wifi_password resource \<Rightarrow> go_error option)
   \<Rightarrow> env \<Rightarrow> 's \<Rightarrow> string \<Rightarrow> 's \<times> (go_error + wifi_password resource option)" where
  "wifipassword_delete ops password deleteValidation e s key =
     (if key = AccessPointPasswordKey then
        (case op_get ops s AccessPointPasswordKey of
           Inl err \<Rightarrow> (s, Inl err)
         | Inr _ \<Rightarrow>
             (case regenerate_wifi_password ops password e s of
                (s', Some err) \<Rightarrow> (s', Inl err)
              | (s', None) \<Rightarrow> (s', Inr None)))
      else
        (case rest_delete ops deleteValidation e s key of
           (s', Inl err) \<Rightarrow> (s', Inl err)
         | (s', Inr r) \<Rightarrow> (s', Inr (Some r))))"

definition NewWifiPasswordREST ::
  "(wifi_password, 'b) codec \<Rightarrow> go_error + string \<Rightarrow> env \<Rightarrow> go_error + 'b dir option
   \<Rightarrow> go_error + (wifi_password, 'b) filestore" where
  "NewWifiPasswordREST codec password e rd =
     (case FileStore codec wifipassword_rt e rd of
        Inl err \<Rightarrow> Inl err
      | Inr s \<Rightarrow>
          (let generate = (case regenerate_wifi_password (fs_ops codec wifipassword_rt) password e s of
                             (_, Some err) \<Rightarrow> Inl (Wrap ''generate wifi password: '' err)
                           | (s', None) \<Rightarrow> Inr s')
           in case mem_get wifipassword_rt (fs_mem s) AccessPointPasswordKey of
                Inl err \<Rightarrow> if \<not> is_not_found err then Inl err else generate
              | Inr pw \<Rightarrow> if body pw = [] then generate else Inr s))"

section \<open>User accounts\<close>

definition bcrypt_account ::
  "(string \<Rightarrow> go_error + string) \<Rightarrow> user_account resource \<Rightarrow> go_error + user_account resource" where
  "bcrypt_account bcrypt a =
     (if ua_PasswordString (body a) \<noteq> [] then
        (case bcrypt (ua_PasswordString (body a)) of
           Inl err \<Rightarrow> Inl err
         | Inr hash \<Rightarrow> Inr (a\<lparr>body := (body a)\<lparr>ua_Password := hash, ua_PasswordString := []\<rparr>\<rparr>))
      else Inr a)"

definition useraccount_create ::
  "('s, user_account) store_ops \<Rightarrow> (string \<Rightarrow> go_error + string) \<Rightarrow> (user_account resource \<Rightarrow> go_error + string)
   \<Rightarrow> (user_account resource \<Rightarrow> go_error option) \<Rightarrow> env \<Rightarrow> 's \<Rightarrow> user_account resource
   \<Rightarrow> 's \<times> (go_error + user_account resource)" where
  "useraccount_create ops bcrypt marshal createValidation e s obj =
     (case bcrypt_account bcrypt obj of
        Inl err \<Rightarrow> (s, Inl err)
      | Inr a \<Rightarrow> rest_create ops marshal createValidation e s a)"

definition useraccount_delete ::
  "('s, user_account) store_ops \<Rightarrow> (user_account resource \<Rightarrow> go_error option) \<Rightarrow> env \<Rightarrow> 's \<Rightarrow> string
   \<Rightarrow> 's \<times> (go_error + user_account resource)" where
  "useraccount_delete ops deleteValidation e s key =
     (if key = AdminUserAccount then
        (s, Inl (Forbidden (rt_GroupResource useraccount_rt) AdminUserAccount ''refusing to delete admin user account''))
      else rest_delete ops deleteValidation e s key)"

text \<open>
  \<open>Update\<close> assigns a closure to the parameter \<open>updateValidation\<close> and calls \<open>updateValidation\<close> inside
  it: the closure, not the API server's callback. A call that does not return is \<open>None\<close>.
\<close>

partial_function (option) useraccount_validation ::
  "(string \<Rightarrow> go_error + string) \<Rightarrow> user_account resource \<Rightarrow> user_account resource
   \<Rightarrow> (go_error + user_account resource) option" where
  "useraccount_validation bcrypt updated old =
     Option.bind (useraccount_validation bcrypt updated old) (\<lambda>res.
       case res of
         Inl err \<Rightarrow> Some (Inl err)
       | Inr updated' \<Rightarrow> Some (bcrypt_account bcrypt updated'))"

definition useraccount_update ::
  "('s, user_account) store_ops \<Rightarrow> (string \<Rightarrow> go_error + string)
   \<Rightarrow> (user_account resource \<Rightarrow> go_error + user_account resource)
   \<Rightarrow> env \<Rightarrow> 's \<Rightarrow> string \<Rightarrow> ('s \<times> (go_error + user_account resource)) option" where
  "useraccount_update ops bcrypt UpdatedObject e s key =
     (case op_get ops s key of
        Inl err \<Rightarrow> Some (op_update ops e s key Inr)
      | Inr obj \<Rightarrow>
          (case UpdatedObject obj of
             Inl err \<Rightarrow> Some (op_update ops e s key (\<lambda>_. Inl (Wrap ''get updated object: '' err)))
           | Inr updated \<Rightarrow>
               (case useraccount_validation bcrypt updated obj of
                  None \<Rightarrow> None
                | Some res \<Rightarrow> Some (op_update ops e s key (\<lambda>_. res)))))"

section \<open>Properties\<close>

lemma useraccount_validation_diverges: "useraccount_validation bcrypt updated old = None"
proof (cases "useraccount_validation bcrypt updated old")
  case (Some y)
  have "False"
    by (rule useraccount_validation.raw_induct [where P = "\<lambda>_ _ _ _. False", OF _ Some]) (auto simp: Option.bind_eq_Some_conv)
  then show ?thesis ..
qed simp

text \<open>
  C34. Passwords at rest: a user account created through the API is stored with the bcrypt hash of the
  submitted password in place of any plain text, the stored resource is the one answered and
  served from then on, and no other account changes. An account cannot be created over another.
\<close>

theorem useraccount_stored_hashed:
  assumes "fs_inv s" "useraccount_create (fs_ops codec useraccount_rt) bcrypt marshal validate e s obj = (s', Inr r)"
  shows "ua_PasswordString (body r) = [] \<and>
    (if ua_PasswordString (body obj) = [] then body r = body obj
     else bcrypt (ua_PasswordString (body obj)) = Inr (ua_Password (body r))) \<and>
    fs_view s (rname r) = None \<and> fs_view s' = (fs_view s)(rname r \<mapsto> r) \<and>
    rest_get (fs_ops codec useraccount_rt) s' (rname r) = Inr r"
proof -
  from assms(2) obtain a where a: "bcrypt_account bcrypt obj = Inr a"
    "rest_create (fs_ops codec useraccount_rt) marshal validate e s a = (s', Inr r)"
    by (auto simp: useraccount_create_def split: sum.splits)
  note ok = fs.rest_create_ok [OF assms(1) a(2)]
  have "ua_PasswordString (body a) = []"
    "if ua_PasswordString (body obj) = [] then a = obj else bcrypt (ua_PasswordString (body obj)) = Inr (ua_Password (body a))"
    using a(1) by (auto simp: bcrypt_account_def split: if_splits sum.splits)
  with ok(1-4) show ?thesis by (auto split: if_splits)
qed

definition demo_bcrypt :: "string \<Rightarrow> go_error + string" where
  "demo_bcrypt p = Inr (''$2a$14$'' @ rev p)"

definition demo_account :: "user_account resource" where
  "demo_account = new_resource ''admin'' \<lparr>ua_PasswordString = ''secret'', ua_Password = []\<rparr>"

lemma demo_account_created:
  "\<exists>s r. useraccount_create (fs_ops demo_codec useraccount_rt) demo_bcrypt (\<lambda>_. Inr []) (\<lambda>_. None) demo_env demo_store demo_account
     = (s, Inr r) \<and> rname r = ''admin''"
proof -
  let ?a = "demo_account\<lparr>body := \<lparr>ua_PasswordString = [], ua_Password = ''$2a$14$'' @ rev ''secret''\<rparr>\<rparr>"
  have b: "bcrypt_account demo_bcrypt demo_account = Inr ?a" "rname ?a = ''admin''" "named (\<lambda>_. Inr []) ?a = Inr ?a"
    by (simp_all add: bcrypt_account_def demo_bcrypt_def demo_account_def new_resource_def named_def empty_meta_def)
  obtain s r where c: "fs_create demo_codec useraccount_rt demo_env demo_store ''admin'' ?a = (s, Inr r)"
    using demo_create by blast
  with fs.create_ok [OF demo_store_inv, of demo_codec useraccount_rt demo_env "''admin''" ?a s r] b show ?thesis
    by (simp add: useraccount_create_def rest_create_def fs_ops_def)
qed

theorem useraccount_stored_hashed_witness:
  "\<exists>s r. useraccount_create (fs_ops demo_codec useraccount_rt) demo_bcrypt (\<lambda>_. Inr []) (\<lambda>_. None) demo_env demo_store demo_account
     = (s, Inr r) \<and> ua_Password (body r) = ''$2a$14$terces'' \<and> ua_PasswordString (body r) = [] \<and> fs_view s ''admin'' = Some r"
proof -
  obtain s r where c: "useraccount_create (fs_ops demo_codec useraccount_rt) demo_bcrypt (\<lambda>_. Inr []) (\<lambda>_. None) demo_env
      demo_store demo_account = (s, Inr r)" "rname r = ''admin''"
    using demo_account_created by blast
  from useraccount_stored_hashed [OF demo_store_inv c(1)] c show ?thesis
    by (simp add: demo_account_def new_resource_def demo_bcrypt_def)
qed

text \<open>
  The update handler of user accounts never answers: for every existing account and every update the
  API server could build, the validation closure calls itself for ever (in Go the stack overflows
  and the process dies). Only a missing account or an update that cannot be built is answered.
\<close>

theorem useraccount_update_diverges:
  assumes "fs_inv s" "fs_view s key = Some obj" "UpdatedObject obj = Inr updated"
  shows "useraccount_update (fs_ops codec useraccount_rt) bcrypt UpdatedObject e s key = None"
  using assms by (simp add: useraccount_update_def fs.get_law useraccount_validation_diverges)

theorem useraccount_update_diverges_witness:
  "\<exists>s r. useraccount_create (fs_ops demo_codec useraccount_rt) demo_bcrypt (\<lambda>_. Inr []) (\<lambda>_. None) demo_env demo_store demo_account
     = (s, Inr r) \<and> useraccount_update (fs_ops demo_codec useraccount_rt) demo_bcrypt Inr demo_env s ''admin'' = None"
proof -
  obtain s r where c: "useraccount_create (fs_ops demo_codec useraccount_rt) demo_bcrypt (\<lambda>_. Inr []) (\<lambda>_. None) demo_env
      demo_store demo_account = (s, Inr r)" "rname r = ''admin''"
    using demo_account_created by blast
  obtain a where a: "rest_create (fs_ops demo_codec useraccount_rt) (\<lambda>_. Inr []) (\<lambda>_. None) demo_env demo_store a = (s, Inr r)"
    using c(1) by (auto simp: useraccount_create_def split: sum.splits)
  have "fs_inv (fst (rest_create (fs_ops demo_codec useraccount_rt) (\<lambda>_. Inr []) (\<lambda>_. None) demo_env demo_store a))"
    by (rule fs.rest_create_inv) simp
  with a fs.rest_create_ok(3) [OF demo_store_inv a] c(2)
  have "fs_inv s" "fs_view s ''admin'' = Some r" by simp_all
  from useraccount_update_diverges [OF this, of Inr r demo_codec demo_bcrypt demo_env] c(1) show ?thesis by blast
qed

text \<open>
  Requests to shut down: a request that names this device is answered with not found and changes
  nothing, although the device exists; a request that names any other device drains this one.
\<close>

theorem shutdown_name_check_inverted:
  assumes "fs_inv s" "fs_view s deviceName = Some d"
    and "\<And>path. client path = Inr c" "\<And>nodes. snd (patch c deviceName NodeDrainAnnotation ''true'' nodes) = None"
  shows "shutdown_create (device_ops codec) deviceName k3sDir client patch s nodes obj =
    (if rname obj = deviceName then (nodes, Inl (NotFound (group_resource ''devices/shutdown'') deviceName))
     else (fst (patch c deviceName NodeDrainAnnotation ''true'' nodes), Inr obj))"
proof -
  have "op_get (device_ops codec) s deviceName = Inr d"
    using assms(1,2) by (simp add: dev.get_Inr_iff)
  with assms(3) assms(4) [of nodes] show ?thesis
    by (cases "patch c deviceName NodeDrainAnnotation ''true'' nodes") (simp add: shutdown_create_def)
qed

definition demo_device_store :: "(device, device resource) filestore" where
  "demo_device_store = fst (fs_create demo_codec device_rt demo_env demo_store ''pi'' (default_device ''pi''))"

lemma demo_device_store:
  "newDeviceStore demo_codec demo_env ''pi'' (Inr None) = Inr demo_device_store"
  "fs_inv demo_device_store" "\<exists>d. fs_view demo_device_store ''pi'' = Some d"
proof -
  obtain s d where c: "fs_create demo_codec device_rt demo_env demo_store ''pi'' (default_device ''pi'') = (s, Inr d)"
    using demo_create by blast
  then have c': "op_create (fs_ops demo_codec device_rt) demo_env demo_store ''pi'' (default_device ''pi'') = (s, Inr d)"
    by (simp add: fs_ops_def)
  show "newDeviceStore demo_codec demo_env ''pi'' (Inr None) = Inr demo_device_store"
    using c by (simp add: newDeviceStore_def demo_open mem_get_def demo_device_store_def)
  show "fs_inv demo_device_store"
    using fs.create_inv [OF demo_store_inv] c' c unfolding demo_device_store_def by (metis fst_conv)
  show "\<exists>d. fs_view demo_device_store ''pi'' = Some d"
    using fs.create_ok [OF demo_store_inv c'] c by (simp add: demo_device_store_def)
qed

definition demo_patch :: "unit \<Rightarrow> string \<Rightarrow> string \<Rightarrow> string \<Rightarrow> (string \<times> string \<times> string) list \<Rightarrow> (string \<times> string \<times> string) list \<times> go_error option" where
  "demo_patch c node k v nodes = ((node, k, v) # nodes, None)"

theorem shutdown_name_check_inverted_witness:
  "shutdown_create (device_ops demo_codec) ''pi'' ''/var/lib/k3s'' (\<lambda>_. Inr ()) demo_patch demo_device_store [] (default_device ''other'') =
     ([(''pi'', NodeDrainAnnotation, ''true'')], Inr (default_device ''other''))"
proof -
  obtain d where d: "fs_view demo_device_store ''pi'' = Some d" using demo_device_store(3) by blast
  show ?thesis
    using shutdown_name_check_inverted [OF demo_device_store(2) d, of "\<lambda>_. Inr ()" "()" demo_patch demo_codec
        "''/var/lib/k3s''" "[]" "default_device ''other''"]
    by (simp add: demo_patch_def default_device_def new_resource_def)
qed

section \<open>Requests to the device and token handlers\<close>

datatype device_req =
    DevUpdate env string "device resource \<Rightarrow> go_error + device resource"
      "(device resource \<Rightarrow> device resource \<Rightarrow> go_error + device resource) option"
  | DevStoreUpdate env string "device resource \<Rightarrow> go_error + device resource"
  | DevStoreDelete env string "device resource \<Rightarrow> go_error option"

text \<open>What reaches the device store: API updates, and the reconcilers' own updates and deletes.\<close>

fun device_exec :: "(device, 'b) codec \<Rightarrow> string \<Rightarrow> device_req \<Rightarrow> (device, 'b) filestore \<Rightarrow> (device, 'b) filestore" where
  "device_exec codec deviceName (DevUpdate e n u v) s = fst (device_update codec deviceName u v e s n)"
| "device_exec codec deviceName (DevStoreUpdate e n f) s = fst (op_update (device_ops codec) e s n f)"
| "device_exec codec deviceName (DevStoreDelete e n v) s = fst (op_delete (device_ops codec) e s n v)"

lemma device_ops_delete: "op_delete (device_ops codec) e s n v = (s, Inl (BadRequest ''refusing to delete device''))"
  by (simp add: device_ops_def device_store_delete_def)

lemma device_exec_inv:
  "fs_inv s \<Longrightarrow> fs_inv (device_exec codec deviceName r s) \<and> dom (fs_view (device_exec codec deviceName r s)) = dom (fs_view s)"
  by (cases r) (simp_all add: device_update_def dev.rest_update_inv dev.rest_update_dom dev.update_inv dev.update_dom device_ops_delete)

lemma newDeviceStore_inv:
  assumes "newDeviceStore codec e deviceName (Inr None) = Inr s"
  shows "fs_inv s \<and> fs_view s deviceName \<noteq> None"
proof -
  obtain s0 where s0: "FileStore codec device_rt e (Inr None) = Inr s0"
    using assms by (auto simp: newDeviceStore_def split: sum.splits)
  then have inv: "fs_inv s0"
    by (auto simp: FileStore_def load_from_files_def fs_inv_def split: option.splits)
  show ?thesis
  proof (cases "mem_get device_rt (fs_mem s0) deviceName")
    case (Inl err)
    with assms s0 obtain r where c: "fs_create codec device_rt e s0 deviceName (default_device deviceName) = (s, Inr r)"
      by (auto simp: newDeviceStore_def split: if_splits sum.splits prod.splits)
    then have c': "op_create (fs_ops codec device_rt) e s0 deviceName (default_device deviceName) = (s, Inr r)"
      by (simp add: fs_ops_def)
    show ?thesis using fs.create_ok [OF inv c'] fs.create_inv [OF inv, of codec device_rt e deviceName "default_device deviceName"] c'
      by simp
  next
    case (Inr d)
    with assms s0 inv show ?thesis by (auto simp: newDeviceStore_def mem_get_def split: option.splits)
  qed
qed

text \<open>
  The device never gets lost: from a fresh device store, whatever requests the API and the reconcilers
  send, in any order and with any outcome of the disk operations, the device's own resource stays
  in the store, and no other appears.
\<close>

theorem device_persists:
  assumes "newDeviceStore codec e deviceName (Inr None) = Inr s"
  shows "fs_view (fold (device_exec codec deviceName) rs s) deviceName \<noteq> None \<and>
    dom (fs_view (fold (device_exec codec deviceName) rs s)) = dom (fs_view s)"
proof -
  have run: "fs_inv s \<Longrightarrow> fs_inv (fold (device_exec codec deviceName) rs s) \<and>
      dom (fs_view (fold (device_exec codec deviceName) rs s)) = dom (fs_view s)" for s
    by (induction rs arbitrary: s) (simp_all add: device_exec_inv)
  from newDeviceStore_inv [OF assms] run show ?thesis by blast
qed

theorem device_persists_witness:
  "fs_view (fold (device_exec demo_codec ''pi'') [DevStoreDelete demo_env ''pi'' (\<lambda>_. None)] demo_device_store) ''pi'' \<noteq> None"
  using device_persists [OF demo_device_store(1), of "[DevStoreDelete demo_env ''pi'' (\<lambda>_. None)]"] by blast

datatype token_req =
    TokCreate env "device_token resource \<Rightarrow> go_error option" "device_token resource"
  | TokUpdate env string "device_token resource \<Rightarrow> go_error + device_token resource"
      "(device_token resource \<Rightarrow> device_token resource \<Rightarrow> go_error + device_token resource) option"
  | TokDelete env string "nat \<Rightarrow> go_error + nat" "device_token resource \<Rightarrow> go_error option"

fun token_exec ::
  "('s, device_token) store_ops \<Rightarrow> string \<Rightarrow> (device_token resource \<Rightarrow> go_error + string) \<Rightarrow> token_req \<Rightarrow> 's \<Rightarrow> 's" where
  "token_exec ops deviceName marshal (TokCreate e v obj) s = fst (token_create ops deviceName marshal v e s obj)"
| "token_exec ops deviceName marshal (TokUpdate e k u v) s = fst (token_update ops deviceName u v e s k)"
| "token_exec ops deviceName marshal (TokDelete e k draws v) s = fst (token_delete ops deviceName draws v e s k)"

lemma GenerateRandomString_letters:
  "(\<And>i n. draws i = Inr n \<Longrightarrow> n < length token_letters) \<Longrightarrow> GenerateRandomString n draws = Inr t \<Longrightarrow>
   length t = n \<and> set t \<subseteq> set token_letters"
proof (induction n arbitrary: draws t)
  case 0
  then show ?case by simp
next
  case (Suc n)
  from Suc.prems(2) obtain num rest where r: "draws 0 = Inr num" "GenerateRandomString n (\<lambda>i. draws (Suc i)) = Inr rest"
    "t = token_letters ! num # rest"
    by (auto split: sum.splits)
  have "length rest = n \<and> set rest \<subseteq> set token_letters"
    using Suc.prems(1) by (intro Suc.IH [OF _ r(2)]) blast
  with r Suc.prems(1) [OF r(1)] show ?case by (simp add: nth_mem)
qed

text \<open>A store of device tokens.\<close>

locale token_storage = storage ops inv view rt
  for ops :: "('s, device_token) store_ops" and inv :: "'s \<Rightarrow> bool"
    and view :: "'s \<Rightarrow> string \<Rightarrow> device_token resource option" and rt :: "device_token resource_type"
begin

lemma regenerate_token_view:
  assumes "inv s" "view s d = Some old"
  shows "inv (fst (regenerate_token ops d draws e s)) \<and>
    (view (fst (regenerate_token ops d draws e s)) = view s \<or>
     (\<exists>tok t. GenerateRandomString 32 draws = Inr tok \<and> body t = \<lparr>dt_Token = tok, dt_JoinToken = []\<rparr> \<and>
        view (fst (regenerate_token ops d draws e s)) = (view s)(d \<mapsto> t)))"
proof (cases "GenerateRandomString 32 draws")
  case (Inl err)
  with assms show ?thesis by (simp add: regenerate_token_def)
next
  case (Inr tok)
  let ?f = "\<lambda>t. Inr (t\<lparr>body := \<lparr>dt_Token = tok, dt_JoinToken = []\<rparr>\<rparr>)"
  have get: "op_get ops s d = Inr old" using assms by (simp add: get_law)
  obtain s' res where u: "op_update ops e s d ?f = (s', res)" by fastforce
  show ?thesis
  proof (cases res)
    case (Inl err)
    with u Inr get assms update_fail [OF assms(1), of e d ?f] update_inv [OF assms(1), of e d ?f] show ?thesis
      by (simp add: regenerate_token_def)
  next
    case r: (Inr t)
    from update_ok [OF assms(1), of e d ?f s' t] u r have "body t = \<lparr>dt_Token = tok, dt_JoinToken = []\<rparr>" "view s' = (view s)(d \<mapsto> t)"
      by auto
    with u Inr get update_inv [OF assms(1), of e d ?f] show ?thesis
      by (auto simp: regenerate_token_def)
  qed
qed

text \<open>
  A request changes the device's own token, if at all, to a freshly generated one.
\<close>

lemma token_exec_own:
  assumes "inv s" "view s d = Some old"
  shows "inv (token_exec ops d marshal r s) \<and>
    (\<exists>t. view (token_exec ops d marshal r s) d = Some t \<and>
      (t = old \<or> (\<exists>e draws v. r = TokDelete e d draws v \<and>
         GenerateRandomString 32 draws = Inr (dt_Token (body t)) \<and> dt_JoinToken (body t) = [])))"
proof (cases r)
  case (TokCreate e v obj)
  obtain s' res where c: "rest_create ops marshal v e s obj = (s', res)" by fastforce
  show ?thesis
  proof (cases "rname obj = d")
    case True
    with TokCreate assms show ?thesis by (simp add: token_create_def)
  next
    case False
    from c assms rest_create_inv [OF assms(1), of marshal v e obj] rest_create_err [OF assms(1), of marshal v e obj s']
      rest_create_ok(2,3) [OF assms(1), of marshal v e obj s'] TokCreate False show ?thesis
      by (cases res) (auto simp: token_create_def)
  qed
next
  case (TokUpdate e k u v)
  show ?thesis
  proof (cases "k = d")
    case True
    with TokUpdate assms show ?thesis by (simp add: token_update_def)
  next
    case False
    obtain s' res where c: "rest_update ops u v e s k = (s', res)" by fastforce
    with False TokUpdate assms rest_update_inv [OF assms(1), of u v e k] rest_update_ok [OF assms(1), of u v e k s']
      update_fail [OF assms(1), of e k] show ?thesis
      by (cases res) (auto simp: token_update_def rest_update_def)
  qed
next
  case (TokDelete e k draws v)
  show ?thesis
  proof (cases "k = d")
    case True
    then show ?thesis
      using TokDelete assms regenerate_token_view [OF assms, of draws e] by (auto simp: token_delete_def get_law)
  next
    case False
    obtain s' res where c: "op_delete ops e s k v = (s', res)" by fastforce
    with False TokDelete assms delete_inv [OF assms(1), of e k v] delete_ok [OF assms(1), of e k v s'] delete_fail [OF assms(1), of e k v s']
    show ?thesis by (cases res) (auto simp: token_delete_def rest_delete_def)
  qed
qed

end

interpretation tok: token_storage "fs_ops codec token_rt" fs_inv fs_view token_rt for codec
  by (intro token_storage.intro fs.storage_axioms)

lemma token_run_inv: "fs_inv s \<Longrightarrow> fs_view s d = Some old \<Longrightarrow>
  fs_inv (fold (token_exec (fs_ops codec token_rt) d marshal) rs s) \<and>
  (\<exists>t. fs_view (fold (token_exec (fs_ops codec token_rt) d marshal) rs s) d = Some t \<and>
    (t = old \<or> (\<exists>e draws v. TokDelete e d draws v \<in> set rs \<and>
       GenerateRandomString 32 draws = Inr (dt_Token (body t)) \<and> dt_JoinToken (body t) = [])))"
proof (induction rs arbitrary: s old)
  case Nil
  then show ?case by simp
next
  case (Cons r rs)
  obtain t1 where t1: "fs_inv (token_exec (fs_ops codec token_rt) d marshal r s)"
    "fs_view (token_exec (fs_ops codec token_rt) d marshal r s) d = Some t1"
    "t1 = old \<or> (\<exists>e draws v. r = TokDelete e d draws v \<and>
         GenerateRandomString 32 draws = Inr (dt_Token (body t1)) \<and> dt_JoinToken (body t1) = [])"
    using tok.token_exec_own [OF Cons.prems, of codec marshal r] by blast
  from Cons.IH [OF t1(1,2)] t1(3) show ?case by (auto 0 4)
qed

text \<open>
  C35. The cluster join token is protected: whatever token requests the API serves, the device keeps a token of
  its own, and it is either the one it had, untouched, or 32 random letters some request to delete
  it made the handler generate, with the published join token cleared.
\<close>

theorem own_token_protected:
  assumes "fs_inv s" "fs_view s d = Some old"
  shows "\<exists>t. fs_view (fold (token_exec (fs_ops codec token_rt) d marshal) rs s) d = Some t \<and>
    (t = old \<or> (\<exists>e draws v. TokDelete e d draws v \<in> set rs \<and>
       GenerateRandomString 32 draws = Inr (dt_Token (body t)) \<and> dt_JoinToken (body t) = []))"
  using token_run_inv [OF assms] by blast

definition demo_token_store :: "(device_token, device_token resource) filestore" where
  "demo_token_store = fst (fs_create demo_codec token_rt demo_env demo_store ''pi'' (new_resource [] \<lparr>dt_Token = ''t'', dt_JoinToken = ''j''\<rparr>))"

theorem own_token_protected_witness:
  "\<exists>t. fs_view (fold (token_exec (fs_ops demo_codec token_rt) ''pi'' (\<lambda>_. Inr []))
     [TokDelete demo_env ''pi'' (\<lambda>_. Inl (Errorf ''no entropy'')) (\<lambda>_. None)] demo_token_store) ''pi'' = Some t \<and> dt_Token (body t) = ''t''"
proof -
  let ?o = "new_resource [] \<lparr>dt_Token = ''t'', dt_JoinToken = ''j''\<rparr>"
  let ?rs = "[TokDelete demo_env ''pi'' (\<lambda>_. Inl (Errorf ''no entropy'')) (\<lambda>_. None)]"
  obtain s t where "fs_create demo_codec token_rt demo_env demo_store ''pi'' ?o = (s, Inr t)"
    using demo_create by blast
  then have c: "op_create (fs_ops demo_codec token_rt) demo_env demo_store ''pi'' ?o = (demo_token_store, Inr t)"
    by (simp add: fs_ops_def demo_token_store_def)
  have inv: "fs_inv demo_token_store" using fs.create_inv [OF demo_store_inv, of demo_codec token_rt demo_env "''pi''" ?o] c by simp
  have t: "fs_view demo_token_store ''pi'' = Some t" "dt_Token (body t) = ''t''"
    using fs.create_ok [OF demo_store_inv c] by (simp_all add: new_resource_def)
  have "GenerateRandomString 32 (\<lambda>_. Inl (Errorf ''no entropy'')) = Inl (Errorf ''no entropy'')"
    by (simp add: numeral_eq_Suc)
  then show ?thesis
    using own_token_protected [OF inv t(1), of demo_codec "\<lambda>_. Inr []" ?rs] t(2) by auto
qed

end
