(* ===== verification/ProcessLog.thy ===== *)
theory ProcessLog
  imports Prelude
begin

text \<open>
  What the runner does with the output of a process (\<open>pkg/runner/stream.go\<close>,
  \<open>pkg/runner/logtranslate.go\<close>): cut it into lines, a chunk at a time when a line does not fit the
  buffer, recognise the two log formats, and log each line at a level. The two regular expressions
  are written as the scans they are: neighbouring character classes are disjoint, so a match is
  unique.
\<close>

section \<open>Cutting a stream into lines\<close>

text \<open>
  \<open>bufio.Scanner\<close> with \<open>ScanLines\<close> and a buffer of \<open>cap\<close> bytes: the next token of what is left of the
  stream. A line has to fit the buffer with its newline, a last line without newline has to be
  shorter than the buffer; otherwise \<open>ErrTooLong\<close>, with the first \<open>cap\<close> bytes in the buffer.
\<close>

datatype scan = Token string string | TooLong string string | AtEnd

definition drop_cr :: "string \<Rightarrow> string" where
  "drop_cr l = (if l \<noteq> [] \<and> last l = CHR 0x0D then butlast l else l)"

definition scan_line :: "nat \<Rightarrow> string \<Rightarrow> scan" where
  "scan_line cap s =
     (if s = [] then AtEnd
      else
        (case index_of newline (take cap s) of
           Some i \<Rightarrow> Token (drop_cr (take i s)) (drop (Suc i) s)
         | None \<Rightarrow>
             if cap \<le> length s then TooLong (take cap s) (drop cap s)
             else Token (drop_cr s) []))"

lemma scan_line_shorter:
  "0 < cap \<Longrightarrow> scan_line cap s = Token l r \<Longrightarrow> length r < length s"
  "0 < cap \<Longrightarrow> scan_line cap s = TooLong b r \<Longrightarrow> length r < length s"
  by (auto simp: scan_line_def split: option.splits if_splits)

text \<open>\<open>streamLines\<close>: what is passed to the log function, in order.\<close>

function stream_lines :: "nat \<Rightarrow> string \<Rightarrow> string list" where
  "stream_lines cap s =
     (if cap = 0 then []
      else
        (case scan_line cap s of
           AtEnd \<Rightarrow> []
         | Token l rest \<Rightarrow> (if l = [] then [] else [l]) @ stream_lines cap rest
         | TooLong b rest \<Rightarrow>
             (let part = trim is_space b in (if part = [] then [] else [part]) @ stream_lines cap rest)))"
  by pat_completeness auto
termination
  by (relation "measure (\<lambda>(cap, s). length s)") (auto dest: scan_line_shorter)

declare stream_lines.simps [simp del]

definition bufferCapacity :: nat where
  "bufferCapacity = 65536"

lemma length_drop_cr: "length (drop_cr l) \<le> length l"
  by (simp add: drop_cr_def)

lemma stream_lines_bounded: "l \<in> set (stream_lines cap s) \<Longrightarrow> l \<noteq> [] \<and> length l \<le> cap"
proof (induction cap s rule: stream_lines.induct)
  case (1 cap s)
  from "1.prems" have cap: "cap \<noteq> 0" by (subst (asm) stream_lines.simps) (auto split: if_splits)
  show ?case
  proof (cases "scan_line cap s")
    case (Token x rest)
    then have "length x \<le> cap"
      using length_drop_cr [of "take i s" for i] length_drop_cr [of s]
      by (auto simp: scan_line_def drop_cr_def dest!: index_of_less split: option.splits if_splits)
    with 1 Token cap show ?thesis by (subst (asm) (3) stream_lines.simps) (auto split: if_splits)
  next
    case (TooLong b rest)
    then have "length (trim is_space b) \<le> cap"
      using length_trim_le [of is_space b] by (auto simp: scan_line_def split: option.splits if_splits)
    with 1 TooLong cap show ?thesis by (subst (asm) (3) stream_lines.simps) (auto simp: Let_def split: if_splits)
  next
    case AtEnd
    with 1 cap show ?thesis by (subst (asm) (3) stream_lines.simps) simp
  qed
qed

text \<open>Lines that fit: each is one token, blank ones are skipped.\<close>

lemma stream_lines_short:
  assumes "list_all (\<lambda>l. length l < cap \<and> newline \<notin> set l) ls"
  shows "stream_lines cap (concat (map (\<lambda>l. l @ [newline]) ls)) = filter (\<lambda>l. l \<noteq> []) (map drop_cr ls)"
  using assms
proof (induction ls)
  case Nil
  then show ?case by (subst stream_lines.simps) (simp add: scan_line_def)
next
  case (Cons l ls)
  let ?rest = "concat (map (\<lambda>l. l @ [newline]) ls)"
  have "take cap (l @ newline # ?rest) = l @ newline # take (cap - length l - 1) ?rest"
    using Cons.prems by (simp add: take_Cons')
  then have "scan_line cap (l @ newline # ?rest) = Token (drop_cr l) ?rest"
    using Cons.prems index_of_append [of newline l] by (simp add: scan_line_def)
  with Cons show ?case by (subst stream_lines.simps) auto
qed

section \<open>The log formats\<close>

definition is_digit :: "char \<Rightarrow> bool" where
  "is_digit c \<longleftrightarrow> CHR ''0'' \<le> c \<and> c \<le> CHR ''9''"

text \<open>A run of at least one character of a class, and what follows.\<close>

definition run1 :: "(char \<Rightarrow> bool) \<Rightarrow> string \<Rightarrow> (string \<times> string) option" where
  "run1 p s = (if s \<noteq> [] \<and> p (hd s) then Some (takeWhile p s, dropWhile p s) else None)"

definition literal :: "string \<Rightarrow> string \<Rightarrow> string option" where
  "literal w s = (if prefix w s then Some (drop (length w) s) else None)"

text \<open>\<open>^(I|E|W|D|T|F)[0-9]+ [^ ]+ +[0-9]+ \<close>: the letter and the message after the match.\<close>

definition match_short :: "string \<Rightarrow> (char \<times> string) option" where
  "match_short s =
     (case s of
        [] \<Rightarrow> None
      | c # cs \<Rightarrow>
          if c \<notin> set ''IEWDTF'' then None
          else
            Option.bind (run1 is_digit cs) (\<lambda>(_, r1).
            Option.bind (literal '' '' r1) (\<lambda>r2.
            Option.bind (run1 (\<lambda>c. c \<noteq> CHR '' '') r2) (\<lambda>(_, r3).
            Option.bind (run1 (\<lambda>c. c = CHR '' '') r3) (\<lambda>(_, r4).
            Option.bind (run1 is_digit r4) (\<lambda>(_, r5).
            Option.bind (literal '' '' r5) (\<lambda>r6. Some (c, r6))))))))"

text \<open>\<open>^time="[^"]+" level=([^ ]+) msg="\<close>: the level and the message after the match.\<close>

definition dquote :: char where
  "dquote = CHR 0x22"

definition match_go :: "string \<Rightarrow> (string \<times> string) option" where
  "match_go s =
     Option.bind (literal (''time='' @ [dquote]) s) (\<lambda>r1.
     Option.bind (run1 (\<lambda>c. c \<noteq> dquote) r1) (\<lambda>(_, r2).
     Option.bind (literal ([dquote] @ '' level='') r2) (\<lambda>r3.
     Option.bind (run1 (\<lambda>c. c \<noteq> CHR '' '') r3) (\<lambda>(level, r4).
     Option.bind (literal ('' msg='' @ [dquote]) r4) (\<lambda>r5. Some (level, r5))))))"

datatype log_level = LInfo | LError | LWarn | LDebug | LTrace

definition short_level :: "char \<Rightarrow> log_level" where
  "short_level c =
     (if c = CHR ''I'' then LInfo else if c = CHR ''F'' \<or> c = CHR ''E'' then LError
      else if c = CHR ''W'' then LWarn else if c = CHR ''D'' then LDebug
      else if c = CHR ''T'' then LTrace else LWarn)"

definition go_level :: "string \<Rightarrow> log_level" where
  "go_level l =
     (if l = ''info'' then LInfo else if l = ''fatal'' \<or> l = ''error'' then LError
      else if l = ''warn'' then LWarn else if l = ''debug'' then LDebug
      else if l = ''trace'' then LTrace else LWarn)"

section \<open>strconv.Unquote\<close>

text \<open>The text between double quotes; \<open>None\<close> where \<open>Unquote\<close> gives an error.\<close>

definition digit_value :: "nat \<Rightarrow> char \<Rightarrow> nat option" where
  "digit_value base c =
     (let n = (of_char c :: nat);
          v = (if 48 \<le> n \<and> n \<le> 57 then n - 48 else if 97 \<le> n \<and> n \<le> 102 then n - 87
               else if 65 \<le> n \<and> n \<le> 70 then n - 55 else 99)
      in if v < base then Some v else None)"

fun number_value :: "nat \<Rightarrow> nat \<Rightarrow> string \<Rightarrow> nat option" where
  "number_value base v [] = Some v"
| "number_value base v (c # cs) =
     (case digit_value base c of None \<Rightarrow> None | Some d \<Rightarrow> number_value base (v * base + d) cs)"

definition utf8 :: "nat \<Rightarrow> string" where
  "utf8 r =
     (if r < 128 then [char_of r]
      else if r < 2048 then [char_of (192 + r div 64), char_of (128 + r mod 64)]
      else if r < 65536 then
        [char_of (224 + r div 4096), char_of (128 + r div 64 mod 64), char_of (128 + r mod 64)]
      else
        [char_of (240 + r div 262144), char_of (128 + r div 4096 mod 64),
         char_of (128 + r div 64 mod 64), char_of (128 + r mod 64)])"

definition valid_rune :: "nat \<Rightarrow> bool" where
  "valid_rune r \<longleftrightarrow> r < 55296 \<or> 57343 < r \<and> r \<le> 1114111"

text \<open>The text an escape after the backslash stands for, and how many characters it takes.\<close>

definition escape :: "string \<Rightarrow> (string \<times> nat) option" where
  "escape s =
     (case s of
        [] \<Rightarrow> None
      | c # cs \<Rightarrow>
          (case map_of [(CHR ''a'', 7), (CHR ''b'', 8), (CHR ''f'', 12), (CHR ''n'', 10), (CHR ''r'', 13),
              (CHR ''t'', 9), (CHR ''v'', 11), (CHR 0x5C, 92), (dquote, 34)] c of
             Some n \<Rightarrow> Some ([char_of (n :: nat)], 1)
           | None \<Rightarrow>
               if c = CHR ''x'' \<and> 2 \<le> length cs then map_option (\<lambda>v. ([char_of v], 3)) (number_value 16 0 (take 2 cs))
               else if c = CHR ''u'' \<and> 4 \<le> length cs then
                 Option.bind (number_value 16 0 (take 4 cs)) (\<lambda>v. if valid_rune v then Some (utf8 v, 5) else None)
               else if c = CHR ''U'' \<and> 8 \<le> length cs then
                 Option.bind (number_value 16 0 (take 8 cs)) (\<lambda>v. if valid_rune v then Some (utf8 v, 9) else None)
               else if CHR ''0'' \<le> c \<and> c \<le> CHR ''7'' \<and> 2 \<le> length cs then
                 Option.bind (number_value 8 0 (c # take 2 cs)) (\<lambda>v. if v \<le> 255 then Some ([char_of v], 3) else None)
               else None))"

function unquote :: "string \<Rightarrow> string option" where
  "unquote [] = Some []"
| "unquote (c # cs) =
     (if c = dquote \<or> c = newline then None
      else if c \<noteq> CHR 0x5C then map_option (Cons c) (unquote cs)
      else
        (case escape cs of
           None \<Rightarrow> None
         | Some (w, n) \<Rightarrow> map_option (\<lambda>rest. w @ rest) (unquote (drop n cs))))"
  by pat_completeness auto
termination
  by (relation "measure length") auto

section \<open>Translating a line\<close>

text \<open>
  \<open>parseAndLogProcessLogLine\<close>: the level and message logged, or nothing if the line is in neither
  format. A message that is empty after \<open>msg="\<close> is indexed at \<open>-1\<close>.
\<close>

definition parse_log_line :: "string \<Rightarrow> ((log_level \<times> string) option) go" where
  "parse_log_line line =
     (case match_short line of
        Some (c, msg) \<Rightarrow> Ret (Some (short_level c, msg))
      | None \<Rightarrow>
          (case match_go line of
             None \<Rightarrow> Ret None
           | Some (level, msg) \<Rightarrow>
               if msg = [] then Panic ''index out of range [-1]''
               else
                 (let m1 = (if last msg = dquote then butlast msg else msg);
                      m2 = (case unquote m1 of Some u \<Rightarrow> u | None \<Rightarrow> m1)
                  in Ret (Some (go_level level, m2)))))"

definition contains :: "string \<Rightarrow> string \<Rightarrow> bool" where
  "contains s w \<longleftrightarrow> sublist w s"

definition log_stdout :: "string \<Rightarrow> (log_level \<times> string) go" where
  "log_stdout line =
     go_bind (parse_log_line line) (\<lambda>r.
       case r of
         Some l \<Rightarrow> Ret l
       | None \<Rightarrow>
           (let lower = to_lower line in
            if contains lower ''fail'' \<or> contains lower ''error'' \<or> contains lower ''warn'' \<or> contains lower ''invalid''
            then Ret (LError, line) else Ret (LInfo, line)))"

definition log_stderr :: "string \<Rightarrow> (log_level \<times> string) go" where
  "log_stderr line =
     go_bind (parse_log_line line) (\<lambda>r. case r of Some l \<Rightarrow> Ret l | None \<Rightarrow> Ret (LWarn, line))"

lemma takeWhile_run: "(\<And>c. c \<in> set w \<Longrightarrow> p c) \<Longrightarrow> \<not> p d \<Longrightarrow> takeWhile p (w @ d # r) = w \<and> dropWhile p (w @ d # r) = d # r"
  by (induction w) auto

lemma run1_append:
  "w \<noteq> [] \<Longrightarrow> (\<And>c. c \<in> set w \<Longrightarrow> p c) \<Longrightarrow> \<not> p d \<Longrightarrow> run1 p (w @ d # r) = Some (w, d # r)"
  using takeWhile_run [of w p d r] by (cases w) (auto simp: run1_def)

lemma literal_append [simp]: "literal w (w @ r) = Some r"
  by (simp add: literal_def)

definition go_log_line :: "string \<Rightarrow> string \<Rightarrow> string \<Rightarrow> string" where
  "go_log_line time level msg =
     ''time='' @ [dquote] @ time @ [dquote] @ '' level='' @ level @ '' msg='' @ [dquote] @ msg @ [dquote]"

lemma unquote_plain: "set msg \<inter> {dquote, newline, CHR 0x5C} = {} \<Longrightarrow> unquote msg = Some msg"
  by (induction msg) auto

lemma match_go_prefix:
  assumes "time \<noteq> []" "dquote \<notin> set time" "level \<noteq> []" "CHR '' '' \<notin> set level"
  shows "match_go (''time='' @ [dquote] @ time @ [dquote] @ '' level='' @ level @ '' msg='' @ [dquote] @ rest) = Some (level, rest)"
proof -
  have 1: "literal (''time='' @ [dquote]) (''time='' @ [dquote] @ t) = Some t" for t
    using literal_append [of "''time='' @ [dquote]" t] by simp
  have 2: "run1 (\<lambda>c. c \<noteq> dquote) (time @ [dquote] @ t) = Some (time, dquote # t)" for t
    using assms(1,2) run1_append [of time "\<lambda>c. c \<noteq> dquote" dquote t] by auto
  have 3: "literal ([dquote] @ '' level='') (dquote # '' level='' @ t) = Some t" for t
    using literal_append [of "[dquote] @ '' level=''" t] by simp
  have 4: "run1 (\<lambda>c. c \<noteq> CHR '' '') (level @ '' msg='' @ t) = Some (level, '' msg='' @ t)" for t
    using assms(3,4) run1_append [of level "\<lambda>c. c \<noteq> CHR '' ''" "CHR '' ''" "''msg='' @ t"] by auto
  have 5: "literal ('' msg='' @ [dquote]) ('' msg='' @ [dquote] @ t) = Some t" for t
    using literal_append [of "'' msg='' @ [dquote]" t] by simp
  show ?thesis
    unfolding match_go_def 1 Option.bind.simps 2 prod.case 3 4 5 by simp
qed

section \<open>Properties\<close>

text \<open>
  Process output is passed on line by line: whatever a process writes, no piece passed to the log is
  empty or longer than the buffer of 65536 bytes, and when its lines are shorter than that they
  are passed on one by one, in order, without line ends, blank ones left out.
\<close>

theorem process_output_lines:
  "list_all (\<lambda>l. l \<noteq> [] \<and> length l \<le> 65536) (stream_lines bufferCapacity out) \<and>
   stream_lines bufferCapacity (concat (map (\<lambda>l. l @ [newline]) (filter (\<lambda>l. length l < 65536 \<and> newline \<notin> set l) ls))) =
     filter (\<lambda>l. l \<noteq> []) (map drop_cr (filter (\<lambda>l. length l < 65536 \<and> newline \<notin> set l) ls))"
  using stream_lines_bounded [of _ bufferCapacity out]
    stream_lines_short [of bufferCapacity "filter (\<lambda>l. length l < 65536 \<and> newline \<notin> set l) ls"]
  by (auto simp: list_all_iff bufferCapacity_def)

text \<open>
  Log lines of the Go logger keep level and message: a line with a time, a level without spaces and a
  plain message is logged with that message at that level (unknown levels as warnings). The one
  line of that format that is not handled is the one cut off right after \<open>msg="\<close>: it panics.
\<close>

theorem go_log_line_translated:
  assumes "time \<noteq> []" "dquote \<notin> set time" "level \<noteq> []" "CHR '' '' \<notin> set level"
    and "set msg \<inter> {dquote, newline, CHR 0x5C} = {}"
  shows "parse_log_line (go_log_line time level msg) = Ret (Some (go_level level, msg)) \<and>
    parse_log_line (butlast (go_log_line time level [])) = Panic ''index out of range [-1]''"
proof -
  let ?p = "\<lambda>rest. ''time='' @ [dquote] @ time @ [dquote] @ '' level='' @ level @ '' msg='' @ [dquote] @ rest"
  have line: "go_log_line time level msg = ?p (msg @ [dquote])" by (simp add: go_log_line_def)
  have cut: "butlast (go_log_line time level []) = ?p []" by (simp add: go_log_line_def butlast_append)
  have short: "match_short (?p rest) = None" for rest by (simp add: match_short_def)
  show ?thesis
    unfolding line cut parse_log_line_def short match_go_prefix [OF assms(1-4)]
    using unquote_plain [OF assms(5)] by (simp add: Let_def)
qed

theorem go_log_line_translated_witness:
  "parse_log_line (go_log_line ''2024-01-01T00:00:00Z'' ''error'' ''listen failed'') = Ret (Some (LError, ''listen failed''))"
  using go_log_line_translated [of "''2024-01-01T00:00:00Z''" "''error''" "''listen failed''"]
  by (simp add: dquote_def newline_def go_level_def)

end
