(* ===== verification/Startup.thy ===== *)
theory Startup
  imports ApiServer Discovery Recovery Rest
begin

text \<open>
  How the server is put together (\<open>NewServer\<close> in \<open>pkg/apiserver/server.go\<close>): the options and their defaults,
  the accounts, the stores with what a first start creates in them, the resources of the API and the hooks.
  What the operating system, the random numbers and the libraries answer is the record \<open>start_env\<close>; what
  is read from the directories of the stores is the record \<open>server_dirs\<close>. Of a start that fails only the
  error is modelled, not what it left in the directories.
\<close>

section \<open>Options\<close>

record server_options =
  so_DeviceName :: string
  so_HTTPSAddress :: string
  so_HTTPSPort :: int
  so_HTTPAddress :: string
  so_HTTPPort :: int
  so_AdvertiseIfaces :: "string list"
  so_WebDir :: string
  so_ManifestDir :: string
  so_DataDir :: string
  so_KubeletArgs :: "string list"
  so_Docker :: bool
  so_WriteHostResolvConf :: bool

text \<open>The defaults: the device has the name of the host, and none when the host does not tell.\<close>

definition NewServerOptions :: "go_error + string \<Rightarrow> server_options" where
  "NewServerOptions hostname =
     \<lparr>so_DeviceName = (case hostname of Inl _ \<Rightarrow> [] | Inr n \<Rightarrow> n), so_HTTPSAddress = ''0.0.0.0'', so_HTTPSPort = 443,
      so_HTTPAddress = ''0.0.0.0'', so_HTTPPort = 80, so_AdvertiseIfaces = [], so_WebDir = ''/usr/share/kubemate/web'',
      so_ManifestDir = ''/usr/share/kubemate/manifests'', so_DataDir = ''/var/lib/kubemate'', so_KubeletArgs = [],
      so_Docker = False, so_WriteHostResolvConf = False\<rparr>"

section \<open>What a start finds\<close>

datatype accounts_file = AccountsMissing | AccountsError go_error | AccountsRead "(string \<times> user_info) list"

record start_env =
  st_mkdir :: "string \<Rightarrow> go_error option"
  st_ifaces :: "go_error + string list"
  st_selfSigned :: "go_error option"
  st_applyTLS :: "int \<Rightarrow> go_error + string option"
  st_client :: "go_error option"
  st_accounts :: accounts_file
  st_adminDraws :: "nat \<Rightarrow> go_error + nat"
  st_controllerDraws :: "nat \<Rightarrow> go_error + nat"
  st_complete :: "go_error option"
  st_base64 :: "string \<Rightarrow> string"
  st_joinDraws :: "nat \<Rightarrow> go_error + nat"
  st_password :: "go_error + string"
  st_install :: "go_error option"
  st_env :: env

text \<open>
  \<open>st_applyTLS\<close> is what the option library makes of the HTTPS port (\<open>ApplyTo\<close>): an error, or the serving of
  HTTPS with its certificate, or none. It is documented to leave the serving nil for a port that
  is not positive.
\<close>

definition serves_positive_ports :: "start_env \<Rightarrow> bool" where
  "serves_positive_ports h \<longleftrightarrow> (\<forall>port. st_applyTLS h port = Inr None \<longleftrightarrow> port \<le> 0)"

text \<open>The codecs of the stores, and whether the types of the reconcilers register with a scheme.\<close>

record 'b server_codecs =
  sc_ifaces :: "(netif, 'b) codec"
  sc_accounts :: "(user_account, 'b) codec"
  sc_devices :: "(device, 'b) codec"
  sc_tokens :: "(device_token, 'b) codec"
  sc_passwords :: "(wifi_password, 'b) codec"
  sc_addToScheme :: "go_error option"

record 'b server_dirs =
  sd_netconfig :: "go_error + 'b dir option"
  sd_useraccounts :: "go_error + 'b dir option"
  sd_deviceconfig :: "go_error + 'b dir option"
  sd_devicetokens :: "go_error + 'b dir option"
  sd_wifipasswords :: "go_error + 'b dir option"

section \<open>Steps of a start\<close>

text \<open>\<open>if err != nil { return nil, err }\<close>\<close>

definition err_then :: "go_error option \<Rightarrow> go_error + 'a \<Rightarrow> go_error + 'a" where
  "err_then err x = (case err of Some e \<Rightarrow> Inl e | None \<Rightarrow> x)"

definition err_bind :: "go_error + 'a \<Rightarrow> ('a \<Rightarrow> go_error + 'b) \<Rightarrow> go_error + 'b" where
  "err_bind x f = (case x of Inl e \<Rightarrow> Inl e | Inr a \<Rightarrow> f a)"

definition wrap_error :: "string \<Rightarrow> go_error + 'a \<Rightarrow> go_error + 'a" where
  "wrap_error msg x = (case x of Inl e \<Rightarrow> Inl (Wrap msg e) | Inr a \<Rightarrow> Inr a)"

lemma err_simps [simp]:
  "err_then err x = Inr a \<longleftrightarrow> err = None \<and> x = Inr a" "err_bind y f = Inr b \<longleftrightarrow> (\<exists>c. y = Inr c \<and> f c = Inr b)"
  "wrap_error msg y = Inr c \<longleftrightarrow> y = Inr c"
  by (auto simp: err_then_def err_bind_def wrap_error_def split: option.splits sum.splits)

definition advertise_ifaces :: "go_error + string list \<Rightarrow> server_options \<Rightarrow> go_error + server_options" where
  "advertise_ifaces ifaces opts =
     (if so_AdvertiseIfaces opts = [] then
        err_bind (wrap_error ''detect default network interfaces: '' (detectIfaces ifaces))
          (\<lambda>names. Inr (opts\<lparr>so_AdvertiseIfaces := names\<rparr>))
      else Inr opts)"

text \<open>The accounts of the file, or none and a generated admin token.\<close>

definition start_accounts :: "accounts_file \<Rightarrow> (nat \<Rightarrow> go_error + nat) \<Rightarrow> go_error + (string \<times> user_info) list option \<times> string" where
  "start_accounts file draws =
     (case file of
        AccountsRead us \<Rightarrow> Inr (Some us, [])
      | AccountsError err \<Rightarrow> Inl err
      | AccountsMissing \<Rightarrow>
          err_bind (wrap_error ''generate admin token: '' (GenerateRandomString 8 draws)) (\<lambda>token. Inr (None, token)))"

record 'b server_stores =
  ss_Interfaces :: "(netif, 'b) filestore"
  ss_Certificates :: "certificate memstore"
  ss_UserAccounts :: "(user_account, 'b) filestore"
  ss_Discovered :: "device_discovery memstore"
  ss_Devices :: "(device, 'b) filestore"
  ss_Tokens :: "(device_token, 'b) filestore"
  ss_WifiNetworks :: "wifi_network memstore"
  ss_WifiPasswords :: "(wifi_password, 'b) filestore"

text \<open>
  The certificate of the server is read from its serving of HTTPS once the interfaces are there; without one
  that is a nil pointer.
\<close>

definition start_stores ::
  "'b server_codecs \<Rightarrow> start_env \<Rightarrow> string option \<Rightarrow> string \<Rightarrow> 'b server_dirs \<Rightarrow> (go_error + 'b server_stores) go" where
  "start_stores c h serving deviceName d =
     (case FileStore (sc_ifaces c) netif_rt (st_env h) (sd_netconfig d) of
        Inl err \<Rightarrow> Ret (Inl err)
      | Inr ifaces \<Rightarrow>
          (case serving of
             None \<Rightarrow> Panic ''nil pointer dereference''
           | Some caCert \<Rightarrow>
               go_bind (NewCertificateREST (st_base64 h) (st_env h) caCert) (\<lambda>certs. Ret
                 (err_bind (FileStore (sc_accounts c) useraccount_rt (st_env h) (sd_useraccounts d)) (\<lambda>useraccounts.
                  err_bind (wrap_error ''load device config store: ''
                    (newDeviceStore (sc_devices c) (st_env h) deviceName (sd_deviceconfig d))) (\<lambda>devices.
                  err_bind (NewDeviceTokenREST (sc_tokens c) deviceName (st_joinDraws h) (st_env h) (sd_devicetokens d)) (\<lambda>tokens.
                  err_bind (NewWifiPasswordREST (sc_passwords c) (st_password h) (st_env h) (sd_wifipasswords d)) (\<lambda>passwords.
                  Inr \<lparr>ss_Interfaces = ifaces, ss_Certificates = certs, ss_UserAccounts = useraccounts, ss_Discovered = InMemory,
                      ss_Devices = devices, ss_Tokens = tokens, ss_WifiNetworks = InMemory, ss_WifiPasswords = passwords\<rparr>))))))))"

section \<open>The server\<close>

definition filepath_Join :: "string list \<Rightarrow> string" where
  "filepath_Join elems =
     (let ps = filter (\<lambda>e. e \<noteq> []) elems in if ps = [] then [] else path_clean (join ''/'' ps))"

text \<open>What the generic API server is configured with.\<close>

record server_config =
  sg_BindAddress :: string
  sg_BindPort :: int
  sg_CertDirectory :: string
  sg_ExternalAddress :: string
  sg_CertIPs :: "string list"
  sg_LoopbackHost :: string
  sg_LongRunningVerbs :: "string list"
  sg_LongRunningSubresources :: "string list"
  sg_Title :: string
  sg_Audiences :: "string list"

definition server_config_of :: "server_options \<Rightarrow> server_config" where
  "server_config_of opts =
     \<lparr>sg_BindAddress = so_HTTPSAddress opts, sg_BindPort = so_HTTPSPort opts,
      sg_CertDirectory = filepath_Join [so_DataDir opts, ''certificates''],
      sg_ExternalAddress = externalAddr (so_DeviceName opts) (so_HTTPSPort opts), sg_CertIPs = [''127.0.0.1''],
      sg_LoopbackHost = localAddr (so_HTTPPort opts), sg_LongRunningVerbs = [''watch'', ''proxy''],
      sg_LongRunningSubresources = [''attach'', ''exec'', ''proxy'', ''log'', ''portforward''],
      sg_Title = ''kubemate'', sg_Audiences = [adminGroup, ''ui'']\<rparr>"

text \<open>The fields of the reconcilers that are no stores; the stores are those of the server.\<close>

record netif_reconciler =
  nr_DeviceName :: string
  nr_NetworkInterfaces :: "string list"

record device_reconciler =
  dr_DeviceName :: string
  dr_DeviceAddress :: string
  dr_DataDir :: string
  dr_ManifestDir :: string
  dr_ExternalPort :: int
  dr_Docker :: bool
  dr_KubeletArgs :: "string list"
  dr_NetworkInterfaceNames :: "string list"

definition new_netif_reconciler :: "server_options \<Rightarrow> netif_reconciler" where
  "new_netif_reconciler opts = \<lparr>nr_DeviceName = so_DeviceName opts, nr_NetworkInterfaces = so_AdvertiseIfaces opts\<rparr>"

definition new_device_reconciler :: "server_options \<Rightarrow> device_reconciler" where
  "new_device_reconciler opts =
     \<lparr>dr_DeviceName = so_DeviceName opts, dr_DeviceAddress = externalAddr (so_DeviceName opts) (so_HTTPSPort opts),
      dr_DataDir = filepath_Join [so_DataDir opts, ''k3s''], dr_ManifestDir = so_ManifestDir opts,
      dr_ExternalPort = so_HTTPSPort opts, dr_Docker = so_Docker opts, dr_KubeletArgs = so_KubeletArgs opts,
      dr_NetworkInterfaceNames = so_AdvertiseIfaces opts\<rparr>"

text \<open>The settings of the wifi component.\<close>

record wifi_settings =
  wi_WriteHostResolvConf :: bool
  wi_DNSKeyFile :: string
  wi_CaptivePortalURL :: string

definition wifi_settings_of :: "server_options \<Rightarrow> wifi_settings" where
  "wifi_settings_of opts =
     \<lparr>wi_WriteHostResolvConf = so_WriteHostResolvConf opts,
      wi_DNSKeyFile = filepath_Join [so_DataDir opts, ''k3s'', ''dns'', ''zone.key''],
      wi_CaptivePortalURL = ''https://'' @ externalAddr (so_DeviceName opts) (so_HTTPSPort opts)\<rparr>"

record 'b server =
  sv_Options :: server_options
  sv_Config :: server_config
  sv_ProxyTLSDir :: string
  sv_Accounts :: "(string \<times> user_info) list option"
  sv_AdminToken :: string
  sv_ControllerToken :: string
  sv_Stores :: "'b server_stores"
  sv_Discovery :: "device_discovery memstore discovery"
  sv_Wifi :: wifi_settings
  sv_Ingress :: ingress_controller
  sv_Resources :: "string list"
  sv_NetifReconciler :: netif_reconciler
  sv_DeviceReconciler :: device_reconciler
  sv_Hooks :: "string list"

definition api_resources :: "string list" where
  "api_resources = [''networkinterfaces'', ''certificates'', ''useraccounts'', ''devices'', ''devices/shutdown'', ''devicediscovery'',
     ''devicetokens'', ''wifipasswords'', ''wifinetworks'']"

text \<open>The name, the data directory and the interfaces to advertise.\<close>

definition start_checks :: "start_env \<Rightarrow> server_options \<Rightarrow> go_error + server_options" where
  "start_checks h opts =
     (if so_DeviceName opts = [] then Inl (Errorf ''no device name specified'')
      else err_then (st_mkdir h (filepath_Join [so_DataDir opts, ''rancher''])) (advertise_ifaces (st_ifaces h) opts))"

text \<open>The serving of HTTPS, the client, the accounts, the token of the controllers and the generic server.\<close>

definition start_identity ::
  "start_env \<Rightarrow> int \<Rightarrow> go_error + string option \<times> (string \<times> user_info) list option \<times> string \<times> string" where
  "start_identity h port =
     err_then (st_selfSigned h)
     (err_bind (st_applyTLS h port) (\<lambda>serving.
      err_then (map_option (Wrap ''failed to create real external clientset: '') (st_client h))
     (err_bind (start_accounts (st_accounts h) (st_adminDraws h)) (\<lambda>(accts, adminToken).
      err_bind (GenerateRandomString 16 (st_controllerDraws h)) (\<lambda>controllerToken.
      err_then (st_complete h) (Inr (serving, accts, adminToken, controllerToken)))))))"

definition NewServer ::
  "'b server_codecs \<Rightarrow> start_env \<Rightarrow> server_options \<Rightarrow> 'b server_dirs \<Rightarrow> (go_error + 'b server) go" where
  "NewServer c h opts0 d =
     (case err_bind (start_checks h opts0) (\<lambda>opts. err_bind (start_identity h (so_HTTPSPort opts)) (\<lambda>ident. Inr (opts, ident))) of
        Inl err \<Rightarrow> Ret (Inl err)
      | Inr (opts, serving, accts, adminToken, controllerToken) \<Rightarrow>
          go_bind (start_stores c h serving (so_DeviceName opts) d) (\<lambda>stores. Ret
            (err_bind stores (\<lambda>s.
             err_then (map_option (Wrap ''install apigroup: '') (st_install h))
             (Inr \<lparr>sv_Options = opts, sv_Config = server_config_of opts,
                 sv_ProxyTLSDir = filepath_Join [filepath_Join [so_DataDir opts, ''k3s''], ''server'', ''tls''],
                 sv_Accounts = accts, sv_AdminToken = adminToken, sv_ControllerToken = controllerToken, sv_Stores = s,
                 sv_Discovery = NewDeviceDiscovery (so_DeviceName opts) (so_HTTPSPort opts) (so_AdvertiseIfaces opts) (ss_Discovered s),
                 sv_Wifi = wifi_settings_of opts, sv_Ingress = NewIngressController ''kubemate'', sv_Resources = api_resources,
                 sv_NetifReconciler = new_netif_reconciler opts, sv_DeviceReconciler = new_device_reconciler opts,
                 sv_Hooks = [''device-discovery'', ''device-controller'']\<rparr>)))))"

section \<open>Opening the stores\<close>

definition dir_ok :: "go_error + 'b dir option \<Rightarrow> bool" where
  "dir_ok rd = (case rd of Inr (Some d) \<Rightarrow> wf_map d | _ \<Rightarrow> True)"

text \<open>A store in order, whose directory holds what its memory holds.\<close>

definition sound :: "('a, 'b) codec \<Rightarrow> 'a resource_type \<Rightarrow> ('a, 'b) filestore \<Rightarrow> bool" where
  "sound codec rt s \<longleftrightarrow> fs_inv s \<and> mirrored codec rt s"

lemma opened_sound:
  assumes "dir_ok rd" "FileStore codec rt e rd = Inr s"
  shows "sound codec rt s"
proof -
  consider dir where "rd = Inr (Some dir)" | "rd = Inr None"
    using assms(2) by (cases rd rule: sum.exhaust; cases "projr rd") (auto simp: FileStore_def load_from_files_def)
  then show ?thesis
  proof cases
    case 1
    then have "wf_map dir" "FileStore codec rt e (Inr (Some dir)) = Inr s" using assms by (simp_all add: dir_ok_def)
    with load_dir [OF this(1) FileStore_readable [OF this(2,1)], of rt e] show ?thesis by (auto simp: sound_def)
  next
    case 2
    with assms(2) have "s = \<lparr>fs_mem = InMemory, fs_dir = []\<rparr>"
      by (auto simp: FileStore_def load_from_files_def split: option.splits)
    then show ?thesis by (simp add: sound_def fs_inv_def mirrored_def readable_def on_disk_def)
  qed
qed


lemma sound_create:
  assumes "faithful_codec codec rt" "sound codec rt s" "fs_create codec rt e s k r = (s', Inr r')"
  shows "sound codec rt s'" "fs_view s' k = Some r'" "body r' = body r"
proof -
  have c: "op_create (fs_ops codec rt) e s k r = (s', Inr r')" using assms(3) by (simp add: fs_ops_def)
  show "sound codec rt s'"
    using fs.create_inv [of s codec rt e k r] mirrored_create [of codec rt s e k r] assms c by (simp add: sound_def)
  show "fs_view s' k = Some r'" "body r' = body r" using fs.create_ok [OF _ c] assms(2) by (simp_all add: sound_def)
qed

lemma sound_update:
  assumes "faithful_codec codec rt" "sound codec rt s" "fs_update codec rt e s k f = (s', Inr r')"
  shows "sound codec rt s'" "fs_view s' k = Some r'" "\<exists>old new. f old = Inr new \<and> body r' = body new"
proof -
  have c: "op_update (fs_ops codec rt) e s k f = (s', Inr r')" using assms(3) by (simp add: fs_ops_def)
  have inv: "fs_inv s" using assms(2) by (simp add: sound_def)
  show "sound codec rt s'"
    using fs.update_inv [OF inv, of codec rt e k f] mirrored_update [of codec rt s e k f] assms c by (simp add: sound_def)
  show "fs_view s' k = Some r'" "\<exists>old new. f old = Inr new \<and> body r' = body new" using fs.update_ok [OF inv c] by auto
qed

lemma length_GenerateRandomString: "GenerateRandomString n draws = Inr t \<Longrightarrow> length t = n"
  by (induction n arbitrary: draws t) (auto split: sum.splits)

lemma newDeviceStore_sound:
  assumes "faithful_codec codec device_rt" "dir_ok rd" "newDeviceStore codec e n rd = Inr s"
  shows "sound codec device_rt s \<and> (\<exists>d. fs_view s n = Some d)"
proof -
  obtain s0 where s0: "FileStore codec device_rt e rd = Inr s0" using assms(3) by (auto simp: newDeviceStore_def split: sum.splits)
  note o0 = opened_sound [OF assms(2) s0]
  show ?thesis
  proof (cases "fs_view s0 n")
    case None
    with assms(3) s0 obtain r where "fs_create codec device_rt e s0 n (default_device n) = (s, Inr r)"
      by (auto simp: newDeviceStore_def mem_get_def split: sum.splits prod.splits)
    from sound_create [OF assms(1) o0 this] show ?thesis by simp
  next
    case (Some d)
    with assms(3) s0 o0 show ?thesis by (simp add: newDeviceStore_def mem_get_def)
  qed
qed

lemma regenerate_token_sound:
  assumes "faithful_codec codec token_rt" "sound codec token_rt s" "regenerate_token (fs_ops codec token_rt) n draws e s = (s', Inr t)"
  shows "sound codec token_rt s' \<and> fs_view s' n = Some t \<and> length (dt_Token (body t)) = 32"
proof -
  obtain tok where tok: "GenerateRandomString 32 draws = Inr tok" using assms(3) by (auto simp: regenerate_token_def split: sum.splits)
  let ?b = "\<lparr>dt_Token = tok, dt_JoinToken = []\<rparr>"
  have "fs_create codec token_rt e s n (new_resource [] ?b) = (s', Inr t) \<or>
      fs_update codec token_rt e s n (\<lambda>t. Inr (t\<lparr>body := ?b\<rparr>)) = (s', Inr t)"
    using assms(3) tok by (auto simp: regenerate_token_def fs_ops_def split: sum.splits if_splits)
  then have "sound codec token_rt s' \<and> fs_view s' n = Some t \<and> body t = ?b"
    using sound_create [OF assms(1,2)] sound_update [OF assms(1,2)] by (fastforce simp: new_resource_def)
  with length_GenerateRandomString [OF tok] show ?thesis by simp
qed

lemma NewDeviceTokenREST_sound:
  assumes "faithful_codec codec token_rt" "dir_ok rd" "NewDeviceTokenREST codec n draws e rd = Inr s"
  shows "sound codec token_rt s \<and> (\<exists>t. fs_view s n = Some t \<and> dt_Token (body t) \<noteq> [])"
proof -
  obtain s0 where s0: "FileStore codec token_rt e rd = Inr s0" using assms(3) by (auto simp: NewDeviceTokenREST_def split: sum.splits)
  note o0 = opened_sound [OF assms(2) s0]
  show ?thesis
  proof (cases "\<exists>t. fs_view s0 n = Some t \<and> dt_Token (body t) \<noteq> []")
    case True
    with assms(3) s0 o0 show ?thesis by (auto simp: NewDeviceTokenREST_def mem_get_def)
  next
    case False
    then obtain t where "regenerate_token (fs_ops codec token_rt) n draws e s0 = (s, Inr t)"
      using assms(3) s0
      by (auto simp: NewDeviceTokenREST_def mem_get_def split: sum.splits prod.splits option.splits if_splits)
    from regenerate_token_sound [OF assms(1) o0 this] show ?thesis by auto
  qed
qed

lemma NewWifiPasswordREST_sound:
  assumes "faithful_codec codec wifipassword_rt" "dir_ok rd" "NewWifiPasswordREST codec password e rd = Inr s"
    and "password \<noteq> Inr []"
  shows "sound codec wifipassword_rt s \<and> (\<exists>p. fs_view s AccessPointPasswordKey = Some p \<and> body p \<noteq> [])"
proof -
  obtain s0 where s0: "FileStore codec wifipassword_rt e rd = Inr s0"
    using assms(3) by (auto simp: NewWifiPasswordREST_def split: sum.splits)
  note o0 = opened_sound [OF assms(2) s0]
  show ?thesis
  proof (cases "\<exists>t. fs_view s0 AccessPointPasswordKey = Some t \<and> body t \<noteq> []")
    case True
    with assms(3) s0 o0 show ?thesis by (auto simp: NewWifiPasswordREST_def mem_get_def Let_def)
  next
    case False
    then have "regenerate_wifi_password (fs_ops codec wifipassword_rt) password e s0 = (s, None)"
      using assms(3) s0
      by (auto simp: NewWifiPasswordREST_def mem_get_def Let_def split: sum.splits prod.splits option.splits if_splits)
    then obtain pw r where "password = Inr pw"
      "fs_create codec wifipassword_rt e s0 AccessPointPasswordKey (new_resource [] pw) = (s, Inr r) \<or>
       fs_update codec wifipassword_rt e s0 AccessPointPasswordKey (\<lambda>r. Inr (r\<lparr>body := pw\<rparr>)) = (s, Inr r)"
      by (auto simp: regenerate_wifi_password_def fs_ops_def split: sum.splits if_splits prod.splits)
    with assms(4) sound_create [OF assms(1) o0] sound_update [OF assms(1) o0] show ?thesis
      by (fastforce simp: new_resource_def)
  qed
qed

section \<open>Properties\<close>

definition faithful_codecs :: "'b server_codecs \<Rightarrow> bool" where
  "faithful_codecs c \<longleftrightarrow> faithful_codec (sc_ifaces c) netif_rt \<and> faithful_codec (sc_accounts c) useraccount_rt \<and>
     faithful_codec (sc_devices c) device_rt \<and> faithful_codec (sc_tokens c) token_rt \<and> faithful_codec (sc_passwords c) wifipassword_rt"

definition dirs_ok :: "'b server_dirs \<Rightarrow> bool" where
  "dirs_ok d \<longleftrightarrow> dir_ok (sd_netconfig d) \<and> dir_ok (sd_useraccounts d) \<and> dir_ok (sd_deviceconfig d) \<and>
     dir_ok (sd_devicetokens d) \<and> dir_ok (sd_wifipasswords d)"

definition stores_sound :: "'b server_codecs \<Rightarrow> 'b server_stores \<Rightarrow> bool" where
  "stores_sound c s \<longleftrightarrow> sound (sc_ifaces c) netif_rt (ss_Interfaces s) \<and> sound (sc_accounts c) useraccount_rt (ss_UserAccounts s) \<and>
     sound (sc_devices c) device_rt (ss_Devices s) \<and> sound (sc_tokens c) token_rt (ss_Tokens s) \<and>
     sound (sc_passwords c) wifipassword_rt (ss_WifiPasswords s)"

text \<open>What the device cannot do without: its own resource, a token to join its cluster and a password of the access point.\<close>

definition equipped :: "string \<Rightarrow> 'b server_stores \<Rightarrow> bool" where
  "equipped n s \<longleftrightarrow> fs_view (ss_Devices s) n \<noteq> None \<and>
     (case fs_view (ss_Tokens s) n of None \<Rightarrow> False | Some t \<Rightarrow> dt_Token (body t) \<noteq> []) \<and>
     (case fs_view (ss_WifiPasswords s) AccessPointPasswordKey of None \<Rightarrow> False | Some p \<Rightarrow> body p \<noteq> [])"

lemma start_stores_parts:
  assumes "start_stores c h serving n d = Ret (Inr s)"
  shows "FileStore (sc_ifaces c) netif_rt (st_env h) (sd_netconfig d) = Inr (ss_Interfaces s)"
    "FileStore (sc_accounts c) useraccount_rt (st_env h) (sd_useraccounts d) = Inr (ss_UserAccounts s)"
    "newDeviceStore (sc_devices c) (st_env h) n (sd_deviceconfig d) = Inr (ss_Devices s)"
    "NewDeviceTokenREST (sc_tokens c) n (st_joinDraws h) (st_env h) (sd_devicetokens d) = Inr (ss_Tokens s)"
    "NewWifiPasswordREST (sc_passwords c) (st_password h) (st_env h) (sd_wifipasswords d) = Inr (ss_WifiPasswords s)"
    "serving \<noteq> None"
  using assms by (auto simp: start_stores_def go_bind_Ret_iff split: sum.splits option.splits)

lemma start_stores_sound:
  assumes "faithful_codecs c" "dirs_ok d" "start_stores c h serving n d = Ret (Inr s)"
  shows "stores_sound c s" "st_password h \<noteq> Inr [] \<Longrightarrow> equipped n s"
proof -
  have s: "FileStore (sc_ifaces c) netif_rt (st_env h) (sd_netconfig d) = Inr (ss_Interfaces s)"
    "FileStore (sc_accounts c) useraccount_rt (st_env h) (sd_useraccounts d) = Inr (ss_UserAccounts s)"
    "newDeviceStore (sc_devices c) (st_env h) n (sd_deviceconfig d) = Inr (ss_Devices s)"
    "NewDeviceTokenREST (sc_tokens c) n (st_joinDraws h) (st_env h) (sd_devicetokens d) = Inr (ss_Tokens s)"
    "NewWifiPasswordREST (sc_passwords c) (st_password h) (st_env h) (sd_wifipasswords d) = Inr (ss_WifiPasswords s)"
    by (rule start_stores_parts [OF assms(3)])+
  have f: "faithful_codec (sc_devices c) device_rt" "faithful_codec (sc_tokens c) token_rt" "faithful_codec (sc_passwords c) wifipassword_rt"
    "dir_ok (sd_netconfig d)" "dir_ok (sd_useraccounts d)" "dir_ok (sd_deviceconfig d)" "dir_ok (sd_devicetokens d)" "dir_ok (sd_wifipasswords d)"
    using assms(1,2) by (simp_all add: faithful_codecs_def dirs_ok_def)
  show "equipped n s" if "st_password h \<noteq> Inr []"
    using newDeviceStore_sound [OF f(1,6) s(3)] NewDeviceTokenREST_sound [OF f(2,7) s(4)]
      NewWifiPasswordREST_sound [OF f(3,8) s(5) that] by (auto simp: equipped_def)
  have "sound (sc_passwords c) wifipassword_rt (ss_WifiPasswords s)"
  proof (cases "st_password h = Inr []")
    case True
    with s(5) obtain s0 where s0: "FileStore (sc_passwords c) wifipassword_rt (st_env h) (sd_wifipasswords d) = Inr s0"
      by (auto simp: NewWifiPasswordREST_def split: sum.splits)
    note o0 = opened_sound [OF f(8) s0]
    from s(5) s0 have "ss_WifiPasswords s = s0 \<or>
        regenerate_wifi_password (fs_ops (sc_passwords c) wifipassword_rt) (Inr []) (st_env h) s0 = (ss_WifiPasswords s, None)"
      by (auto simp: NewWifiPasswordREST_def Let_def True split: sum.splits prod.splits option.splits if_splits)
    then show ?thesis
      using o0 sound_create(1) [OF f(3) o0] sound_update(1) [OF f(3) o0]
      by (auto simp: regenerate_wifi_password_def fs_ops_def split: sum.splits if_splits prod.splits)
  next
    case False
    with NewWifiPasswordREST_sound [OF f(3,8) s(5)] show ?thesis by simp
  qed
  then show "stores_sound c s"
    using opened_sound [OF f(4) s(1)] opened_sound [OF f(5) s(2)] newDeviceStore_sound [OF f(1,6) s(3)]
      NewDeviceTokenREST_sound [OF f(2,7) s(4)] by (simp add: stores_sound_def)
qed

lemma go_bind_Panic_iff: "go_bind x f = Panic m \<longleftrightarrow> x = Panic m \<or> (\<exists>a. x = Ret a \<and> f a = Panic m)"
  by (cases x) auto

lemma start_stores_Panic: "start_stores c h serving n d = Panic m \<Longrightarrow> serving = None"
  using NewCertificateREST_Ret [of "st_base64 h" "st_env h" "the serving"]
  by (auto simp: start_stores_def split: sum.splits option.splits)

lemma start_checks_port: "start_checks h opts0 = Inr opts \<Longrightarrow> so_HTTPSPort opts = so_HTTPSPort opts0 \<and> so_DeviceName opts = so_DeviceName opts0"
  by (auto simp: start_checks_def advertise_ifaces_def split: if_splits)

lemma start_identity_serving: "start_identity h port = Inr (serving, ident) \<Longrightarrow> st_applyTLS h port = Inr serving"
  by (auto simp: start_identity_def split: prod.splits)

lemma NewServer_Panic:
  assumes "NewServer c h opts d = Panic m"
  shows "st_applyTLS h (so_HTTPSPort opts) = Inr None"
proof -
  obtain opts' serving ident where i: "start_checks h opts = Inr opts'" "start_identity h (so_HTTPSPort opts') = Inr (serving, ident)"
      "start_stores c h serving (so_DeviceName opts') d = Panic m"
    using assms by (auto simp: NewServer_def go_bind_Panic_iff split: sum.splits)
  with start_stores_Panic [OF i(3)] start_identity_serving [OF i(2)] start_checks_port [OF i(1)] show ?thesis by simp
qed

lemma NewServer_stores:
  assumes "NewServer c h opts d = Ret (Inr sv)"
  shows "\<exists>cert. st_applyTLS h (so_HTTPSPort opts) = Inr (Some cert) \<and>
      start_stores c h (Some cert) (so_DeviceName opts) d = Ret (Inr (sv_Stores sv))" "so_DeviceName opts \<noteq> []"
    "so_DeviceName (sv_Options sv) = so_DeviceName opts" "length (sv_ControllerToken sv) = 16"
    "sv_Accounts sv = None \<Longrightarrow> length (sv_AdminToken sv) = 8"
proof -
  obtain opts' serving accts admin ctrl where i: "start_checks h opts = Inr opts'"
      "start_identity h (so_HTTPSPort opts') = Inr (serving, accts, admin, ctrl)"
      "start_stores c h serving (so_DeviceName opts') d = Ret (Inr (sv_Stores sv))"
      "sv_Options sv = opts'" "sv_ControllerToken sv = ctrl" "sv_Accounts sv = accts" "sv_AdminToken sv = admin"
    using assms by (auto simp: NewServer_def go_bind_Ret_iff split: sum.splits)
  note p = start_checks_port [OF i(1)] start_identity_serving [OF i(2)] start_stores_parts(6) [OF i(3)]
  from p i(3) show "\<exists>cert. st_applyTLS h (so_HTTPSPort opts) = Inr (Some cert) \<and>
      start_stores c h (Some cert) (so_DeviceName opts) d = Ret (Inr (sv_Stores sv))" by auto
  show "so_DeviceName opts \<noteq> []" using i(1) by (auto simp: start_checks_def split: if_splits)
  show "so_DeviceName (sv_Options sv) = so_DeviceName opts" using p(1) i(4) by simp
  show "length (sv_ControllerToken sv) = 16" "sv_Accounts sv = None \<Longrightarrow> length (sv_AdminToken sv) = 8"
    using i(2,5-7)
    by (auto simp: start_identity_def start_accounts_def length_GenerateRandomString split: accounts_file.splits)
qed

lemma NewServer_sound:
  assumes "NewServer c h opts d = Ret (Inr sv)" "faithful_codecs c" "dirs_ok d"
  shows "stores_sound c (sv_Stores sv)" "st_password h \<noteq> Inr [] \<Longrightarrow> equipped (so_DeviceName opts) (sv_Stores sv)"
  using NewServer_stores(1) [OF assms(1)] start_stores_sound [OF assms(2,3)] by blast+

text \<open>
  C5. A start succeeds, fails with an error or panics, and it panics only for an HTTPS port that is not
  positive, when there is no serving of HTTPS whose certificate could be read. When it succeeds the port
  is positive, the stores are in order and hold what their directories hold, and the device is equipped: its
  own resource exists, it has a token for its cluster and a password for its access point, kept if
  there was one and generated otherwise.
\<close>

theorem server_started:
  assumes "faithful_codecs c" "dirs_ok d" "st_password h \<noteq> Inr []" "serves_positive_ports h"
  shows "case NewServer c h opts d of
      Panic _ \<Rightarrow> so_HTTPSPort opts \<le> 0
    | Ret (Inl _) \<Rightarrow> True
    | Ret (Inr sv) \<Rightarrow> so_HTTPSPort opts > 0 \<and> so_DeviceName (sv_Options sv) \<noteq> [] \<and> stores_sound c (sv_Stores sv) \<and>
        equipped (so_DeviceName (sv_Options sv)) (sv_Stores sv) \<and> length (sv_ControllerToken sv) = 16"
proof (cases "NewServer c h opts d")
  case (Panic m)
  with NewServer_Panic [OF Panic] assms(4) show ?thesis by (simp add: serves_positive_ports_def)
next
  case (Ret res)
  show ?thesis
  proof (cases res)
    case (Inr sv)
    with Ret have r: "NewServer c h opts d = Ret (Inr sv)" by simp
    note n = NewServer_stores [OF this]
    have "st_applyTLS h (so_HTTPSPort opts) \<noteq> Inr None" using n(1) by auto
    then have "so_HTTPSPort opts > 0" using assms(4) by (auto simp: serves_positive_ports_def)
    with NewServer_sound [OF r assms(1,2)] assms(3) n(2-4) r show ?thesis by simp
  qed (use Ret in simp)
qed

text \<open>A first start on a new device.\<close>

datatype demo_file =
    FileIface "netif resource"
  | FileAccount "user_account resource"
  | FileDevice "device resource"
  | FileToken "device_token resource"
  | FilePassword "wifi_password resource"

definition demo_decode :: "('f \<Rightarrow> 'a resource option) \<Rightarrow> 'f option \<Rightarrow> go_error + 'a resource" where
  "demo_decode pr f = (case Option.bind f pr of None \<Rightarrow> Inl (Errorf ''unexpected content'') | Some r \<Rightarrow> Inr r)"

definition demo_codecs :: "demo_file server_codecs" where
  "demo_codecs =
     \<lparr>sc_ifaces = \<lparr>encode = \<lambda>r. Inr (FileIface r), decode = demo_decode (\<lambda>f. case f of FileIface r \<Rightarrow> Some r | _ \<Rightarrow> None)\<rparr>,
      sc_accounts = \<lparr>encode = \<lambda>r. Inr (FileAccount r), decode = demo_decode (\<lambda>f. case f of FileAccount r \<Rightarrow> Some r | _ \<Rightarrow> None)\<rparr>,
      sc_devices = \<lparr>encode = \<lambda>r. Inr (FileDevice r), decode = demo_decode (\<lambda>f. case f of FileDevice r \<Rightarrow> Some r | _ \<Rightarrow> None)\<rparr>,
      sc_tokens = \<lparr>encode = \<lambda>r. Inr (FileToken r), decode = demo_decode (\<lambda>f. case f of FileToken r \<Rightarrow> Some r | _ \<Rightarrow> None)\<rparr>,
      sc_passwords = \<lparr>encode = \<lambda>r. Inr (FilePassword r), decode = demo_decode (\<lambda>f. case f of FilePassword r \<Rightarrow> Some r | _ \<Rightarrow> None)\<rparr>,
      sc_addToScheme = None\<rparr>"

lemma demo_codecs_faithful: "faithful_codecs demo_codecs"
  by (simp add: faithful_codecs_def demo_codecs_def faithful_codec_def demo_decode_def clear_status_idem)

definition demo_start :: start_env where
  "demo_start =
     \<lparr>st_mkdir = \<lambda>_. None, st_ifaces = Inr [''lo'', ''eth0''], st_selfSigned = None,
      st_applyTLS = \<lambda>port. Inr (if port \<le> 0 then None else Some ''cert''), st_client = None,
      st_accounts = AccountsMissing, st_adminDraws = \<lambda>_. Inr 7, st_controllerDraws = \<lambda>_. Inr 8, st_complete = None,
      st_base64 = id, st_joinDraws = \<lambda>_. Inr 9, st_password = Inr ''weridona'', st_install = None,
      st_env = demo_env\<rparr>"

definition empty_dirs :: "'b server_dirs" where
  "empty_dirs = \<lparr>sd_netconfig = Inr None, sd_useraccounts = Inr None, sd_deviceconfig = Inr None, sd_devicetokens = Inr None,
     sd_wifipasswords = Inr None\<rparr>"

lemma empty_dirs_ok: "dirs_ok empty_dirs"
  by (simp add: dirs_ok_def empty_dirs_def dir_ok_def)

definition demo_options :: server_options where
  "demo_options = NewServerOptions (Inr ''pi'')"

lemma demo_started:
  "case NewServer demo_codecs demo_start demo_options empty_dirs of Ret (Inr sv) \<Rightarrow>
       so_AdvertiseIfaces (sv_Options sv) = [''eth0''] \<and> sv_ControllerToken sv = replicate 16 (CHR ''8'')
     | _ \<Rightarrow> False"
  by code_simp

lemma demo_started_ex:
  "\<exists>sv. NewServer demo_codecs demo_start demo_options empty_dirs = Ret (Inr sv) \<and> so_AdvertiseIfaces (sv_Options sv) = [''eth0'']"
  using demo_started by (auto split: go.splits sum.splits)

lemma demo_ports: "serves_positive_ports demo_start"
  by (simp add: serves_positive_ports_def demo_start_def)

theorem server_started_witness:
  "\<exists>sv. NewServer demo_codecs demo_start demo_options empty_dirs = Ret (Inr sv) \<and> equipped ''pi'' (sv_Stores sv)"
proof -
  obtain sv where sv: "NewServer demo_codecs demo_start demo_options empty_dirs = Ret (Inr sv)" using demo_started_ex by blast
  have "st_password demo_start \<noteq> Inr []" by (simp add: demo_start_def)
  from server_started [OF demo_codecs_faithful empty_dirs_ok this demo_ports, of demo_options] sv NewServer_stores(3) [OF sv]
  show ?thesis by (simp add: demo_options_def NewServerOptions_def)
qed

text \<open>
  Without HTTPS no server starts: for a port that is not positive a start that gets as far as the
  certificate of the server panics instead of reporting an error.
\<close>

theorem start_without_https_panics:
  assumes "st_applyTLS h (so_HTTPSPort opts) = Inr None" "start_checks h opts = Inr opts'"
    and "start_identity h (so_HTTPSPort opts) = Inr ident" "FileStore (sc_ifaces c) netif_rt (st_env h) (sd_netconfig d) = Inr s"
  shows "NewServer c h opts d = Panic ''nil pointer dereference''"
proof -
  have "fst ident = None" using start_identity_serving [of h "so_HTTPSPort opts" "fst ident" "snd ident"] assms(1,3) by simp
  with assms start_checks_port [OF assms(2)] show ?thesis
    by (cases ident) (simp add: NewServer_def err_bind_def start_stores_def)
qed

theorem start_without_https_panics_witness:
  "NewServer demo_codecs demo_start (demo_options\<lparr>so_HTTPSPort := 0\<rparr>) empty_dirs = Panic ''nil pointer dereference''"
proof -
  let ?o = "demo_options\<lparr>so_HTTPSPort := 0\<rparr>"
  have c: "case start_checks demo_start ?o of Inr _ \<Rightarrow> True | _ \<Rightarrow> False"
    "case start_identity demo_start (so_HTTPSPort ?o) of Inr _ \<Rightarrow> True | _ \<Rightarrow> False" by code_simp+
  have "st_applyTLS demo_start (so_HTTPSPort ?o) = Inr None"
    "FileStore (sc_ifaces demo_codecs) netif_rt (st_env demo_start) (sd_netconfig empty_dirs) = Inr \<lparr>fs_mem = InMemory, fs_dir = []\<rparr>"
    by (simp_all add: demo_start_def empty_dirs_def FileStore_def load_from_files_def demo_env_def)
  with start_without_https_panics [of demo_start ?o _ _ demo_codecs empty_dirs] c show ?thesis by (auto split: sum.splits)
qed




























end
