(* ===== verification/Watching.thy ===== *)
theory Watching
  imports Rest
begin

text \<open>
  Listing and watching: what a client of the API may conclude from a list and the events of a watch it
  opened with the list's resource version (\<open>pkg/rest/rest.go\<close>, \<open>pkg/storage\<close>, \<open>pkg/pubsub\<close>). The controllers
  follow the stores in this way. A store that can be watched is a locale: every change of its content
  reaches every watcher that is still served, as events that, replayed on the old content, give the new.
\<close>

section \<open>Replaying events\<close>

fun apply_event :: "'a resource event \<Rightarrow> (string \<Rightarrow> 'a resource option) \<Rightarrow> string \<Rightarrow> 'a resource option" where
  "apply_event evt m =
     (case ev_type evt of
        Added \<Rightarrow> m(rname (ev_object evt) \<mapsto> ev_object evt)
      | Modified \<Rightarrow> m(rname (ev_object evt) \<mapsto> ev_object evt)
      | Deleted \<Rightarrow> m(rname (ev_object evt) := None)
      | Bookmark \<Rightarrow> m
      | ErrorEvent \<Rightarrow> m)"

declare apply_event.simps [simp del]

lemma apply_event_simps [simp]:
  "apply_event \<lparr>ev_type = Added, ev_object = r\<rparr> m = m(rname r \<mapsto> r)"
  "apply_event \<lparr>ev_type = Modified, ev_object = r\<rparr> m = m(rname r \<mapsto> r)"
  "apply_event \<lparr>ev_type = Deleted, ev_object = r\<rparr> m = m(rname r := None)"
  by (simp_all add: apply_event.simps)

definition replay :: "'a resource event list \<Rightarrow> (string \<Rightarrow> 'a resource option) \<Rightarrow> string \<Rightarrow> 'a resource option" where
  "replay evs m = fold apply_event evs m"

lemma replay_simps [simp]:
  "replay [] m = m" "replay (e # es) m = replay es (apply_event e m)" "replay (es @ es') m = replay es' (replay es m)"
  by (simp_all add: replay_def)

definition listed :: "'a list_result \<Rightarrow> string \<Rightarrow> 'a resource option" where
  "listed l = map_of (map (\<lambda>r. (rname r, r)) (ll_Items l))"

text \<open>What a client sees of a resource: the list sets the type metadata, the rest is the stored one.\<close>

definition seen :: "(string \<Rightarrow> 'a resource option) \<Rightarrow> string \<Rightarrow> (objmeta \<times> 'a) option" where
  "seen m = map_option (\<lambda>r. (md r, body r)) \<circ> m"

lemma seen_upd: "seen m = seen m' \<Longrightarrow> seen (apply_event e m) = seen (apply_event e m')"
  by (auto simp: seen_def fun_eq_iff apply_event.simps split: event_type.splits)

lemma seen_replay: "seen m = seen m' \<Longrightarrow> seen (replay evs m) = seen (replay evs m')"
proof (induction evs arbitrary: m m')
  case (Cons e es)
  from Cons.IH [OF seen_upd [OF Cons.prems]] show ?case by simp
qed simp

definition names_agree :: "(string \<Rightarrow> 'a resource option) \<Rightarrow> bool" where
  "names_agree m \<longleftrightarrow> (\<forall>k r. m k = Some r \<longrightarrow> rname r = k)"

section \<open>Watchers\<close>

text \<open>
  The events a watcher has received or finds waiting; \<open>None\<close> when it is stopped, was kicked, or filters.
  What its consumer does: read the next event, or stop.
\<close>

definition hub_received :: "'o pubsub \<Rightarrow> nat \<Rightarrow> 'o event list option" where
  "hub_received ps i =
     (case map_of (ps_watchers ps) i of
        None \<Rightarrow> None
      | Some w \<Rightarrow>
          if w_kicked w \<or> w_filter w \<noteq> \<lparr>sel_Type = None, sel_Namespace = [], sel_Name = []\<rparr> then None
          else Some (w_taken w @ w_ch w))"

datatype consumer_action = Reads nat | Stops nat

fun hub_act :: "consumer_action \<Rightarrow> 'o pubsub \<Rightarrow> 'o pubsub" where
  "hub_act (Reads i) ps = receive i ps"
| "hub_act (Stops i) ps = stop_watcher i ps"

lemma hub_received_publish:
  assumes "hub_received (publish acc takes evt ps) i = Some evs'" "acc (ev_object evt) \<noteq> None"
  shows "\<exists>evs. hub_received ps i = Some evs \<and> evs' = evs @ [evt]"
  using assms
  by (auto simp: hub_received_def map_of_publish send_event_def is_subscribed_def split: option.splits if_splits)

lemma hub_received_act: "hub_received (hub_act a ps) i = Some evs' \<Longrightarrow> hub_received ps i = Some evs'"
  by (cases a) (auto simp: hub_received_def map_of_receive map_of_stop_watcher split: option.splits if_splits list.splits)

lemma hub_received_subscribe:
  assumes "subscribe \<lparr>sel_Type = None, sel_Namespace = [], sel_Name = []\<rparr> ps = (i, ps')"
  shows "hub_received ps' j = (if j = i then Some [] else hub_received ps j)"
proof -
  have "ps' = snd (subscribe \<lparr>sel_Type = None, sel_Namespace = [], sel_Name = []\<rparr> ps)" "i = ps_seq ps + 1"
    using assms by (auto simp: subscribe_def Let_def)
  then show ?thesis by (simp add: hub_received_def map_of_subscribe)
qed

lemma ps_inv_act: "ps_inv ps \<Longrightarrow> ps_inv (hub_act a ps)"
  using ps_inv_exec [of ps "\<lambda>_. None" "Receive i" for i] ps_inv_exec [of ps "\<lambda>_. None" "Stop i" for i]
  by (cases a) auto

section \<open>Stores that can be watched\<close>

text \<open>
  Between two states: versions used up and watchers given out do not decrease, and every watcher given
  out before that is still served has received the change, as events on resources with names in \<open>K\<close>.
\<close>

definition announced ::
  "('s \<Rightarrow> string \<Rightarrow> 'a resource option) \<Rightarrow> ('s \<Rightarrow> nat) \<Rightarrow> ('s \<Rightarrow> nat) \<Rightarrow> ('s \<Rightarrow> nat \<Rightarrow> 'a resource event list option)
   \<Rightarrow> string set \<Rightarrow> 's \<Rightarrow> 's \<Rightarrow> bool" where
  "announced view seq issued received K s s' \<longleftrightarrow> seq s \<le> seq s' \<and> issued s \<le> issued s' \<and>
     (\<forall>i evs'. i \<le> issued s \<longrightarrow> received s' i = Some evs' \<longrightarrow>
        (\<exists>evs new. received s i = Some evs \<and> evs' = evs @ new \<and> replay new (view s) = view s' \<and>
           (\<forall>e \<in> set new. rname (ev_object e) \<in> K)))"

lemma announcedD:
  assumes "announced view seq issued received K s s'" "i \<le> issued s" "received s' i = Some evs'"
  obtains evs new where "received s i = Some evs" "evs' = evs @ new" "replay new (view s) = view s'"
    "\<forall>e \<in> set new. rname (ev_object e) \<in> K"
  using assms unfolding announced_def by blast

lemma announced_same:
  assumes "view s' = view s" "seq s \<le> seq s'" "issued s \<le> issued s'"
    and "\<And>i evs. i \<le> issued s \<Longrightarrow> received s' i = Some evs \<Longrightarrow> received s i = Some evs"
  shows "announced view seq issued received K s s'"
  unfolding announced_def
proof (intro conjI allI impI)
  fix i evs assume "i \<le> issued s" "received s' i = Some evs"
  from assms(4) [OF this] assms(1)
  show "\<exists>evs0 new. received s i = Some evs0 \<and> evs = evs0 @ new \<and> replay new (view s) = view s' \<and>
      (\<forall>e \<in> set new. rname (ev_object e) \<in> K)"
    by (intro exI [of _ evs] exI [of _ "[]"]) simp
qed (rule assms)+

lemma announced_one:
  assumes "seq s \<le> seq s'" "issued s \<le> issued s'" "apply_event evt (view s) = view s'" "rname (ev_object evt) \<in> K"
    and "\<And>i evs'. received s' i = Some evs' \<Longrightarrow> \<exists>evs. received s i = Some evs \<and> evs' = evs @ [evt]"
  shows "announced view seq issued received K s s'"
  unfolding announced_def
proof (intro conjI allI impI)
  fix i evs' assume "received s' i = Some evs'"
  from assms(5) [OF this] obtain evs where "received s i = Some evs \<and> evs' = evs @ [evt]" by blast
  with assms(3,4) show "\<exists>evs new. received s i = Some evs \<and> evs' = evs @ new \<and> replay new (view s) = view s' \<and>
      (\<forall>e \<in> set new. rname (ev_object e) \<in> K)"
    by (intro exI [of _ evs] exI [of _ "[evt]"]) simp
qed (rule assms)+

lemma announced_mono: "announced view seq issued received K s s' \<Longrightarrow> K \<subseteq> L \<Longrightarrow> announced view seq issued received L s s'"
  unfolding announced_def by blast

lemma announced_trans:
  assumes 1: "announced view seq issued received K s s'" and 2: "announced view seq issued received K s' s''"
  shows "announced view seq issued received K s s''"
  unfolding announced_def
proof (intro conjI allI impI)
  show "seq s \<le> seq s''" "issued s \<le> issued s''" using assms by (auto simp: announced_def)
  fix i evs'' assume i: "i \<le> issued s" and r: "received s'' i = Some evs''"
  have "i \<le> issued s'" using i 1 by (simp add: announced_def)
  from announcedD [OF 2 this r] obtain evs' new' where e: "received s' i = Some evs'" "evs'' = evs' @ new'"
    "replay new' (view s') = view s''" "\<forall>e \<in> set new'. rname (ev_object e) \<in> K" .
  from announcedD [OF 1 i e(1)] obtain evs new where "received s i = Some evs" "evs' = evs @ new"
    "replay new (view s) = view s'" "\<forall>e \<in> set new. rname (ev_object e) \<in> K" .
  with e show "\<exists>evs new. received s i = Some evs \<and> evs'' = evs @ new \<and> replay new (view s) = view s'' \<and>
      (\<forall>e \<in> set new. rname (ev_object e) \<in> K)"
    by (intro exI [of _ evs] exI [of _ "new @ new'"]) auto
qed

lemma replay_other: "(\<forall>e \<in> set evs. rname (ev_object e) \<noteq> k) \<Longrightarrow> replay evs m k = m k"
proof (induction evs arbitrary: m)
  case (Cons e es)
  then have "replay (e # es) m k = apply_event e m k" by simp
  also have "\<dots> = m k" using Cons.prems by (auto simp: apply_event.simps split: event_type.splits)
  finally show ?case .
qed simp

text \<open>The names an operation on a key may announce: none when it fails.\<close>

definition touched :: "string \<Rightarrow> go_error + 'r \<Rightarrow> string set" where
  "touched k res = (case res of Inl _ \<Rightarrow> {} | Inr _ \<Rightarrow> {k})"

lemma touched_simps [simp]: "touched k (Inl e) = {}" "touched k (Inr r) = {k}"
  by (simp_all add: touched_def)

lemma touched_subset: "touched k res \<subseteq> {k}"
  by (cases res) simp_all

text \<open>What happens to a store: writes, watches that are opened, and what their consumers do.\<close>

datatype 'a store_step =
    StepCreate env string "'a resource"
  | StepUpdate env string "'a resource \<Rightarrow> go_error + 'a resource"
  | StepDelete env string "'a resource \<Rightarrow> go_error option"
  | StepWatch string
  | StepConsume consumer_action

fun store_exec :: "('s, 'a) store_ops \<Rightarrow> (consumer_action \<Rightarrow> 's \<Rightarrow> 's) \<Rightarrow> 'a store_step \<Rightarrow> 's \<Rightarrow> 's" where
  "store_exec ops act (StepCreate e k r) s = fst (op_create ops e s k r)"
| "store_exec ops act (StepUpdate e k f) s = fst (op_update ops e s k f)"
| "store_exec ops act (StepDelete e k v) s = fst (op_delete ops e s k v)"
| "store_exec ops act (StepWatch rv) s = fst (op_watch ops s rv)"
| "store_exec ops act (StepConsume a) s = act a s"

definition store_run :: "('s, 'a) store_ops \<Rightarrow> (consumer_action \<Rightarrow> 's \<Rightarrow> 's) \<Rightarrow> 'a store_step list \<Rightarrow> 's \<Rightarrow> 's" where
  "store_run ops act es s = fold (store_exec ops act) es s"

lemma store_run_simps [simp]:
  "store_run ops act [] s = s" "store_run ops act (e # es) s = store_run ops act es (store_exec ops act e s)"
  by (simp_all add: store_run_def)

fun keeps_name :: "'a store_step \<Rightarrow> bool" where
  "keeps_name (StepUpdate e k f) = (\<forall>r r'. f r = Inr r' \<longrightarrow> rname r' = rname r)"
| "keeps_name _ = True"

fun is_delete :: "'a store_step \<Rightarrow> bool" where
  "is_delete (StepDelete e k v) = True"
| "is_delete _ = False"

fun creates :: "string \<Rightarrow> 'a store_step \<Rightarrow> bool" where
  "creates k (StepCreate e k' r) = (k' = k)"
| "creates k _ = False"

locale watched_storage = storage ops inv view rt
  for ops :: "('s, 'a) store_ops" and inv view rt +
  fixes act :: "consumer_action \<Rightarrow> 's \<Rightarrow> 's"
    and seq :: "'s \<Rightarrow> nat"
    and issued :: "'s \<Rightarrow> nat"
    and received :: "'s \<Rightarrow> nat \<Rightarrow> 'a resource event list option"
  assumes list_version: "inv s \<Longrightarrow> ll_ResourceVersion (op_list ops s) = show_nat (seq s)"
    and watch_refused: "inv s \<Longrightarrow> op_watch ops s rv = (s', Inl err) \<Longrightarrow> s' = s \<and> rv \<notin> {[], show_nat (seq s)} \<and> err = Gone rv"
    and watch_granted: "inv s \<Longrightarrow> op_watch ops s rv = (s', Inr i) \<Longrightarrow> rv \<in> {[], show_nat (seq s)} \<and> inv s' \<and>
      view s' = view s \<and> seq s' = seq s \<and> i = issued s + 1 \<and> issued s' = i \<and> received s' i = Some [] \<and>
      (\<forall>j. j \<noteq> i \<longrightarrow> received s' j = received s j)"
    and act_law: "inv s \<Longrightarrow> inv (act a s) \<and> view (act a s) = view s \<and> seq (act a s) = seq s \<and> issued (act a s) = issued s \<and>
      (\<forall>i evs. received (act a s) i = Some evs \<longrightarrow> received s i = Some evs)"
    and create_announced: "inv s \<Longrightarrow> op_create ops e s k r = (s', res) \<Longrightarrow>
      announced view seq issued received (touched k res) s s' \<and> (seq s' = seq s \<longrightarrow> view s' = view s)"
    and update_announced: "inv s \<Longrightarrow> names_agree (view s) \<Longrightarrow> (\<And>x y. f x = Inr y \<Longrightarrow> rname y = rname x) \<Longrightarrow>
      op_update ops e s k f = (s', res) \<Longrightarrow>
      announced view seq issued received (touched k res) s s' \<and> (seq s' = seq s \<longrightarrow> view s' = view s)"
    and delete_announced: "inv s \<Longrightarrow> names_agree (view s) \<Longrightarrow> op_delete ops e s k v = (s', res) \<Longrightarrow>
      announced view seq issued received (touched k res) s s' \<and> seq s' = seq s"
begin

lemma names_create: "inv s \<Longrightarrow> names_agree (view s) \<Longrightarrow> names_agree (view (fst (op_create ops e s k r)))"
proof -
  assume inv: "inv s" and n: "names_agree (view s)"
  obtain s' res where c: "op_create ops e s k r = (s', res)" by fastforce
  show ?thesis
  proof (cases res)
    case (Inl err) with c n create_fail [OF inv] show ?thesis by simp
  next
    case (Inr x) with c n create_ok [OF inv, of e k r s' x] show ?thesis by (simp add: names_agree_def)
  qed
qed

lemma names_delete: "inv s \<Longrightarrow> names_agree (view s) \<Longrightarrow> names_agree (view (fst (op_delete ops e s k v)))"
proof -
  assume inv: "inv s" and n: "names_agree (view s)"
  obtain s' res where c: "op_delete ops e s k v = (s', res)" by fastforce
  show ?thesis
  proof (cases res)
    case (Inl err) with c n delete_fail [OF inv] show ?thesis by simp
  next
    case (Inr x) with c n delete_ok [OF inv, of e k v s' x] show ?thesis by (simp add: names_agree_def)
  qed
qed

lemma names_update:
  assumes inv: "inv s" and n: "names_agree (view s)" and f: "\<And>x y. f x = Inr y \<Longrightarrow> rname y = rname x"
  shows "names_agree (view (fst (op_update ops e s k f)))"
proof -
  obtain s' res where c: "op_update ops e s k f = (s', res)" by fastforce
  show ?thesis
  proof (cases res)
    case (Inl err) with c n update_fail [OF inv] show ?thesis by simp
  next
    case (Inr x)
    with c update_ok [OF inv, of e k f s' x] obtain old new where
      "view s k = Some old" "f old = Inr new" "rname x = rname new" "view s' = (view s)(k \<mapsto> x)" by blast
    with n f [of old new] c show ?thesis by (simp add: names_agree_def)
  qed
qed

lemma exec_step:
  assumes inv: "inv s" and n: "names_agree (view s)" and e: "keeps_name e"
  shows "inv (store_exec ops act e s)" "names_agree (view (store_exec ops act e s))"
    "announced view seq issued received UNIV s (store_exec ops act e s)"
    "\<not> is_delete e \<Longrightarrow> seq (store_exec ops act e s) = seq s \<Longrightarrow> view (store_exec ops act e s) = view s"
    "view s k = None \<Longrightarrow> \<not> creates k e \<Longrightarrow> announced view seq issued received (- {k}) s (store_exec ops act e s) \<and>
       view (store_exec ops act e s) k = None"
proof -
  let ?s = "store_exec ops act e s"
  have "inv ?s \<and> names_agree (view ?s) \<and> announced view seq issued received UNIV s ?s \<and>
    (\<not> is_delete e \<and> seq ?s = seq s \<longrightarrow> view ?s = view s) \<and>
    (view s k = None \<and> \<not> creates k e \<longrightarrow> announced view seq issued received (- {k}) s ?s \<and> view ?s k = None)"
  proof (cases e)
    case (StepCreate ev k' r)
    obtain s' res where c: "op_create ops ev s k' r = (s', res)" by fastforce
    note l = create_announced [OF inv c]
    from l have "announced view seq issued received UNIV s s'" by (auto intro: announced_mono)
    moreover have "announced view seq issued received (- {k}) s s' \<and> view s' k = None" if "view s k = None" "k' \<noteq> k"
      using that l c touched_subset [of k' res] create_fail [OF inv, of ev k' r s'] create_ok [OF inv, of ev k' r s']
      by (cases res) (auto elim: announced_mono)
    moreover have "inv s'" "names_agree (view s')"
      using create_inv [OF inv, of ev k' r] names_create [OF inv n, of ev k' r] c by simp_all
    ultimately show ?thesis using StepCreate c l by simp
  next
    case (StepUpdate ev k' f)
    with e have f: "\<And>x y. f x = Inr y \<Longrightarrow> rname y = rname x" by simp
    obtain s' res where c: "op_update ops ev s k' f = (s', res)" by fastforce
    note l = update_announced [OF inv n f c]
    from l have "announced view seq issued received UNIV s s'" by (auto intro: announced_mono)
    moreover have "announced view seq issued received (- {k}) s s' \<and> view s' k = None" if v: "view s k = None"
    proof (cases res)
      case (Inl err) with v l c update_fail [OF inv] show ?thesis by (auto elim: announced_mono)
    next
      case (Inr x)
      with c update_ok [OF inv, of ev k' f s' x] obtain old where "view s k' = Some old" "view s' = (view s)(k' \<mapsto> x)" by blast
      with v Inr l show ?thesis by (cases "k' = k") (auto elim: announced_mono)
    qed
    moreover have "inv s'" "names_agree (view s')"
      using update_inv [OF inv, of ev k' f] names_update [where f = f and e = ev and k = k', OF inv n f] c by simp_all
    ultimately show ?thesis using StepUpdate c l by simp
  next
    case (StepDelete ev k' v)
    obtain s' res where c: "op_delete ops ev s k' v = (s', res)" by fastforce
    note l = delete_announced [OF inv n c]
    from l have "announced view seq issued received UNIV s s'" by (auto intro: announced_mono)
    moreover have "announced view seq issued received (- {k}) s s' \<and> view s' k = None" if w: "view s k = None"
    proof (cases res)
      case (Inl err) with w l c delete_fail [OF inv] show ?thesis by (auto elim: announced_mono)
    next
      case (Inr x)
      with c delete_ok [OF inv, of ev k' v s' x] have "view s k' = Some x" "view s' = (view s)(k' := None)" by blast+
      with w Inr l show ?thesis by (cases "k' = k") (auto elim: announced_mono)
    qed
    moreover have "inv s'" "names_agree (view s')"
      using delete_inv [OF inv, of ev k' v] names_delete [OF inv n, of ev k' v] c by simp_all
    ultimately show ?thesis using StepDelete c l by simp
  next
    case (StepWatch rv)
    obtain s' res where c: "op_watch ops s rv = (s', res)" by fastforce
    show ?thesis
    proof (cases res)
      case (Inl err)
      with c watch_refused [OF inv] have "s' = s" by blast
      with StepWatch c inv n show ?thesis by (auto intro: announced_same)
    next
      case (Inr i)
      with c watch_granted [OF inv] have w: "inv s'" "view s' = view s" "seq s' = seq s" "i = issued s + 1" "issued s' = i"
        "\<forall>j. j \<noteq> i \<longrightarrow> received s' j = received s j" by blast+
      have "announced view seq issued received K s s'" for K using w by (intro announced_same) auto
      with StepWatch c w n show ?thesis by simp
    qed
  next
    case (StepConsume a)
    note l = act_law [OF inv, of a]
    have "announced view seq issued received K s (act a s)" for K using l by (intro announced_same) auto
    with StepConsume l n show ?thesis by simp
  qed
  then show "inv ?s" "names_agree (view ?s)" "announced view seq issued received UNIV s ?s"
    "\<not> is_delete e \<Longrightarrow> seq ?s = seq s \<Longrightarrow> view ?s = view s"
    "view s k = None \<Longrightarrow> \<not> creates k e \<Longrightarrow> announced view seq issued received (- {k}) s ?s \<and> view ?s k = None"
    by blast+
qed

lemma run_announced:
  assumes "inv s" "names_agree (view s)" "list_all keeps_name es"
  shows "inv (store_run ops act es s)" "names_agree (view (store_run ops act es s))"
    "announced view seq issued received UNIV s (store_run ops act es s)"
  using assms
proof (induction es arbitrary: s)
  case Nil
  {
    case 1 then show ?case by simp
  next
    case 2 then show ?case by simp
  next
    case 3 then show ?case by (auto intro: announced_same)
  }
next
  case (Cons e es)
  {
    case 1 then show ?case using exec_step(1,2) [of s e] Cons.IH(1) by simp
  next
    case 2 then show ?case using exec_step(1,2) [of s e] Cons.IH(2) by simp
  next
    case 3 then show ?case
      using exec_step(1,2,3) [of s e] Cons.IH(3) announced_trans [of view seq issued received UNIV s] by simp
  }
qed

lemma run_same_version:
  assumes "inv s" "names_agree (view s)" "list_all keeps_name es" "list_all (\<lambda>e. \<not> is_delete e) es"
    and "seq (store_run ops act es s) = seq s"
  shows "view (store_run ops act es s) = view s"
  using assms
proof (induction es arbitrary: s)
  case (Cons e es)
  let ?s = "store_exec ops act e s"
  note st = exec_step(1-4) [of s e]
  have k: "keeps_name e" "\<not> is_delete e" using Cons.prems by simp_all
  have "announced view seq issued received UNIV ?s (store_run ops act es ?s)"
    using st(1,2) run_announced(3) [of ?s es] Cons.prems k by simp
  moreover have "announced view seq issued received UNIV s ?s" using st(3) Cons.prems k by simp
  ultimately have "seq ?s = seq s" "seq (store_run ops act es ?s) = seq ?s"
    using Cons.prems(5) unfolding announced_def store_run_simps by (metis le_antisym)+
  then show ?case using st(1,2,4) Cons.prems k Cons.IH [of ?s] by simp
qed simp

lemma run_untouched:
  assumes "inv s" "names_agree (view s)" "list_all keeps_name es" "list_all (\<lambda>e. \<not> creates k e) es" "view s k = None"
  shows "announced view seq issued received (- {k}) s (store_run ops act es s) \<and> view (store_run ops act es s) k = None"
  using assms
proof (induction es arbitrary: s)
  case Nil
  then show ?case by (auto intro: announced_same)
next
  case (Cons e es)
  let ?s = "store_exec ops act e s"
  have "announced view seq issued received (- {k}) s ?s \<and> view ?s k = None" "inv ?s" "names_agree (view ?s)"
    using exec_step(1,2,5) [of s e] Cons.prems by simp_all
  with Cons.IH [of ?s] Cons.prems announced_trans [of view seq issued received "- {k}" s] show ?case by auto
qed

lemma list_seen:
  assumes "inv s" "names_agree (view s)"
  shows "seen (listed (op_list ops s)) = seen (view s)"
proof -
  obtain ks where ks: "set ks = dom (view s)" "ll_Items (op_list ops s) = map (\<lambda>k. set_gvk rt (the (view s k))) ks"
    using list_law [OF assms(1)] by blast
  have "map (\<lambda>r. (rname r, r)) (ll_Items (op_list ops s)) = map (\<lambda>k. (k, set_gvk rt (the (view s k)))) ks"
    using ks assms(2) by (auto simp: names_agree_def)
  then have "listed (op_list ops s) = (Some \<circ> (\<lambda>k. set_gvk rt (the (view s k)))) |` dom (view s)"
    by (simp add: listed_def map_of_map_restrict ks(1))
  then show ?thesis by (auto simp: seen_def fun_eq_iff restrict_map_def)
qed

text \<open>
  A client that listed the store, then opened a watch with the list's version, has the store's content by
  replaying what it received on what it listed, provided nothing was deleted in between.
\<close>

lemma watch_after_list:
  assumes "inv s0" "names_agree (view s0)" "list_all keeps_name es0" "list_all keeps_name es"
    and "list_all (\<lambda>e. \<not> is_delete e) es0"
    and w: "op_watch ops (store_run ops act es0 s0) (ll_ResourceVersion (op_list ops s0)) = (s2, Inr i)"
    and r: "received (store_run ops act es s2) i = Some evs"
  shows "seen (replay evs (listed (op_list ops s0))) = seen (view (store_run ops act es s2))"
proof -
  let ?s1 = "store_run ops act es0 s0" and ?s3 = "store_run ops act es s2"
  note r0 = run_announced [OF assms(1-3)]
  have g: "show_nat (seq s0) \<in> {[], show_nat (seq ?s1)}" "inv s2" "view s2 = view ?s1" "issued s2 = i" "received s2 i = Some []"
    using watch_granted [OF r0(1) w] list_version [OF assms(1)] by auto
  then have "seq ?s1 = seq s0" by (auto simp: show_nat_nonempty dest: show_nat_inj)
  from run_same_version [OF assms(1-3,5) this] g(3) have v: "view s2 = view s0" by simp
  have n: "names_agree (view s2)" using v assms(2) by simp
  have "i \<le> issued s2" using g(4) by simp
  from announcedD [OF run_announced(3) [OF g(2) n assms(4)] this r] g(5) have "replay evs (view s2) = view ?s3" by force
  with seen_replay [OF list_seen [OF assms(1,2)], of evs] v show ?thesis by simp
qed

text \<open>
  A deletion in between is lost: it uses up no version, so the watch is granted, and no later event tells
  the client, who keeps the resource for as long as the name is not created again.
\<close>

lemma deletion_before_watch:
  assumes "inv s0" "names_agree (view s0)" "view s0 k = Some r" "op_delete ops e s0 k v = (s1, Inr r')"
    and "op_watch ops s1 (ll_ResourceVersion (op_list ops s0)) = (s2, res)"
    and "list_all keeps_name es" "list_all (\<lambda>e. \<not> creates k e) es"
  shows "\<exists>i. res = Inr i \<and> view (store_run ops act es s2) k = None \<and>
    (\<forall>evs. received (store_run ops act es s2) i = Some evs \<longrightarrow> seen (replay evs (listed (op_list ops s0))) k = Some (md r, body r))"
proof -
  have s1: "fst (op_delete ops e s0 k v) = s1" using assms(4) by simp
  have d: "inv s1" "names_agree (view s1)" "view s1 k = None" "seq s1 = seq s0"
    using delete_inv [OF assms(1), of e k v, unfolded s1] names_delete [OF assms(1,2), of e k v, unfolded s1]
      delete_ok [OF assms(1,4)] delete_announced [OF assms(1,2,4)] by (blast, blast, simp, blast)
  obtain i where i: "res = Inr i"
    using watch_refused [OF d(1)] assms(5) list_version [OF assms(1)] d(4) by (cases res) fastforce+
  have g: "inv s2" "view s2 = view s1" "issued s2 = i" "received s2 i = Some []"
    using watch_granted [OF d(1)] assms(5) i by blast+
  let ?s3 = "store_run ops act es s2"
  have run: "announced view seq issued received (- {k}) s2 ?s3" "view ?s3 k = None"
    using run_untouched [OF g(1) _ assms(6,7)] d(2,3) g(2) by simp_all
  have l: "seen (listed (op_list ops s0)) k = Some (md r, body r)"
    using list_seen [OF assms(1,2)] assms(3) by (simp add: seen_def)
  have "seen (replay evs (listed (op_list ops s0))) k = Some (md r, body r)" if rc: "received ?s3 i = Some evs" for evs
  proof -
    have "i \<le> issued s2" using g(3) by simp
    from announcedD [OF run(1) this rc] obtain evs0 new where new: "received s2 i = Some evs0" "evs = evs0 @ new"
      "\<forall>e \<in> set new. rname (ev_object e) \<in> - {k}" by metis
    with g(4) have "\<forall>e \<in> set evs. rname (ev_object e) \<noteq> k" by simp
    from replay_other [OF this] l show ?thesis by (simp add: seen_def)
  qed
  with i run show ?thesis by blast
qed

end

section \<open>The stores can be watched\<close>

definition mem_act :: "consumer_action \<Rightarrow> 'a memstore \<Rightarrow> 'a memstore" where
  "mem_act a s = s\<lparr>ms_pubsub := hub_act a (ms_pubsub s)\<rparr>"

definition fs_act :: "consumer_action \<Rightarrow> ('a, 'b) filestore \<Rightarrow> ('a, 'b) filestore" where
  "fs_act a s = s\<lparr>fs_mem := mem_act a (fs_mem s)\<rparr>"

abbreviation mem_issued :: "'a memstore \<Rightarrow> nat" where
  "mem_issued s \<equiv> ps_seq (ms_pubsub s)"

abbreviation mem_received :: "'a memstore \<Rightarrow> nat \<Rightarrow> 'a resource event list option" where
  "mem_received s \<equiv> hub_received (ms_pubsub s)"

lemma mem_received_emit:
  "mem_received (emit rt e a r s) i = Some evs' \<Longrightarrow>
   \<exists>evs. mem_received s i = Some evs \<and> evs' = evs @ [\<lparr>ev_type = a, ev_object = r\<rparr>]"
  unfolding emit_def using hub_received_publish by (force simp: resource_ref_def)

lemma mem_issued_emit [simp]: "mem_issued (emit rt e a r s) = mem_issued s"
  by (simp add: emit_def publish_def split: option.splits)

lemma hub_act_seq [simp]: "ps_seq (hub_act a ps) = ps_seq ps"
  by (cases a) (simp_all add: receive_def stop_watcher_def split: option.splits list.splits)

lemma mem_act_law:
  "mem_inv s \<Longrightarrow> mem_inv (mem_act a s) \<and> mem_view (mem_act a s) = mem_view s \<and> ms_seq (mem_act a s) = ms_seq s \<and>
     mem_issued (mem_act a s) = mem_issued s \<and> (\<forall>i evs. mem_received (mem_act a s) i = Some evs \<longrightarrow> mem_received s i = Some evs)"
proof -
  assume inv: "mem_inv s"
  then have "ps_inv (ms_pubsub s)" by (simp add: mem_inv_def)
  then have "mem_inv (mem_act a s)"
    using inv ps_inv_act [of "ms_pubsub s" a] unfolding mem_inv_def mem_act_def by simp
  then show ?thesis using hub_received_act by (auto simp: mem_act_def)
qed

lemma mem_watch_cases:
  assumes "mem_inv s" "mem_watch s rv = (s', res)"
  shows "case res of
      Inl err \<Rightarrow> s' = s \<and> rv \<notin> {[], show_nat (ms_seq s)} \<and> err = Gone rv
    | Inr i \<Rightarrow> rv \<in> {[], show_nat (ms_seq s)} \<and> mem_inv s' \<and> mem_view s' = mem_view s \<and> ms_seq s' = ms_seq s \<and>
        i = mem_issued s + 1 \<and> mem_issued s' = i \<and> mem_received s' i = Some [] \<and>
        (\<forall>j. j \<noteq> i \<longrightarrow> mem_received s' j = mem_received s j)"
proof (cases "rv \<noteq> [] \<and> rv \<noteq> show_nat (ms_seq s)")
  case True
  with assms show ?thesis by (auto simp: mem_watch_def)
next
  case False
  obtain i ps where sub: "subscribe \<lparr>sel_Type = None, sel_Namespace = [], sel_Name = []\<rparr> (ms_pubsub s) = (i, ps)" by fastforce
  then have i: "i = mem_issued s + 1" "ps_seq ps = i"
    and ps: "ps = snd (subscribe \<lparr>sel_Type = None, sel_Namespace = [], sel_Name = []\<rparr> (ms_pubsub s))"
    by (auto simp: subscribe_def Let_def)
  have "ps_inv ps"
    using assms(1) ps_inv_exec [of "ms_pubsub s" _ "Subscribe \<lparr>sel_Type = None, sel_Namespace = [], sel_Name = []\<rparr>"] ps
    by (simp add: mem_inv_def)
  then have "mem_inv (s\<lparr>ms_pubsub := ps\<rparr>)" using assms(1) unfolding mem_inv_def by simp
  with False assms(2) sub i hub_received_subscribe [OF sub] show ?thesis by (auto simp: mem_watch_def)
qed

lemma emit_announced:
  assumes "ms_pubsub m' = ms_pubsub (emit rt e a r m)" "ms_seq m \<le> ms_seq m'"
    and "apply_event \<lparr>ev_type = a, ev_object = r\<rparr> (mem_view m) = mem_view m'" "rname r \<in> K"
  shows "announced mem_view ms_seq mem_issued mem_received K m m'"
proof (rule announced_one [where evt = "\<lparr>ev_type = a, ev_object = r\<rparr>"])
  fix i evs' assume "mem_received m' i = Some evs'"
  then show "\<exists>evs. mem_received m i = Some evs \<and> evs' = evs @ [\<lparr>ev_type = a, ev_object = r\<rparr>]"
    unfolding assms(1) by (rule mem_received_emit)
qed (use assms mem_issued_emit [of rt e a r m] in simp_all)

lemma emit_pubsub: "ms_pubsub s = ms_pubsub s' \<Longrightarrow> ms_pubsub (emit rt e a r s) = ms_pubsub (emit rt e a r s')"
  by (simp add: emit_def)

lemma mem_create_announced:
  assumes "mem_create rt e s k r = (s', res)"
  shows "announced mem_view ms_seq mem_issued mem_received (touched k res) s s' \<and>
    (ms_seq s' = ms_seq s \<longrightarrow> mem_view s' = mem_view s)"
proof (cases res)
  case (Inl err)
  with assms mem_create_Inl show ?thesis by (fastforce intro: announced_same)
next
  case (Inr r')
  then have c: "mem_create rt e s k r = (s', Inr r')" using assms by simp
  note m = mem_create_Inr [OF c]
  from c have s': "ms_pubsub s' = ms_pubsub (emit rt e Added r' s)"
    by (auto simp: mem_create_cases Let_def emit_def split: if_splits)
  have "announced mem_view ms_seq mem_issued mem_received (touched k res) s s'"
    using m Inr by (intro emit_announced [OF s']) (simp_all add: alist_simps fun_eq_iff)
  with m show ?thesis by simp
qed

lemma mem_update_announced:
  assumes n: "names_agree (mem_view s)" and f: "\<And>x y. f x = Inr y \<Longrightarrow> rname y = rname x"
    and "mem_update rt e s k f = (s', res)"
  shows "announced mem_view ms_seq mem_issued mem_received (touched k res) s s' \<and>
    (ms_seq s' = ms_seq s \<longrightarrow> mem_view s' = mem_view s)"
proof -
  obtain x where u: "mem_update_cb rt e s k () (\<lambda>_ r. ((), f r)) = (s', x, res)"
    using assms(3) by (auto simp: mem_update_def split: prod.splits)
  show ?thesis
  proof (cases res)
    case (Inl err)
    have "s' = s" by (rule mem_update_cb_Inl [OF u [unfolded Inl]])
    with Inl show ?thesis by (auto intro: announced_same)
  next
    case (Inr r')
    with u obtain old new where o: "mem_view s k = Some old" "f old = Inr new"
      and s': "r' = (set_gvk rt new)\<lparr>md := (md new)\<lparr>om_ResourceVersion := show_nat (ms_seq s + 1)\<rparr>\<rparr>"
      "s' = emit rt e Modified r' (s\<lparr>ms_seq := ms_seq s + 1, ms_items := AList.update k r' (ms_items s)\<rparr>)"
      by (auto simp: mem_update_cb_cases Let_def split: option.splits sum.splits prod.splits if_splits)
    have "rname r' = k" using s'(1) f [OF o(2)] n o(1) by (simp add: names_agree_def)
    moreover have "ms_pubsub s' = ms_pubsub (emit rt e Modified r' s)" unfolding s'(2) by (rule emit_pubsub) simp
    ultimately show ?thesis
      using s' Inr emit_announced [where m = s and m' = s' and r = r' and K = "{k}"] by (simp add: alist_simps fun_eq_iff)
  qed
qed

lemma mem_delete_announced:
  assumes n: "names_agree (mem_view s)" and "mem_delete rt e s k v = (s', res)"
  shows "announced mem_view ms_seq mem_issued mem_received (touched k res) s s' \<and> ms_seq s' = ms_seq s"
proof -
  obtain x where u: "mem_delete_cb rt e s k () (\<lambda>_ r. ((), v r)) = (s', x, res)"
    using assms(2) by (auto simp: mem_delete_def split: prod.splits)
  show ?thesis
  proof (cases res)
    case (Inl err)
    have "s' = s" by (rule mem_delete_cb_Inl [OF u [unfolded Inl]])
    with Inl show ?thesis by (auto intro: announced_same)
  next
    case (Inr r)
    with u have o: "mem_view s k = Some r" and s': "s' = emit rt e Deleted r (s\<lparr>ms_items := AList.delete k (ms_items s)\<rparr>)"
      by (auto simp: mem_delete_cb_def split: option.splits prod.splits)
    have "rname r = k" using n o by (simp add: names_agree_def)
    moreover have "ms_pubsub s' = ms_pubsub (emit rt e Deleted r s)" unfolding s' by (rule emit_pubsub) simp
    ultimately show ?thesis
      using s' Inr emit_announced [where m = s and m' = s' and r = r and K = "{k}"] by (simp add: alist_simps fun_eq_iff)
  qed
qed

interpretation memw: watched_storage "mem_ops rt" mem_inv mem_view rt mem_act ms_seq mem_issued mem_received for rt
proof (unfold_locales, goal_cases)
  case (1 s) then show ?case by (simp add: mem_ops_def mem_list_def)
next
  case (2 s rv s' err) then show ?case using mem_watch_cases [of s rv s' "Inl err"] by (simp add: mem_ops_def)
next
  case (3 s rv s' i) then show ?case using mem_watch_cases [of s rv s' "Inr i"] by (auto simp: mem_ops_def)
next
  case (4 s a) then show ?case by (rule mem_act_law)
next
  case (5 s e k r s' res) then show ?case using mem_create_announced [of rt e s k r s' res] by (simp add: mem_ops_def)
next
  case (6 s f e k s' res) then show ?case using mem_update_announced [of s f rt e k s' res] by (simp add: mem_ops_def)
next
  case (7 s e k v s' res) then show ?case using mem_delete_announced [of s rt e k v s' res] by (simp add: mem_ops_def)
qed

abbreviation fs_seq :: "('a, 'b) filestore \<Rightarrow> nat" where
  "fs_seq s \<equiv> ms_seq (fs_mem s)"

abbreviation fs_issued :: "('a, 'b) filestore \<Rightarrow> nat" where
  "fs_issued s \<equiv> mem_issued (fs_mem s)"

abbreviation fs_received :: "('a, 'b) filestore \<Rightarrow> nat \<Rightarrow> 'a resource event list option" where
  "fs_received s \<equiv> mem_received (fs_mem s)"

lemma fs_announced:
  "announced fs_view fs_seq fs_issued fs_received K s s' =
   announced mem_view ms_seq mem_issued mem_received K (fs_mem s) (fs_mem s')"
  by (simp add: announced_def)

lemma fs_create_announced:
  assumes "fs_create codec rt e s k r = (s', res)"
  shows "announced fs_view fs_seq fs_issued fs_received (touched k res) s s' \<and> (fs_seq s' = fs_seq s \<longrightarrow> fs_view s' = fs_view s)"
proof (cases res)
  case (Inl err)
  with assms have "ms_pubsub (fs_mem s') = ms_pubsub (fs_mem s) \<and> fs_view s' = fs_view s \<and> fs_seq s \<le> fs_seq s'"
    by (auto simp: fs_create_cases Let_def split: if_splits prod.splits option.splits)
  then show ?thesis by (auto intro: announced_same)
next
  case (Inr r')
  then have c: "fs_create codec rt e s k r = (s', Inr r')" using assms by simp
  then have "mem_create rt e (fs_mem s) k r = (fs_mem s', Inr r')"
    by (auto simp: fs_create_cases mem_create_cases Let_def split: if_splits prod.splits option.splits)
  from mem_create_announced [OF this] Inr show ?thesis by (simp add: fs_announced)
qed

lemma fs_update_announced:
  assumes n: "names_agree (fs_view s)" and f: "\<And>x y. f x = Inr y \<Longrightarrow> rname y = rname x"
    and "fs_update codec rt e s k f = (s', res)"
  shows "announced fs_view fs_seq fs_issued fs_received (touched k res) s s' \<and> (fs_seq s' = fs_seq s \<longrightarrow> fs_view s' = fs_view s)"
proof (cases res)
  case (Inl err)
  with assms(3) have "fs_mem s' = fs_mem s"
    by (auto simp: fs_update_cases fs_stored_def Let_def split: option.splits sum.splits prod.splits if_splits)
  then show ?thesis by (auto intro: announced_same)
next
  case (Inr r')
  then have "fs_update codec rt e s k f = (s', Inr r')" using assms(3) by simp
  then obtain old new d where o: "fs_view s k = Some old" "f old = Inr new" and st: "fs_stored rt e s k new d = (s', Inr r')"
    by (elim fs_update_Inr)
  from st have r': "r' = (set_gvk rt new)\<lparr>md := (md new)\<lparr>om_ResourceVersion := show_nat (fs_seq s + 1)\<rparr>\<rparr>"
    and s': "fs_mem s' = emit rt e Modified r' ((fs_mem s)\<lparr>ms_seq := fs_seq s + 1, ms_items := AList.update k r' (ms_items (fs_mem s))\<rparr>)"
    by (auto simp: fs_stored_def Let_def)
  have "rname r' = k" using r' f [OF o(2)] n o(1) by (simp add: names_agree_def)
  moreover have "ms_pubsub (fs_mem s') = ms_pubsub (emit rt e Modified r' (fs_mem s))" unfolding s' by (rule emit_pubsub) simp
  ultimately show ?thesis
    using s' Inr emit_announced [where m = "fs_mem s" and m' = "fs_mem s'" and r = r' and K = "{k}"]
    by (simp add: alist_simps fun_eq_iff fs_announced)
qed

lemma fs_delete_announced:
  assumes n: "names_agree (fs_view s)" and "fs_delete rt e s k v = (s', res)"
  shows "announced fs_view fs_seq fs_issued fs_received (touched k res) s s' \<and> fs_seq s' = fs_seq s"
proof (cases res)
  case (Inl err)
  with assms(2) have "s' = s" by (auto simp: fs_delete_cases split: option.splits if_splits)
  with Inl show ?thesis by (auto intro: announced_same)
next
  case (Inr r)
  with assms(2) have o: "fs_view s k = Some r"
    and s': "fs_mem s' = emit rt e Deleted r ((fs_mem s)\<lparr>ms_items := AList.delete k (ms_items (fs_mem s))\<rparr>)"
    by (auto simp: fs_delete_cases split: option.splits if_splits)
  have "rname r = k" using n o by (simp add: names_agree_def)
  moreover have "ms_pubsub (fs_mem s') = ms_pubsub (emit rt e Deleted r (fs_mem s))" unfolding s' by (rule emit_pubsub) simp
  ultimately show ?thesis
    using s' Inr emit_announced [where m = "fs_mem s" and m' = "fs_mem s'" and r = r and K = "{k}"]
    by (simp add: alist_simps fun_eq_iff fs_announced)
qed

lemma fs_act_law:
  "fs_inv s \<Longrightarrow> fs_inv (fs_act a s) \<and> fs_view (fs_act a s) = fs_view s \<and> fs_seq (fs_act a s) = fs_seq s \<and>
     fs_issued (fs_act a s) = fs_issued s \<and> (\<forall>i evs. fs_received (fs_act a s) i = Some evs \<longrightarrow> fs_received s i = Some evs)"
  using mem_act_law [of "fs_mem s" a] by (simp add: fs_act_def fs_inv_def)

interpretation fsw: watched_storage "fs_ops codec rt" fs_inv fs_view rt fs_act fs_seq fs_issued fs_received for codec rt
proof (unfold_locales, goal_cases)
  case (1 s) then show ?case by (simp add: fs_ops_def mem_list_def)
next
  case (2 s rv s' err) then show ?case
    using mem_watch_cases [of "fs_mem s" rv "fs_mem s'" "Inl err"]
    by (auto simp: fs_ops_def fs_watch_def fs_inv_def split: prod.splits)
next
  case (3 s rv s' i) then show ?case
    using mem_watch_cases [of "fs_mem s" rv "fs_mem s'" "Inr i"]
    by (auto simp: fs_ops_def fs_watch_def fs_inv_def split: prod.splits)
next
  case (4 s a) then show ?case by (rule fs_act_law)
next
  case (5 s e k r s' res) then show ?case using fs_create_announced [of codec rt e s k r s' res] by (simp add: fs_ops_def)
next
  case (6 s f e k s' res) then show ?case using fs_update_announced [of s f codec rt e k s' res] by (simp add: fs_ops_def)
next
  case (7 s e k v s' res) then show ?case using fs_delete_announced [of s rt e k v s' res] by (simp add: fs_ops_def)
qed

interpretation devw: watched_storage "device_ops codec" fs_inv fs_view device_rt fs_act fs_seq fs_issued fs_received for codec
proof (unfold_locales, goal_cases)
  case (1 s) then show ?case using fsw.list_version [of s] by (simp add: device_ops_def fs_ops_def)
next
  case (2 s rv s' err) then show ?case using fsw.watch_refused [of s codec device_rt] by (simp add: device_ops_def)
next
  case (3 s rv s' i) then show ?case using fsw.watch_granted [of s codec device_rt] by (simp add: device_ops_def)
next
  case (4 s a) then show ?case by (rule fs_act_law)
next
  case (5 s e k r s' res) then show ?case
    using fs_create_announced [of codec device_rt e s k r s' res] by (simp add: device_ops_def fs_ops_def)
next
  case (6 s f e k s' res) then show ?case
    using fs_update_announced [of s f codec device_rt e k s' res] by (simp add: device_ops_def fs_ops_def)
next
  case (7 s e k v s' res) then show ?case
    by (auto simp: device_ops_def device_store_delete_def intro: announced_same)
qed

section \<open>Properties\<close>

text \<open>
  C13. List and watch: a client that lists the resources of a file store and then opens a watch with the
  version of the list has, by replaying the events it received on what it listed, exactly the content of
  the store at every later time the watch is served, whatever requests, watches and consumers there are,
  provided nothing was deleted between the list and the watch and updates keep the name of a resource.
\<close>

theorem watch_follows_store:
  assumes "fs_inv s0" "names_agree (fs_view s0)" "list_all keeps_name (es0 @ es)" "list_all (\<lambda>e. \<not> is_delete e) es0"
    and "rest_watch (fs_ops codec rt) (store_run (fs_ops codec rt) fs_act es0 s0)
      (ll_ResourceVersion (rest_list (fs_ops codec rt) s0)) = (s2, Inr i)"
    and "fs_received (store_run (fs_ops codec rt) fs_act es s2) i = Some evs"
  shows "seen (replay evs (listed (rest_list (fs_ops codec rt) s0))) = seen (fs_view (store_run (fs_ops codec rt) fs_act es s2))"
  using assms fsw.watch_after_list [of s0 es0 es codec rt s2 i evs] by (simp add: rest_list_def rest_watch_def)

definition demo_watch_steps :: "wifi_password store_step list" where
  "demo_watch_steps = [StepCreate demo_env ''home'' (new_resource ''home'' ''secret''), StepConsume (Reads 1)]"

lemma demo_watch:
  "case rest_watch (fs_ops demo_codec wifipassword_rt) demo_store
      (ll_ResourceVersion (rest_list (fs_ops demo_codec wifipassword_rt) demo_store)) of (s2, res) \<Rightarrow>
     res = Inr 1 \<and>
     \<not> Option.is_none (fs_received (store_run (fs_ops demo_codec wifipassword_rt) fs_act demo_watch_steps s2) 1) \<and>
     map_option body (fs_view (store_run (fs_ops demo_codec wifipassword_rt) fs_act demo_watch_steps s2) ''home'') = Some ''secret''"
  by code_simp

theorem watch_follows_store_witness:
  "\<exists>s2 evs. rest_watch (fs_ops demo_codec wifipassword_rt) demo_store
      (ll_ResourceVersion (rest_list (fs_ops demo_codec wifipassword_rt) demo_store)) = (s2, Inr 1) \<and>
     map_option snd (seen (replay evs (listed (rest_list (fs_ops demo_codec wifipassword_rt) demo_store))) ''home'') = Some ''secret''"
proof -
  let ?ops = "fs_ops demo_codec wifipassword_rt"
  from demo_watch obtain s2 evs where w: "rest_watch ?ops demo_store (ll_ResourceVersion (rest_list ?ops demo_store)) = (s2, Inr 1)"
    and r: "fs_received (store_run ?ops fs_act demo_watch_steps s2) 1 = Some evs"
    and b: "map_option body (fs_view (store_run ?ops fs_act demo_watch_steps s2) ''home'') = Some ''secret''"
    by (auto simp: Option.is_none_def split: prod.splits)
  have 1: "fs_inv (demo_store :: (wifi_password, wifi_password resource) filestore)"
    "names_agree (fs_view (demo_store :: (wifi_password, wifi_password resource) filestore))"
    by (simp_all add: names_agree_def)
  have "seen (replay evs (listed (rest_list ?ops demo_store))) = seen (fs_view (store_run ?ops fs_act demo_watch_steps s2))"
    using watch_follows_store [OF 1, of "[]" demo_watch_steps demo_codec wifipassword_rt s2 1 evs] w r
    by (simp add: demo_watch_steps_def)
  from fun_cong [OF this, of "''home''"] b
  have "map_option snd (seen (replay evs (listed (rest_list ?ops demo_store))) ''home'') = Some ''secret''"
    by (simp add: seen_def)
  with w show ?thesis by blast
qed

text \<open>
  C14. A deletion between list and watch is lost: deletions use up no version, so a watch with the version
  of a list taken before the deletion is granted, and whatever happens then, as long as the name is not
  created again, a client that replays the events of the watch keeps the deleted resource, while the
  in-memory store has none.
\<close>

theorem deletion_before_watch_lost:
  assumes "mem_inv s0" "names_agree (mem_view s0)" "mem_view s0 k = Some r" "rest_delete (mem_ops rt) v e s0 k = (s1, Inr r')"
    and "rest_watch (mem_ops rt) s1 (ll_ResourceVersion (rest_list (mem_ops rt) s0)) = (s2, res)"
    and "list_all keeps_name es" "list_all (\<lambda>e. \<not> creates k e) es"
  shows "\<exists>i. res = Inr i \<and> mem_view (store_run (mem_ops rt) mem_act es s2) k = None \<and>
    (\<forall>evs. mem_received (store_run (mem_ops rt) mem_act es s2) i = Some evs \<longrightarrow>
       seen (replay evs (listed (rest_list (mem_ops rt) s0))) k = Some (md r, body r))"
  using memw.deletion_before_watch [OF assms(1-3) _ _ assms(6,7), of rt e v s1 r' s2 res] assms(4,5)
  by (simp add: rest_list_def rest_watch_def rest_delete_def)

definition demo_networks :: "wifi_network memstore" where
  "demo_networks = fst (mem_create wifinetwork_rt demo_env InMemory ''ssid-home'' (new_resource ''ssid-home'' ''home''))"

theorem deletion_before_watch_lost_witness:
  "\<exists>s1 r s2 i. rest_delete (mem_ops wifinetwork_rt) (\<lambda>_. None) demo_env demo_networks ''ssid-home'' = (s1, Inr r) \<and>
     rest_watch (mem_ops wifinetwork_rt) s1 (ll_ResourceVersion (rest_list (mem_ops wifinetwork_rt) demo_networks)) = (s2, Inr i) \<and>
     mem_view (store_run (mem_ops wifinetwork_rt) mem_act [] s2) ''ssid-home'' = None"
proof -
  let ?ops = "mem_ops wifinetwork_rt"
  obtain r where c: "mem_create wifinetwork_rt demo_env InMemory ''ssid-home'' (new_resource ''ssid-home'' ''home'') = (demo_networks, Inr r)"
    using mem.create_succeeds [OF mem_inv_InMemory view_InMemory, of wifinetwork_rt demo_env "''ssid-home''" "new_resource ''ssid-home'' ''home''"]
    by (auto simp: mem_ops_def demo_networks_def)
  have inv: "mem_inv demo_networks"
    using mem_inv_create [OF mem_inv_InMemory, of wifinetwork_rt demo_env "''ssid-home''" "new_resource ''ssid-home'' ''home''"] by (simp add: demo_networks_def)
  have v: "mem_view demo_networks ''ssid-home'' = Some r" "names_agree (mem_view demo_networks)"
    using mem_create_Inr [OF c] by (simp_all add: alist_simps names_agree_def)
  obtain s1 where d: "rest_delete ?ops (\<lambda>_. None) demo_env demo_networks ''ssid-home'' = (s1, Inr r)"
    using mem.delete_succeeds [OF inv v(1), of "\<lambda>_. None" wifinetwork_rt demo_env] by (auto simp: rest_delete_def)
  obtain s2 res where w: "rest_watch ?ops s1 (ll_ResourceVersion (rest_list ?ops demo_networks)) = (s2, res)" by fastforce
  from deletion_before_watch_lost [OF inv v(2,1) d w, of "[]"] d w show ?thesis by auto
qed

end
