(* ===== verification/SharedObjects.thy ===== *)
theory SharedObjects
  imports Watching
begin

text \<open>
  The stores over shared objects. In Go the resources a caller hands to a store are pointers, and so are
  the ones the store keeps and the ones its events carry; the other theories treat them as values. Here
  they are addresses in a heap, and the in-memory store (\<open>pkg/storage/inmemorystore.go\<close>) copies where the
  code copies. An object is one cell, with everything only it reaches: the generated deep copies of the
  kinds (\<open>zz_generated.deepcopy.go\<close>) copy all of it. A caller may write to its own objects at any time.
\<close>

section \<open>Objects\<close>

record 'a hstore =
  hs_heap :: "nat \<Rightarrow> 'a resource option"
  hs_next :: nat
  hs_items :: "(string \<times> nat) list"
  hs_seq :: nat
  hs_pubsub :: "nat pubsub"

definition deref :: "'a hstore \<Rightarrow> nat \<Rightarrow> 'a resource" where
  "deref s a = the (hs_heap s a)"

definition assign :: "nat \<Rightarrow> 'a resource \<Rightarrow> 'a hstore \<Rightarrow> 'a hstore" where
  "assign p r s = s\<lparr>hs_heap := (hs_heap s)(p \<mapsto> r)\<rparr>"

text \<open>\<open>*out\<close> becomes a copy of \<open>*in\<close>; a copy of \<open>*in\<close> in a new cell.\<close>

definition DeepCopyIntoResource :: "nat \<Rightarrow> nat \<Rightarrow> 'a hstore \<Rightarrow> 'a hstore" where
  "DeepCopyIntoResource src out s = assign out (deref s src) s"

definition DeepCopyObject :: "nat \<Rightarrow> 'a hstore \<Rightarrow> nat \<times> 'a hstore" where
  "DeepCopyObject src s = (hs_next s, assign (hs_next s) (deref s src) (s\<lparr>hs_next := hs_next s + 1\<rparr>))"

section \<open>The in-memory store\<close>

definition h_emit :: "'a resource_type \<Rightarrow> env \<Rightarrow> event_type \<Rightarrow> nat \<Rightarrow> 'a hstore \<Rightarrow> 'a hstore" where
  "h_emit rt e action a s =
     s\<lparr>hs_pubsub := publish (\<lambda>b. resource_ref rt (deref s b)) (env_takes e) \<lparr>ev_type = action, ev_object = a\<rparr> (hs_pubsub s)\<rparr>"

definition h_set_resource_version :: "nat \<Rightarrow> 'a hstore \<Rightarrow> 'a hstore" where
  "h_set_resource_version p s =
     (let n = hs_seq s + 1; r = deref s p
      in assign p (r\<lparr>md := (md r)\<lparr>om_ResourceVersion := show_nat n\<rparr>\<rparr>) (s\<lparr>hs_seq := n\<rparr>))"

definition h_get :: "'a resource_type \<Rightarrow> 'a hstore \<Rightarrow> string \<Rightarrow> nat \<Rightarrow> 'a hstore \<times> go_error option" where
  "h_get rt s key p =
     (case map_of (hs_items s) key of
        None \<Rightarrow> (s, Some (NotFound (rt_GroupResource rt) key))
      | Some item \<Rightarrow> (DeepCopyIntoResource item p s, None))"

definition h_create :: "'a resource_type \<Rightarrow> env \<Rightarrow> 'a hstore \<Rightarrow> string \<Rightarrow> nat \<Rightarrow> 'a hstore \<times> go_error option" where
  "h_create rt e s key p =
     (case map_of (hs_items s) key of
        Some _ \<Rightarrow> (s, Some (AlreadyExists (rt_GroupResource rt) key))
      | None \<Rightarrow>
          (let s1 = assign p (set_name_and_creation_timestamp e (set_gvk rt (deref s p)) key) s;
               s2 = h_set_resource_version p s1;
               (r, s3) = DeepCopyObject p s2
           in (h_emit rt e Added r (s3\<lparr>hs_items := AList.update key r (hs_items s3)\<rparr>), None)))"

text \<open>The callbacks run on the caller's object: \<open>modify\<close> gives its new content and an error.\<close>

definition h_delete ::
  "'a resource_type \<Rightarrow> env \<Rightarrow> 'a hstore \<Rightarrow> string \<Rightarrow> nat \<Rightarrow> ('a resource \<Rightarrow> go_error option) \<Rightarrow> 'a hstore \<times> go_error option" where
  "h_delete rt e s key p validate =
     (case map_of (hs_items s) key of
        None \<Rightarrow> (s, Some (NotFound (rt_GroupResource rt) key))
      | Some existing \<Rightarrow>
          (let s1 = DeepCopyIntoResource existing p s
           in case validate (deref s1 p) of
                Some err \<Rightarrow> (s1, Some (Wrap ''delete resource: '' err))
              | None \<Rightarrow> (h_emit rt e Deleted existing (s1\<lparr>hs_items := AList.delete key (hs_items s1)\<rparr>), None)))"

definition h_update ::
  "'a resource_type \<Rightarrow> env \<Rightarrow> 'a hstore \<Rightarrow> string \<Rightarrow> nat \<Rightarrow> ('a resource \<Rightarrow> 'a resource \<times> go_error option)
   \<Rightarrow> 'a hstore \<times> go_error option" where
  "h_update rt e s key p modify =
     (case map_of (hs_items s) key of
        None \<Rightarrow> (s, Some (NotFound (rt_GroupResource rt) key))
      | Some existing \<Rightarrow>
          (let s1 = DeepCopyIntoResource existing p s
           in case modify (deref s1 p) of
                (r, Some err) \<Rightarrow> (assign p r s1, Some (Wrap ''update resource: '' err))
              | (r, None) \<Rightarrow>
                  (let s2 = assign p r s1
                   in if version (deref s2 existing) \<noteq> version (deref s2 p) then
                        (s2, Some (Conflict (rt_GroupResource rt) key
                          ''resource was changed concurrently, please fetch the latest resource version and apply your changes again''))
                      else
                        (let s3 = h_set_resource_version p (assign p (set_gvk rt (deref s2 p)) s2);
                             (r', s4) = DeepCopyObject p s3
                         in (h_emit rt e Modified r' (s4\<lparr>hs_items := AList.update key r' (hs_items s4)\<rparr>), None)))))"

text \<open>\<open>List\<close> returns copies, in the order of the keys.\<close>

fun h_copies :: "'a resource_type \<Rightarrow> nat list \<Rightarrow> 'a hstore \<Rightarrow> nat list \<times> 'a hstore" where
  "h_copies rt [] s = ([], s)"
| "h_copies rt (a # as) s =
     (let (r, s1) = DeepCopyObject a s;
          (rs, s2) = h_copies rt as (assign r (set_gvk rt (deref s1 r)) s1)
      in (r # rs, s2))"

definition h_list :: "'a resource_type \<Rightarrow> 'a hstore \<Rightarrow> nat list \<times> 'a hstore" where
  "h_list rt s = h_copies rt (map (\<lambda>k. the (map_of (hs_items s) k)) (sort (map fst (hs_items s)))) s"

section \<open>What a store over objects stands for\<close>

definition map_event :: "('o \<Rightarrow> 'p) \<Rightarrow> 'o event \<Rightarrow> 'p event" where
  "map_event f e = \<lparr>ev_type = ev_type e, ev_object = f (ev_object e)\<rparr>"

definition map_watcher :: "('o \<Rightarrow> 'p) \<Rightarrow> 'o watcher \<Rightarrow> 'p watcher" where
  "map_watcher f w = \<lparr>w_filter = w_filter w, w_ch = map (map_event f) (w_ch w),
     w_taken = map (map_event f) (w_taken w), w_kicked = w_kicked w\<rparr>"

definition map_hub :: "('o \<Rightarrow> 'p) \<Rightarrow> 'o pubsub \<Rightarrow> 'p pubsub" where
  "map_hub f ps = \<lparr>ps_watchers = map (\<lambda>(i, w). (i, map_watcher f w)) (ps_watchers ps), ps_seq = ps_seq ps\<rparr>"

definition contents :: "'a hstore \<Rightarrow> 'a memstore" where
  "contents s = \<lparr>ms_items = map (\<lambda>(k, a). (k, deref s a)) (hs_items s), ms_seq = hs_seq s,
     ms_pubsub = map_hub (deref s) (hs_pubsub s)\<rparr>"

definition watcher_objects :: "'o watcher \<Rightarrow> 'o set" where
  "watcher_objects w = ev_object ` (set (w_ch w) \<union> set (w_taken w))"

definition hub_objects :: "'o pubsub \<Rightarrow> 'o set" where
  "hub_objects ps = (\<Union>(i, w) \<in> set (ps_watchers ps). watcher_objects w)"

text \<open>The objects the store keeps or has announced.\<close>

definition store_objects :: "'a hstore \<Rightarrow> nat set" where
  "store_objects s = snd ` set (hs_items s) \<union> hub_objects (hs_pubsub s)"

lemma map_watcher_cong:
  "(\<And>a. a \<in> watcher_objects w \<Longrightarrow> f a = g a) \<Longrightarrow> map_watcher f w = map_watcher g w"
  by (auto simp: map_watcher_def map_event_def watcher_objects_def)

lemma map_hub_cong: "(\<And>a. a \<in> hub_objects ps \<Longrightarrow> f a = g a) \<Longrightarrow> map_hub f ps = map_hub g ps"
  unfolding map_hub_def hub_objects_def by (auto intro!: map_watcher_cong)

lemma contents_cong:
  assumes "\<And>a. a \<in> store_objects s \<Longrightarrow> deref s' a = deref s a"
    and "hs_items s' = hs_items s" "hs_seq s' = hs_seq s" "hs_pubsub s' = hs_pubsub s"
  shows "contents s' = contents s"
proof -
  have "map_hub (deref s') (hs_pubsub s) = map_hub (deref s) (hs_pubsub s)"
    using assms(1) by (intro map_hub_cong) (simp add: store_objects_def)
  moreover have "map (\<lambda>(k, a). (k, deref s' a)) (hs_items s) = map (\<lambda>(k, a). (k, deref s a)) (hs_items s)"
    using assms(1) by (force simp: store_objects_def)
  ultimately show ?thesis using assms(2-4) by (simp add: contents_def)
qed

lemma map_hub_publish:
  "map_hub f (publish (\<lambda>b. acc (f b)) takes \<lparr>ev_type = t, ev_object = a\<rparr> ps) =
   publish acc takes \<lparr>ev_type = t, ev_object = f a\<rparr> (map_hub f ps)"
proof -
  have sub: "is_subscribed flt \<lparr>ev_type = t, ev_object = a\<rparr> m = is_subscribed flt \<lparr>ev_type = t, ev_object = f a\<rparr> m" for flt m
    by (simp add: is_subscribed_def)
  have send: "map_watcher f (send_event n \<lparr>ev_type = t, ev_object = a\<rparr> w) =
      send_event n \<lparr>ev_type = t, ev_object = f a\<rparr> (map_watcher f w)" for n w
    by (simp add: send_event_def map_watcher_def map_event_def take_map drop_map)
  have filt: "w_filter (map_watcher f w) = w_filter w" for w by (simp add: map_watcher_def)
  show ?thesis by (auto simp: publish_def map_hub_def sub send filt split: option.splits)
qed

lemma watcher_objects_send: "watcher_objects (send_event n evt w) \<subseteq> insert (ev_object evt) (watcher_objects w)"
  by (auto simp: watcher_objects_def send_event_def image_iff dest: in_set_takeD in_set_dropD)

lemma hub_objects_publish: "hub_objects (publish acc takes evt ps) \<subseteq> insert (ev_object evt) (hub_objects ps)"
proof (cases "acc (ev_object evt)")
  case (Some m)
  let ?send = "\<lambda>i w. if is_subscribed (w_filter w) evt m then send_event (takes i) evt w else w"
  have "watcher_objects (?send i w) \<subseteq> insert (ev_object evt) (watcher_objects w)" for i w
    using watcher_objects_send [of "takes i" evt w] by auto
  with Some show ?thesis by (fastforce simp: hub_objects_def publish_def)
qed (auto simp: publish_def)

lemma map_alist_update:
  "map (\<lambda>(k, a). (k, f a)) (AList.update key v m) = AList.update key (f v) (map (\<lambda>(k, a). (k, f a)) m)"
  by (induction m) auto

lemma map_alist_delete:
  "map (\<lambda>(k, a). (k, f a)) (AList.delete key m) = AList.delete key (map (\<lambda>(k, a). (k, f a)) m)"
  by (induction m) auto

lemma snd_alist_update: "snd ` set (AList.update key v m) \<subseteq> insert v (snd ` set m)"
  by (induction m) auto

lemma snd_alist_delete: "snd ` set (AList.delete key m) \<subseteq> snd ` set m"
  by (auto simp: AList.delete_eq)

lemma deref_simps [simp]:
  "deref (assign p r s) a = (if a = p then r else deref s a)"
  "deref (s\<lparr>hs_next := n\<rparr>) = deref s" "deref (s\<lparr>hs_items := i\<rparr>) = deref s" "deref (s\<lparr>hs_seq := q\<rparr>) = deref s"
  "deref (s\<lparr>hs_pubsub := ps\<rparr>) = deref s" "deref (h_emit rt e t b s) = deref s"
  by (auto simp: deref_def assign_def h_emit_def)

lemma assign_fields [simp]:
  "hs_next (assign p r s) = hs_next s" "hs_items (assign p r s) = hs_items s" "hs_seq (assign p r s) = hs_seq s"
  "hs_pubsub (assign p r s) = hs_pubsub s"
  by (simp_all add: assign_def)

lemma store_objects_cong: "hs_items s' = hs_items s \<Longrightarrow> hs_pubsub s' = hs_pubsub s \<Longrightarrow> store_objects s' = store_objects s"
  by (simp add: store_objects_def)

lemma contents_emit: "contents (h_emit rt e t a s) = emit rt e t (deref s a) (contents s)"
  using map_hub_publish [of "deref s" "resource_ref rt" "env_takes e" t a "hs_pubsub s"]
  by (simp add: contents_def h_emit_def emit_def)

lemma store_objects_emit: "store_objects (h_emit rt e t a s) \<subseteq> insert a (store_objects s)"
  using hub_objects_publish [of "\<lambda>b. resource_ref rt (deref s b)" "env_takes e" "\<lparr>ev_type = t, ev_object = a\<rparr>" "hs_pubsub s"]
  by (auto simp: store_objects_def h_emit_def)

lemma map_of_contents: "map_of (ms_items (contents s)) k = map_option (deref s) (map_of (hs_items s) k)"
  by (simp add: contents_def map_of_map_pair)

lemma contents_fields [simp]: "ms_seq (contents s) = hs_seq s"
  by (simp add: contents_def)

section \<open>Callers and the store\<close>

text \<open>
  The caller's objects \<open>C\<close> hold \<open>c\<close>, the store stands for \<open>m\<close>, and neither the store nor its events have
  an object of the caller.
\<close>

definition apart :: "nat set \<Rightarrow> 'a hstore \<Rightarrow> 'a memstore \<Rightarrow> (nat \<Rightarrow> 'a resource) \<Rightarrow> bool" where
  "apart C s m c \<longleftrightarrow> store_objects s \<subseteq> {..<hs_next s} \<and> C \<subseteq> {..<hs_next s} \<and> C \<inter> store_objects s = {} \<and>
     contents s = m \<and> (\<forall>p \<in> C. deref s p = c p)"

lemma apart_assign:
  assumes "apart C s m c" "p \<in> C"
  shows "apart C (assign p r s) m (c(p := r))"
proof -
  have "store_objects (assign p r s) = store_objects s" by (rule store_objects_cong) simp_all
  moreover have "p \<notin> store_objects s" using assms by (auto simp: apart_def)
  then have "contents (assign p r s) = contents s" by (intro contents_cong) auto
  ultimately show ?thesis using assms by (auto simp: apart_def)
qed

lemma apart_item:
  assumes "apart C s m c" "map_of (hs_items s) key = Some a"
  shows "map_of (ms_items m) key = Some (deref s a)" "a \<in> store_objects s" "a \<notin> C"
proof -
  show "map_of (ms_items m) key = Some (deref s a)" using assms map_of_contents [of s key] by (simp add: apart_def)
  show "a \<in> store_objects s" using assms(2) by (force simp: store_objects_def dest: map_of_SomeD)
  then show "a \<notin> C" using assms(1) by (auto simp: apart_def)
qed

lemma apart_no_item: "apart C s m c \<Longrightarrow> map_of (hs_items s) key = None \<Longrightarrow> map_of (ms_items m) key = None"
  using map_of_contents [of s key] by (simp add: apart_def)

text \<open>Putting a copy of the caller's object into the store and announcing it.\<close>

lemma apart_store:
  assumes a: "apart C s m c" and p: "p \<in> C"
    and s1: "s1 = h_set_resource_version p s" "(r, s2) = DeepCopyObject p s1"
  shows "apart C (h_emit rt e t r (s2\<lparr>hs_items := AList.update key r (hs_items s2)\<rparr>))
      (emit rt e t ((c p)\<lparr>md := (md (c p))\<lparr>om_ResourceVersion := show_nat (ms_seq m + 1)\<rparr>\<rparr>)
        (m\<lparr>ms_seq := ms_seq m + 1, ms_items := AList.update key
           ((c p)\<lparr>md := (md (c p))\<lparr>om_ResourceVersion := show_nat (ms_seq m + 1)\<rparr>\<rparr>) (ms_items m)\<rparr>))
      (c(p := (c p)\<lparr>md := (md (c p))\<lparr>om_ResourceVersion := show_nat (ms_seq m + 1)\<rparr>\<rparr>))"
    (is "apart C ?s' ?m' ?c'")
proof -
  let ?r = "(c p)\<lparr>md := (md (c p))\<lparr>om_ResourceVersion := show_nat (ms_seq m + 1)\<rparr>\<rparr>"
  let ?n = "hs_next s"
  let ?s3 = "s2\<lparr>hs_items := AList.update key r (hs_items s2)\<rparr>"
  have seq: "hs_seq s = ms_seq m" and dp: "deref s p = c p" and pn: "p < ?n"
    using a p by (auto simp: apart_def)
  have f: "r = ?n" "hs_next s2 = ?n + 1" "hs_items s2 = hs_items s" "hs_seq s2 = ms_seq m + 1" "hs_pubsub s2 = hs_pubsub s"
    using s1 seq by (simp_all add: DeepCopyObject_def h_set_resource_version_def Let_def)
  have d: "deref s2 b = (if b = ?n \<or> b = p then ?r else deref s b)" for b
    using s1 seq dp by (auto simp: DeepCopyObject_def h_set_resource_version_def Let_def)
  have same: "deref s2 b = deref s b" if "b \<in> store_objects s" for b
    using that a p d [of b] unfolding apart_def by auto
  have hub: "map_hub (deref s2) (hs_pubsub s) = map_hub (deref s) (hs_pubsub s)"
    using same by (intro map_hub_cong) (simp add: store_objects_def)
  have items: "map (\<lambda>(k, b). (k, deref s2 b)) (hs_items s) = map (\<lambda>(k, b). (k, deref s b)) (hs_items s)"
    using same by (force simp: store_objects_def)
  have m: "m = contents s" using a by (simp add: apart_def)
  have "contents ?s3 = m\<lparr>ms_seq := ms_seq m + 1, ms_items := AList.update key ?r (ms_items m)\<rparr>"
    using f d [of ?n] hub unfolding m by (simp add: contents_def map_alist_update items)
  then have cont: "contents ?s' = ?m'"
    using d [of ?n] f(1) by (simp add: contents_emit)
  have "snd ` set (AList.update key ?n (hs_items s)) \<subseteq> insert ?n (snd ` set (hs_items s))" by (rule snd_alist_update)
  then have "store_objects ?s3 \<subseteq> insert ?n (store_objects s)" using f by (simp add: store_objects_def) blast
  then have objs: "store_objects ?s' \<subseteq> insert ?n (store_objects s)"
    using store_objects_emit [of rt e t r ?s3] f(1) by blast
  have nx: "hs_next ?s' = ?n + 1" using f by (simp add: h_emit_def)
  have "\<forall>q \<in> C. deref ?s' q = ?c' q"
    using a d p unfolding apart_def by (auto simp: lessThan_def)
  moreover have "store_objects ?s' \<subseteq> {..<hs_next ?s'}" "C \<subseteq> {..<hs_next ?s'}" "C \<inter> store_objects ?s' = {}"
    using a objs nx unfolding apart_def by fastforce+
  ultimately show ?thesis using cont by (simp add: apart_def)
qed

lemma apart_remove:
  assumes a: "apart C s m c" and i: "map_of (hs_items s) key = Some x"
  shows "apart C (h_emit rt e t x (s\<lparr>hs_items := AList.delete key (hs_items s)\<rparr>))
    (emit rt e t (deref s x) (m\<lparr>ms_items := AList.delete key (ms_items m)\<rparr>)) c"
proof -
  let ?s1 = "s\<lparr>hs_items := AList.delete key (hs_items s)\<rparr>"
  have "contents ?s1 = m\<lparr>ms_items := AList.delete key (ms_items m)\<rparr>"
    using a by (auto simp: contents_def apart_def map_alist_delete)
  then have cont: "contents (h_emit rt e t x ?s1) = emit rt e t (deref s x) (m\<lparr>ms_items := AList.delete key (ms_items m)\<rparr>)"
    by (simp add: contents_emit)
  have "store_objects ?s1 \<subseteq> store_objects s"
    using snd_alist_delete [of key "hs_items s"] by (auto simp: store_objects_def)
  then have objs: "store_objects (h_emit rt e t x ?s1) \<subseteq> store_objects s"
    using store_objects_emit [of rt e t x ?s1] apart_item(2) [OF a i] by blast
  have "hs_next (h_emit rt e t x ?s1) = hs_next s" by (simp add: h_emit_def)
  with cont objs a show ?thesis by (auto simp: apart_def)
qed

text \<open>
  What callers do, with the addresses of their objects, and the same with values: a call leaves in the
  variable what it left in the object. A list gives the caller objects of its own, which it may use in later
  calls; with values they are variables that hold what was listed. A caller writes to its objects; consumers of
  the events read them. The outcome of a call is its error and the resources it lists.
\<close>

datatype 'a call =
    CallGet string nat
  | CallCreate env string nat
  | CallUpdate env string nat "'a resource \<Rightarrow> 'a resource \<times> go_error option"
  | CallDelete env string nat "'a resource \<Rightarrow> go_error option"
  | CallList
  | Writes nat "'a resource"

fun call_object :: "'a call \<Rightarrow> nat option" where
  "call_object (CallGet k p) = Some p"
| "call_object (CallCreate e k p) = Some p"
| "call_object (CallUpdate e k p f) = Some p"
| "call_object (CallDelete e k p v) = Some p"
| "call_object CallList = None"
| "call_object (Writes p r) = Some p"

type_synonym 'a outcome = "go_error option \<times> 'a resource list"

definition no_list :: "'s \<times> go_error option \<Rightarrow> 's \<times> nat list \<times> 'a outcome" where
  "no_list res = (fst res, [], snd res, [])"

fun h_call :: "'a resource_type \<Rightarrow> 'a call \<Rightarrow> 'a hstore \<Rightarrow> 'a hstore \<times> nat list \<times> 'a outcome" where
  "h_call rt (CallGet k p) s = no_list (h_get rt s k p)"
| "h_call rt (CallCreate e k p) s = no_list (h_create rt e s k p)"
| "h_call rt (CallUpdate e k p f) s = no_list (h_update rt e s k p f)"
| "h_call rt (CallDelete e k p v) s = no_list (h_delete rt e s k p v)"
| "h_call rt CallList s = (case h_list rt s of (given, s') \<Rightarrow> (s', given, None, map (deref s') given))"
| "h_call rt (Writes p r) s = no_list (assign p r s, None)"

definition left_in :: "nat \<Rightarrow> (nat \<Rightarrow> 'a resource) \<Rightarrow> 'm \<times> (go_error + 'a resource) \<Rightarrow> ('m \<times> (nat \<Rightarrow> 'a resource)) \<times> go_error option" where
  "left_in p c res = (case res of (m, Inl err) \<Rightarrow> ((m, c), Some err) | (m, Inr r) \<Rightarrow> ((m, c(p := r)), None))"

definition hold :: "nat list \<Rightarrow> 'a resource list \<Rightarrow> (nat \<Rightarrow> 'a resource) \<Rightarrow> nat \<Rightarrow> 'a resource" where
  "hold ps rs c = (\<lambda>p. case map_of (zip ps rs) p of None \<Rightarrow> c p | Some r \<Rightarrow> r)"

definition with_outcome :: "'s \<times> go_error option \<Rightarrow> 's \<times> 'a outcome" where
  "with_outcome res = (fst res, snd res, [])"

text \<open>\<open>given\<close> names the variables for the resources that a list gives.\<close>

fun v_call ::
  "'a resource_type \<Rightarrow> 'a call \<Rightarrow> nat list \<Rightarrow> 'a memstore \<times> (nat \<Rightarrow> 'a resource) \<Rightarrow> ('a memstore \<times> (nat \<Rightarrow> 'a resource)) \<times> 'a outcome" where
  "v_call rt (CallGet k p) given (m, c) = with_outcome (left_in p c (m, mem_get rt m k))"
| "v_call rt (CallCreate e k p) given (m, c) = with_outcome (left_in p c (mem_create rt e m k (c p)))"
| "v_call rt (CallUpdate e k p f) given (m, c) =
     with_outcome (left_in p (case mem_view m k of None \<Rightarrow> c | Some old \<Rightarrow> c(p := fst (f old)))
       (mem_update rt e m k (\<lambda>r. case f r of (_, Some err) \<Rightarrow> Inl err | (r', None) \<Rightarrow> Inr r')))"
| "v_call rt (CallDelete e k p v) given (m, c) =
     with_outcome (left_in p (case mem_view m k of None \<Rightarrow> c | Some old \<Rightarrow> c(p := old)) (mem_delete rt e m k v))"
| "v_call rt CallList given (m, c) = (let rs = ll_Items (mem_list rt m) in ((m, hold given rs c), None, rs))"
| "v_call rt (Writes p r) given (m, c) = with_outcome ((m, c(p := r)), None)"

fun h_calls :: "'a resource_type \<Rightarrow> 'a call list \<Rightarrow> 'a hstore \<Rightarrow> 'a hstore \<times> nat list list \<times> 'a outcome list" where
  "h_calls rt [] s = (s, [], [])"
| "h_calls rt (x # xs) s =
     (let (s1, given, out) = h_call rt x s; (s2, givens, outs) = h_calls rt xs s1 in (s2, given # givens, out # outs))"

fun v_calls ::
  "'a resource_type \<Rightarrow> 'a call list \<Rightarrow> nat list list \<Rightarrow> 'a memstore \<times> (nat \<Rightarrow> 'a resource)
   \<Rightarrow> ('a memstore \<times> (nat \<Rightarrow> 'a resource)) \<times> 'a outcome list" where
  "v_calls rt (x # xs) (given # givens) s =
     (let (s1, out) = v_call rt x given s; (s2, outs) = v_calls rt xs givens s1 in (s2, out # outs))"
| "v_calls rt _ _ s = (s, [])"

text \<open>Callers use their own objects, those of \<open>C\<close> and what lists gave them before.\<close>

fun uses_own :: "nat set \<Rightarrow> 'a call list \<Rightarrow> nat list list \<Rightarrow> bool" where
  "uses_own C (x # xs) (given # givens) \<longleftrightarrow>
     (case call_object x of None \<Rightarrow> True | Some p \<Rightarrow> p \<in> C) \<and> uses_own (C \<union> set given) xs givens"
| "uses_own C _ _ \<longleftrightarrow> True"

text \<open>Copying a stored object into a caller's one, and into new cells.\<close>

lemma apart_copy:
  assumes "apart C s m c" "p \<in> C" "map_of (hs_items s) key = Some a"
  shows "apart C (DeepCopyIntoResource a p s) m (c(p := deref s a))"
  unfolding DeepCopyIntoResource_def by (rule apart_assign [OF assms(1,2)])

lemma copy_fields [simp]:
  "hs_next (snd (DeepCopyObject a s)) = hs_next s + 1" "hs_items (snd (DeepCopyObject a s)) = hs_items s"
  "hs_seq (snd (DeepCopyObject a s)) = hs_seq s" "hs_pubsub (snd (DeepCopyObject a s)) = hs_pubsub s"
  by (simp_all add: DeepCopyObject_def)

lemma copies_fresh:
  assumes "h_copies rt as s = (rs, s')" "set as \<subseteq> {..<hs_next s}"
  shows "rs = [hs_next s..<hs_next s + length as]" "hs_next s' = hs_next s + length as"
    "hs_items s' = hs_items s" "hs_seq s' = hs_seq s" "hs_pubsub s' = hs_pubsub s"
    "\<And>b. b < hs_next s \<Longrightarrow> deref s' b = deref s b" "map (deref s') rs = map (\<lambda>a. set_gvk rt (deref s a)) as"
proof -
  have "rs = [hs_next s..<hs_next s + length as] \<and> hs_next s' = hs_next s + length as \<and> hs_items s' = hs_items s \<and>
    hs_seq s' = hs_seq s \<and> hs_pubsub s' = hs_pubsub s \<and> (\<forall>b < hs_next s. deref s' b = deref s b) \<and>
    map (deref s') rs = map (\<lambda>a. set_gvk rt (deref s a)) as"
    using assms
  proof (induction "as" arbitrary: s rs)
    case (Cons a as)
    let ?n = "hs_next s"
    define s2 where "s2 = assign ?n (set_gvk rt (deref (snd (DeepCopyObject a s)) ?n)) (snd (DeepCopyObject a s))"
    have f2: "hs_next s2 = Suc ?n" "hs_items s2 = hs_items s" "hs_seq s2 = hs_seq s" "hs_pubsub s2 = hs_pubsub s"
      by (simp_all add: s2_def)
    have d: "deref s2 b = (if b = ?n then set_gvk rt (deref s a) else deref s b)" for b by (simp add: s2_def DeepCopyObject_def)
    obtain rs1 where r: "h_copies rt as s2 = (rs1, s')" "rs = ?n # rs1"
      using Cons.prems(1) by (auto simp: DeepCopyObject_def s2_def Let_def split: prod.splits)
    have "set as \<subseteq> {..<hs_next s2}" using Cons.prems(2) f2(1) by auto
    note ih = Cons.IH [OF r(1) this, unfolded f2]
    have "map (\<lambda>a. set_gvk rt (deref s2 a)) as = map (\<lambda>a. set_gvk rt (deref s a)) as"
      using Cons.prems(2) d by auto
    moreover have "deref s' ?n = set_gvk rt (deref s a)" using ih d [of ?n] by simp
    moreover have "map (deref s') rs1 = map (\<lambda>a. set_gvk rt (deref s2 a)) as" using ih by (elim conjE)
    ultimately have "map (deref s') rs = map (\<lambda>a. set_gvk rt (deref s a)) (a # as)" unfolding r(2) by simp
    moreover have "deref s' b = deref s b" if "b < ?n" for b using ih d [of b] that by simp
    moreover have "rs = [?n..<?n + length (a # as)]"
      using ih r(2) upt_conv_Cons [of ?n "Suc ?n + length as"] by (simp del: upt_Suc)
    moreover have "hs_next s' = ?n + length (a # as)" using ih by simp
    ultimately show ?case using ih by blast
  qed simp
  then show "rs = [hs_next s..<hs_next s + length as]" "hs_next s' = hs_next s + length as"
    "hs_items s' = hs_items s" "hs_seq s' = hs_seq s" "hs_pubsub s' = hs_pubsub s"
    "\<And>b. b < hs_next s \<Longrightarrow> deref s' b = deref s b" "map (deref s') rs = map (\<lambda>a. set_gvk rt (deref s a)) as" by blast+
qed

lemma hold_listed:
  assumes "distinct ps" "rs = map f ps"
  shows "hold ps rs c p = (if p \<in> set ps then f p else c p)"
proof -
  have "map_of (zip ps (map f ps)) p = (if p \<in> set ps then Some (f p) else None)"
    by (simp add: map_of_zip_map)
  with assms(2) show ?thesis by (simp add: hold_def)
qed

text \<open>A list gives copies in new cells, which are the caller's from then on.\<close>

lemma list_refines:
  assumes a: "apart C s m c" and h: "h_list rt s = (given, s')"
  shows "map (deref s') given = ll_Items (mem_list rt m)" "distinct given" "C \<inter> set given = {}"
    "apart (C \<union> set given) s' m (hold given (ll_Items (mem_list rt m)) c)"
proof -
  let ?as = "map (\<lambda>k. the (map_of (hs_items s) k)) (sort (map fst (hs_items s)))"
  have in_store: "the (map_of (hs_items s) k) \<in> store_objects s" if k: "k \<in> fst ` set (hs_items s)" for k
  proof -
    have "map_of (hs_items s) k \<noteq> None" using k by (simp add: map_of_eq_None_iff)
    then show ?thesis by (force simp: store_objects_def dest: map_of_SomeD)
  qed
  then have "set ?as \<subseteq> {..<hs_next s}" using a by (auto simp: apart_def)
  note f = copies_fresh [OF h [unfolded h_list_def] this]
  have m: "m = contents s" using a by (simp add: apart_def)
  have keys: "map fst (ms_items m) = map fst (hs_items s)" by (simp add: m contents_def case_prod_beta)
  have "the (map_of (ms_items m) k) = deref s (the (map_of (hs_items s) k))" if k: "k \<in> fst ` set (hs_items s)" for k
  proof -
    obtain x where "map_of (hs_items s) k = Some x" using k map_of_eq_None_iff [of "hs_items s" k] by blast
    then show ?thesis by (simp add: m map_of_contents)
  qed
  then have items: "map (\<lambda>a. set_gvk rt (deref s a)) ?as = ll_Items (mem_list rt m)"
    by (simp add: mem_list_def keys)
  with f(7) show l: "map (deref s') given = ll_Items (mem_list rt m)" by simp
  show d: "distinct given" using f(1) by simp
  show "C \<inter> set given = {}" using a f(1) by (auto simp: apart_def)
  have objs: "store_objects s' = store_objects s" by (rule store_objects_cong [OF f(3,5)])
  have "contents s' = contents s" using a f(3-6) by (intro contents_cong) (auto simp: apart_def)
  moreover have "(C \<union> set given) \<inter> store_objects s = {}" using a f(1) by (auto simp: apart_def)
  moreover have "deref s' p = hold given (ll_Items (mem_list rt m)) c p" if "p \<in> C \<union> set given" for p
    using that a f(6) hold_listed [OF d l [symmetric]] by (auto simp: apart_def)
  ultimately show "apart (C \<union> set given) s' m (hold given (ll_Items (mem_list rt m)) c)"
    using a objs f(1,2) by (auto simp: apart_def)
qed

definition refines_call ::
  "nat set \<Rightarrow> 'a hstore \<times> go_error option \<Rightarrow> ('a memstore \<times> (nat \<Rightarrow> 'a resource)) \<times> go_error option \<Rightarrow> bool" where
  "refines_call C h v = (case v of ((m, c), err) \<Rightarrow> snd h = err \<and> apart C (fst h) m c)"

lemma create_refines:
  assumes a: "apart C s m c" and p: "p \<in> C"
  shows "refines_call C (h_create rt e s k p) (left_in p c (mem_create rt e m k (c p)))"
proof (cases "map_of (hs_items s) k")
  case (Some x)
  with a apart_item(1) [OF a Some] show ?thesis
    by (simp add: h_create_def mem_create_def left_in_def refines_call_def)
next
  case None
  have dp: "deref s p = c p" using a p by (simp add: apart_def)
  let ?r = "set_name_and_creation_timestamp e (set_gvk rt (c p)) k"
  have a1: "apart C (assign p ?r s) m (c(p := ?r))" by (rule apart_assign [OF a p])
  obtain r s2 where s2: "(r, s2) = DeepCopyObject p (h_set_resource_version p (assign p ?r s))" by (simp add: DeepCopyObject_def)
  have "hs_items s2 = hs_items s"
    using s2 by (simp add: DeepCopyObject_def h_set_resource_version_def Let_def)
  with apart_store [OF a1 p refl s2, of rt e Added k] None apart_no_item [OF a None] dp s2 show ?thesis
    by (simp add: h_create_def mem_create_cases left_in_def refines_call_def Let_def domIff flip: s2)
qed

lemma delete_refines:
  assumes a: "apart C s m c" and p: "p \<in> C"
  shows "refines_call C (h_delete rt e s k p v)
    (left_in p (case mem_view m k of None \<Rightarrow> c | Some old \<Rightarrow> c(p := old)) (mem_delete rt e m k v))"
proof (cases "map_of (hs_items s) k")
  case None
  with a apart_no_item [OF a None] show ?thesis
    by (simp add: h_delete_def mem_delete_def mem_delete_cb_def left_in_def refines_call_def)
next
  case (Some x)
  let ?s1 = "DeepCopyIntoResource x p s"
  have a1: "apart C ?s1 m (c(p := deref s x))" by (rule apart_copy [OF a p Some])
  have i: "map_of (hs_items ?s1) k = Some x" using Some by (simp add: DeepCopyIntoResource_def)
  have d: "deref ?s1 p = deref s x" "deref ?s1 x = deref s x" by (simp_all add: DeepCopyIntoResource_def)
  note m = apart_item(1) [OF a Some]
  show ?thesis
  proof (cases "v (deref s x)")
    case None
    with a1 apart_remove [OF a1 i, of rt e Deleted] d m Some show ?thesis
      by (simp add: h_delete_def mem_delete_def mem_delete_cb_def left_in_def refines_call_def Let_def)
  next
    case (Some err)
    with a1 d m \<open>map_of (hs_items s) k = Some x\<close> show ?thesis
      by (simp add: h_delete_def mem_delete_def mem_delete_cb_def left_in_def refines_call_def Let_def)
  qed
qed

lemma update_refines:
  assumes a: "apart C s m c" and p: "p \<in> C"
  shows "refines_call C (h_update rt e s k p f)
    (left_in p (case mem_view m k of None \<Rightarrow> c | Some old \<Rightarrow> c(p := fst (f old)))
       (mem_update rt e m k (\<lambda>r. case f r of (_, Some err) \<Rightarrow> Inl err | (r', None) \<Rightarrow> Inr r')))"
proof (cases "map_of (hs_items s) k")
  case None
  with a apart_no_item [OF a None] show ?thesis
    by (simp add: h_update_def mem_update_def mem_update_cb_def left_in_def refines_call_def)
next
  case (Some x)
  let ?s1 = "DeepCopyIntoResource x p s"
  have a1: "apart C ?s1 m (c(p := deref s x))" by (rule apart_copy [OF a p Some])
  have xp: "x \<noteq> p" using apart_item(3) [OF a Some] p by blast
  have d: "deref ?s1 p = deref s x" "deref ?s1 x = deref s x" by (simp_all add: DeepCopyIntoResource_def)
  note m = apart_item(1) [OF a Some]
  obtain r err where f: "f (deref s x) = (r, err)" by fastforce
  have a2: "apart C (assign p r ?s1) m (c(p := r))" using apart_assign [OF a1 p, of r] by simp
  show ?thesis
  proof (cases err)
    case (Some e')
    with f a2 d m \<open>map_of (hs_items s) k = Some x\<close> show ?thesis
      by (simp add: h_update_def mem_update_def mem_update_cb_cases left_in_def refines_call_def Let_def)
  next
    case None
    show ?thesis
    proof (cases "version (deref s x) = version r")
      case False
      with f None a2 d xp m \<open>map_of (hs_items s) k = Some x\<close> show ?thesis
        by (simp add: h_update_def mem_update_def mem_update_cb_cases left_in_def refines_call_def Let_def)
    next
      case True
      let ?s2 = "assign p (set_gvk rt r) (assign p r ?s1)"
      have a3: "apart C ?s2 m (c(p := set_gvk rt r))" using apart_assign [OF a2 p, of "set_gvk rt r"] by simp
      obtain q s3 where s3: "(q, s3) = DeepCopyObject p (h_set_resource_version p ?s2)" by (simp add: DeepCopyObject_def)
      from apart_store [OF a3 p refl s3, of rt e Modified k] f None True d xp m \<open>map_of (hs_items s) k = Some x\<close> show ?thesis
        by (simp add: h_update_def mem_update_def mem_update_cb_cases left_in_def refines_call_def Let_def flip: s3)
    qed
  qed
qed

lemma get_refines:
  assumes a: "apart C s m c" and p: "p \<in> C"
  shows "refines_call C (h_get rt s k p) (left_in p c (m, mem_get rt m k))"
proof (cases "map_of (hs_items s) k")
  case None
  with a apart_no_item [OF a None] show ?thesis by (simp add: h_get_def mem_get_def left_in_def refines_call_def)
next
  case (Some b)
  with apart_copy [OF a p Some] apart_item(1) [OF a Some] show ?thesis
    by (simp add: h_get_def mem_get_def left_in_def refines_call_def)
qed

text \<open>A call has the outcome it has on values, and what it gives to the caller is new.\<close>

lemma refines_no_list:
  assumes "refines_call C h v" "no_list h = (s', given, out)"
  shows "\<exists>m' c'. with_outcome v = ((m', c'), out) \<and> apart (C \<union> set given) s' m' c' \<and> distinct given \<and> C \<inter> set given = {}"
  using assms by (cases v) (auto simp: refines_call_def no_list_def with_outcome_def)

lemma call_refines:
  assumes a: "apart C s m c" and p: "\<And>p. call_object x = Some p \<Longrightarrow> p \<in> C" and h: "h_call rt x s = (s', given, out)"
  shows "\<exists>m' c'. v_call rt x given (m, c) = ((m', c'), out) \<and> apart (C \<union> set given) s' m' c' \<and> distinct given \<and> C \<inter> set given = {}"
proof (cases x)
  case CallList
  with h obtain "h_list rt s = (given, s')" "out = (None, map (deref s') given)" by (auto split: prod.splits)
  with list_refines [OF a] CallList show ?thesis by (simp add: Let_def)
next
  case (CallGet k q)
  with h p have "no_list (h_get rt s k q) = (s', given, out)" "q \<in> C" by simp_all
  from refines_no_list [OF get_refines [OF a this(2)] this(1)] CallGet show ?thesis by simp
next
  case (CallCreate e k q)
  with h p have "no_list (h_create rt e s k q) = (s', given, out)" "q \<in> C" by simp_all
  from refines_no_list [OF create_refines [OF a this(2)] this(1)] CallCreate show ?thesis by simp
next
  case (CallUpdate e k q f)
  with h p have "no_list (h_update rt e s k q f) = (s', given, out)" "q \<in> C" by simp_all
  from refines_no_list [OF update_refines [OF a this(2)] this(1)] CallUpdate show ?thesis by simp
next
  case (CallDelete e k q v)
  with h p have "no_list (h_delete rt e s k q v) = (s', given, out)" "q \<in> C" by simp_all
  from refines_no_list [OF delete_refines [OF a this(2)] this(1)] CallDelete show ?thesis by simp
next
  case (Writes q r)
  with h p have "no_list (assign q r s, None) = (s', given, out)" "q \<in> C" by simp_all
  moreover from this(2) have "refines_call C (assign q r s, None) ((m, c(q := r)), None)"
    using apart_assign [OF a] by (simp add: refines_call_def)
  ultimately show ?thesis using refines_no_list Writes by fastforce
qed

lemma calls_refine:
  assumes "apart C s m c" "h_calls rt xs s = (s', givens, outs)" "uses_own C xs givens"
  shows "\<exists>m' c'. v_calls rt xs givens (m, c) = ((m', c'), outs) \<and> apart (C \<union> \<Union> (set ` set givens)) s' m' c' \<and>
    distinct (concat givens) \<and> C \<inter> \<Union> (set ` set givens) = {}"
  using assms
proof (induction xs arbitrary: C s m c givens outs)
  case (Cons x xs)
  obtain s1 given out where h: "h_call rt x s = (s1, given, out)" by (metis prod_cases3)
  obtain givens' outs' where hs: "h_calls rt xs s1 = (s', givens', outs')" "givens = given # givens'" "outs = out # outs'"
    using Cons.prems(2) h by (auto simp: Let_def split: prod.splits)
  have "call_object x = Some p \<Longrightarrow> p \<in> C" for p using Cons.prems(3) hs(2) by simp
  from call_refines [OF Cons.prems(1) this h] obtain m1 c1 where
    v: "v_call rt x given (m, c) = ((m1, c1), out)" "apart (C \<union> set given) s1 m1 c1" "distinct given" "C \<inter> set given = {}" by blast
  have "uses_own (C \<union> set given) xs givens'" using Cons.prems(3) hs(2) by simp
  from Cons.IH [OF v(2) hs(1) this] obtain m' c' where
    r: "v_calls rt xs givens' (m1, c1) = ((m', c'), outs')" "apart (C \<union> set given \<union> \<Union> (set ` set givens')) s' m' c'"
      "distinct (concat givens')" "(C \<union> set given) \<inter> \<Union> (set ` set givens') = {}" by blast
  have "apart (C \<union> \<Union> (set ` set givens)) s' m' c'" using r(2) hs(2) by (simp add: Un_assoc)
  with v r(1,3,4) hs(2,3) show ?case by (auto simp: Let_def)
qed auto

section \<open>The file store\<close>

text \<open>
  \<open>Create\<close> of the file store (\<open>pkg/storage/filestore.go\<close>). It looks for the key with \<open>Get\<close>, which writes a
  resource it finds over the caller's object; what it puts into the map and announces is no copy but the
  object of the caller.
\<close>

record ('a, 'b) hfile =
  hf_mem :: "'a hstore"
  hf_dir :: "'b dir"

definition hf_create ::
  "('a, 'b) codec \<Rightarrow> 'a resource_type \<Rightarrow> env \<Rightarrow> ('a, 'b) hfile \<Rightarrow> string \<Rightarrow> nat \<Rightarrow> ('a, 'b) hfile \<times> go_error option" where
  "hf_create codec rt e f key p =
     (case h_get rt (hf_mem f) key p of
        (s1, None) \<Rightarrow> (f\<lparr>hf_mem := s1\<rparr>, Some (AlreadyExists (rt_GroupResource rt) key))
      | (s1, Some _) \<Rightarrow>
          (let s2 = assign p (set_name_and_creation_timestamp e (set_gvk rt (deref s1 p)) key) s1;
               s3 = h_set_resource_version p s2
           in case write_file codec rt e key (deref s3 p) (hf_dir f) of
                (d, Some err) \<Rightarrow> (f\<lparr>hf_mem := s3, hf_dir := d\<rparr>, Some (Wrap ''create resource: '' err))
              | (d, None) \<Rightarrow>
                  (f\<lparr>hf_mem := h_emit rt e Added p (s3\<lparr>hs_items := AList.update key p (hs_items s3)\<rparr>), hf_dir := d\<rparr>, None)))"

lemma hf_create_Inr:
  assumes "hf_create codec rt e f key p = (f', None)"
  shows "map_of (hs_items (hf_mem f')) key = Some p" "hs_seq (hf_mem f') = hs_seq (hf_mem f) + 1"
    "map_of (hs_items (hf_mem f)) key = None"
  using assms
  by (auto simp: hf_create_def h_get_def h_emit_def h_set_resource_version_def Let_def alist_simps
      split: option.splits prod.splits)

section \<open>Properties\<close>

text \<open>
  C15. Isolation: as long as callers use their own objects, that is objects the in-memory store has not taken or
  announced and those that a list has given them, any calls, also calls that fail, interleaved with any
  writes of the callers to their objects, have the errors and the listed resources and leave the content,
  versions and events that the same calls have on values; every object of a caller holds what its variable
  holds. No object of a caller becomes an object of the store, and what a list gives are new objects, none of
  them one of the store, one the caller had or one that was given before.
\<close>

theorem store_isolates_callers:
  assumes "C \<inter> store_objects s = {}" "store_objects s \<subseteq> {..<hs_next s}" "C \<subseteq> {..<hs_next s}"
    and "h_calls rt xs s = (s', givens, outs)" "uses_own C xs givens"
    and "v_calls rt xs givens (contents s, deref s) = ((m, c), outs')" "own = C \<union> set (concat givens)"
  shows "contents s' = m \<and> outs = outs' \<and> (\<forall>p \<in> own. deref s' p = c p) \<and> own \<inter> store_objects s' = {} \<and>
    distinct (concat givens) \<and> C \<inter> set (concat givens) = {}"
proof -
  have "apart C s (contents s) (deref s)" using assms(1-3) by (simp add: apart_def)
  from calls_refine [OF this assms(4,5)] assms(6,7) show ?thesis by (auto simp: apart_def)
qed

text \<open>
  A caller with one object on an empty store: it creates a resource, reuses the object, lists the resources, writes
  to the object it was given and updates with it, and lists them again.
\<close>

definition demo_heap :: "wifi_password hstore" where
  "demo_heap = \<lparr>hs_heap = [0 \<mapsto> new_resource ''home'' ''secret''], hs_next = 1, hs_items = [], hs_seq = 0, hs_pubsub = new_pubsub\<rparr>"

definition demo_calls :: "wifi_password call list" where
  "demo_calls = [CallCreate demo_env ''home'' 0, Writes 0 (new_resource ''x'' ''other''), CallList,
     Writes 2 (new_resource ''y'' ''mine''), CallList, CallGet ''home'' 2]"

lemma demo_calls_run:
  "case h_calls wifipassword_rt demo_calls demo_heap of (s, givens, outs) \<Rightarrow>
     givens = [[], [], [2], [], [3], []] \<and> map (map body \<circ> snd) outs = [[], [], [''secret''], [], [''secret''], []] \<and>
     uses_own {0} demo_calls givens \<and> body (deref s 2) = ''secret'' \<and> hs_items s = [(''home'', 1)]"
  by code_simp

theorem store_isolates_callers_witness:
  "\<exists>s outs. h_calls wifipassword_rt demo_calls demo_heap = (s, [[], [], [2], [], [3], []], outs) \<and>
     snd (v_calls wifipassword_rt demo_calls [[], [], [2], [], [3], []] (contents demo_heap, deref demo_heap)) = outs \<and>
     {0, 2, 3} \<inter> store_objects s = {} \<and> map (map body \<circ> snd) outs = [[], [], [''secret''], [], [''secret''], []]"
proof -
  let ?g = "[[], [], [2], [], [3], []] :: nat list list"
  obtain s outs where h: "h_calls wifipassword_rt demo_calls demo_heap = (s, ?g, outs)" "uses_own {0} demo_calls ?g"
    "map (map body \<circ> snd) outs = [[], [], [''secret''], [], [''secret''], []]"
    using demo_calls_run by (auto split: prod.splits)
  obtain m c outs' where v: "v_calls wifipassword_rt demo_calls ?g (contents demo_heap, deref demo_heap) = ((m, c), outs')"
    by (metis prod.exhaust)
  have 1: "{0} \<inter> store_objects demo_heap = {}" "store_objects demo_heap \<subseteq> {..<hs_next demo_heap}" "{0} \<subseteq> {..<hs_next demo_heap}"
    by (simp_all add: demo_heap_def store_objects_def hub_objects_def new_pubsub_def)
  have own: "{0, 2, 3} = {0} \<union> set (concat ?g)" by auto
  from store_isolates_callers [OF 1 h(1,2) v own] h v show ?thesis by simp
qed

text \<open>
  The file store takes the caller's object: after \<open>Create\<close> succeeded, a write of the caller to the
  resource it passed replaces what the store serves under the key, without a new version, an event
  or a write to the file.
\<close>

theorem file_store_takes_callers_object:
  assumes "hf_create codec rt e f key p = (f', None)"
    and "f'' = f'\<lparr>hf_mem := assign p r (hf_mem f')\<rparr>"
  shows "mem_view (contents (hf_mem f'')) key = Some r \<and> p \<in> store_objects (hf_mem f'') \<and>
    ms_seq (contents (hf_mem f'')) = ms_seq (contents (hf_mem f')) \<and> hf_dir f'' = hf_dir f' \<and>
    hs_pubsub (hf_mem f'') = hs_pubsub (hf_mem f')"
proof -
  have "(key, p) \<in> set (hs_items (hf_mem f''))" using hf_create_Inr(1) [OF assms(1)] assms(2) by (simp add: map_of_SomeD)
  then have "p \<in> store_objects (hf_mem f'')" by (force simp: store_objects_def)
  with hf_create_Inr(1) [OF assms(1)] assms(2) show ?thesis by (simp add: map_of_contents)
qed

theorem file_store_takes_callers_object_witness:
  "\<exists>f. hf_create demo_codec wifipassword_rt demo_env \<lparr>hf_mem = demo_heap, hf_dir = []\<rparr> ''home'' 0 = (f, None) \<and>
     mem_view (contents (assign 0 (new_resource ''x'' ''other'') (hf_mem f))) ''home'' = Some (new_resource ''x'' ''other'')"
proof -
  have "snd (hf_create demo_codec wifipassword_rt demo_env \<lparr>hf_mem = demo_heap, hf_dir = []\<rparr> ''home'' 0) = None" by code_simp
  then obtain f where "hf_create demo_codec wifipassword_rt demo_env \<lparr>hf_mem = demo_heap, hf_dir = []\<rparr> ''home'' 0 = (f, None)"
    by (metis prod.collapse)
  from file_store_takes_callers_object [OF this refl, of "new_resource ''x'' ''other''"] this show ?thesis by auto
qed

end
