(* ===== verification/Locking.thy ===== *)
theory Locking
  imports Prelude
begin

text \<open>
  The mutexes of the stores (\<open>pkg/storage/inmemorystore.go\<close>, \<open>filestore.go\<close>). The other theories take each
  operation of a store as one step. Here an operation is the sequence of its locks, unlocks and accesses
  to the shared map of items and the version counter, on each path through its code, and threads
  interleave them. A file store has a mutex of its own beside that of the in-memory store it embeds;
  \<open>Get\<close>, \<open>List\<close> and \<open>Watch\<close> are those of the embedded store.
\<close>

section \<open>Threads and mutexes\<close>

datatype mutex = FileMutex | MemMutex

datatype shared = Items | Seq

datatype action =
    Acquire mutex
  | Release mutex
  | Reads shared
  | Assigns shared

text \<open>Who holds a mutex, and what each thread has still to do.\<close>

type_synonym threads = "(mutex \<Rightarrow> nat option) \<times> (nat \<Rightarrow> action list)"

inductive th_step :: "threads \<Rightarrow> threads \<Rightarrow> bool" where
  acquire: "p i = Acquire m # as \<Longrightarrow> l m = None \<Longrightarrow> th_step (l, p) (l(m \<mapsto> i), p(i := as))"
| release: "p i = Release m # as \<Longrightarrow> l m = Some i \<Longrightarrow> th_step (l, p) (l(m := None), p(i := as))"
| reads: "p i = Reads v # as \<Longrightarrow> th_step (l, p) (l, p(i := as))"
| assigns: "p i = Assigns v # as \<Longrightarrow> th_step (l, p) (l, p(i := as))"

definition no_locks :: "mutex \<Rightarrow> nat option" where
  "no_locks = (\<lambda>_. None)"

text \<open>A data race: a thread is about to write what another is about to read or write.\<close>

definition race :: "threads \<Rightarrow> bool" where
  "race t \<longleftrightarrow> (\<exists>i j v as bs. i \<noteq> j \<and> snd t i = Assigns v # as \<and> (snd t j = Assigns v # bs \<or> snd t j = Reads v # bs))"

section \<open>The operations\<close>

datatype operation = OpGet | OpList | OpWatch | OpCreate | OpUpdate | OpDelete

definition mem_path :: "action list \<Rightarrow> action list" where
  "mem_path as = Acquire MemMutex # as @ [Release MemMutex]"

definition fs_path :: "action list \<Rightarrow> action list" where
  "fs_path as = Acquire FileMutex # as @ [Release FileMutex]"

text \<open>\<open>Watch\<close> compares the version without a lock when it is given one.\<close>

fun mem_paths :: "operation \<Rightarrow> action list list" where
  "mem_paths OpGet = [mem_path [Reads Items]]"
| "mem_paths OpList = [mem_path [Reads Seq, Reads Items]]"
| "mem_paths OpWatch = [[], [Reads Seq]]"
| "mem_paths OpCreate = [mem_path [Reads Items], mem_path [Reads Items, Assigns Seq, Assigns Items]]"
| "mem_paths OpUpdate = [mem_path [Reads Items], mem_path [Reads Items, Assigns Seq, Assigns Items]]"
| "mem_paths OpDelete = [mem_path [Reads Items], mem_path [Reads Items, Assigns Items]]"

fun fs_paths :: "operation \<Rightarrow> action list list" where
  "fs_paths OpCreate =
     [fs_path (mem_path [Reads Items]), fs_path (mem_path [Reads Items] @ [Assigns Seq]),
      fs_path (mem_path [Reads Items] @ [Assigns Seq, Assigns Items])]"
| "fs_paths OpUpdate = fs_path [Reads Items] # map (\<lambda>q. fs_path (Reads Items # q)) (mem_paths OpUpdate)"
| "fs_paths OpDelete = map fs_path (mem_paths OpDelete)"
| "fs_paths op = mem_paths op"

text \<open>The sequences of actions of a thread that calls operations one after the other.\<close>

fun programs :: "(operation \<Rightarrow> action list list) \<Rightarrow> operation list \<Rightarrow> action list list" where
  "programs paths [] = [[]]"
| "programs paths (op # ops) = concat (map (\<lambda>a. map (\<lambda>b. a @ b) (programs paths ops)) (paths op))"

text \<open>A schedule: whose turn it is. \<open>None\<close> when the thread cannot go on.\<close>

fun th_turn :: "nat \<Rightarrow> threads \<Rightarrow> threads option" where
  "th_turn i (l, p) =
     (case p i of
        [] \<Rightarrow> None
      | Acquire m # as \<Rightarrow> (if l m = None then Some (l(m \<mapsto> i), p(i := as)) else None)
      | Release m # as \<Rightarrow> (if l m = Some i then Some (l(m := None), p(i := as)) else None)
      | Reads v # as \<Rightarrow> Some (l, p(i := as))
      | Assigns v # as \<Rightarrow> Some (l, p(i := as)))"

fun th_run :: "nat list \<Rightarrow> threads \<Rightarrow> threads option" where
  "th_run [] t = Some t"
| "th_run (i # is) t = (case th_turn i t of None \<Rightarrow> None | Some t' \<Rightarrow> th_run is t')"

lemma th_turn_step: "th_turn i t = Some t' \<Longrightarrow> th_step t t'"
  by (cases t) (auto split: list.splits action.splits if_splits intro: th_step.intros)

lemma th_run_reachable: "th_run is t = Some t' \<Longrightarrow> th_step\<^sup>*\<^sup>* t t'"
  by (induction "is" arbitrary: t)
     (auto split: option.splits intro: converse_rtranclp_into_rtranclp dest: th_turn_step)

lemma race_by_schedule:
  assumes "\<exists>t. th_run is (no_locks, prog) = Some t \<and> race t" "prog 0 \<in> A" "prog 1 \<in> B"
  shows "\<exists>prog t. prog 0 \<in> A \<and> prog 1 \<in> B \<and> th_step\<^sup>*\<^sup>* (no_locks, prog) t \<and> race t"
  using assms th_run_reachable by blast

section \<open>Lock discipline\<close>

text \<open>
  Relative to a set of mutexes: a thread writes only while it holds them all, and reads only while it
  holds one of them. Then no race is reachable.
\<close>

fun disciplined :: "mutex set \<Rightarrow> mutex set \<Rightarrow> action list \<Rightarrow> bool" where
  "disciplined L held [] = True"
| "disciplined L held (Acquire m # as) = disciplined L (insert m held) as"
| "disciplined L held (Release m # as) = (m \<in> held \<and> disciplined L (held - {m}) as)"
| "disciplined L held (Reads v # as) = (held \<inter> L \<noteq> {} \<and> disciplined L held as)"
| "disciplined L held (Assigns v # as) = (L \<subseteq> held \<and> disciplined L held as)"

definition holds :: "(mutex \<Rightarrow> nat option) \<Rightarrow> nat \<Rightarrow> mutex set" where
  "holds l i = {m. l m = Some i}"

lemma holds_acquire: "l m = None \<Longrightarrow> holds (l(m \<mapsto> i)) j = (if j = i then insert m (holds l i) else holds l j)"
  by (auto simp: holds_def)

lemma holds_release: "l m = Some i \<Longrightarrow> holds (l(m := None)) j = (if j = i then holds l i - {m} else holds l j)"
  by (auto simp: holds_def)

definition all_disciplined :: "mutex set \<Rightarrow> threads \<Rightarrow> bool" where
  "all_disciplined L t \<longleftrightarrow> (\<forall>i. disciplined L (holds (fst t) i) (snd t i))"

lemma disciplined_step: "th_step t t' \<Longrightarrow> all_disciplined L t \<Longrightarrow> all_disciplined L t'"
proof (induction rule: th_step.induct)
  case (acquire p i m as l)
  then have "disciplined L (holds l i) (Acquire m # as)" unfolding all_disciplined_def by (metis fst_conv snd_conv)
  with acquire show ?case by (simp add: all_disciplined_def holds_acquire)
next
  case (release p i m as l)
  then have "disciplined L (holds l i) (Release m # as)" unfolding all_disciplined_def by (metis fst_conv snd_conv)
  with release show ?case by (simp add: all_disciplined_def holds_release)
next
  case (reads p i v as l)
  then have "disciplined L (holds l i) (Reads v # as)" unfolding all_disciplined_def by (metis fst_conv snd_conv)
  with reads show ?case by (simp add: all_disciplined_def)
next
  case (assigns p i v as l)
  then have "disciplined L (holds l i) (Assigns v # as)" unfolding all_disciplined_def by (metis fst_conv snd_conv)
  with assigns show ?case by (simp add: all_disciplined_def)
qed

lemma disciplined_reachable: "th_step\<^sup>*\<^sup>* t t' \<Longrightarrow> all_disciplined L t \<Longrightarrow> all_disciplined L t'"
  by (induction rule: rtranclp_induct) (auto intro: disciplined_step)

lemma disciplined_no_race:
  assumes "all_disciplined L t" "L \<noteq> {}"
  shows "\<not> race t"
proof
  assume "race t"
  then obtain i j v as bs where r: "i \<noteq> j" "snd t i = Assigns v # as" "snd t j = Assigns v # bs \<or> snd t j = Reads v # bs"
    unfolding race_def by blast
  have d: "disciplined L (holds (fst t) k) (snd t k)" for k using assms(1) by (simp add: all_disciplined_def)
  from d [of i] r(2) have "L \<subseteq> holds (fst t) i" by simp
  moreover have "holds (fst t) j \<inter> L \<noteq> {}"
    using r(3)
  proof
    assume "snd t j = Assigns v # bs"
    with d [of j] have "L \<subseteq> holds (fst t) j" by simp
    with assms(2) show ?thesis by blast
  next
    assume "snd t j = Reads v # bs"
    with d [of j] show ?thesis by simp
  qed
  ultimately show False using r(1) by (auto simp: holds_def)
qed

lemma disciplined_append:
  "disciplined L H as \<Longrightarrow> foldl (\<lambda>h a. case a of Acquire m \<Rightarrow> insert m h | Release m \<Rightarrow> h - {m} | _ \<Rightarrow> h) H as = {} \<Longrightarrow>
   disciplined L {} bs \<Longrightarrow> disciplined L H (as @ bs)"
  by (induction L H as rule: disciplined.induct) auto

text \<open>An operation that starts and ends without locks and is disciplined on every path.\<close>

definition safe_path :: "mutex set \<Rightarrow> action list \<Rightarrow> bool" where
  "safe_path L as \<longleftrightarrow> disciplined L {} as \<and>
     foldl (\<lambda>h a. case a of Acquire m \<Rightarrow> insert m h | Release m \<Rightarrow> h - {m} | _ \<Rightarrow> h) {} as = {}"

lemma disciplined_programs:
  assumes "\<And>op p. op \<in> set ops \<Longrightarrow> p \<in> set (paths op) \<Longrightarrow> safe_path L p" "prog \<in> set (programs paths ops)"
  shows "disciplined L {} prog"
  using assms
proof (induction ops arbitrary: prog)
  case (Cons op ops)
  from Cons.prems(2) obtain a b where ab: "prog = a @ b" "a \<in> set (paths op)" "b \<in> set (programs paths ops)" by auto
  have "disciplined L {} b" by (rule Cons.IH [OF _ ab(3)]) (rule Cons.prems(1), simp_all)
  moreover have "safe_path L a" by (rule Cons.prems(1) [of op]) (simp_all add: ab(2))
  ultimately show ?case using disciplined_append [of L "{}" a b] ab(1) by (simp add: safe_path_def)
qed simp

lemma safe_mem_paths: "op \<noteq> OpWatch \<Longrightarrow> p \<in> set (mem_paths op) \<Longrightarrow> safe_path {MemMutex} p"
  by (cases op) (auto simp: safe_path_def mem_path_def)

lemma safe_fs_paths: "op \<noteq> OpWatch \<Longrightarrow> op \<noteq> OpCreate \<Longrightarrow> p \<in> set (fs_paths op) \<Longrightarrow> safe_path {FileMutex, MemMutex} p"
  by (cases op) (auto simp: safe_path_def mem_path_def fs_path_def)

section \<open>Properties\<close>

text \<open>
  C16. Race freedom: any number of threads that call, in any order and on any path, the operations of an
  in-memory store except \<open>Watch\<close>, or those of a file store except \<open>Watch\<close> and \<open>Create\<close>, never reach a data
  race on the items or the version counter.
\<close>

theorem stores_race_free:
  assumes "\<And>i. if file then prog i \<in> set (programs fs_paths (calls i)) \<and> set (calls i) \<subseteq> {OpGet, OpList, OpUpdate, OpDelete}
      else prog i \<in> set (programs mem_paths (calls i)) \<and> set (calls i) \<subseteq> {OpGet, OpList, OpCreate, OpUpdate, OpDelete}"
    and "th_step\<^sup>*\<^sup>* (no_locks, prog) t"
  shows "\<not> race t"
proof -
  let ?L = "if file then {FileMutex, MemMutex} else {MemMutex}"
  have "disciplined ?L {} (prog i)" for i
  proof (cases "file :: bool")
    case True
    have "safe_path {FileMutex, MemMutex} p" if "op \<in> set (calls i)" "p \<in> set (fs_paths op)" for op p
      using that True assms(1) [of i] by (intro safe_fs_paths [of op]) auto
    then show ?thesis using disciplined_programs [of "calls i" fs_paths] True assms(1) [of i] by simp
  next
    case False
    have "safe_path {MemMutex} p" if "op \<in> set (calls i)" "p \<in> set (mem_paths op)" for op p
      using that False assms(1) [of i] by (intro safe_mem_paths [of op]) auto
    then show ?thesis using disciplined_programs [of "calls i" mem_paths] False assms(1) [of i] by simp
  qed
  then have "all_disciplined ?L (no_locks, prog)" by (simp add: all_disciplined_def holds_def no_locks_def)
  from disciplined_no_race [OF disciplined_reachable [OF assms(2) this]] show ?thesis by simp
qed

definition demo_prog :: "nat \<Rightarrow> action list" where
  "demo_prog = (\<lambda>i. if i = 0 then fs_path (mem_path [Reads Items]) else if i = 1 then mem_path [Reads Seq, Reads Items] else [])"

theorem stores_race_free_witness:
  "\<exists>t. th_run [0, 0, 0, 0, 1] (no_locks, demo_prog) = Some t \<and> snd t 1 = [Reads Seq, Reads Items, Release MemMutex] \<and> \<not> race t"
proof -
  let ?ops = "\<lambda>i :: nat. if i = 0 then [OpDelete] else if i = 1 then [OpList] else []"
  have "th_run [0, 0, 0, 0, 1] (no_locks, demo_prog) \<noteq> None \<and>
      snd (the (th_run [0, 0, 0, 0, 1] (no_locks, demo_prog))) 1 = [Reads Seq, Reads Items, Release MemMutex]"
    by (simp add: demo_prog_def mem_path_def fs_path_def no_locks_def)
  then obtain t where t: "th_run [0, 0, 0, 0, 1] (no_locks, demo_prog) = Some t"
    "snd t 1 = [Reads Seq, Reads Items, Release MemMutex]" by auto
  have "if True then demo_prog i \<in> set (programs fs_paths (?ops i)) \<and> set (?ops i) \<subseteq> {OpGet, OpList, OpUpdate, OpDelete}
      else demo_prog i \<in> set (programs mem_paths (?ops i)) \<and> set (?ops i) \<subseteq> {OpGet, OpList, OpCreate, OpUpdate, OpDelete}" for i
    by (simp add: demo_prog_def)
  from stores_race_free [OF this th_run_reachable [OF t(1)]] t show ?thesis by blast
qed

text \<open>
  \<open>Create\<close> of a file store races with readers: it writes the items and the version counter holding only
  its own mutex, while \<open>Get\<close> and \<open>List\<close> hold only that of the embedded store. One thread that creates and
  one that reads reach a state in which the one is about to write the map of items while the other is about to read it.
\<close>

theorem file_store_create_races:
  "list_all (\<lambda>op. \<exists>prog t. prog 0 \<in> set (programs fs_paths [OpCreate]) \<and> prog 1 \<in> set (programs fs_paths [op]) \<and>
       th_step\<^sup>*\<^sup>* (no_locks, prog) t \<and> race t) [OpGet, OpList]"
proof -
  let ?create = "fs_path (mem_path [Reads Items] @ [Assigns Seq, Assigns Items])"
  let ?prog = "\<lambda>q i :: nat. if i = 0 then ?create else if i = 1 then mem_path q else []"
  have racy: "race t" if "snd t 0 = [Assigns Items, Release FileMutex]" "snd t 1 = [Reads Items, Release MemMutex]" for t
    unfolding race_def using that by (intro exI [of _ 0] exI [of _ 1]) simp
  have 1: "\<exists>t. th_run [0, 0, 0, 0, 0, 1] (no_locks, ?prog [Reads Items]) = Some t \<and> race t"
    using racy by (simp add: mem_path_def fs_path_def no_locks_def)
  have 2: "\<exists>t. th_run [0, 0, 0, 0, 0, 1, 1] (no_locks, ?prog [Reads Seq, Reads Items]) = Some t \<and> race t"
    using racy by (simp add: mem_path_def fs_path_def no_locks_def)
  have "?create \<in> set (programs fs_paths [OpCreate])" "mem_path [Reads Items] \<in> set (programs fs_paths [OpGet])"
    "mem_path [Reads Seq, Reads Items] \<in> set (programs fs_paths [OpList])" by simp_all
  with race_by_schedule [OF 1, of "set (programs fs_paths [OpCreate])" "set (programs fs_paths [OpGet])"]
    race_by_schedule [OF 2, of "set (programs fs_paths [OpCreate])" "set (programs fs_paths [OpList])"]
  show ?thesis by (simp del: programs.simps fs_paths.simps)
qed

text \<open>\<open>Watch\<close> reads the version counter without any lock.\<close>

lemma watch_races:
  "\<exists>prog t. prog 0 \<in> set (programs mem_paths [OpCreate]) \<and> prog 1 \<in> set (programs mem_paths [OpWatch]) \<and>
     th_step\<^sup>*\<^sup>* (no_locks, prog) t \<and> race t"
proof -
  let ?prog = "\<lambda>i :: nat. if i = 0 then mem_path [Reads Items, Assigns Seq, Assigns Items] else if i = 1 then [Reads Seq] else []"
  have racy: "race t" if "snd t 0 = [Assigns Seq, Assigns Items, Release MemMutex]" "snd t 1 = [Reads Seq]" for t
    unfolding race_def using that by (intro exI [of _ 0] exI [of _ 1]) simp
  have 1: "\<exists>t. th_run [0, 0] (no_locks, ?prog) = Some t \<and> race t"
    using racy by (simp add: mem_path_def no_locks_def)
  show ?thesis by (rule race_by_schedule [OF 1]) simp_all
qed

end
