(* ===== verification/System.thy ===== *)
theory System
  imports Startup Watching DeviceReconciler
begin

text \<open>
  The running server: the stores of \<open>NewServer\<close> and its two reconcilers put together
  (\<open>pkg/apiserver/server.go\<close>, \<open>pkg/reconciler/device\<close>). Requests of the API change the stores; a change
  enqueues the requests that \<open>SetupWithManager\<close> maps it to; a reconciler takes a request from the queue and
  reads the resource through the API with the token of the controllers. The work queue and the cache of
  controller-runtime are library code: a request stays in the queue while its reconcile fails or asks for a
  retry, and while the reconciler was given an answer that was not up to date.
\<close>

section \<open>State\<close>

datatype request = ReqDevice string | ReqIface string

type_synonym 'b device_state = "((device, 'b) filestore, (device_token, 'b) filestore) dvstate"
type_synonym 'b device_params = "((device, 'b) filestore, (device_token, 'b) filestore) dvparams"

record ('k, 'b) system =
  sy_dv :: "'b device_state"
  sy_net :: "('k, 'b) nstate"
  sy_passwords :: "(wifi_password, 'b) filestore"
  sy_queue :: "request list"

text \<open>What the host and the cluster answer to a reconcile.\<close>

record 'k world =
  wo_env :: env
  wo_proc :: proc_host
  wo_hostname :: "string \<Rightarrow> go_error + string"
  wo_advertise :: "go_error option"
  wo_tokenFile :: "go_error + string"
  wo_host :: "'k host"
  wo_addrs :: addrs_fn

definition device_params :: "'b server_codecs \<Rightarrow> 'b server \<Rightarrow> 'k world \<Rightarrow> 'b device_params" where
  "device_params c sv w =
     (let r = sv_DeviceReconciler sv in
      \<lparr>dp_DeviceName = dr_DeviceName r, dp_DeviceAddress = dr_DeviceAddress r, dp_DataDir = dr_DataDir r,
       dp_ExternalPort = dr_ExternalPort r, dp_Docker = dr_Docker r, dp_KubeletArgs = dr_KubeletArgs r,
       dp_devices = device_ops (sc_devices c), dp_tokens = fs_ops (sc_tokens c) token_rt, dp_env = wo_env w, dp_host = wo_proc w,
       dp_hostname = wo_hostname w, dp_advertise = wo_advertise w, dp_addToScheme = sc_addToScheme c,
       dp_tokenFile = wo_tokenFile w\<rparr>)"

definition netif_params :: "'b server_codecs \<Rightarrow> 'b server \<Rightarrow> 'k world \<Rightarrow> (wifi_password, 'b) filestore \<Rightarrow> ('k, 'b) nparams" where
  "netif_params c sv w passwords =
     \<lparr>p_host = wo_host w, p_env = wo_env w, p_DeviceName = nr_DeviceName (sv_NetifReconciler sv), p_codec = sc_ifaces c,
      p_passwords = op_get (fs_ops (sc_passwords c) wifipassword_rt) passwords, p_addrs = wo_addrs w\<rparr>"

abbreviation device_name :: "'b server \<Rightarrow> string" where
  "device_name sv \<equiv> dr_DeviceName (sv_DeviceReconciler sv)"

section \<open>Events and requests\<close>

definition store_keys :: "('a, 'b) filestore \<Rightarrow> string list" where
  "store_keys s = map fst (ms_items (fs_mem s))"

definition changed_keys :: "('a, 'b) filestore \<Rightarrow> ('a, 'b) filestore \<Rightarrow> string list" where
  "changed_keys s s' = filter (\<lambda>k. fs_view s k \<noteq> fs_view s' k) (store_keys s @ store_keys s')"

definition changed_requests :: "string \<Rightarrow> ('k, 'b) system \<Rightarrow> ('k, 'b) system \<Rightarrow> request list" where
  "changed_requests dn s s' =
     (let devices = changed_keys (dv_devices (sy_dv s)) (dv_devices (sy_dv s'));
          ifaces = changed_keys (n_store (sy_net s)) (n_store (sy_net s'));
          tokens = changed_keys (dv_tokens (sy_dv s)) (dv_tokens (sy_dv s'));
          passwords = changed_keys (sy_passwords s) (sy_passwords s')
      in map ReqDevice devices @ map ReqIface ifaces @ map (\<lambda>_. ReqDevice dn) (ifaces @ tokens @ passwords))"

definition announce :: "string \<Rightarrow> ('k, 'b) system \<Rightarrow> ('k, 'b) system \<Rightarrow> ('k, 'b) system" where
  "announce dn s s' = s'\<lparr>sy_queue := remdups (sy_queue s' @ changed_requests dn s s')\<rparr>"

section \<open>Reconciles\<close>

definition client_allowed :: "'b server \<Rightarrow> string \<Rightarrow> string \<Rightarrow> bool" where
  "client_allowed sv plural n \<longleftrightarrow>
     Authorize (authenticate (sv_Accounts sv) (sv_AdminToken sv) (sv_ControllerToken sv) (Some controllerBearerToken))
       \<lparr>at_Group = fst GroupVersion, at_Resource = plural, at_Name = n, at_Verb = ''get''\<rparr> = Allow"

text \<open>What the reconciler's client gets: the resource of the store, unless the API refuses.\<close>

definition client_get :: "'b server \<Rightarrow> 'a resource_type \<Rightarrow> ('s, 'a) store_ops \<Rightarrow> 's \<Rightarrow> string \<Rightarrow> go_error + 'a resource" where
  "client_get sv rt ops s n =
     (if client_allowed sv (rt_Resource rt) n then rest_get ops s n
      else Inl (Forbidden (rt_GroupResource rt) n ''you must login to use this device''))"

definition netif_list :: "'b server_codecs \<Rightarrow> ('k, 'b) system \<Rightarrow> netif resource list" where
  "netif_list c s = ll_Items (op_list (fs_ops (sc_ifaces c) netif_rt) (n_store (sy_net s)))"

text \<open>A request leaves the queue when its reconcile asked for no retry and was given what is in the store.\<close>

definition settle :: "request \<Rightarrow> bool \<Rightarrow> go_error + reconcile_result \<Rightarrow> request list \<Rightarrow> request list" where
  "settle req fresh r q = (if fresh \<and> r = Inr no_requeue then removeAll req q else q)"

definition device_turn ::
  "'b server_codecs \<Rightarrow> 'b server \<Rightarrow> 'k world \<Rightarrow> string \<Rightarrow> go_error + device resource \<Rightarrow> ('k, 'b) system \<Rightarrow> ('k, 'b) system go" where
  "device_turn c sv w n got s =
     (case device_reconcile (device_params c sv w) got ((sy_dv s)\<lparr>dv_ifaces := netif_list c s\<rparr>) of
        Panic m \<Rightarrow> Panic m
      | Ret (dv, r) \<Rightarrow>
          Ret (announce (device_name sv) s
            (s\<lparr>sy_dv := dv, sy_queue := settle (ReqDevice n)
               (got = client_get sv device_rt (device_ops (sc_devices c)) (dv_devices (sy_dv s)) n) r (sy_queue s)\<rparr>)))"

definition netif_turn ::
  "'b server_codecs \<Rightarrow> 'b server \<Rightarrow> 'k world \<Rightarrow> string \<Rightarrow> go_error + netif resource \<Rightarrow> ('k, 'b) system \<Rightarrow> ('k, 'b) system go" where
  "netif_turn c sv w n got s =
     (case netif_reconcile (netif_params c sv w (sy_passwords s)) got (sy_net s) of
        Panic m \<Rightarrow> Panic m
      | Ret (net, r) \<Rightarrow>
          Ret (announce (device_name sv) s
            (s\<lparr>sy_net := net, sy_queue := settle (ReqIface n)
               (got = client_get sv netif_rt (fs_ops (sc_ifaces c) netif_rt) (n_store (sy_net s)) n) r (sy_queue s)\<rparr>)))"

section \<open>Steps\<close>

text \<open>The server after its start; the caches of the controllers are filled by a list of each kind.\<close>

definition start_system :: "'b server \<Rightarrow> 'k host \<Rightarrow> 'k \<Rightarrow> (string \<times> string) list \<Rightarrow> ('k, 'b) system" where
  "start_system sv h k files =
     (let ss = sv_Stores sv in
      \<lparr>sy_dv = \<lparr>dv_devices = ss_Devices ss, dv_tokens = ss_Tokens ss, dv_ifaces = [],
          dv_dns = \<lparr>dn_proc = new_runner, dn_files = []\<rparr>, dv_k3s = new_runner, dv_controllers = NewControllerManager,
          dv_nodeController = NewControllerManager, dv_ingress = ic_started (sv_Ingress sv), dv_proxy = False, dv_adverts = [],
          dv_k3s_seen = 0, dv_dns_seen = 0, dv_device = default_device []\<rparr>,
       sy_net = \<lparr>n_wifi = (new_wifi h k files)\<lparr>w_WriteHostResolvConf := wi_WriteHostResolvConf (sv_Wifi sv)\<rparr>,
          n_networks = ss_WifiNetworks ss, n_store = ss_Interfaces ss,
          n_iface = new_resource [] \<lparr>nif_Wifi = zero_wifi_spec, nif_Status = zero_netif_status\<rparr>\<rparr>,
       sy_passwords = ss_WifiPasswords ss,
       sy_queue = ReqDevice (device_name sv) # map ReqDevice (store_keys (ss_Devices ss)) @ map ReqIface (store_keys (ss_Interfaces ss))\<rparr>)"

text \<open>
  What happens: requests of the API, whose updates keep the name of a resource (the API server sees to
  it), writes of the link synchronisation, reconciles, exits and reports of the processes.
\<close>

inductive sys_step :: "'b server_codecs \<Rightarrow> 'b server \<Rightarrow> ('k, 'b) system \<Rightarrow> ('k, 'b) system \<Rightarrow> bool"
  for c :: "'b server_codecs" and sv :: "'b server" where
  devices: "keeps_name (StepUpdate e n (\<lambda>obj. case u obj of Inl err \<Rightarrow> Inl err | Inr updated \<Rightarrow> (case v of None \<Rightarrow> Inr updated | Some f \<Rightarrow> f updated obj))) \<Longrightarrow>
    sys_step c sv s (announce (device_name sv) s (s\<lparr>sy_dv := (sy_dv s)
      \<lparr>dv_devices := fst (device_update (sc_devices c) (device_name sv) u v e (dv_devices (sy_dv s)) n)\<rparr>\<rparr>))"
| tokens: "sys_step c sv s (announce (device_name sv) s (s\<lparr>sy_dv := (sy_dv s)
      \<lparr>dv_tokens := token_exec (fs_ops (sc_tokens c) token_rt) (device_name sv) marshal r (dv_tokens (sy_dv s))\<rparr>\<rparr>))"
| passwords: "sys_step c sv s (announce (device_name sv) s (s\<lparr>sy_passwords :=
      store_exec (fs_ops (sc_passwords c) wifipassword_rt) fs_act st (sy_passwords s)\<rparr>))"
| password_reset: "sys_step c sv s (announce (device_name sv) s (s\<lparr>sy_passwords :=
      fst (wifipassword_delete (fs_ops (sc_passwords c) wifipassword_rt) pw vd e (sy_passwords s) k)\<rparr>))"
| interfaces: "sys_step c sv s (announce (device_name sv) s (s\<lparr>sy_net := (sy_net s)\<lparr>n_store :=
      store_exec (fs_ops (sc_ifaces c) netif_rt) fs_act st (n_store (sy_net s))\<rparr>\<rparr>))"
| wifi_exit: "sys_step c sv s (announce (device_name sv) s (s\<lparr>sy_net := (sy_net s)\<lparr>n_store :=
      wifi_process_exit (fs_ops (sc_ifaces c) netif_rt) e (n_store (sy_net s))\<rparr>\<rparr>))"
| device: "ReqDevice n \<in> set (sy_queue s) \<Longrightarrow> isl got \<or> client_allowed sv ''devices'' n \<Longrightarrow>
    device_turn c sv w n got s = Ret s' \<Longrightarrow> sys_step c sv s s'"
| interface: "ReqIface n \<in> set (sy_queue s) \<Longrightarrow> isl got \<or> client_allowed sv ''networkinterfaces'' n \<Longrightarrow>
    netif_turn c sv w n got s = Ret s' \<Longrightarrow> sys_step c sv s s'"
| k3s: "exit_event ev \<Longrightarrow> runner_exec ''SIGQUIT'' (dv_k3s (sy_dv s)) ev = Ret m \<Longrightarrow>
    sys_step c sv s (s\<lparr>sy_dv := (sy_dv s)\<lparr>dv_k3s := m\<rparr>\<rparr>)"
| dnsmasq: "exit_event ev \<Longrightarrow> runner_exec ''SIGTERM'' (dn_proc (dv_dns (sy_dv s))) ev = Ret m \<Longrightarrow>
    sys_step c sv s (s\<lparr>sy_dv := (sy_dv s)\<lparr>dv_dns := (dv_dns (sy_dv s))\<lparr>dn_proc := m\<rparr>\<rparr>\<rparr>)"
| k3s_status: "sys_step c sv s (announce (device_name sv) s (s\<lparr>sy_dv := deliver_k3s (device_params c sv (w :: 'k world)) (sy_dv s)\<rparr>))"
| dns_status: "sys_step c sv s (announce (device_name sv) s (s\<lparr>sy_dv := deliver_dns (device_params c sv (w :: 'k world)) (sy_dv s)\<rparr>))"
| hostapd: "exit_event ev \<Longrightarrow> runner_exec ''SIGTERM'' (w_ap (n_wifi (sy_net s))) ev = Ret m \<Longrightarrow>
    sys_step c sv s (s\<lparr>sy_net := (sy_net s)\<lparr>n_wifi := (n_wifi (sy_net s))\<lparr>w_ap := m\<rparr>\<rparr>\<rparr>)"
| wpa_supplicant: "exit_event ev \<Longrightarrow> runner_exec ''SIGTERM'' (w_station (n_wifi (sy_net s))) ev = Ret m \<Longrightarrow>
    sys_step c sv s (s\<lparr>sy_net := (sy_net s)\<lparr>n_wifi := (n_wifi (sy_net s))\<lparr>w_station := m\<rparr>\<rparr>\<rparr>)"
| dhcpcd: "exit_event ev \<Longrightarrow> runner_exec ''SIGTERM'' (w_dhcpcd (n_wifi (sy_net s))) ev = Ret m \<Longrightarrow>
    sys_step c sv s (s\<lparr>sy_net := (sy_net s)\<lparr>n_wifi := (n_wifi (sy_net s))\<lparr>w_dhcpcd := m\<rparr>\<rparr>\<rparr>)"

section \<open>Views and lists\<close>

context storage begin

text \<open>Stores with the same content have the same list.\<close>

lemma list_cong:
  assumes "inv s" "inv s'" "view s = view s'"
  shows "ll_Items (op_list ops s) = ll_Items (op_list ops s')"
proof -
  obtain ks where ks: "sorted ks" "distinct ks" "set ks = dom (view s)"
    "ll_Items (op_list ops s) = map (\<lambda>k. set_gvk rt (the (view s k))) ks" using list_law [OF assms(1)] by blast
  obtain ks' where ks': "sorted ks'" "distinct ks'" "set ks' = dom (view s')"
    "ll_Items (op_list ops s') = map (\<lambda>k. set_gvk rt (the (view s' k))) ks'" using list_law [OF assms(2)] by blast
  have "ks = ks'" using ks ks' assms(3) by (intro sorted_distinct_set_unique) simp_all
  with ks(4) ks'(4) assms(3) show ?thesis by simp
qed

end

lemma unchanged: "k \<notin> set (changed_keys s s') \<Longrightarrow> fs_view s k = fs_view s' k"
  by (cases "fs_view s k"; cases "fs_view s' k") (force simp: changed_keys_def store_keys_def dest: map_of_SomeD)+

lemma not_announced:
  assumes "ReqDevice dn \<notin> set (sy_queue (announce dn s s'))"
  shows "ReqDevice dn \<notin> set (sy_queue s')"
    "fs_view (dv_devices (sy_dv s)) dn = fs_view (dv_devices (sy_dv s')) dn"
    "fs_view (n_store (sy_net s)) = fs_view (n_store (sy_net s'))"
    "fs_view (dv_tokens (sy_dv s)) = fs_view (dv_tokens (sy_dv s'))"
proof -
  have n: "ReqDevice dn \<notin> set (sy_queue s')" "dn \<notin> set (changed_keys (dv_devices (sy_dv s)) (dv_devices (sy_dv s')))"
    "changed_keys (n_store (sy_net s)) (n_store (sy_net s')) = []" "changed_keys (dv_tokens (sy_dv s)) (dv_tokens (sy_dv s')) = []"
    using assms by (auto simp: announce_def changed_requests_def Let_def image_constant_conv split: if_splits)
  show "ReqDevice dn \<notin> set (sy_queue s')" by (rule n(1))
  show "fs_view (dv_devices (sy_dv s)) dn = fs_view (dv_devices (sy_dv s')) dn" by (rule unchanged [OF n(2)])
  show "fs_view (n_store (sy_net s)) = fs_view (n_store (sy_net s'))" using unchanged n(3) by (metis empty_iff ext list.set(1))
  show "fs_view (dv_tokens (sy_dv s)) = fs_view (dv_tokens (sy_dv s'))" using unchanged n(4) by (metis empty_iff ext list.set(1))
qed

lemma announce_simps [simp]:
  "sy_dv (announce dn s s') = sy_dv s'" "sy_net (announce dn s s') = sy_net s'" "sy_passwords (announce dn s s') = sy_passwords s'"
  "set (sy_queue s') \<subseteq> set (sy_queue (announce dn s s'))"
  by (auto simp: announce_def)

section \<open>The role of the device\<close>

text \<open>
  The parts of the server are those of the role of a device. A controller manager can run only where the types of
  its reconcilers register (\<open>reg\<close>).
\<close>

definition role_matches :: "bool \<Rightarrow> device resource \<Rightarrow> ('d, 't) dvstate \<Rightarrow> bool" where
  "role_matches reg d dv \<longleftrightarrow>
     (if terminating d then
        \<not> cm_running (dv_controllers dv) \<and> \<not> dv_ingress dv \<and> \<not> cm_running (dv_nodeController dv) \<and> rn_live (dv_k3s dv) = []
      else if is_server d then
        (reg \<longrightarrow> cm_running (dv_controllers dv)) \<and> dv_ingress dv \<and> \<not> cm_running (dv_nodeController dv)
      else \<not> cm_running (dv_controllers dv) \<and> \<not> dv_ingress dv \<and> (reg \<longrightarrow> cm_running (dv_nodeController dv)))"

text \<open>
  A reconcile has nothing to do for a mode it does not know, without an address, or for an agent whose
  token is not there; otherwise the parts of the server are those of the role.
\<close>

definition nothing_to_do :: "device resource \<Rightarrow> netif resource list \<Rightarrow> (device_token, 'b) filestore \<Rightarrow> bool" where
  "nothing_to_do d ifaces tokens \<longleftrightarrow>
     ds_Mode (dev_Spec (body d)) \<notin> {DeviceModeServer, DeviceModeAgent} \<or> isl (ipAddress ifaces) \<or>
     ds_Mode (dev_Spec (body d)) = DeviceModeAgent \<and> fs_view tokens (ds_JoinTokenName (dev_Spec (body d))) = None"

definition role_settled :: "'b server_codecs \<Rightarrow> 'b server \<Rightarrow> ('k, 'b) system \<Rightarrow> bool" where
  "role_settled c sv s \<longleftrightarrow>
     (case fs_view (dv_devices (sy_dv s)) (device_name sv) of
        None \<Rightarrow> False
      | Some d \<Rightarrow> nothing_to_do d (netif_list c s) (dv_tokens (sy_dv s)) \<or>
        role_matches (sc_addToScheme c = None) d (sy_dv s))"

lemma k3s_args_nonempty:
  assumes "dp_tokens p = fs_ops codec token_rt" "fs_inv tokens" "k3s_args p tokens d ip = Inr []"
    and "ds_Mode (dev_Spec (body d)) \<in> {DeviceModeServer, DeviceModeAgent}"
  shows "ds_Mode (dev_Spec (body d)) = DeviceModeAgent \<and> fs_view tokens (ds_JoinTokenName (dev_Spec (body d))) = None"
  using assms
  by (auto simp: k3s_args_def buildK3sServerArgs_def buildK3sAgentArgs_def fs.get_law Let_def split: if_splits sum.splits option.splits)

text \<open>
  A reconcile that completes without a retry: it changed the device, or the device is as it was read and the
  parts are those of its role.
\<close>

lemma update_changes:
  assumes "fs_inv ds" "fs_view ds k = Some d" "op_update (device_ops codec) e ds k f = (ds', Inr d')"
  shows "fs_view ds' k \<noteq> Some d"
  using dev.update_ok [OF assms(1,3)] assms(2) by auto

lemma run_role_matches:
  assumes "runner_inv (dv_k3s s)" "run_role p args s = Ret (s', Inr no_requeue)" "args \<noteq> []"
  shows "role_matches (dp_addToScheme p = None) (dv_device s) s' \<and> dv_devices s' = dv_devices s"
  using assms runner_inv_stop [OF assms(1)]
  by (cases "terminating (dv_device s)")
     (auto simp: role_matches_def run_role_def gm_defs run_controllers_eq start_k3s_def reconcileServerToken_def no_requeue_def
       split: go.splits sum.splits prod.splits if_splits)

lemma update_status_cases:
  assumes "dp_devices p = device_ops cd" "update_device_status p msg s = Ret (s', r)"
  shows "s' = s \<or> isl r \<or> (\<exists>f d' e. op_update (device_ops cd) e (dv_devices s) (rname (dv_device s)) f = (dv_devices s', Inr d'))"
  using assms by (auto simp: update_device_status_def Let_def split: if_splits prod.splits sum.splits)

lemma retry_not_quiet [simp]: "res\<lparr>rq_after := 10000\<rparr> \<noteq> no_requeue"
  by (cases res) (simp add: no_requeue_def)

lemma reconcile_completes:
  assumes p: "dp_devices p = device_ops cd" "dp_tokens p = fs_ops ct token_rt"
    and inv: "fs_inv (dv_devices s)" "fs_inv (dv_tokens s)" "runner_inv (dv_k3s s)"
    and d: "fs_view (dv_devices s) (rname d) = Some d"
    and r: "device_reconcile p (Inr d) s = Ret (s', Inr no_requeue)"
  shows "fs_view (dv_devices s') (rname d) \<noteq> Some d \<or> nothing_to_do d (dv_ifaces s) (dv_tokens s) \<or>
    role_matches (dp_addToScheme p = None) d s'"
proof (cases "nothing_to_do d (dv_ifaces s) (dv_tokens s)")
  case False
  then obtain ip where m: "ds_Mode (dev_Spec (body d)) \<in> {DeviceModeServer, DeviceModeAgent}" "ipAddress (dv_ifaces s) = Inr ip"
    by (cases "ipAddress (dv_ifaces s)") (auto simp: nothing_to_do_def)
  obtain s1 where s1: "reconcile_role p d ip s1 = Ret (s', Inr no_requeue)" "dv_devices s1 = dv_devices s"
    "dv_tokens s1 = dv_tokens s" "dv_device s1 = d" "dv_k3s s1 = dv_k3s s"
    using r m by (auto simp: device_reconcile_def gm_defs on_dns_def gm_zoom_def split: go.splits sum.splits prod.splits)
  obtain args where a: "k3s_args p (dv_tokens s) d ip = Inr args"
    using s1 by (cases "k3s_args p (dv_tokens s) d ip")
      (auto simp: reconcile_role_def gm_defs Let_def split: go.splits sum.splits prod.splits)
  have ne: "args \<noteq> []" using k3s_args_nonempty [OF p(2) inv(2), of d ip] a m(1) False by (auto simp: nothing_to_do_def)
  let ?s1 = "s1\<lparr>dv_proxy := is_server d\<rparr>"
  obtain s2 s3 u where s2: "run_role p args s3 = Ret (s', Inr no_requeue)" "update_device_status p [] ?s1 = Ret (s2, Inr u)"
    "dv_device s3 = dv_device s2" "dv_devices s3 = dv_devices s2" "dv_k3s s3 = dv_k3s s2"
    using s1 a
    by (auto simp: reconcile_role_def gm_defs Let_def advertise_device_def split: go.splits sum.splits prod.splits if_splits option.splits)
  have "dv_k3s s2 = dv_k3s ?s1"
    using s2(2) by (auto simp: update_device_status_def Let_def split: if_splits prod.splits sum.splits)
  with s2(5) s1(5) inv(3) have "runner_inv (dv_k3s s3)" by simp
  note rr = run_role_matches [OF this s2(1) ne]
  from update_status_cases [OF p(1) s2(2)] show ?thesis
  proof (elim disjE exE)
    assume "s2 = ?s1"
    with rr s1 s2 show ?thesis by simp
  next
    fix f d' e assume "op_update (device_ops cd) e (dv_devices ?s1) (rname (dv_device ?s1)) f = (dv_devices s2, Inr d')"
    with update_changes [OF inv(1) d] rr s1 s2 show ?thesis by simp
  qed simp
qed simp

section \<open>Invariants\<close>

text \<open>The device stores of the running server: in order, with the device and a token of its own.\<close>

definition own_token :: "string \<Rightarrow> (device_token, 'b) filestore \<Rightarrow> bool" where
  "own_token n ts \<longleftrightarrow> (case fs_view ts n of None \<Rightarrow> False | Some t \<Rightarrow> dt_Token (body t) \<noteq> [])"

definition dv_ok :: "string \<Rightarrow> 'b device_state \<Rightarrow> bool" where
  "dv_ok n dv \<longleftrightarrow> fs_inv (dv_devices dv) \<and> names_agree (fs_view (dv_devices dv)) \<and> dom (fs_view (dv_devices dv)) = {n} \<and>
     fs_inv (dv_tokens dv) \<and> own_token n (dv_tokens dv)"

definition devices_ok :: "string \<Rightarrow> (device, 'b) filestore \<Rightarrow> bool" where
  "devices_ok n ds \<longleftrightarrow> fs_inv ds \<and> names_agree (fs_view ds) \<and> dom (fs_view ds) = {n}"

definition tokens_ok :: "string \<Rightarrow> (device_token, 'b) filestore \<Rightarrow> bool" where
  "tokens_ok n ts \<longleftrightarrow> fs_inv ts \<and> own_token n ts"

lemma dv_ok_iff: "dv_ok n dv \<longleftrightarrow> devices_ok n (dv_devices dv) \<and> tokens_ok n (dv_tokens dv)"
  by (auto simp: dv_ok_def devices_ok_def tokens_ok_def)

lemma devices_ok_update:
  assumes "devices_ok n ds" "\<And>x y. f x = Inr y \<Longrightarrow> rname y = rname x"
  shows "devices_ok n (fst (op_update (device_ops cd) e ds k f))"
proof -
  have i: "fs_inv ds" "names_agree (fs_view ds)" using assms(1) by (auto simp: devices_ok_def)
  with devw.names_update [OF i assms(2)] dev.update_inv [OF i(1)] dev.update_dom [OF i(1)] assms(1) show ?thesis
    by (simp add: devices_ok_def)
qed

lemma tokens_ok_update:
  assumes "tokens_ok n ts" "\<And>x y. f x = Inr y \<Longrightarrow> dt_Token (body y) = dt_Token (body x)"
  shows "tokens_ok n (fst (op_update (fs_ops ct token_rt) e ts n f))"
proof -
  have i: "fs_inv ts" "own_token n ts" using assms(1) by (auto simp: tokens_ok_def)
  obtain ts' res where u: "op_update (fs_ops ct token_rt) e ts n f = (ts', res)" by fastforce
  have inv: "fs_inv ts'" using fs.update_inv [OF i(1), of ct token_rt e n f] u by simp
  show ?thesis
  proof (cases res)
    case (Inl err)
    with u fs.update_fail [OF i(1)] i(2) inv show ?thesis by (simp add: tokens_ok_def own_token_def)
  next
    case (Inr t)
    with u have "op_update (fs_ops ct token_rt) e ts n f = (ts', Inr t)" by simp
    from fs.update_ok [OF i(1) this] assms(2) i(2) inv u show ?thesis by (auto simp: tokens_ok_def own_token_def)
  qed
qed

lemma tokens_ok_exec: "tokens_ok n ts \<Longrightarrow> tokens_ok n (token_exec (fs_ops ct token_rt) n marshal r ts)"
proof -
  assume t: "tokens_ok n ts"
  then obtain old where i: "fs_inv ts" "fs_view ts n = Some old" "dt_Token (body old) \<noteq> []"
    by (auto simp: tokens_ok_def own_token_def split: option.splits)
  have "GenerateRandomString 32 draws \<noteq> Inr []" for draws using length_GenerateRandomString [of 32 draws "[]"] by auto
  with tok.token_exec_own [OF i(1,2), of ct marshal r] i(3) show ?thesis
    by (auto simp: tokens_ok_def own_token_def)
qed

section \<open>Reconciles keep the stores in order\<close>

lemma dv_ok_frame [gm_rules]:
  "gm_inv (dv_ok n) (gm_modify (\<lambda>s. s\<lparr>dv_k3s := f (dv_k3s s)\<rparr>))"
  "gm_inv (dv_ok n) (gm_modify (\<lambda>s. s\<lparr>dv_device := d\<rparr>))"
  "gm_inv (dv_ok n) (gm_modify (\<lambda>s. s\<lparr>dv_proxy := b\<rparr>))"
  "gm_inv (dv_ok n) (advertise_device p ip)"
  "gm_inv (dv_ok n) (start_k3s h cmd)"
  "gm_inv (dv_ok n) (on_dns m)"
  "gm_inv (dv_ok n) (run_controllers p)"
  by (auto simp: gm_valid_def gm_modify_def dv_ok_def advertise_device_def start_k3s_def on_dns_def gm_zoom_def run_controllers_eq
      Let_def split: go.splits prod.splits option.splits if_splits)

lemma dv_ok_status [gm_rules]: "dp_devices p = device_ops cd \<Longrightarrow> gm_inv (dv_ok n) (update_device_status p msg)"
  using devices_ok_update [of n _ "\<lambda>d. Inr (d\<lparr>body := _ d\<rparr>)"]
  by (auto simp: gm_valid_def update_device_status_def dv_ok_iff Let_def split: if_splits prod.splits sum.splits dest!: arg_cong [of _ _ fst])

lemma dv_ok_token [gm_rules]:
  assumes "dp_tokens p = fs_ops ct token_rt" "dp_DeviceName p = n"
  shows "gm_inv (dv_ok n) (reconcileServerToken p)"
proof (rule gm_validI)
  fix s s' :: "'a device_state" and r
  assume ok: "dv_ok n s" and r: "reconcileServerToken p s = Ret (s', r)"
  let ?f = "\<lambda>t. case dp_tokenFile p of Inl err \<Rightarrow> Inl err | Inr b \<Rightarrow> Inr (t\<lparr>body := (body t)\<lparr>dt_JoinToken := trim_newline b\<rparr>\<rparr>)"
  have "s' = s \<or> s' = s\<lparr>dv_tokens := fst (op_update (fs_ops ct token_rt) (dp_env p) (dv_tokens s) n ?f)\<rparr>"
    using r assms by (auto simp: reconcileServerToken_def split: sum.splits if_splits prod.splits)
  moreover have "tokens_ok n (fst (op_update (fs_ops ct token_rt) (dp_env p) (dv_tokens s) n ?f))"
    using ok by (intro tokens_ok_update) (auto simp: dv_ok_iff split: sum.splits)
  ultimately show "dv_ok n s'" using ok by (auto simp: dv_ok_iff)
qed

lemma dv_ok_reconcile:
  assumes "dp_devices p = device_ops cd" "dp_tokens p = fs_ops ct token_rt" "dp_DeviceName p = n"
  shows "gm_inv (dv_ok n) (device_reconcile p got)"
  unfolding device_reconcile_def reconcile_role_def run_role_def Let_def
  by (intro gm_rules dv_ok_status [OF assms(1)] dv_ok_token [OF assms(2,3)])

lemma netif_frame [gm_rules]:
  "gm_inv (\<lambda>s. fs_inv (n_store s)) (on_wifi m)"
  "gm_inv (\<lambda>s. fs_inv (n_store s)) (n_update p f)"
  "gm_inv (\<lambda>s. fs_inv (n_store s)) (update_networks p)"
  "gm_inv (\<lambda>s. fs_inv (n_store s)) get_iface"
  "gm_inv (\<lambda>s. fs_inv (n_store s)) (gm_modify (\<lambda>s. s\<lparr>n_iface := iface\<rparr>))"
  by (auto simp: gm_valid_def on_wifi_def gm_zoom_def n_update_def update_networks_def get_iface_def gm_bind_def gm_get_def
      gm_return_def gm_modify_def split: prod.splits sum.splits go.splits option.splits dest: fs_inv_update)
     (metis fs_inv_update fst_conv)+

lemma gm_inv_case_go [gm_rules]: "(\<And>b. gm_inv I (f b)) \<Longrightarrow> gm_inv I (case x of Panic m \<Rightarrow> gm_panic m | Ret b \<Rightarrow> f b)"
  by (cases x) (auto intro: gm_rules)

lemma netif_reconcile_store: "gm_inv (\<lambda>s. fs_inv (n_store s)) (netif_reconcile p got)"
  unfolding netif_reconcile_def reconcileWifiNetworkInterface_def setWifiIfaceCountry_def ensureIPAddress_def report_status_def Let_def
  by (intro gm_rules)

section \<open>The invariant of the system\<close>

definition sys_ok :: "string \<Rightarrow> ('k, 'b) system \<Rightarrow> bool" where
  "sys_ok dn s \<longleftrightarrow> dv_ok dn (sy_dv s) \<and> fs_inv (n_store (sy_net s)) \<and> fs_inv (sy_passwords s) \<and> roles_inv (sy_dv s) \<and>
     one_mode (n_wifi (sy_net s)) \<and> (\<forall>n. ReqDevice n \<in> set (sy_queue s) \<longrightarrow> n = dn)"

definition sys_inv :: "'b server_codecs \<Rightarrow> 'b server \<Rightarrow> ('k, 'b) system \<Rightarrow> bool" where
  "sys_inv c sv s \<longleftrightarrow> sys_ok (device_name sv) s \<and> (ReqDevice (device_name sv) \<in> set (sy_queue s) \<or> role_settled c sv s)"

text \<open>What the role looks at besides the stores.\<close>

definition same_parts :: "('d, 't) dvstate \<Rightarrow> ('d, 't) dvstate \<Rightarrow> bool" where
  "same_parts dv dv' \<longleftrightarrow> dv_controllers dv' = dv_controllers dv \<and> dv_nodeController dv' = dv_nodeController dv \<and>
     dv_ingress dv' = dv_ingress dv \<and> (rn_live (dv_k3s dv) = [] \<longrightarrow> rn_live (dv_k3s dv') = [])"

lemma same_parts_role: "same_parts dv dv' \<Longrightarrow> role_matches reg d dv \<Longrightarrow> role_matches reg d dv'"
  by (auto simp: same_parts_def role_matches_def split: if_splits)

lemma settled_cong:
  assumes "fs_inv (n_store (sy_net s))" "fs_inv (n_store (sy_net s'))"
    and "fs_view (dv_devices (sy_dv s)) (device_name sv) = fs_view (dv_devices (sy_dv s')) (device_name sv)"
    and "fs_view (n_store (sy_net s)) = fs_view (n_store (sy_net s'))" "fs_view (dv_tokens (sy_dv s)) = fs_view (dv_tokens (sy_dv s'))"
    and "same_parts (sy_dv s) (sy_dv s')"
    and "role_settled c sv s"
  shows "role_settled c sv s'"
proof -
  have "netif_list c s' = netif_list c s"
    unfolding netif_list_def by (rule fs.list_cong [OF assms(2,1) assms(4) [symmetric]])
  with assms(3,5,7) same_parts_role [OF assms(6)] show ?thesis
    by (cases "fs_view (dv_devices (sy_dv s')) (device_name sv)") (auto simp: role_settled_def nothing_to_do_def)
qed

lemma changed_device:
  assumes "devices_ok dn (dv_devices (sy_dv s))" "devices_ok dn (dv_devices (sy_dv s'))"
    and "ReqDevice n \<in> set (sy_queue (announce dn s s'))" "n \<noteq> dn"
  shows "ReqDevice n \<in> set (sy_queue s')"
proof -
  have "n \<notin> dom (fs_view (dv_devices (sy_dv s)))" "n \<notin> dom (fs_view (dv_devices (sy_dv s')))"
    using assms(1,2,4) by (simp_all add: devices_ok_def)
  then have "n \<notin> set (changed_keys (dv_devices (sy_dv s)) (dv_devices (sy_dv s')))" by (simp add: changed_keys_def domIff)
  with assms(3,4) show ?thesis by (auto simp: announce_def changed_requests_def Let_def)
qed

lemma sys_ok_announce:
  assumes "sys_ok dn s" "dv_ok dn (sy_dv s')" "fs_inv (n_store (sy_net s'))" "fs_inv (sy_passwords s')" "roles_inv (sy_dv s')"
    "one_mode (n_wifi (sy_net s'))" "set (sy_queue s') \<subseteq> set (sy_queue s)"
  shows "sys_ok dn (announce dn s s')"
  unfolding sys_ok_def
proof (intro conjI allI impI)
  fix n assume n: "ReqDevice n \<in> set (sy_queue (announce dn s s'))"
  show "n = dn"
  proof (rule ccontr)
    assume "n \<noteq> dn"
    with changed_device [OF _ _ n] assms(1,2) have "ReqDevice n \<in> set (sy_queue s')" by (simp add: sys_ok_def dv_ok_iff)
    with assms(1,7) \<open>n \<noteq> dn\<close> show False by (auto simp: sys_ok_def)
  qed
qed (use assms in simp_all)

text \<open>A step that leaves the parts of the role as they are.\<close>

lemma sys_inv_quiet:
  assumes "sys_inv c sv s" "sys_ok (device_name sv) (announce (device_name sv) s s')" "sy_queue s' = sy_queue s"
    and "same_parts (sy_dv s) (sy_dv s')"
  shows "sys_inv c sv (announce (device_name sv) s s')"
proof (cases "ReqDevice (device_name sv) \<in> set (sy_queue (announce (device_name sv) s s'))")
  case True
  with assms(2) show ?thesis by (simp add: sys_inv_def)
next
  case False
  note n = not_announced [OF False]
  have "role_settled c sv s" using assms(1,3) n(1) by (simp add: sys_inv_def)
  then have "role_settled c sv (announce (device_name sv) s s')"
    by (rule settled_cong [rotated 6]) (use assms n in \<open>simp_all add: sys_inv_def sys_ok_def\<close>)
  then show ?thesis using assms(2) by (simp add: sys_inv_def)
qed

lemma sys_inv_store:
  assumes "sys_inv c sv s" "dv_ok (device_name sv) (sy_dv s')" "fs_inv (n_store (sy_net s'))" "fs_inv (sy_passwords s')"
    "roles_inv (sy_dv s')" "one_mode (n_wifi (sy_net s'))" "sy_queue s' = sy_queue s" "same_parts (sy_dv s) (sy_dv s')"
  shows "sys_inv c sv (announce (device_name sv) s s')"
  by (rule sys_inv_quiet [OF assms(1) sys_ok_announce assms(7,8)]) (use assms in \<open>simp_all add: sys_inv_def\<close>)

context watched_storage begin

lemma exec_inv: "inv s \<Longrightarrow> inv (store_exec ops act e s)"
proof (cases e)
  case (StepWatch rv)
  assume inv: "inv s"
  obtain s' res where w: "op_watch ops s rv = (s', res)" by fastforce
  with watch_refused [OF inv] watch_granted [OF inv] inv StepWatch show ?thesis by (cases res) auto
qed (simp_all add: create_inv update_inv delete_inv act_law)

end

lemma wifipassword_delete_inv:
  "fs_inv s \<Longrightarrow> fs_inv (fst (wifipassword_delete (fs_ops cd wifipassword_rt) pw v e s k))"
  using fs.create_inv [of s cd wifipassword_rt] fs.update_inv [of s cd wifipassword_rt] fs.rest_delete_inv [of s cd wifipassword_rt]
  by (fastforce simp: wifipassword_delete_def regenerate_wifi_password_def split: sum.splits prod.splits if_splits dest: arg_cong [of _ _ fst])

lemma device_update_ok:
  assumes "devices_ok n ds" "keeps_name (StepUpdate e k (\<lambda>obj. case u obj of Inl err \<Rightarrow> Inl err
      | Inr updated \<Rightarrow> (case v of None \<Rightarrow> Inr updated | Some f \<Rightarrow> f updated obj)))"
  shows "devices_ok n (fst (device_update cd dn u v e ds k))"
proof -
  have "devices_ok n (fst (rest_update (device_ops cd) u v e ds k))"
    unfolding rest_update_def
    by (rule devices_ok_update [OF assms(1)]) (use assms(2) in \<open>force split: sum.splits option.splits\<close>)
  with assms(1) show ?thesis by (cases "k = dn") (simp_all add: device_update_def)
qed

lemma deliver_ok:
  assumes "dp_devices p = device_ops cd" "dv_ok n dv"
  shows "dv_ok n (deliver_k3s p dv)" "dv_ok n (deliver_dns p dv)" "same_parts dv (deliver_k3s p dv)" "same_parts dv (deliver_dns p dv)"
  using assms
  by (auto simp: deliver_k3s_def deliver_dns_def dv_ok_iff same_parts_def k3s_report_def Let_def split: list.splits
      intro!: devices_ok_update)

section \<open>Steps keep the invariant\<close>

lemma device_params_simps [simp]:
  "dp_devices (device_params c sv w) = device_ops (sc_devices c)" "dp_tokens (device_params c sv w) = fs_ops (sc_tokens c) token_rt"
  "dp_DeviceName (device_params c sv w) = device_name sv" "dp_addToScheme (device_params c sv w) = sc_addToScheme c"
  by (simp_all add: device_params_def Let_def)

lemma settle_subset: "set (settle req fresh r q) \<subseteq> set q"
  by (auto simp: settle_def)

lemma device_turn_inv:
  assumes inv: "sys_inv c sv s" and q: "ReqDevice n \<in> set (sy_queue s)" and t: "device_turn c sv w n got s = Ret s'"
  shows "sys_inv c sv s'"
proof -
  let ?p = "device_params c sv w" and ?dn = "device_name sv" and ?dv0 = "(sy_dv s)\<lparr>dv_ifaces := netif_list c s\<rparr>"
  let ?fresh = "got = client_get sv device_rt (device_ops (sc_devices c)) (dv_devices (sy_dv s)) n"
  obtain dv r where rec: "device_reconcile ?p got ?dv0 = Ret (dv, r)"
    and s': "s' = announce ?dn s (s\<lparr>sy_dv := dv, sy_queue := settle (ReqDevice n) ?fresh r (sy_queue s)\<rparr>)"
    using t by (auto simp: device_turn_def split: go.splits)
  have ok: "sys_ok ?dn s" and n: "n = ?dn" using inv q by (auto simp: sys_inv_def sys_ok_def)
  have dv0: "dv_ok ?dn ?dv0" "roles_inv ?dv0" using ok by (simp_all add: sys_ok_def dv_ok_def roles_inv_def)
  have dv: "dv_ok ?dn dv" "roles_inv dv"
    using gm_validD [OF dv_ok_reconcile [where p = ?p and n = ?dn] dv0(1) rec] gm_validD [OF device_reconcile_inv dv0(2) rec] by simp_all
  have ok': "sys_ok ?dn s'"
    unfolding s' by (rule sys_ok_announce [OF ok]) (use ok dv settle_subset in \<open>simp_all add: sys_ok_def\<close>)
  show ?thesis
  proof (cases "ReqDevice ?dn \<in> set (sy_queue s')")
    case True
    with ok' show ?thesis by (simp add: sys_inv_def)
  next
    case False
    note na = not_announced [OF False [unfolded s']]
    have fresh: ?fresh "r = Inr no_requeue" using na(1) q n by (auto simp: settle_def split: if_splits)
    have "?dn \<in> dom (fs_view (dv_devices (sy_dv s)))" "names_agree (fs_view (dv_devices (sy_dv s)))"
      using ok by (simp_all add: sys_ok_def dv_ok_def)
    then obtain d where d: "fs_view (dv_devices (sy_dv s)) ?dn = Some d" "rname d = ?dn" by (auto simp: names_agree_def)
    have fs: "fs_inv (dv_devices (sy_dv s))" "fs_inv (dv_tokens (sy_dv s))" "fs_inv (n_store (sy_net s))"
      using ok by (simp_all add: sys_ok_def dv_ok_def)
    have got: "got = Inr d"
    proof (cases "client_allowed sv (rt_Resource device_rt) ?dn")
      case True
      with fresh(1) n d(1) fs(1) show ?thesis by (simp add: client_get_def rest_get_def dev.get_law)
    next
      case False
      with fresh n rec show ?thesis by (simp add: client_get_def device_reconcile_def gm_return_def)
    qed
    have "runner_inv (dv_k3s (sy_dv s))" using ok by (simp add: sys_ok_def roles_inv_def)
    then have "fs_view (dv_devices dv) ?dn \<noteq> Some d \<or> nothing_to_do d (netif_list c s) (dv_tokens (sy_dv s)) \<or>
        role_matches (sc_addToScheme c = None) d dv"
      using reconcile_completes [where p = ?p and s = ?dv0 and d = d and s' = dv and cd = "sc_devices c" and ct = "sc_tokens c"]
        rec got fresh(2) fs d by simp
    with na d(1) have "nothing_to_do d (netif_list c s) (dv_tokens (sy_dv s)) \<or>
        role_matches (sc_addToScheme c = None) d dv" by simp
    moreover have "netif_list c s' = netif_list c s" by (simp add: netif_list_def s')
    moreover have "fs_view (dv_devices dv) ?dn = Some d" "fs_view (dv_tokens dv) = fs_view (dv_tokens (sy_dv s))" "sy_dv s' = dv"
      using na d(1) by (simp_all add: s')
    ultimately have "role_settled c sv s'" by (simp add: role_settled_def nothing_to_do_def)
    with ok' show ?thesis by (simp add: sys_inv_def)
  qed
qed

lemma netif_turn_inv:
  assumes inv: "sys_inv c sv s" and t: "netif_turn c sv w n got s = Ret s'"
  shows "sys_inv c sv s'"
proof -
  let ?p = "netif_params c sv w (sy_passwords s)" and ?dn = "device_name sv"
  obtain net r q where rec: "netif_reconcile ?p got (sy_net s) = Ret (net, r)"
    and s': "s' = announce ?dn s (s\<lparr>sy_net := net, sy_queue := q\<rparr>)" and q: "q = sy_queue s \<or> q = removeAll (ReqIface n) (sy_queue s)"
    using t by (auto simp: netif_turn_def settle_def split: go.splits if_splits)
  have ok: "sys_ok ?dn s" using inv by (simp add: sys_inv_def)
  have net: "fs_inv (n_store net)" "one_mode (n_wifi net)"
    using gm_validD [OF netif_reconcile_store _ rec] one_mode_step [OF netif_step.reconcile [OF rec]] ok by (simp_all add: sys_ok_def)
  have ok': "sys_ok ?dn s'"
    unfolding s' by (rule sys_ok_announce [OF ok]) (use ok net q in \<open>auto simp: sys_ok_def\<close>)
  show ?thesis
  proof (cases "ReqDevice ?dn \<in> set (sy_queue s')")
    case True
    with ok' show ?thesis by (simp add: sys_inv_def)
  next
    case False
    note na = not_announced [OF False [unfolded s']]
    have "ReqDevice ?dn \<notin> set (sy_queue s)" using na(1) q by auto
    then have "role_settled c sv s" using inv by (simp add: sys_inv_def)
    then have "role_settled c sv s'"
      by (rule settled_cong [rotated 6]) (use ok net na in \<open>simp_all add: sys_ok_def same_parts_def s'\<close>)
    then show ?thesis using ok' by (simp add: sys_inv_def)
  qed
qed

text \<open>Exits of processes change nothing that is announced.\<close>

lemma sys_inv_exit:
  assumes "sys_inv c sv s" "dv_ok (device_name sv) dv" "roles_inv dv" "one_mode (n_wifi net)"
    and "same_parts (sy_dv s) dv" "dv_devices dv = dv_devices (sy_dv s)" "dv_tokens dv = dv_tokens (sy_dv s)" "n_store net = n_store (sy_net s)"
  shows "sys_inv c sv (s\<lparr>sy_dv := dv, sy_net := net\<rparr>)"
proof -
  have "role_settled c sv s \<Longrightarrow> role_settled c sv (s\<lparr>sy_dv := dv, sy_net := net\<rparr>)"
    by (rule settled_cong [rotated 6]) (use assms in \<open>simp_all add: sys_inv_def sys_ok_def\<close>)
  with assms show ?thesis by (auto simp: sys_inv_def sys_ok_def)
qed

lemma sys_inv_step: "sys_step c sv s s' \<Longrightarrow> sys_inv c sv s \<Longrightarrow> sys_inv c sv s'"
proof (induction rule: sys_step.induct)
  case (devices e n u v s)
  then have ok: "sys_ok (device_name sv) s" by (simp add: sys_inv_def)
  show ?case
    by (rule sys_inv_store [OF devices.prems])
       (use ok device_update_ok [OF _ devices.hyps] in \<open>auto simp: sys_ok_def dv_ok_iff roles_inv_def same_parts_def\<close>)
next
  case (tokens s marshal r)
  then have ok: "sys_ok (device_name sv) s" by (simp add: sys_inv_def)
  show ?case
    by (rule sys_inv_store [OF tokens.prems])
       (use ok tokens_ok_exec in \<open>auto simp: sys_ok_def dv_ok_iff roles_inv_def same_parts_def\<close>)
next
  case (passwords s st)
  then have ok: "sys_ok (device_name sv) s" by (simp add: sys_inv_def)
  show ?case
    by (rule sys_inv_store [OF passwords.prems]) (use ok fsw.exec_inv in \<open>auto simp: sys_ok_def same_parts_def\<close>)
next
  case (password_reset s pw vd e k)
  then have ok: "sys_ok (device_name sv) s" by (simp add: sys_inv_def)
  show ?case
    by (rule sys_inv_store [OF password_reset.prems]) (use ok wifipassword_delete_inv in \<open>auto simp: sys_ok_def same_parts_def\<close>)
next
  case (interfaces s st)
  then have ok: "sys_ok (device_name sv) s" by (simp add: sys_inv_def)
  show ?case
    by (rule sys_inv_store [OF interfaces.prems]) (use ok fsw.exec_inv in \<open>auto simp: sys_ok_def same_parts_def\<close>)
next
  case (wifi_exit s e)
  then have ok: "sys_ok (device_name sv) s" by (simp add: sys_inv_def)
  show ?case
    by (rule sys_inv_store [OF wifi_exit.prems]) (use ok wifi_process_exit_keeps in \<open>auto simp: sys_ok_def same_parts_def\<close>)
next
  case (device n s got w s')
  then show ?case using device_turn_inv by blast
next
  case (interface n s got w s')
  then show ?case using netif_turn_inv by blast
next
  case (k3s ev s m)
  then have ok: "sys_ok (device_name sv) s" by (simp add: sys_inv_def)
  have "sys_inv c sv (s\<lparr>sy_dv := (sy_dv s)\<lparr>dv_k3s := m\<rparr>, sy_net := sy_net s\<rparr>)"
    by (rule sys_inv_exit [OF k3s.prems])
       (use ok k3s.hyps runner_exec_inv exit_event_live in \<open>auto simp: sys_ok_def dv_ok_iff roles_inv_def same_parts_def\<close>)
  then show ?case by simp
next
  case (dnsmasq ev s m)
  then have ok: "sys_ok (device_name sv) s" by (simp add: sys_inv_def)
  have "sys_inv c sv (s\<lparr>sy_dv := (sy_dv s)\<lparr>dv_dns := (dv_dns (sy_dv s))\<lparr>dn_proc := m\<rparr>\<rparr>, sy_net := sy_net s\<rparr>)"
    by (rule sys_inv_exit [OF dnsmasq.prems])
       (use ok dnsmasq.hyps runner_exec_inv in \<open>auto simp: sys_ok_def dv_ok_iff roles_inv_def same_parts_def\<close>)
  then show ?case by simp
next
  case (k3s_status s w)
  then have ok: "sys_ok (device_name sv) s" by (simp add: sys_inv_def)
  show ?case
    by (rule sys_inv_store [OF k3s_status.prems])
       (use ok deliver_ok [where p = "device_params c sv w"] in \<open>auto simp: sys_ok_def\<close>)
next
  case (dns_status s w)
  then have ok: "sys_ok (device_name sv) s" by (simp add: sys_inv_def)
  show ?case
    by (rule sys_inv_store [OF dns_status.prems])
       (use ok deliver_ok [where p = "device_params c sv w"] in \<open>auto simp: sys_ok_def\<close>)
next
  case (hostapd ev s m)
  then have ok: "sys_ok (device_name sv) s" by (simp add: sys_inv_def)
  have "sys_inv c sv (s\<lparr>sy_dv := sy_dv s, sy_net := (sy_net s)\<lparr>n_wifi := (n_wifi (sy_net s))\<lparr>w_ap := m\<rparr>\<rparr>\<rparr>)"
    by (rule sys_inv_exit [OF hostapd.prems]) (use ok hostapd.hyps exit_one_mode in \<open>auto simp: sys_ok_def same_parts_def\<close>)
  then show ?case by simp
next
  case (wpa_supplicant ev s m)
  then have ok: "sys_ok (device_name sv) s" by (simp add: sys_inv_def)
  have "sys_inv c sv (s\<lparr>sy_dv := sy_dv s, sy_net := (sy_net s)\<lparr>n_wifi := (n_wifi (sy_net s))\<lparr>w_station := m\<rparr>\<rparr>\<rparr>)"
    by (rule sys_inv_exit [OF wpa_supplicant.prems]) (use ok wpa_supplicant.hyps exit_one_mode in \<open>auto simp: sys_ok_def same_parts_def\<close>)
  then show ?case by simp
next
  case (dhcpcd ev s m)
  then have ok: "sys_ok (device_name sv) s" by (simp add: sys_inv_def)
  have "sys_inv c sv (s\<lparr>sy_dv := sy_dv s, sy_net := (sy_net s)\<lparr>n_wifi := (n_wifi (sy_net s))\<lparr>w_dhcpcd := m\<rparr>\<rparr>\<rparr>)"
    by (rule sys_inv_exit [OF dhcpcd.prems]) (use ok dhcpcd.hyps exit_one_mode in \<open>auto simp: sys_ok_def same_parts_def\<close>)
  then show ?case by simp
qed

section \<open>The start\<close>

lemma load_files_named: "load_files codec rt e dir ns s = Inr s' \<Longrightarrow> keys_named s \<Longrightarrow> keys_named s'"
proof (induction ns arbitrary: s)
  case (Cons n ns)
  show ?case
  proof (cases "suffix ''.yaml'' n")
    case True
    with Cons.prems(1) obtain res s1 r where c: "mem_create rt e s (take (length n - 5) n) res = (s1, Inr r)"
      "load_files codec rt e dir ns s1 = Inr s'" by (auto split: sum.splits prod.splits)
    have "mem_view s1 = (mem_view s)(take (length n - 5) n \<mapsto> r)" "rname r = take (length n - 5) n"
      using mem_create_Inr [OF c(1)] by (simp_all add: alist_simps)
    with Cons.prems(2) have "keys_named s1" by (simp add: keys_named_def)
    from Cons.IH [OF c(2) this] show ?thesis .
  qed (use Cons in simp)
qed simp

lemma FileStore_names:
  assumes "FileStore codec rt e rd = Inr s"
  shows "names_agree (fs_view s)"
proof -
  have e: "keys_named InMemory" by (simp add: keys_named_def)
  have "keys_named (fs_mem s)"
    using assms by (auto simp: FileStore_def load_from_files_def e split: sum.splits option.splits dest: load_files_named [OF _ e])
  then show ?thesis by (simp add: keys_named_def names_agree_def)
qed

lemma newDeviceStore_names:
  assumes "dir_ok rd" "newDeviceStore codec e n rd = Inr s"
  shows "names_agree (fs_view s)"
proof -
  obtain s0 where s0: "FileStore codec device_rt e rd = Inr s0" using assms(2) by (auto simp: newDeviceStore_def split: sum.splits)
  note names = FileStore_names [OF s0]
  have inv: "fs_inv s0" using opened_sound [OF assms(1) s0] by (simp add: sound_def)
  consider "s = s0" | r where "op_create (fs_ops codec device_rt) e s0 n (default_device n) = (s, Inr r)"
    using assms(2) s0 by (auto simp: newDeviceStore_def fs_ops_def split: sum.splits if_splits prod.splits)
  then show ?thesis
  proof cases
    case 2
    from fs.create_ok [OF inv 2] names show ?thesis by (simp add: names_agree_def)
  qed (use names in simp)
qed

lemma NewServer_parts:
  assumes "NewServer c h opts d = Ret (Inr sv)"
  shows "device_name sv = so_DeviceName opts" "\<not> ic_started (sv_Ingress sv)"
    "sv_Accounts sv = (case st_accounts h of AccountsRead us \<Rightarrow> Some us | _ \<Rightarrow> None)"
  using assms
  by (auto simp: NewServer_def start_checks_def start_identity_def advertise_ifaces_def start_accounts_def go_bind_Ret_iff
      new_device_reconciler_def NewIngressController_def split: sum.splits if_splits accounts_file.splits)

lemma start_inv:
  assumes "faithful_codecs c" "dirs_ok d" "st_password h \<noteq> Inr []" "NewServer c h opts d = Ret (Inr sv)"
    and "dom (fs_view (ss_Devices (sv_Stores sv))) \<subseteq> {device_name sv}"
  shows "sys_inv c sv (start_system sv wh k files)"
proof -
  note n = NewServer_stores [OF assms(4)] NewServer_parts [OF assms(4)]
  note ss = NewServer_sound [OF assms(4,1,2)]
  obtain cert where cert: "start_stores c h (Some cert) (so_DeviceName opts) d = Ret (Inr (sv_Stores sv))" using n(1) by blast
  have eq: "equipped (device_name sv) (sv_Stores sv)" using ss(2) assms(3) n(6) by simp
  have snd: "fs_inv (ss_Devices (sv_Stores sv))" "fs_inv (ss_Tokens (sv_Stores sv))" "fs_inv (ss_Interfaces (sv_Stores sv))"
    "fs_inv (ss_WifiPasswords (sv_Stores sv))" using ss(1) by (simp_all add: stores_sound_def sound_def)
  have names: "names_agree (fs_view (ss_Devices (sv_Stores sv)))"
    using newDeviceStore_names [OF _ start_stores_parts(3) [OF cert]] assms(2) by (simp add: dirs_ok_def)
  have dom: "dom (fs_view (ss_Devices (sv_Stores sv))) = {device_name sv}" using eq assms(5) by (auto simp: equipped_def)
  have keys: "m \<in> set (store_keys (ss_Devices (sv_Stores sv))) \<Longrightarrow> m = device_name sv" for m
    using dom by (auto simp: store_keys_def dom_map_of_conv_image_fst [symmetric])
  have "sys_ok (device_name sv) (start_system sv wh k files)"
    using snd names dom eq keys n(7)
    by (auto simp: sys_ok_def start_system_def dv_ok_def own_token_def equipped_def roles_inv_def runner_inv_def new_runner_def
        NewControllerManager_def one_mode_def no_ap_def wifi_inv_def new_wifi_def Let_def)
  then show ?thesis by (simp add: sys_inv_def start_system_def Let_def)
qed

lemma reachable_inv:
  assumes "sys_inv c sv s0" "(sys_step c sv)\<^sup>*\<^sup>* s0 s"
  shows "sys_inv c sv s"
  using assms(2,1) by induction (auto intro: sys_inv_step)

section \<open>Without the token of the controllers\<close>

definition idle :: "('k, 'b) system \<Rightarrow> bool" where
  "idle s \<longleftrightarrow> \<not> cm_running (dv_controllers (sy_dv s)) \<and> \<not> dv_ingress (sy_dv s) \<and> \<not> cm_running (dv_nodeController (sy_dv s)) \<and>
     list_all (\<lambda>m. rn_live m = []) [dv_k3s (sy_dv s), dn_proc (dv_dns (sy_dv s)), w_ap (n_wifi (sy_net s)),
       w_station (n_wifi (sy_net s)), w_dhcpcd (n_wifi (sy_net s))]"

lemma idle_announce [simp]: "idle (announce dn s s') = idle s'"
  by (simp add: idle_def)

lemma deliver_processes [simp]:
  "dv_k3s (deliver_k3s p dv) = dv_k3s dv" "dv_dns (deliver_k3s p dv) = dv_dns dv"
  "dv_controllers (deliver_k3s p dv) = dv_controllers dv" "dv_nodeController (deliver_k3s p dv) = dv_nodeController dv"
  "dv_ingress (deliver_k3s p dv) = dv_ingress dv"
  "dv_k3s (deliver_dns p dv) = dv_k3s dv" "dv_dns (deliver_dns p dv) = dv_dns dv"
  "dv_controllers (deliver_dns p dv) = dv_controllers dv" "dv_nodeController (deliver_dns p dv) = dv_nodeController dv"
  "dv_ingress (deliver_dns p dv) = dv_ingress dv"
  by (auto simp: deliver_k3s_def deliver_dns_def Let_def split: list.splits)

lemma refused_turns:
  "device_turn c sv w n (Inl err) s = Ret s' \<Longrightarrow> idle s' = idle s"
  "netif_turn c sv w n (Inl err) s = Ret s' \<Longrightarrow> idle s' = idle s"
  by (auto simp: device_turn_def netif_turn_def device_reconcile_def netif_reconcile_def gm_return_def idle_def)

lemma idle_step:
  assumes "sys_step c sv s s'" "\<And>n. \<not> client_allowed sv ''devices'' n" "\<And>n. \<not> client_allowed sv ''networkinterfaces'' n" "idle s"
  shows "idle s'"
  using assms
proof (induction rule: sys_step.induct)
  case (device n s got w s')
  then obtain err where "got = Inl err" by (cases got) auto
  with device show ?case using refused_turns(1) by blast
next
  case (interface n s got w s')
  then obtain err where "got = Inl err" by (cases got) auto
  with interface show ?case using refused_turns(2) by blast
qed (auto simp: idle_def dest: exit_event_live)

lemma controllers_refused:
  assumes "NewServer c h opts d = Ret (Inr sv)" "\<And>us. st_accounts h = AccountsRead us \<Longrightarrow> controllerBearerToken \<notin> fst ` set us"
    and "plural \<noteq> ''devicediscovery''"
  shows "\<not> client_allowed sv plural n"
proof -
  note t = NewServer_stores(4,5) [OF assms(1)] NewServer_parts(3) [OF assms(1)]
  have "sv_ControllerToken sv \<noteq> controllerBearerToken" using t(1) by (auto simp: controllerBearerToken_def)
  moreover have "controllerBearerToken \<notin> fst ` set (accounts (sv_Accounts sv) (sv_AdminToken sv))"
    using t(2,3) assms(2) by (auto simp: accounts_def controllerBearerToken_def split: accounts_file.splits
        dest!: arg_cong [of _ "sv_AdminToken sv" length])
  ultimately have "authenticate (sv_Accounts sv) (sv_AdminToken sv) (sv_ControllerToken sv) (Some controllerBearerToken) = anonymous_user"
    by (rule controllers_anonymous)
  with assms(3) show ?thesis by (simp add: client_allowed_def Authorize_def anonymous_user_def adminGroup_def)
qed

section \<open>A run\<close>

text \<open>A first start on a host with an accounts file; then the network comes up and the device is reconciled twice.\<close>

definition demo_start_system :: start_env where
  "demo_start_system = demo_start\<lparr>st_accounts := AccountsRead [(''adminsecret'', admin_user ''admin'')]\<rparr>"

definition demo_world :: "ipt_rule list world" where
  "demo_world = \<lparr>wo_env = demo_env, wo_proc = \<lparr>ph_write = (\<lambda>_. None), ph_start = (\<lambda>_. Started 7), ph_signal = None, ph_now = 5\<rparr>, wo_hostname = Inr, wo_advertise = None,
     wo_tokenFile = Inr ''join'', wo_host = demo_host, wo_addrs = (\<lambda>_. Inr (Inr []))\<rparr>"

definition demo_network_up :: "demo_file server \<Rightarrow> (ipt_rule list, demo_file) system \<Rightarrow> (ipt_rule list, demo_file) system" where
  "demo_network_up sv s = announce (device_name sv) s (s\<lparr>sy_net := (sy_net s)\<lparr>n_store :=
     store_exec (fs_ops (sc_ifaces demo_codecs) netif_rt) fs_act (StepCreate demo_env ''eth0'' demo_up) (n_store (sy_net s))\<rparr>\<rparr>)"

definition demo_turn :: "demo_file server \<Rightarrow> (ipt_rule list, demo_file) system \<Rightarrow> (ipt_rule list, demo_file) system go" where
  "demo_turn sv s = device_turn demo_codecs sv demo_world (device_name sv)
     (client_get sv device_rt (device_ops (sc_devices demo_codecs)) (dv_devices (sy_dv s)) (device_name sv)) s"

definition demo_waits :: "demo_file server \<Rightarrow> (ipt_rule list, demo_file) system \<Rightarrow> bool" where
  "demo_waits sv s \<longleftrightarrow> ReqDevice (device_name sv) \<in> set (sy_queue s)"

definition demo_dom :: "demo_file server \<Rightarrow> bool" where
  "demo_dom sv \<longleftrightarrow> store_keys (ss_Devices (sv_Stores sv)) = [device_name sv]"

definition demo_run :: "start_env \<Rightarrow> (demo_file server \<times> (ipt_rule list, demo_file) system list) option" where
  "demo_run h =
     (case NewServer demo_codecs h demo_options empty_dirs of
        Ret (Inr sv) \<Rightarrow>
          (let s0 = start_system sv demo_host [] []; s1 = demo_network_up sv s0 in
           case demo_turn sv s1 of
             Ret s2 \<Rightarrow> (case demo_turn sv s2 of Ret s3 \<Rightarrow> Some (sv, [s0, s1, s2, s3]) | _ \<Rightarrow> None)
           | _ \<Rightarrow> None)
      | _ \<Rightarrow> None)"

abbreviation demo_system :: "(demo_file server \<times> (ipt_rule list, demo_file) system list) option" where
  "demo_system \<equiv> demo_run demo_start_system"

lemma demo_run_steps:
  assumes "demo_run h = Some (sv, [s0, s1, s2, s3])" "demo_waits sv s1" "demo_waits sv s2"
  shows "NewServer demo_codecs h demo_options empty_dirs = Ret (Inr sv)"
    "(sys_step demo_codecs sv)\<^sup>*\<^sup>* (start_system sv demo_host [] []) s3"
proof -
  have t: "s0 = start_system sv demo_host [] []" "s1 = demo_network_up sv s0" "demo_turn sv s1 = Ret s2" "demo_turn sv s2 = Ret s3"
    and n: "NewServer demo_codecs h demo_options empty_dirs = Ret (Inr sv)"
    using assms(1) by (auto simp: demo_run_def Let_def split: go.splits sum.splits)
  show "NewServer demo_codecs h demo_options empty_dirs = Ret (Inr sv)" by (rule n)
  have "sys_step demo_codecs sv s0 s1"
    unfolding t(2) demo_network_up_def by (rule sys_step.interfaces)
  moreover have "sys_step demo_codecs sv u v" if "demo_waits sv u" "demo_turn sv u = Ret v" for u v
    by (rule sys_step.device [where n = "device_name sv" and w = demo_world, OF _ _ that(2) [unfolded demo_turn_def]])
       (use that(1) in \<open>auto simp: demo_waits_def api_type_simps client_get_def\<close>)
  ultimately show "(sys_step demo_codecs sv)\<^sup>*\<^sup>* (start_system sv demo_host [] []) s3"
    using assms(2,3) t by (meson converse_rtranclp_into_rtranclp rtranclp.rtrancl_refl)
qed

text \<open>The runs are evaluated with the names of the configuration files left as they are.\<close>

declare conf_path_def [code del]

lemma demo_system_runs:
  "case demo_system of
     Some (sv, [s0, s1, s2, s3]) \<Rightarrow> demo_dom sv \<and> demo_waits sv s1 \<and> demo_waits sv s2 \<and> \<not> demo_waits sv s3 \<and>
       dv_ingress (sy_dv s3) \<and> cm_running (dv_controllers (sy_dv s3)) \<and> length (rn_live (dv_k3s (sy_dv s3))) = 1
   | _ \<Rightarrow> False"
  by code_simp

lemma demo_locked_runs:
  "case demo_run demo_start of Some (sv, [s0, s1, s2, s3]) \<Rightarrow> demo_waits sv s1 \<and> demo_waits sv s2 \<and> demo_waits sv s3 | _ \<Rightarrow> False"
  by code_simp

declare conf_path_def [code]

lemma demo_password: "st_password demo_start_system \<noteq> Inr []"
  by (simp add: demo_start_system_def demo_start_def)

lemma demo_system_reached:
  obtains sv s0 s1 s2 s where "demo_system = Some (sv, [s0, s1, s2, s])"
    "NewServer demo_codecs demo_start_system demo_options empty_dirs = Ret (Inr sv)"
    "dom (fs_view (ss_Devices (sv_Stores sv))) \<subseteq> {device_name sv}"
    "(sys_step demo_codecs sv)\<^sup>*\<^sup>* (start_system sv demo_host [] []) s"
    "ReqDevice (device_name sv) \<notin> set (sy_queue s)"
proof -
  obtain sv s0 s1 s2 s where r: "demo_system = Some (sv, [s0, s1, s2, s])" "demo_dom sv" "demo_waits sv s1" "demo_waits sv s2"
      "\<not> demo_waits sv s"
    using demo_system_runs by (auto split: option.splits prod.splits list.splits)
  moreover have "dom (fs_view (ss_Devices (sv_Stores sv))) \<subseteq> {device_name sv}"
    using r(2) by (auto simp: demo_dom_def store_keys_def dom_map_of_conv_image_fst image_set)
  ultimately show ?thesis using that demo_run_steps [OF r(1,3,4)] by (simp add: demo_waits_def)
qed

section \<open>Properties\<close>

text \<open>
  C7. The controllers follow the stored device: in every state the running server reaches in which no
  request for the device waits, the stored device is one a reconcile has nothing to do for (a mode it does
  not know, no address, an agent without its token), or the parts are those of its mode: a server runs the
  controllers and the ingress controller and no node controller, an agent runs the node controller alone, and a
  terminating device runs none of them and no k3s. Every change that may matter makes a request wait.
  At the start the device directory holds no other device; controllers run where their types register.
\<close>

theorem system_follows_role:
  assumes "faithful_codecs c" "dirs_ok d" "st_password h \<noteq> Inr []" "NewServer c h opts d = Ret (Inr sv)"
    and "dom (fs_view (ss_Devices (sv_Stores sv))) \<subseteq> {device_name sv}"
    and "(sys_step c sv)\<^sup>*\<^sup>* (start_system sv wh k files) s" "ReqDevice (device_name sv) \<notin> set (sy_queue s)"
  shows "\<exists>dev. fs_view (dv_devices (sy_dv s)) (device_name sv) = Some dev \<and>
    (nothing_to_do dev (netif_list c s) (dv_tokens (sy_dv s)) \<or>
     (if terminating dev then \<not> cm_running (dv_controllers (sy_dv s)) \<and> \<not> dv_ingress (sy_dv s) \<and>
        \<not> cm_running (dv_nodeController (sy_dv s)) \<and> rn_live (dv_k3s (sy_dv s)) = []
      else if is_server dev then (sc_addToScheme c = None \<longrightarrow> cm_running (dv_controllers (sy_dv s))) \<and> dv_ingress (sy_dv s) \<and>
        \<not> cm_running (dv_nodeController (sy_dv s))
      else \<not> cm_running (dv_controllers (sy_dv s)) \<and> \<not> dv_ingress (sy_dv s) \<and>
        (sc_addToScheme c = None \<longrightarrow> cm_running (dv_nodeController (sy_dv s)))))"
proof -
  have "role_settled c sv s"
    using reachable_inv [OF start_inv [OF assms(1-5)] assms(6)] assms(7) by (simp add: sys_inv_def)
  then show ?thesis by (auto simp: role_settled_def role_matches_def split: option.splits)
qed

theorem system_follows_role_witness:
  "case demo_system of
     Some (sv, [s0, s1, s2, s]) \<Rightarrow>
       (\<exists>dev. fs_view (dv_devices (sy_dv s)) (device_name sv) = Some dev \<and>
         (nothing_to_do dev (netif_list demo_codecs s) (dv_tokens (sy_dv s)) \<or>
         (if terminating dev then \<not> cm_running (dv_controllers (sy_dv s)) \<and> \<not> dv_ingress (sy_dv s) \<and>
            \<not> cm_running (dv_nodeController (sy_dv s)) \<and> rn_live (dv_k3s (sy_dv s)) = []
          else if is_server dev then (sc_addToScheme demo_codecs = None \<longrightarrow> cm_running (dv_controllers (sy_dv s))) \<and> dv_ingress (sy_dv s) \<and>
            \<not> cm_running (dv_nodeController (sy_dv s))
          else \<not> cm_running (dv_controllers (sy_dv s)) \<and> \<not> dv_ingress (sy_dv s) \<and>
            (sc_addToScheme demo_codecs = None \<longrightarrow> cm_running (dv_nodeController (sy_dv s))))))
   | _ \<Rightarrow> False"
proof (rule demo_system_reached)
  fix sv s0 s1 s2 s
  assume r: "demo_system = Some (sv, [s0, s1, s2, s])" "NewServer demo_codecs demo_start_system demo_options empty_dirs = Ret (Inr sv)"
    "dom (fs_view (ss_Devices (sv_Stores sv))) \<subseteq> {device_name sv}"
    "(sys_step demo_codecs sv)\<^sup>*\<^sup>* (start_system sv demo_host [] []) s" "ReqDevice (device_name sv) \<notin> set (sy_queue s)"
  show ?thesis
    using system_follows_role [OF demo_codecs_faithful empty_dirs_ok demo_password r(2-5)] by (simp add: r(1))
qed

text \<open>
  C9. The running server is safe: in every state it reaches, its stores are in order, the device's own resource
  and its token are there, the parts of the two roles do not run together, the access point and the
  station do not run together, and there is at most one process of each kind.
\<close>

theorem system_safe:
  assumes "faithful_codecs c" "dirs_ok d" "st_password h \<noteq> Inr []" "NewServer c h opts d = Ret (Inr sv)"
    and "dom (fs_view (ss_Devices (sv_Stores sv))) \<subseteq> {device_name sv}"
    and "(sys_step c sv)\<^sup>*\<^sup>* (start_system sv wh k files) s"
  shows "dom (fs_view (dv_devices (sy_dv s))) = {device_name sv} \<and> own_token (device_name sv) (dv_tokens (sy_dv s)) \<and>
    fs_inv (dv_devices (sy_dv s)) \<and> fs_inv (dv_tokens (sy_dv s)) \<and> fs_inv (n_store (sy_net s)) \<and> fs_inv (sy_passwords s) \<and>
    (cm_running (dv_controllers (sy_dv s)) \<longrightarrow> dv_ingress (sy_dv s)) \<and>
    \<not> (dv_ingress (sy_dv s) \<and> cm_running (dv_nodeController (sy_dv s))) \<and>
    (rn_live (w_ap (n_wifi (sy_net s))) = [] \<or> rn_live (w_station (n_wifi (sy_net s))) = [] \<and> rn_live (w_dhcpcd (n_wifi (sy_net s))) = []) \<and>
    list_all (\<lambda>m. length (rn_live m) \<le> 1) [dv_k3s (sy_dv s), dn_proc (dv_dns (sy_dv s)), w_ap (n_wifi (sy_net s)),
      w_station (n_wifi (sy_net s)), w_dhcpcd (n_wifi (sy_net s))]"
proof -
  have ok: "sys_ok (device_name sv) s" using reachable_inv [OF start_inv [OF assms(1-5)] assms(6)] by (simp add: sys_inv_def)
  have one: "length (rn_live m) \<le> 1" if "runner_inv m" for m using that by (auto simp: runner_inv_def split: option.splits)
  have "one_mode (n_wifi (sy_net s))" "roles_inv (sy_dv s)" using ok by (simp_all add: sys_ok_def)
  moreover from this(1) have "wifi_inv (n_wifi (sy_net s))" by (rule one_mode_wifi_inv)
  ultimately show ?thesis
    using ok one by (auto simp: sys_ok_def dv_ok_def roles_inv_def one_mode_def no_station_def no_ap_def wifi_inv_def)
qed

theorem system_safe_witness:
  "case demo_system of
     Some (sv, [s0, s1, s2, s]) \<Rightarrow>
       dom (fs_view (dv_devices (sy_dv s))) = {device_name sv} \<and> \<not> (dv_ingress (sy_dv s) \<and> cm_running (dv_nodeController (sy_dv s)))
   | _ \<Rightarrow> False"
proof (rule demo_system_reached)
  fix sv s0 s1 s2 s
  assume r: "demo_system = Some (sv, [s0, s1, s2, s])" "NewServer demo_codecs demo_start_system demo_options empty_dirs = Ret (Inr sv)"
    "dom (fs_view (ss_Devices (sv_Stores sv))) \<subseteq> {device_name sv}"
    "(sys_step demo_codecs sv)\<^sup>*\<^sup>* (start_system sv demo_host [] []) s"
  show ?thesis
    using system_safe [OF demo_codecs_faithful empty_dirs_ok demo_password r(2-4)] by (simp add: r(1))
qed

text \<open>
  C12. The controllers' token is a constant of the code, which nothing but the accounts file makes valid: on a
  host whose accounts file is missing, or does not name that token, the server starts, but whatever is
  requested of it, it never runs a process, a controller or the ingress controller.
\<close>

theorem no_token_nothing_runs:
  assumes "NewServer c h opts d = Ret (Inr sv)"
    and "case st_accounts h of AccountsRead us \<Rightarrow> controllerBearerToken \<notin> fst ` set us | _ \<Rightarrow> True"
    and "(sys_step c sv)\<^sup>*\<^sup>* (start_system sv wh k files) s"
  shows "\<not> cm_running (dv_controllers (sy_dv s)) \<and> \<not> dv_ingress (sy_dv s) \<and> \<not> cm_running (dv_nodeController (sy_dv s)) \<and>
    list_all (\<lambda>m. rn_live m = []) [dv_k3s (sy_dv s), dn_proc (dv_dns (sy_dv s)), w_ap (n_wifi (sy_net s)),
      w_station (n_wifi (sy_net s)), w_dhcpcd (n_wifi (sy_net s))]"
proof -
  have c: "\<not> client_allowed sv plural n" if "plural \<noteq> ''devicediscovery''" for plural n
    by (rule controllers_refused [OF assms(1) _ that]) (use assms(2) in auto)
  have "idle (start_system sv wh k files)"
    using NewServer_parts(2) [OF assms(1)]
    by (simp add: idle_def start_system_def Let_def new_runner_def NewControllerManager_def new_wifi_def)
  with assms(3) have "idle s" by induction (auto elim: idle_step simp: c)
  then show ?thesis by (simp add: idle_def)
qed

theorem no_token_nothing_runs_witness:
  "case demo_run demo_start of
     Some (sv, [s0, s1, s2, s]) \<Rightarrow> demo_waits sv s \<and> \<not> dv_ingress (sy_dv s) \<and> rn_live (dv_k3s (sy_dv s)) = []
   | _ \<Rightarrow> False"
proof -
  obtain sv s0 s1 s2 s where r: "demo_run demo_start = Some (sv, [s0, s1, s2, s])" "demo_waits sv s1" "demo_waits sv s2" "demo_waits sv s"
    using demo_locked_runs by (auto split: option.splits prod.splits list.splits)
  note st = demo_run_steps [OF r(1-3)]
  have "case st_accounts demo_start of AccountsRead us \<Rightarrow> controllerBearerToken \<notin> fst ` set us | _ \<Rightarrow> True"
    by (simp add: demo_start_def)
  from no_token_nothing_runs [OF st(1) this st(2)] r show ?thesis by simp
qed

end
