(* ===== verification/Requests.thy ===== *)
theory Requests
  imports System
begin

text \<open>
  The way of a request through the server (\<open>pkg/apiserver/server.go\<close>): the handlers of the chain, the user of its
  token, impersonation, the authorizer, and the handler of \<open>pkg/rest\<close> that \<open>NewServer\<close> registers for the kind,
  on the stores of the running server. What the generic API server reads from a request (its bearer token, the
  call that path, method and body stand for) is part of the request here; its filter for impersonation, bcrypt,
  the JSON encoding and the cluster's client are parameters.
\<close>

section \<open>Calls\<close>

type_synonym 'a updated = "'a resource \<Rightarrow> go_error + 'a resource"
type_synonym 'a update_check = "('a resource \<Rightarrow> 'a resource \<Rightarrow> go_error + 'a resource) option"
type_synonym 'a check = "'a resource \<Rightarrow> go_error option"

datatype api_kind = Ifaces | Certificates | Accounts | Devices | Discovered | Tokens | Passwords | Networks

definition kind_plural :: "api_kind \<Rightarrow> string" where
  "kind_plural k = (case k of Ifaces \<Rightarrow> ''networkinterfaces'' | Certificates \<Rightarrow> ''certificates'' | Accounts \<Rightarrow> ''useraccounts''
     | Devices \<Rightarrow> ''devices'' | Discovered \<Rightarrow> ''devicediscovery'' | Tokens \<Rightarrow> ''devicetokens'' | Passwords \<Rightarrow> ''wifipasswords''
     | Networks \<Rightarrow> ''wifinetworks'')"

datatype api_call =
    ReadKind api_kind string
  | UpdateDevice env string "device updated" "device update_check"
  | ShutdownDevice "device resource"
  | CreateIface string
  | UpdateIface env string "netif updated" "netif update_check"
  | DeleteIface env string "netif check"
  | CreateToken env "device_token check" "device_token resource"
  | UpdateToken env string "device_token updated" "device_token update_check"
  | DeleteToken env string "nat \<Rightarrow> go_error + nat" "device_token check"
  | CreatePassword env "wifi_password check" "wifi_password resource"
  | UpdatePassword env string "wifi_password updated" "wifi_password update_check"
  | DeletePassword env string "go_error + string" "wifi_password check"
  | CreateAccount env "user_account check" "user_account resource"
  | UpdateAccount env string "user_account updated"
  | DeleteAccount env string "user_account check"
  | WriteCertificate api_verb string
  | WriteDiscovery api_verb string
  | WriteNetwork api_verb string

definition verb_text :: "api_verb \<Rightarrow> string" where
  "verb_text v = (case v of VerbCreate \<Rightarrow> ''create'' | VerbUpdate \<Rightarrow> ''update'' | VerbDelete \<Rightarrow> ''delete'')"

text \<open>The resource, the name and the verb the authorizer is asked about.\<close>

fun call_target :: "api_call \<Rightarrow> string \<times> string \<times> string" where
  "call_target (ReadKind k n) = (kind_plural k, n, ''get'')"
| "call_target (UpdateDevice e n u v) = (''devices'', n, ''update'')"
| "call_target (ShutdownDevice d) = (''devices'', rname d, ''create'')"
| "call_target (CreateIface n) = (''networkinterfaces'', n, ''create'')"
| "call_target (UpdateIface e n u v) = (''networkinterfaces'', n, ''update'')"
| "call_target (DeleteIface e n v) = (''networkinterfaces'', n, ''delete'')"
| "call_target (CreateToken e v t) = (''devicetokens'', rname t, ''create'')"
| "call_target (UpdateToken e n u v) = (''devicetokens'', n, ''update'')"
| "call_target (DeleteToken e n draws v) = (''devicetokens'', n, ''delete'')"
| "call_target (CreatePassword e v p) = (''wifipasswords'', rname p, ''create'')"
| "call_target (UpdatePassword e n u v) = (''wifipasswords'', n, ''update'')"
| "call_target (DeletePassword e n pw v) = (''wifipasswords'', n, ''delete'')"
| "call_target (CreateAccount e v a) = (''useraccounts'', rname a, ''create'')"
| "call_target (UpdateAccount e n u) = (''useraccounts'', n, ''update'')"
| "call_target (DeleteAccount e n v) = (''useraccounts'', n, ''delete'')"
| "call_target (WriteCertificate w n) = (''certificates'', n, verb_text w)"
| "call_target (WriteDiscovery w n) = (''devicediscovery'', n, verb_text w)"
| "call_target (WriteNetwork w n) = (''wifinetworks'', n, verb_text w)"

definition call_attributes :: "api_call \<Rightarrow> attributes" where
  "call_attributes call = (case call_target call of (plural, n, verb) \<Rightarrow>
     \<lparr>at_Group = fst GroupVersion, at_Resource = plural, at_Name = n, at_Verb = verb\<rparr>)"

section \<open>Handlers\<close>

record ('c, 'n) api_libs =
  al_tokens :: "device_token resource \<Rightarrow> go_error + string"
  al_passwords :: "wifi_password resource \<Rightarrow> go_error + string"
  al_accounts :: "user_account resource \<Rightarrow> go_error + string"
  al_bcrypt :: "string \<Rightarrow> go_error + string"
  al_client :: "string \<Rightarrow> go_error + 'c"
  al_patch :: "'c \<Rightarrow> string \<Rightarrow> string \<Rightarrow> string \<Rightarrow> 'n \<Rightarrow> 'n \<times> go_error option"

text \<open>The running server, the accounts, the devices found, and the nodes of the cluster.\<close>

record ('k, 'b, 'n) site =
  si_sys :: "('k, 'b) system"
  si_accounts :: "(user_account, 'b) filestore"
  si_discovered :: "device_discovery memstore"
  si_nodes :: 'n

definition put_devices :: "(device, 'b) filestore \<Rightarrow> ('k, 'b) system \<Rightarrow> ('k, 'b) system" where
  "put_devices d s = s\<lparr>sy_dv := (sy_dv s)\<lparr>dv_devices := d\<rparr>\<rparr>"

definition put_tokens :: "(device_token, 'b) filestore \<Rightarrow> ('k, 'b) system \<Rightarrow> ('k, 'b) system" where
  "put_tokens t s = s\<lparr>sy_dv := (sy_dv s)\<lparr>dv_tokens := t\<rparr>\<rparr>"

definition put_passwords :: "(wifi_password, 'b) filestore \<Rightarrow> ('k, 'b) system \<Rightarrow> ('k, 'b) system" where
  "put_passwords p s = s\<lparr>sy_passwords := p\<rparr>"

definition put_ifaces :: "(netif, 'b) filestore \<Rightarrow> ('k, 'b) system \<Rightarrow> ('k, 'b) system" where
  "put_ifaces i s = s\<lparr>sy_net := (sy_net s)\<lparr>n_store := i\<rparr>\<rparr>"

definition failure :: "go_error + 'x \<Rightarrow> go_error option" where
  "failure r = (case r of Inl err \<Rightarrow> Some err | Inr _ \<Rightarrow> None)"

text \<open>A handler wrote a store of the running server: the change is announced.\<close>

definition stored ::
  "string \<Rightarrow> ('s \<Rightarrow> ('k, 'b) system \<Rightarrow> ('k, 'b) system) \<Rightarrow> ('k, 'b, 'n) site \<Rightarrow> 's \<times> (go_error + 'x) \<Rightarrow> ('k, 'b, 'n) site \<times> go_error option" where
  "stored dn put s r = (s\<lparr>si_sys := announce dn (si_sys s) (put (fst r) (si_sys s))\<rparr>, failure (snd r))"

definition stored_account :: "('k, 'b, 'n) site \<Rightarrow> (user_account, 'b) filestore \<times> (go_error + 'x) \<Rightarrow> ('k, 'b, 'n) site \<times> go_error option" where
  "stored_account s r = (s\<lparr>si_accounts := fst r\<rparr>, failure (snd r))"

text \<open>Why a resource cannot be read, if so.\<close>

definition read_failure :: "'b server_codecs \<Rightarrow> 'b server \<Rightarrow> ('k, 'b, 'n) site \<Rightarrow> api_kind \<Rightarrow> string \<Rightarrow> go_error option" where
  "read_failure c sv s k n =
     (case k of
        Ifaces \<Rightarrow> failure (rest_get (fs_ops (sc_ifaces c) netif_rt) (n_store (sy_net (si_sys s))) n)
      | Certificates \<Rightarrow> failure (rest_get (mem_ops certificate_rt) (ss_Certificates (sv_Stores sv)) n)
      | Accounts \<Rightarrow> failure (rest_get (fs_ops (sc_accounts c) useraccount_rt) (si_accounts s) n)
      | Devices \<Rightarrow> failure (rest_get (device_ops (sc_devices c)) (dv_devices (sy_dv (si_sys s))) n)
      | Discovered \<Rightarrow> failure (rest_get (mem_ops devicediscovery_rt) (si_discovered s) n)
      | Tokens \<Rightarrow> failure (rest_get (fs_ops (sc_tokens c) token_rt) (dv_tokens (sy_dv (si_sys s))) n)
      | Passwords \<Rightarrow> failure (rest_get (fs_ops (sc_passwords c) wifipassword_rt) (sy_passwords (si_sys s)) n)
      | Networks \<Rightarrow> failure (rest_get (mem_ops wifinetwork_rt) (n_networks (sy_net (si_sys s))) n))"

text \<open>The handler of the kind; \<open>None\<close> when it never returns.\<close>

fun api_handle ::
  "('c, 'n) api_libs \<Rightarrow> 'b server_codecs \<Rightarrow> 'b server \<Rightarrow> api_call \<Rightarrow> ('k, 'b, 'n) site \<Rightarrow> (('k, 'b, 'n) site \<times> go_error option) option" where
  "api_handle l c sv (ReadKind k n) s = Some (s, read_failure c sv s k n)"
| "api_handle l c sv (UpdateDevice e n u v) s =
     Some (stored (device_name sv) put_devices s (device_update (sc_devices c) (device_name sv) u v e (dv_devices (sy_dv (si_sys s))) n))"
| "api_handle l c sv (ShutdownDevice d) s =
     (case shutdown_create (device_ops (sc_devices c)) (device_name sv) (dr_DataDir (sv_DeviceReconciler sv)) (al_client l) (al_patch l)
             (dv_devices (sy_dv (si_sys s))) (si_nodes s) d of
        (nodes, r) \<Rightarrow> Some (s\<lparr>si_nodes := nodes\<rparr>, failure r))"
| "api_handle l c sv (CreateIface n) s = Some (s, failure (snd (networkinterface_create (n_store (sy_net (si_sys s))))))"
| "api_handle l c sv (UpdateIface e n u v) s =
     Some (stored (device_name sv) put_ifaces s (rest_update (fs_ops (sc_ifaces c) netif_rt) u v e (n_store (sy_net (si_sys s))) n))"
| "api_handle l c sv (DeleteIface e n v) s =
     Some (stored (device_name sv) put_ifaces s (rest_delete (fs_ops (sc_ifaces c) netif_rt) v e (n_store (sy_net (si_sys s))) n))"
| "api_handle l c sv (CreateToken e v t) s =
     Some (stored (device_name sv) put_tokens s
       (token_create (fs_ops (sc_tokens c) token_rt) (device_name sv) (al_tokens l) v e (dv_tokens (sy_dv (si_sys s))) t))"
| "api_handle l c sv (UpdateToken e n u v) s =
     Some (stored (device_name sv) put_tokens s
       (token_update (fs_ops (sc_tokens c) token_rt) (device_name sv) u v e (dv_tokens (sy_dv (si_sys s))) n))"
| "api_handle l c sv (DeleteToken e n draws v) s =
     Some (stored (device_name sv) put_tokens s
       (token_delete (fs_ops (sc_tokens c) token_rt) (device_name sv) draws v e (dv_tokens (sy_dv (si_sys s))) n))"
| "api_handle l c sv (CreatePassword e v p) s =
     Some (stored (device_name sv) put_passwords s
       (rest_create (fs_ops (sc_passwords c) wifipassword_rt) (al_passwords l) v e (sy_passwords (si_sys s)) p))"
| "api_handle l c sv (UpdatePassword e n u v) s =
     Some (stored (device_name sv) put_passwords s
       (rest_update (fs_ops (sc_passwords c) wifipassword_rt) u v e (sy_passwords (si_sys s)) n))"
| "api_handle l c sv (DeletePassword e n pw v) s =
     Some (stored (device_name sv) put_passwords s
       (wifipassword_delete (fs_ops (sc_passwords c) wifipassword_rt) pw v e (sy_passwords (si_sys s)) n))"
| "api_handle l c sv (CreateAccount e v a) s =
     Some (stored_account s (useraccount_create (fs_ops (sc_accounts c) useraccount_rt) (al_bcrypt l) (al_accounts l) v e (si_accounts s) a))"
| "api_handle l c sv (UpdateAccount e n u) s =
     map_option (stored_account s) (useraccount_update (fs_ops (sc_accounts c) useraccount_rt) (al_bcrypt l) u e (si_accounts s) n)"
| "api_handle l c sv (DeleteAccount e n v) s =
     Some (stored_account s (useraccount_delete (fs_ops (sc_accounts c) useraccount_rt) v e (si_accounts s) n))"
| "api_handle l c sv (WriteCertificate w n) s = Some (s, Some (certificate_write w))"
| "api_handle l c sv (WriteDiscovery w n) s = Some (s, Some (devicediscovery_write w))"
| "api_handle l c sv (WriteNetwork w n) s = Some (s, Some (wifinetwork_write w))"

section \<open>Requests\<close>

record api_request =
  ar_http :: http_request
  ar_bearer :: "string option"
  ar_call :: api_call

datatype api_answer = Elsewhere reply | Refused | Handled "go_error option"

type_synonym impersonation_filter = "(user_info \<Rightarrow> attributes \<Rightarrow> decision) \<Rightarrow> user_info \<Rightarrow> url_values \<Rightarrow> user_info option"

definition caller :: "'b server \<Rightarrow> string option \<Rightarrow> user_info" where
  "caller sv bearer = authenticate (sv_Accounts sv) (sv_AdminToken sv) (sv_ControllerToken sv) bearer"

definition serve_api ::
  "impersonation_filter \<Rightarrow> ('c, 'n) api_libs \<Rightarrow> 'b server_codecs \<Rightarrow> 'b server \<Rightarrow> api_request \<Rightarrow> ('k, 'b, 'n) site
   \<Rightarrow> (('k, 'b, 'n) site \<times> api_answer) option" where
  "serve_api filt l c sv req s =
     (case server_handler (device_name sv) (so_HTTPSPort (sv_Options sv)) (ar_http req) of
        ServeAPI \<Rightarrow>
          if request_allowed filt (caller sv (ar_bearer req)) (rq_headers (ar_http req)) (call_attributes (ar_call req)) then
            map_option (map_prod id Handled) (api_handle l c sv (ar_call req) s)
          else Some (s, Refused)
      | x \<Rightarrow> Some (s, Elsewhere x))"

text \<open>Requests one after the other; \<open>None\<close> when one of them is never answered.\<close>

fun serve_all ::
  "impersonation_filter \<Rightarrow> ('c, 'n) api_libs \<Rightarrow> 'b server_codecs \<Rightarrow> 'b server \<Rightarrow> api_request list \<Rightarrow> ('k, 'b, 'n) site
   \<Rightarrow> ('k, 'b, 'n) site option" where
  "serve_all filt l c sv [] s = Some s"
| "serve_all filt l c sv (r # rs) s =
     (case serve_api filt l c sv r s of None \<Rightarrow> None | Some (s', a) \<Rightarrow> serve_all filt l c sv rs s')"

section \<open>Requests are steps of the running server\<close>

text \<open>The API server checks that an update keeps the name.\<close>

fun call_ok :: "api_call \<Rightarrow> bool" where
  "call_ok (UpdateDevice e n u v) =
     keeps_name (StepUpdate e n (\<lambda>obj. case u obj of Inl err \<Rightarrow> Inl err | Inr updated \<Rightarrow> (case v of None \<Rightarrow> Inr updated | Some f \<Rightarrow> f updated obj)))"
| "call_ok _ = True"

lemma unchanged_step: "sys_step c sv s (announce (device_name sv) s s)"
proof -
  let ?t = "new_resource (device_name sv) undefined"
  have "token_exec (fs_ops (sc_tokens c) token_rt) (device_name sv) m (TokCreate e v ?t) ts = ts" for m e v ts
    by (simp add: token_create_def new_resource_def)
  with sys_step.tokens [of c sv s _ "TokCreate undefined undefined ?t"] show ?thesis by simp
qed

lemma iface_step:
  "sys_step c sv s (announce (device_name sv) s (put_ifaces (fst (op_update (fs_ops (sc_ifaces c) netif_rt) e (n_store (sy_net s)) n f)) s))"
  "sys_step c sv s (announce (device_name sv) s (put_ifaces (fst (op_delete (fs_ops (sc_ifaces c) netif_rt) e (n_store (sy_net s)) n v)) s))"
  unfolding put_ifaces_def
  using sys_step.interfaces [of c sv s "StepUpdate e n f"] sys_step.interfaces [of c sv s "StepDelete e n v"] by simp_all

lemma password_step:
  "sys_step c sv s (announce (device_name sv) s (put_passwords (fst (op_create (fs_ops (sc_passwords c) wifipassword_rt) e (sy_passwords s) n p)) s))"
  "sys_step c sv s (announce (device_name sv) s (put_passwords (fst (op_update (fs_ops (sc_passwords c) wifipassword_rt) e (sy_passwords s) n f)) s))"
  unfolding put_passwords_def
  using sys_step.passwords [of c sv s "StepCreate e n p"] sys_step.passwords [of c sv s "StepUpdate e n f"] by simp_all

lemma token_step:
  "sys_step c sv s (announce (device_name sv) s
     (put_tokens (token_exec (fs_ops (sc_tokens c) token_rt) (device_name sv) marshal r (dv_tokens (sy_dv s))) s))"
  unfolding put_tokens_def by (rule sys_step.tokens)

lemma rest_create_cases:
  "fst (rest_create ops m v e s obj) = s \<or> (\<exists>n r. fst (rest_create ops m v e s obj) = fst (op_create ops e s n r))"
  by (auto simp: rest_create_def split: option.splits sum.splits)

lemma api_handle_step:
  assumes "api_handle l c sv call s = Some (s', r)" "call_ok call"
  shows "si_sys s' = si_sys s \<or> sys_step c sv (si_sys s) (si_sys s')"
proof (cases call)
  case (UpdateDevice e n u v)
  with assms sys_step.devices [where e = e and n = n and u = u and v = v and c = c and sv = sv and s = "si_sys s"] show ?thesis by (auto simp: stored_def put_devices_def)
next
  case (UpdateIface e n u v)
  with assms show ?thesis by (auto simp: stored_def rest_update_def iface_step)
next
  case (DeleteIface e n v)
  with assms show ?thesis by (auto simp: stored_def rest_delete_def iface_step)
next
  case (CreateToken e v t)
  with assms token_step [where r = "TokCreate e v t" and s = "si_sys s" and c = c and sv = sv and marshal = "al_tokens l"] show ?thesis by (auto simp: stored_def)
next
  case (UpdateToken e n u v)
  with assms token_step [where r = "TokUpdate e n u v" and s = "si_sys s" and c = c and sv = sv and marshal = "al_tokens l"] show ?thesis by (auto simp: stored_def)
next
  case (DeleteToken e n d v)
  with assms token_step [where r = "TokDelete e n d v" and s = "si_sys s" and c = c and sv = sv and marshal = "al_tokens l"] show ?thesis by (auto simp: stored_def)
next
  case (CreatePassword e v p)
  with assms have "si_sys s' = announce (device_name sv) (si_sys s) (put_passwords
      (fst (rest_create (fs_ops (sc_passwords c) wifipassword_rt) (al_passwords l) v e (sy_passwords (si_sys s)) p)) (si_sys s))"
    by (auto simp: stored_def)
  with rest_create_cases [of "fs_ops (sc_passwords c) wifipassword_rt" "al_passwords l" v e "sy_passwords (si_sys s)" p]
    unchanged_step [of c sv "si_sys s"] password_step(1) [of c sv "si_sys s"]
  show ?thesis by (auto simp: put_passwords_def)
next
  case (UpdatePassword e n u v)
  with assms show ?thesis by (auto simp: stored_def rest_update_def password_step)
next
  case (DeletePassword e n pw v)
  with assms sys_step.password_reset [where c = c and sv = sv and s = "si_sys s" and pw = pw and vd = v and e = e and k = n] show ?thesis by (auto simp: stored_def put_passwords_def)
qed (use assms in \<open>auto simp: stored_def stored_account_def split: prod.splits\<close>)

lemma useraccount_inv:
  assumes "fs_inv s"
  shows "fs_inv (fst (useraccount_create (fs_ops cd useraccount_rt) b m v e s a))" "fs_inv (fst (useraccount_delete (fs_ops cd useraccount_rt) v e s n))"
    "useraccount_update (fs_ops cd useraccount_rt) b u e s n = Some r \<Longrightarrow> fs_inv (fst r)"
  using assms
  by (auto simp: useraccount_create_def useraccount_delete_def useraccount_update_def fs.rest_create_inv fs.rest_delete_inv fs.update_inv
      split: sum.splits option.splits)

lemma api_handle_accounts:
  assumes "api_handle l c sv call s = Some (s', r)" "fs_inv (si_accounts s)"
  shows "fs_inv (si_accounts s')"
  using assms by (cases call) (auto simp: stored_def stored_account_def useraccount_inv split: prod.splits dest: useraccount_inv(3))

lemma serve_api_cases:
  assumes "serve_api filt l c sv req s = Some (s', a)"
  shows "s' = s \<or> (\<exists>r. api_handle l c sv (ar_call req) s = Some (s', r))"
  using assms by (auto simp: serve_api_def split: reply.splits if_splits)

section \<open>Who changes what\<close>

lemma serve_api_served:
  assumes "server_handler d port r = ServeAPI"
  shows "passes (externalAddr d port) r"
  using assms by (auto simp: server_handler_def ForceHTTPSHost_def ForceHTTPS_def passes_def split: if_splits)

text \<open>Whoever calls as an admin sent a token of an admin.\<close>

definition admin_token :: "'b server \<Rightarrow> string \<Rightarrow> bool" where
  "admin_token sv t \<longleftrightarrow> t = sv_ControllerToken sv \<or>
     (\<exists>u. (t, u) \<in> set (accounts (sv_Accounts sv) (sv_AdminToken sv)) \<and> adminGroup \<in> set (us_Groups u))"

lemma caller_admin:
  assumes "adminGroup \<in> set (us_Groups (caller sv bearer))"
  shows "\<exists>t. bearer = Some t \<and> admin_token sv t"
  using assms
  by (auto simp: caller_def authenticate_def anonymous_user_def adminGroup_def admin_token_def split: option.splits if_splits dest: map_of_SomeD)

definition impersonates :: "url_values \<Rightarrow> bool" where
  "impersonates hs \<longleftrightarrow> list_ex (\<lambda>(k, vs). prefix ''Impersonate-'' k) hs"

lemma writes_are_writes:
  assumes "at_Verb (call_attributes call) \<in> {''get'', ''list'', ''watch''}"
  shows "\<exists>k n. call = ReadKind k n"
  using assms by (cases call) (auto simp: call_attributes_def verb_text_def split: api_verb.splits)

lemma call_group [simp]: "at_Group (call_attributes call) = fst GroupVersion"
  by (simp add: call_attributes_def split: prod.splits)

section \<open>Examples\<close>

text \<open>
  Requests to a server that was started without an accounts file: its generated token is an admin's. The first
  creates an account, the second updates it without a token.
\<close>

definition demo_libs :: "(unit, nat) api_libs" where
  "demo_libs = \<lparr>al_tokens = \<lambda>_. Inr [], al_passwords = \<lambda>_. Inr [], al_accounts = \<lambda>_. Inr [], al_bcrypt = \<lambda>p. Inr (''hash of '' @ p),
     al_client = \<lambda>_. Inr (), al_patch = \<lambda>_ _ _ _ n. (n + 1, None)\<rparr>"

definition demo_site :: "demo_file server \<Rightarrow> (ipt_rule list, demo_file, nat) site" where
  "demo_site sv = \<lparr>si_sys = start_system sv demo_host [] [], si_accounts = ss_UserAccounts (sv_Stores sv), si_discovered = InMemory, si_nodes = 0\<rparr>"

definition demo_http :: "url_values \<Rightarrow> http_request" where
  "demo_http hs = \<lparr>rq_path = ''/apis/'', rq_host = ''pi'', rq_tls = True, rq_remote = ''10.0.0.9'', rq_headers = hs\<rparr>"

definition demo_new_account :: "demo_file server \<Rightarrow> api_request" where
  "demo_new_account sv = \<lparr>ar_http = demo_http [], ar_bearer = Some (sv_AdminToken sv),
     ar_call = CreateAccount demo_env (\<lambda>_. None) (new_resource ''bob'' \<lparr>ua_PasswordString = ''secret'', ua_Password = []\<rparr>)\<rparr>"

definition demo_drain :: "demo_file server \<Rightarrow> api_request" where
  "demo_drain sv = \<lparr>ar_http = demo_http [], ar_bearer = Some (sv_AdminToken sv), ar_call = ShutdownDevice (default_device ''other'')\<rparr>"

definition demo_kubemate :: "demo_file server option" where
  "demo_kubemate = (case NewServer demo_codecs demo_start demo_options empty_dirs of Ret (Inr sv) \<Rightarrow> Some sv | _ \<Rightarrow> None)"

definition demo_served :: "demo_file server \<Rightarrow> (ipt_rule list, demo_file, nat) site option" where
  "demo_served sv = serve_all demo_filter demo_libs demo_codecs sv [demo_new_account sv, demo_drain sv] (demo_site sv)"

definition demo_attack :: http_request where
  "demo_attack = demo_http [(''Impersonate-User'', [''x'']), (''Impersonate-Group'', [adminGroup])]"

lemma demo_requests_run:
  "case demo_kubemate of None \<Rightarrow> False | Some sv \<Rightarrow>
     server_handler (device_name sv) (so_HTTPSPort (sv_Options sv)) demo_attack = ServeAPI \<and>
     (case demo_served sv of None \<Rightarrow> False | Some s \<Rightarrow>
        si_nodes s = 1 \<and> \<not> isl (op_get (fs_ops (sc_accounts demo_codecs) useraccount_rt) (si_accounts s) ''bob'')) \<and>
     (case serve_api demo_filter demo_libs demo_codecs sv (demo_drain sv) (demo_site sv) of None \<Rightarrow> False | Some (s, a) \<Rightarrow> si_nodes s = 1)"
  by code_simp

section \<open>Properties\<close>

text \<open>
  Requests of the API are steps of the running server: whatever requests are served one after the other, the
  stores, processes and controllers go through a run of the server, so that what holds in every state it
  reaches holds after them; and the store of the accounts stays in order.
\<close>

theorem requests_run_server:
  assumes "serve_all filt l c sv reqs s = Some s'" "list_all (\<lambda>r. call_ok (ar_call r)) reqs" "fs_inv (si_accounts s)"
  shows "(sys_step c sv)\<^sup>*\<^sup>* (si_sys s) (si_sys s') \<and> fs_inv (si_accounts s')"
  using assms
proof (induction reqs arbitrary: s)
  case (Cons r reqs)
  then obtain s1 a where s1: "serve_api filt l c sv r s = Some (s1, a)" "serve_all filt l c sv reqs s1 = Some s'"
    by (auto split: option.splits)
  from serve_api_cases [OF s1(1)] Cons.prems(2,3) have "si_sys s1 = si_sys s \<or> sys_step c sv (si_sys s) (si_sys s1)"
    "fs_inv (si_accounts s1)" using api_handle_step api_handle_accounts by (fastforce, fastforce)
  with Cons.IH [OF s1(2)] Cons.prems(2) show ?case by (auto intro: converse_rtranclp_into_rtranclp)
qed simp

text \<open>
  C10. Only admins change the device, unless they need not say who they are: if a request changes anything, or is
  never answered, it came over TLS under the name of the device or from the device itself, and it carried
  the token of an admin or asked for an impersonation. The hypothesis is what the filter for
  impersonation of the generic API server does with a request that asks for none.
\<close>

theorem changes_need_admin:
  assumes "\<And>authz u hs. \<not> impersonates hs \<Longrightarrow> filt authz u hs = Some u"
    and "case serve_api filt l c sv req s of None \<Rightarrow> True | Some (s', _) \<Rightarrow> s' \<noteq> s"
  shows "passes (externalAddr (device_name sv) (so_HTTPSPort (sv_Options sv))) (ar_http req) \<and>
    (impersonates (rq_headers (ar_http req)) \<or> (\<exists>t. ar_bearer req = Some t \<and> admin_token sv t))"
proof -
  have served: "server_handler (device_name sv) (so_HTTPSPort (sv_Options sv)) (ar_http req) = ServeAPI"
    and allowed: "request_allowed filt (caller sv (ar_bearer req)) (rq_headers (ar_http req)) (call_attributes (ar_call req))"
    and changed: "case api_handle l c sv (ar_call req) s of None \<Rightarrow> True | Some (s', _) \<Rightarrow> s' \<noteq> s"
    using assms(2) by (auto simp: serve_api_def split: reply.splits if_splits option.splits)
  have "adminGroup \<in> set (us_Groups (caller sv (ar_bearer req)))" if "\<not> impersonates (rq_headers (ar_http req))"
  proof (rule ccontr)
    assume "adminGroup \<notin> set (us_Groups (caller sv (ar_bearer req)))"
    with device_api_protected [of filt "caller sv (ar_bearer req)" "rq_headers (ar_http req)" "call_attributes (ar_call req)", OF assms(1) [OF that]] allowed
    have "at_Verb (call_attributes (ar_call req)) \<in> {''get'', ''list'', ''watch''}" using call_group by blast
    with writes_are_writes changed show False by fastforce
  qed
  with caller_admin serve_api_served [OF served] show ?thesis by blast
qed

text \<open>
  C11. Anyone can stop the server with one request: a request that reaches the API without a token and asks to
  impersonate an admin, for the update of an account that exists, is never answered, because the
  check of the update calls itself without end.
\<close>

theorem any_caller_stops_server:
  assumes "impersonation_documented filt" "name \<noteq> []"
    and "op_get (fs_ops (sc_accounts c) useraccount_rt) (si_accounts s) n = Inr old" "u old = Inr updated"
    and "server_handler (device_name sv) (so_HTTPSPort (sv_Options sv)) r = ServeAPI"
    and "rq_headers r = [(''Impersonate-User'', [name]), (''Impersonate-Group'', [adminGroup])]"
  shows "serve_api filt l c sv \<lparr>ar_http = r, ar_bearer = None, ar_call = UpdateAccount e n u\<rparr> s = None"
proof -
  obtain v where v: "filt Authorize (caller sv None) (rq_headers r) = Some v" "adminGroup \<in> set (us_Groups v)"
    using assms(1) [unfolded impersonation_documented_def, rule_format, of "rq_headers r" name "[adminGroup]" Authorize "caller sv None"]
      assms(2,6) by (auto simp: Authorize_def impersonate_attributes_def GroupVersion_def)
  then have "request_allowed filt (caller sv None) (rq_headers r) a" for a by (simp add: request_allowed_def Authorize_def)
  moreover have "useraccount_update (fs_ops (sc_accounts c) useraccount_rt) (al_bcrypt l) u e (si_accounts s) n = None"
    using assms(3,4) by (simp add: useraccount_update_def useraccount_validation_diverges)
  ultimately show ?thesis using assms(5) by (simp add: serve_api_def)
qed

lemma demo_kubemate_started:
  "demo_kubemate = Some sv \<Longrightarrow> NewServer demo_codecs demo_start demo_options empty_dirs = Ret (Inr sv)"
  by (auto simp: demo_kubemate_def split: go.splits sum.splits)

lemma demo_site_accounts: "demo_kubemate = Some sv \<Longrightarrow> fs_inv (si_accounts (demo_site sv))"
  using NewServer_sound(1) [OF demo_kubemate_started demo_codecs_faithful empty_dirs_ok]
  by (auto simp: demo_site_def stores_sound_def sound_def)

theorem requests_run_server_witness:
  "case demo_kubemate of
     Some sv \<Rightarrow> (case demo_served sv of
       Some s \<Rightarrow> (sys_step demo_codecs sv)\<^sup>*\<^sup>* (start_system sv demo_host [] []) (si_sys s) \<and> fs_inv (si_accounts s)
     | None \<Rightarrow> False)
   | None \<Rightarrow> False"
proof -
  obtain sv s where d: "demo_kubemate = Some sv" "demo_served sv = Some s"
    using demo_requests_run by (auto split: option.splits)
  have "list_all (\<lambda>r. call_ok (ar_call r)) [demo_new_account sv, demo_drain sv]" by (simp add: demo_new_account_def demo_drain_def)
  from requests_run_server [OF d(2) [unfolded demo_served_def] this demo_site_accounts [OF d(1)]] show ?thesis
    by (simp add: d demo_site_def)
qed

lemma demo_filter_plain: "\<not> impersonates hs \<Longrightarrow> demo_filter authz u hs = Some u"
proof -
  assume "\<not> impersonates hs"
  then have "map_of hs ''Impersonate-User'' = None"
    by (induction hs) (auto simp: impersonates_def)
  then show ?thesis by (simp add: demo_filter_def)
qed

theorem changes_need_admin_witness:
  "case demo_kubemate of
     Some sv \<Rightarrow> impersonates (rq_headers (demo_http [])) \<or> (\<exists>t. ar_bearer (demo_drain sv) = Some t \<and> admin_token sv t)
   | None \<Rightarrow> False"
proof -
  obtain sv where d: "demo_kubemate = Some sv"
      "case serve_api demo_filter demo_libs demo_codecs sv (demo_drain sv) (demo_site sv) of None \<Rightarrow> False | Some (s, a) \<Rightarrow> si_nodes s = 1"
    using demo_requests_run by (auto split: option.splits)
  have "case serve_api demo_filter demo_libs demo_codecs sv (demo_drain sv) (demo_site sv) of None \<Rightarrow> True | Some (s', _) \<Rightarrow> s' \<noteq> demo_site sv"
    using d(2) by (auto simp: demo_site_def split: option.splits)
  from changes_need_admin [where filt = demo_filter, OF demo_filter_plain this] show ?thesis by (simp add: d(1) demo_drain_def)
qed

theorem any_caller_stops_server_witness:
  "case demo_kubemate of
     Some sv \<Rightarrow> (case demo_served sv of
       Some s \<Rightarrow> serve_api demo_filter demo_libs demo_codecs sv
         \<lparr>ar_http = demo_attack, ar_bearer = None, ar_call = UpdateAccount demo_env ''bob'' Inr\<rparr> s = None
     | None \<Rightarrow> False)
   | None \<Rightarrow> False"
proof -
  obtain sv s where d: "demo_kubemate = Some sv" "demo_served sv = Some s"
      "\<not> isl (op_get (fs_ops (sc_accounts demo_codecs) useraccount_rt) (si_accounts s) ''bob'')"
      "server_handler (device_name sv) (so_HTTPSPort (sv_Options sv)) demo_attack = ServeAPI"
    using demo_requests_run by (auto split: option.splits)
  obtain old where old: "op_get (fs_ops (sc_accounts demo_codecs) useraccount_rt) (si_accounts s) ''bob'' = Inr old"
    using d(3) by (cases "op_get (fs_ops (sc_accounts demo_codecs) useraccount_rt) (si_accounts s) ''bob''") auto
  have doc: "impersonation_documented demo_filter"
    by (auto simp: impersonation_documented_def demo_filter_def Let_def list_all_iff)
  have "serve_api demo_filter demo_libs demo_codecs sv
      \<lparr>ar_http = demo_attack, ar_bearer = None, ar_call = UpdateAccount demo_env ''bob'' Inr\<rparr> s = None"
    by (rule any_caller_stops_server [OF doc _ old _ d(4), where name = "''x''" and updated = old])
       (simp_all add: demo_attack_def demo_http_def)
  then show ?thesis by (simp add: d(1,2))
qed

end
