(* ===== verification/Settling.thy ===== *)
theory Settling
  imports System
begin

text \<open>
  The reconciler of the device comes to rest: a reconcile that completes may change the status of the device or
  record the join token of its cluster, and the change wakes it up again; the next one then finds nothing to change.
\<close>

section \<open>What a completed reconcile changes\<close>












section \<open>Two reconciles\<close>








declare conf_path_def [code del]


declare conf_path_def [code]


end
