(* ===== verification/Connect.thy ===== *)
theory Connect
  imports Startup Lifecycle
begin

text \<open>
  The command \<open>connect\<close> (\<open>pkg/cli/cmds/connect.go\<close>): its flags and the configuration they set, the start of the
  server and the two daemons that run side by side. The library that reads the command line and the environment
  is the parameter \<open>given\<close>: the values it has for a flag and its environment variable, if any.
\<close>

section \<open>Configuration\<close>

text \<open>
  \<open>ConnectConfig\<close> embeds the options of the server and has fields of its own that hide three of theirs; the
  file to write on shutdown is a variable beside it.
\<close>

record connect_config =
  cc_options :: server_options
  cc_HTTPAddress :: string
  cc_AdvertiseIfaces :: "string list"
  cc_KubeletArgs :: "string list"
  cc_LogLevel :: string
  cc_shutdownFile :: string

definition Connect :: "go_error + string \<Rightarrow> connect_config" where
  "Connect hostname = \<lparr>cc_options = NewServerOptions hostname, cc_HTTPAddress = [], cc_AdvertiseIfaces = [], cc_KubeletArgs = [],
     cc_LogLevel = [], cc_shutdownFile = []\<rparr>"

datatype flag_target =
    StringTo "string \<Rightarrow> connect_config \<Rightarrow> connect_config"
  | IntTo "int \<Rightarrow> connect_config \<Rightarrow> connect_config"
  | BoolTo "bool \<Rightarrow> connect_config \<Rightarrow> connect_config"
  | SliceTo "string list \<Rightarrow> connect_config \<Rightarrow> connect_config"

definition option_to :: "(server_options \<Rightarrow> server_options) \<Rightarrow> connect_config \<Rightarrow> connect_config" where
  "option_to f c = c\<lparr>cc_options := f (cc_options c)\<rparr>"

text \<open>The flags by name, with the environment variable and what they set.\<close>

definition ConnectFlags :: "(string \<times> string \<times> flag_target) list" where
  "ConnectFlags =
     [(''http-address'', ''KUBEMATE_INSECURE_ADDRESS'', StringTo (\<lambda>v c. c\<lparr>cc_HTTPAddress := v\<rparr>)),
      (''http-port'', ''KUBEMATE_INSECURE_PORT'', IntTo (\<lambda>v. option_to (\<lambda>x. x\<lparr>so_HTTPPort := v\<rparr>))),
      (''https-address'', ''KUBEMATE_SECURE_ADDRESS'', StringTo (\<lambda>v. option_to (\<lambda>x. x\<lparr>so_HTTPSAddress := v\<rparr>))),
      (''https-port'', ''KUBEMATE_SECURE_PORT'', IntTo (\<lambda>v. option_to (\<lambda>x. x\<lparr>so_HTTPSPort := v\<rparr>))),
      (''advertise-iface'', ''KUBEMATE_ADVERTISE_IFACE'', SliceTo (\<lambda>v c. c\<lparr>cc_AdvertiseIfaces := v\<rparr>)),
      (''web-dir'', ''KUBEMATE_WEB_DIR'', StringTo (\<lambda>v. option_to (\<lambda>x. x\<lparr>so_WebDir := v\<rparr>))),
      (''manifest-dir'', ''KUBEMATE_MANIFEST_DIR'', StringTo (\<lambda>v. option_to (\<lambda>x. x\<lparr>so_ManifestDir := v\<rparr>))),
      (''data-dir'', ''KUBEMATE_DATA_DIR'', StringTo (\<lambda>v. option_to (\<lambda>x. x\<lparr>so_DataDir := v\<rparr>))),
      (''kubelet-arg'', ''KUBEMATE_KUBELET_ARG'', SliceTo (\<lambda>v c. c\<lparr>cc_KubeletArgs := v\<rparr>)),
      (''docker'', ''KUBEMATE_DOCKER'', BoolTo (\<lambda>v. option_to (\<lambda>x. x\<lparr>so_Docker := v\<rparr>))),
      (''write-host-resolvconf'', ''KUBEMATE_WRITE_HOST_RESOLVCONF'', BoolTo (\<lambda>v. option_to (\<lambda>x. x\<lparr>so_WriteHostResolvConf := v\<rparr>))),
      (''shutdown-file'', ''KUBEMATE_SHUTDOWN_FILE'', StringTo (\<lambda>v c. c\<lparr>cc_shutdownFile := v\<rparr>)),
      (''log-level'', ''KUBEMATE_LOG_LEVEL'', StringTo (\<lambda>v c. c\<lparr>cc_LogLevel := v\<rparr>))]"

text \<open>A flag that is given: a number and a truth value are read by the library, the last value counts.\<close>

record flag_source =
  fs_given :: "string \<Rightarrow> string \<Rightarrow> string list option"
  fs_int :: "string \<Rightarrow> go_error + int"
  fs_bool :: "string \<Rightarrow> go_error + bool"

definition set_flag :: "flag_source \<Rightarrow> string \<times> string \<times> flag_target \<Rightarrow> connect_config \<Rightarrow> go_error + connect_config" where
  "set_flag src f c =
     (case f of (name, env, target) \<Rightarrow>
        (case fs_given src name env of
           None \<Rightarrow> Inr c
         | Some [] \<Rightarrow> Inr c
         | Some (v # vs) \<Rightarrow>
             (case target of
                StringTo g \<Rightarrow> Inr (g (last (v # vs)) c)
              | IntTo g \<Rightarrow> (case fs_int src (last (v # vs)) of Inl err \<Rightarrow> Inl err | Inr i \<Rightarrow> Inr (g i c))
              | BoolTo g \<Rightarrow> (case fs_bool src (last (v # vs)) of Inl err \<Rightarrow> Inl err | Inr b \<Rightarrow> Inr (g b c))
              | SliceTo g \<Rightarrow> Inr (g (v # vs) c))))"

fun set_flags :: "flag_source \<Rightarrow> (string \<times> string \<times> flag_target) list \<Rightarrow> connect_config \<Rightarrow> go_error + connect_config" where
  "set_flags src [] c = Inr c"
| "set_flags src (f # fs) c = (case set_flag src f c of Inl err \<Rightarrow> Inl err | Inr c' \<Rightarrow> set_flags src fs c')"

section \<open>The run\<close>

definition connect_options :: "connect_config \<Rightarrow> server_options" where
  "connect_options c = (cc_options c)\<lparr>so_AdvertiseIfaces := cc_AdvertiseIfaces c, so_KubeletArgs := cc_KubeletArgs c\<rparr>"

definition http_address :: "connect_config \<Rightarrow> string" where
  "http_address c = cc_HTTPAddress c @ '':'' @ show_int (so_HTTPPort (cc_options c))"

text \<open>\<open>logrus.ParseLevel\<close> is the parameter \<open>parse\<close>: the level it returns and the error, if any.\<close>

definition check_log_level :: "(string \<Rightarrow> string \<times> go_error option) \<Rightarrow> connect_config \<Rightarrow> go_error option" where
  "check_log_level parse c =
     (if cc_LogLevel c \<noteq> [] then
        (case parse (cc_LogLevel c) of
           (lvl, Some _) \<Rightarrow> Some (Errorf (''unsupported --log-level \"'' @ lvl @ ''\" specified''))
         | (_, None) \<Rightarrow> None)
      else None)"

definition connect_start ::
  "'b server_codecs \<Rightarrow> start_env \<Rightarrow> 'b server_dirs \<Rightarrow> (string \<Rightarrow> string \<times> go_error option) \<Rightarrow> connect_config \<Rightarrow> (go_error + 'b server) go" where
  "connect_start c h d parse cfg =
     go_bind (NewServer c h (connect_options cfg) d) (\<lambda>r.
       Ret (err_bind r (\<lambda>sv. err_then (check_log_level parse cfg) (Inr sv))))"

text \<open>
  The daemons: the plain HTTP server, which the cancelled context shuts down, and the API server. \<open>None\<close> of the
  first stands for \<open>http.ErrServerClosed\<close>.
\<close>

definition http_daemon :: "go_error option \<Rightarrow> go_error option" where
  "http_daemon listen = map_option (Wrap ''http server: '') listen"

definition api_daemon :: "go_error option \<Rightarrow> go_error option" where
  "api_daemon res = map_option (Wrap ''api server: '') res"

text \<open>The end of the run: \<open>None\<close> while a daemon runs.\<close>

definition connect_result :: "parallel \<Rightarrow> go_error option option" where
  "connect_result s = par_result s"

section \<open>What the flags do\<close>

lemma flags_distinct: "distinct (map fst ConnectFlags)" "distinct (map (fst \<circ> snd) ConnectFlags)"
  by (simp_all add: ConnectFlags_def)

fun target_keeps :: "(connect_config \<Rightarrow> 'x) \<Rightarrow> flag_target \<Rightarrow> bool" where
  "target_keeps h (StringTo g) = (\<forall>v c. h (g v c) = h c)"
| "target_keeps h (IntTo g) = (\<forall>v c. h (g v c) = h c)"
| "target_keeps h (BoolTo g) = (\<forall>v c. h (g v c) = h c)"
| "target_keeps h (SliceTo g) = (\<forall>v c. h (g v c) = h c)"

lemma set_flag_keeps: "set_flag src (n, e, t) c = Inr c' \<Longrightarrow> target_keeps h t \<Longrightarrow> h c' = h c"
  by (cases t) (auto simp: set_flag_def split: option.splits list.splits sum.splits)

lemma set_flags_keeps:
  "set_flags src fs c = Inr c' \<Longrightarrow> list_all (\<lambda>(n, e, t). target_keeps h t) fs \<Longrightarrow> h c' = h c"
proof (induction fs arbitrary: c)
  case (Cons f fs)
  obtain n e t where f: "f = (n, e, t)" by (cases f)
  from Cons.prems obtain c1 where c1: "set_flag src f c = Inr c1" "set_flags src fs c1 = Inr c'" by (auto split: sum.splits)
  with Cons set_flag_keeps [of src n e t c c1 h] show ?case by (simp add: f)
qed simp

lemma set_flags_append:
  "set_flags src (fs @ gs) c = (case set_flags src fs c of Inl err \<Rightarrow> Inl err | Inr c' \<Rightarrow> set_flags src gs c')"
  by (induction fs arbitrary: c) (auto split: sum.splits)

text \<open>
  No flag sets the name of the device, which is the name of the host, and the default of the server's options
  for the address of the plain HTTP server is never used: the field that hides it is empty by default.
\<close>

lemma not_set_by_flags:
  assumes "set_flags src ConnectFlags (Connect hostname) = Inr c"
  shows "so_DeviceName (connect_options c) = (case hostname of Inl _ \<Rightarrow> [] | Inr n \<Rightarrow> n)"
    "so_HTTPAddress (connect_options c) = ''0.0.0.0''"
  using set_flags_keeps [OF assms, of "\<lambda>c. so_DeviceName (cc_options c)"] set_flags_keeps [OF assms, of "\<lambda>c. so_HTTPAddress (cc_options c)"]
  by (simp_all add: ConnectFlags_def option_to_def connect_options_def Connect_def NewServerOptions_def)

lemma http_address_default: "http_address (Connect hostname) = '':'' @ show_int 80"
  by (simp add: http_address_def Connect_def NewServerOptions_def)

text \<open>A flag that is given sets its field, whatever else is given.\<close>

lemma flag_sets:
  assumes "set_flags src (fs @ (n, e, SliceTo g) # gs) c = Inr c'" "fs_given src n e = Some (v # vs)"
    and "\<And>v c. h (g v c) = v" "list_all (\<lambda>(n, e, t). target_keeps h t) gs"
  shows "h c' = v # vs"
proof -
  obtain c1 where "set_flags src gs (g (v # vs) c1) = Inr c'"
    using assms(1,2) by (auto simp: set_flags_append set_flag_def split: sum.splits)
  from set_flags_keeps [OF this assms(4)] assms(3) show ?thesis by simp
qed

lemma kubelet_args_set:
  assumes "set_flags src ConnectFlags (Connect hostname) = Inr c" "fs_given src ''kubelet-arg'' ''KUBEMATE_KUBELET_ARG'' = Some (v # vs)"
  shows "so_KubeletArgs (connect_options c) = v # vs"
proof -
  have "ConnectFlags = take 8 ConnectFlags @ (''kubelet-arg'', ''KUBEMATE_KUBELET_ARG'', SliceTo (\<lambda>v c. c\<lparr>cc_KubeletArgs := v\<rparr>)) # drop 9 ConnectFlags"
    by (simp add: ConnectFlags_def)
  with assms(1) have "set_flags src (take 8 ConnectFlags @ (''kubelet-arg'', ''KUBEMATE_KUBELET_ARG'', SliceTo (\<lambda>v c. c\<lparr>cc_KubeletArgs := v\<rparr>))
      # drop 9 ConnectFlags) (Connect hostname) = Inr c" by simp
  from flag_sets [OF this assms(2), of cc_KubeletArgs] show ?thesis
    by (simp add: connect_options_def ConnectFlags_def option_to_def)
qed

section \<open>How a run ends\<close>

text \<open>
  A level that is not known ends the start after the server has been put together, with a message that names the
  level the library falls back to instead of the one that was given.
\<close>

lemma unknown_log_level:
  assumes "NewServer c h (connect_options cfg) d = Ret (Inr sv)" "cc_LogLevel cfg \<noteq> []" "parse (cc_LogLevel cfg) = (''panic'', Some err)"
  shows "connect_start c h d parse cfg = Ret (Inl (Errorf ''unsupported --log-level \"panic\" specified''))"
  using assms by (simp add: connect_start_def check_log_level_def err_bind_def err_then_def)

text \<open>The run ends when both daemons have, with the error of the one that ended first, if there is one.\<close>

lemma connect_ends:
  assumes "par_step\<^sup>*\<^sup>* (par_start 2) s"
  shows "connect_result s \<noteq> None \<longleftrightarrow> Running \<notin> set (pa_daemons s)"
    "pa_received s = [http_daemon a, api_daemon b] \<Longrightarrow>
       connect_result s = Some (case a of Some err \<Rightarrow> Some (Wrap ''http server: '' err) | None \<Rightarrow> map_option (Wrap ''api server: '') b)"
proof -
  show "connect_result s \<noteq> None \<longleftrightarrow> Running \<notin> set (pa_daemons s)"
    unfolding connect_result_def by (rule parallelize_waits(1) [OF assms])
  have "length (pa_daemons s) = 2" using par_reachable_inv [OF assms] by (simp add: par_inv_def)
  then show "pa_received s = [http_daemon a, api_daemon b] \<Longrightarrow>
       connect_result s = Some (case a of Some err \<Rightarrow> Some (Wrap ''http server: '' err) | None \<Rightarrow> map_option (Wrap ''api server: '') b)"
    by (cases a; cases b) (simp_all add: connect_result_def par_result_def http_daemon_def api_daemon_def)
qed

end
