(* ===== verification/Spec2Isabelle.thy ===== *)
theory Spec2Isabelle
  imports DeviceReconciler ApiServer Apps Discovery Node Ngrams Lifecycle Views Recovery Refresh Rest Runner ProcessLog NetIfaceReconciler Startup
    Watching SharedObjects Locking Requests Settling Connect
begin

text \<open>
  kubemate: a verification library.

  The program turns a small machine into a Kubernetes device. One process serves an API for devices,
  network interfaces, wifi networks, tokens, passwords and accounts, keeps these resources in stores
  of its own, and runs controllers that make the host follow them: k3s as server or agent, hostapd,
  wpa_supplicant, dhcpcd and dnsmasq as child processes, an ingress controller, apps installed
  through Flux, mDNS discovery, draining and shutting down the node.

  How the parts interact. A request passes the handler chain of \<open>pkg/apiserver\<close> and \<open>pkg/middleware\<close> and
  the authorizer, and reaches a handler of \<open>pkg/rest\<close>, which reads and writes a store of \<open>pkg/storage\<close>.
  A store announces each change at its hub (\<open>pkg/pubsub\<close>); watchers and the controllers receive it.
  The reconcilers of \<open>pkg/reconciler\<close> read the resources and drive the process runners (\<open>pkg/runner\<close>)
  and the wifi component (\<open>pkg/wifi\<close>), whose reports go back into the status of the resources.

  Theories and the code they model (paths under \<open>src/\<close>).

  Vocabulary: Prelude (errors as values, results that may panic, strings, association lists), GoMonad
  (stateful procedures that return, fail or panic, and a small Hoare logic over them), GoUrl (what the
  program uses of Go's \<open>path\<close> and \<open>net/url\<close>), Sha256 (the digest, executable, with HOL words of 32 bits).

  Stores: PubSub (\<open>pkg/pubsub/pubsub.go\<close>) has the hub's subscriptions with their ten-event channels;
  Resource (\<open>pkg/resource/types.go\<close>, \<open>pkg/storage/types.go\<close>) has resources and the storage interface as a
  record of operations with its laws in the locale storage, and reliable storage extending it; Storage
  (\<open>inmemorystore.go\<close>), FileStore (\<open>filestore.go\<close>) and Refresh (\<open>refresh.go\<close>) are its
  implementations, Recovery says what a file store's directory is worth after a restart or a crash.
  Watching says what a client learns that lists and watches a store, SharedObjects models the stores over
  a heap of objects, which callers may write to, and Locking the mutexes of the stores and the threads
  that interleave their operations.
  The locales are interpreted on the in-memory and the file store; the handlers, the link
  synchronisation and the discovery are proved over a locale and interpreted on the store they run on.

  API: DeviceApi (\<open>pkg/apis/devices\<close>) has the kinds, Names (\<open>pkg/utils/names.go\<close>) the object names, Rest
  (\<open>pkg/rest\<close>, \<open>pkg/tokengen\<close>) the handlers, Password (\<open>pkg/passwordgen\<close>) the generator and LetterTable and
  Ngrams the table it is shipped with, Views the device
  table (\<open>device_table.go\<close>) and the log adapter (\<open>pkg/logrusadapter\<close>), ApiServer (\<open>pkg/apiserver\<close>,
  \<open>pkg/middleware\<close>) authentication, authorization, the proxy and the routing of a request, Startup
  (\<open>pkg/apiserver/server.go\<close>) the start of the server with its options, accounts, stores and reconcilers.

  Host: Runner and ProcessLog (\<open>pkg/runner\<close>) have the child processes and their output, ConfFile
  (\<open>pkg/cliutils/conf.go\<close>) the configuration files, WifiScan and Wifi (\<open>pkg/wifi\<close>) the scans, the access
  point and the station, NetIfaces (\<open>pkg/networkifaces\<close>) the links of the host.

  Controllers: NetIfaceReconciler, Dns, DeviceReconciler and Node (\<open>pkg/reconciler/device\<close>,
  \<open>pkg/drain\<close>), Ingress (\<open>pkg/ingress\<close>), Apps and the second half of Discovery (\<open>pkg/reconciler/app\<close>), the
  first half of Discovery (\<open>pkg/discovery\<close>), Lifecycle (\<open>pkg/controller\<close>, the daemons of
  \<open>pkg/cli/cmds\<close>, the manifests) and Connect (the command \<open>connect\<close> with its flags).

  Composition: System puts the stores that Startup opens and the reconcilers of DeviceReconciler and
  NetIfaceReconciler together as one transition system: what a change of a store enqueues, what a
  reconciler is given, and when a request leaves the queue. Settling shows that its reconciles come to
  rest. Requests takes a request of the API through the chain of handlers of ApiServer, the authorizer and
  the handlers of Rest to the stores of that system.

  How state and operations correspond. A struct is a record, its methods are definitions of the same
  name over the record; an operation that can fail returns its error as a value, and one that can
  panic has the panic as a result of its own. What the code asks of its surroundings (the operating
  system, commands, the cluster, clocks, random numbers, codecs) is a parameter, an environment
  record or a list of answers, so that every answer, errors included, is covered. Goroutines and
  controllers that act over time are steps, as functions folded over a sequence of events or as
  inductive relations; properties about them are invariants of every reachable state.

  What the lemmas show, by group.
  The stores keep their invariant under every operation, the file store refines the in-memory store,
  a reopened directory gives the resources back and a crash leaves the old or the new content; an
  update that is refused as stale is on disk all the same. The hub delivers in order to whoever was not
  kicked. Refreshes are rate limited.
  The handlers keep the device and its token, store accounts hashed; the update of an account never
  answers. The authorizer guards the device API but lets anyone impersonate an admin; redirects end.
  The runner has at most one process, starts at least a second apart; output lines are cut and
  translated as the log formats say. At most one wifi mode runs and it is the one asked for; the role
  of the device decides which of k3s, the controllers, dnsmasq and the ingress controller run.
  The ingress router equals a reference defined by the rules alone, the rewriting of a request stays
  under the root where the rewrite target starts with a slash (a relative target can leave it). A drain completes under every schedule in which server, node and restart take their
  turns, and a node is shut down once per boot.
  The running server: in every state it reaches the stores are in order, and when no request for the
  device waits the controllers are those of the stored device, which two completed reconciles achieve;
  without the constant token of the controllers nothing ever runs, and a device that cannot join keeps
  the role it had. Requests of the API are steps of the running server, and only those of admins change
  anything, as far as nobody asks for an impersonation.
  The start of the server answers an error or has everything in place, except that an HTTPS port that is
  not positive makes it panic.
  An app becomes reported as installed only by a check of its Kustomization, while a reconcile that fails
  before the check can leave an older such report in place; discovery leaves exactly the devices that
  answered, generated passwords have the promised form, manifests are copied completely.

  Bounds and fuel. Loops of the code are structural recursions or have a proved measure. The
  generator's loops draw until they succeed, so they run on a given list of draws and are undefined
  when it ends; the property of the generator includes that lists of draws exist on which it ends. The
  retry loop of the controller manager runs over the list of its attempts' results. Names are
  truncated for limits of at least twelve, below which Go's slicing panics; the callers use 63.
  A client is redirected at most three times. Go's integers are integers of HOL where no value of the
  code comes near their width; the digest has words, and the generator's sums of weights are
  also modelled with words of 64 bits, which give the same words for the shipped table.

  Not modelled, and why.
  Generated files: the OpenAPI definitions have no behaviour; a deep copy is one step that copies all
  of an object.
  Wiring: the entry points \<open>main.go\<close> and \<open>cmd/openapigen\<close>, SetupWithManager (but for what it enqueues) and
  AddToScheme, which pass values to libraries; of the generic API server, what it is configured with.
  Dead code: the BIND variant of the DNS server, createLeaseFileIfNotExist, firstCharToUpper.
  Libraries: k3s, controller-runtime, Flux, mDNS, netlink, gorilla/mux, bcrypt and the JSON and YAML
  codecs are parameters. Query strings and percent-encoded paths do not occur in the routing model. The
  composition has the device's own reconcilers; the controllers that run inside k3s' cluster (nodes,
  ingresses, apps, discovery) are modelled each for itself, because the cluster is not part of the program.
  The fake resources of the tests and the web UI, which is another language, are left out.
\<close>

end
